(* ===== verification/Otel_Prelude.thy ===== *)
theory Otel_Prelude
  imports Complex_Main "HOL-Library.Word" "HOL-Library.Multiset" "HOL-Library.AList"
begin

text \<open>
  The prelude of the development: the Go values and library calls the components share.

  \<^item> \<open>error\<close> and \<open>result\<close>: a Go \<open>error\<close> return is a value of a sum type;
  \<^item> Go's 64-bit arithmetic: \<open>i64\<close> wraps an unbounded \<open>int\<close> to a signed 64-bit value,
    \<open>go_div\<close> is the truncating division of the language;
  \<^item> strings: a Go string is a sequence of bytes, here a \<open>char list\<close>; \<open>join\<close> is
    \<open>strings.Join\<close>, \<open>itoa\<close> is \<open>strconv.Itoa\<close> and the verb \<open>%d\<close>, \<open>toLower\<close> is
    \<open>strings.ToLower\<close> on the ASCII letters;
  \<^item> loops over a slice that may leave early and that thread a state;
  \<^item> the collections \<open>go_simps\<close> (what the language's operations compute) and
    \<open>inv_intros\<close> (how the operations of a component keep its invariant).
\<close>

named_theorems go_simps "equations of the Go operations the components share"
named_theorems inv_intros "preservation of the components' invariants"

section \<open>Errors\<close>

type_synonym error = string

type_synonym 'a result = "error + 'a"

section \<open>Integers\<close>

text \<open>A value of type \<open>int64\<close>, two's complement: the language's \<open>+\<close> and \<open>-\<close> wrap.\<close>

definition i64 :: "int \<Rightarrow> int" where
  "i64 x = signed_take_bit 63 x"

definition maxInt64 :: int where
  "maxInt64 = 9223372036854775807"

definition minInt64 :: int where
  "minInt64 = - 9223372036854775808"

definition is_i64 :: "int \<Rightarrow> bool" where
  "is_i64 x \<longleftrightarrow> minInt64 \<le> x \<and> x \<le> maxInt64"

lemma i64_id [simp]: "is_i64 x \<Longrightarrow> i64 x = x"
  by (simp add: i64_def is_i64_def minInt64_def maxInt64_def signed_take_bit_int_eq_self_iff)

lemma is_i64_i64 [simp]: "is_i64 (i64 x)"
  using signed_take_bit_int_greater_eq_minus_exp [of 63 x] signed_take_bit_int_less_exp [of 63 x]
  by (simp add: i64_def is_i64_def minInt64_def maxInt64_def)

text \<open>Integer division of the language truncates towards zero.\<close>

definition go_div :: "int \<Rightarrow> int \<Rightarrow> int" where
  "go_div a b = sgn a * sgn b * (\<bar>a\<bar> div \<bar>b\<bar>)"

lemma go_div_nonneg [go_simps]: "0 \<le> a \<Longrightarrow> 0 < b \<Longrightarrow> go_div a b = a div b"
  by (auto simp: go_div_def sgn_if)

lemma go_div_mono:
  assumes "a \<le> a'" and "0 < b"
  shows "go_div a b \<le> go_div a' b"
proof -
  have neg: "go_div x b = - ((- x) div b)" if "x < 0" for x
    using that \<open>0 < b\<close> by (simp add: go_div_def)
  consider "0 \<le> a" | "a < 0" "0 \<le> a'" | "a' < 0" using \<open>a \<le> a'\<close> by linarith
  then show ?thesis
  proof cases
    case 1
    with assms show ?thesis by (simp add: go_simps zdiv_mono1)
  next
    case 2
    have "0 \<le> (- a) div b" using 2 \<open>0 < b\<close> by (simp add: pos_imp_zdiv_nonneg_iff)
    moreover have "0 \<le> a' div b" using 2 \<open>0 < b\<close> by (simp add: pos_imp_zdiv_nonneg_iff)
    ultimately show ?thesis using 2 \<open>0 < b\<close> by (simp add: neg go_simps)
  next
    case 3
    then have "(- a') div b \<le> (- a) div b" using assms by (simp add: zdiv_mono1)
    then show ?thesis using 3 assms by (simp add: neg)
  qed
qed

section \<open>Strings\<close>

fun join :: "string \<Rightarrow> string list \<Rightarrow> string" where
  "join sep [] = []"
| "join sep [x] = x"
| "join sep (x # y # xs) = x @ sep @ join sep (y # xs)"

definition digit :: "nat \<Rightarrow> char" where
  "digit n = char_of (48 + n)"

fun show_nat :: "nat \<Rightarrow> string" where
  "show_nat n = (if n < 10 then [digit n] else show_nat (n div 10) @ [digit (n mod 10)])"

declare show_nat.simps [simp del]

text \<open>The decimal digits of a number are digits, and give the number back.\<close>

lemma show_nat_range: "c \<in> set (show_nat n) \<Longrightarrow> 48 \<le> (of_char c :: nat) \<and> (of_char c :: nat) \<le> 57"
proof (induction n rule: show_nat.induct)
  case (1 n)
  have "48 \<le> (of_char (digit (n mod 10)) :: nat) \<and> (of_char (digit (n mod 10)) :: nat) \<le> 57"
    by (simp add: digit_def)
  then show ?case using 1 by (cases "n < 10") (auto simp: show_nat.simps [of n])
qed

lemma show_nat_value: "foldl (\<lambda>a c. 10 * a + (of_char c - 48)) 0 (show_nat n) = n"
proof (induction n rule: show_nat.induct)
  case (1 n)
  then show ?case by (subst show_nat.simps) (auto simp: digit_def)
qed

lemma show_nat_inject: "show_nat m = show_nat n \<longleftrightarrow> m = n"
  by (metis show_nat_value)

lemma show_nat_nonempty: "show_nat n \<noteq> []"
  by (subst show_nat.simps) simp

definition itoa :: "int \<Rightarrow> string" where
  "itoa i = (if i < 0 then ''-'' @ show_nat (nat (- i)) else show_nat (nat i))"

lemma split_at_separator:
  "x \<notin> set as \<Longrightarrow> x \<notin> set cs \<Longrightarrow> as @ x # bs = cs @ x # ds \<longleftrightarrow> as = cs \<and> bs = ds"
  by (auto simp: append_eq_Cons_conv append_eq_append_conv2 Cons_eq_append_conv)

lemma show_nat_colon: "CHR '':'' \<notin> set (show_nat n)"
  using show_nat_range [of "CHR '':''" n] by auto

lemma itoa_colon: "CHR '':'' \<notin> set (itoa i)"
  by (simp add: itoa_def show_nat_colon)

lemma itoa_inject: "itoa i = itoa j \<longleftrightarrow> i = j"
proof -
  have "show_nat n \<noteq> CHR ''-'' # cs" for n cs
    using show_nat_range [of "CHR ''-''" n] by (cases "show_nat n") auto
  then show ?thesis by (auto simp: itoa_def show_nat_inject dest: sym)
qed

definition lower_char :: "char \<Rightarrow> char" where
  "lower_char c = (let n = of_char c :: nat in if 65 \<le> n \<and> n \<le> 90 then char_of (n + 32) else c)"

definition toLower :: "string \<Rightarrow> string" where
  "toLower s = map lower_char s"

section \<open>Maps as association lists\<close>

lemma set_map_fst_update: "set (map fst (AList.update k v xs)) = insert k (set (map fst xs))"
  by (induction xs) auto

lemma map_of_Some_fst: "k \<in> set (map fst xs) \<longleftrightarrow> (\<exists>v. map_of xs k = Some v)"
  by (metis map_of_eq_None_iff option.exhaust option.distinct(1) set_map)

section \<open>Loops over a slice\<close>

text \<open>
  \<open>for _, x := range xs { if body(x) { return true } }; return false\<close>, where the body may
  change the variables \<open>s\<close> it closes over.
\<close>

fun loop_any :: "('s \<Rightarrow> 'a \<Rightarrow> bool \<times> 's) \<Rightarrow> 's \<Rightarrow> 'a list \<Rightarrow> bool \<times> 's" where
  "loop_any body s [] = (False, s)"
| "loop_any body s (x # xs) =
     (case body s x of (b, s') \<Rightarrow> if b then (True, s') else loop_any body s' xs)"

text \<open>
  A loop whose body answers \<open>P x\<close> as long as the variables satisfy \<open>I\<close>, and keeps \<open>I\<close>,
  answers whether some element satisfies \<open>P\<close>.
\<close>

lemma loop_any_inv:
  assumes "\<And>s x. x \<in> set xs \<Longrightarrow> I s \<Longrightarrow> fst (body s x) = P x \<and> I (snd (body s x))"
    and "I s"
  shows "fst (loop_any body s xs) = (\<exists>x \<in> set xs. P x) \<and> I (snd (loop_any body s xs))"
  using assms
proof (induction xs arbitrary: s)
  case Nil
  then show ?case by simp
next
  case (Cons x xs)
  obtain b s' where b: "body s x = (b, s')" by (cases "body s x")
  have bs: "b = P x" "I s'" using Cons.prems(1) [of x s] Cons.prems(2) b by auto
  have "fst (loop_any body s' xs) = (\<exists>x \<in> set xs. P x) \<and> I (snd (loop_any body s' xs))"
    using Cons.prems(1) bs(2) by (intro Cons.IH) auto
  with b bs show ?case by auto
qed

lemma loop_any_stateless [go_simps]:
  "loop_any (\<lambda>s x. (P x, s)) s xs = (\<exists>x \<in> set xs. P x, s)"
  by (induction xs) auto

text \<open>Nested loops that leave early are one loop over the concatenation.\<close>

lemma loop_any_concat:
  "loop_any (\<lambda>s xs. loop_any f s xs) s xss = loop_any f s (concat xss)"
proof (induction xss arbitrary: s)
  case (Cons xs xss)
  have app: "loop_any f s (xs @ ys) =
      (case loop_any f s xs of (b, s') \<Rightarrow> if b then (True, s') else loop_any f s' ys)" for s ys
    by (induction xs arbitrary: s) (auto split: prod.splits)
  show ?case by (cases "loop_any f s xs") (simp add: Cons.IH app)
qed simp

end
