(* ===== verification/Go_Float.thy ===== *)
theory Go_Float
  imports Otel_Prelude "HOL-Library.Log_Nat"
begin

text \<open>
  The floating-point operations the components use, and that they are monotone: division of
  \<open>float64\<close> values, multiplication of \<open>big.Float\<close> values and \<open>(*big.Float).Uint64\<close>.
\<close>

section \<open>Values and operations\<close>

text \<open>
  \<open>float64\<close> and \<open>big.Float\<close>: a finite value is a rational number; an operation computes the
  exact result and rounds it to the precision of the type, to nearest, ties to even. The
  precision is 53 bits for \<open>float64\<close>; \<open>new(big.Float).SetInt\<close> gives the boundary a precision
  of 64 bits, which \<open>Mul\<close> keeps. Infinities, NaN and subnormal numbers are left out.
\<close>

definition round_even :: "rat \<Rightarrow> int" where
  "round_even x =
     (let f = \<lfloor>x\<rfloor>; r = x - of_int f
      in if r < 1 / 2 \<or> (r = 1 / 2 \<and> even f) then f else f + 1)"

definition binade :: "rat \<Rightarrow> int" where
  "binade x =
     (let (a, b) = quotient_of x; e = int (floorlog 2 (nat a)) - int (floorlog 2 (nat b))
      in if 2 powi e \<le> x then e else e - 1)"

definition round_prec :: "nat \<Rightarrow> rat \<Rightarrow> rat" where
  "round_prec p x =
     (if x = 0 then 0
      else let u = 2 powi (binade \<bar>x\<bar> - int p + 1)
           in sgn x * of_int (round_even (\<bar>x\<bar> / u)) * u)"

definition float_div :: "rat \<Rightarrow> rat \<Rightarrow> rat" where
  "float_div a b = round_prec 53 (a / b)"

definition maxUint64 :: nat where
  "maxUint64 = 18446744073709551615"

text \<open>\<open>(*big.Float).Uint64\<close>: truncated towards zero, clamped to the range of \<open>uint64\<close>.\<close>

definition bigfloat_uint64 :: "rat \<Rightarrow> 64 word" where
  "bigfloat_uint64 x =
     (if x \<le> 0 then 0 else word_of_nat (min maxUint64 (nat \<lfloor>x\<rfloor>)))"

section \<open>Rounding\<close>

lemma powi2_pos [simp]: "0 < (2::rat) powi e"
  by (simp add: power_int_def)

lemma powi2_div: "(2::rat) powi a / 2 powi b = 2 powi (a - b)"
  by (simp add: power_int_diff)

lemma powi2_pred: "0 < m \<Longrightarrow> (2::rat) powi (int m - 1) = 2 ^ (m - 1)"
  by (metis One_nat_def Suc_leI of_nat_1 of_nat_diff power_int_of_nat)

lemma powi2_int_bounds:
  assumes "2 ^ (m - 1) \<le> nat a" "nat a < 2 ^ m" "0 < a" "0 < m"
  shows "(2::rat) powi (int m - 1) \<le> of_int a" and "of_int a < (2::rat) powi (int m)"
proof -
  have "(2::int) ^ (m - 1) \<le> a" "a < 2 ^ m" using assms by (simp_all add: le_nat_iff nat_less_iff)
  then have "of_int (2 ^ (m - 1)) \<le> (of_int a :: rat)" "(of_int a :: rat) < of_int (2 ^ m)"
    by (simp_all only: of_int_le_iff of_int_less_iff)
  then show "(2::rat) powi (int m - 1) \<le> of_int a" and "of_int a < (2::rat) powi (int m)"
    using \<open>0 < m\<close> by (simp_all add: powi2_pred)
qed

lemma binade_bounds:
  assumes "0 < x"
  shows "2 powi (binade x) \<le> x" and "x < 2 powi (binade x + 1)"
proof -
  obtain a b where q: "quotient_of x = (a, b)" by (cases "quotient_of x")
  then have x: "x = of_int a / of_int b" and b: "0 < b"
    by (auto simp: quotient_of_div quotient_of_denom_pos)
  with assms have a: "0 < a" by (simp add: zero_less_divide_iff)
  define m n where "m = floorlog 2 (nat a)" and "n = floorlog 2 (nat b)"
  have am: "2 ^ (m - 1) \<le> nat a" "nat a < 2 ^ m" and bn: "2 ^ (n - 1) \<le> nat b" "nat b < 2 ^ n"
    using floorlog_bounds [of "nat a" 2] floorlog_bounds [of "nat b" 2] a b
    by (auto simp: m_def n_def)
  have mn: "0 < m" "0 < n" using am bn a b by (cases m; cases n; simp)+
  let ?p = "\<lambda>e. (2::rat) powi e"
  have A: "?p (int m - 1) \<le> of_int a" "of_int a < ?p (int m)"
    using powi2_int_bounds [OF am a mn(1)] .
  have B: "?p (int n - 1) \<le> of_int b" "of_int b < ?p (int n)"
    using powi2_int_bounds [OF bn b mn(2)] .
  define e where "e = int m - int n"
  have up: "x < ?p (e + 1)"
  proof -
    have "x < ?p (int m) / of_int b" using A b by (simp add: x divide_strict_right_mono)
    also have "\<dots> \<le> ?p (int m) / ?p (int n - 1)" using B b by (intro divide_left_mono) auto
    also have "\<dots> = ?p (e + 1)" unfolding powi2_div by (simp add: e_def algebra_simps)
    finally show ?thesis .
  qed
  have lo: "?p (e - 1) \<le> x"
  proof -
    have "?p (e - 1) = ?p (int m - 1) / ?p (int n)"
      unfolding powi2_div by (simp add: e_def algebra_simps)
    also have "\<dots> \<le> ?p (int m - 1) / of_int b" using B b by (intro divide_left_mono) auto
    also have "\<dots> \<le> x" using A b by (simp add: x divide_right_mono)
    finally show ?thesis .
  qed
  have bin: "binade x = (if ?p e \<le> x then e else e - 1)"
    by (simp add: binade_def q e_def m_def n_def)
  show "?p (binade x) \<le> x" and "x < ?p (binade x + 1)"
    using up lo by (auto simp: bin)
qed

lemma powi2_less_iff [simp]: "(2::rat) powi a < 2 powi b \<longleftrightarrow> a < b"
  by (metis less_imp_le linorder_not_less one_less_numeral_iff power_int_increasing power_int_strict_increasing semiring_norm(76) one_le_numeral)

lemma powi2_le_iff [simp]: "(2::rat) powi a \<le> 2 powi b \<longleftrightarrow> a \<le> b"
  by (metis linorder_not_less powi2_less_iff)

lemma binade_mono:
  assumes "0 < x" and "x \<le> y"
  shows "binade x \<le> binade y"
proof -
  have "(2::rat) powi (binade x) < 2 powi (binade y + 1)"
    using binade_bounds(1) [of x] binade_bounds(2) [of y] assms by linarith
  then show ?thesis by simp
qed

lemma round_even_of_int [simp]: "round_even (of_int k) = k"
  by (simp add: round_even_def)

lemma round_even_bounds: "\<lfloor>x\<rfloor> \<le> round_even x" "round_even x \<le> \<lfloor>x\<rfloor> + 1"
  by (auto simp: round_even_def Let_def)

lemma round_even_mono:
  assumes "x \<le> y"
  shows "round_even x \<le> round_even y"
proof (cases "\<lfloor>x\<rfloor> = \<lfloor>y\<rfloor>")
  case True
  with assms show ?thesis by (auto simp: round_even_def Let_def)
next
  case False
  with assms have "\<lfloor>x\<rfloor> + 1 \<le> \<lfloor>y\<rfloor>" using floor_mono [OF assms] by linarith
  then show ?thesis using round_even_bounds [of x] round_even_bounds [of y] by linarith
qed

lemma round_prec_pos:
  assumes "0 < x"
  shows "round_prec p x = of_int (round_even (x / 2 powi (binade x - int p + 1))) * 2 powi (binade x - int p + 1)"
  using assms by (simp add: round_prec_def Let_def)

lemma round_prec_binade:
  assumes "0 < x" and "0 < p"
  shows "2 powi (binade x) \<le> round_prec p x" and "round_prec p x \<le> 2 powi (binade x + 1)"
proof -
  define u where "u = (2::rat) powi (binade x - int p + 1)"
  have u: "0 < u" by (simp add: u_def)
  have lo: "2 powi (binade x) = of_int (2 ^ (p - 1)) * u" and hi: "2 powi (binade x + 1) = of_int (2 ^ p) * u"
    unfolding u_def of_int_power of_int_numeral powi2_pred [OF \<open>0 < p\<close>, symmetric]
      power_int_of_nat [symmetric] power_int_add [OF disjI1, OF zero_neq_numeral [symmetric], symmetric]
    using \<open>0 < p\<close> by (simp_all add: of_nat_diff)
  have "of_int (2 ^ (p - 1)) * u \<le> x" "x \<le> of_int (2 ^ p) * u"
    using binade_bounds [OF \<open>0 < x\<close>] lo hi by linarith+
  then have "of_int (2 ^ (p - 1)) \<le> x / u" "x / u \<le> of_int (2 ^ p)"
    using u by (simp_all add: pos_le_divide_eq pos_divide_le_eq)
  then have "2 ^ (p - 1) \<le> round_even (x / u)" "round_even (x / u) \<le> 2 ^ p"
    using round_even_mono round_even_of_int by metis+
  then show "2 powi (binade x) \<le> round_prec p x" and "round_prec p x \<le> 2 powi (binade x + 1)"
    using u by (simp_all only: round_prec_pos [OF \<open>0 < x\<close>] u_def [symmetric] lo hi
        mult_le_cancel_right_pos of_int_le_iff)
qed

lemma round_prec_mono:
  assumes "0 \<le> x" and "x \<le> y" and "0 < p"
  shows "round_prec p x \<le> round_prec p y"
proof -
  consider "y = 0" "x = 0" | "x = 0" "0 < y" | "0 < x" "binade x = binade y" | "0 < x" "binade x < binade y"
    using assms binade_mono [of x y] by fastforce
  then show ?thesis
  proof cases
    case 1
    then show ?thesis by simp
  next
    case 2
    then have "0 \<le> round_prec p y"
      using round_prec_binade(1) [of y p] \<open>0 < p\<close> powi2_pos [of "binade y"] by linarith
    then show ?thesis using 2 by (simp add: round_prec_def)
  next
    case 3
    then show ?thesis using assms
      by (simp add: round_prec_pos round_even_mono divide_right_mono mult_right_mono)
  next
    case 4
    then have "round_prec p x \<le> 2 powi (binade x + 1)" using \<open>0 < p\<close> by (intro round_prec_binade)
    also have "\<dots> \<le> 2 powi (binade y)" using 4 by simp
    also have "\<dots> \<le> round_prec p y" using 4 assms by (intro round_prec_binade) auto
    finally show ?thesis .
  qed
qed

text \<open>An integer that fits into the precision is not rounded.\<close>

lemma round_prec_exact:
  assumes "0 < k" and "k < 2 ^ p"
  shows "round_prec p (of_int k) = of_int k"
proof -
  let ?x = "of_int k :: rat"
  have x: "0 < ?x" using assms by simp
  have "(2::rat) powi binade ?x \<le> ?x" using binade_bounds(1) [OF x] .
  also have "?x < of_int (2 ^ p)" using assms(2) by (simp only: of_int_less_iff)
  also have "of_int (2 ^ p) = (2::rat) powi int p" by simp
  finally have "binade ?x < int p" by (simp only: powi2_less_iff)
  then obtain j where j: "int p - 1 - binade ?x = int j" using zero_le_imp_eq_int by force
  define u where "u = (2::rat) powi (binade ?x - int p + 1)"
  have u: "u = 1 / 2 ^ j"
  proof -
    have "binade ?x - int p + 1 = - int j" using j by simp
    then show ?thesis by (simp add: u_def power_int_minus divide_inverse)
  qed
  have "?x / u = of_int (k * 2 ^ j)" by (simp add: u)
  then have "round_even (?x / u) = k * 2 ^ j" by (metis round_even_of_int)
  then show ?thesis by (simp add: round_prec_pos [OF x] u_def [symmetric]) (simp add: u)
qed

lemma bigfloat_uint64_mono:
  assumes "x \<le> y"
  shows "bigfloat_uint64 x \<le> bigfloat_uint64 y"
proof -
  have "unat (word_of_nat (min maxUint64 k) :: 64 word) = min maxUint64 k" for k
    by (simp add: unat_of_nat maxUint64_def min_def)
  moreover have "min maxUint64 (nat \<lfloor>x\<rfloor>) \<le> min maxUint64 (nat \<lfloor>y\<rfloor>)"
    using assms by (intro min.mono nat_mono floor_mono) auto
  ultimately show ?thesis using assms by (auto simp: bigfloat_uint64_def word_le_nat_alt)
qed

lemma float_div_mono:
  assumes "0 \<le> a" and "a \<le> b" and "0 < c"
  shows "0 \<le> float_div a c" and "float_div a c \<le> float_div b c"
proof -
  have le: "0 \<le> a / c" "a / c \<le> b / c" using assms by (simp_all add: divide_right_mono)
  show "float_div a c \<le> float_div b c" unfolding float_div_def using le by (intro round_prec_mono) auto
  have "round_prec 53 0 \<le> round_prec 53 (a / c)" using le by (intro round_prec_mono) auto
  then show "0 \<le> float_div a c" by (simp add: float_div_def round_prec_def)
qed

end
