(* ===== verification/Sampling.thy ===== *)
theory Sampling
  imports Go_Float
begin

unbundle bit_operations_syntax

text \<open>
  The sampling policies of the tail sampler
  (\<open>processor/o11ytailsampler/internal/sampling\<close>): the decisions, the data of a trace, the
  iteration helpers of \<open>util.go\<close>, the policy evaluators and \<open>Evaluate\<close> itself.

  A \<open>PolicyEvaluator\<close> is an interface in the code; here it is a datatype with one constructor
  per implementing struct, and \<open>Evaluate\<close> is the dispatch. Evaluators with mutable fields (the
  LRU cache of the regex filter, the counters of the rate limiters) are returned updated. The
  evaluator of a policy group (\<open>evaluator.go\<close>) implements the same interface, so it is a
  constructor of the same type; its properties are in the theory of the evaluator.

  Code that is not part of the repository is a parameter, the fields of \<open>lib\<close>: the value
  accessors of pdata, regular expression matching, the LRU cache of groupcache and the
  \<open>tracestate\<close> parser. Wall-clock time is an argument.
\<close>

section \<open>Traces\<close>

text \<open>A \<open>pcommon.TraceID\<close> is an array of 16 bytes; timestamps are \<open>uint64\<close> nanoseconds.\<close>

type_synonym TraceID = "8 word list"

type_synonym Timestamp = "64 word"

datatype StatusCode = StatusCodeUnset | StatusCodeOk | StatusCodeError

record 'v Span =
  spanTraceID :: TraceID
  spanAttributes :: "(string \<times> 'v) list"
  StartTimestamp :: Timestamp
  EndTimestamp :: Timestamp
  StatusOf :: StatusCode
  TraceStateRaw :: string

record 'v ResourceSpans =
  ResourceAttributes :: "(string \<times> 'v) list"
  ScopeSpans :: "'v Span list list"

type_synonym 'v Traces = "'v ResourceSpans list"

datatype Decision =
    Unspecified | Pending | Sampled | NotSampled | Dropped | Error
  | InvertSampled | InvertNotSampled | NoResult

record 'v TraceData =
  Decisions :: "Decision list"
  ArrivalTime :: int
  DecisionTime :: int
  SpanCount :: int
  ReceivedBatches :: "'v Traces"
  FinalDecision :: Decision

text \<open>All spans of a batch, in the order the helpers visit them.\<close>

definition all_spans :: "'v Traces \<Rightarrow> 'v Span list" where
  "all_spans td = concat (map (\<lambda>rs. concat (ScopeSpans rs)) td)"

text \<open>The operations that come from outside the repository.\<close>

record ('v, 'c) lib =
  StrOf :: "'v \<Rightarrow> string"
  IntOf :: "'v \<Rightarrow> int"
  MatchString :: "string \<Rightarrow> string \<Rightarrow> bool"
  lruNew :: "int \<Rightarrow> 'c"
  lruGet :: "'c \<Rightarrow> string \<Rightarrow> bool option \<times> 'c"
  lruAdd :: "'c \<Rightarrow> string \<Rightarrow> bool \<Rightarrow> 'c"
  traceStateGet :: "string \<Rightarrow> string \<Rightarrow> string option"

section \<open>Iterating over a trace (util.go)\<close>

definition hasInstrumentationLibrarySpanWithCondition ::
    "('s \<Rightarrow> 'v Span \<Rightarrow> bool \<times> 's) \<Rightarrow> 's \<Rightarrow> 'v Span list list \<Rightarrow> bool \<times> 's" where
  "hasInstrumentationLibrarySpanWithCondition check s ilss =
     loop_any (\<lambda>s ils. loop_any check s ils) s ilss"

definition invertHasInstrumentationLibrarySpanWithCondition ::
    "('s \<Rightarrow> 'v Span \<Rightarrow> bool \<times> 's) \<Rightarrow> 's \<Rightarrow> 'v Span list list \<Rightarrow> bool \<times> 's" where
  "invertHasInstrumentationLibrarySpanWithCondition check s ilss =
     (case loop_any (\<lambda>s ils. loop_any (\<lambda>s span. case check s span of (b, s') \<Rightarrow> (\<not> b, s')) s ils) s ilss
      of (found, s') \<Rightarrow> (\<not> found, s'))"

definition hasSpanWithCondition ::
    "('s \<Rightarrow> 'v Span \<Rightarrow> bool \<times> 's) \<Rightarrow> 's \<Rightarrow> 'v Traces \<Rightarrow> Decision \<times> 's" where
  "hasSpanWithCondition shouldSample s td =
     (case loop_any (\<lambda>s rs. hasInstrumentationLibrarySpanWithCondition shouldSample s (ScopeSpans rs)) s td
      of (found, s') \<Rightarrow> (if found then Sampled else NotSampled, s'))"

definition hasResourceOrSpanWithCondition ::
    "('s \<Rightarrow> (string \<times> 'v) list \<Rightarrow> bool \<times> 's) \<Rightarrow> ('s \<Rightarrow> 'v Span \<Rightarrow> bool \<times> 's) \<Rightarrow> 's \<Rightarrow> 'v Traces
      \<Rightarrow> Decision \<times> 's" where
  "hasResourceOrSpanWithCondition shouldSampleResource shouldSampleSpan s td =
     (case loop_any
        (\<lambda>s rs. case shouldSampleResource s (ResourceAttributes rs) of
            (True, s1) \<Rightarrow> (True, s1)
          | (False, s1) \<Rightarrow> hasInstrumentationLibrarySpanWithCondition shouldSampleSpan s1 (ScopeSpans rs)) s td
      of (found, s') \<Rightarrow> (if found then Sampled else NotSampled, s'))"

definition invertHasResourceOrSpanWithCondition ::
    "('s \<Rightarrow> (string \<times> 'v) list \<Rightarrow> bool \<times> 's) \<Rightarrow> ('s \<Rightarrow> 'v Span \<Rightarrow> bool \<times> 's) \<Rightarrow> 's \<Rightarrow> 'v Traces
      \<Rightarrow> Decision \<times> 's" where
  "invertHasResourceOrSpanWithCondition shouldSampleResource shouldSampleSpan s td =
     (case loop_any
        (\<lambda>s rs. case shouldSampleResource s (ResourceAttributes rs) of
            (False, s1) \<Rightarrow> (True, s1)
          | (True, s1) \<Rightarrow>
              (case invertHasInstrumentationLibrarySpanWithCondition shouldSampleSpan s1 (ScopeSpans rs) of
                 (ok, s2) \<Rightarrow> (\<not> ok, s2))) s td
      of (found, s') \<Rightarrow> (if found then InvertNotSampled else InvertSampled, s'))"

section \<open>Evaluators\<close>

text \<open>
  The matcher closure of a string filter: the keys of the exact value map, or the compiled
  expressions with the cache of their answers.
\<close>

datatype 'c StringMatcher = ExactMatcher "string list" | RegexMatcher 'c "string list"

text \<open>\<open>subpolicy\<close> of \<open>composite.go\<close>, over the type of the evaluators.\<close>

datatype 'e subpolicy = Subpolicy (evaluator: 'e) (allocatedSPS: int) (sampledSPS: int)

datatype 'c PolicyEvaluator =
    alwaysSample
  | neverSample
  | numericAttributeFilter string int int
  | stringAttributeFilter string "'c StringMatcher" bool
  | probabilisticSampler "64 word" string
  | latency int
  | rateLimiting int int int
  | spanCount int
  | statusCodeFilter "StatusCode list"
  | traceStateFilter string "string list"
  | And "'c PolicyEvaluator list"
  | Composite "'c PolicyEvaluator subpolicy list" int int
  | defaultEvaluator string "'c PolicyEvaluator" string string
      "'c PolicyEvaluator list" "'c PolicyEvaluator list"

subsection \<open>String filter (string\_tag\_filter.go)\<close>

definition defaultCacheSize :: int where
  "defaultCacheSize = 128"

definition NewStringAttributeFilter ::
    "('v, 'c) lib \<Rightarrow> string \<Rightarrow> string list \<Rightarrow> bool \<Rightarrow> int \<Rightarrow> bool \<Rightarrow> 'c PolicyEvaluator" where
  "NewStringAttributeFilter L key values regexMatchEnabled evictSize invertMatch =
     (if regexMatchEnabled
      then stringAttributeFilter key
             (RegexMatcher (lruNew L (if evictSize \<le> 0 then defaultCacheSize else evictSize)) values)
             invertMatch
      else stringAttributeFilter key (ExactMatcher (filter (\<lambda>v. v \<noteq> []) values)) invertMatch)"

fun matcher :: "('v, 'c) lib \<Rightarrow> 'c StringMatcher \<Rightarrow> string \<Rightarrow> bool \<times> 'c StringMatcher" where
  "matcher L (ExactMatcher valuesMap) toMatch = (toMatch \<in> set valuesMap, ExactMatcher valuesMap)"
| "matcher L (RegexMatcher matchedAttrs filterList) toMatch =
     (case lruGet L matchedAttrs toMatch of
        (Some v, c) \<Rightarrow> (v, RegexMatcher c filterList)
      | (None, c) \<Rightarrow>
          (if \<exists>r \<in> set filterList. MatchString L r toMatch
           then (True, RegexMatcher (lruAdd L c toMatch True) filterList)
           else (False, RegexMatcher (lruAdd L c toMatch False) filterList)))"

definition attr_matches ::
    "('v, 'c) lib \<Rightarrow> string \<Rightarrow> bool \<Rightarrow> 'c StringMatcher \<Rightarrow> (string \<times> 'v) list \<Rightarrow> bool \<times> 'c StringMatcher" where
  "attr_matches L key skipEmpty m attrs =
     (case map_of attrs key of
        None \<Rightarrow> (False, m)
      | Some v \<Rightarrow> (if skipEmpty \<and> StrOf L v = [] then (False, m) else matcher L m (StrOf L v)))"

definition stringFilter_Evaluate ::
    "('v, 'c) lib \<Rightarrow> string \<Rightarrow> 'c StringMatcher \<Rightarrow> bool \<Rightarrow> 'v TraceData \<Rightarrow> Decision \<times> 'c StringMatcher" where
  "stringFilter_Evaluate L key m invertMatch trace =
     (if invertMatch
      then invertHasResourceOrSpanWithCondition
             (\<lambda>m attrs. case attr_matches L key False m attrs of (b, m') \<Rightarrow> (\<not> b, m'))
             (\<lambda>m span. case attr_matches L key True m (spanAttributes span) of (b, m') \<Rightarrow> (\<not> b, m'))
             m (ReceivedBatches trace)
      else hasResourceOrSpanWithCondition
             (\<lambda>m attrs. attr_matches L key False m attrs)
             (\<lambda>m span. attr_matches L key True m (spanAttributes span))
             m (ReceivedBatches trace))"

subsection \<open>Numeric filter, status code, trace state, latency\<close>

definition numericFilter_Evaluate :: "('v, 'c) lib \<Rightarrow> string \<Rightarrow> int \<Rightarrow> int \<Rightarrow> 'v TraceData \<Rightarrow> Decision" where
  "numericFilter_Evaluate L key minValue maxValue trace =
     fst (hasSpanWithCondition
       (\<lambda>s span. (case map_of (spanAttributes span) key of
            Some v \<Rightarrow> minValue \<le> IntOf L v \<and> IntOf L v \<le> maxValue
          | None \<Rightarrow> False, s)) () (ReceivedBatches trace))"

fun parseStatusCodes :: "string list \<Rightarrow> StatusCode list result" where
  "parseStatusCodes [] = Inr []"
| "parseStatusCodes (x # xs) =
     (let code = (if x = ''OK'' then Some StatusCodeOk
                  else if x = ''ERROR'' then Some StatusCodeError
                  else if x = ''UNSET'' then Some StatusCodeUnset else None)
      in case code of
           None \<Rightarrow> Inl (''unknown status code '' @ x)
         | Some c \<Rightarrow> (case parseStatusCodes xs of Inl e \<Rightarrow> Inl e | Inr cs \<Rightarrow> Inr (c # cs)))"

definition NewStatusCodeFilter :: "string list \<Rightarrow> 'c PolicyEvaluator result" where
  "NewStatusCodeFilter statusCodeString =
     (if statusCodeString = [] then Inl ''expected at least one status code to filter on''
      else case parseStatusCodes statusCodeString of
             Inl e \<Rightarrow> Inl e | Inr cs \<Rightarrow> Inr (statusCodeFilter cs))"

definition statusCode_Evaluate :: "StatusCode list \<Rightarrow> 'v TraceData \<Rightarrow> Decision" where
  "statusCode_Evaluate statusCodes trace =
     fst (hasSpanWithCondition (\<lambda>s span. (\<exists>c \<in> set statusCodes. StatusOf span = c, s)) ()
            (ReceivedBatches trace))"

definition NewTraceStateFilter :: "string \<Rightarrow> string list \<Rightarrow> 'c PolicyEvaluator" where
  "NewTraceStateFilter key values =
     traceStateFilter key (filter (\<lambda>v. v \<noteq> [] \<and> length key + length v < 256) values)"

definition traceState_Evaluate :: "('v, 'c) lib \<Rightarrow> string \<Rightarrow> string list \<Rightarrow> 'v TraceData \<Rightarrow> Decision" where
  "traceState_Evaluate L key valuesMap trace =
     fst (hasSpanWithCondition
       (\<lambda>s span. (case traceStateGet L (TraceStateRaw span) key of
            None \<Rightarrow> False
          | Some v \<Rightarrow> v \<in> set valuesMap, s)) () (ReceivedBatches trace))"

text \<open>
  \<open>maxTime.AsTime().Sub(minTime.AsTime())\<close>: a timestamp becomes an \<open>int64\<close> number of
  nanoseconds, and \<open>Sub\<close> saturates at the bounds of \<open>int64\<close>.
\<close>

definition time_sub :: "Timestamp \<Rightarrow> Timestamp \<Rightarrow> int" where
  "time_sub a b = max minInt64 (min maxInt64 (sint a - sint b))"

definition latency_check :: "int \<Rightarrow> Timestamp \<times> Timestamp \<Rightarrow> 'v Span \<Rightarrow> bool \<times> Timestamp \<times> Timestamp" where
  "latency_check thresholdMs st sp =
     (case st of (minTime, maxTime) \<Rightarrow>
        let minTime' = (if minTime = 0 \<or> StartTimestamp sp < minTime then StartTimestamp sp else minTime);
            maxTime' = (if maxTime = 0 \<or> EndTimestamp sp > maxTime then EndTimestamp sp else maxTime)
        in (thresholdMs \<le> go_div (time_sub maxTime' minTime') 1000000, minTime', maxTime'))"

definition latency_Evaluate :: "int \<Rightarrow> 'v TraceData \<Rightarrow> Decision" where
  "latency_Evaluate thresholdMs trace =
     fst (hasSpanWithCondition (latency_check thresholdMs) (0, 0) (ReceivedBatches trace))"

subsection \<open>Probabilistic sampler (probabilistic.go)\<close>

text \<open>FNV-1a, 64 bits, as in \<open>hash/fnv\<close>.\<close>

definition fnv64a :: "8 word list \<Rightarrow> 64 word" where
  "fnv64a bs = fold (\<lambda>b h. (h XOR ucast b) * 1099511628211) bs 14695981039346656037"

definition hashTraceID :: "string \<Rightarrow> TraceID \<Rightarrow> 64 word" where
  "hashTraceID salt b = fnv64a (map of_char salt @ b)"

definition probabilistic_Evaluate :: "64 word \<Rightarrow> string \<Rightarrow> TraceID \<Rightarrow> Decision" where
  "probabilistic_Evaluate threshold hashSalt traceID =
     (if hashTraceID hashSalt traceID \<le> threshold then Sampled else NotSampled)"

definition calculateThreshold :: "rat \<Rightarrow> 64 word" where
  "calculateThreshold ratio = bigfloat_uint64 (round_prec 64 (of_nat maxUint64 * ratio))"

definition defaultHashSalt :: string where
  "defaultHashSalt = ''default-hash-seed''"

definition NewProbabilisticSampler :: "string \<Rightarrow> rat \<Rightarrow> 'c PolicyEvaluator" where
  "NewProbabilisticSampler hashSalt samplingPercentage =
     probabilisticSampler (calculateThreshold (float_div samplingPercentage 100))
       (if hashSalt = [] then defaultHashSalt else hashSalt)"

subsection \<open>Rate limits and combinations\<close>

text \<open>\<open>rateLimiting.Evaluate\<close>: the decision and the new values of the two counters.\<close>

definition rateLimiting_Evaluate :: "int \<Rightarrow> int \<Rightarrow> int \<Rightarrow> int \<Rightarrow> 'v TraceData \<Rightarrow> Decision \<times> int \<times> int" where
  "rateLimiting_Evaluate currSecond currentSecond spansInCurrentSecond spansPerSecond trace =
     (let spans = (if currentSecond \<noteq> currSecond then 0 else spansInCurrentSecond);
          spansInSecondIfSampled = i64 (spans + SpanCount trace)
      in if spansInSecondIfSampled < spansPerSecond
         then (Sampled, currSecond, spansInSecondIfSampled)
         else (NotSampled, currSecond, spans))"

definition spanCount_Evaluate :: "int \<Rightarrow> 'v TraceData \<Rightarrow> Decision" where
  "spanCount_Evaluate minSpans trace = (if minSpans \<le> SpanCount trace then Sampled else NotSampled)"

definition reset_sampledSPS :: "'e subpolicy \<Rightarrow> 'e subpolicy" where
  "reset_sampledSPS sub = Subpolicy (evaluator sub) (allocatedSPS sub) 0"

definition NewComposite :: "int \<Rightarrow> ('c PolicyEvaluator \<times> int) list \<Rightarrow> 'c PolicyEvaluator" where
  "NewComposite maxTotalSpansPerSecond subPolicyParams =
     Composite (map (\<lambda>(e, m). Subpolicy e m 0) subPolicyParams) maxTotalSpansPerSecond 0"

definition NewRateLimiting :: "int \<Rightarrow> 'c PolicyEvaluator" where
  "NewRateLimiting spansPerSecond = rateLimiting 0 0 spansPerSecond"

section \<open>Evaluate\<close>

text \<open>
  The four loops over other evaluators, each over the call \<open>ev\<close> of the element's \<open>Evaluate\<close>:
  those of \<open>and.go\<close> and \<open>composite.go\<close>, and the two of \<open>defaultEvaluator.Evaluate\<close>. Each
  returns the elements as the calls leave them. \<open>filters_loop\<close> answers \<open>Inl\<close> for an early
  return, \<open>Inr filterMatched\<close> at the end of the loop; \<open>subs_loop\<close> answers the first useful
  decision.
\<close>

type_synonym 'e evaluation = "(Decision \<times> error option) \<times> 'e"

fun and_loop :: "('e \<Rightarrow> 'e evaluation) \<Rightarrow> 'e list \<Rightarrow> 'e list evaluation" where
  "and_loop ev [] = ((Sampled, None), [])"
| "and_loop ev (sub # subs) =
     (case ev sub of
        ((decision, err), sub') \<Rightarrow>
          (if err \<noteq> None then ((Unspecified, err), sub' # subs)
           else if decision = NotSampled \<or> decision = InvertNotSampled
           then ((NotSampled, None), sub' # subs)
           else (case and_loop ev subs of (r, subs') \<Rightarrow> (r, sub' # subs'))))"

fun composite_loop ::
    "('e \<Rightarrow> 'e evaluation) \<Rightarrow> int \<Rightarrow> int \<Rightarrow> 'e subpolicy list \<Rightarrow> 'e subpolicy list evaluation" where
  "composite_loop ev spans maxTotalSPS [] = ((NotSampled, None), [])"
| "composite_loop ev spans maxTotalSPS (sub # subs) =
     (case ev (evaluator sub) of
        ((decision, err), e') \<Rightarrow>
          (if err \<noteq> None
           then ((Unspecified, err), Subpolicy e' (allocatedSPS sub) (sampledSPS sub) # subs)
           else if decision = Sampled \<or> decision = InvertSampled
           then (let spansInSecondIfSampled = i64 (sampledSPS sub + spans)
                 in if spansInSecondIfSampled \<le> allocatedSPS sub \<and> spansInSecondIfSampled \<le> maxTotalSPS
                    then ((Sampled, None), Subpolicy e' (allocatedSPS sub) spansInSecondIfSampled # subs)
                    else ((NotSampled, None), Subpolicy e' (allocatedSPS sub) (sampledSPS sub) # subs))
           else (case composite_loop ev spans maxTotalSPS subs of
                   (r, subs') \<Rightarrow> (r, Subpolicy e' (allocatedSPS sub) (sampledSPS sub) # subs'))))"

fun filters_loop ::
    "('e \<Rightarrow> 'e evaluation) \<Rightarrow> string \<Rightarrow> bool \<Rightarrow> 'e list \<Rightarrow> (Decision + bool) \<times> 'e list" where
  "filters_loop ev filterOperator filterMatched [] = (Inr filterMatched, [])"
| "filters_loop ev filterOperator filterMatched (fe # fs) =
     (case ev fe of
        ((filterResult, err), fe') \<Rightarrow>
          (if err \<noteq> None then (Inl Error, fe' # fs)
           else if filterResult = NotSampled \<and> toLower filterOperator = ''and''
           then (Inl NoResult, fe' # fs)
           else (case filters_loop ev filterOperator (filterMatched \<or> filterResult = Sampled) fs of
                   (r, fs') \<Rightarrow> (r, fe' # fs'))))"

fun subs_loop :: "('e \<Rightarrow> 'e evaluation) \<Rightarrow> 'e list \<Rightarrow> Decision option \<times> 'e list" where
  "subs_loop ev [] = (None, [])"
| "subs_loop ev (sp # sps) =
     (case ev sp of
        ((decision, err), sp') \<Rightarrow>
          (if err \<noteq> None \<or> decision = NoResult
           then (case subs_loop ev sps of (r, sps') \<Rightarrow> (r, sp' # sps'))
           else (Some decision, sp' # sps)))"

text \<open>Each loop calls \<open>ev\<close> on elements of its list only.\<close>

lemma and_loop_cong [fundef_cong]:
  "xs = ys \<Longrightarrow> (\<And>e. e \<in> set ys \<Longrightarrow> f e = g e) \<Longrightarrow> and_loop f xs = and_loop g ys"
  by (induction ys arbitrary: xs) (auto split: prod.splits)

lemma composite_loop_cong [fundef_cong]:
  "xs = ys \<Longrightarrow> n = n' \<Longrightarrow> m = m' \<Longrightarrow> (\<And>s. s \<in> set ys \<Longrightarrow> f (evaluator s) = g (evaluator s))
    \<Longrightarrow> composite_loop f n m xs = composite_loop g n' m' ys"
  by (induction ys arbitrary: xs) (auto split: prod.splits)

lemma filters_loop_cong [fundef_cong]:
  "xs = ys \<Longrightarrow> op = op' \<Longrightarrow> b = b' \<Longrightarrow> (\<And>e. e \<in> set ys \<Longrightarrow> f e = g e)
    \<Longrightarrow> filters_loop f op b xs = filters_loop g op' b' ys"
  by (induction ys arbitrary: xs b b') (auto split: prod.splits)

lemma subs_loop_cong [fundef_cong]:
  "xs = ys \<Longrightarrow> (\<And>e. e \<in> set ys \<Longrightarrow> f e = g e) \<Longrightarrow> subs_loop f xs = subs_loop g ys"
  by (induction ys arbitrary: xs) (auto split: prod.splits)

lemma evaluator_reset [simp]: "evaluator (reset_sampledSPS sub) = evaluator sub"
  by (simp add: reset_sampledSPS_def)

lemma size_evaluator_sub [termination_simp]:
  assumes "sub \<in> set subs"
  shows "size (evaluator sub) < Suc (size_list (size_subpolicy size) subs)"
proof -
  have "size (evaluator sub) \<le> size_subpolicy size sub" by (cases sub) simp
  also have "\<dots> \<le> size_list (size_subpolicy size) subs"
    using assms by (rule size_list_estimation') simp
  finally show ?thesis by simp
qed

text \<open>
  \<open>Evaluate L now id trace e\<close> is the method call \<open>e.Evaluate(id, trace)\<close> at Unix second
  \<open>now\<close>: the decision, the error, and the evaluator with its fields as the call leaves them.
\<close>

fun Evaluate ::
    "('v, 'c) lib \<Rightarrow> int \<Rightarrow> TraceID \<Rightarrow> 'v TraceData \<Rightarrow> 'c PolicyEvaluator \<Rightarrow> 'c PolicyEvaluator evaluation" where
  "Evaluate L now tid trace alwaysSample = ((Sampled, None), alwaysSample)"
| "Evaluate L now tid trace neverSample = ((NotSampled, None), neverSample)"
| "Evaluate L now tid trace (numericAttributeFilter key lo hi) =
     ((numericFilter_Evaluate L key lo hi trace, None), numericAttributeFilter key lo hi)"
| "Evaluate L now tid trace (stringAttributeFilter key m invertMatch) =
     (case stringFilter_Evaluate L key m invertMatch trace of
        (d, m') \<Rightarrow> ((d, None), stringAttributeFilter key m' invertMatch))"
| "Evaluate L now tid trace (probabilisticSampler threshold salt) =
     ((probabilistic_Evaluate threshold salt tid, None), probabilisticSampler threshold salt)"
| "Evaluate L now tid trace (latency thresholdMs) =
     ((latency_Evaluate thresholdMs trace, None), latency thresholdMs)"
| "Evaluate L now tid trace (rateLimiting currentSecond spans perSecond) =
     (case rateLimiting_Evaluate now currentSecond spans perSecond trace of
        (d, currentSecond', spans') \<Rightarrow> ((d, None), rateLimiting currentSecond' spans' perSecond))"
| "Evaluate L now tid trace (spanCount minSpans) =
     ((spanCount_Evaluate minSpans trace, None), spanCount minSpans)"
| "Evaluate L now tid trace (statusCodeFilter codes) =
     ((statusCode_Evaluate codes trace, None), statusCodeFilter codes)"
| "Evaluate L now tid trace (traceStateFilter key values) =
     ((traceState_Evaluate L key values trace, None), traceStateFilter key values)"
| "Evaluate L now tid trace (And subpolicies) =
     (case and_loop (\<lambda>e. Evaluate L now tid trace e) subpolicies of (r, subs') \<Rightarrow> (r, And subs'))"
| "Evaluate L now tid trace (Composite subpolicies maxTotalSPS currentSecond) =
     (case composite_loop (\<lambda>e. Evaluate L now tid trace e) (SpanCount trace) maxTotalSPS
             (map (\<lambda>sub. if currentSecond \<noteq> now then reset_sampledSPS sub else sub) subpolicies) of
        (r, subs') \<Rightarrow> (r, Composite subs' maxTotalSPS now))"
| "Evaluate L now tid trace (defaultEvaluator name sampler method filterOperator filters subEvaluators) =
     (case filters_loop (\<lambda>e. Evaluate L now tid trace e) filterOperator False filters of
        (Inl d, fs) \<Rightarrow> ((d, None), defaultEvaluator name sampler method filterOperator fs subEvaluators)
      | (Inr filterMatched, fs) \<Rightarrow>
          (if filterMatched
           then (case subs_loop (\<lambda>e. Evaluate L now tid trace e) subEvaluators of
                   (Some d, es) \<Rightarrow> ((d, None), defaultEvaluator name sampler method filterOperator fs es)
                 | (None, es) \<Rightarrow>
                     (case Evaluate L now tid trace sampler of
                        (r, sampler') \<Rightarrow> (r, defaultEvaluator name sampler' method filterOperator fs es)))
           else ((NoResult, None), defaultEvaluator name sampler method filterOperator fs subEvaluators)))"

section \<open>The iteration helpers\<close>

lemma hasInstrumentationLibrarySpanWithCondition_inv:
  assumes "\<And>s x. x \<in> set (concat ilss) \<Longrightarrow> I s \<Longrightarrow> fst (check s x) = P x \<and> I (snd (check s x))" and "I s"
  shows "fst (hasInstrumentationLibrarySpanWithCondition check s ilss) = (\<exists>x \<in> set (concat ilss). P x)
    \<and> I (snd (hasInstrumentationLibrarySpanWithCondition check s ilss))"
proof -
  have "fst (loop_any check s ils) = (\<exists>x \<in> set ils. P x) \<and> I (snd (loop_any check s ils))"
    if "ils \<in> set ilss" "I s" for s ils
    using assms(1) that by (intro loop_any_inv) auto
  then show ?thesis
    using loop_any_inv [of ilss I "\<lambda>s ils. loop_any check s ils" "\<lambda>ils. \<exists>x \<in> set ils. P x"] \<open>I s\<close>
    by (simp add: hasInstrumentationLibrarySpanWithCondition_def)
qed

lemma invertHasInstrumentationLibrarySpanWithCondition_eq:
  "invertHasInstrumentationLibrarySpanWithCondition check s ilss =
     (case hasInstrumentationLibrarySpanWithCondition (\<lambda>s x. case check s x of (b, s') \<Rightarrow> (\<not> b, s')) s ilss of
        (found, s') \<Rightarrow> (\<not> found, s'))"
  by (simp add: invertHasInstrumentationLibrarySpanWithCondition_def
      hasInstrumentationLibrarySpanWithCondition_def)

lemma hasSpanWithCondition_inv:
  assumes "\<And>s x. x \<in> set (all_spans td) \<Longrightarrow> I s \<Longrightarrow> fst (check s x) = P x \<and> I (snd (check s x))" and "I s"
  shows "fst (hasSpanWithCondition check s td) = (if \<exists>x \<in> set (all_spans td). P x then Sampled else NotSampled)
    \<and> I (snd (hasSpanWithCondition check s td))"
proof -
  let ?has = "\<lambda>s rs. hasInstrumentationLibrarySpanWithCondition check s (ScopeSpans rs)"
  have "fst (?has s rs) = (\<exists>x \<in> set (concat (ScopeSpans rs)). P x) \<and> I (snd (?has s rs))"
    if "rs \<in> set td" "I s" for s rs
    using assms(1) that by (intro hasInstrumentationLibrarySpanWithCondition_inv) (auto simp: all_spans_def)
  from loop_any_inv [of td I ?has "\<lambda>rs. \<exists>x \<in> set (concat (ScopeSpans rs)). P x", OF this \<open>I s\<close>]
  show ?thesis by (auto simp: hasSpanWithCondition_def all_spans_def split: prod.splits)
qed

lemma hasSpanWithCondition_stateless [go_simps]:
  "fst (hasSpanWithCondition (\<lambda>s x. (P x, ())) () td) =
     (if \<exists>x \<in> set (all_spans td). P x then Sampled else NotSampled)"
  using hasSpanWithCondition_inv [of td "\<lambda>_. True" "\<lambda>s x. (P x, ())" P "()"] by simp

text \<open>
  With checks that answer \<open>R\<close> on resources and \<open>P\<close> on spans while \<open>I\<close> holds, the two
  resource helpers look for a resource or a span with the property.
\<close>

definition trace_has :: "((string \<times> 'v) list \<Rightarrow> bool) \<Rightarrow> ('v Span \<Rightarrow> bool) \<Rightarrow> 'v Traces \<Rightarrow> bool" where
  "trace_has R P td \<longleftrightarrow>
     (\<exists>rs \<in> set td. R (ResourceAttributes rs) \<or> (\<exists>x \<in> set (concat (ScopeSpans rs)). P x))"

lemma hasResourceOrSpanWithCondition_inv:
  assumes R: "\<And>s r. I s \<Longrightarrow> fst (rcheck s r) = R r \<and> I (snd (rcheck s r))"
    and P: "\<And>s x. I s \<Longrightarrow> fst (check s x) = P x \<and> I (snd (check s x))" and "I s"
  shows "fst (hasResourceOrSpanWithCondition rcheck check s td) = (if trace_has R P td then Sampled else NotSampled)
    \<and> I (snd (hasResourceOrSpanWithCondition rcheck check s td))"
proof -
  let ?body = "\<lambda>s rs. case rcheck s (ResourceAttributes rs) of (True, s1) \<Rightarrow> (True, s1)
     | (False, s1) \<Rightarrow> hasInstrumentationLibrarySpanWithCondition check s1 (ScopeSpans rs)"
  have "fst (?body s rs) = (R (ResourceAttributes rs) \<or> (\<exists>x \<in> set (concat (ScopeSpans rs)). P x))
      \<and> I (snd (?body s rs))" if "I s" for s rs
    using R [OF that, of "ResourceAttributes rs"]
      hasInstrumentationLibrarySpanWithCondition_inv [of "ScopeSpans rs" I check P
        "snd (rcheck s (ResourceAttributes rs))"] P
    by (cases "rcheck s (ResourceAttributes rs)") (auto split: bool.splits)
  from loop_any_inv [of td I ?body, OF this \<open>I s\<close>]
  show ?thesis by (auto simp: hasResourceOrSpanWithCondition_def trace_has_def split: prod.splits)
qed

lemma invertHasResourceOrSpanWithCondition_inv:
  assumes R: "\<And>s r. I s \<Longrightarrow> fst (rcheck s r) = (\<not> R r) \<and> I (snd (rcheck s r))"
    and P: "\<And>s x. I s \<Longrightarrow> fst (check s x) = (\<not> P x) \<and> I (snd (check s x))" and "I s"
  shows "fst (invertHasResourceOrSpanWithCondition rcheck check s td) =
      (if trace_has R P td then InvertNotSampled else InvertSampled)
    \<and> I (snd (invertHasResourceOrSpanWithCondition rcheck check s td))"
proof -
  let ?inv = "invertHasInstrumentationLibrarySpanWithCondition check"
  let ?body = "\<lambda>s rs. case rcheck s (ResourceAttributes rs) of (False, s1) \<Rightarrow> (True, s1)
     | (True, s1) \<Rightarrow> (case ?inv s1 (ScopeSpans rs) of (ok, s2) \<Rightarrow> (\<not> ok, s2))"
  let ?neg = "\<lambda>s x. case check s x of (b, s') \<Rightarrow> (\<not> b, s')"
  have neg: "fst (?neg s x) = P x \<and> I (snd (?neg s x))" if "I s" for s x
    using P [OF that, of x] by (auto split: prod.splits)
  have "fst (?body s rs) = (R (ResourceAttributes rs) \<or> (\<exists>x \<in> set (concat (ScopeSpans rs)). P x))
      \<and> I (snd (?body s rs))" if "I s" for s rs
    using R [OF that, of "ResourceAttributes rs"]
      hasInstrumentationLibrarySpanWithCondition_inv [of "ScopeSpans rs" I ?neg P
        "snd (rcheck s (ResourceAttributes rs))"] neg
    by (cases "rcheck s (ResourceAttributes rs)")
      (auto simp: invertHasInstrumentationLibrarySpanWithCondition_eq split: bool.splits prod.splits)
  from loop_any_inv [of td I ?body, OF this \<open>I s\<close>]
  show ?thesis by (auto simp: invertHasResourceOrSpanWithCondition_def trace_has_def split: prod.splits)
qed

section \<open>The string filter and its cache\<close>

text \<open>
  What the code relies on of the LRU cache: \<open>Get\<close> answers only what an earlier \<open>Add\<close> of the
  same key stored, and a new cache is empty. Entries may be evicted at any time.
\<close>

definition lru_laws :: "('v, 'c) lib \<Rightarrow> bool" where
  "lru_laws L \<longleftrightarrow>
     (\<forall>n k. fst (lruGet L (lruNew L n) k) = None) \<and>
     (\<forall>c k k' b. fst (lruGet L (snd (lruGet L c k)) k') = Some b \<longrightarrow> fst (lruGet L c k') = Some b) \<and>
     (\<forall>c k v k' b. fst (lruGet L (lruAdd L c k v) k') = Some b \<longrightarrow>
        k' = k \<and> b = v \<or> fst (lruGet L c k') = Some b)"

fun plain_match :: "('v, 'c) lib \<Rightarrow> 'c StringMatcher \<Rightarrow> string \<Rightarrow> bool" where
  "plain_match L (ExactMatcher values) s = (s \<in> set values)"
| "plain_match L (RegexMatcher c exprs) s = (\<exists>r \<in> set exprs. MatchString L r s)"

fun cache_ok :: "('v, 'c) lib \<Rightarrow> 'c StringMatcher \<Rightarrow> bool" where
  "cache_ok L (ExactMatcher values) = True"
| "cache_ok L (RegexMatcher c exprs) =
     (\<forall>k b. fst (lruGet L c k) = Some b \<longrightarrow> b = (\<exists>r \<in> set exprs. MatchString L r k))"

lemma matcher_plain:
  assumes "lru_laws L" and "cache_ok L m"
  shows "fst (matcher L m s) = plain_match L m s" and "cache_ok L (snd (matcher L m s))"
    and "plain_match L (snd (matcher L m s)) = plain_match L m"
proof -
  have get: "fst (lruGet L (snd (lruGet L c k)) k') = Some b \<Longrightarrow> fst (lruGet L c k') = Some b"
    and add: "fst (lruGet L (lruAdd L c k v) k') = Some b \<Longrightarrow> k' = k \<and> b = v \<or> fst (lruGet L c k') = Some b"
    for c k k' b v using assms(1) unfolding lru_laws_def by blast+
  show "fst (matcher L m s) = plain_match L m s"
  proof (cases m)
    case (RegexMatcher c exprs)
    obtain v c' where g: "lruGet L c s = (v, c')" by (cases "lruGet L c s")
    then have "v = Some b \<Longrightarrow> b = (\<exists>r \<in> set exprs. MatchString L r s)" for b
      using RegexMatcher assms(2) by simp
    then show ?thesis using RegexMatcher g by (cases v) simp_all
  qed simp
  show "cache_ok L (snd (matcher L m s))"
  proof (cases m)
    case (RegexMatcher c exprs)
    show ?thesis
    proof (cases "lruGet L c s")
      case (Pair v c')
      let ?hit = "\<lambda>k. \<exists>r \<in> set exprs. MatchString L r k"
      have "fst (lruGet L c' k') = Some b \<Longrightarrow> fst (lruGet L c k') = Some b" for k' b
        using get [of c s k' b] Pair by simp
      then have c': "\<forall>k b. fst (lruGet L c' k) = Some b \<longrightarrow> b = ?hit k"
        using RegexMatcher assms(2) by simp
      then have "\<forall>k b. fst (lruGet L (lruAdd L c' s (?hit s)) k) = Some b \<longrightarrow> b = ?hit k"
      proof (intro allI impI)
        fix k b assume "fst (lruGet L (lruAdd L c' s (?hit s)) k) = Some b"
        from add [OF this] c' show "b = ?hit k" by auto
      qed
      with c' show ?thesis using RegexMatcher Pair by (cases v; cases "?hit s") simp_all
    qed
  qed simp
  show "plain_match L (snd (matcher L m s)) = plain_match L m"
    by (cases m) (auto simp: fun_eq_iff split: prod.splits option.splits)
qed


lemma attr_matches_plain:
  assumes "lru_laws L" and "cache_ok L m \<and> plain_match L m = f"
  shows "fst (attr_matches L key skip m attrs) =
      (case map_of attrs key of None \<Rightarrow> False | Some v \<Rightarrow> \<not> (skip \<and> StrOf L v = []) \<and> f (StrOf L v))"
    and "cache_ok L (snd (attr_matches L key skip m attrs))
      \<and> plain_match L (snd (attr_matches L key skip m attrs)) = f"
  using assms matcher_plain [of L m] by (auto simp: attr_matches_def split: option.splits)

text \<open>
  The specification of the filter, with no cache: some resource carries the attribute with a
  value that matches, or some span does with a value that is not empty.
\<close>

definition attr_hit :: "('v, 'c) lib \<Rightarrow> string \<Rightarrow> (string \<Rightarrow> bool) \<Rightarrow> bool \<Rightarrow> (string \<times> 'v) list \<Rightarrow> bool" where
  "attr_hit L key f skip attrs =
     (case map_of attrs key of None \<Rightarrow> False | Some v \<Rightarrow> \<not> (skip \<and> StrOf L v = []) \<and> f (StrOf L v))"

definition string_hit :: "('v, 'c) lib \<Rightarrow> string \<Rightarrow> (string \<Rightarrow> bool) \<Rightarrow> 'v TraceData \<Rightarrow> bool" where
  "string_hit L key f trace =
     trace_has (attr_hit L key f False) (\<lambda>x. attr_hit L key f True (spanAttributes x)) (ReceivedBatches trace)"

definition string_decision :: "bool \<Rightarrow> bool \<Rightarrow> Decision" where
  "string_decision hit invertMatch =
     (if invertMatch then (if hit then InvertNotSampled else InvertSampled)
      else (if hit then Sampled else NotSampled))"

lemma stringFilter_Evaluate_plain:
  assumes "lru_laws L" and "cache_ok L m"
  shows "fst (stringFilter_Evaluate L key m invertMatch trace) =
      string_decision (string_hit L key (plain_match L m) trace) invertMatch"
    and "cache_ok L (snd (stringFilter_Evaluate L key m invertMatch trace))
      \<and> plain_match L (snd (stringFilter_Evaluate L key m invertMatch trace)) = plain_match L m"
proof -
  let ?I = "\<lambda>m'. cache_ok L m' \<and> plain_match L m' = plain_match L m"
  note am = attr_matches_plain [OF assms(1), folded attr_hit_def]
  have I: "?I m" using assms(2) by simp
  note pos = hasResourceOrSpanWithCondition_inv
    [of ?I "attr_matches L key False" "attr_hit L key (plain_match L m) False"
      "\<lambda>m x. attr_matches L key True m (spanAttributes x)"
      "\<lambda>x. attr_hit L key (plain_match L m) True (spanAttributes x)" m "ReceivedBatches trace"]
  let ?neg = "\<lambda>r. case r of (b, m') \<Rightarrow> (\<not> b, m')"
  note inverted = invertHasResourceOrSpanWithCondition_inv
    [of ?I "\<lambda>m r. ?neg (attr_matches L key False m r)" "attr_hit L key (plain_match L m) False"
      "\<lambda>m x. ?neg (attr_matches L key True m (spanAttributes x))"
      "\<lambda>x. attr_hit L key (plain_match L m) True (spanAttributes x)" m "ReceivedBatches trace"]
  have neg: "fst (?neg (attr_matches L key b m' r)) = (\<not> attr_hit L key (plain_match L m) b r)
      \<and> ?I (snd (?neg (attr_matches L key b m' r)))" if "?I m'" for b m' r
    using am [OF that, of key b r] by (auto split: prod.splits)
  have both: "fst (stringFilter_Evaluate L key m invertMatch trace) =
      string_decision (string_hit L key (plain_match L m) trace) invertMatch
      \<and> ?I (snd (stringFilter_Evaluate L key m invertMatch trace))"
  proof (cases invertMatch)
    case True
    with inverted [OF neg neg I] show ?thesis
      by (simp add: stringFilter_Evaluate_def string_hit_def string_decision_def)
  next
    case False
    with pos [OF conjI conjI I, OF am am] show ?thesis
      by (simp add: stringFilter_Evaluate_def string_hit_def string_decision_def)
  qed
  show "fst (stringFilter_Evaluate L key m invertMatch trace) =
      string_decision (string_hit L key (plain_match L m) trace) invertMatch"
    and "cache_ok L (snd (stringFilter_Evaluate L key m invertMatch trace))
      \<and> plain_match L (snd (stringFilter_Evaluate L key m invertMatch trace)) = plain_match L m"
    using both by blast+
qed

text \<open>A sequence of calls of \<open>Evaluate\<close> on the same evaluator, at given times.\<close>

fun Evaluate_seq ::
    "('v, 'c) lib \<Rightarrow> (int \<times> TraceID \<times> 'v TraceData) list \<Rightarrow> 'c PolicyEvaluator
      \<Rightarrow> Decision list \<times> 'c PolicyEvaluator" where
  "Evaluate_seq L [] e = ([], e)"
| "Evaluate_seq L ((now, tid, trace) # calls) e =
     (case Evaluate L now tid trace e of
        ((d, _), e') \<Rightarrow> (case Evaluate_seq L calls e' of (ds, e'') \<Rightarrow> (d # ds, e'')))"

lemma Evaluate_seq_string:
  assumes "lru_laws L"
  shows "cache_ok L m \<Longrightarrow>
    fst (Evaluate_seq L calls (stringAttributeFilter key m invertMatch)) =
      map (\<lambda>(now, tid, trace).
        string_decision (string_hit L key (plain_match L m) trace) invertMatch) calls"
proof (induction calls arbitrary: m)
  case Nil
  then show ?case by simp
next
  case (Cons call calls)
  obtain now tid trace where call: "call = (now, tid, trace)" by (cases call)
  obtain d m' where step: "stringFilter_Evaluate L key m invertMatch trace = (d, m')"
    by (cases "stringFilter_Evaluate L key m invertMatch trace")
  have m': "cache_ok L m'" "plain_match L m' = plain_match L m" and d: "d =
      string_decision (string_hit L key (plain_match L m) trace) invertMatch"
    using stringFilter_Evaluate_plain [OF assms Cons.prems, of key invertMatch trace] step by auto
  from Cons.IH [OF m'(1)] m'(2) d show ?case
    by (cases "Evaluate_seq L calls (stringAttributeFilter key m' invertMatch)") (simp add: call step)
qed

lemma NewStringAttributeFilter_matcher:
  assumes "lru_laws L"
  obtains m where "NewStringAttributeFilter L key values regex evictSize invertMatch = stringAttributeFilter key m invertMatch"
    and "cache_ok L m"
    and "plain_match L m = (\<lambda>s. if regex then \<exists>r \<in> set values. MatchString L r s else s \<noteq> [] \<and> s \<in> set values)"
proof (cases regex)
  case True
  have "fst (lruGet L (lruNew L n) k) = None" for n k using assms by (simp add: lru_laws_def)
  then show ?thesis using True
    by (intro that [OF NewStringAttributeFilter_def [THEN trans]]) (auto simp: fun_eq_iff)
next
  case False
  then show ?thesis
    by (intro that [OF NewStringAttributeFilter_def [THEN trans]]) (auto simp: fun_eq_iff)
qed

lemma hasSpanWithCondition_flat:
  "hasSpanWithCondition check s td =
     (case loop_any check s (all_spans td) of (found, s') \<Rightarrow> (if found then Sampled else NotSampled, s'))"
proof -
  have "loop_any (\<lambda>s rs. loop_any check s (concat (ScopeSpans rs))) s td = loop_any check s (all_spans td)"
  proof -
    have "loop_any (\<lambda>s rs. loop_any check s (concat (ScopeSpans rs))) s td
        = loop_any (\<lambda>s xs. loop_any check s xs) s (map (\<lambda>rs. concat (ScopeSpans rs)) td)"
      by (induction td arbitrary: s) (auto split: prod.splits)
    then show ?thesis by (simp add: loop_any_concat all_spans_def)
  qed
  then show ?thesis
    by (simp add: hasSpanWithCondition_def hasInstrumentationLibrarySpanWithCondition_def loop_any_concat)
qed

section \<open>Latency\<close>

lemma sint_pos_uint:
  fixes w :: "64 word"
  assumes "0 < sint w"
  shows "sint w = uint w"
proof -
  have "sint w = take_bit 64 (uint w) - 2 ^ 64 * of_bool (bit (uint w) 63)"
    by (simp add: sint_uint signed_take_bit_eq_take_bit_minus)
  moreover have bound: "uint w < 2 ^ 64" using uint_bounded [of w] by simp
  moreover have "take_bit 64 (uint w) = uint w" using bound by (simp add: take_bit_int_eq_self_iff)
  ultimately show ?thesis using assms by (auto split: if_splits)
qed

lemma sint_pos_less:
  fixes v w :: "64 word"
  assumes "0 < sint v" and "0 < sint w"
  shows "v < w \<longleftrightarrow> sint v < sint w"
  using sint_pos_uint [OF assms(1)] sint_pos_uint [OF assms(2)] by (simp add: word_less_def)

lemma time_sub_pos:
  assumes "0 < sint a" and "0 < sint b"
  shows "time_sub a b = sint a - sint b"
  using assms sint_greater_eq [of a] sint_less [of a] sint_less [of b]
  by (simp add: time_sub_def minInt64_def maxInt64_def)

definition timed :: "'v Span \<Rightarrow> bool" where
  "timed x \<longleftrightarrow> 0 < sint (StartTimestamp x) \<and> 0 < sint (EndTimestamp x)"

lemma latency_check_timed:
  assumes "timed x" and "0 < sint mn" and "0 < sint mx"
  obtains mn' mx' where "latency_check thr (mn, mx) x = (thr \<le> go_div (sint mx' - sint mn') 1000000, mn', mx')"
    and "sint mn' = min (sint mn) (sint (StartTimestamp x))"
    and "sint mx' = max (sint mx) (sint (EndTimestamp x))"
    and "0 < sint mn'" and "0 < sint mx'"
proof -
  define mn' mx' where "mn' = (if StartTimestamp x < mn then StartTimestamp x else mn)"
    and "mx' = (if EndTimestamp x > mx then EndTimestamp x else mx)"
  have nz: "mn \<noteq> 0" "mx \<noteq> 0" using assms by auto
  have mm: "sint mn' = min (sint mn) (sint (StartTimestamp x))" "sint mx' = max (sint mx) (sint (EndTimestamp x))"
    using assms by (auto simp: mn'_def mx'_def timed_def sint_pos_less)
  moreover have pos: "0 < sint mn'" "0 < sint mx'" using assms mm by (auto simp: timed_def)
  moreover have "latency_check thr (mn, mx) x = (thr \<le> go_div (sint mx' - sint mn') 1000000, mn', mx')"
    using nz time_sub_pos [OF pos(2,1)] by (simp add: latency_check_def mn'_def mx'_def Let_def)
  ultimately show ?thesis using that by blast
qed

lemma latency_loop:
  assumes "list_all timed xs" and "0 < sint mn" and "0 < sint mx"
  shows "fst (loop_any (latency_check thr) (mn, mx) xs) \<longleftrightarrow>
    xs \<noteq> [] \<and> thr \<le> go_div (Max (insert (sint mx) ((\<lambda>x. sint (EndTimestamp x)) ` set xs))
                   - Min (insert (sint mn) ((\<lambda>x. sint (StartTimestamp x)) ` set xs))) 1000000"
  using assms
proof (induction xs arbitrary: mn mx)
  case Nil
  then show ?case by simp
next
  case (Cons x xs)
  let ?E = "\<lambda>S. (\<lambda>x. sint (EndTimestamp x)) ` S" and ?S = "\<lambda>S. (\<lambda>x. sint (StartTimestamp x)) ` S"
  have "timed x" using Cons.prems by simp
  then obtain mn' mx' where step: "latency_check thr (mn, mx) x = (thr \<le> go_div (sint mx' - sint mn') 1000000, mn', mx')"
    and mm: "sint mn' = min (sint mn) (sint (StartTimestamp x))" "sint mx' = max (sint mx) (sint (EndTimestamp x))"
    and pos: "0 < sint mn'" "0 < sint mx'"
    using Cons.prems by (elim latency_check_timed)
  have ends: "Max (insert (sint mx) (?E (set (x # xs)))) = Max (insert (sint mx') (?E (set xs)))"
    and starts: "Min (insert (sint mn) (?S (set (x # xs)))) = Min (insert (sint mn') (?S (set xs)))"
    by (cases "xs = []"; simp add: mm max.assoc min.assoc)+
  have IH: "fst (loop_any (latency_check thr) (mn', mx') xs) \<longleftrightarrow>
    xs \<noteq> [] \<and> thr \<le> go_div (Max (insert (sint mx') (?E (set xs))) - Min (insert (sint mn') (?S (set xs)))) 1000000"
    using Cons.prems pos by (intro Cons.IH) auto
  have "go_div (sint mx' - sint mn') 1000000
      \<le> go_div (Max (insert (sint mx') (?E (set xs))) - Min (insert (sint mn') (?S (set xs)))) 1000000"
    by (intro go_div_mono diff_mono) auto
  with IH show ?case unfolding ends starts by (cases "xs = []") (auto simp: step)
qed

section \<open>The threshold\<close>

lemma calculateThreshold_mono:
  assumes "0 \<le> r" and "r \<le> r'"
  shows "calculateThreshold r \<le> calculateThreshold r'"
  using assms unfolding calculateThreshold_def
  by (intro bigfloat_uint64_mono round_prec_mono mult_left_mono) auto


section \<open>Properties of the policies\<close>

text \<open>
  A concrete instance of the parameters: attribute values are strings or integers, a regular
  expression matches itself only, the cache keeps the last answer.
\<close>

definition example_lib :: "(string + int, (string \<times> bool) list) lib" where
  "example_lib = \<lparr>StrOf = case_sum (\<lambda>s. s) (\<lambda>_. []), IntOf = case_sum (\<lambda>_. 0) (\<lambda>i. i),
     MatchString = (\<lambda>r s. r = s), lruNew = (\<lambda>_. []), lruGet = (\<lambda>c k. (map_of c k, c)),
     lruAdd = (\<lambda>c k v. [(k, v)]), traceStateGet = (\<lambda>s k. Some [])\<rparr>"

definition example_span :: "(string \<times> (string + int)) list \<Rightarrow> Timestamp \<Rightarrow> Timestamp \<Rightarrow> (string + int) Span" where
  "example_span attrs start stop = \<lparr>spanTraceID = [1], spanAttributes = attrs, StartTimestamp = start,
     EndTimestamp = stop, StatusOf = StatusCodeOk, TraceStateRaw = []\<rparr>"

definition example_trace :: "int \<Rightarrow> (string + int) Span list \<Rightarrow> (string + int) TraceData" where
  "example_trace n spans = \<lparr>Decisions = [], ArrivalTime = 0, DecisionTime = 0, SpanCount = n,
     ReceivedBatches = [\<lparr>ResourceAttributes = [], ScopeSpans = [spans]\<rparr>], FinalDecision = Unspecified\<rparr>"

lemma lru_laws_example [simp]: "lru_laws example_lib"
  by (auto simp: lru_laws_def example_lib_def split: if_splits)

text \<open>
  C39. The cache of the regex filter is transparent: however many traces were evaluated before,
  a string filter decides each trace exactly as a filter without a cache would, from the
  resource and span attributes alone.
\<close>

theorem string_filter_cache_transparent:
  assumes "lru_laws L"
  shows "fst (Evaluate_seq L calls (NewStringAttributeFilter L key values regex evictSize invertMatch)) =
    map (\<lambda>(now, tid, trace).
      string_decision
        (string_hit L key (\<lambda>s. if regex then \<exists>r \<in> set values. MatchString L r s
                               else s \<noteq> [] \<and> s \<in> set values) trace)
        invertMatch) calls"
proof -
  obtain m where m: "NewStringAttributeFilter L key values regex evictSize invertMatch = stringAttributeFilter key m invertMatch"
    "cache_ok L m"
    "plain_match L m = (\<lambda>s. if regex then \<exists>r \<in> set values. MatchString L r s else s \<noteq> [] \<and> s \<in> set values)"
    by (rule NewStringAttributeFilter_matcher [OF assms])
  show ?thesis unfolding m(1) Evaluate_seq_string [OF assms m(2)] m(3) ..
qed

theorem string_filter_cache_transparent_witness:
  "lru_laws example_lib \<and>
   fst (Evaluate_seq example_lib
     [(0, [1], example_trace 1 [example_span [(''k'', Inl ''a'')] 1 2]),
      (0, [1], example_trace 1 [example_span [(''k'', Inl ''b'')] 1 2]),
      (0, [1], example_trace 1 [example_span [(''k'', Inl ''a'')] 1 2])]
     (NewStringAttributeFilter example_lib ''k'' [''a''] True 0 False)) = [Sampled, NotSampled, Sampled]"
  unfolding string_filter_cache_transparent [OF lru_laws_example]
  by (rule conjI [OF lru_laws_example]) (simp add: example_lib_def example_trace_def example_span_def string_decision_def string_hit_def
      trace_has_def attr_hit_def)

text \<open>
  Raising the percentage of the probabilistic sampler never drops a trace: with the same
  salt, every trace sampled at a percentage is sampled at every larger one, through the
  rounding of \<open>float64\<close> and \<open>big.Float\<close>.
\<close>

theorem probabilistic_monotone:
  assumes "0 \<le> p" and "p \<le> q"
    and "fst (fst (Evaluate L now tid trace (NewProbabilisticSampler salt p))) = Sampled"
  shows "fst (fst (Evaluate L now tid trace (NewProbabilisticSampler salt q))) = Sampled"
proof -
  have "calculateThreshold (float_div p 100) \<le> calculateThreshold (float_div q 100)"
    using float_div_mono [of p q 100] assms by (intro calculateThreshold_mono) auto
  then show ?thesis using assms(3)
    by (auto simp: NewProbabilisticSampler_def probabilistic_Evaluate_def split: if_splits)
qed

lemma calculateThreshold_100: "calculateThreshold (float_div 100 100) = - 1"
proof -
  have one: "round_prec 53 1 = 1" using round_prec_exact [of 1 53] by simp
  have max: "round_prec 64 (of_nat maxUint64) = of_nat maxUint64"
    using round_prec_exact [of "int maxUint64" 64] by (simp add: maxUint64_def)
  show ?thesis by (simp add: calculateThreshold_def float_div_def one max bigfloat_uint64_def) (simp add: maxUint64_def)
qed

theorem probabilistic_monotone_witness:
  "(0::rat) \<le> 100 \<and> (100::rat) \<le> 200 \<and>
   fst (fst (Evaluate example_lib 0 [1, 2, 3] (example_trace 1 []) (NewProbabilisticSampler [] 200))) = Sampled"
proof -
  have "fst (fst (Evaluate example_lib 0 [1, 2, 3] (example_trace 1 []) (NewProbabilisticSampler [] 100))) = Sampled"
    by (simp add: NewProbabilisticSampler_def probabilistic_Evaluate_def calculateThreshold_100)
  from probabilistic_monotone [OF _ _ this, of 200] show ?thesis by simp
qed

text \<open>The spans of the calls that were decided \<open>Sampled\<close>.\<close>

definition sampled_spans :: "(int \<times> TraceID \<times> 'v TraceData) list \<Rightarrow> Decision list \<Rightarrow> int" where
  "sampled_spans calls ds = (\<Sum>((_, _, trace), d) \<leftarrow> zip calls ds. if d = Sampled then SpanCount trace else 0)"

lemma sampled_spans_simps [simp]:
  "sampled_spans [] ds = 0"
  "sampled_spans ((t, i, trace) # calls) (d # ds) =
     (if d = Sampled then SpanCount trace else 0) + sampled_spans calls ds"
  by (simp_all add: sampled_spans_def)

lemma fst_Evaluate_seq [simp]:
  "fst (Evaluate_seq L [] e) = []"
  "fst (Evaluate_seq L ((now, tid, trace) # calls) e) =
     fst (fst (Evaluate L now tid trace e)) # fst (Evaluate_seq L calls (snd (Evaluate L now tid trace e)))"
  by (simp_all add: case_prod_beta)

lemma rate_limiting_loop:
  assumes "\<forall>(t, i, trace) \<in> set calls. t = now \<and> 0 \<le> SpanCount trace \<and> SpanCount trace \<le> maxInt64 - n"
    and "0 \<le> spans" and "spans < n"
  shows "spans + sampled_spans calls (fst (Evaluate_seq L calls (rateLimiting now spans n))) < n"
  using assms
proof (induction calls arbitrary: spans)
  case Nil
  then show ?case by simp
next
  case (Cons call calls)
  obtain trace i where call: "call = (now, i, trace)" using Cons.prems(1) by (cases call) auto
  have c: "0 \<le> SpanCount trace" "SpanCount trace \<le> maxInt64 - n" using Cons.prems(1) call by auto
  have i64: "i64 (spans + SpanCount trace) = spans + SpanCount trace"
    using c Cons.prems by (intro i64_id) (auto simp: is_i64_def minInt64_def)
  have IH: "s + sampled_spans calls (fst (Evaluate_seq L calls (rateLimiting now s n))) < n"
    if "0 \<le> s" "s < n" for s using Cons.prems(1) that by (intro Cons.IH) auto
  show ?case
  proof (cases "spans + SpanCount trace < n")
    case True
    with c IH [of "spans + SpanCount trace"] Cons.prems(2) i64 show ?thesis
      by (simp add: call rateLimiting_Evaluate_def del: Evaluate_seq.simps)
  next
    case False
    with IH [of spans] Cons.prems i64 show ?thesis
      by (simp add: call rateLimiting_Evaluate_def del: Evaluate_seq.simps)
  qed
qed

text \<open>
  C19. The rate limiter keeps its limit: whatever traces are evaluated within one second, the
  spans of those it samples stay below \<open>spansPerSecond\<close>, provided the span counts are too small
  to overflow the counter.
\<close>

theorem rate_limiting_bound:
  assumes "\<forall>(t, i, trace) \<in> set calls. t = now \<and> 0 \<le> SpanCount trace \<and> SpanCount trace \<le> maxInt64 - n"
    and "0 < n"
  shows "sampled_spans calls (fst (Evaluate_seq L calls (NewRateLimiting n))) < n"
proof (cases calls)
  case Nil
  with \<open>0 < n\<close> show ?thesis by simp
next
  case (Cons call rest)
  have "Evaluate_seq L calls (NewRateLimiting n) = Evaluate_seq L calls (rateLimiting now 0 n)"
    using assms(1) Cons by (cases call) (auto simp: NewRateLimiting_def rateLimiting_Evaluate_def)
  with rate_limiting_loop [OF assms(1), of 0] \<open>0 < n\<close> show ?thesis by simp
qed

theorem rate_limiting_bound_witness:
  "sampled_spans [(7, [1], example_trace 3 []), (7, [2], example_trace 4 []), (7, [3], example_trace 2 [])]
     (fst (Evaluate_seq example_lib
       [(7, [1], example_trace 3 []), (7, [2], example_trace 4 []), (7, [3], example_trace 2 [])]
       (NewRateLimiting 6))) < 6"
  by (rule rate_limiting_bound [of _ 7]) (simp_all add: example_trace_def maxInt64_def)

text \<open>
  A sub-policy within its budget: its counter is at most what the code compares it with. The
  counters of a composite policy add up to the spans it sampled in the current second.
\<close>

definition budget :: "int \<Rightarrow> 'e subpolicy \<Rightarrow> int" where
  "budget maxTotalSPS sub = max 0 (min (allocatedSPS sub) maxTotalSPS)"

definition within_budget :: "int \<Rightarrow> 'e subpolicy list \<Rightarrow> bool" where
  "within_budget m subs \<longleftrightarrow> list_all (\<lambda>sub. 0 \<le> sampledSPS sub \<and> sampledSPS sub \<le> budget m sub) subs"

lemma composite_loop_step:
  assumes "within_budget m subs" and "0 \<le> n" and "n \<le> maxInt64 - m" and "0 \<le> m"
    and "composite_loop ev n m subs = ((d, err), subs')"
  shows "within_budget m subs' \<and> map (budget m) subs' = map (budget m) subs \<and>
    (\<Sum>s \<leftarrow> subs'. sampledSPS s) = (\<Sum>s \<leftarrow> subs. sampledSPS s) + (if d = Sampled then n else 0)"
  using assms
proof (induction subs arbitrary: d err subs')
  case Nil
  then show ?case by simp
next
  case (Cons sub subs)
  obtain dec er e' where ev: "ev (evaluator sub) = ((dec, er), e')" by (metis prod.exhaust)
  obtain d1 er1 subs1 where rest: "composite_loop ev n m subs = ((d1, er1), subs1)" by (metis prod.exhaust)
  have IH: "within_budget m subs1 \<and> map (budget m) subs1 = map (budget m) subs \<and>
    (\<Sum>s \<leftarrow> subs1. sampledSPS s) = (\<Sum>s \<leftarrow> subs. sampledSPS s) + (if d1 = Sampled then n else 0)"
    using Cons.IH [OF _ Cons.prems(2-4) rest] Cons.prems(1) by (simp add: within_budget_def)
  have sub: "0 \<le> sampledSPS sub" "sampledSPS sub \<le> m"
    using Cons.prems(1,4) by (auto simp: within_budget_def budget_def)
  have i64: "i64 (sampledSPS sub + n) = sampledSPS sub + n"
    using sub Cons.prems(2,3) by (intro i64_id) (simp add: is_i64_def minInt64_def)
  have budget: "budget m (Subpolicy e' (allocatedSPS sub) k) = budget m sub" for e' :: 'a and k
    by (simp add: budget_def)
  have fits: "k \<le> budget m sub" if "k \<le> allocatedSPS sub" "k \<le> m" for k
    using that by (simp add: budget_def)
  show ?case
    using Cons.prems(1,2,5) IH sub
    by (auto simp: ev rest i64 within_budget_def budget fits Let_def split: if_splits)
qed

lemma composite_seq_step:
  assumes "\<forall>(t, i, trace) \<in> set calls. t = now \<and> 0 \<le> SpanCount trace \<and> SpanCount trace \<le> maxInt64 - m"
    and "within_budget m subs" and "0 \<le> m"
  shows "(\<Sum>s \<leftarrow> subs. sampledSPS s) + sampled_spans calls (fst (Evaluate_seq L calls (Composite subs m now)))
    \<le> (\<Sum>s \<leftarrow> subs. budget m s)"
  using assms
proof (induction calls arbitrary: subs)
  case Nil
  then show ?case by (auto simp: within_budget_def list_all_iff intro!: sum_list_mono)
next
  case (Cons call calls)
  obtain trace i where call: "call = (now, i, trace)" using Cons.prems(1) by (cases call) auto
  obtain d err subs' where step:
    "composite_loop (Evaluate L now i trace) (SpanCount trace) m subs = ((d, err), subs')" by (metis prod.exhaust)
  have one: "within_budget m subs' \<and> map (budget m) subs' = map (budget m) subs \<and>
    (\<Sum>s \<leftarrow> subs'. sampledSPS s) = (\<Sum>s \<leftarrow> subs. sampledSPS s) + (if d = Sampled then SpanCount trace else 0)"
    using Cons.prems step call by (intro composite_loop_step) auto
  have "(\<Sum>s \<leftarrow> subs'. sampledSPS s) + sampled_spans calls (fst (Evaluate_seq L calls (Composite subs' m now)))
      \<le> (\<Sum>s \<leftarrow> subs'. budget m s)"
    using Cons.prems one by (intro Cons.IH) auto
  moreover have "(\<Sum>s \<leftarrow> subs'. budget m s) = (\<Sum>s \<leftarrow> subs. budget m s)" using one by metis
  ultimately show ?case using one by (simp add: call step del: Evaluate_seq.simps)
qed



text \<open>
  The composite policy does not bound the total: \<open>maxTotalSPS\<close> is compared with the counter
  of one sub-policy at a time. With a \<open>maxTotalSPS\<close> of \<open>m\<close> and two sub-policies, two traces of
  one second are both sampled although together they carry \<open>2 m - 1\<close> spans.
\<close>

theorem composite_total_exceeded:
  assumes "1 < m" and "m \<le> maxInt64"
    and "SpanCount big = m" and "SpanCount small = m - 1"
  shows "sampled_spans [(now, i, big), (now, j, small)]
      (fst (Evaluate_seq L [(now, i, big), (now, j, small)]
        (NewComposite m [(spanCount m, m), (alwaysSample, m)]))) = 2 * m - 1"
proof -
  have "i64 m = m" "i64 (m - 1) = m - 1"
    using assms by (intro i64_id; simp add: is_i64_def minInt64_def)+
  then show ?thesis
    using assms by (simp add: NewComposite_def spanCount_Evaluate_def reset_sampledSPS_def)
qed

theorem composite_total_exceeded_witness:
  "sampled_spans [(7, [1], example_trace 10 []), (7, [2], example_trace 9 [])]
      (fst (Evaluate_seq example_lib [(7, [1], example_trace 10 []), (7, [2], example_trace 9 [])]
        (NewComposite 10 [(spanCount 10, 10), (alwaysSample, 10)]))) = 19"
  using composite_total_exceeded [of 10 "example_trace 10 []" "example_trace 9 []" 7 "[1]" "[2]" example_lib]
  by (simp add: example_trace_def maxInt64_def del: Evaluate_seq.simps fst_Evaluate_seq sampled_spans_simps)

text \<open>
  The latency policy decides by the whole trace: for a trace with spans and timestamps
  between 1970 and 2262 it answers \<open>Sampled\<close> exactly when the time from the earliest start to
  the latest end, in milliseconds, reaches the threshold, in whatever order the spans came and
  although the loop stops early.
\<close>

theorem latency_sampled_iff:
  assumes "all_spans (ReceivedBatches trace) \<noteq> []" and "list_all timed (all_spans (ReceivedBatches trace))"
  shows "fst (fst (Evaluate L now tid trace (latency thr))) = Sampled \<longleftrightarrow>
    thr \<le> go_div (Max ((\<lambda>x. sint (EndTimestamp x)) ` set (all_spans (ReceivedBatches trace)))
                 - Min ((\<lambda>x. sint (StartTimestamp x)) ` set (all_spans (ReceivedBatches trace)))) 1000000"
proof -
  obtain x xs where spans: "all_spans (ReceivedBatches trace) = x # xs" using assms(1) by (cases "all_spans (ReceivedBatches trace)") auto
  let ?s = "StartTimestamp x" and ?e = "EndTimestamp x"
  have pos: "0 < sint ?s" "0 < sint ?e" using assms(2) spans by (simp_all add: timed_def)
  have first: "latency_check thr (0, 0) x = latency_check thr (?s, ?e) x"
    by (simp add: latency_check_def)
  have "fst (loop_any (latency_check thr) (0, 0) (x # xs)) = fst (loop_any (latency_check thr) (?s, ?e) (x # xs))"
    by (simp add: first)
  also have "\<dots> \<longleftrightarrow> thr \<le> go_div (Max ((\<lambda>x. sint (EndTimestamp x)) ` set (x # xs))
                 - Min ((\<lambda>x. sint (StartTimestamp x)) ` set (x # xs))) 1000000"
    using latency_loop [of "x # xs" ?s ?e thr] assms(2) pos by (simp add: spans)
  finally show ?thesis
    by (simp add: latency_Evaluate_def hasSpanWithCondition_flat spans case_prod_beta del: loop_any.simps)
qed

theorem latency_sampled_iff_witness:
  "fst (fst (Evaluate example_lib 0 [1]
     (example_trace 2 [example_span [] 1000000 2000000, example_span [] 500000 7500000]) (latency 7))) = Sampled"
  using latency_sampled_iff
    [of "example_trace 2 [example_span [] 1000000 2000000, example_span [] 500000 7500000]" example_lib 0 "[1]" 7]
  by (simp add: example_trace_def example_span_def all_spans_def timed_def go_div_def)

end
