(* ===== verification/IdBatcher.thy ===== *)
theory IdBatcher
  imports Otel_Prelude
begin

text \<open>
  The batcher of trace identifiers
  (\<open>processor/o11ytailsampler/internal/idbatcher/id_batcher.go\<close>).

  A \<open>batcher\<close> has two buffered channels, the batch being built and the \<open>stopped\<close> flag. A
  channel is the list of its elements with its capacity and whether it is closed; a channel
  operation answers \<open>Blocked\<close> when the goroutine has to wait and \<open>Panics\<close> on a send to a
  closed channel. The collecting goroutine of \<open>New\<close>, the callers of the methods and the three
  stages of \<open>Stop\<close> interleave: they are the steps of \<open>bstep\<close>. \<open>cbMutex\<close> and \<open>stopLock\<close> make
  the sections they protect atomic, so each such section is one step.

  The identifiers are elements of an arbitrary type.
\<close>

section \<open>Channels\<close>

datatype 'a outcome = Done 'a | Blocked | Panics

record 'a channel =
  elems :: "'a list"
  cap :: nat
  closed :: bool

definition send :: "'a \<Rightarrow> 'a channel \<Rightarrow> 'a channel outcome" where
  "send x c = (if closed c then Panics
               else if length (elems c) < cap c then Done (c\<lparr>elems := elems c @ [x]\<rparr>)
               else Blocked)"

text \<open>A receive answers \<open>None\<close> on a closed channel that is empty.\<close>

definition recv :: "'a channel \<Rightarrow> ('a option \<times> 'a channel) outcome" where
  "recv c = (case elems c of
      x # xs \<Rightarrow> Done (Some x, c\<lparr>elems := xs\<rparr>)
    | [] \<Rightarrow> if closed c then Done (None, c) else Blocked)"

definition close_chan :: "'a channel \<Rightarrow> 'a channel outcome" where
  "close_chan c = (if closed c then Panics else Done (c\<lparr>closed := True\<rparr>))"

section \<open>The batcher\<close>

type_synonym 'i Batch = "'i list"

record 'i batcher =
  pendingIds :: "'i channel"
  batches :: "'i Batch channel"
  currentBatch :: "'i Batch"
  newBatchesInitialCapacity :: nat
  stopped :: bool

definition ErrInvalidNumBatches :: error where
  "ErrInvalidNumBatches = ''invalid number of batches, it must be greater than zero''"

definition ErrInvalidBatchChannelSize :: error where
  "ErrInvalidBatchChannelSize = ''invalid batch channel size, it must be greater than zero''"

definition New :: "nat \<Rightarrow> nat \<Rightarrow> nat \<Rightarrow> 'i batcher result" where
  "New numBatches initialCapacity batchChannelSize =
     (if numBatches < 1 then Inl ErrInvalidNumBatches
      else if batchChannelSize < 1 then Inl ErrInvalidBatchChannelSize
      else Inr \<lparr>pendingIds = \<lparr>elems = [], cap = batchChannelSize, closed = False\<rparr>,
                batches = \<lparr>elems = replicate numBatches [], cap = numBatches, closed = False\<rparr>,
                currentBatch = [], newBatchesInitialCapacity = initialCapacity, stopped = False\<rparr>)"

text \<open>One round of the goroutine's loop: \<open>None\<close> when the loop is over.\<close>

definition collect :: "'i batcher \<Rightarrow> 'i batcher option outcome" where
  "collect b = (case recv (pendingIds b) of
      Done (Some tid, c) \<Rightarrow> Done (Some (b\<lparr>pendingIds := c, currentBatch := currentBatch b @ [tid]\<rparr>))
    | Done (None, _) \<Rightarrow> Done None
    | Blocked \<Rightarrow> Blocked
    | Panics \<Rightarrow> Panics)"

definition AddToCurrentBatch :: "'i \<Rightarrow> 'i batcher \<Rightarrow> 'i batcher outcome" where
  "AddToCurrentBatch tid b = (case send tid (pendingIds b) of
      Done c \<Rightarrow> Done (b\<lparr>pendingIds := c\<rparr>) | Blocked \<Rightarrow> Blocked | Panics \<Rightarrow> Panics)"

definition CloseCurrentAndTakeFirstBatch :: "'i batcher \<Rightarrow> (('i Batch \<times> bool) \<times> 'i batcher) outcome" where
  "CloseCurrentAndTakeFirstBatch b = (case recv (batches b) of
      Done (Some readBatch, c) \<Rightarrow>
        (if \<not> stopped b
         then (case send (currentBatch b) c of
                 Done c' \<Rightarrow> Done ((readBatch, True), b\<lparr>batches := c', currentBatch := []\<rparr>)
               | Blocked \<Rightarrow> Blocked | Panics \<Rightarrow> Panics)
         else Done ((readBatch, True), b\<lparr>batches := c\<rparr>))
    | Done (None, c) \<Rightarrow> Done ((currentBatch b, False), b\<lparr>currentBatch := []\<rparr>)
    | Blocked \<Rightarrow> Blocked
    | Panics \<Rightarrow> Panics)"

text \<open>
  \<open>Stop\<close> closes the channel of the identifiers, waits until the goroutine reports the end of
  its loop, sets \<open>stopped\<close>, and closes the channel of the batches.
\<close>

definition Stop_ids :: "'i batcher \<Rightarrow> 'i batcher outcome" where
  "Stop_ids b = (case close_chan (pendingIds b) of
      Done c \<Rightarrow> Done (b\<lparr>pendingIds := c\<rparr>) | Blocked \<Rightarrow> Blocked | Panics \<Rightarrow> Panics)"

definition Stop_flag :: "'i batcher \<Rightarrow> 'i batcher outcome" where
  "Stop_flag b = (if collect b = Done None then Done (b\<lparr>stopped := True\<rparr>) else Blocked)"

definition Stop_batches :: "'i batcher \<Rightarrow> 'i batcher outcome" where
  "Stop_batches b = (case close_chan (batches b) of
      Done c \<Rightarrow> Done (b\<lparr>batches := c\<rparr>) | Blocked \<Rightarrow> Blocked | Panics \<Rightarrow> Panics)"

section \<open>Interleavings\<close>

datatype 'i bevent = Added 'i | Collected | Taken "'i Batch" bool | ClosedIds | Stopped | ClosedBatches

inductive bstep :: "'i batcher \<Rightarrow> 'i bevent \<Rightarrow> 'i batcher \<Rightarrow> bool" where
  bstep_add: "AddToCurrentBatch tid b = Done b' \<Longrightarrow> bstep b (Added tid) b'"
| bstep_collect: "collect b = Done (Some b') \<Longrightarrow> bstep b Collected b'"
| bstep_take: "CloseCurrentAndTakeFirstBatch b = Done ((batch, ok), b') \<Longrightarrow> bstep b (Taken batch ok) b'"
| bstep_stop_ids: "Stop_ids b = Done b' \<Longrightarrow> bstep b ClosedIds b'"
| bstep_stop_flag: "Stop_flag b = Done b' \<Longrightarrow> \<not> stopped b \<Longrightarrow> bstep b Stopped b'"
| bstep_stop_batches: "Stop_batches b = Done b' \<Longrightarrow> stopped b \<Longrightarrow> bstep b ClosedBatches b'"

inductive_simps bstep_simps:
  "bstep b (Added tid) b'" "bstep b Collected b'" "bstep b (Taken batch ok) b'"
  "bstep b ClosedIds b'" "bstep b Stopped b'" "bstep b ClosedBatches b'"

inductive bruns :: "'i batcher \<Rightarrow> 'i bevent list \<Rightarrow> 'i batcher \<Rightarrow> bool" where
  bruns_nil: "bruns b [] b"
| bruns_snoc: "bruns b evs b' \<Longrightarrow> bstep b' ev b'' \<Longrightarrow> bruns b (evs @ [ev]) b''"

text \<open>What a run put in, and the batches it got out.\<close>

fun added :: "'i bevent list \<Rightarrow> 'i list" where
  "added [] = []"
| "added (Added tid # evs) = tid # added evs"
| "added (_ # evs) = added evs"

fun taken :: "'i bevent list \<Rightarrow> 'i Batch list" where
  "taken [] = []"
| "taken (Taken batch ok # evs) = batch # taken evs"
| "taken (_ # evs) = taken evs"

lemma added_append [simp]: "added (xs @ ys) = added xs @ added ys"
  by (induction xs rule: added.induct) auto

lemma taken_append [simp]: "taken (xs @ ys) = taken xs @ taken ys"
  by (induction xs rule: taken.induct) auto

text \<open>The identifiers a batcher still holds, oldest first.\<close>

definition held :: "'i batcher \<Rightarrow> 'i list" where
  "held b = concat (elems (batches b)) @ currentBatch b @ elems (pendingIds b)"

section \<open>The invariant\<close>

definition batcher_inv :: "nat \<Rightarrow> 'i batcher \<Rightarrow> bool" where
  "batcher_inv n b \<longleftrightarrow>
     0 < n \<and> cap (batches b) = n \<and> 0 < cap (pendingIds b) \<and>
     length (elems (pendingIds b)) \<le> cap (pendingIds b) \<and>
     length (elems (batches b)) \<le> n \<and>
     (\<not> stopped b \<longrightarrow> length (elems (batches b)) = n \<and> \<not> closed (batches b)) \<and>
     (stopped b \<longrightarrow> closed (pendingIds b) \<and> elems (pendingIds b) = [])"

lemmas batcher_defs = AddToCurrentBatch_def collect_def CloseCurrentAndTakeFirstBatch_def
  Stop_ids_def Stop_flag_def Stop_batches_def send_def recv_def close_chan_def

lemma New_inv [inv_intros]:
  "New n k m = Inr b \<Longrightarrow> batcher_inv n b"
  by (auto simp: New_def batcher_inv_def split: if_splits)

lemma bstep_inv [inv_intros]:
  assumes "bstep b ev b'" and "batcher_inv n b"
  shows "batcher_inv n b'"
  using assms
  by (cases ev) (auto simp: bstep_simps batcher_defs batcher_inv_def
      split: if_splits list.splits option.splits outcome.splits)

lemma bruns_inv [inv_intros]:
  "bruns b evs b' \<Longrightarrow> batcher_inv n b \<Longrightarrow> batcher_inv n b'"
  by (induction rule: bruns.induct) (auto intro: bstep_inv)

lemma bstep_held:
  assumes "bstep b ev b'" and "batcher_inv n b"
  shows "held b @ added [ev] = concat (taken [ev]) @ held b'"
  using assms
  by (cases ev) (auto simp: bstep_simps batcher_defs batcher_inv_def held_def
      split: if_splits list.splits option.splits outcome.splits)

lemma bruns_held:
  assumes "bruns b evs b'" and "batcher_inv n b"
  shows "held b @ added evs = concat (taken evs) @ held b'"
  using assms
proof (induction rule: bruns.induct)
  case (bruns_snoc b evs b' ev b'')
  have "held b' @ added [ev] = concat (taken [ev]) @ held b''"
    using bruns_snoc bruns_inv by (blast intro: bstep_held)
  then show ?case using bruns_snoc.IH [OF bruns_snoc.prems]
    by (metis added_append append.assoc concat_append taken_append)
qed simp

section \<open>The contract of a batcher\<close>

text \<open>
  What a client relies on of a batcher it can still add to: adding appends, taking a batch
  removes the oldest identifiers.
\<close>

locale fifo_batcher =
  fixes binv :: "'b \<Rightarrow> bool"
    and contents :: "'b \<Rightarrow> 'i list"
    and add :: "'i \<Rightarrow> 'b \<Rightarrow> 'b"
    and take_batch :: "'b \<Rightarrow> 'i list \<times> 'b"
  assumes add_inv: "binv b \<Longrightarrow> binv (add i b)"
    and add_contents: "binv b \<Longrightarrow> contents (add i b) = contents b @ [i]"
    and take_inv: "binv b \<Longrightarrow> binv (snd (take_batch b))"
    and take_contents: "binv b \<Longrightarrow> contents b = fst (take_batch b) @ contents (snd (take_batch b))"
begin

lemma adds_inv: "binv b \<Longrightarrow> binv (fold add is b)"
  by (induction "is" arbitrary: b) (auto intro: add_inv)

lemma adds_contents: "binv b \<Longrightarrow> contents (fold add is b) = contents b @ is"
  by (induction "is" arbitrary: b) (auto simp: add_inv add_contents)

lemma held_until_taken:
  "binv b \<Longrightarrow> i \<in> set (contents b) \<Longrightarrow> i \<notin> set (fst (take_batch b)) \<Longrightarrow> i \<in> set (contents (snd (take_batch b)))"
  using take_contents by fastforce

lemma held_after_adds: "binv b \<Longrightarrow> set (contents (fold add is b)) = set (contents b) \<union> set is"
  by (simp add: adds_contents)

end

text \<open>
  A running batcher as its client sees it: a send on a full channel waits for one round of the
  goroutine.
\<close>

definition running :: "nat \<Rightarrow> 'i batcher \<Rightarrow> bool" where
  "running n b \<longleftrightarrow> batcher_inv n b \<and> \<not> stopped b \<and> \<not> closed (pendingIds b)"

definition enqueue :: "'i \<Rightarrow> 'i batcher \<Rightarrow> 'i batcher" where
  "enqueue tid b = (case AddToCurrentBatch tid b of
      Done b' \<Rightarrow> b'
    | _ \<Rightarrow> (case collect b of
              Done (Some b1) \<Rightarrow> (case AddToCurrentBatch tid b1 of Done b' \<Rightarrow> b' | _ \<Rightarrow> b1)
            | _ \<Rightarrow> b))"

definition take_first :: "'i batcher \<Rightarrow> 'i Batch \<times> 'i batcher" where
  "take_first b = (case CloseCurrentAndTakeFirstBatch b of
      Done ((batch, _), b') \<Rightarrow> (batch, b') | _ \<Rightarrow> ([], b))"

lemma running_take:
  assumes "running n b"
  obtains rb rest where "elems (batches b) = rb # rest"
    and "CloseCurrentAndTakeFirstBatch b =
      Done ((rb, True), b\<lparr>batches := batches b\<lparr>elems := rest @ [currentBatch b]\<rparr>, currentBatch := []\<rparr>)"
    and "Suc (length rest) = n"
proof -
  have n: "length (elems (batches b)) = n" "0 < n" "\<not> closed (batches b)" "cap (batches b) = n" "\<not> stopped b"
    using assms by (auto simp: running_def batcher_inv_def)
  then obtain rb rest where rb: "elems (batches b) = rb # rest" by (cases "elems (batches b)") auto
  show ?thesis
  proof (rule that [OF rb])
    show "CloseCurrentAndTakeFirstBatch b =
      Done ((rb, True), b\<lparr>batches := batches b\<lparr>elems := rest @ [currentBatch b]\<rparr>, currentBatch := []\<rparr>)"
      using n rb by (simp add: CloseCurrentAndTakeFirstBatch_def recv_def send_def)
    show "Suc (length rest) = n" using n rb by simp
  qed
qed

lemma running_enqueue:
  assumes "running n b"
  shows "running n (enqueue tid b) \<and> held (enqueue tid b) = held b @ [tid]"
proof (cases "length (elems (pendingIds b)) < cap (pendingIds b)")
  case True
  then have "enqueue tid b = b\<lparr>pendingIds := pendingIds b\<lparr>elems := elems (pendingIds b) @ [tid]\<rparr>\<rparr>"
    using assms by (simp add: running_def enqueue_def AddToCurrentBatch_def send_def)
  with assms True show ?thesis by (simp add: running_def batcher_inv_def held_def)
next
  case False
  then have "elems (pendingIds b) \<noteq> []" using assms by (auto simp: running_def batcher_inv_def)
  then obtain x xs where x: "elems (pendingIds b) = x # xs" by (cases "elems (pendingIds b)") auto
  have full: "cap (pendingIds b) = Suc (length xs)"
    using assms False x by (simp add: running_def batcher_inv_def)
  have "enqueue tid b = b\<lparr>pendingIds := pendingIds b\<lparr>elems := xs @ [tid]\<rparr>, currentBatch := currentBatch b @ [x]\<rparr>"
    using assms x full by (simp add: running_def enqueue_def AddToCurrentBatch_def send_def collect_def recv_def)
  with assms x full show ?thesis by (simp add: running_def batcher_inv_def held_def)
qed

lemma running_take_first:
  assumes "running n b"
  shows "running n (snd (take_first b)) \<and> held b = fst (take_first b) @ held (snd (take_first b))"
proof -
  obtain rb rest where "elems (batches b) = rb # rest"
    and "CloseCurrentAndTakeFirstBatch b =
      Done ((rb, True), b\<lparr>batches := batches b\<lparr>elems := rest @ [currentBatch b]\<rparr>, currentBatch := []\<rparr>)"
    and "Suc (length rest) = n" using assms by (rule running_take)
  with assms show ?thesis by (simp add: running_def batcher_inv_def held_def take_first_def)
qed

interpretation pipeline: fifo_batcher "running n" held enqueue take_first
  by unfold_locales (rule running_enqueue [THEN conjunct1] running_enqueue [THEN conjunct2]
      running_take_first [THEN conjunct1] running_take_first [THEN conjunct2], assumption)+

lemma running_collect:
  assumes "running n b" and "collect b = Done (Some b')"
  shows "running n b' \<and> held b' = held b"
proof (cases "elems (pendingIds b)")
  case (Cons x xs)
  with assms have "b' = b\<lparr>pendingIds := pendingIds b\<lparr>elems := xs\<rparr>, currentBatch := currentBatch b @ [x]\<rparr>"
    by (simp add: collect_def recv_def)
  with assms(1) Cons show ?thesis by (simp add: running_def batcher_inv_def held_def)
qed (use assms in \<open>simp add: collect_def recv_def split: if_splits\<close>)

section \<open>Properties of the batcher\<close>

text \<open>
  C8. No identifier is lost, duplicated or reordered: whatever the interleaving of the callers,
  the goroutine and \<open>Stop\<close>, the identifiers added are those of the batches taken followed by
  those the batcher still holds.
\<close>

theorem batcher_fifo:
  assumes "New n initialCapacity channelSize = Inr b" and "bruns b evs b'"
  shows "added evs = concat (taken evs) @ held b'"
proof -
  have "held b = []" using assms(1) by (auto simp: New_def held_def split: if_splits)
  with bruns_held [OF assms(2) New_inv [OF assms(1)]] show ?thesis by simp
qed

text \<open>A batcher of one batch and the states it goes through.\<close>

definition example_batcher :: "nat list \<Rightarrow> nat list \<Rightarrow> nat list list \<Rightarrow> bool \<Rightarrow> nat batcher" where
  "example_batcher pending current full done =
     \<lparr>pendingIds = \<lparr>elems = pending, cap = 2, closed = done\<rparr>,
      batches = \<lparr>elems = full, cap = 1, closed = False\<rparr>,
      currentBatch = current, newBatchesInitialCapacity = 8, stopped = False\<rparr>"

lemma example_New [simp]: "New 1 8 2 = Inr (example_batcher [] [] [[]] False)"
  by (simp add: New_def example_batcher_def)

lemma bruns_one: "bstep b ev b' \<Longrightarrow> bruns b' evs b'' \<Longrightarrow> bruns b (ev # evs) b''"
proof (rotate_tac, induction b' evs b'' rule: bruns.induct)
  case (bruns_nil b')
  then show ?case using bruns.bruns_snoc [OF bruns.bruns_nil] by fastforce
next
  case (bruns_snoc b1 evs b2 ev' b3)
  then show ?case using bruns.bruns_snoc [of b "ev # evs" b2 ev' b3] by simp
qed

lemma example_run:
  "bruns (example_batcher [] [] [[]] False)
     [Added 5, Collected, Added 6, Taken [] True] (example_batcher [6] [] [[5]] False)"
proof -
  have "bstep (example_batcher [] [] [[]] False) (Added 5) (example_batcher [5] [] [[]] False)"
    "bstep (example_batcher [5] [] [[]] False) Collected (example_batcher [] [5] [[]] False)"
    "bstep (example_batcher [] [5] [[]] False) (Added 6) (example_batcher [6] [5] [[]] False)"
    "bstep (example_batcher [6] [5] [[]] False) (Taken [] True) (example_batcher [6] [] [[5]] False)"
    by (simp_all add: bstep_simps batcher_defs example_batcher_def)
  then show ?thesis by (blast intro: bruns_one bruns.bruns_nil)
qed

theorem batcher_fifo_witness:
  "added [Added 5, Collected, Added 6, Taken [] True] = concat (taken [Added 5, Collected, Added 6, Taken [] True])
     @ held (example_batcher [6] [] [[5]] False)"
  by (rule batcher_fifo [OF example_New example_run])

lemma pipeline_step:
  assumes "bstep b ev b'" and "batcher_inv n b" and "\<not> stopped b'"
    and "taken evs @ elems (batches b) = replicate n [] @ cs" and "length cs = length (taken evs)"
    and "concat cs @ currentBatch b @ elems (pendingIds b) = added evs"
  shows "\<exists>cs'. length cs' = length (taken (evs @ [ev])) \<and>
    taken (evs @ [ev]) @ elems (batches b') = replicate n [] @ cs' \<and>
    concat cs' @ currentBatch b' @ elems (pendingIds b') = added (evs @ [ev])"
proof (cases ev)
  case (Taken batch ok)
  have "\<not> stopped b" using assms(1,3) unfolding Taken
    by (auto simp: bstep_simps batcher_defs split: list.splits if_splits)
  moreover from this have "elems (batches b) \<noteq> []" using assms(2) by (auto simp: batcher_inv_def)
  ultimately have hd: "elems (batches b) = batch # tl (elems (batches b))"
    and b': "b' = b\<lparr>batches := batches b\<lparr>elems := tl (elems (batches b)) @ [currentBatch b]\<rparr>, currentBatch := []\<rparr>"
    using assms(1) unfolding Taken
    by (auto simp: bstep_simps batcher_defs split: list.splits if_splits)
  have "taken evs @ batch # tl (elems (batches b)) = replicate n [] @ cs" using assms(4) hd by simp
  then have "(taken evs @ batch # tl (elems (batches b))) @ [currentBatch b] = replicate n [] @ cs @ [currentBatch b]"
    by simp
  with assms(5,6) Taken b' show ?thesis
    by (intro exI [of _ "cs @ [currentBatch b]"]) simp
qed (use assms in \<open>auto simp: bstep_simps batcher_defs intro!: exI [of _ cs] split: list.splits if_splits\<close>)

text \<open>
  The pipeline delays every identifier by the number of batches: while the batcher is not
  stopped, the batches taken and those in the pipe are the initial empty ones followed by one
  batch per take, and these batches, the current one and the channel hold the identifiers in the
  order they were added. So the first \<open>numBatches\<close> takes are empty, and an identifier leaves
  exactly \<open>numBatches\<close> takes after the take that closed its batch.
\<close>

theorem pipeline_delay:
  assumes "New n initialCapacity channelSize = Inr b" and "bruns b evs b'" and "\<not> stopped b'"
  shows "\<exists>cs. length cs = length (taken evs) \<and>
    taken evs @ elems (batches b') = replicate n [] @ cs \<and>
    concat cs @ currentBatch b' @ elems (pendingIds b') = added evs"
  using assms(2,1,3)
proof (induction rule: bruns.induct)
  case (bruns_nil b)
  then show ?case by (auto simp: New_def split: if_splits)
next
  case (bruns_snoc b evs b' ev b'')
  have "\<not> stopped b'" using bruns_snoc.hyps(2) bruns_snoc.prems(2)
    by (cases ev) (auto simp: bstep_simps batcher_defs split: list.splits if_splits)
  then obtain cs where "length cs = length (taken evs)" "taken evs @ elems (batches b') = replicate n [] @ cs"
    "concat cs @ currentBatch b' @ elems (pendingIds b') = added evs"
    using bruns_snoc.IH bruns_snoc.prems(1) by blast
  moreover have "batcher_inv n b'" using bruns_snoc New_inv bruns_inv by blast
  ultimately show ?case
    using pipeline_step [OF bruns_snoc.hyps(2)] bruns_snoc.prems(2) by blast
qed

theorem pipeline_delay_witness:
  "\<exists>cs :: nat list list. length cs = length (taken [Added (5 :: nat), Collected, Added 6, Taken [] True]) \<and>
    taken [Added 5, Collected, Added 6, Taken [] True] @ elems (batches (example_batcher [6] [] [[5]] False))
      = replicate 1 [] @ cs \<and>
    concat cs @ currentBatch (example_batcher [6] [] [[5]] False) @ elems (pendingIds (example_batcher [6] [] [[5]] False))
      = added [Added 5, Collected, Added 6, Taken [] True]"
  by (rule pipeline_delay [OF example_New example_run]) (simp add: example_batcher_def)

text \<open>The loop of a client that reads the pipeline until it is told there is no more.\<close>

fun drain :: "nat \<Rightarrow> 'i batcher \<Rightarrow> ('i Batch list \<times> 'i batcher) outcome" where
  "drain 0 b = Blocked"
| "drain (Suc fuel) b = (case CloseCurrentAndTakeFirstBatch b of
      Done ((batch, ok), b') \<Rightarrow>
        (if ok then (case drain fuel b' of
                       Done (bs, b'') \<Rightarrow> Done (batch # bs, b'') | Blocked \<Rightarrow> Blocked | Panics \<Rightarrow> Panics)
         else Done ([batch], b'))
    | Blocked \<Rightarrow> Blocked | Panics \<Rightarrow> Panics)"

lemma drain_stopped:
  assumes "stopped b" and "closed (batches b)" and "elems (pendingIds b) = []" and "length (elems (batches b)) < fuel"
  shows "\<exists>bs b'. drain fuel b = Done (bs, b') \<and> concat bs = held b \<and> held b' = []"
  using assms
proof (induction fuel arbitrary: b)
  case (Suc fuel)
  show ?case
  proof (cases "elems (batches b)")
    case Nil
    with Suc.prems show ?thesis by (simp add: CloseCurrentAndTakeFirstBatch_def recv_def held_def)
  next
    case (Cons rb rest)
    let ?b = "b\<lparr>batches := batches b\<lparr>elems := rest\<rparr>\<rparr>"
    have "\<exists>bs b'. drain fuel ?b = Done (bs, b') \<and> concat bs = held ?b \<and> held b' = []"
      using Suc.prems Cons by (intro Suc.IH) auto
    with Suc.prems Cons show ?thesis
      by (auto simp: CloseCurrentAndTakeFirstBatch_def recv_def held_def)
  qed
qed simp

text \<open>
  Stopping loses nothing: after \<open>Stop\<close> a client that reads until the second result is
  \<open>false\<close> is through after at most \<open>numBatches + 1\<close> calls, none of which blocks, and then it
  has read every identifier ever added, in order.
\<close>

theorem stopped_batcher_drains:
  assumes "New n initialCapacity channelSize = Inr b" and "bruns b evs b'"
    and "stopped b'" and "closed (batches b')"
  shows "\<exists>bs b''. drain (Suc n) b' = Done (bs, b'') \<and> concat (taken evs) @ concat bs = added evs \<and> held b'' = []"
proof -
  have "batcher_inv n b'" using assms New_inv bruns_inv by blast
  then have "elems (pendingIds b') = []" "length (elems (batches b')) < Suc n"
    using assms(3) by (auto simp: batcher_inv_def)
  then show ?thesis using drain_stopped [OF assms(3,4)] bruns_held [OF assms(2) New_inv [OF assms(1)]] assms(1)
    by (fastforce simp: New_def held_def [of b] split: if_splits)
qed

theorem stopped_batcher_drains_witness:
  "\<exists>evs b' bs b''. bruns (example_batcher [] [] [[]] False) evs b' \<and> added evs = [5, 6] \<and>
     drain (Suc 1) b' = Done (bs, b'') \<and> concat (taken evs) @ concat bs = [5, 6] \<and> held b'' = []"
proof -
  let ?evs = "[Added 5, Collected, Added 6, Taken [] True, ClosedIds, Collected, Stopped, ClosedBatches]"
  let ?b = "example_batcher [] [6] [[5]] True"
  let ?done = "?b\<lparr>stopped := True, batches := batches ?b\<lparr>closed := True\<rparr>\<rparr>"
  have "bstep (example_batcher [6] [] [[5]] False) ClosedIds (example_batcher [6] [] [[5]] True)"
    "bstep (example_batcher [6] [] [[5]] True) Collected ?b"
    "bstep ?b Stopped (?b\<lparr>stopped := True\<rparr>)"
    "bstep (?b\<lparr>stopped := True\<rparr>) ClosedBatches ?done"
    by (simp_all add: bstep_simps batcher_defs example_batcher_def)
  with example_run have "bruns (example_batcher [] [] [[]] False)
      (((([Added 5, Collected, Added 6, Taken [] True] @ [ClosedIds]) @ [Collected]) @ [Stopped]) @ [ClosedBatches]) ?done"
    by (blast intro: bruns_snoc)
  then have run: "bruns (example_batcher [] [] [[]] False) ?evs ?done" by simp
  have "stopped ?done" "closed (batches ?done)" by simp_all
  from stopped_batcher_drains [OF example_New run this] obtain bs b''
    where "drain (Suc 1) ?done = Done (bs, b'')" "concat (taken ?evs) @ concat bs = added ?evs" "held b'' = []"
    by blast
  with run show ?thesis by (intro exI [of _ ?evs] exI [of _ ?done] exI [of _ bs] exI [of _ b'']) simp
qed

end
