(* ===== verification/TailEvaluator.thy ===== *)
theory TailEvaluator
  imports Sampling
begin

text \<open>
  The configuration of the tail sampler (\<open>processor/o11ytailsampler/config.go\<close>) and the
  evaluator of a policy group (\<open>evaluator.go\<close>): its construction from the configuration. Its
  \<open>Evaluate\<close> is a case of \<open>Evaluate\<close> in the theory of the policies.

  The order in which \<open>sort.Slice\<close> leaves elements of equal priority is not specified by the
  standard library, so the sort is an argument \<open>sorter\<close>; \<open>slice_sort\<close> states what is promised.
\<close>

section \<open>Configuration (config.go)\<close>

record NumericAttributeCfg =
  numKey :: string
  MinValue :: int
  MaxValue :: int

record ProbabilisticCfg =
  HashSalt :: string
  SamplingPercentage :: rat

record StringAttributeCfg =
  strKey :: string
  Values :: "string list"
  EnabledRegexMatching :: bool
  CacheMaxSize :: int
  InvertMatch :: bool

record PolicyFilterCfg =
  FilterOp :: string
  StringAttributeCfgs :: "StringAttributeCfg list"
  NumericAttributeCfgs :: "NumericAttributeCfg list"

record BasePolicy =
  Name :: string
  PolicyType :: string
  Priority :: int
  Sampling :: ProbabilisticCfg
  PolicyFilter :: PolicyFilterCfg

record PolicyGroupCfg =
  Base :: BasePolicy
  SubPolicies :: "BasePolicy list"

record Config =
  DecisionWait :: int
  NumTraces :: nat
  ExpectedNewTracesPerSec :: nat
  PolicyCfgs :: "PolicyGroupCfg list"
  Version :: int

text \<open>\<open>Validate\<close>: the errors that are combined, in order; none for a valid configuration.\<close>

definition Validate :: "Config \<Rightarrow> error list" where
  "Validate c = map (\<lambda>p. Name (Base p) @ '': '' @ ''priority must be greater than 1'')
     (filter (\<lambda>p. Priority (Base p) = 0) (PolicyCfgs c))"

section \<open>Construction (evaluator.go)\<close>

definition prepareFilterEvaluators :: "('v, 'c) lib \<Rightarrow> PolicyFilterCfg \<Rightarrow> 'c PolicyEvaluator list" where
  "prepareFilterEvaluators L cfg =
     map (\<lambda>s. NewStringAttributeFilter L (strKey s) (Values s) (EnabledRegexMatching s) (CacheMaxSize s) (InvertMatch s))
       (StringAttributeCfgs cfg)
     @ map (\<lambda>n. numericAttributeFilter (numKey n) (MinValue n) (MaxValue n)) (NumericAttributeCfgs cfg)"

text \<open>The sampling method and the sampler for a percentage.\<close>

definition newSampler :: "rat \<Rightarrow> string \<times> 'c PolicyEvaluator" where
  "newSampler percentage =
     (if percentage = 0 then (''exclude_all'', neverSample)
      else if percentage = 100 then (''include_all'', alwaysSample)
      else (''probabilistic'', NewProbabilisticSampler '''' percentage))"

text \<open>
  \<open>NewDefaultEvaluator\<close> calls itself for the sub-policies with no sub-policies of their own;
  \<open>newEvaluator\<close> is its body once the sub-evaluators are known.
\<close>

definition newEvaluator :: "('v, 'c) lib \<Rightarrow> BasePolicy \<Rightarrow> 'c PolicyEvaluator list \<Rightarrow> 'c PolicyEvaluator" where
  "newEvaluator L cfg subEvaluators =
     (case newSampler (SamplingPercentage (Sampling cfg)) of
        (samplingMethod, sampler) \<Rightarrow>
          defaultEvaluator (Name cfg) sampler samplingMethod (FilterOp (PolicyFilter cfg))
            (prepareFilterEvaluators L (PolicyFilter cfg)) subEvaluators)"

definition NewDefaultEvaluator ::
    "('v, 'c) lib \<Rightarrow> (BasePolicy list \<Rightarrow> BasePolicy list) \<Rightarrow> BasePolicy \<Rightarrow> BasePolicy list \<Rightarrow> 'c PolicyEvaluator" where
  "NewDefaultEvaluator L sorter policyCfg subpolicies =
     newEvaluator L policyCfg (map (\<lambda>subRule. newEvaluator L subRule []) (sorter subpolicies))"

definition slice_sort :: "('a \<Rightarrow> int) \<Rightarrow> ('a list \<Rightarrow> 'a list) \<Rightarrow> bool" where
  "slice_sort key sorter \<longleftrightarrow> (\<forall>xs. mset (sorter xs) = mset xs \<and> sorted (map key (sorter xs)))"

lemma slice_sort_sort_key: "slice_sort key (sort_key key)"
  by (simp add: slice_sort_def)

section \<open>Evaluators as functions of the trace\<close>

text \<open>
  \<open>behaves L f e\<close>: whatever the sequence of calls, the evaluator \<open>e\<close> answers \<open>f id trace\<close> and
  never an error. Caches change, the answers do not.
\<close>

coinductive behaves ::
    "('v, 'c) lib \<Rightarrow> (TraceID \<Rightarrow> 'v TraceData \<Rightarrow> Decision) \<Rightarrow> 'c PolicyEvaluator \<Rightarrow> bool"
  for L f where
  behavesI: "(\<And>now tid trace. fst (Evaluate L now tid trace e) = (f tid trace, None) \<and>
    behaves L f (snd (Evaluate L now tid trace e))) \<Longrightarrow> behaves L f e"

lemma behavesD:
  assumes "behaves L f e"
  shows "fst (Evaluate L now tid trace e) = (f tid trace, None)"
    and "behaves L f (snd (Evaluate L now tid trace e))"
  using assms by (auto elim: behaves.cases)

lemma behaves_stateless:
  assumes "\<And>now tid trace. Evaluate L now tid trace e = ((f tid trace, None), e)"
  shows "behaves L f e"
  by (coinduction rule: behaves.coinduct) (simp add: assms)

lemma behaves_seq:
  "behaves L f e \<Longrightarrow> fst (Evaluate_seq L calls e) = map (\<lambda>(now, tid, trace). f tid trace) calls"
proof (induction calls arbitrary: e)
  case (Cons call calls)
  obtain now tid trace where call: "call = (now, tid, trace)" by (cases call)
  from behavesD [OF Cons.prems, of now tid trace] Cons.IH show ?case
    by (simp add: call del: Evaluate_seq.simps)
qed simp

subsection \<open>The filters and the samplers\<close>

definition string_spec :: "('v, 'c) lib \<Rightarrow> StringAttributeCfg \<Rightarrow> 'v TraceData \<Rightarrow> Decision" where
  "string_spec L s trace = string_decision
     (string_hit L (strKey s) (\<lambda>v. if EnabledRegexMatching s then \<exists>r \<in> set (Values s). MatchString L r v
                                    else v \<noteq> [] \<and> v \<in> set (Values s)) trace) (InvertMatch s)"

lemma behaves_string:
  assumes "lru_laws L" and "cache_ok L m"
  shows "behaves L (\<lambda>tid trace. string_decision (string_hit L key (plain_match L m) trace) inverted)
    (stringAttributeFilter key m inverted)"
proof -
  define f where "f = plain_match L m"
  have "behaves L (\<lambda>tid trace. string_decision (string_hit L key f trace) inverted) e"
    if "\<exists>m'. e = stringAttributeFilter key m' inverted \<and> cache_ok L m' \<and> plain_match L m' = f" for e
    using that
  proof (coinduction arbitrary: e rule: behaves.coinduct)
    case behaves
    then obtain m' where e: "e = stringAttributeFilter key m' inverted" and ok: "cache_ok L m'"
      and f: "plain_match L m' = f" by blast
    show ?case
      using stringFilter_Evaluate_plain [OF assms(1) ok, of key inverted] f
      by (auto simp: e case_prod_beta)
  qed
  then show ?thesis using assms(2) unfolding f_def by blast
qed

lemma behaves_NewStringAttributeFilter:
  assumes "lru_laws L"
  shows "behaves L (\<lambda>tid. string_spec L s)
    (NewStringAttributeFilter L (strKey s) (Values s) (EnabledRegexMatching s) (CacheMaxSize s) (InvertMatch s))"
proof -
  obtain m where m: "NewStringAttributeFilter L (strKey s) (Values s) (EnabledRegexMatching s) (CacheMaxSize s)
      (InvertMatch s) = stringAttributeFilter (strKey s) m (InvertMatch s)" "cache_ok L m"
    "plain_match L m = (\<lambda>v. if EnabledRegexMatching s then \<exists>r \<in> set (Values s). MatchString L r v
      else v \<noteq> [] \<and> v \<in> set (Values s))"
    by (rule NewStringAttributeFilter_matcher [OF assms])
  show ?thesis using behaves_string [OF assms m(2), of "strKey s" "InvertMatch s"]
    by (simp add: m(1) m(3) string_spec_def [abs_def])
qed

definition numeric_spec :: "('v, 'c) lib \<Rightarrow> NumericAttributeCfg \<Rightarrow> 'v TraceData \<Rightarrow> Decision" where
  "numeric_spec L n trace =
     (if \<exists>x \<in> set (all_spans (ReceivedBatches trace)).
           \<exists>v. map_of (spanAttributes x) (numKey n) = Some v \<and> MinValue n \<le> IntOf L v \<and> IntOf L v \<le> MaxValue n
      then Sampled else NotSampled)"

lemma behaves_numeric:
  "behaves L (\<lambda>tid. numeric_spec L n) (numericAttributeFilter (numKey n) (MinValue n) (MaxValue n))"
proof (rule behaves_stateless)
  have "(case map_of (spanAttributes x) k of Some v \<Rightarrow> P v | None \<Rightarrow> False) \<longleftrightarrow>
      (\<exists>v. map_of (spanAttributes x) k = Some v \<and> P v)" for x :: "'a Span" and k P
    by (auto split: option.splits)
  then show "Evaluate L now tid trace (numericAttributeFilter (numKey n) (MinValue n) (MaxValue n)) =
      ((numeric_spec L n trace, None), numericAttributeFilter (numKey n) (MinValue n) (MaxValue n))" for now tid trace
    by (simp add: numericFilter_Evaluate_def numeric_spec_def go_simps)
qed

definition sampler_spec :: "rat \<Rightarrow> TraceID \<Rightarrow> Decision" where
  "sampler_spec percentage tid =
     (if percentage = 0 then NotSampled else if percentage = 100 then Sampled
      else probabilistic_Evaluate (calculateThreshold (float_div percentage 100)) defaultHashSalt tid)"

lemma behaves_sampler: "behaves L (\<lambda>tid trace. sampler_spec p tid) (snd (newSampler p))"
  by (rule behaves_stateless) (simp add: newSampler_def sampler_spec_def NewProbabilisticSampler_def)

lemma sampler_spec_cases: "sampler_spec p tid = Sampled \<or> sampler_spec p tid = NotSampled"
  by (auto simp: sampler_spec_def probabilistic_Evaluate_def)

subsection \<open>A policy group\<close>

text \<open>
  The loops of \<open>defaultEvaluator.Evaluate\<close> over evaluators that behave as functions: the
  filters match when one of them answers \<open>Sampled\<close> and, with the operator "and", none answers
  \<open>NotSampled\<close>.
\<close>

definition filters_match :: "string \<Rightarrow> Decision list \<Rightarrow> bool" where
  "filters_match fop ds \<longleftrightarrow>
     Sampled \<in> set ds \<and> \<not> (toLower fop = ''and'' \<and> NotSampled \<in> set ds)"

lemma filters_loop_behaves:
  assumes "list_all2 (\<lambda>f e. behaves L f e) fs es"
  shows "\<exists>r es'. filters_loop (Evaluate L now tid trace) fop b es = (r, es') \<and>
      list_all2 (\<lambda>f e. behaves L f e) fs es' \<and>
      (r = Inl NoResult \<or> (\<exists>m. r = Inr m)) \<and>
      (r = Inr True) = ((b \<or> Sampled \<in> set (map (\<lambda>f. f tid trace) fs)) \<and>
        \<not> (toLower fop = ''and'' \<and> NotSampled \<in> set (map (\<lambda>f. f tid trace) fs)))"
  using assms
proof (induction fs es arbitrary: b rule: list_all2_induct)
  case (Cons f fs e es)
  obtain e' where e': "Evaluate L now tid trace e = ((f tid trace, None), e')"
    using behavesD(1) [OF Cons.hyps(1), of now tid trace] by (metis prod.collapse)
  have "behaves L f e'" using behavesD(2) [OF Cons.hyps(1), of now tid trace] e' by simp
  with Cons.IH [of "b \<or> f tid trace = Sampled"] Cons.hyps e' show ?case by auto
qed auto

fun first_result :: "(TraceID \<Rightarrow> 'v TraceData \<Rightarrow> Decision) list \<Rightarrow> TraceID \<Rightarrow> 'v TraceData \<Rightarrow> Decision option" where
  "first_result [] tid trace = None"
| "first_result (f # fs) tid trace = (if f tid trace = NoResult then first_result fs tid trace else Some (f tid trace))"

lemma subs_loop_behaves:
  assumes "list_all2 (\<lambda>f e. behaves L f e) fs es"
  shows "\<exists>es'. subs_loop (Evaluate L now tid trace) es = (first_result fs tid trace, es') \<and>
      list_all2 (\<lambda>f e. behaves L f e) fs es'"
  using assms
proof (induction fs es rule: list_all2_induct)
  case (Cons f fs e es)
  obtain e' where e': "Evaluate L now tid trace e = ((f tid trace, None), e')"
    using behavesD(1) [OF Cons.hyps(1), of now tid trace] by (metis prod.collapse)
  have "behaves L f e'" using behavesD(2) [OF Cons.hyps(1), of now tid trace] e' by simp
  with Cons.IH Cons.hyps e' show ?case by auto
qed auto

definition evaluator_spec ::
    "string \<Rightarrow> (TraceID \<Rightarrow> 'v TraceData \<Rightarrow> Decision) list \<Rightarrow> (TraceID \<Rightarrow> 'v TraceData \<Rightarrow> Decision) list
      \<Rightarrow> (TraceID \<Rightarrow> 'v TraceData \<Rightarrow> Decision) \<Rightarrow> TraceID \<Rightarrow> 'v TraceData \<Rightarrow> Decision" where
  "evaluator_spec fop filters subs sampler tid trace =
     (if filters_match fop (map (\<lambda>f. f tid trace) filters)
      then (case first_result subs tid trace of Some d \<Rightarrow> d | None \<Rightarrow> sampler tid trace)
      else NoResult)"

lemma Evaluate_default:
  assumes "behaves L s sampler" and "list_all2 (\<lambda>f e. behaves L f e) ffs filters"
    and "list_all2 (\<lambda>f e. behaves L f e) sfs subs"
  shows "\<exists>sampler' filters' subs'.
    Evaluate L now tid trace (defaultEvaluator name sampler meth fop filters subs) =
      ((evaluator_spec fop ffs sfs s tid trace, None), defaultEvaluator name sampler' meth fop filters' subs')
    \<and> behaves L s sampler' \<and> list_all2 (\<lambda>f e. behaves L f e) ffs filters'
    \<and> list_all2 (\<lambda>f e. behaves L f e) sfs subs'"
proof -
  obtain r fs' where f: "filters_loop (Evaluate L now tid trace) fop False filters = (r, fs')"
    "list_all2 (\<lambda>f e. behaves L f e) ffs fs'" "r = Inl NoResult \<or> (\<exists>m. r = Inr m)"
    "(r = Inr True) = filters_match fop (map (\<lambda>f. f tid trace) ffs)"
    using filters_loop_behaves [OF assms(2), of now tid trace fop False] by (auto simp: filters_match_def)
  obtain ss' where ss: "subs_loop (Evaluate L now tid trace) subs = (first_result sfs tid trace, ss')"
    "list_all2 (\<lambda>f e. behaves L f e) sfs ss'"
    using subs_loop_behaves [OF assms(3), of now tid trace] by blast
  obtain sm' where sm: "Evaluate L now tid trace sampler = ((s tid trace, None), sm')" "behaves L s sm'"
    using behavesD [OF assms(1), of now tid trace] by (metis prod.collapse)
  show ?thesis
  proof (cases "r = Inr True")
    case True
    with f ss sm assms show ?thesis
      by (cases "first_result sfs tid trace") (simp_all add: evaluator_spec_def)
  next
    case False
    then have "r = Inl NoResult \<or> r = Inr False" using f(3) by auto
    with f False assms show ?thesis by (auto simp: evaluator_spec_def)
  qed
qed

lemma behaves_default:
  assumes "behaves L s sampler" and "list_all2 (\<lambda>f e. behaves L f e) ffs filters"
    and "list_all2 (\<lambda>f e. behaves L f e) sfs subs"
  shows "behaves L (evaluator_spec fop ffs sfs s) (defaultEvaluator name sampler meth fop filters subs)"
proof -
  have "behaves L (evaluator_spec fop ffs sfs s) e"
    if "\<exists>sampler filters subs. e = defaultEvaluator name sampler meth fop filters subs \<and> behaves L s sampler
      \<and> list_all2 (\<lambda>f e. behaves L f e) ffs filters \<and> list_all2 (\<lambda>f e. behaves L f e) sfs subs" for e
    using that
  proof (coinduction arbitrary: e rule: behaves.coinduct)
    case behaves
    then obtain sampler filters subs where e: "e = defaultEvaluator name sampler meth fop filters subs"
      "behaves L s sampler" "list_all2 (\<lambda>f e. behaves L f e) ffs filters" "list_all2 (\<lambda>f e. behaves L f e) sfs subs"
      by blast
    show ?case
    proof (intro exI [of _ e] conjI refl allI)
      fix now tid trace
      from Evaluate_default [OF e(2-4), of now tid trace name meth fop] show
        "fst (Evaluate L now tid trace e) = (evaluator_spec fop ffs sfs s tid trace, None)"
        "(\<exists>ea. snd (Evaluate L now tid trace e) = ea \<and>
           (\<exists>sampler filters subs. ea = defaultEvaluator name sampler meth fop filters subs \<and> behaves L s sampler
             \<and> list_all2 (\<lambda>f e. behaves L f e) ffs filters \<and> list_all2 (\<lambda>f e. behaves L f e) sfs subs)) \<or>
         behaves L (evaluator_spec fop ffs sfs s) (snd (Evaluate L now tid trace e))"
        unfolding e(1) by (elim exE conjE, simp)+
    qed
  qed
  then show ?thesis using assms by blast
qed

subsection \<open>The specification of a policy\<close>

definition filter_specs :: "('v, 'c) lib \<Rightarrow> PolicyFilterCfg \<Rightarrow> (TraceID \<Rightarrow> 'v TraceData \<Rightarrow> Decision) list" where
  "filter_specs L cfg = map (\<lambda>s tid. string_spec L s) (StringAttributeCfgs cfg)
     @ map (\<lambda>n tid. numeric_spec L n) (NumericAttributeCfgs cfg)"

definition policy_matches :: "('v, 'c) lib \<Rightarrow> BasePolicy \<Rightarrow> TraceID \<Rightarrow> 'v TraceData \<Rightarrow> bool" where
  "policy_matches L p tid trace \<longleftrightarrow>
     filters_match (FilterOp (PolicyFilter p)) (map (\<lambda>f. f tid trace) (filter_specs L (PolicyFilter p)))"

definition policy_sample :: "BasePolicy \<Rightarrow> TraceID \<Rightarrow> Decision" where
  "policy_sample p tid = sampler_spec (SamplingPercentage (Sampling p)) tid"

definition group_spec :: "('v, 'c) lib \<Rightarrow> BasePolicy \<Rightarrow> BasePolicy list \<Rightarrow> TraceID \<Rightarrow> 'v TraceData \<Rightarrow> Decision" where
  "group_spec L p subs tid trace =
     (if policy_matches L p tid trace
      then (case find (\<lambda>q. policy_matches L q tid trace) subs of
              Some q \<Rightarrow> policy_sample q tid | None \<Rightarrow> policy_sample p tid)
      else NoResult)"

lemma behaves_filters:
  assumes "lru_laws L"
  shows "list_all2 (\<lambda>f e. behaves L f e) (filter_specs L cfg) (prepareFilterEvaluators L cfg)"
  unfolding filter_specs_def prepareFilterEvaluators_def
  by (intro list_all2_appendI)
    (simp_all add: list_all2_map1 list_all2_map2 list_all2_same behaves_NewStringAttributeFilter [OF assms] behaves_numeric)

lemma behaves_newEvaluator:
  assumes "lru_laws L" and "list_all2 (\<lambda>f e. behaves L f e) sfs subs"
  shows "behaves L (evaluator_spec (FilterOp (PolicyFilter p)) (filter_specs L (PolicyFilter p)) sfs
      (\<lambda>tid trace. policy_sample p tid)) (newEvaluator L p subs)"
  using behaves_default [OF behaves_sampler behaves_filters [OF assms(1)] assms(2)]
  by (simp add: newEvaluator_def policy_sample_def case_prod_beta)

lemma first_result_subs:
  "first_result (map (\<lambda>q. evaluator_spec (FilterOp (PolicyFilter q)) (filter_specs L (PolicyFilter q)) []
      (\<lambda>tid trace. policy_sample q tid)) subs) tid trace =
   map_option (\<lambda>q. policy_sample q tid) (find (\<lambda>q. policy_matches L q tid trace) subs)"
proof (induction subs)
  case (Cons q subs)
  have "policy_sample q tid \<noteq> NoResult"
    using sampler_spec_cases [of "SamplingPercentage (Sampling q)" tid] by (auto simp: policy_sample_def)
  with Cons show ?case by (simp add: evaluator_spec_def policy_matches_def)
qed simp

lemma behaves_NewDefaultEvaluator:
  assumes "lru_laws L"
  shows "behaves L (group_spec L p (sorter subs)) (NewDefaultEvaluator L sorter p subs)"
proof -
  let ?sub = "\<lambda>q. evaluator_spec (FilterOp (PolicyFilter q)) (filter_specs L (PolicyFilter q)) []
      (\<lambda>tid trace. policy_sample q tid)"
  have "list_all2 (\<lambda>f e. behaves L f e) (map ?sub (sorter subs)) (map (\<lambda>q. newEvaluator L q []) (sorter subs))"
    using behaves_newEvaluator [OF assms list_all2_Nil [THEN iffD2]]
    by (simp add: list_all2_map1 list_all2_map2 list_all2_same)
  from behaves_newEvaluator [OF assms this, of p]
  have "behaves L (evaluator_spec (FilterOp (PolicyFilter p)) (filter_specs L (PolicyFilter p))
      (map ?sub (sorter subs)) (\<lambda>tid trace. policy_sample p tid)) (NewDefaultEvaluator L sorter p subs)"
    by (simp add: NewDefaultEvaluator_def)
  moreover have "evaluator_spec (FilterOp (PolicyFilter p)) (filter_specs L (PolicyFilter p))
      (map ?sub (sorter subs)) (\<lambda>tid trace. policy_sample p tid) = group_spec L p (sorter subs)"
    by (auto simp: fun_eq_iff evaluator_spec_def group_spec_def policy_matches_def first_result_subs split: option.splits)
  ultimately show ?thesis by simp
qed

section \<open>Properties of policy groups\<close>

definition example_policy :: "string \<Rightarrow> int \<Rightarrow> rat \<Rightarrow> string \<Rightarrow> bool \<Rightarrow> BasePolicy" where
  "example_policy name prio percentage val inverted =
     \<lparr>Name = name, PolicyType = ''policy_group'', Priority = prio,
      Sampling = \<lparr>HashSalt = [], SamplingPercentage = percentage\<rparr>,
      PolicyFilter = \<lparr>FilterOp = ''and'',
        StringAttributeCfgs = [\<lparr>strKey = ''k'', Values = [val], EnabledRegexMatching = True, CacheMaxSize = 0,
          InvertMatch = inverted\<rparr>],
        NumericAttributeCfgs = []\<rparr>\<rparr>"

lemma example_policy_matches [simp]:
  "policy_matches example_lib (example_policy name prio percentage val inverted) tid
     (example_trace n [example_span [(''k'', Inl v)] t u]) \<longleftrightarrow> v = val \<and> v \<noteq> [] \<and> \<not> inverted"
  by (auto simp: policy_matches_def filters_match_def filter_specs_def string_spec_def string_decision_def
      string_hit_def trace_has_def attr_hit_def example_policy_def example_lib_def example_trace_def
      example_span_def)



text \<open>
  Sub-policies go by priority: when the filters of a group match and those of some sub-policy
  do, the decision is the sampling of a matching sub-policy that no matching sub-policy precedes
  in priority, whatever order the configuration lists them in.
\<close>

theorem sub_policy_priority:
  assumes "lru_laws L" and "slice_sort Priority sorter"
    and "policy_matches L p tid trace" and "q \<in> set subs" and "policy_matches L q tid trace"
  shows "\<exists>r \<in> set subs. policy_matches L r tid trace \<and>
    (\<forall>q' \<in> set subs. policy_matches L q' tid trace \<longrightarrow> Priority r \<le> Priority q') \<and>
    fst (fst (Evaluate L now tid trace (NewDefaultEvaluator L sorter p subs))) = policy_sample r tid"
proof -
  have m: "mset (sorter subs) = mset subs" and s: "sorted (map Priority (sorter subs))"
    using assms(2) by (auto simp: slice_sort_def)
  have set: "set (sorter subs) = set subs" using m by (metis set_mset_mset)
  let ?P = "\<lambda>q. policy_matches L q tid trace"
  obtain r where r: "find ?P (sorter subs) = Some r"
    using assms(4,5) set by (cases "find ?P (sorter subs)") (auto simp: find_None_iff)
  then obtain i where i: "i < length (sorter subs)" "?P (sorter subs ! i)" "r = sorter subs ! i"
    "\<forall>j<i. \<not> ?P (sorter subs ! j)" by (auto simp: find_Some_iff)
  have "Priority r \<le> Priority q'" if q': "q' \<in> set subs" "?P q'" for q'
  proof -
    obtain j where j: "j < length (sorter subs)" "q' = sorter subs ! j" using q' set by (metis in_set_conv_nth)
    have "i \<le> j" using i(4) j q'(2) by (meson not_less)
    with sorted_nth_mono [OF s this] i j show ?thesis by simp
  qed
  moreover have "r \<in> set subs" using i(1,3) set nth_mem by metis
  moreover have "fst (fst (Evaluate L now tid trace (NewDefaultEvaluator L sorter p subs))) = policy_sample r tid"
    using behavesD(1) [OF behaves_NewDefaultEvaluator [OF assms(1)]] assms(3) r by (simp add: group_spec_def)
  ultimately show ?thesis using i(2,3) by blast
qed

theorem sub_policy_priority_witness:
  "\<exists>r \<in> set [example_policy ''x'' 7 100 ''a'' False, example_policy ''y'' 2 0 ''a'' False].
    policy_matches example_lib r [1] (example_trace 1 [example_span [(''k'', Inl ''a'')] 1 2]) \<and>
    (\<forall>q' \<in> set [example_policy ''x'' 7 100 ''a'' False, example_policy ''y'' 2 0 ''a'' False].
      policy_matches example_lib q' [1] (example_trace 1 [example_span [(''k'', Inl ''a'')] 1 2])
        \<longrightarrow> Priority r \<le> Priority q') \<and>
    fst (fst (Evaluate example_lib 0 [1] (example_trace 1 [example_span [(''k'', Inl ''a'')] 1 2])
      (NewDefaultEvaluator example_lib (sort_key Priority) (example_policy ''p'' 1 100 ''a'' False)
        [example_policy ''x'' 7 100 ''a'' False, example_policy ''y'' 2 0 ''a'' False]))) = policy_sample r [1]"
  by (rule sub_policy_priority [OF lru_laws_example slice_sort_sort_key, of _ _ _ "example_policy ''y'' 2 0 ''a'' False"])
    simp_all

text \<open>
  A policy all of whose filters are inverted string filters never applies: an inverted filter
  answers \<open>InvertSampled\<close> or \<open>InvertNotSampled\<close>, the group looks for \<open>Sampled\<close> only, so every
  trace gets \<open>NoResult\<close>, including those whose attribute does not have the listed value.
\<close>

theorem inverted_filters_never_match:
  assumes "lru_laws L" and "list_all InvertMatch (StringAttributeCfgs (PolicyFilter p))"
    and "NumericAttributeCfgs (PolicyFilter p) = []"
  shows "fst (Evaluate_seq L calls (NewDefaultEvaluator L sorter p subs)) = replicate (length calls) NoResult"
proof -
  have "\<not> policy_matches L p tid trace" for tid trace
    using assms(2,3)
    by (auto simp: policy_matches_def filters_match_def filter_specs_def string_spec_def string_decision_def list_all_iff
        split: if_splits)
  then have "group_spec L p (sorter subs) tid trace = NoResult" for tid trace by (simp add: group_spec_def)
  moreover have "map (\<lambda>(now, tid, trace). NoResult) calls = replicate (length calls) NoResult"
    by (induction calls) auto
  ultimately show ?thesis using behaves_seq [OF behaves_NewDefaultEvaluator [OF assms(1)], of calls sorter p subs]
    by simp
qed

theorem inverted_filters_never_match_witness:
  "fst (Evaluate_seq example_lib [(0, [1], example_trace 1 [example_span [(''k'', Inl ''b'')] 1 2])]
    (NewDefaultEvaluator example_lib (\<lambda>xs. xs) (example_policy ''p'' 1 100 ''a'' True) [])) = [NoResult]"
  using inverted_filters_never_match [OF lru_laws_example, of "example_policy ''p'' 1 100 ''a'' True"
      "[(0, [1], example_trace 1 [example_span [(''k'', Inl ''b'')] 1 2])]" "\<lambda>xs. xs" "[]"]
  by (simp add: example_policy_def del: fst_Evaluate_seq Evaluate_seq.simps)

end
