(* ===== verification/TailProcessor.thy ===== *)
theory TailProcessor
  imports TailEvaluator IdBatcher
begin

text \<open>
  The tail sampling processor (\<open>processor/o11ytailsampler/processor.go\<close>): it groups the spans it
  receives by trace, keeps a bounded number of traces, decides each trace when the batcher gives
  its identifier back and forwards the spans of the sampled ones.

  The state is the record \<open>tsp\<close>. The calls of the next consumer are recorded in \<open>sent\<close>. A method
  answers \<open>Blocked\<close> where the goroutine would wait for ever and \<open>Panics\<close> on an index out of range
  or a send to a closed channel. Wall-clock time and the order in which Go ranges over a map are
  arguments.

  \<open>ConsumeTraces\<close> runs in the goroutines of the receivers and \<open>samplingPolicyOnTick\<close> in that of
  the ticker. The bodies of their loops over trace identifiers are definitions of their own
  (\<open>process_id\<close> and \<open>decide_id\<close>) and are the steps of \<open>tstep\<close>, so that calls interleave between
  identifiers. Metrics, logging and contexts are left out, except the counters that
  \<open>makeDecision\<close> updates.
\<close>

section \<open>State\<close>

record 'c policy =
  policyName :: string
  policyEvaluator :: "'c PolicyEvaluator"

record policyMetrics =
  idNotFoundOnMapCount :: int
  evaluateErrorCount :: int
  decisionSampled :: int
  decisionNotSampled :: int

record ('v, 'c) tsp =
  maxNumTraces :: nat
  policies :: "'c policy list"
  idToTrace :: "TraceID \<rightharpoonup> 'v TraceData"
  decisionBatcher :: "TraceID batcher"
  deleteChan :: "TraceID channel"
  numTracesOnMap :: "64 word"
  sent :: "'v Traces list"

text \<open>
  What the constructor takes from outside the repository: the sorts, the validation of a tag, the
  combination of errors, the number of processors.
\<close>

record env =
  sortSubs :: "BasePolicy list \<Rightarrow> BasePolicy list"
  sortGroups :: "PolicyGroupCfg list \<Rightarrow> PolicyGroupCfg list"
  tagNew :: "string \<Rightarrow> error option"
  multierrCombine :: "error list \<Rightarrow> string"
  NumCPU :: nat

section \<open>Construction\<close>

text \<open>\<open>copy(dst, src)\<close> of the language: as many elements as the shorter slice has.\<close>

definition copy_slice :: "'a list \<Rightarrow> 'a list \<Rightarrow> 'a list" where
  "copy_slice dst src = take (length dst) src @ drop (length src) dst"

text \<open>
  \<open>uint64(d.Seconds())\<close> for a duration in nanoseconds that is not negative: whole seconds plus
  the rest as a fraction, in double precision, truncated.
\<close>

definition seconds :: "int \<Rightarrow> nat" where
  "seconds d = nat \<lfloor>round_prec 53 (of_int (go_div d 1000000000)
      + round_prec 53 (of_int (d - 1000000000 * go_div d 1000000000) / 1000000000))\<rfloor>"

fun newPolicies ::
    "('v, 'c) lib \<Rightarrow> env \<Rightarrow> PolicyGroupCfg list \<Rightarrow> 'c policy list result" where
  "newPolicies L env [] = Inr []"
| "newPolicies L env (policyCfg # rest) =
     (case tagNew env (Name (Base policyCfg)) of
        Some err \<Rightarrow> Inl err
      | None \<Rightarrow> (case newPolicies L env rest of
            Inl err \<Rightarrow> Inl err
          | Inr ps \<Rightarrow> Inr (\<lparr>policyName = Name (Base policyCfg),
                policyEvaluator = NewDefaultEvaluator L (sortSubs env) (Base policyCfg) (SubPolicies policyCfg)\<rparr> # ps)))"

definition newTracesProcessor :: "('v, 'c) lib \<Rightarrow> env \<Rightarrow> Config \<Rightarrow> ('v, 'c) tsp result" where
  "newTracesProcessor L env cfg =
     (if Validate cfg \<noteq> [] then Inl (''config invalid: '' @ multierrCombine env (Validate cfg))
      else case New (seconds (DecisionWait cfg)) (ExpectedNewTracesPerSec cfg) (2 * NumCPU env) of
        Inl err \<Rightarrow> Inl err
      | Inr inBatcher \<Rightarrow>
          (case newPolicies L env (sortGroups env (copy_slice [] (PolicyCfgs cfg))) of
             Inl err \<Rightarrow> Inl err
           | Inr ps \<Rightarrow> Inr \<lparr>maxNumTraces = NumTraces cfg, policies = ps, idToTrace = Map.empty,
               decisionBatcher = inBatcher,
               deleteChan = \<lparr>elems = [], cap = NumTraces cfg, closed = False\<rparr>,
               numTracesOnMap = 0, sent = []\<rparr>))"

section \<open>Decisions\<close>

text \<open>The loop of \<open>makeDecision\<close> from index \<open>i\<close> on.\<close>

fun decision_loop ::
    "('v, 'c) lib \<Rightarrow> int \<Rightarrow> TraceID \<Rightarrow> nat \<Rightarrow> 'c policy list \<Rightarrow> 'v TraceData \<Rightarrow> policyMetrics
      \<Rightarrow> ((Decision \<times> string option) \<times> 'c policy list \<times> 'v TraceData \<times> policyMetrics) outcome" where
  "decision_loop L now tid i [] trace metrics = Done ((NoResult, None), [], trace, metrics)"
| "decision_loop L now tid i (p # ps) trace metrics =
     (case Evaluate L now tid trace (policyEvaluator p) of
        ((decision, err), e') \<Rightarrow>
          let p' = p\<lparr>policyEvaluator := e'\<rparr>;
              trace' = trace\<lparr>Decisions := (Decisions trace)[i := decision]\<rparr>;
              metrics' = (if err \<noteq> None then metrics\<lparr>evaluateErrorCount := evaluateErrorCount metrics + 1\<rparr> else metrics)
          in if length (Decisions trace) \<le> i then Panics
             else if decision = Sampled \<or> decision = NotSampled
             then Done ((decision, Some (policyName p)), p' # ps, trace', metrics')
             else (case decision_loop L now tid (Suc i) ps trace' metrics' of
                     Done (r, ps', trace'', metrics'') \<Rightarrow> Done (r, p' # ps', trace'', metrics'')
                   | Blocked \<Rightarrow> Blocked | Panics \<Rightarrow> Panics))"

definition makeDecision ::
    "('v, 'c) lib \<Rightarrow> int \<Rightarrow> TraceID \<Rightarrow> 'c policy list \<Rightarrow> 'v TraceData \<Rightarrow> policyMetrics
      \<Rightarrow> ((Decision \<times> string option) \<times> 'c policy list \<times> 'v TraceData \<times> policyMetrics) outcome" where
  "makeDecision L now tid ps trace metrics =
     (case decision_loop L now tid 0 ps trace metrics of
        Done ((finalDecision, matchingPolicy), ps', trace', metrics') \<Rightarrow>
          (let (final, matching) =
             (if finalDecision = NoResult then (Sampled, Some ''always_sample'') else (finalDecision, matchingPolicy))
           in Done ((final, matching), ps', trace',
                if final = Sampled then metrics'\<lparr>decisionSampled := decisionSampled metrics' + 1\<rparr>
                else if final = NotSampled then metrics'\<lparr>decisionNotSampled := decisionNotSampled metrics' + 1\<rparr>
                else metrics'))
      | Blocked \<Rightarrow> Blocked | Panics \<Rightarrow> Panics)"

text \<open>The body of the loop of \<open>samplingPolicyOnTick\<close>.\<close>

definition decide_id ::
    "('v, 'c) lib \<Rightarrow> int \<Rightarrow> TraceID \<Rightarrow> ('v, 'c) tsp \<times> policyMetrics \<Rightarrow> (('v, 'c) tsp \<times> policyMetrics) outcome" where
  "decide_id L now tid st =
     (case st of (s, metrics) \<Rightarrow>
       (case idToTrace s tid of
          None \<Rightarrow> Done (s, metrics\<lparr>idNotFoundOnMapCount := idNotFoundOnMapCount metrics + 1\<rparr>)
        | Some trace \<Rightarrow>
            (case makeDecision L now tid (policies s) (trace\<lparr>DecisionTime := now\<rparr>) metrics of
               Done ((decision, _), ps, trace', metrics') \<Rightarrow>
                 (let trace'' = trace'\<lparr>FinalDecision := decision\<rparr>;
                      s' = s\<lparr>policies := ps, idToTrace := (idToTrace s)(tid \<mapsto> trace'')\<rparr>
                  in Done (if decision = Sampled then s'\<lparr>sent := sent s' @ [ReceivedBatches trace'']\<rparr> else s', metrics'))
             | Blocked \<Rightarrow> Blocked | Panics \<Rightarrow> Panics)))"

fun decide_ids ::
    "('v, 'c) lib \<Rightarrow> int \<Rightarrow> TraceID list \<Rightarrow> ('v, 'c) tsp \<times> policyMetrics \<Rightarrow> (('v, 'c) tsp \<times> policyMetrics) outcome" where
  "decide_ids L now [] st = Done st"
| "decide_ids L now (tid # tids) st =
     (case decide_id L now tid st of
        Done st' \<Rightarrow> decide_ids L now tids st' | Blocked \<Rightarrow> Blocked | Panics \<Rightarrow> Panics)"

definition samplingPolicyOnTick ::
    "('v, 'c) lib \<Rightarrow> int \<Rightarrow> ('v, 'c) tsp \<Rightarrow> (('v, 'c) tsp \<times> policyMetrics) outcome" where
  "samplingPolicyOnTick L now s =
     (case CloseCurrentAndTakeFirstBatch (decisionBatcher s) of
        Done ((batch, _), b) \<Rightarrow> decide_ids L now batch (s\<lparr>decisionBatcher := b\<rparr>,
          \<lparr>idNotFoundOnMapCount = 0, evaluateErrorCount = 0, decisionSampled = 0, decisionNotSampled = 0\<rparr>)
      | Blocked \<Rightarrow> Blocked | Panics \<Rightarrow> Panics)"

section \<open>Receiving spans\<close>

definition groupSpansByTraceKey :: "'v ResourceSpans \<Rightarrow> (TraceID \<rightharpoonup> 'v Span list)" where
  "groupSpansByTraceKey resourceSpans =
     fold (\<lambda>ils m. fold (\<lambda>x m. m(spanTraceID x \<mapsto> (case m (spanTraceID x) of None \<Rightarrow> [] | Some xs \<Rightarrow> xs) @ [x])) ils m)
       (ScopeSpans resourceSpans) Map.empty"

definition appendToTraces :: "'v Traces \<Rightarrow> 'v ResourceSpans \<Rightarrow> 'v Span list \<Rightarrow> 'v Traces" where
  "appendToTraces dest rss spans = dest @ [\<lparr>ResourceAttributes = ResourceAttributes rss, ScopeSpans = [spans]\<rparr>]"

definition dropTrace :: "TraceID \<Rightarrow> ('v, 'c) tsp \<Rightarrow> ('v, 'c) tsp" where
  "dropTrace tid s = (case idToTrace s tid of
      Some _ \<Rightarrow> s\<lparr>idToTrace := (idToTrace s)(tid := None), numTracesOnMap := numTracesOnMap s + (- 1)\<rparr>
    | None \<Rightarrow> s)"

lemma dropTrace_deleteChan [simp]:
  "deleteChan (dropTrace tid s) = deleteChan s" "maxNumTraces (dropTrace tid s) = maxNumTraces s"
  "policies (dropTrace tid s) = policies s" "decisionBatcher (dropTrace tid s) = decisionBatcher s"
  "sent (dropTrace tid s) = sent s"
  by (auto simp: dropTrace_def split: option.splits)

text \<open>The loop that queues the identifier for deletion, dropping the oldest traces while the queue is full.\<close>

function post_deletion :: "TraceID \<Rightarrow> ('v, 'c) tsp \<Rightarrow> ('v, 'c) tsp outcome" where
  "post_deletion tid s =
     (case send tid (deleteChan s) of
        Done c \<Rightarrow> Done (s\<lparr>deleteChan := c\<rparr>)
      | Panics \<Rightarrow> Panics
      | Blocked \<Rightarrow>
          (case recv (deleteChan s) of
             Done (Some traceKeyToDrop, c) \<Rightarrow> post_deletion tid (dropTrace traceKeyToDrop (s\<lparr>deleteChan := c\<rparr>))
           | _ \<Rightarrow> Blocked))"
  by pat_completeness auto
termination
  by (relation "measure (\<lambda>(tid, s). length (elems (deleteChan s)))")
    (auto simp: recv_def split: list.splits if_splits)

declare post_deletion.simps [simp del]

text \<open>
  The body of the loop of \<open>processTraces\<close>: the spans of one trace of a resource. A full channel of
  the batcher makes the caller wait for the collecting goroutine. Had the loop dropped the new
  trace itself, the spans would go to an object nobody else sees.
\<close>

definition process_id ::
    "int \<Rightarrow> TraceID \<Rightarrow> 'v ResourceSpans \<Rightarrow> 'v Span list \<Rightarrow> ('v, 'c) tsp \<Rightarrow> ('v, 'c) tsp outcome" where
  "process_id now tid resourceSpans spans s =
     (let lenSpans = int (length spans);
          posted = (case idToTrace s tid of
             Some d \<Rightarrow> Done (s\<lparr>idToTrace := (idToTrace s)(tid \<mapsto> d\<lparr>SpanCount := i64 (SpanCount d + lenSpans)\<rparr>)\<rparr>)
           | None \<Rightarrow>
               if closed (pendingIds (decisionBatcher s)) then Panics
               else post_deletion tid (s\<lparr>
                 idToTrace := (idToTrace s)(tid \<mapsto> \<lparr>Decisions = replicate (length (policies s)) Pending,
                    ArrivalTime = now, DecisionTime = 0, SpanCount = lenSpans, ReceivedBatches = [],
                    FinalDecision = Unspecified\<rparr>),
                 decisionBatcher := enqueue tid (decisionBatcher s),
                 numTracesOnMap := numTracesOnMap s + 1\<rparr>))
      in case posted of
           Done s' \<Rightarrow>
             (case idToTrace s' tid of
                None \<Rightarrow> Done s'
              | Some d \<Rightarrow>
                  (case FinalDecision d of
                     Unspecified \<Rightarrow> Done (s'\<lparr>idToTrace := (idToTrace s')(tid \<mapsto>
                        d\<lparr>ReceivedBatches := appendToTraces (ReceivedBatches d) resourceSpans spans\<rparr>)\<rparr>)
                   | Sampled \<Rightarrow> Done (s'\<lparr>sent := sent s' @ [appendToTraces [] resourceSpans spans]\<rparr>)
                   | _ \<Rightarrow> Done s'))
         | Blocked \<Rightarrow> Blocked
         | Panics \<Rightarrow> Panics)"

fun process_ids ::
    "int \<Rightarrow> TraceID list \<Rightarrow> 'v ResourceSpans \<Rightarrow> (TraceID \<rightharpoonup> 'v Span list) \<Rightarrow> ('v, 'c) tsp \<Rightarrow> ('v, 'c) tsp outcome" where
  "process_ids now [] resourceSpans idToSpans s = Done s"
| "process_ids now (tid # tids) resourceSpans idToSpans s =
     (case process_id now tid resourceSpans (case idToSpans tid of None \<Rightarrow> [] | Some xs \<Rightarrow> xs) s of
        Done s' \<Rightarrow> process_ids now tids resourceSpans idToSpans s' | Blocked \<Rightarrow> Blocked | Panics \<Rightarrow> Panics)"

text \<open>\<open>ids\<close> is the order in which the language ranges over the map of the resource's spans.\<close>

definition processTraces :: "int \<Rightarrow> TraceID list \<Rightarrow> 'v ResourceSpans \<Rightarrow> ('v, 'c) tsp \<Rightarrow> ('v, 'c) tsp outcome" where
  "processTraces now ids resourceSpans s =
     process_ids now ids resourceSpans (groupSpansByTraceKey resourceSpans) s"

definition range_order :: "TraceID list \<Rightarrow> 'v ResourceSpans \<Rightarrow> bool" where
  "range_order ids rs \<longleftrightarrow> distinct ids \<and> set ids = dom (groupSpansByTraceKey rs)"

fun ConsumeTraces :: "int \<Rightarrow> TraceID list list \<Rightarrow> 'v Traces \<Rightarrow> ('v, 'c) tsp \<Rightarrow> ('v, 'c) tsp outcome" where
  "ConsumeTraces now idss [] s = Done s"
| "ConsumeTraces now idss (rs # td) s =
     (case processTraces now (hd idss) rs s of
        Done s' \<Rightarrow> ConsumeTraces now (tl idss) td s' | Blocked \<Rightarrow> Blocked | Panics \<Rightarrow> Panics)"

section \<open>Interleavings\<close>

text \<open>
  A state of the whole system: the processor and the identifiers of the current batch that the
  ticker has still to decide. The event says which spans a step received.
\<close>

datatype 'v tevent = Received TraceID "'v Span list" | Internal

inductive tstep ::
    "('v, 'c) lib \<Rightarrow> ('v, 'c) tsp \<times> TraceID list \<Rightarrow> 'v tevent \<Rightarrow> ('v, 'c) tsp \<times> TraceID list \<Rightarrow> bool" for L where
  tstep_receive: "process_id now tid rs spans s = Done s' \<Longrightarrow> list_all (\<lambda>x. spanTraceID x = tid) spans \<Longrightarrow>
    tstep L (s, q) (Received tid spans) (s', q)"
| tstep_take: "CloseCurrentAndTakeFirstBatch (decisionBatcher s) = Done ((batch, ok), b) \<Longrightarrow>
    tstep L (s, q) Internal (s\<lparr>decisionBatcher := b\<rparr>, q @ batch)"
| tstep_decide: "decide_id L now tid (s, m) = Done (s', m') \<Longrightarrow> tstep L (s, tid # q) Internal (s', q)"
| tstep_collect: "collect (decisionBatcher s) = Done (Some b) \<Longrightarrow>
    tstep L (s, q) Internal (s\<lparr>decisionBatcher := b\<rparr>, q)"

inductive truns ::
    "('v, 'c) lib \<Rightarrow> ('v, 'c) tsp \<times> TraceID list \<Rightarrow> 'v tevent list \<Rightarrow> ('v, 'c) tsp \<times> TraceID list \<Rightarrow> bool" for L where
  truns_nil: "truns L st [] st"
| truns_snoc: "truns L st evs st' \<Longrightarrow> tstep L st' ev st'' \<Longrightarrow> truns L st (evs @ [ev]) st''"

section \<open>The deletion queue\<close>

lemma post_deletion_room:
  assumes "length (elems (deleteChan s)) < cap (deleteChan s)" and "\<not> closed (deleteChan s)"
  shows "post_deletion tid s = Done (s\<lparr>deleteChan := deleteChan s\<lparr>elems := elems (deleteChan s) @ [tid]\<rparr>\<rparr>)"
  using assms by (simp add: post_deletion.simps send_def)

lemma post_deletion_full:
  assumes "length (elems (deleteChan s)) = cap (deleteChan s)" and "\<not> closed (deleteChan s)"
    and "elems (deleteChan s) = k # ks"
  shows "post_deletion tid s = Done (dropTrace k s\<lparr>deleteChan := deleteChan s\<lparr>elems := ks @ [tid]\<rparr>\<rparr>)"
proof -
  let ?s = "dropTrace k (s\<lparr>deleteChan := deleteChan s\<lparr>elems := ks\<rparr>\<rparr>)"
  have "post_deletion tid s = post_deletion tid ?s"
    using assms by (subst post_deletion.simps) (simp add: send_def recv_def)
  also have "\<dots> = Done (?s\<lparr>deleteChan := deleteChan ?s\<lparr>elems := elems (deleteChan ?s) @ [tid]\<rparr>\<rparr>)"
    using assms by (intro post_deletion_room) auto
  also have "?s\<lparr>deleteChan := deleteChan ?s\<lparr>elems := elems (deleteChan ?s) @ [tid]\<rparr>\<rparr>
      = dropTrace k s\<lparr>deleteChan := deleteChan s\<lparr>elems := ks @ [tid]\<rparr>\<rparr>"
    by (simp add: dropTrace_def split: option.splits)
  finally show ?thesis .
qed

section \<open>The invariant\<close>

text \<open>The deletion queue lists the stored traces, each once, within its capacity.\<close>

definition queue_inv :: "nat \<Rightarrow> ('v, 'c) tsp \<Rightarrow> bool" where
  "queue_inv n s \<longleftrightarrow> 0 < n \<and> cap (deleteChan s) = n \<and> \<not> closed (deleteChan s) \<and>
     distinct (elems (deleteChan s)) \<and> set (elems (deleteChan s)) = dom (idToTrace s) \<and>
     length (elems (deleteChan s)) \<le> n \<and> numTracesOnMap s = of_nat (length (elems (deleteChan s)))"

text \<open>Every stored trace has a decision per policy, and waits for its final one in the batcher or in the tick.\<close>

definition trace_inv :: "('v, 'c) tsp \<Rightarrow> TraceID list \<Rightarrow> TraceID \<Rightarrow> 'v TraceData \<Rightarrow> bool" where
  "trace_inv s q tid d \<longleftrightarrow> length (Decisions d) = length (policies s) \<and>
     FinalDecision d \<in> {Unspecified, Sampled, NotSampled} \<and>
     (FinalDecision d = Unspecified \<longrightarrow> tid \<in> set q \<union> set (held (decisionBatcher s)))"

definition tsp_inv :: "nat \<Rightarrow> nat \<Rightarrow> ('v, 'c) tsp \<times> TraceID list \<Rightarrow> bool" where
  "tsp_inv k n st \<longleftrightarrow> (case st of (s, q) \<Rightarrow> queue_inv n s \<and> running k (decisionBatcher s) \<and>
     (\<forall>tid d. idToTrace s tid = Some d \<longrightarrow> trace_inv s q tid d))"

text \<open>What becomes of a new trace: there is room, or the oldest trace goes.\<close>

lemma new_trace_queue:
  assumes "queue_inv n s" and "idToTrace s tid = None"
    and "s1 = s\<lparr>idToTrace := (idToTrace s)(tid \<mapsto> d), decisionBatcher := b, numTracesOnMap := numTracesOnMap s + 1\<rparr>"
  obtains s2 where "post_deletion tid s1 = Done s2" and "queue_inv n s2"
    and "idToTrace s2 tid = Some d" and "\<And>t. t \<noteq> tid \<Longrightarrow> idToTrace s2 t = idToTrace s t \<or> idToTrace s2 t = None"
    and "decisionBatcher s2 = b" and "policies s2 = policies s" and "sent s2 = sent s"
    and "card (dom (idToTrace s)) < n \<Longrightarrow> idToTrace s2 = (idToTrace s)(tid \<mapsto> d)"
proof -
  have q: "cap (deleteChan s) = n" "0 < n" "\<not> closed (deleteChan s)" "distinct (elems (deleteChan s))"
    "set (elems (deleteChan s)) = dom (idToTrace s)" "length (elems (deleteChan s)) \<le> n"
    "numTracesOnMap s = of_nat (length (elems (deleteChan s)))"
    using assms(1) by (auto simp: queue_inv_def)
  have fresh: "tid \<notin> set (elems (deleteChan s))" using q(5) assms(2) by auto
  have card: "card (dom (idToTrace s)) = length (elems (deleteChan s))" using q(4,5) distinct_card by metis
  show ?thesis
  proof (cases "length (elems (deleteChan s)) < n")
    case True
    let ?s2 = "s1\<lparr>deleteChan := deleteChan s\<lparr>elems := elems (deleteChan s) @ [tid]\<rparr>\<rparr>"
    have "post_deletion tid s1 = Done ?s2" using True q post_deletion_room [of s1 tid] assms(3) by simp
    moreover have "queue_inv n ?s2" using q True fresh assms(3) by (auto simp: queue_inv_def)
    ultimately show ?thesis using assms(3) by (intro that [of ?s2]) auto
  next
    case False
    then obtain k ks where k: "elems (deleteChan s) = k # ks" using q by (cases "elems (deleteChan s)") auto
    let ?s2 = "dropTrace k s1\<lparr>deleteChan := deleteChan s1\<lparr>elems := ks @ [tid]\<rparr>\<rparr>"
    have kin: "k \<in> dom (idToTrace s)" "k \<noteq> tid" "k \<notin> set ks" "tid \<notin> set ks"
      using q(4,5) k fresh by auto
    then obtain dk where dk: "idToTrace s k = Some dk" by auto
    let ?s3 = "s1\<lparr>idToTrace := ((idToTrace s)(tid \<mapsto> d))(k := None), numTracesOnMap := numTracesOnMap s,
        deleteChan := deleteChan s\<lparr>elems := ks @ [tid]\<rparr>\<rparr>"
    have "?s2 = ?s3" using kin dk assms(3) by (simp add: dropTrace_def)
    moreover have "post_deletion tid s1 = Done ?s2"
      using False q k assms(3) by (intro post_deletion_full) auto
    moreover have "dom (((idToTrace s)(tid \<mapsto> d))(k := None)) = set (ks @ [tid])"
      using q(5) k kin by (auto simp: dom_def split: if_splits)
    then have "queue_inv n ?s3" using q k kin assms(3) by (simp add: queue_inv_def)
    moreover have "\<not> card (dom (idToTrace s)) < n" using False card by simp
    ultimately show ?thesis using kin assms(3) by (intro that [of ?s3]) auto
  qed
qed

section \<open>Deciding\<close>

lemma decision_loop_done:
  assumes "i + length ps \<le> length (Decisions trace)"
  obtains d p ps' trace' m' where "decision_loop L now tid i ps trace m = Done ((d, p), ps', trace', m')"
    and "d \<in> {NoResult, Sampled, NotSampled}" and "length ps' = length ps"
    and "length (Decisions trace') = length (Decisions trace)" and "ReceivedBatches trace' = ReceivedBatches trace"
  using assms
proof (induction ps arbitrary: i trace m thesis)
  case Nil
  then show ?case by simp
next
  case (Cons p ps)
  obtain d err e' where ev: "Evaluate L now tid trace (policyEvaluator p) = ((d, err), e')" by (metis prod.exhaust)
  let ?trace = "trace\<lparr>Decisions := (Decisions trace)[i := d]\<rparr>"
  let ?m = "if err \<noteq> None then m\<lparr>evaluateErrorCount := evaluateErrorCount m + 1\<rparr> else m"
  have i: "\<not> length (Decisions trace) \<le> i" using Cons.prems(2) by simp
  show ?case
  proof (cases "d = Sampled \<or> d = NotSampled")
    case True
    with ev i have "decision_loop L now tid i (p # ps) trace m =
        Done ((d, Some (policyName p)), p\<lparr>policyEvaluator := e'\<rparr> # ps, ?trace, ?m)" by (simp add: Let_def)
    from Cons.prems(1) [OF this] True show ?thesis by auto
  next
    case False
    obtain d' p' ps' trace' m' where
      rest: "decision_loop L now tid (Suc i) ps ?trace ?m = Done ((d', p'), ps', trace', m')"
      and r: "d' \<in> {NoResult, Sampled, NotSampled}" "length ps' = length ps"
      "length (Decisions trace') = length (Decisions ?trace)" "ReceivedBatches trace' = ReceivedBatches ?trace"
      using Cons.prems(2) by (rule_tac Cons.IH [of "Suc i" ?trace ?m]) auto
    have "decision_loop L now tid i (p # ps) trace m =
        Done ((d', p'), p\<lparr>policyEvaluator := e'\<rparr> # ps', trace', m')" using ev i False rest by (simp add: Let_def)
    from Cons.prems(1) [OF this] r show ?thesis by simp
  qed
qed

lemma makeDecision_done:
  assumes "length ps \<le> length (Decisions trace)"
  obtains d p ps' trace' m' where "makeDecision L now tid ps trace m = Done ((d, p), ps', trace', m')"
    and "d = Sampled \<or> d = NotSampled" and "length ps' = length ps"
    and "length (Decisions trace') = length (Decisions trace)" and "ReceivedBatches trace' = ReceivedBatches trace"
proof -
  obtain d p ps' trace' m' where "decision_loop L now tid 0 ps trace m = Done ((d, p), ps', trace', m')"
    "d \<in> {NoResult, Sampled, NotSampled}" "length ps' = length ps"
    "length (Decisions trace') = length (Decisions trace)" "ReceivedBatches trace' = ReceivedBatches trace"
    using assms by (rule_tac decision_loop_done [of 0 ps trace L now tid m]) auto
  moreover define final matching where "final = (if d = NoResult then Sampled else d)"
    and "matching = (if d = NoResult then Some ''always_sample'' else p)"
  moreover define m'' where "m'' = (if final = Sampled then m'\<lparr>decisionSampled := decisionSampled m' + 1\<rparr>
    else if final = NotSampled then m'\<lparr>decisionNotSampled := decisionNotSampled m' + 1\<rparr> else m')"
  ultimately have "makeDecision L now tid ps trace m = Done ((final, matching), ps', trace', m'')"
    by (simp add: makeDecision_def)
  from that [OF this] show ?thesis
    using \<open>d \<in> _\<close> \<open>length ps' = _\<close> \<open>length (Decisions trace') = _\<close> \<open>ReceivedBatches trace' = _\<close> by (auto simp: final_def)
qed

lemma decide_id_stored:
  assumes "idToTrace s tid = Some d" and "length (policies s) \<le> length (Decisions d)"
  obtains dec ps d' m' where
    "decide_id L now tid (s, m) = Done (s\<lparr>policies := ps, idToTrace := (idToTrace s)(tid \<mapsto> d'),
       sent := sent s @ (if dec = Sampled then [ReceivedBatches d] else [])\<rparr>, m')"
    and "dec = Sampled \<or> dec = NotSampled" and "length ps = length (policies s)"
    and "FinalDecision d' = dec" and "length (Decisions d') = length (Decisions d)"
    and "ReceivedBatches d' = ReceivedBatches d"
proof -
  have "length (policies s) \<le> length (Decisions (d\<lparr>DecisionTime := now\<rparr>))" using assms(2) by simp
  then obtain dec p ps d' m'
    where "makeDecision L now tid (policies s) (d\<lparr>DecisionTime := now\<rparr>) m = Done ((dec, p), ps, d', m')"
    and "dec = Sampled \<or> dec = NotSampled" and "length ps = length (policies s)"
    and "length (Decisions d') = length (Decisions d)" and "ReceivedBatches d' = ReceivedBatches d"
    by (rule makeDecision_done [of _ _ L now tid m]) simp
  with assms show ?thesis
    by (intro that [where ps = ps and d' = "d'\<lparr>FinalDecision := dec\<rparr>" and dec = dec]) (auto simp: decide_id_def Let_def)
qed

section \<open>Receiving\<close>

lemma process_id_stored:
  assumes "idToTrace s tid = Some d"
  shows "process_id now tid rs spans s = Done (
    let d1 = d\<lparr>SpanCount := i64 (SpanCount d + int (length spans))\<rparr>
    in if FinalDecision d = Unspecified
       then s\<lparr>idToTrace := (idToTrace s)(tid \<mapsto> d1\<lparr>ReceivedBatches := appendToTraces (ReceivedBatches d) rs spans\<rparr>)\<rparr>
       else if FinalDecision d = Sampled
       then s\<lparr>idToTrace := (idToTrace s)(tid \<mapsto> d1), sent := sent s @ [appendToTraces [] rs spans]\<rparr>
       else s\<lparr>idToTrace := (idToTrace s)(tid \<mapsto> d1)\<rparr>)"
  using assms by (simp add: process_id_def Let_def split: Decision.splits)

lemma process_id_new:
  assumes "queue_inv n s" and "idToTrace s tid = None" and "running k (decisionBatcher s)"
  obtains s' d where "process_id now tid rs spans s = Done s'" and "queue_inv n s'"
    and "idToTrace s' tid = Some d" and "length (Decisions d) = length (policies s)" and "FinalDecision d = Unspecified"
    and "ReceivedBatches d = appendToTraces [] rs spans"
    and "\<And>t. t \<noteq> tid \<Longrightarrow> idToTrace s' t = idToTrace s t \<or> idToTrace s' t = None"
    and "decisionBatcher s' = enqueue tid (decisionBatcher s)" and "policies s' = policies s" and "sent s' = sent s"
    and "card (dom (idToTrace s)) < n \<Longrightarrow> idToTrace s' = (idToTrace s)(tid \<mapsto> d)"
proof -
  let ?d = "\<lparr>Decisions = replicate (length (policies s)) Pending, ArrivalTime = now, DecisionTime = 0,
    SpanCount = int (length spans), ReceivedBatches = [], FinalDecision = Unspecified\<rparr>"
  obtain s2 where s2: "post_deletion tid (s\<lparr>idToTrace := (idToTrace s)(tid \<mapsto> ?d),
      decisionBatcher := enqueue tid (decisionBatcher s), numTracesOnMap := numTracesOnMap s + 1\<rparr>) = Done s2"
    and inv: "queue_inv n s2" and m: "idToTrace s2 tid = Some ?d"
    and other: "\<And>t. t \<noteq> tid \<Longrightarrow> idToTrace s2 t = idToTrace s t \<or> idToTrace s2 t = None"
    and rest: "decisionBatcher s2 = enqueue tid (decisionBatcher s)" "policies s2 = policies s" "sent s2 = sent s"
    and room: "card (dom (idToTrace s)) < n \<Longrightarrow> idToTrace s2 = (idToTrace s)(tid \<mapsto> ?d)"
    using new_trace_queue [OF assms(1,2) refl] by metis
  let ?d' = "?d\<lparr>ReceivedBatches := appendToTraces [] rs spans\<rparr>"
  let ?s = "s2\<lparr>idToTrace := (idToTrace s2)(tid \<mapsto> ?d')\<rparr>"
  have "process_id now tid rs spans s = Done ?s"
    using assms(2,3) s2 m by (simp add: process_id_def running_def)
  moreover have "dom (idToTrace ?s) = dom (idToTrace s2)" using m by auto
  then have "queue_inv n ?s" using inv by (simp add: queue_inv_def)
  ultimately show ?thesis using other rest room by (intro that [of ?s ?d']) auto
qed

section \<open>Preservation\<close>

lemma queue_inv_update:
  assumes "queue_inv n s" and "dom m = dom (idToTrace s)"
  shows "queue_inv n (s\<lparr>idToTrace := m\<rparr>)"
  using assms by (simp add: queue_inv_def)

lemma process_id_inv:
  assumes "tsp_inv k n (s, q)"
  shows "\<exists>s'. process_id now tid rs spans s = Done s' \<and> tsp_inv k n (s', q)"
proof (cases "idToTrace s tid")
  case (Some d)
  then have dom: "dom ((idToTrace s)(tid \<mapsto> d')) = dom (idToTrace s)" for d' by auto
  from assms Some have "trace_inv s q tid d" by (simp add: tsp_inv_def)
  with assms Some show ?thesis unfolding process_id_stored [OF Some]
    by (auto simp: tsp_inv_def trace_inv_def queue_inv_def Let_def dom split: if_splits)
next
  case None
  have inv: "queue_inv n s" "running k (decisionBatcher s)"
    and tr: "\<And>t d. idToTrace s t = Some d \<Longrightarrow> trace_inv s q t d"
    using assms by (auto simp: tsp_inv_def)
  obtain s' d where s': "process_id now tid rs spans s = Done s'" "queue_inv n s'"
    "idToTrace s' tid = Some d" "length (Decisions d) = length (policies s)" "FinalDecision d = Unspecified"
    "\<And>t. t \<noteq> tid \<Longrightarrow> idToTrace s' t = idToTrace s t \<or> idToTrace s' t = None"
    "decisionBatcher s' = enqueue tid (decisionBatcher s)" "policies s' = policies s"
    using process_id_new [OF inv(1) None inv(2)] by metis
  have b: "running k (enqueue tid (decisionBatcher s))"
    "held (enqueue tid (decisionBatcher s)) = held (decisionBatcher s) @ [tid]"
    using inv(2) by (auto intro: pipeline.add_inv pipeline.add_contents)
  have "trace_inv s' q t e" if "idToTrace s' t = Some e" for t e
  proof (cases "t = tid")
    case True
    with that s' b show ?thesis by (simp add: trace_inv_def)
  next
    case False
    then have "idToTrace s t = Some e" using that s'(6) by fastforce
    from tr [OF this] s' b show ?thesis by (auto simp: trace_inv_def)
  qed
  with s' b show ?thesis by (simp add: tsp_inv_def)
qed

lemma decide_id_inv:
  assumes "tsp_inv k n (s, tid # q)"
  shows "\<exists>s' m'. decide_id L now tid (s, m) = Done (s', m') \<and> tsp_inv k n (s', q)"
proof (cases "idToTrace s tid")
  case None
  then have "t \<noteq> tid" if "idToTrace s t = Some d" for t d using that by auto
  with assms None show ?thesis by (simp add: decide_id_def tsp_inv_def trace_inv_def)
next
  case (Some d)
  then have "length (policies s) \<le> length (Decisions d)" using assms by (simp add: tsp_inv_def trace_inv_def)
  from decide_id_stored [OF Some this, of L now m] obtain dec ps d' m' where
    "decide_id L now tid (s, m) = Done (s\<lparr>policies := ps, idToTrace := (idToTrace s)(tid \<mapsto> d'),
       sent := sent s @ (if dec = Sampled then [ReceivedBatches d] else [])\<rparr>, m')"
    and "dec = Sampled \<or> dec = NotSampled" and "length ps = length (policies s)"
    and "FinalDecision d' = dec" and "length (Decisions d') = length (Decisions d)" by metis
  moreover have "dom ((idToTrace s)(tid \<mapsto> d')) = dom (idToTrace s)" using Some by auto
  ultimately show ?thesis using assms Some
    by (auto simp: tsp_inv_def trace_inv_def queue_inv_def)
qed

lemma tstep_inv [inv_intros]:
  assumes "tstep L st ev st'" and "tsp_inv k n st"
  shows "tsp_inv k n st'"
  using assms
proof (induction rule: tstep.induct)
  case (tstep_receive now tid rs spans s s' q)
  then show ?case using process_id_inv [of k n s q now tid rs spans] by auto
next
  case (tstep_take s batch ok b q)
  then have run: "running k (decisionBatcher s)" by (simp add: tsp_inv_def)
  have b: "take_first (decisionBatcher s) = (batch, b)" using tstep_take.hyps by (simp add: take_first_def)
  have "running k b" "held (decisionBatcher s) = batch @ held b"
    using pipeline.take_inv [OF run] pipeline.take_contents [OF run] b by auto
  with tstep_take show ?case by (auto simp: tsp_inv_def trace_inv_def queue_inv_def)
next
  case (tstep_decide now tid s m s' m' q)
  then show ?case using decide_id_inv [of k n s tid q L now m] by auto
next
  case (tstep_collect s b q)
  then have "running k b \<and> held b = held (decisionBatcher s)"
    using running_collect [of k "decisionBatcher s" b] by (simp add: tsp_inv_def)
  with tstep_collect show ?case by (auto simp: tsp_inv_def trace_inv_def queue_inv_def)
qed

lemma truns_inv [inv_intros]:
  "truns L st evs st' \<Longrightarrow> tsp_inv k n st \<Longrightarrow> tsp_inv k n st'"
  by (induction rule: truns.induct) (auto intro: tstep_inv)

lemma New_running: "New k c m = Inr b \<Longrightarrow> running k b \<and> held b = []"
  using New_inv [of k c m b] by (auto simp: running_def New_def held_def split: if_splits)

lemma newTracesProcessor_inv [inv_intros]:
  assumes "newTracesProcessor L env cfg = Inr s" and "0 < NumTraces cfg"
  shows "tsp_inv (seconds (DecisionWait cfg)) (NumTraces cfg) (s, [])"
  using assms New_running
  by (fastforce simp: newTracesProcessor_def tsp_inv_def queue_inv_def split: if_splits sum.splits)

lemma processTraces_inv:
  assumes "tsp_inv k n (s, q)"
  shows "\<exists>s'. processTraces now ids rs s = Done s' \<and> tsp_inv k n (s', q)"
proof -
  have "\<exists>s'. process_ids now ids rs m s = Done s' \<and> tsp_inv k n (s', q)" for m
    using assms
  proof (induction ids arbitrary: s)
    case (Cons tid ids)
    from process_id_inv [OF Cons.prems, of now tid rs "case m tid of None \<Rightarrow> [] | Some xs \<Rightarrow> xs"] Cons.IH
    show ?case by fastforce
  qed simp
  then show ?thesis by (simp add: processTraces_def)
qed

lemma ConsumeTraces_inv:
  "tsp_inv k n (s, q) \<Longrightarrow> \<exists>s'. ConsumeTraces now idss td s = Done s' \<and> tsp_inv k n (s', q)"
proof (induction td arbitrary: idss s)
  case (Cons rs td)
  from processTraces_inv [OF Cons.prems, of now "hd idss" rs] Cons.IH [of _ "tl idss"] show ?case by fastforce
qed simp

lemma decide_ids_inv:
  "tsp_inv k n (s, ids @ q) \<Longrightarrow> \<exists>s' m'. decide_ids L now ids (s, m) = Done (s', m') \<and> tsp_inv k n (s', q)"
proof (induction ids arbitrary: s m)
  case (Cons tid ids)
  from Cons.prems have "tsp_inv k n (s, tid # ids @ q)" by simp
  from decide_id_inv [OF this, of L now m] Cons.IH show ?case by fastforce
qed simp

lemma samplingPolicyOnTick_inv:
  assumes "tsp_inv k n (s, [])"
  shows "\<exists>s' m. samplingPolicyOnTick L now s = Done (s', m) \<and> tsp_inv k n (s', [])"
proof -
  have run: "running k (decisionBatcher s)" using assms by (simp add: tsp_inv_def)
  then obtain batch b where b: "CloseCurrentAndTakeFirstBatch (decisionBatcher s) = Done ((batch, True), b)"
    by (rule running_take)
  have "tsp_inv k n (s\<lparr>decisionBatcher := b\<rparr>, batch @ [])"
    using tstep_inv [OF tstep_take [OF b] assms] by simp
  from decide_ids_inv [OF this] b show ?thesis by (simp add: samplingPolicyOnTick_def)
qed

section \<open>Properties of the processor\<close>

definition example_env :: env where
  "example_env = \<lparr>sortSubs = sort_key Priority, sortGroups = sort_key (\<lambda>g. Priority (Base g)), tagNew = (\<lambda>_. None),
     multierrCombine = concat, NumCPU = 2\<rparr>"

definition example_config :: "nat \<Rightarrow> Config" where
  "example_config n = \<lparr>DecisionWait = 1000000000, NumTraces = n, ExpectedNewTracesPerSec = 10,
     PolicyCfgs = [\<lparr>Base = example_policy ''p'' 1 0 ''a'' False, SubPolicies = []\<rparr>], Version = 1\<rparr>"

definition example_tsp :: "nat \<Rightarrow> (string + int, (string \<times> bool) list) tsp" where
  "example_tsp n = \<lparr>maxNumTraces = n, policies = [], idToTrace = Map.empty,
     decisionBatcher = \<lparr>pendingIds = \<lparr>elems = [], cap = 4, closed = False\<rparr>,
        batches = \<lparr>elems = [[]], cap = 1, closed = False\<rparr>, currentBatch = [],
        newBatchesInitialCapacity = 10, stopped = False\<rparr>,
     deleteChan = \<lparr>elems = [], cap = n, closed = False\<rparr>, numTracesOnMap = 0, sent = []\<rparr>"

lemma seconds_one [simp]: "seconds 1000000000 = 1"
proof -
  have "round_prec 53 0 = 0" by (simp add: round_prec_def)
  with round_prec_exact [of 1 53] show ?thesis by (simp add: seconds_def go_div_def)
qed

lemma example_new: "newTracesProcessor example_lib example_env (example_config n) = Inr (example_tsp n)"
  by (simp add: newTracesProcessor_def example_config_def example_env_def Validate_def example_policy_def New_def
      copy_slice_def example_tsp_def)


definition example_received :: "(string + int, (string \<times> bool) list) tsp" where
  "example_received = (example_tsp 1)\<lparr>
     idToTrace := [[1] \<mapsto> \<lparr>Decisions = [], ArrivalTime = 5, DecisionTime = 0, SpanCount = 1,
        ReceivedBatches = [\<lparr>ResourceAttributes = [], ScopeSpans = [[example_span [] 1 2]]\<rparr>], FinalDecision = Unspecified\<rparr>],
     decisionBatcher := (decisionBatcher (example_tsp 1))\<lparr>pendingIds := \<lparr>elems = [[1]], cap = 4, closed = False\<rparr>\<rparr>,
     deleteChan := \<lparr>elems = [[1]], cap = 1, closed = False\<rparr>, numTracesOnMap := 1\<rparr>"

lemma example_truns:
  "truns example_lib (example_tsp 1, []) [Received [1] [example_span [] 1 2]] (example_received, [])"
proof -
  have "process_id 5 [1] \<lparr>ResourceAttributes = [], ScopeSpans = []\<rparr> [example_span [] 1 2] (example_tsp 1) = Done example_received"
    by (simp add: process_id_def example_tsp_def example_received_def enqueue_def AddToCurrentBatch_def send_def
        post_deletion.simps appendToTraces_def)
  then have "tstep example_lib (example_tsp 1, []) (Received [1] [example_span [] 1 2]) (example_received, [])"
    by (rule tstep_receive) (simp add: example_span_def)
  from truns_snoc [OF truns_nil this] show ?thesis by simp
qed




text \<open>
  C20. No stored trace is forgotten: a trace without a final decision is always in the batch being
  decided or still in the batcher, so that the ticker will come to it.
\<close>

theorem undecided_traces_queued:
  assumes "newTracesProcessor L env cfg = Inr s" and "0 < NumTraces cfg" and "truns L (s, []) evs (s', q)"
    and "idToTrace s' tid = Some d" and "FinalDecision d = Unspecified"
  shows "tid \<in> set q \<union> set (held (decisionBatcher s'))"
proof -
  have "tsp_inv (seconds (DecisionWait cfg)) (NumTraces cfg) (s', q)"
    using truns_inv [OF assms(3) newTracesProcessor_inv [OF assms(1,2)]] .
  with assms(4,5) show ?thesis by (simp add: tsp_inv_def trace_inv_def)
qed

theorem undecided_traces_queued_witness:
  "[1] \<in> set [] \<union> set (held (decisionBatcher example_received))"
  by (rule undecided_traces_queued [OF example_new _ example_truns])
    (simp add: example_config_def, simp add: example_received_def, simp)

text \<open>
  The configured policies are never loaded: \<open>copy\<close> fills a slice of length zero, so a processor
  that is created has no policies, and every trace it decides is sampled, whatever the configuration.
\<close>

theorem policies_never_loaded:
  assumes "newTracesProcessor L env cfg = Inr s" and "slice_sort key (sortGroups env)"
  shows "policies s = [] \<and> makeDecision L now tid (policies s) trace m =
    Done ((Sampled, Some ''always_sample''), [], trace, m\<lparr>decisionSampled := decisionSampled m + 1\<rparr>)"
proof -
  have "mset (sortGroups env []) = mset []" using assms(2) by (metis slice_sort_def)
  then have "sortGroups env [] = []" by simp
  then have "policies s = []" using assms(1)
    by (auto simp: newTracesProcessor_def copy_slice_def split: if_splits sum.splits)
  then show ?thesis by (simp add: makeDecision_def)
qed

theorem policies_never_loaded_witness:
  "policies (example_tsp 1) = [] \<and> makeDecision example_lib 0 [1] (policies (example_tsp 1)) (example_trace 1 [])
      \<lparr>idNotFoundOnMapCount = 0, evaluateErrorCount = 0, decisionSampled = 0, decisionNotSampled = 0\<rparr> =
    Done ((Sampled, Some ''always_sample''), [], example_trace 1 [],
      \<lparr>idNotFoundOnMapCount = 0, evaluateErrorCount = 0, decisionSampled = 0, decisionNotSampled = 0\<rparr>
        \<lparr>decisionSampled := decisionSampled
          \<lparr>idNotFoundOnMapCount = 0, evaluateErrorCount = 0, decisionSampled = 0, decisionNotSampled = 0\<rparr> + 1\<rparr>)"
  by (rule policies_never_loaded [OF example_new, where key = "\<lambda>g. Priority (Base g)"])
    (simp add: example_env_def slice_sort_sort_key)

text \<open>
  A processor configured with \<open>num_traces\<close> zero hangs: the first spans it receives block for
  ever on the deletion queue, which has no room for the new trace and nothing to drop.
\<close>

theorem zero_capacity_blocks:
  assumes "newTracesProcessor L env cfg = Inr s" and "NumTraces cfg = 0"
    and "range_order (tid # ids) rs"
  shows "processTraces now (tid # ids) rs s = Blocked"
proof -
  from assms(1,2) have s: "idToTrace s = Map.empty" "deleteChan s = \<lparr>elems = [], cap = 0, closed = False\<rparr>"
    "\<not> closed (pendingIds (decisionBatcher s))"
    by (auto simp: newTracesProcessor_def New_def split: if_splits sum.splits)
  then have "post_deletion tid (s\<lparr>idToTrace := m, decisionBatcher := b, numTracesOnMap := c\<rparr>) = Blocked" for m b c
    by (simp add: post_deletion.simps send_def recv_def)
  with s show ?thesis by (simp add: processTraces_def process_id_def)
qed

theorem zero_capacity_blocks_witness:
  "processTraces 5 [[1]] \<lparr>ResourceAttributes = [], ScopeSpans = [[example_span [] 1 2]]\<rparr> (example_tsp 0) = Blocked"
  by (rule zero_capacity_blocks [OF example_new])
    (simp_all add: example_config_def range_order_def groupSpansByTraceKey_def example_span_def)

section \<open>All or nothing\<close>

text \<open>The spans of a trace that a run received, and those the next consumer got.\<close>

fun recvd :: "TraceID \<Rightarrow> 'v tevent list \<Rightarrow> 'v Span list" where
  "recvd tid [] = []"
| "recvd tid (Received t spans # evs) = (if t = tid then spans else []) @ recvd tid evs"
| "recvd tid (Internal # evs) = recvd tid evs"

fun recvd_ids :: "'v tevent list \<Rightarrow> TraceID set" where
  "recvd_ids [] = {}"
| "recvd_ids (Received t spans # evs) = insert t (recvd_ids evs)"
| "recvd_ids (Internal # evs) = recvd_ids evs"

definition sent_for :: "TraceID \<Rightarrow> ('v, 'c) tsp \<Rightarrow> 'v Span list" where
  "sent_for tid s = filter (\<lambda>x. spanTraceID x = tid) (concat (map all_spans (sent s)))"

lemma recvd_append [simp]: "recvd tid (xs @ ys) = recvd tid xs @ recvd tid ys"
  by (induction xs rule: recvd.induct) auto

lemma recvd_ids_append [simp]: "recvd_ids (xs @ ys) = recvd_ids xs \<union> recvd_ids ys"
  by (induction xs rule: recvd_ids.induct) auto

lemma finite_recvd_ids [simp]: "finite (recvd_ids evs)"
  by (induction evs rule: recvd_ids.induct) auto

lemma all_spans_append [simp]:
  "all_spans [] = []" "all_spans (xs @ ys) = all_spans xs @ all_spans ys"
  "all_spans (appendToTraces td rs spans) = all_spans td @ spans"
  by (simp_all add: all_spans_def appendToTraces_def)

text \<open>
  Where the spans of a trace are: with the trace until it is decided, then with the next consumer
  or nowhere. The identifier is queued exactly once until then.
\<close>

definition trace_complete :: "'v tevent list \<Rightarrow> ('v, 'c) tsp \<Rightarrow> TraceID list \<Rightarrow> TraceID \<Rightarrow> bool" where
  "trace_complete evs s q tid \<longleftrightarrow>
     list_all (\<lambda>x. spanTraceID x = tid) (recvd tid evs) \<and>
     (case idToTrace s tid of
        None \<Rightarrow> tid \<notin> recvd_ids evs \<and> recvd tid evs = [] \<and> sent_for tid s = []
          \<and> count_list (q @ held (decisionBatcher s)) tid = 0
      | Some d \<Rightarrow> tid \<in> recvd_ids evs \<and>
          (if FinalDecision d = Unspecified
           then all_spans (ReceivedBatches d) = recvd tid evs \<and> sent_for tid s = []
             \<and> count_list (q @ held (decisionBatcher s)) tid = 1
           else sent_for tid s = (if FinalDecision d = Sampled then recvd tid evs else [])
             \<and> count_list (q @ held (decisionBatcher s)) tid = 0))"

lemma trace_complete_frame:
  assumes "trace_complete evs s q tid" and "idToTrace s' tid = idToTrace s tid" and "recvd tid evs' = recvd tid evs"
    and "tid \<in> recvd_ids evs' \<longleftrightarrow> tid \<in> recvd_ids evs" and "sent_for tid s' = sent_for tid s"
    and "count_list (q' @ held (decisionBatcher s')) tid = count_list (q @ held (decisionBatcher s)) tid"
  shows "trace_complete evs' s' q' tid"
  using assms(1) unfolding trace_complete_def assms(2-6) .

lemma trace_complete_some:
  "idToTrace s tid = Some d \<Longrightarrow> trace_complete evs s q tid \<longleftrightarrow>
     list_all (\<lambda>x. spanTraceID x = tid) (recvd tid evs) \<and> tid \<in> recvd_ids evs \<and>
     (if FinalDecision d = Unspecified
      then all_spans (ReceivedBatches d) = recvd tid evs \<and> sent_for tid s = []
        \<and> count_list (q @ held (decisionBatcher s)) tid = 1
      else sent_for tid s = (if FinalDecision d = Sampled then recvd tid evs else [])
        \<and> count_list (q @ held (decisionBatcher s)) tid = 0)"
  by (simp add: trace_complete_def)

lemma trace_complete_none:
  "idToTrace s tid = None \<Longrightarrow> trace_complete evs s q tid \<longleftrightarrow>
     tid \<notin> recvd_ids evs \<and> recvd tid evs = [] \<and> sent_for tid s = []
       \<and> count_list (q @ held (decisionBatcher s)) tid = 0"
  by (auto simp: trace_complete_def)

definition complete_inv :: "'v tevent list \<Rightarrow> ('v, 'c) tsp \<times> TraceID list \<Rightarrow> bool" where
  "complete_inv evs st \<longleftrightarrow> (case st of (s, q) \<Rightarrow> \<forall>tid. trace_complete evs s q tid)"

lemma complete_dom:
  assumes "complete_inv evs (s, q)"
  shows "dom (idToTrace s) = recvd_ids evs"
proof -
  have "idToTrace s tid = None \<longleftrightarrow> tid \<notin> recvd_ids evs" for tid
  proof -
    have "trace_complete evs s q tid" using assms by (simp add: complete_inv_def)
    then show ?thesis by (cases "idToTrace s tid") (simp_all add: trace_complete_def)
  qed
  then have "tid \<in> dom (idToTrace s) \<longleftrightarrow> tid \<in> recvd_ids evs" for tid by (simp add: domIff)
  then show ?thesis by blast
qed

text \<open>Moving identifiers from the batcher to the tick, or inside the batcher, changes nothing.\<close>

lemma complete_move:
  assumes "complete_inv evs (s, q)" and "q' @ held b = q @ held (decisionBatcher s)"
  shows "complete_inv (evs @ [Internal]) (s\<lparr>decisionBatcher := b\<rparr>, q')"
proof -
  have "trace_complete (evs @ [Internal]) (s\<lparr>decisionBatcher := b\<rparr>) q' tid" for tid
  proof -
    have "trace_complete evs s q tid" using assms(1) by (simp add: complete_inv_def)
    then show ?thesis using arg_cong [OF assms(2), of "\<lambda>xs. count_list xs tid"]
      by (cases "idToTrace s tid") (auto simp: trace_complete_def sent_for_def split: if_splits)
  qed
  then show ?thesis by (auto simp: complete_inv_def)
qed

lemma process_id_complete:
  assumes "complete_inv evs (s, q)" and "tsp_inv k n (s, q)" and "list_all (\<lambda>x. spanTraceID x = tid) spans"
    and "process_id now tid rs spans s = Done s'" and "card (recvd_ids (evs @ [Received tid spans])) \<le> n"
  shows "complete_inv (evs @ [Received tid spans]) (s', q)"
proof -
  have tc: "trace_complete evs s q t" for t using assms(1) by (simp add: complete_inv_def)
  have self: "filter (\<lambda>x. spanTraceID x = tid) spans = spans"
    and other: "t \<noteq> tid \<Longrightarrow> filter (\<lambda>x. spanTraceID x = t) spans = []" for t
    using assms(3) by (auto simp: list_all_iff filter_id_conv filter_empty_conv)
  have "trace_complete (evs @ [Received tid spans]) s' q t" for t
  proof (cases "idToTrace s tid")
    case (Some d)
    show ?thesis
    proof (cases "t = tid")
      case True
      with tc [of tid] assms(3,4) Some self show ?thesis
        by (auto simp: process_id_stored [OF Some] trace_complete_some sent_for_def Let_def split: if_splits)
    next
      case False
      from assms(4) False other [of t] show ?thesis
        by (intro trace_complete_frame [OF tc [of t]])
          (auto simp: process_id_stored [OF Some] sent_for_def Let_def split: if_splits)
    qed
  next
    case None
    have inv: "queue_inv n s" "running k (decisionBatcher s)" using assms(2) by (auto simp: tsp_inv_def)
    have "tid \<notin> recvd_ids evs" using None complete_dom [OF assms(1)] by auto
    then have room: "card (dom (idToTrace s)) < n" using assms(5) complete_dom [OF assms(1)] by simp
    obtain d where s': "idToTrace s' = (idToTrace s)(tid \<mapsto> d)" "FinalDecision d = Unspecified"
      "ReceivedBatches d = appendToTraces [] rs spans"
      "decisionBatcher s' = enqueue tid (decisionBatcher s)" "sent s' = sent s"
      using process_id_new [OF inv(1) None inv(2), of now rs spans] assms(4) room by (metis outcome.inject)
    have held: "held (enqueue tid (decisionBatcher s)) = held (decisionBatcher s) @ [tid]"
      using pipeline.add_contents [OF inv(2)] .
    show ?thesis
    proof (cases "t = tid")
      case True
      have d: "idToTrace s' tid = Some d" using s'(1) by simp
      from True tc [of tid] assms(3) s'(2-5) held show ?thesis
        by (simp add: trace_complete_none [OF None] trace_complete_some [OF d] sent_for_def)
    next
      case False
      with s' held show ?thesis by (intro trace_complete_frame [OF tc [of t]]) (auto simp: sent_for_def)
    qed
  qed
  then show ?thesis by (auto simp: complete_inv_def)
qed

lemma decide_id_complete:
  assumes "complete_inv evs (s, tid # q)" and "tsp_inv k n (s, tid # q)"
    and "decide_id L now tid (s, m) = Done (s', m')"
  shows "complete_inv (evs @ [Internal]) (s', q)"
proof -
  have tc: "trace_complete evs s (tid # q) t" for t using assms(1) by (simp add: complete_inv_def)
  from tc [of tid] obtain d where d: "idToTrace s tid = Some d" and u: "FinalDecision d = Unspecified"
    by (auto simp: trace_complete_def split: option.splits if_splits)
  have "length (policies s) \<le> length (Decisions d)" using assms(2) d by (simp add: tsp_inv_def trace_inv_def)
  then obtain dec ps d' m1 where
    "decide_id L now tid (s, m) = Done (s\<lparr>policies := ps, idToTrace := (idToTrace s)(tid \<mapsto> d'),
       sent := sent s @ (if dec = Sampled then [ReceivedBatches d] else [])\<rparr>, m1)"
    and dec: "dec = Sampled \<or> dec = NotSampled" "FinalDecision d' = dec"
    by (rule decide_id_stored [OF d, of L now m])
  then have s': "s' = s\<lparr>policies := ps, idToTrace := (idToTrace s)(tid \<mapsto> d'),
       sent := sent s @ (if dec = Sampled then [ReceivedBatches d] else [])\<rparr>"
    using assms(3) by simp
  have rb: "all_spans (ReceivedBatches d) = recvd tid evs" "list_all (\<lambda>x. spanTraceID x = tid) (recvd tid evs)"
    using tc [of tid] d u by (simp_all add: trace_complete_def)
  then have filter: "filter (\<lambda>x. spanTraceID x = t) (all_spans (ReceivedBatches d)) = (if t = tid then recvd tid evs else [])" for t
    by (auto simp: list_all_iff filter_id_conv filter_empty_conv)
  have "trace_complete (evs @ [Internal]) s' q t" for t
  proof (cases "t = tid")
    case True
    have d': "idToTrace s' tid = Some d'" using s' by simp
    from tc [of tid] u dec filter [of tid] s' show ?thesis
      unfolding True trace_complete_some [OF d] trace_complete_some [OF d']
      by (auto simp: sent_for_def split: if_splits)
  next
    case False
    with filter [of t] s' show ?thesis by (intro trace_complete_frame [OF tc [of t]]) (auto simp: sent_for_def)
  qed
  then show ?thesis by (auto simp: complete_inv_def)
qed

lemma tstep_complete:
  assumes "tstep L st ev st'" and "complete_inv evs st" and "tsp_inv k n st" and "card (recvd_ids (evs @ [ev])) \<le> n"
  shows "complete_inv (evs @ [ev]) st'"
  using assms
proof (induction rule: tstep.induct)
  case (tstep_receive now tid rs spans s s' q)
  then show ?case by (intro process_id_complete)
next
  case (tstep_take s batch ok b q)
  have run: "running k (decisionBatcher s)" using tstep_take.prems by (simp add: tsp_inv_def)
  have "held (decisionBatcher s) = batch @ held b"
    using pipeline.take_contents [OF run] tstep_take.hyps by (simp add: take_first_def)
  then show ?case by (intro complete_move [OF tstep_take.prems(1)]) simp
next
  case (tstep_decide now tid s m s' m' q)
  then show ?case by (intro decide_id_complete)
next
  case (tstep_collect s b q)
  then have "held b = held (decisionBatcher s)"
    using running_collect [of k "decisionBatcher s" b] by (simp add: tsp_inv_def)
  then show ?case by (intro complete_move [OF tstep_collect.prems(1)]) simp
qed

lemma truns_complete:
  assumes "truns L st evs st'" and "complete_inv [] st" and "tsp_inv k n st" and "card (recvd_ids evs) \<le> n"
  shows "complete_inv evs st'"
  using assms
proof (induction rule: truns.induct)
  case (truns_snoc st evs st' ev st'')
  have "card (recvd_ids evs) \<le> n"
    using truns_snoc.prems(3) by (rule order.trans [rotated]) (intro card_mono, auto)
  with truns_snoc show ?case by (intro tstep_complete [of L st' ev st'' evs k n]) (auto intro: truns_inv)
qed simp

text \<open>
  C5. A trace is forwarded completely or not at all: as long as no more traces arrive than the
  processor may store, every trace decided \<open>Sampled\<close> has had all its spans forwarded, once each and
  in the order they arrived, those before and those after the decision, and no span of another
  trace has been forwarded, whatever the interleaving.
\<close>

theorem sampled_traces_complete:
  assumes "newTracesProcessor L env cfg = Inr s" and "0 < NumTraces cfg" and "truns L (s, []) evs (s', q)"
    and "card (recvd_ids evs) \<le> NumTraces cfg"
  shows "sent_for tid s' = (case idToTrace s' tid of
      Some d \<Rightarrow> if FinalDecision d = Sampled then recvd tid evs else [] | None \<Rightarrow> [])"
proof -
  have inv: "tsp_inv (seconds (DecisionWait cfg)) (NumTraces cfg) (s, [])"
    by (rule newTracesProcessor_inv [OF assms(1,2)])
  have "idToTrace s = Map.empty \<and> sent s = [] \<and> held (decisionBatcher s) = []"
    using assms(1) New_running by (fastforce simp: newTracesProcessor_def split: if_splits sum.splits)
  then have "complete_inv [] (s, [])" by (simp add: complete_inv_def trace_complete_def sent_for_def)
  from truns_complete [OF assms(3) this inv assms(4)] have "trace_complete evs s' q tid" by (simp add: complete_inv_def)
  then show ?thesis by (auto simp: trace_complete_def split: option.splits if_splits)
qed

theorem sampled_traces_complete_witness:
  "sent_for [1] example_received = (case idToTrace example_received [1] of
      Some d \<Rightarrow> if FinalDecision d = Sampled then recvd [1] [Received [1] [example_span [] 1 2]] else [] | None \<Rightarrow> [])"
  by (rule sampled_traces_complete [OF example_new _ example_truns]) (simp_all add: example_config_def)

section \<open>The methods as steps\<close>

definition add_span :: "'v Span \<Rightarrow> (TraceID \<rightharpoonup> 'v Span list) \<Rightarrow> (TraceID \<rightharpoonup> 'v Span list)" where
  "add_span x m = m(spanTraceID x \<mapsto> (case m (spanTraceID x) of None \<Rightarrow> [] | Some xs \<Rightarrow> xs) @ [x])"

lemma groupSpansByTraceKey_flat:
  "groupSpansByTraceKey rs = fold add_span (concat (ScopeSpans rs)) Map.empty"
proof -
  have "fold (\<lambda>ils m. fold add_span ils m) xss m = fold add_span (concat xss) m" for xss and m :: "TraceID \<rightharpoonup> 'a Span list"
    by (induction xss arbitrary: m) auto
  then show ?thesis by (simp add: groupSpansByTraceKey_def add_span_def [abs_def])
qed

lemma groupSpansByTraceKey_spec:
  "groupSpansByTraceKey rs tid =
     (let xs = filter (\<lambda>x. spanTraceID x = tid) (concat (ScopeSpans rs)) in if xs = [] then None else Some xs)"
proof -
  have "fold add_span xs Map.empty tid =
      (if filter (\<lambda>x. spanTraceID x = tid) xs = [] then None else Some (filter (\<lambda>x. spanTraceID x = tid) xs))"
    for xs :: "'a Span list"
    by (induction xs rule: rev_induct) (auto simp: add_span_def)
  then show ?thesis by (simp add: groupSpansByTraceKey_flat Let_def)
qed

lemma truns_trans:
  "truns L st' evs' st'' \<Longrightarrow> truns L st evs st' \<Longrightarrow> truns L st (evs @ evs') st''"
proof (induction rule: truns.induct)
  case (truns_snoc st1 evs1 st2 ev st3)
  from truns.truns_snoc [OF truns_snoc.IH [OF truns_snoc.prems] truns_snoc.hyps(2)] show ?case by simp
qed simp

lemma process_ids_truns:
  assumes "process_ids now ids rs (groupSpansByTraceKey rs) s = Done s'" and "distinct ids"
    and "set ids \<subseteq> dom (groupSpansByTraceKey rs)"
  shows "\<exists>evs. truns L (s, q) evs (s', q) \<and> (\<forall>tid. recvd tid evs =
    (if tid \<in> set ids then filter (\<lambda>x. spanTraceID x = tid) (concat (ScopeSpans rs)) else []))"
  using assms
proof (induction ids arbitrary: s)
  case Nil
  then show ?case by (auto intro!: exI [of _ "[]"] truns_nil)
next
  case (Cons i ids)
  let ?spans = "filter (\<lambda>x. spanTraceID x = i) (concat (ScopeSpans rs))"
  have "groupSpansByTraceKey rs i = Some ?spans"
    using Cons.prems(3) groupSpansByTraceKey_spec [of rs i] by (auto simp: Let_def split: if_splits)
  then obtain s1 where s1: "process_id now i rs ?spans s = Done s1"
    "process_ids now ids rs (groupSpansByTraceKey rs) s1 = Done s'"
    using Cons.prems(1) by (auto split: outcome.splits)
  from Cons.IH [OF s1(2)] Cons.prems(2,3) obtain evs where evs: "truns L (s1, q) evs (s', q)"
    "\<forall>tid. recvd tid evs = (if tid \<in> set ids then filter (\<lambda>x. spanTraceID x = tid) (concat (ScopeSpans rs)) else [])"
    by auto
  have "tstep L (s, q) (Received i ?spans) (s1, q)"
    by (rule tstep_receive [OF s1(1)]) (auto simp: list_all_iff)
  from truns_trans [OF evs(1) truns_snoc [OF truns_nil this]]
  have "truns L (s, q) (Received i ?spans # evs) (s', q)" by simp
  moreover have "recvd tid (Received i ?spans # evs) =
      (if tid \<in> set (i # ids) then filter (\<lambda>x. spanTraceID x = tid) (concat (ScopeSpans rs)) else [])" for tid
    using evs(2) Cons.prems(2) by auto
  ultimately show ?case by blast
qed

text \<open>
  Grouping loses no span: whatever order the map of the resource's traces is ranged over,
  \<open>processTraces\<close> is a sequence of receiving steps in which each trace gets exactly the spans of the
  resource that carry its identifier, in their order.
\<close>

theorem processTraces_steps:
  assumes "range_order ids rs" and "processTraces now ids rs s = Done s'"
  shows "\<exists>evs. truns L (s, q) evs (s', q) \<and>
    (\<forall>tid. recvd tid evs = filter (\<lambda>x. spanTraceID x = tid) (concat (ScopeSpans rs)))"
proof -
  from assms obtain evs where "truns L (s, q) evs (s', q)" "\<forall>tid. recvd tid evs =
    (if tid \<in> set ids then filter (\<lambda>x. spanTraceID x = tid) (concat (ScopeSpans rs)) else [])"
    using process_ids_truns [of now ids rs s s' L q] by (auto simp: range_order_def processTraces_def)
  moreover have "filter (\<lambda>x. spanTraceID x = tid) (concat (ScopeSpans rs)) = []" if "tid \<notin> set ids" for tid
    using that assms(1) groupSpansByTraceKey_spec [of rs tid] unfolding range_order_def Let_def
    by (metis domIff option.distinct(1))
  ultimately show ?thesis by (intro exI [of _ evs]) (simp split: if_splits)
qed

theorem processTraces_steps_witness:
  "\<exists>s' evs. processTraces 5 [[1]] \<lparr>ResourceAttributes = [], ScopeSpans = [[example_span [] 1 2], [example_span [] 3 4]]\<rparr>
       (example_tsp 1) = Done s' \<and>
     truns example_lib (example_tsp 1, []) evs (s', []) \<and>
     (\<forall>tid. recvd tid evs = filter (\<lambda>x. spanTraceID x = tid) (concat [[example_span [] 1 2], [example_span [] 3 4]]))"
proof -
  let ?rs = "\<lparr>ResourceAttributes = [], ScopeSpans = [[example_span [] 1 2], [example_span [] 3 4]]\<rparr>"
  have "tsp_inv 1 1 (example_tsp 1, [])"
    using newTracesProcessor_inv [OF example_new, of 1] by (simp add: example_config_def)
  then obtain s' where s': "processTraces 5 [[1]] ?rs (example_tsp 1) = Done s'" using processTraces_inv by blast
  have "range_order [[1]] ?rs"
    by (simp add: range_order_def groupSpansByTraceKey_def example_span_def)
  from processTraces_steps [OF this s', of example_lib "[]"] s' show ?thesis by auto
qed

end
