(* ===== verification/SqlTypes.thy ===== *)
theory SqlTypes
  imports Otel_Prelude
begin

text \<open>
  The schema vocabulary of the migrator (\<open>cmd/o11yschemamigrator/schema_migrator/column.go\<close> and
  \<open>table.go\<close>): column types, columns, settings and table engines, and how they print as SQL.

  The interface \<open>ColumnType\<close> is a datatype with a constructor per implementing struct; columns and
  column types refer to each other because a JSON type lists columns. The type of a column may be
  \<open>nil\<close>, and then a method call on it panics: printing answers \<open>None\<close>.
\<close>

section \<open>Column types (column.go)\<close>

datatype ColumnTypeEnum =
    ColumnTypeEnumString
  | ColumnTypeEnumInt8 | ColumnTypeEnumInt16 | ColumnTypeEnumInt32 | ColumnTypeEnumInt64
  | ColumnTypeEnumInt128 | ColumnTypeEnumInt256
  | ColumnTypeEnumUInt8 | ColumnTypeEnumUInt16 | ColumnTypeEnumUInt32 | ColumnTypeEnumUInt64
  | ColumnTypeEnumUInt128 | ColumnTypeEnumUInt256
  | ColumnTypeEnumFloat32 | ColumnTypeEnumFloat64
  | ColumnTypeEnumBool
  | ColumnTypeEnumDate | ColumnTypeEnumDate32
  | ColumnTypeEnumUUID
  | ColumnTypeEnumIPv4 | ColumnTypeEnumIPv6
  | ColumnTypeEnumLowCardinality | ColumnTypeEnumNullable
  | ColumnTypeEnumSimpleAggregateFunction | ColumnTypeEnumAggregateFunction
  | ColumnTypeEnumJSON | ColumnTypeEnumFixedString
  | ColumnTypeEnumDateTime | ColumnTypeEnumDateTime64
  | ColumnTypeEnumArray | ColumnTypeEnumMap | ColumnTypeEnumTuple | ColumnTypeEnumEnumeration

record ColumnSetting =
  settingName :: string
  settingValue :: string

type_synonym ColumnSettings = "ColumnSetting list"

text \<open>\<open>Settings\<close> distinguishes a \<open>nil\<close> slice (\<open>None\<close>) from an empty one, as \<open>Column.ToSQL\<close> does.\<close>

datatype ColumnType =
    PrimitiveColumnType string ColumnTypeEnum
  | JSONColumnType "nat option" "nat option" "Column list"
  | FixedStringColumnType int
  | DateTimeColumnType string
  | DateTime64ColumnType int string
  | ArrayColumnType ColumnType
  | MapColumnType ColumnType ColumnType
  | TupleColumnType "ColumnType list"
  | LowCardinalityColumnType ColumnType
  | EnumerationColumnType "string list" int
  | NullableColumnType ColumnType
  | SimpleAggregateFunction string "ColumnType list"
  | AggregateFunction string "ColumnType list"
and Column = Column
    (columnName: string) (columnType: "ColumnType option") (Codec: string) (Alias: string) (Default: string)
    (Materialized: string) (columnTTL: string) (columnSettings: "ColumnSettings option") (Comment: string)

fun GetType :: "ColumnType \<Rightarrow> ColumnTypeEnum" where
  "GetType (PrimitiveColumnType _ e) = e"
| "GetType (JSONColumnType _ _ _) = ColumnTypeEnumJSON"
| "GetType (FixedStringColumnType _) = ColumnTypeEnumFixedString"
| "GetType (DateTimeColumnType _) = ColumnTypeEnumDateTime"
| "GetType (DateTime64ColumnType _ _) = ColumnTypeEnumDateTime64"
| "GetType (ArrayColumnType _) = ColumnTypeEnumArray"
| "GetType (MapColumnType _ _) = ColumnTypeEnumMap"
| "GetType (TupleColumnType _) = ColumnTypeEnumTuple"
| "GetType (LowCardinalityColumnType _) = ColumnTypeEnumLowCardinality"
| "GetType (EnumerationColumnType _ _) = ColumnTypeEnumEnumeration"
| "GetType (NullableColumnType _) = ColumnTypeEnumNullable"
| "GetType (SimpleAggregateFunction _ _) = ColumnTypeEnumSimpleAggregateFunction"
| "GetType (AggregateFunction _ _) = ColumnTypeEnumAggregateFunction"

lemma size_columnType [termination_simp]:
  assumes "c \<in> set columns" and "columnType c = Some t"
  shows "size t < Suc (size_list size columns)"
proof -
  have "size t < size c" using assms(2) by (cases c) simp
  also have "size c \<le> size_list size columns" using assms(1) by (rule size_list_estimation') simp
  finally show ?thesis by simp
qed

text \<open>
  The two ways a struct prints a list of parts: the parts joined, where each must print, and
  \<open>name(arguments)\<close>.
\<close>

definition joined :: "string option list \<Rightarrow> string option" where
  "joined parts = map_option (join '', '') (those parts)"

definition call :: "string \<Rightarrow> string \<Rightarrow> string" where
  "call f args = f @ ''('' @ args @ '')''"

fun String :: "ColumnType \<Rightarrow> string option" where
  "String (PrimitiveColumnType t _) = Some t"
| "String (JSONColumnType maxDynamicPaths maxDynamicTypes columns) =
     map_option (call ''JSON'') (joined (
       (case maxDynamicPaths of None \<Rightarrow> [] | Some n \<Rightarrow> [Some (''max_dynamic_paths='' @ itoa (int n))])
       @ (case maxDynamicTypes of None \<Rightarrow> [] | Some n \<Rightarrow> [Some (''max_dynamic_types='' @ itoa (int n))])
       @ map (\<lambda>c. case columnType c of
            None \<Rightarrow> None
          | Some t \<Rightarrow> map_option (\<lambda>s. columnName c @ '' '' @ s) (String t)) columns))"
| "String (FixedStringColumnType len) = Some (call ''FixedString'' (itoa len))"
| "String (DateTimeColumnType tz) = Some (if tz = [] then ''DateTime'' else call ''DateTime'' tz)"
| "String (DateTime64ColumnType precision tz) =
     Some (call ''DateTime64'' (if tz = [] then itoa precision else itoa precision @ '', '' @ tz))"
| "String (ArrayColumnType e) = map_option (call ''Array'') (String e)"
| "String (MapColumnType k v) = map_option (call ''Map'') (joined [String k, String v])"
| "String (TupleColumnType ts) = map_option (call ''Tuple'') (joined (map (\<lambda>t. String t) ts))"
| "String (LowCardinalityColumnType e) = map_option (call ''LowCardinality'') (String e)"
| "String (EnumerationColumnType vals n) = Some (call (''Enum'' @ itoa n) (join '', '' vals))"
| "String (NullableColumnType e) = map_option (call ''Nullable'') (String e)"
| "String (SimpleAggregateFunction f args) =
     map_option (\<lambda>s. call ''SimpleAggregateFunction'' (f @ '', '' @ s)) (joined (map (\<lambda>t. String t) args))"
| "String (AggregateFunction f args) =
     map_option (\<lambda>s. call ''AggregateFunction'' (f @ '', '' @ s)) (joined (map (\<lambda>t. String t) args))"

section \<open>Columns\<close>

text \<open>\<open>if s != "" { write(prefix); write(s); write(suffix) }\<close>, the step of every builder.\<close>

definition part :: "string \<Rightarrow> string \<Rightarrow> string \<Rightarrow> string" where
  "part prefix s suffix = (if s = [] then [] else prefix @ s @ suffix)"

definition ColumnSetting_String :: "ColumnSetting \<Rightarrow> string" where
  "ColumnSetting_String c = settingName c @ '' = '' @ settingValue c"

definition ColumnSettings_Names :: "ColumnSettings \<Rightarrow> string list" where
  "ColumnSettings_Names c = map settingName c"

definition ColumnSettings_String :: "ColumnSettings \<Rightarrow> string" where
  "ColumnSettings_String c = join '', '' (map ColumnSetting_String c)"

definition Column_ToSQL :: "Column \<Rightarrow> string option" where
  "Column_ToSQL c = (case columnType c of
      None \<Rightarrow> None
    | Some t \<Rightarrow> map_option (\<lambda>s.
        columnName c @ '' '' @ s
        @ part '' ALIAS '' (Alias c) ''''
        @ part '' DEFAULT '' (Default c) ''''
        @ part '' MATERIALIZED '' (Materialized c) ''''
        @ part '' CODEC('' (Codec c) '')''
        @ part '' TTL '' (columnTTL c) ''''
        @ (case columnSettings c of None \<Rightarrow> [] | Some st \<Rightarrow> '' SETTINGS '' @ ColumnSettings_String st)
        @ part '' COMMENT '' (Comment c) '''') (String t))"

section \<open>Table engines (table.go)\<close>

record TableSetting =
  tsName :: string
  tsValue :: string

type_synonym TableSettings = "TableSetting list"

definition TableSetting_ToSQL :: "TableSetting \<Rightarrow> string" where
  "TableSetting_ToSQL t = tsName t @ '' = '' @ tsValue t"

definition TableSettings_ToSQL :: "TableSettings \<Rightarrow> string" where
  "TableSettings_ToSQL t = join '', '' (map TableSetting_ToSQL t)"

record MergeTree =
  Replicated :: bool
  OrderBy :: string
  PrimaryKey :: string
  PartitionBy :: string
  SampleBy :: string
  engineTTL :: string
  engineSettings :: TableSettings

record Distributed =
  distCluster :: string
  distDatabase :: string
  distTable :: string
  ShardingKey :: string

text \<open>The structs that embed \<open>MergeTree\<close> differ in the name of the engine only.\<close>

datatype TableEngine =
    MergeTreeEngine MergeTree
  | ReplacingMergeTree MergeTree
  | AggregatingMergeTree MergeTree
  | SummingMergeTree MergeTree
  | DistributedEngine Distributed

definition MergeTree_EngineParams :: "MergeTree \<Rightarrow> string" where
  "MergeTree_EngineParams m =
     part '' PRIMARY KEY '' (PrimaryKey m) ''''
     @ part '' ORDER BY '' (OrderBy m) ''''
     @ part '' PARTITION BY '' (PartitionBy m) ''''
     @ part '' SAMPLE BY '' (SampleBy m) ''''
     @ part '' TTL '' (engineTTL m) ''''
     @ (if 0 < length (engineSettings m) then '' SETTINGS '' @ TableSettings_ToSQL (engineSettings m) else [])"

definition replicated_name :: "MergeTree \<Rightarrow> string \<Rightarrow> string" where
  "replicated_name m name = (if Replicated m then ''Replicated'' @ name else name)"

fun EngineType :: "TableEngine \<Rightarrow> string" where
  "EngineType (MergeTreeEngine m) = replicated_name m ''MergeTree''"
| "EngineType (ReplacingMergeTree m) = replicated_name m ''ReplacingMergeTree''"
| "EngineType (AggregatingMergeTree m) = replicated_name m ''AggregatingMergeTree''"
| "EngineType (SummingMergeTree m) = replicated_name m ''SummingMergeTree''"
| "EngineType (DistributedEngine d) = ''Distributed''"

fun Engine_ToSQL :: "TableEngine \<Rightarrow> string" where
  "Engine_ToSQL (MergeTreeEngine m) = EngineType (MergeTreeEngine m) @ MergeTree_EngineParams m"
| "Engine_ToSQL (ReplacingMergeTree m) = EngineType (ReplacingMergeTree m) @ MergeTree_EngineParams m"
| "Engine_ToSQL (AggregatingMergeTree m) = EngineType (AggregatingMergeTree m) @ MergeTree_EngineParams m"
| "Engine_ToSQL (SummingMergeTree m) = EngineType (SummingMergeTree m) @ MergeTree_EngineParams m"
| "Engine_ToSQL (DistributedEngine d) =
     ''Distributed('' @ [CHR 0x27] @ distCluster d @ [CHR 0x27] @ '', '' @ distDatabase d @ '', '' @ distTable d
       @ '', '' @ ShardingKey d @ '')''"

fun Engine_OnCluster :: "string \<Rightarrow> TableEngine \<Rightarrow> TableEngine" where
  "Engine_OnCluster cluster (DistributedEngine d) = DistributedEngine (d\<lparr>distCluster := cluster\<rparr>)"
| "Engine_OnCluster cluster e = e"

fun Engine_WithReplication :: "TableEngine \<Rightarrow> TableEngine" where
  "Engine_WithReplication (MergeTreeEngine m) = MergeTreeEngine (m\<lparr>Replicated := True\<rparr>)"
| "Engine_WithReplication (ReplacingMergeTree m) = ReplacingMergeTree (m\<lparr>Replicated := True\<rparr>)"
| "Engine_WithReplication (AggregatingMergeTree m) = AggregatingMergeTree (m\<lparr>Replicated := True\<rparr>)"
| "Engine_WithReplication (SummingMergeTree m) = SummingMergeTree (m\<lparr>Replicated := True\<rparr>)"
| "Engine_WithReplication (DistributedEngine d) = DistributedEngine d"

section \<open>What always prints\<close>

text \<open>A type prints when every column inside it has a type.\<close>

fun type_ok :: "ColumnType \<Rightarrow> bool" where
  "type_ok (JSONColumnType _ _ columns) =
     list_all (\<lambda>c. case columnType c of None \<Rightarrow> False | Some t \<Rightarrow> type_ok t) columns"
| "type_ok (ArrayColumnType e) = type_ok e"
| "type_ok (MapColumnType k v) = (type_ok k \<and> type_ok v)"
| "type_ok (TupleColumnType ts) = list_all (\<lambda>t. type_ok t) ts"
| "type_ok (LowCardinalityColumnType e) = type_ok e"
| "type_ok (NullableColumnType e) = type_ok e"
| "type_ok (SimpleAggregateFunction _ args) = list_all (\<lambda>t. type_ok t) args"
| "type_ok (AggregateFunction _ args) = list_all (\<lambda>t. type_ok t) args"
| "type_ok _ = True"

definition column_ok :: "Column \<Rightarrow> bool" where
  "column_ok c = (case columnType c of None \<Rightarrow> False | Some t \<Rightarrow> type_ok t)"

lemma those_none [simp]: "those xs = None \<longleftrightarrow> None \<in> set xs"
  by (induction xs) (auto split: option.splits)

lemma joined_none [simp]: "joined xs = None \<longleftrightarrow> None \<in> set xs"
  by (simp add: joined_def)

lemma none_in_map [simp]: "None \<in> f ` A \<longleftrightarrow> (\<exists>x \<in> A. f x = None)"
  by force

lemma String_type_ok: "String t = None \<longleftrightarrow> \<not> type_ok t"
proof (induction t rule: String.induct)
  case (2 paths types columns)
  have "((case columnType c of None \<Rightarrow> None | Some t \<Rightarrow> map_option (\<lambda>s. columnName c @ '' '' @ s) (String t)) = None)
      = (\<not> (case columnType c of None \<Rightarrow> False | Some t \<Rightarrow> type_ok t))" if "c \<in> set columns" for c
    using 2 [OF that] by (cases "columnType c") auto
  then show ?case by (auto simp: list_all_iff split: option.splits(1))
qed (auto simp: list_all_iff)

lemma Column_ToSQL_ok: "Column_ToSQL c = None \<longleftrightarrow> \<not> column_ok c"
  by (auto simp: Column_ToSQL_def column_ok_def String_type_ok split: option.splits)

lemma Engine_OnCluster_WithReplication:
  "Engine_OnCluster c (Engine_WithReplication e) = Engine_WithReplication (Engine_OnCluster c e)"
  by (cases e) simp_all

lemma Engine_WithReplication_idem [simp]:
  "Engine_WithReplication (Engine_WithReplication e) = Engine_WithReplication e"
  by (cases e) simp_all

lemma Engine_OnCluster_last [simp]:
  "Engine_OnCluster c (Engine_OnCluster c' e) = Engine_OnCluster c e"
  by (cases e) simp_all

end
