(* ===== verification/Operations.thy ===== *)
theory Operations
  imports SqlTypes
begin

text \<open>
  The operations of the schema migrator (\<open>op.go\<close>, \<open>column_operations.go\<close>, \<open>table_operations.go\<close>,
  \<open>index_operations.go\<close>, \<open>projection_operations.go\<close>, \<open>data_operations.go\<close> in
  \<open>cmd/o11yschemamigrator/schema_migrator\<close>).

  A struct is a record; records extend each other where structs share their first fields. The
  methods of a struct are one definition, the table \<open>X_methods\<close> of type \<open>methods\<close>; structs with
  the same fields share a record type and differ in their tables. The interface \<open>Operation\<close> is a
  datatype over the structs, and its methods dispatch to the tables. \<open>ToSQL\<close> answers \<open>None\<close>
  where a column without a type makes the code panic.
\<close>

record db_op =
  cluster :: string
  Database :: string

record table_op = db_op +
  Table :: string

record 'a methods =
  mOnCluster :: "'a \<Rightarrow> string \<Rightarrow> 'a"
  mWithReplication :: "'a \<Rightarrow> 'a"
  mShouldWait :: "'a \<Rightarrow> bool \<times> string \<times> string"
  mIsMutation :: "'a \<Rightarrow> bool"
  mIsIdempotent :: "'a \<Rightarrow> bool"
  mIsLightweight :: "'a \<Rightarrow> bool"
  mForceMigrate :: "'a \<Rightarrow> bool"
  mToSQL :: "'a \<Rightarrow> string option"

definition table_name :: "'a table_op_scheme \<Rightarrow> string" where
  "table_name a = Database a @ ''.'' @ Table a"

definition on_cluster :: "string \<Rightarrow> string" where
  "on_cluster c = part '' ON CLUSTER '' c ''''"

definition alter_table :: "'a table_op_scheme \<Rightarrow> string" where
  "alter_table a = ''ALTER TABLE '' @ table_name a @ on_cluster (cluster a)"

section \<open>Column operations (column\_operations.go)\<close>

record column_op = table_op +
  OpColumn :: Column

record AlterTableAddColumn = column_op +
  After :: "Column option"

definition AlterTableAddColumn_methods :: "AlterTableAddColumn methods" where
  "AlterTableAddColumn_methods = \<lparr>
     mOnCluster = (\<lambda>a c. a\<lparr>cluster := c\<rparr>),
     mWithReplication = (\<lambda>a. a),
     mShouldWait = (\<lambda>a. (False, Database a, Table a)),
     mIsMutation = (\<lambda>a. False),
     mIsIdempotent = (\<lambda>a. True),
     mIsLightweight = (\<lambda>a. True),
     mForceMigrate = (\<lambda>a. False),
     mToSQL = (\<lambda>a. map_option (\<lambda>s. alter_table a @ '' ADD COLUMN IF NOT EXISTS '' @ s
         @ (case After a of None \<Rightarrow> [] | Some c \<Rightarrow> '' AFTER '' @ columnName c)) (Column_ToSQL (OpColumn a)))\<rparr>"

type_synonym AlterTableDropColumn = column_op

definition AlterTableDropColumn_methods :: "AlterTableDropColumn methods" where
  "AlterTableDropColumn_methods = \<lparr>
     mOnCluster = (\<lambda>a c. a\<lparr>cluster := c\<rparr>),
     mWithReplication = (\<lambda>a. a),
     mShouldWait = (\<lambda>a. (True, Database a, Table a)),
     mIsMutation = (\<lambda>a. True),
     mIsIdempotent = (\<lambda>a. True),
     mIsLightweight = (\<lambda>a. True),
     mForceMigrate = (\<lambda>a. False),
     mToSQL = (\<lambda>a. Some (alter_table a @ '' DROP COLUMN IF EXISTS '' @ columnName (OpColumn a)))\<rparr>"

type_synonym AlterTableModifyColumn = column_op

definition AlterTableModifyColumn_methods :: "AlterTableModifyColumn methods" where
  "AlterTableModifyColumn_methods = \<lparr>
     mOnCluster = (\<lambda>a c. a\<lparr>cluster := c\<rparr>),
     mWithReplication = (\<lambda>a. a),
     mShouldWait = (\<lambda>a. (False, Database a, Table a)),
     mIsMutation = (\<lambda>a. columnType (OpColumn a) \<noteq> None \<or> columnTTL (OpColumn a) \<noteq> []),
     mIsIdempotent = (\<lambda>a. True),
     mIsLightweight = (\<lambda>a. columnType (OpColumn a) \<noteq> None \<or> columnTTL (OpColumn a) \<noteq> []),
     mForceMigrate = (\<lambda>a. False),
     mToSQL = (\<lambda>a. map_option (\<lambda>s. alter_table a @ '' MODIFY COLUMN IF EXISTS '' @ columnName (OpColumn a) @ s
         @ part '' DEFAULT '' (Default (OpColumn a)) ''''
         @ part '' CODEC('' (Codec (OpColumn a)) '')''
         @ part '' TTL '' (columnTTL (OpColumn a)) ''''
         @ (case columnSettings (OpColumn a) of None \<Rightarrow> [] | Some st \<Rightarrow> '' SETTINGS '' @ ColumnSettings_String st))
       (case columnType (OpColumn a) of None \<Rightarrow> Some [] | Some t \<Rightarrow> map_option (\<lambda>s. '' '' @ s) (String t)))\<rparr>"

record AlterTableModifyColumnRemove = column_op +
  Property :: string

definition AlterTableModifyColumnRemove_methods :: "AlterTableModifyColumnRemove methods" where
  "AlterTableModifyColumnRemove_methods = \<lparr>
     mOnCluster = (\<lambda>a c. a\<lparr>cluster := c\<rparr>),
     mWithReplication = (\<lambda>a. a),
     mShouldWait = (\<lambda>a. (False, Database a, Table a)),
     mIsMutation = (\<lambda>a. False),
     mIsIdempotent = (\<lambda>a. False),
     mIsLightweight = (\<lambda>a. True),
     mForceMigrate = (\<lambda>a. False),
     mToSQL = (\<lambda>a. Some (alter_table a @ '' MODIFY COLUMN IF EXISTS '' @ columnName (OpColumn a) @ '' REMOVE '' @ Property a))\<rparr>"

record column_settings_op = column_op +
  OpSettings :: ColumnSettings

type_synonym AlterTableModifyColumnModifySettings = column_settings_op

definition AlterTableModifyColumnModifySettings_methods :: "AlterTableModifyColumnModifySettings methods" where
  "AlterTableModifyColumnModifySettings_methods = \<lparr>
     mOnCluster = (\<lambda>a c. a\<lparr>cluster := c\<rparr>),
     mWithReplication = (\<lambda>a. a),
     mShouldWait = (\<lambda>a. (False, Database a, Table a)),
     mIsMutation = (\<lambda>a. False),
     mIsIdempotent = (\<lambda>a. True),
     mIsLightweight = (\<lambda>a. True),
     mForceMigrate = (\<lambda>a. False),
     mToSQL = (\<lambda>a. Some (alter_table a @ '' MODIFY COLUMN IF EXISTS '' @ columnName (OpColumn a)
       @ '' MODIFY SETTING '' @ ColumnSettings_String (OpSettings a)))\<rparr>"

type_synonym AlterTableModifyColumnResetSettings = column_settings_op

definition AlterTableModifyColumnResetSettings_methods :: "AlterTableModifyColumnResetSettings methods" where
  "AlterTableModifyColumnResetSettings_methods = \<lparr>
     mOnCluster = (\<lambda>a c. a\<lparr>cluster := c\<rparr>),
     mWithReplication = (\<lambda>a. a),
     mShouldWait = (\<lambda>a. (False, Database a, Table a)),
     mIsMutation = (\<lambda>a. False),
     mIsIdempotent = (\<lambda>a. True),
     mIsLightweight = (\<lambda>a. True),
     mForceMigrate = (\<lambda>a. False),
     mToSQL = (\<lambda>a. Some (alter_table a @ '' MODIFY COLUMN IF EXISTS '' @ columnName (OpColumn a)
       @ '' RESET SETTING '' @ join '', '' (ColumnSettings_Names (OpSettings a))))\<rparr>"

record AlterTableMaterializeColumn = column_op +
  ColumnPartition :: string
  PartitionID :: string

definition AlterTableMaterializeColumn_methods :: "AlterTableMaterializeColumn methods" where
  "AlterTableMaterializeColumn_methods = \<lparr>
     mOnCluster = (\<lambda>a c. a\<lparr>cluster := c\<rparr>),
     mWithReplication = (\<lambda>a. a),
     mShouldWait = (\<lambda>a. (False, Database a, Table a)),
     mIsMutation = (\<lambda>a. True),
     mIsIdempotent = (\<lambda>a. True),
     mIsLightweight = (\<lambda>a. False),
     mForceMigrate = (\<lambda>a. False),
     mToSQL = (\<lambda>a. Some (alter_table a @ '' MATERIALIZE COLUMN '' @ columnName (OpColumn a)
       @ (if ColumnPartition a \<noteq> [] then '' IN PARTITION '' @ ColumnPartition a
          else part '' IN PARTITION '' (PartitionID a) '''')))\<rparr>"

section \<open>Index operations (index\_operations.go)\<close>

record Index =
  indexName :: string
  Expression :: string
  indexType :: string
  Granularity :: int

definition Index_body :: "Index \<Rightarrow> string" where
  "Index_body i = indexName i @ '' '' @ Expression i @ '' TYPE '' @ indexType i @ '' GRANULARITY '' @ itoa (Granularity i)"

definition Index_ToSQL :: "Index \<Rightarrow> string" where
  "Index_ToSQL i = ''INDEX '' @ Index_body i"

record index_op = table_op +
  OpIndex :: Index

type_synonym AlterTableAddIndex = index_op

definition AlterTableAddIndex_methods :: "AlterTableAddIndex methods" where
  "AlterTableAddIndex_methods = \<lparr>
     mOnCluster = (\<lambda>a c. a\<lparr>cluster := c\<rparr>),
     mWithReplication = (\<lambda>a. a),
     mShouldWait = (\<lambda>a. (False, Database a, Table a)),
     mIsMutation = (\<lambda>a. False),
     mIsIdempotent = (\<lambda>a. True),
     mIsLightweight = (\<lambda>a. True),
     mForceMigrate = (\<lambda>a. False),
     mToSQL = (\<lambda>a. Some (alter_table a @ '' ADD INDEX IF NOT EXISTS '' @ Index_body (OpIndex a)))\<rparr>"

type_synonym AlterTableDropIndex = index_op

definition AlterTableDropIndex_methods :: "AlterTableDropIndex methods" where
  "AlterTableDropIndex_methods = \<lparr>
     mOnCluster = (\<lambda>a c. a\<lparr>cluster := c\<rparr>),
     mWithReplication = (\<lambda>a. a),
     mShouldWait = (\<lambda>a. (False, Database a, Table a)),
     mIsMutation = (\<lambda>a. True),
     mIsIdempotent = (\<lambda>a. True),
     mIsLightweight = (\<lambda>a. True),
     mForceMigrate = (\<lambda>a. False),
     mToSQL = (\<lambda>a. Some (alter_table a @ '' DROP INDEX IF EXISTS '' @ indexName (OpIndex a)))\<rparr>"

record index_partition_op = index_op +
  IndexPartition :: string

type_synonym AlterTableMaterializeIndex = index_partition_op

definition AlterTableMaterializeIndex_methods :: "AlterTableMaterializeIndex methods" where
  "AlterTableMaterializeIndex_methods = \<lparr>
     mOnCluster = (\<lambda>a c. a\<lparr>cluster := c\<rparr>),
     mWithReplication = (\<lambda>a. a),
     mShouldWait = (\<lambda>a. (False, Database a, Table a)),
     mIsMutation = (\<lambda>a. True),
     mIsIdempotent = (\<lambda>a. True),
     mIsLightweight = (\<lambda>a. False),
     mForceMigrate = (\<lambda>a. False),
     mToSQL = (\<lambda>a. Some (alter_table a @ '' MATERIALIZE INDEX IF EXISTS '' @ indexName (OpIndex a) @ part '' IN PARTITION '' (IndexPartition a) ''''))\<rparr>"

type_synonym AlterTableClearIndex = index_partition_op

definition AlterTableClearIndex_methods :: "AlterTableClearIndex methods" where
  "AlterTableClearIndex_methods = \<lparr>
     mOnCluster = (\<lambda>a c. a\<lparr>cluster := c\<rparr>),
     mWithReplication = (\<lambda>a. a),
     mShouldWait = (\<lambda>a. (False, Database a, Table a)),
     mIsMutation = (\<lambda>a. True),
     mIsIdempotent = (\<lambda>a. True),
     mIsLightweight = (\<lambda>a. False),
     mForceMigrate = (\<lambda>a. False),
     mToSQL = (\<lambda>a. Some (alter_table a @ '' CLEAR INDEX IF EXISTS '' @ indexName (OpIndex a) @ part '' IN PARTITION '' (IndexPartition a) ''''))\<rparr>"

section \<open>Table operations (table\_operations.go)\<close>

record Projection =
  projectionName :: string
  projectionQuery :: string

definition Projection_ToSQL :: "Projection \<Rightarrow> string" where
  "Projection_ToSQL p = ''PROJECTION '' @ projectionName p @ '' ('' @ projectionQuery p @ '')''"

record CreateTableOperation = table_op +
  Columns :: "Column list"
  Indexes :: "Index list"
  Projections :: "Projection list"
  Engine :: TableEngine

definition CreateTableOperation_methods :: "CreateTableOperation methods" where
  "CreateTableOperation_methods = \<lparr>
     mOnCluster = (\<lambda>a c. a\<lparr>cluster := c, Engine := Engine_OnCluster c (Engine a)\<rparr>),
     mWithReplication = (\<lambda>a. a\<lparr>Engine := Engine_WithReplication (Engine a)\<rparr>),
     mShouldWait = (\<lambda>a. (False, Database a, Table a)),
     mIsMutation = (\<lambda>a. False),
     mIsIdempotent = (\<lambda>a. True),
     mIsLightweight = (\<lambda>a. True),
     mForceMigrate = (\<lambda>a. False),
     mToSQL = (\<lambda>a. map_option (\<lambda>columnParts. ''CREATE TABLE IF NOT EXISTS '' @ table_name a @ on_cluster (cluster a)
         @ '' ('' @ columnParts @ concat (map (\<lambda>i. '', '' @ Index_ToSQL i) (Indexes a))
         @ concat (map (\<lambda>p. '', '' @ Projection_ToSQL p) (Projections a)) @ '')''
         @ '' ENGINE = '' @ Engine_ToSQL (Engine a)) (joined (map Column_ToSQL (Columns a))))\<rparr>"

record table_settings_op = table_op +
  OpTableSettings :: TableSettings

type_synonym DropTableOperation = table_settings_op

definition DropTableOperation_methods :: "DropTableOperation methods" where
  "DropTableOperation_methods = \<lparr>
     mOnCluster = (\<lambda>a c. a\<lparr>cluster := c\<rparr>),
     mWithReplication = (\<lambda>a. a),
     mShouldWait = (\<lambda>a. (False, Database a, Table a)),
     mIsMutation = (\<lambda>a. True),
     mIsIdempotent = (\<lambda>a. True),
     mIsLightweight = (\<lambda>a. True),
     mForceMigrate = (\<lambda>a. False),
     mToSQL = (\<lambda>a. Some (''DROP TABLE IF EXISTS '' @ table_name a @ on_cluster (cluster a)
       @ (if 0 < length (OpTableSettings a) then '' SETTINGS '' @ TableSettings_ToSQL (OpTableSettings a) else [])))\<rparr>"

record view_op = db_op +
  ViewName :: string

definition view_name :: "'a view_op_scheme \<Rightarrow> string" where
  "view_name a = Database a @ ''.'' @ ViewName a"

record CreateMaterializedViewOperation = view_op +
  DestTable :: string
  ViewColumns :: "Column list"
  ViewQuery :: string

definition CreateMaterializedViewOperation_methods :: "CreateMaterializedViewOperation methods" where
  "CreateMaterializedViewOperation_methods = \<lparr>
     mOnCluster = (\<lambda>a c. a\<lparr>cluster := c\<rparr>),
     mWithReplication = (\<lambda>a. a),
     mShouldWait = (\<lambda>a. (False, Database a, ViewName a)),
     mIsMutation = (\<lambda>a. False),
     mIsIdempotent = (\<lambda>a. True),
     mIsLightweight = (\<lambda>a. True),
     mForceMigrate = (\<lambda>a. False),
     mToSQL = (\<lambda>a. map_option (\<lambda>columns. ''CREATE MATERIALIZED VIEW IF NOT EXISTS '' @ view_name a @ on_cluster (cluster a)
         @ '' TO '' @ Database a @ ''.'' @ DestTable a
         @ (if 0 < length (ViewColumns a) then '' ('' @ columns @ '')'' else []) @ '' AS '' @ ViewQuery a)
       (joined (map Column_ToSQL (ViewColumns a))))\<rparr>"

record ModifyQueryMaterializedViewOperation = view_op +
  NewQuery :: string

definition ModifyQueryMaterializedViewOperation_methods :: "ModifyQueryMaterializedViewOperation methods" where
  "ModifyQueryMaterializedViewOperation_methods = \<lparr>
     mOnCluster = (\<lambda>a c. a\<lparr>cluster := c\<rparr>),
     mWithReplication = (\<lambda>a. a),
     mShouldWait = (\<lambda>a. (False, Database a, ViewName a)),
     mIsMutation = (\<lambda>a. False),
     mIsIdempotent = (\<lambda>a. True),
     mIsLightweight = (\<lambda>a. True),
     mForceMigrate = (\<lambda>a. False),
     mToSQL = (\<lambda>a. Some (''ALTER TABLE '' @ view_name a @ on_cluster (cluster a) @ '' MODIFY QUERY '' @ NewQuery a))\<rparr>"

type_synonym TruncateTableOperation = table_op

definition TruncateTableOperation_methods :: "TruncateTableOperation methods" where
  "TruncateTableOperation_methods = \<lparr>
     mOnCluster = (\<lambda>a c. a\<lparr>cluster := c\<rparr>),
     mWithReplication = (\<lambda>a. a),
     mShouldWait = (\<lambda>a. (False, Database a, Table a)),
     mIsMutation = (\<lambda>a. True),
     mIsIdempotent = (\<lambda>a. True),
     mIsLightweight = (\<lambda>a. False),
     mForceMigrate = (\<lambda>a. False),
     mToSQL = (\<lambda>a. Some (''TRUNCATE TABLE IF EXISTS '' @ table_name a @ on_cluster (cluster a)))\<rparr>"

record AlterTableModifyTTL = table_op +
  OpTTL :: string
  MaterializeTTLAfterModify :: bool

definition AlterTableModifyTTL_methods :: "AlterTableModifyTTL methods" where
  "AlterTableModifyTTL_methods = \<lparr>
     mOnCluster = (\<lambda>a c. a\<lparr>cluster := c\<rparr>),
     mWithReplication = (\<lambda>a. a),
     mShouldWait = (\<lambda>a. (False, Database a, Table a)),
     mIsMutation = (\<lambda>a. MaterializeTTLAfterModify a),
     mIsIdempotent = (\<lambda>a. True),
     mIsLightweight = (\<lambda>a. \<not> MaterializeTTLAfterModify a),
     mForceMigrate = (\<lambda>a. False),
     mToSQL = (\<lambda>a. Some (alter_table a @ '' MODIFY TTL '' @ OpTTL a
       @ (if \<not> MaterializeTTLAfterModify a then '' SETTINGS '' @ ''materialize_ttl_after_modify = 0'' else [])))\<rparr>"

type_synonym AlterTableDropTTL = table_op

definition AlterTableDropTTL_methods :: "AlterTableDropTTL methods" where
  "AlterTableDropTTL_methods = \<lparr>
     mOnCluster = (\<lambda>a c. a\<lparr>cluster := c\<rparr>),
     mWithReplication = (\<lambda>a. a),
     mShouldWait = (\<lambda>a. (False, Database a, Table a)),
     mIsMutation = (\<lambda>a. False),
     mIsIdempotent = (\<lambda>a. True),
     mIsLightweight = (\<lambda>a. True),
     mForceMigrate = (\<lambda>a. False),
     mToSQL = (\<lambda>a. Some (alter_table a @ '' REMOVE TTL''))\<rparr>"

type_synonym AlterTableModifySettings = table_settings_op

definition AlterTableModifySettings_methods :: "AlterTableModifySettings methods" where
  "AlterTableModifySettings_methods = \<lparr>
     mOnCluster = (\<lambda>a c. a\<lparr>cluster := c\<rparr>),
     mWithReplication = (\<lambda>a. a),
     mShouldWait = (\<lambda>a. (False, Database a, Table a)),
     mIsMutation = (\<lambda>a. False),
     mIsIdempotent = (\<lambda>a. True),
     mIsLightweight = (\<lambda>a. True),
     mForceMigrate = (\<lambda>a. False),
     mToSQL = (\<lambda>a. Some (alter_table a @ '' MODIFY SETTING '' @ TableSettings_ToSQL (OpTableSettings a)))\<rparr>"

section \<open>Projections and data (projection\_operations.go, data\_operations.go)\<close>

record projection_op = table_op +
  OpProjection :: Projection

type_synonym CreateProjectionOperation = projection_op

definition CreateProjectionOperation_methods :: "CreateProjectionOperation methods" where
  "CreateProjectionOperation_methods = \<lparr>
     mOnCluster = (\<lambda>a c. a\<lparr>cluster := c\<rparr>),
     mWithReplication = (\<lambda>a. a),
     mShouldWait = (\<lambda>a. (False, Database a, Table a)),
     mIsMutation = (\<lambda>a. False),
     mIsIdempotent = (\<lambda>a. True),
     mIsLightweight = (\<lambda>a. True),
     mForceMigrate = (\<lambda>a. False),
     mToSQL = (\<lambda>a. Some (''ALTER TABLE '' @ table_name a @ '' ADD PROJECTION IF NOT EXISTS ''
       @ projectionName (OpProjection a) @ '' ('' @ projectionQuery (OpProjection a) @ '')''))\<rparr>"

type_synonym DropProjectionOperation = projection_op

definition DropProjectionOperation_methods :: "DropProjectionOperation methods" where
  "DropProjectionOperation_methods = \<lparr>
     mOnCluster = (\<lambda>a c. a\<lparr>cluster := c\<rparr>),
     mWithReplication = (\<lambda>a. a),
     mShouldWait = (\<lambda>a. (False, Database a, Table a)),
     mIsMutation = (\<lambda>a. False),
     mIsIdempotent = (\<lambda>a. True),
     mIsLightweight = (\<lambda>a. True),
     mForceMigrate = (\<lambda>a. False),
     mToSQL = (\<lambda>a. Some (alter_table a @ '' DROP PROJECTION IF EXISTS '' @ projectionName (OpProjection a)))\<rparr>"

record InsertIntoTable = table_op +
  InsertColumns :: "string list"
  LightWeight :: bool
  Synchronous :: bool
  InsertValues :: string

definition InsertIntoTable_methods :: "InsertIntoTable methods" where
  "InsertIntoTable_methods = \<lparr>
     mOnCluster = (\<lambda>a c. a\<lparr>cluster := c\<rparr>),
     mWithReplication = (\<lambda>a. a),
     mShouldWait = (\<lambda>a. (False, Database a, Table a)),
     mIsMutation = (\<lambda>a. False),
     mIsIdempotent = (\<lambda>a. False),
     mIsLightweight = (\<lambda>a. LightWeight a),
     mForceMigrate = (\<lambda>a. Synchronous a),
     mToSQL = (\<lambda>a. Some (''INSERT INTO '' @ table_name a
       @ (if 0 < length (InsertColumns a) then '' ('' @ join '', '' (InsertColumns a) @ '')'' else [])
       @ '' VALUES '' @ InsertValues a))\<rparr>"

section \<open>The interface (op.go)\<close>

lemmas operation_methods =
  AlterTableAddColumn_methods_def AlterTableDropColumn_methods_def AlterTableModifyColumn_methods_def
  AlterTableModifyColumnRemove_methods_def AlterTableModifyColumnModifySettings_methods_def
  AlterTableModifyColumnResetSettings_methods_def AlterTableMaterializeColumn_methods_def
  AlterTableAddIndex_methods_def AlterTableDropIndex_methods_def AlterTableMaterializeIndex_methods_def
  AlterTableClearIndex_methods_def CreateTableOperation_methods_def DropTableOperation_methods_def
  CreateMaterializedViewOperation_methods_def ModifyQueryMaterializedViewOperation_methods_def
  TruncateTableOperation_methods_def AlterTableModifyTTL_methods_def AlterTableDropTTL_methods_def
  AlterTableModifySettings_methods_def CreateProjectionOperation_methods_def DropProjectionOperation_methods_def
  InsertIntoTable_methods_def

text \<open>A value of the interface type \<open>Operation\<close>: a struct with its methods.\<close>

datatype Operation =
    OpAddColumn AlterTableAddColumn
  | OpDropColumn AlterTableDropColumn
  | OpModifyColumn AlterTableModifyColumn
  | OpModifyColumnRemove AlterTableModifyColumnRemove
  | OpModifyColumnModifySettings AlterTableModifyColumnModifySettings
  | OpModifyColumnResetSettings AlterTableModifyColumnResetSettings
  | OpMaterializeColumn AlterTableMaterializeColumn
  | OpAddIndex AlterTableAddIndex
  | OpDropIndex AlterTableDropIndex
  | OpMaterializeIndex AlterTableMaterializeIndex
  | OpClearIndex AlterTableClearIndex
  | OpCreateTable CreateTableOperation
  | OpDropTable DropTableOperation
  | OpCreateMaterializedView CreateMaterializedViewOperation
  | OpModifyQueryMaterializedView ModifyQueryMaterializedViewOperation
  | OpTruncateTable TruncateTableOperation
  | OpModifyTTL AlterTableModifyTTL
  | OpDropTTL AlterTableDropTTL
  | OpModifySettings AlterTableModifySettings
  | OpCreateProjection CreateProjectionOperation
  | OpDropProjection DropProjectionOperation
  | OpInsertIntoTable InsertIntoTable

fun OnCluster :: "Operation \<Rightarrow> string \<Rightarrow> Operation" where
  "OnCluster (OpAddColumn a) c = OpAddColumn (mOnCluster AlterTableAddColumn_methods a c)"
| "OnCluster (OpDropColumn a) c = OpDropColumn (mOnCluster AlterTableDropColumn_methods a c)"
| "OnCluster (OpModifyColumn a) c = OpModifyColumn (mOnCluster AlterTableModifyColumn_methods a c)"
| "OnCluster (OpModifyColumnRemove a) c = OpModifyColumnRemove (mOnCluster AlterTableModifyColumnRemove_methods a c)"
| "OnCluster (OpModifyColumnModifySettings a) c = OpModifyColumnModifySettings (mOnCluster AlterTableModifyColumnModifySettings_methods a c)"
| "OnCluster (OpModifyColumnResetSettings a) c = OpModifyColumnResetSettings (mOnCluster AlterTableModifyColumnResetSettings_methods a c)"
| "OnCluster (OpMaterializeColumn a) c = OpMaterializeColumn (mOnCluster AlterTableMaterializeColumn_methods a c)"
| "OnCluster (OpAddIndex a) c = OpAddIndex (mOnCluster AlterTableAddIndex_methods a c)"
| "OnCluster (OpDropIndex a) c = OpDropIndex (mOnCluster AlterTableDropIndex_methods a c)"
| "OnCluster (OpMaterializeIndex a) c = OpMaterializeIndex (mOnCluster AlterTableMaterializeIndex_methods a c)"
| "OnCluster (OpClearIndex a) c = OpClearIndex (mOnCluster AlterTableClearIndex_methods a c)"
| "OnCluster (OpCreateTable a) c = OpCreateTable (mOnCluster CreateTableOperation_methods a c)"
| "OnCluster (OpDropTable a) c = OpDropTable (mOnCluster DropTableOperation_methods a c)"
| "OnCluster (OpCreateMaterializedView a) c = OpCreateMaterializedView (mOnCluster CreateMaterializedViewOperation_methods a c)"
| "OnCluster (OpModifyQueryMaterializedView a) c = OpModifyQueryMaterializedView (mOnCluster ModifyQueryMaterializedViewOperation_methods a c)"
| "OnCluster (OpTruncateTable a) c = OpTruncateTable (mOnCluster TruncateTableOperation_methods a c)"
| "OnCluster (OpModifyTTL a) c = OpModifyTTL (mOnCluster AlterTableModifyTTL_methods a c)"
| "OnCluster (OpDropTTL a) c = OpDropTTL (mOnCluster AlterTableDropTTL_methods a c)"
| "OnCluster (OpModifySettings a) c = OpModifySettings (mOnCluster AlterTableModifySettings_methods a c)"
| "OnCluster (OpCreateProjection a) c = OpCreateProjection (mOnCluster CreateProjectionOperation_methods a c)"
| "OnCluster (OpDropProjection a) c = OpDropProjection (mOnCluster DropProjectionOperation_methods a c)"
| "OnCluster (OpInsertIntoTable a) c = OpInsertIntoTable (mOnCluster InsertIntoTable_methods a c)"

fun WithReplication :: "Operation \<Rightarrow> Operation" where
  "WithReplication (OpAddColumn a) = OpAddColumn (mWithReplication AlterTableAddColumn_methods a)"
| "WithReplication (OpDropColumn a) = OpDropColumn (mWithReplication AlterTableDropColumn_methods a)"
| "WithReplication (OpModifyColumn a) = OpModifyColumn (mWithReplication AlterTableModifyColumn_methods a)"
| "WithReplication (OpModifyColumnRemove a) = OpModifyColumnRemove (mWithReplication AlterTableModifyColumnRemove_methods a)"
| "WithReplication (OpModifyColumnModifySettings a) = OpModifyColumnModifySettings (mWithReplication AlterTableModifyColumnModifySettings_methods a)"
| "WithReplication (OpModifyColumnResetSettings a) = OpModifyColumnResetSettings (mWithReplication AlterTableModifyColumnResetSettings_methods a)"
| "WithReplication (OpMaterializeColumn a) = OpMaterializeColumn (mWithReplication AlterTableMaterializeColumn_methods a)"
| "WithReplication (OpAddIndex a) = OpAddIndex (mWithReplication AlterTableAddIndex_methods a)"
| "WithReplication (OpDropIndex a) = OpDropIndex (mWithReplication AlterTableDropIndex_methods a)"
| "WithReplication (OpMaterializeIndex a) = OpMaterializeIndex (mWithReplication AlterTableMaterializeIndex_methods a)"
| "WithReplication (OpClearIndex a) = OpClearIndex (mWithReplication AlterTableClearIndex_methods a)"
| "WithReplication (OpCreateTable a) = OpCreateTable (mWithReplication CreateTableOperation_methods a)"
| "WithReplication (OpDropTable a) = OpDropTable (mWithReplication DropTableOperation_methods a)"
| "WithReplication (OpCreateMaterializedView a) = OpCreateMaterializedView (mWithReplication CreateMaterializedViewOperation_methods a)"
| "WithReplication (OpModifyQueryMaterializedView a) = OpModifyQueryMaterializedView (mWithReplication ModifyQueryMaterializedViewOperation_methods a)"
| "WithReplication (OpTruncateTable a) = OpTruncateTable (mWithReplication TruncateTableOperation_methods a)"
| "WithReplication (OpModifyTTL a) = OpModifyTTL (mWithReplication AlterTableModifyTTL_methods a)"
| "WithReplication (OpDropTTL a) = OpDropTTL (mWithReplication AlterTableDropTTL_methods a)"
| "WithReplication (OpModifySettings a) = OpModifySettings (mWithReplication AlterTableModifySettings_methods a)"
| "WithReplication (OpCreateProjection a) = OpCreateProjection (mWithReplication CreateProjectionOperation_methods a)"
| "WithReplication (OpDropProjection a) = OpDropProjection (mWithReplication DropProjectionOperation_methods a)"
| "WithReplication (OpInsertIntoTable a) = OpInsertIntoTable (mWithReplication InsertIntoTable_methods a)"

fun ShouldWaitForDistributionQueue :: "Operation \<Rightarrow> bool \<times> string \<times> string" where
  "ShouldWaitForDistributionQueue (OpAddColumn a) = mShouldWait AlterTableAddColumn_methods a"
| "ShouldWaitForDistributionQueue (OpDropColumn a) = mShouldWait AlterTableDropColumn_methods a"
| "ShouldWaitForDistributionQueue (OpModifyColumn a) = mShouldWait AlterTableModifyColumn_methods a"
| "ShouldWaitForDistributionQueue (OpModifyColumnRemove a) = mShouldWait AlterTableModifyColumnRemove_methods a"
| "ShouldWaitForDistributionQueue (OpModifyColumnModifySettings a) = mShouldWait AlterTableModifyColumnModifySettings_methods a"
| "ShouldWaitForDistributionQueue (OpModifyColumnResetSettings a) = mShouldWait AlterTableModifyColumnResetSettings_methods a"
| "ShouldWaitForDistributionQueue (OpMaterializeColumn a) = mShouldWait AlterTableMaterializeColumn_methods a"
| "ShouldWaitForDistributionQueue (OpAddIndex a) = mShouldWait AlterTableAddIndex_methods a"
| "ShouldWaitForDistributionQueue (OpDropIndex a) = mShouldWait AlterTableDropIndex_methods a"
| "ShouldWaitForDistributionQueue (OpMaterializeIndex a) = mShouldWait AlterTableMaterializeIndex_methods a"
| "ShouldWaitForDistributionQueue (OpClearIndex a) = mShouldWait AlterTableClearIndex_methods a"
| "ShouldWaitForDistributionQueue (OpCreateTable a) = mShouldWait CreateTableOperation_methods a"
| "ShouldWaitForDistributionQueue (OpDropTable a) = mShouldWait DropTableOperation_methods a"
| "ShouldWaitForDistributionQueue (OpCreateMaterializedView a) = mShouldWait CreateMaterializedViewOperation_methods a"
| "ShouldWaitForDistributionQueue (OpModifyQueryMaterializedView a) = mShouldWait ModifyQueryMaterializedViewOperation_methods a"
| "ShouldWaitForDistributionQueue (OpTruncateTable a) = mShouldWait TruncateTableOperation_methods a"
| "ShouldWaitForDistributionQueue (OpModifyTTL a) = mShouldWait AlterTableModifyTTL_methods a"
| "ShouldWaitForDistributionQueue (OpDropTTL a) = mShouldWait AlterTableDropTTL_methods a"
| "ShouldWaitForDistributionQueue (OpModifySettings a) = mShouldWait AlterTableModifySettings_methods a"
| "ShouldWaitForDistributionQueue (OpCreateProjection a) = mShouldWait CreateProjectionOperation_methods a"
| "ShouldWaitForDistributionQueue (OpDropProjection a) = mShouldWait DropProjectionOperation_methods a"
| "ShouldWaitForDistributionQueue (OpInsertIntoTable a) = mShouldWait InsertIntoTable_methods a"

fun IsMutation :: "Operation \<Rightarrow> bool" where
  "IsMutation (OpAddColumn a) = mIsMutation AlterTableAddColumn_methods a"
| "IsMutation (OpDropColumn a) = mIsMutation AlterTableDropColumn_methods a"
| "IsMutation (OpModifyColumn a) = mIsMutation AlterTableModifyColumn_methods a"
| "IsMutation (OpModifyColumnRemove a) = mIsMutation AlterTableModifyColumnRemove_methods a"
| "IsMutation (OpModifyColumnModifySettings a) = mIsMutation AlterTableModifyColumnModifySettings_methods a"
| "IsMutation (OpModifyColumnResetSettings a) = mIsMutation AlterTableModifyColumnResetSettings_methods a"
| "IsMutation (OpMaterializeColumn a) = mIsMutation AlterTableMaterializeColumn_methods a"
| "IsMutation (OpAddIndex a) = mIsMutation AlterTableAddIndex_methods a"
| "IsMutation (OpDropIndex a) = mIsMutation AlterTableDropIndex_methods a"
| "IsMutation (OpMaterializeIndex a) = mIsMutation AlterTableMaterializeIndex_methods a"
| "IsMutation (OpClearIndex a) = mIsMutation AlterTableClearIndex_methods a"
| "IsMutation (OpCreateTable a) = mIsMutation CreateTableOperation_methods a"
| "IsMutation (OpDropTable a) = mIsMutation DropTableOperation_methods a"
| "IsMutation (OpCreateMaterializedView a) = mIsMutation CreateMaterializedViewOperation_methods a"
| "IsMutation (OpModifyQueryMaterializedView a) = mIsMutation ModifyQueryMaterializedViewOperation_methods a"
| "IsMutation (OpTruncateTable a) = mIsMutation TruncateTableOperation_methods a"
| "IsMutation (OpModifyTTL a) = mIsMutation AlterTableModifyTTL_methods a"
| "IsMutation (OpDropTTL a) = mIsMutation AlterTableDropTTL_methods a"
| "IsMutation (OpModifySettings a) = mIsMutation AlterTableModifySettings_methods a"
| "IsMutation (OpCreateProjection a) = mIsMutation CreateProjectionOperation_methods a"
| "IsMutation (OpDropProjection a) = mIsMutation DropProjectionOperation_methods a"
| "IsMutation (OpInsertIntoTable a) = mIsMutation InsertIntoTable_methods a"

fun IsIdempotent :: "Operation \<Rightarrow> bool" where
  "IsIdempotent (OpAddColumn a) = mIsIdempotent AlterTableAddColumn_methods a"
| "IsIdempotent (OpDropColumn a) = mIsIdempotent AlterTableDropColumn_methods a"
| "IsIdempotent (OpModifyColumn a) = mIsIdempotent AlterTableModifyColumn_methods a"
| "IsIdempotent (OpModifyColumnRemove a) = mIsIdempotent AlterTableModifyColumnRemove_methods a"
| "IsIdempotent (OpModifyColumnModifySettings a) = mIsIdempotent AlterTableModifyColumnModifySettings_methods a"
| "IsIdempotent (OpModifyColumnResetSettings a) = mIsIdempotent AlterTableModifyColumnResetSettings_methods a"
| "IsIdempotent (OpMaterializeColumn a) = mIsIdempotent AlterTableMaterializeColumn_methods a"
| "IsIdempotent (OpAddIndex a) = mIsIdempotent AlterTableAddIndex_methods a"
| "IsIdempotent (OpDropIndex a) = mIsIdempotent AlterTableDropIndex_methods a"
| "IsIdempotent (OpMaterializeIndex a) = mIsIdempotent AlterTableMaterializeIndex_methods a"
| "IsIdempotent (OpClearIndex a) = mIsIdempotent AlterTableClearIndex_methods a"
| "IsIdempotent (OpCreateTable a) = mIsIdempotent CreateTableOperation_methods a"
| "IsIdempotent (OpDropTable a) = mIsIdempotent DropTableOperation_methods a"
| "IsIdempotent (OpCreateMaterializedView a) = mIsIdempotent CreateMaterializedViewOperation_methods a"
| "IsIdempotent (OpModifyQueryMaterializedView a) = mIsIdempotent ModifyQueryMaterializedViewOperation_methods a"
| "IsIdempotent (OpTruncateTable a) = mIsIdempotent TruncateTableOperation_methods a"
| "IsIdempotent (OpModifyTTL a) = mIsIdempotent AlterTableModifyTTL_methods a"
| "IsIdempotent (OpDropTTL a) = mIsIdempotent AlterTableDropTTL_methods a"
| "IsIdempotent (OpModifySettings a) = mIsIdempotent AlterTableModifySettings_methods a"
| "IsIdempotent (OpCreateProjection a) = mIsIdempotent CreateProjectionOperation_methods a"
| "IsIdempotent (OpDropProjection a) = mIsIdempotent DropProjectionOperation_methods a"
| "IsIdempotent (OpInsertIntoTable a) = mIsIdempotent InsertIntoTable_methods a"

fun IsLightweight :: "Operation \<Rightarrow> bool" where
  "IsLightweight (OpAddColumn a) = mIsLightweight AlterTableAddColumn_methods a"
| "IsLightweight (OpDropColumn a) = mIsLightweight AlterTableDropColumn_methods a"
| "IsLightweight (OpModifyColumn a) = mIsLightweight AlterTableModifyColumn_methods a"
| "IsLightweight (OpModifyColumnRemove a) = mIsLightweight AlterTableModifyColumnRemove_methods a"
| "IsLightweight (OpModifyColumnModifySettings a) = mIsLightweight AlterTableModifyColumnModifySettings_methods a"
| "IsLightweight (OpModifyColumnResetSettings a) = mIsLightweight AlterTableModifyColumnResetSettings_methods a"
| "IsLightweight (OpMaterializeColumn a) = mIsLightweight AlterTableMaterializeColumn_methods a"
| "IsLightweight (OpAddIndex a) = mIsLightweight AlterTableAddIndex_methods a"
| "IsLightweight (OpDropIndex a) = mIsLightweight AlterTableDropIndex_methods a"
| "IsLightweight (OpMaterializeIndex a) = mIsLightweight AlterTableMaterializeIndex_methods a"
| "IsLightweight (OpClearIndex a) = mIsLightweight AlterTableClearIndex_methods a"
| "IsLightweight (OpCreateTable a) = mIsLightweight CreateTableOperation_methods a"
| "IsLightweight (OpDropTable a) = mIsLightweight DropTableOperation_methods a"
| "IsLightweight (OpCreateMaterializedView a) = mIsLightweight CreateMaterializedViewOperation_methods a"
| "IsLightweight (OpModifyQueryMaterializedView a) = mIsLightweight ModifyQueryMaterializedViewOperation_methods a"
| "IsLightweight (OpTruncateTable a) = mIsLightweight TruncateTableOperation_methods a"
| "IsLightweight (OpModifyTTL a) = mIsLightweight AlterTableModifyTTL_methods a"
| "IsLightweight (OpDropTTL a) = mIsLightweight AlterTableDropTTL_methods a"
| "IsLightweight (OpModifySettings a) = mIsLightweight AlterTableModifySettings_methods a"
| "IsLightweight (OpCreateProjection a) = mIsLightweight CreateProjectionOperation_methods a"
| "IsLightweight (OpDropProjection a) = mIsLightweight DropProjectionOperation_methods a"
| "IsLightweight (OpInsertIntoTable a) = mIsLightweight InsertIntoTable_methods a"

fun ForceMigrate :: "Operation \<Rightarrow> bool" where
  "ForceMigrate (OpAddColumn a) = mForceMigrate AlterTableAddColumn_methods a"
| "ForceMigrate (OpDropColumn a) = mForceMigrate AlterTableDropColumn_methods a"
| "ForceMigrate (OpModifyColumn a) = mForceMigrate AlterTableModifyColumn_methods a"
| "ForceMigrate (OpModifyColumnRemove a) = mForceMigrate AlterTableModifyColumnRemove_methods a"
| "ForceMigrate (OpModifyColumnModifySettings a) = mForceMigrate AlterTableModifyColumnModifySettings_methods a"
| "ForceMigrate (OpModifyColumnResetSettings a) = mForceMigrate AlterTableModifyColumnResetSettings_methods a"
| "ForceMigrate (OpMaterializeColumn a) = mForceMigrate AlterTableMaterializeColumn_methods a"
| "ForceMigrate (OpAddIndex a) = mForceMigrate AlterTableAddIndex_methods a"
| "ForceMigrate (OpDropIndex a) = mForceMigrate AlterTableDropIndex_methods a"
| "ForceMigrate (OpMaterializeIndex a) = mForceMigrate AlterTableMaterializeIndex_methods a"
| "ForceMigrate (OpClearIndex a) = mForceMigrate AlterTableClearIndex_methods a"
| "ForceMigrate (OpCreateTable a) = mForceMigrate CreateTableOperation_methods a"
| "ForceMigrate (OpDropTable a) = mForceMigrate DropTableOperation_methods a"
| "ForceMigrate (OpCreateMaterializedView a) = mForceMigrate CreateMaterializedViewOperation_methods a"
| "ForceMigrate (OpModifyQueryMaterializedView a) = mForceMigrate ModifyQueryMaterializedViewOperation_methods a"
| "ForceMigrate (OpTruncateTable a) = mForceMigrate TruncateTableOperation_methods a"
| "ForceMigrate (OpModifyTTL a) = mForceMigrate AlterTableModifyTTL_methods a"
| "ForceMigrate (OpDropTTL a) = mForceMigrate AlterTableDropTTL_methods a"
| "ForceMigrate (OpModifySettings a) = mForceMigrate AlterTableModifySettings_methods a"
| "ForceMigrate (OpCreateProjection a) = mForceMigrate CreateProjectionOperation_methods a"
| "ForceMigrate (OpDropProjection a) = mForceMigrate DropProjectionOperation_methods a"
| "ForceMigrate (OpInsertIntoTable a) = mForceMigrate InsertIntoTable_methods a"

fun ToSQL :: "Operation \<Rightarrow> string option" where
  "ToSQL (OpAddColumn a) = mToSQL AlterTableAddColumn_methods a"
| "ToSQL (OpDropColumn a) = mToSQL AlterTableDropColumn_methods a"
| "ToSQL (OpModifyColumn a) = mToSQL AlterTableModifyColumn_methods a"
| "ToSQL (OpModifyColumnRemove a) = mToSQL AlterTableModifyColumnRemove_methods a"
| "ToSQL (OpModifyColumnModifySettings a) = mToSQL AlterTableModifyColumnModifySettings_methods a"
| "ToSQL (OpModifyColumnResetSettings a) = mToSQL AlterTableModifyColumnResetSettings_methods a"
| "ToSQL (OpMaterializeColumn a) = mToSQL AlterTableMaterializeColumn_methods a"
| "ToSQL (OpAddIndex a) = mToSQL AlterTableAddIndex_methods a"
| "ToSQL (OpDropIndex a) = mToSQL AlterTableDropIndex_methods a"
| "ToSQL (OpMaterializeIndex a) = mToSQL AlterTableMaterializeIndex_methods a"
| "ToSQL (OpClearIndex a) = mToSQL AlterTableClearIndex_methods a"
| "ToSQL (OpCreateTable a) = mToSQL CreateTableOperation_methods a"
| "ToSQL (OpDropTable a) = mToSQL DropTableOperation_methods a"
| "ToSQL (OpCreateMaterializedView a) = mToSQL CreateMaterializedViewOperation_methods a"
| "ToSQL (OpModifyQueryMaterializedView a) = mToSQL ModifyQueryMaterializedViewOperation_methods a"
| "ToSQL (OpTruncateTable a) = mToSQL TruncateTableOperation_methods a"
| "ToSQL (OpModifyTTL a) = mToSQL AlterTableModifyTTL_methods a"
| "ToSQL (OpDropTTL a) = mToSQL AlterTableDropTTL_methods a"
| "ToSQL (OpModifySettings a) = mToSQL AlterTableModifySettings_methods a"
| "ToSQL (OpCreateProjection a) = mToSQL CreateProjectionOperation_methods a"
| "ToSQL (OpDropProjection a) = mToSQL DropProjectionOperation_methods a"
| "ToSQL (OpInsertIntoTable a) = mToSQL InsertIntoTable_methods a"

section \<open>The contract of the methods\<close>

text \<open>
  What the migration manager relies on when it prepares an operation with \<open>OnCluster\<close> and
  \<open>WithReplication\<close>: neither changes how the operation is classified, and preparing an operation
  again changes nothing.
\<close>

definition traits :: "'a methods \<Rightarrow> 'a \<Rightarrow> (bool \<times> string \<times> string) \<times> bool \<times> bool \<times> bool \<times> bool" where
  "traits M a = (mShouldWait M a, mIsMutation M a, mIsIdempotent M a, mIsLightweight M a, mForceMigrate M a)"

locale operation_methods =
  fixes M :: "'a methods"
  assumes on_cluster_traits: "traits M (mOnCluster M a c) = traits M a"
    and replication_traits: "traits M (mWithReplication M a) = traits M a"
    and on_cluster_last: "mOnCluster M (mOnCluster M a c') c = mOnCluster M a c"
    and replication_idem: "mWithReplication M (mWithReplication M a) = mWithReplication M a"
    and replication_on_cluster: "mWithReplication M (mOnCluster M a c) = mOnCluster M (mWithReplication M a) c"
    and on_cluster_prints: "mToSQL M (mOnCluster M a c) = None \<longleftrightarrow> mToSQL M a = None"
    and replication_prints: "mToSQL M (mWithReplication M a) = None \<longleftrightarrow> mToSQL M a = None"
begin

definition prepared :: "string \<Rightarrow> bool \<Rightarrow> 'a \<Rightarrow> 'a" where
  "prepared c replication a =
     (let b = (if c \<noteq> [] then mOnCluster M a c else a) in if replication then mWithReplication M b else b)"

lemma prepared_traits: "traits M (prepared c r a) = traits M a"
  by (simp add: prepared_def Let_def on_cluster_traits replication_traits)

lemma prepared_idem: "prepared c r (prepared c r a) = prepared c r a"
  by (simp add: prepared_def Let_def on_cluster_last replication_idem replication_on_cluster)

lemma prepared_prints: "mToSQL M (prepared c r a) = None \<longleftrightarrow> mToSQL M a = None"
  by (simp add: prepared_def Let_def on_cluster_prints replication_prints)

end

text \<open>
  Most operations carry the cluster right behind the name of what they change, and only there:
  \<open>clustered head c sql\<close>.
\<close>

definition clustered :: "string \<Rightarrow> string \<Rightarrow> string \<Rightarrow> bool" where
  "clustered name c sql \<longleftrightarrow> (\<exists>verb tail. sql = verb @ name @ '' ON CLUSTER '' @ c @ tail)"

lemma clustered_here: "c \<noteq> [] \<Longrightarrow> clustered name c (name @ on_cluster c @ tail)"
  unfolding clustered_def on_cluster_def part_def by (intro exI [of _ "[]"] exI [of _ tail]) simp

lemma clustered_last: "c \<noteq> [] \<Longrightarrow> clustered name c (name @ on_cluster c)"
  using clustered_here [of c name "[]"] by simp

lemma clustered_later: "clustered name c sql \<Longrightarrow> clustered name c (x # sql)"
  unfolding clustered_def by (metis append_Cons)

lemma table_name_cluster [simp]: "table_name (a\<lparr>cluster := c\<rparr>) = table_name a"
  by (simp add: table_name_def)

lemma view_name_cluster [simp]: "view_name (a\<lparr>cluster := c\<rparr>) = view_name a"
  by (simp add: view_name_def)

lemma table_name_engine [simp]: "table_name (a\<lparr>Engine := e\<rparr>) = table_name a"
  by (simp add: table_name_def)

lemma table_name_cluster_engine [simp]: "table_name (a\<lparr>cluster := c, Engine := e\<rparr>) = table_name a"
  by (simp add: table_name_def)

lemmas clustered_intros = clustered_later clustered_here clustered_last

locale clustered_methods = operation_methods M for M :: "'a methods" +
  fixes name_of :: "'a \<Rightarrow> string"
  assumes on_cluster_sql: "c \<noteq> [] \<Longrightarrow> mToSQL M (mOnCluster M a c) = Some sql \<Longrightarrow> clustered (name_of a) c sql"
    and replication_name: "name_of (mWithReplication M a) = name_of a"
begin

lemma prepared_clustered:
  "c \<noteq> [] \<Longrightarrow> mToSQL M (prepared c r a) = Some sql \<Longrightarrow> clustered (name_of a) c sql"
  using on_cluster_sql [of c a sql] on_cluster_sql [of c "mWithReplication M a" sql]
  by (auto simp: prepared_def Let_def replication_on_cluster replication_name split: if_splits)

end

interpretation addColumn: clustered_methods AlterTableAddColumn_methods table_name
  by unfold_locales (auto simp: AlterTableAddColumn_methods_def traits_def alter_table_def
      intro!: clustered_intros)

interpretation dropColumn: clustered_methods AlterTableDropColumn_methods table_name
  by unfold_locales (auto simp: AlterTableDropColumn_methods_def traits_def alter_table_def
      intro!: clustered_intros)

interpretation modifyColumn: clustered_methods AlterTableModifyColumn_methods table_name
  by unfold_locales (auto simp: AlterTableModifyColumn_methods_def traits_def alter_table_def
      intro!: clustered_intros)

interpretation modifyColumnRemove: clustered_methods AlterTableModifyColumnRemove_methods table_name
  by unfold_locales (auto simp: AlterTableModifyColumnRemove_methods_def traits_def alter_table_def
      intro!: clustered_intros)

interpretation modifyColumnModifySettings: clustered_methods AlterTableModifyColumnModifySettings_methods table_name
  by unfold_locales (auto simp: AlterTableModifyColumnModifySettings_methods_def traits_def alter_table_def
      intro!: clustered_intros)

interpretation modifyColumnResetSettings: clustered_methods AlterTableModifyColumnResetSettings_methods table_name
  by unfold_locales (auto simp: AlterTableModifyColumnResetSettings_methods_def traits_def alter_table_def
      intro!: clustered_intros)

interpretation materializeColumn: clustered_methods AlterTableMaterializeColumn_methods table_name
  by unfold_locales (auto simp: AlterTableMaterializeColumn_methods_def traits_def alter_table_def
      intro!: clustered_intros)

interpretation addIndex: clustered_methods AlterTableAddIndex_methods table_name
  by unfold_locales (auto simp: AlterTableAddIndex_methods_def traits_def alter_table_def
      intro!: clustered_intros)

interpretation dropIndex: clustered_methods AlterTableDropIndex_methods table_name
  by unfold_locales (auto simp: AlterTableDropIndex_methods_def traits_def alter_table_def
      intro!: clustered_intros)

interpretation materializeIndex: clustered_methods AlterTableMaterializeIndex_methods table_name
  by unfold_locales (auto simp: AlterTableMaterializeIndex_methods_def traits_def alter_table_def
      intro!: clustered_intros)

interpretation clearIndex: clustered_methods AlterTableClearIndex_methods table_name
  by unfold_locales (auto simp: AlterTableClearIndex_methods_def traits_def alter_table_def
      intro!: clustered_intros)

interpretation createTable: clustered_methods CreateTableOperation_methods table_name
  by unfold_locales (auto simp: CreateTableOperation_methods_def traits_def alter_table_def Engine_OnCluster_WithReplication
      intro!: clustered_intros)

interpretation dropTable: clustered_methods DropTableOperation_methods table_name
  by unfold_locales (auto simp: DropTableOperation_methods_def traits_def alter_table_def
      intro!: clustered_intros)

interpretation createMaterializedView: clustered_methods CreateMaterializedViewOperation_methods view_name
  by unfold_locales (auto simp: CreateMaterializedViewOperation_methods_def traits_def alter_table_def
      intro!: clustered_intros)

interpretation modifyQueryMaterializedView: clustered_methods ModifyQueryMaterializedViewOperation_methods view_name
  by unfold_locales (auto simp: ModifyQueryMaterializedViewOperation_methods_def traits_def alter_table_def
      intro!: clustered_intros)

interpretation truncateTable: clustered_methods TruncateTableOperation_methods table_name
  by unfold_locales (auto simp: TruncateTableOperation_methods_def traits_def alter_table_def
      intro!: clustered_intros)

interpretation modifyTTL: clustered_methods AlterTableModifyTTL_methods table_name
  by unfold_locales (auto simp: AlterTableModifyTTL_methods_def traits_def alter_table_def
      intro!: clustered_intros)

interpretation dropTTL: clustered_methods AlterTableDropTTL_methods table_name
  by unfold_locales (auto simp: AlterTableDropTTL_methods_def traits_def alter_table_def
      intro!: clustered_intros)

interpretation modifySettings: clustered_methods AlterTableModifySettings_methods table_name
  by unfold_locales (auto simp: AlterTableModifySettings_methods_def traits_def alter_table_def
      intro!: clustered_intros)

interpretation createProjection: operation_methods CreateProjectionOperation_methods
  by unfold_locales (auto simp: CreateProjectionOperation_methods_def traits_def)

interpretation dropProjection: clustered_methods DropProjectionOperation_methods table_name
  by unfold_locales (auto simp: DropProjectionOperation_methods_def traits_def alter_table_def
      intro!: clustered_intros)

interpretation insertIntoTable: operation_methods InsertIntoTable_methods
  by unfold_locales (auto simp: InsertIntoTable_methods_def traits_def)

section \<open>Preparing an operation\<close>

text \<open>The first step of \<open>RunOperation\<close>: the cluster and the replication of the manager.\<close>

definition prepare :: "string \<Rightarrow> bool \<Rightarrow> Operation \<Rightarrow> Operation" where
  "prepare clusterName replicationEnabled operation =
     (let operation' = (if clusterName \<noteq> [] then OnCluster operation clusterName else operation)
      in if replicationEnabled then WithReplication operation' else operation')"

lemma prepare_AddColumn [simp]: "prepare c r (OpAddColumn a) = OpAddColumn (addColumn.prepared c r a)"
  by (simp add: prepare_def addColumn.prepared_def Let_def)

lemma prepare_DropColumn [simp]: "prepare c r (OpDropColumn a) = OpDropColumn (dropColumn.prepared c r a)"
  by (simp add: prepare_def dropColumn.prepared_def Let_def)

lemma prepare_ModifyColumn [simp]: "prepare c r (OpModifyColumn a) = OpModifyColumn (modifyColumn.prepared c r a)"
  by (simp add: prepare_def modifyColumn.prepared_def Let_def)

lemma prepare_ModifyColumnRemove [simp]: "prepare c r (OpModifyColumnRemove a) = OpModifyColumnRemove (modifyColumnRemove.prepared c r a)"
  by (simp add: prepare_def modifyColumnRemove.prepared_def Let_def)

lemma prepare_ModifyColumnModifySettings [simp]: "prepare c r (OpModifyColumnModifySettings a) = OpModifyColumnModifySettings (modifyColumnModifySettings.prepared c r a)"
  by (simp add: prepare_def modifyColumnModifySettings.prepared_def Let_def)

lemma prepare_ModifyColumnResetSettings [simp]: "prepare c r (OpModifyColumnResetSettings a) = OpModifyColumnResetSettings (modifyColumnResetSettings.prepared c r a)"
  by (simp add: prepare_def modifyColumnResetSettings.prepared_def Let_def)

lemma prepare_MaterializeColumn [simp]: "prepare c r (OpMaterializeColumn a) = OpMaterializeColumn (materializeColumn.prepared c r a)"
  by (simp add: prepare_def materializeColumn.prepared_def Let_def)

lemma prepare_AddIndex [simp]: "prepare c r (OpAddIndex a) = OpAddIndex (addIndex.prepared c r a)"
  by (simp add: prepare_def addIndex.prepared_def Let_def)

lemma prepare_DropIndex [simp]: "prepare c r (OpDropIndex a) = OpDropIndex (dropIndex.prepared c r a)"
  by (simp add: prepare_def dropIndex.prepared_def Let_def)

lemma prepare_MaterializeIndex [simp]: "prepare c r (OpMaterializeIndex a) = OpMaterializeIndex (materializeIndex.prepared c r a)"
  by (simp add: prepare_def materializeIndex.prepared_def Let_def)

lemma prepare_ClearIndex [simp]: "prepare c r (OpClearIndex a) = OpClearIndex (clearIndex.prepared c r a)"
  by (simp add: prepare_def clearIndex.prepared_def Let_def)

lemma prepare_CreateTable [simp]: "prepare c r (OpCreateTable a) = OpCreateTable (createTable.prepared c r a)"
  by (simp add: prepare_def createTable.prepared_def Let_def)

lemma prepare_DropTable [simp]: "prepare c r (OpDropTable a) = OpDropTable (dropTable.prepared c r a)"
  by (simp add: prepare_def dropTable.prepared_def Let_def)

lemma prepare_CreateMaterializedView [simp]: "prepare c r (OpCreateMaterializedView a) = OpCreateMaterializedView (createMaterializedView.prepared c r a)"
  by (simp add: prepare_def createMaterializedView.prepared_def Let_def)

lemma prepare_ModifyQueryMaterializedView [simp]: "prepare c r (OpModifyQueryMaterializedView a) = OpModifyQueryMaterializedView (modifyQueryMaterializedView.prepared c r a)"
  by (simp add: prepare_def modifyQueryMaterializedView.prepared_def Let_def)

lemma prepare_TruncateTable [simp]: "prepare c r (OpTruncateTable a) = OpTruncateTable (truncateTable.prepared c r a)"
  by (simp add: prepare_def truncateTable.prepared_def Let_def)

lemma prepare_ModifyTTL [simp]: "prepare c r (OpModifyTTL a) = OpModifyTTL (modifyTTL.prepared c r a)"
  by (simp add: prepare_def modifyTTL.prepared_def Let_def)

lemma prepare_DropTTL [simp]: "prepare c r (OpDropTTL a) = OpDropTTL (dropTTL.prepared c r a)"
  by (simp add: prepare_def dropTTL.prepared_def Let_def)

lemma prepare_ModifySettings [simp]: "prepare c r (OpModifySettings a) = OpModifySettings (modifySettings.prepared c r a)"
  by (simp add: prepare_def modifySettings.prepared_def Let_def)

lemma prepare_CreateProjection [simp]: "prepare c r (OpCreateProjection a) = OpCreateProjection (createProjection.prepared c r a)"
  by (simp add: prepare_def createProjection.prepared_def Let_def)

lemma prepare_DropProjection [simp]: "prepare c r (OpDropProjection a) = OpDropProjection (dropProjection.prepared c r a)"
  by (simp add: prepare_def dropProjection.prepared_def Let_def)

lemma prepare_InsertIntoTable [simp]: "prepare c r (OpInsertIntoTable a) = OpInsertIntoTable (insertIntoTable.prepared c r a)"
  by (simp add: prepare_def insertIntoTable.prepared_def Let_def)

lemmas all_prepared_traits =
  addColumn.prepared_traits dropColumn.prepared_traits modifyColumn.prepared_traits
  modifyColumnRemove.prepared_traits modifyColumnModifySettings.prepared_traits
  modifyColumnResetSettings.prepared_traits materializeColumn.prepared_traits addIndex.prepared_traits
  dropIndex.prepared_traits materializeIndex.prepared_traits clearIndex.prepared_traits
  createTable.prepared_traits dropTable.prepared_traits createMaterializedView.prepared_traits
  modifyQueryMaterializedView.prepared_traits truncateTable.prepared_traits modifyTTL.prepared_traits
  dropTTL.prepared_traits modifySettings.prepared_traits createProjection.prepared_traits
  dropProjection.prepared_traits insertIntoTable.prepared_traits

lemmas all_prepared_clustered =
  addColumn.prepared_clustered dropColumn.prepared_clustered modifyColumn.prepared_clustered
  modifyColumnRemove.prepared_clustered modifyColumnModifySettings.prepared_clustered
  modifyColumnResetSettings.prepared_clustered materializeColumn.prepared_clustered
  addIndex.prepared_clustered dropIndex.prepared_clustered materializeIndex.prepared_clustered
  clearIndex.prepared_clustered createTable.prepared_clustered dropTable.prepared_clustered
  createMaterializedView.prepared_clustered modifyQueryMaterializedView.prepared_clustered
  truncateTable.prepared_clustered modifyTTL.prepared_clustered dropTTL.prepared_clustered
  modifySettings.prepared_clustered dropProjection.prepared_clustered

lemmas all_prepared_prints =
  addColumn.prepared_prints dropColumn.prepared_prints modifyColumn.prepared_prints
  modifyColumnRemove.prepared_prints modifyColumnModifySettings.prepared_prints
  modifyColumnResetSettings.prepared_prints materializeColumn.prepared_prints addIndex.prepared_prints
  dropIndex.prepared_prints materializeIndex.prepared_prints clearIndex.prepared_prints
  createTable.prepared_prints dropTable.prepared_prints createMaterializedView.prepared_prints
  modifyQueryMaterializedView.prepared_prints truncateTable.prepared_prints modifyTTL.prepared_prints
  dropTTL.prepared_prints modifySettings.prepared_prints createProjection.prepared_prints
  dropProjection.prepared_prints insertIntoTable.prepared_prints

text \<open>The table or view an operation names.\<close>

fun target :: "Operation \<Rightarrow> string" where
  "target (OpAddColumn a) = table_name a"
| "target (OpDropColumn a) = table_name a"
| "target (OpModifyColumn a) = table_name a"
| "target (OpModifyColumnRemove a) = table_name a"
| "target (OpModifyColumnModifySettings a) = table_name a"
| "target (OpModifyColumnResetSettings a) = table_name a"
| "target (OpMaterializeColumn a) = table_name a"
| "target (OpAddIndex a) = table_name a"
| "target (OpDropIndex a) = table_name a"
| "target (OpMaterializeIndex a) = table_name a"
| "target (OpClearIndex a) = table_name a"
| "target (OpCreateTable a) = table_name a"
| "target (OpDropTable a) = table_name a"
| "target (OpCreateMaterializedView a) = view_name a"
| "target (OpModifyQueryMaterializedView a) = view_name a"
| "target (OpTruncateTable a) = table_name a"
| "target (OpModifyTTL a) = table_name a"
| "target (OpDropTTL a) = table_name a"
| "target (OpModifySettings a) = table_name a"
| "target (OpCreateProjection a) = table_name a"
| "target (OpDropProjection a) = table_name a"
| "target (OpInsertIntoTable a) = table_name a"

fun runs_per_host :: "Operation \<Rightarrow> bool" where
  "runs_per_host (OpCreateProjection a) = True"
| "runs_per_host (OpInsertIntoTable a) = True"
| "runs_per_host _ = False"

text \<open>
  Preparing an operation keeps its classification: whatever the cluster and the replication
  setting, the prepared operation is a mutation, idempotent, lightweight, forced, and waits for the
  distribution queue of the same table, exactly as the operation in the list of migrations, so the
  modes decide on the operation that is run.
\<close>

theorem prepare_keeps_classification:
  "IsMutation (prepare c r op) = IsMutation op \<and> IsIdempotent (prepare c r op) = IsIdempotent op \<and>
   IsLightweight (prepare c r op) = IsLightweight op \<and> ForceMigrate (prepare c r op) = ForceMigrate op \<and>
   ShouldWaitForDistributionQueue (prepare c r op) = ShouldWaitForDistributionQueue op"
  by (cases op) (insert all_prepared_traits, simp_all add: traits_def)

text \<open>
  C40. A prepared operation names the cluster: with a cluster configured, the statement of every
  operation but the creation of a projection and an insert has \<open>ON CLUSTER\<close> and the cluster's name
  right behind the table or view it changes, with and without replication.
\<close>

theorem prepared_statement_on_cluster:
  assumes "c \<noteq> []" and "\<not> runs_per_host op" and "ToSQL (prepare c r op) = Some sql"
  shows "clustered (target op) c sql"
  using assms by (cases op) (auto intro: all_prepared_clustered)

theorem prepared_statement_on_cluster_witness:
  "clustered ''db.t'' ''c'' ''ALTER TABLE db.t ON CLUSTER c REMOVE TTL''"
proof -
  let ?op = "OpDropTTL \<lparr>cluster = [], Database = ''db'', Table = ''t''\<rparr>"
  have "ToSQL (prepare ''c'' True ?op) = Some ''ALTER TABLE db.t ON CLUSTER c REMOVE TTL''"
    by (simp add: prepare_def AlterTableDropTTL_methods_def alter_table_def table_name_def on_cluster_def part_def
        del: prepare_DropTTL)
  from prepared_statement_on_cluster [OF _ _ this] show ?thesis by (simp add: table_name_def)
qed

text \<open>
  Printing fails only for a column without a type, and preparing an operation never makes it
  fail: a statement is produced for the prepared operation exactly when it is for the original.
\<close>

theorem prepare_prints:
  "ToSQL (prepare c r op) = None \<longleftrightarrow> ToSQL op = None"
  by (cases op) (simp_all add: all_prepared_prints)

end
