(* ===== verification/MigrationManager.thy ===== *)
theory MigrationManager
  imports Operations
begin

text \<open>
  The migration manager (\<open>cmd/o11yschemamigrator/schema_migrator/manager.go\<close>): which migrations
  run, how one operation is run and recorded, and how the manager waits for mutations, the
  distributed DDL queue and the distribution queue on the hosts of the cluster.

  The datastore, the network, the clock and the exponential backoff are not code of the repository:
  they are the fields of \<open>datastore\<close>, functions on a world of type \<open>'d\<close> that the manager threads
  through its calls. A method is a function of type \<open>io\<close>: from the manager to its outcome and the
  manager afterwards, or \<open>None\<close> if it does not return. An outcome is a value, an error or a panic.
  The field \<open>executed\<close> records the statements the manager has sent with \<open>Exec\<close>.
\<close>

section \<open>Effects\<close>

datatype 'a res = Ok 'a | Fail error | Panic error

datatype 'a row = Row 'a | ErrNoRows | QueryError error

record Mutation =
  mutDatabase :: string
  mutTable :: string
  MutationID :: string
  Command :: string
  LatestFailReason :: string

record DistributedDDLQueue =
  Entry :: string
  ddlCluster :: string
  ddlQuery :: string
  Host :: string
  Port :: nat
  ddlStatus :: string
  ExceptionCode :: string

text \<open>An error of the driver: an exception of the server with its code, or any other error.\<close>

datatype ds_error = Exception int error | OtherError error

fun error_text :: "ds_error \<Rightarrow> error" where
  "error_text (Exception code e) = e"
| "error_text (OtherError e) = e"

text \<open>What the select statement of the distribution queue's loop may see first.\<close>

datatype wait_event = CtxDone error | TimerFired | Polling

record 'd datastore =
  dsExec :: "string \<Rightarrow> string list \<Rightarrow> 'd \<Rightarrow> error option \<times> 'd"
  dsCount :: "string option \<Rightarrow> string \<Rightarrow> string list \<Rightarrow> 'd \<Rightarrow> nat result \<times> 'd"
  dsStatus :: "string \<Rightarrow> 'd \<Rightarrow> string row \<times> 'd"
  dsMutations :: "string \<Rightarrow> string \<Rightarrow> 'd \<Rightarrow> Mutation list result \<times> 'd"
  dsDDLQueue :: "string \<Rightarrow> 'd \<Rightarrow> (ds_error + DistributedDDLQueue list) \<times> 'd"
  dsHosts :: "string option \<Rightarrow> string \<Rightarrow> string list \<Rightarrow> 'd \<Rightarrow> (string \<times> nat) list result \<times> 'd"
  dsOpen :: "string \<Rightarrow> 'd \<Rightarrow> error option \<times> 'd"
  parseAddr :: "string \<Rightarrow> string result"
  addrPort :: "string \<Rightarrow> nat \<Rightarrow> string"
  rangeOrder :: "string list \<Rightarrow> string list"
  backoffReset :: "'d \<Rightarrow> 'd"
  backoffStops :: "'d \<Rightarrow> bool \<times> 'd"
  backoffSleep :: "'d \<Rightarrow> 'd"
  newTimer :: "'d \<Rightarrow> 'd"
  waitEvent :: "'d \<Rightarrow> wait_event \<times> 'd"
  nowUTC :: "'d \<Rightarrow> string"

record 'd mgr =
  addrs :: "string list"
  conns :: "string list"
  clusterName :: string
  replicationEnabled :: bool
  development :: bool
  world :: 'd
  executed :: "(string \<times> string list) list"

type_synonym ('d, 'a) io = "'d mgr \<Rightarrow> ('a res \<times> 'd mgr) option"

definition io_return :: "'a \<Rightarrow> ('d, 'a) io" where
  "io_return a m = Some (Ok a, m)"

definition io_fail :: "error \<Rightarrow> ('d, 'a) io" where
  "io_fail e m = Some (Fail e, m)"

definition io_bind :: "('d, 'a) io \<Rightarrow> ('a \<Rightarrow> ('d, 'b) io) \<Rightarrow> ('d, 'b) io" where
  "io_bind x f m = Option.bind (x m) (\<lambda>(r, m'). case r of
      Ok a \<Rightarrow> f a m' | Fail e \<Rightarrow> Some (Fail e, m') | Panic e \<Rightarrow> Some (Panic e, m'))"

definition io_catch :: "('d, 'a) io \<Rightarrow> (error \<Rightarrow> ('d, 'a) io) \<Rightarrow> ('d, 'a) io" where
  "io_catch x h m = Option.bind (x m) (\<lambda>(r, m'). case r of
      Ok a \<Rightarrow> Some (Ok a, m') | Fail e \<Rightarrow> h e m' | Panic e \<Rightarrow> Some (Panic e, m'))"

text \<open>A call of the datastore that answers a value or an error.\<close>

definition io_call :: "('d \<Rightarrow> 'a result \<times> 'd) \<Rightarrow> ('d, 'a) io" where
  "io_call f m = (case f (world m) of (r, w) \<Rightarrow>
     Some (case r of Inl e \<Rightarrow> Fail e | Inr a \<Rightarrow> Ok a, m\<lparr>world := w\<rparr>))"

text \<open>\<open>for _, x := range xs { if err := f(x); err != nil { return err } }\<close>\<close>

fun io_each :: "('a \<Rightarrow> ('d, unit) io) \<Rightarrow> 'a list \<Rightarrow> ('d, unit) io" where
  "io_each f [] = io_return ()"
| "io_each f (x # xs) = io_bind (f x) (\<lambda>_. io_each f xs)"

definition errorsJoin :: "error \<Rightarrow> error \<Rightarrow> error" where
  "errorsJoin e e' = e @ [CHR 0x0A] @ e'"

definition wrapping :: "error \<Rightarrow> ('d, 'a) io \<Rightarrow> ('d, 'a) io" where
  "wrapping kind x = io_catch x (\<lambda>e. io_fail (errorsJoin kind e))"

definition Exec :: "'d datastore \<Rightarrow> string \<Rightarrow> string list \<Rightarrow> ('d, unit) io" where
  "Exec S query args m = (case dsExec S query args (world m) of (err, w) \<Rightarrow>
     Some (case err of None \<Rightarrow> Ok () | Some e \<Rightarrow> Fail e, m\<lparr>world := w, executed := executed m @ [(query, args)]\<rparr>))"

section \<open>Names\<close>

definition O11yLogsDB :: string where "O11yLogsDB = ''o11y_logs''"
definition O11yMetricsDB :: string where "O11yMetricsDB = ''o11y_metrics''"
definition O11yTracesDB :: string where "O11yTracesDB = ''o11y_traces''"
definition O11yMetadataDB :: string where "O11yMetadataDB = ''o11y_metadata''"
definition O11yAnalyticsDB :: string where "O11yAnalyticsDB = ''o11y_analytics''"
definition O11yMeterDB :: string where "O11yMeterDB = ''o11y_meter''"

definition Databases :: "string list" where
  "Databases = [O11yTracesDB, O11yMetricsDB, O11yLogsDB, O11yMetadataDB, O11yAnalyticsDB, O11yMeterDB]"

definition InProgressStatus :: string where "InProgressStatus = ''in-progress''"
definition FinishedStatus :: string where "FinishedStatus = ''finished''"
definition FailedStatus :: string where "FailedStatus = ''failed''"

lemmas db_names = O11yLogsDB_def O11yMetricsDB_def O11yTracesDB_def O11yMetadataDB_def O11yAnalyticsDB_def
  O11yMeterDB_def

lemmas status_names = InProgressStatus_def FinishedStatus_def FailedStatus_def

definition quoted :: "string \<Rightarrow> string" where
  "quoted s = [CHR 0x27] @ s @ [CHR 0x27]"

record SchemaMigrationRecord =
  MigrationID :: nat
  UpItems :: "Operation list"
  DownItems :: "Operation list"

section \<open>Construction\<close>

text \<open>\<open>NewMigrationManager\<close>: the options are applied in order, and a connection is required.\<close>

datatype 'd mgr_option =
    WithClusterName string
  | WithDevelopment bool
  | WithReplicationEnabled bool
  | WithConn 'd

fun apply_option :: "'d mgr_option \<Rightarrow> 'd option mgr \<Rightarrow> 'd option mgr" where
  "apply_option (WithClusterName c) m = m\<lparr>clusterName := c\<rparr>"
| "apply_option (WithDevelopment d) m = m\<lparr>development := d\<rparr>"
| "apply_option (WithReplicationEnabled r) m = m\<lparr>replicationEnabled := r\<rparr>"
| "apply_option (WithConn conn) m = m\<lparr>world := Some conn\<rparr>"

definition NewMigrationManager :: "'d mgr_option list \<Rightarrow> 'd option mgr result" where
  "NewMigrationManager opts =
     (let mgr = fold apply_option opts
        \<lparr>addrs = [], conns = [], clusterName = [], replicationEnabled = False, development = False,
         world = None, executed = []\<rparr>
      in if world mgr = None then Inl ''conn is required'' else Inr mgr)"

definition createDBs :: "'d datastore \<Rightarrow> ('d, unit) io" where
  "createDBs S m = io_each (\<lambda>db. wrapping ''failed to create dbs''
      (Exec S (''CREATE DATABASE IF NOT EXISTS '' @ db @ '' ON CLUSTER '' @ clusterName m) [])) Databases m"

section \<open>Hosts\<close>

definition host_query :: string where
  "host_query = ''SELECT DISTINCT host_address, port FROM system.clusters WHERE host_address NOT IN [''
     @ quoted ''localhost'' @ '', '' @ quoted ''127.0.0.1'' @ '', '' @ quoted ''::1'' @ ''] AND cluster = $1''"

text \<open>The body of the loops over the rows: parse the address, add it to the set.\<close>

fun add_hosts :: "'d datastore \<Rightarrow> (string \<times> nat) list \<Rightarrow> string list \<Rightarrow> string list result" where
  "add_hosts S [] hosts = Inr hosts"
| "add_hosts S ((hostAddr, port) # rows) hosts =
     (case parseAddr S hostAddr of
        Inl e \<Rightarrow> Inl e
      | Inr addr \<Rightarrow> add_hosts S rows (List.insert (addrPort S addr port) hosts))"

definition io_result :: "'a result \<Rightarrow> ('d, 'a) io" where
  "io_result r m = Some (case r of Inl e \<Rightarrow> Fail e | Inr a \<Rightarrow> Ok a, m)"

definition HostAddrs :: "'d datastore \<Rightarrow> ('d, string list) io" where
  "HostAddrs S m =
     (if development m then Some (Ok [], m)
      else if addrs m \<noteq> [] then Some (Ok (addrs m), m)
      else io_bind (wrapping ''failed to get host addrs''
        (io_bind (io_call (dsHosts S None host_query [clusterName m])) (\<lambda>rows. io_result (add_hosts S rows []))))
        (\<lambda>hosts. io_bind
          (case rangeOrder S hosts of
             [] \<Rightarrow> io_return hosts
           | hostAddr # _ \<Rightarrow>
               io_bind (wrapping ''failed to get conn''
                 (io_bind (io_call (\<lambda>w. case dsOpen S hostAddr w of (None, w') \<Rightarrow> (Inr (), w') | (Some e, w') \<Rightarrow> (Inl e, w')))
                    (\<lambda>_. io_call (dsHosts S (Some hostAddr) host_query [clusterName m]))))
                 (\<lambda>rows. wrapping ''failed to get host addrs'' (io_result (add_hosts S rows hosts))))
          (\<lambda>hosts'. \<lambda>m'. Some (Ok (rangeOrder S hosts'), m'\<lparr>addrs := rangeOrder S hosts'\<rparr>))) m)"

definition getConn :: "'d datastore \<Rightarrow> string \<Rightarrow> ('d, unit) io" where
  "getConn S hostAddr m =
     (if hostAddr \<in> set (conns m) then Some (Ok (), m)
      else case dsOpen S hostAddr (world m) of
        (Some e, w) \<Rightarrow> Some (Fail e, m\<lparr>world := w\<rparr>)
      | (None, w) \<Rightarrow> Some (Ok (), m\<lparr>world := w, conns := hostAddr # conns m\<rparr>))"

section \<open>Waiting\<close>

definition mutations_query :: string where
  "mutations_query = ''SELECT database, table, command, mutation_id, latest_fail_reason FROM system.mutations WHERE is_done = 0''"

partial_function (option) mutations_loop :: "'d datastore \<Rightarrow> string \<Rightarrow> ('d, unit) io" where
  "mutations_loop S hostAddr m =
     (case backoffStops S (world m) of
        (stop, w) \<Rightarrow> if stop then Some (Fail ''backoff stopped'', m\<lparr>world := w\<rparr>) else
          (case dsMutations S hostAddr mutations_query w of
             (Inl e, w') \<Rightarrow> Some (Fail e, m\<lparr>world := w'\<rparr>)
           | (Inr mutations, w') \<Rightarrow>
               (if mutations \<noteq> [] then mutations_loop S hostAddr (m\<lparr>world := backoffSleep S w'\<rparr>)
                else Some (Ok (), m\<lparr>world := w'\<rparr>))))"

definition waitForMutationsOnHost :: "'d datastore \<Rightarrow> string \<Rightarrow> ('d, unit) io" where
  "waitForMutationsOnHost S hostAddr m =
     io_bind (getConn S hostAddr) (\<lambda>_. mutations_loop S hostAddr) (m\<lparr>world := backoffReset S (world m)\<rparr>)"

definition WaitForRunningMutations :: "'d datastore \<Rightarrow> ('d, unit) io" where
  "WaitForRunningMutations S =
     io_bind (HostAddrs S)
       (io_each (\<lambda>hostAddr. wrapping ''failed to wait for mutations'' (waitForMutationsOnHost S hostAddr)))"

definition ddl_query :: string where
  "ddl_query = ''SELECT entry, cluster, query, host, port, status, exception_code FROM system.distributed_ddl_queue WHERE status != ''
     @ quoted ''Finished''"

text \<open>\<open>strings.Contains\<close>\<close>

fun contains :: "string \<Rightarrow> string \<Rightarrow> bool" where
  "contains [] sub = (sub = [])"
| "contains (c # s) sub = (take (length sub) (c # s) = sub \<or> contains s sub)"

text \<open>The ten attempts; after the last retryable failure the queue is still empty.\<close>

fun ddl_attempts :: "nat \<Rightarrow> 'd datastore \<Rightarrow> 'd \<Rightarrow> (error + DistributedDDLQueue list) \<times> 'd" where
  "ddl_attempts 0 S w = (Inr [], w)"
| "ddl_attempts (Suc n) S w =
     (case dsDDLQueue S ddl_query w of
        (Inr queue, w') \<Rightarrow> (Inr queue, w')
      | (Inl e, w') \<Rightarrow>
          (case e of
             Exception code msg \<Rightarrow> (if code = 999 \<and> contains msg ''No node'' then ddl_attempts n S w' else (Inl msg, w'))
           | OtherError msg \<Rightarrow> (Inl msg, w')))"

definition getDistributedDDLQueue :: "'d datastore \<Rightarrow> 'd \<Rightarrow> (error + DistributedDDLQueue list) \<times> 'd" where
  "getDistributedDDLQueue S w = ddl_attempts 10 S w"

partial_function (option) ddl_loop :: "'d datastore \<Rightarrow> ('d, unit) io" where
  "ddl_loop S m =
     (case backoffStops S (world m) of
        (stop, w) \<Rightarrow> if stop then Some (Fail ''backoff stopped'', m\<lparr>world := w\<rparr>) else
          (case getDistributedDDLQueue S w of
             (Inl e, w') \<Rightarrow> Some (Fail e, m\<lparr>world := w'\<rparr>)
           | (Inr ddlQueue, w') \<Rightarrow>
               (if ddlQueue \<noteq> [] then ddl_loop S (m\<lparr>world := backoffSleep S w'\<rparr>)
                else Some (Ok (), m\<lparr>world := w'\<rparr>))))"

definition WaitDistributedDDLQueue :: "'d datastore \<Rightarrow> ('d, unit) io" where
  "WaitDistributedDDLQueue S m = ddl_loop S (m\<lparr>world := backoffReset S (world m)\<rparr>)"

definition err_count_query :: string where
  "err_count_query = ''SELECT count(*) FROM system.distribution_queue WHERE database = $1 AND table = $2 AND (error_count != 0 OR is_blocked = 1)''"

definition data_files_query :: string where
  "data_files_query = ''SELECT count(*) FROM system.distribution_queue WHERE database = $1 AND table = $2 AND data_files > 0''"

definition ErrDistributionQueueError :: error where
  "ErrDistributionQueueError = ''distribution_queue has entries with error_count != 0 or is_blocked = 1''"

definition ErrFailedToWaitForDistributionQueue :: error where
  "ErrFailedToWaitForDistributionQueue = ''failed to wait for distribution queue''"

text \<open>
  The polling goroutine and the select statement: before each round the select may take the
  cancellation of the context or the timer.
\<close>

lemma wait_event_mono [partial_function_mono]:
  assumes "\<And>e. mono_option (\<lambda>f. F f e)" and "mono_option G" and "mono_option H"
  shows "mono_option (\<lambda>f. case ev of CtxDone e \<Rightarrow> F f e | TimerFired \<Rightarrow> G f | Polling \<Rightarrow> H f)"
  using assms by (cases ev) simp_all

partial_function (option) inserts_loop ::
    "'d datastore \<Rightarrow> string \<Rightarrow> string \<Rightarrow> string \<Rightarrow> nat \<Rightarrow> ('d, unit) io" where
  "inserts_loop S host db tbl insertsInQueue m =
     (case waitEvent S (world m) of
        (CtxDone e, w) \<Rightarrow> Some (Fail e, m\<lparr>world := w\<rparr>)
      | (TimerFired, w) \<Rightarrow> Some (Ok (), m\<lparr>world := w\<rparr>)
      | (Polling, w) \<Rightarrow>
          (case dsCount S (Some host) err_count_query [db, tbl] w of
             (Inl e, w1) \<Rightarrow> Some (Fail (errorsJoin ErrFailedToWaitForDistributionQueue e), m\<lparr>world := w1\<rparr>)
           | (Inr errCount, w1) \<Rightarrow>
               (if errCount \<noteq> 0 then Some (Fail ErrDistributionQueueError, m\<lparr>world := w1\<rparr>)
                else case dsCount S (Some host) data_files_query [db, tbl] w1 of
                  (Inl e, w2) \<Rightarrow> inserts_loop S host db tbl insertsInQueue (m\<lparr>world := w2\<rparr>)
                | (Inr cnt, w2) \<Rightarrow>
                    (let insertsInQueue' = (if cnt > 0 then insertsInQueue + 1 else insertsInQueue)
                     in if insertsInQueue' \<ge> 16 then Some (Ok (), m\<lparr>world := w2\<rparr>)
                        else inserts_loop S host db tbl insertsInQueue' (m\<lparr>world := w2\<rparr>)))))"

definition waitForDistributionQueueOnHost :: "'d datastore \<Rightarrow> string \<Rightarrow> string \<Rightarrow> string \<Rightarrow> ('d, unit) io" where
  "waitForDistributionQueueOnHost S host db tbl =
     io_bind (wrapping ErrFailedToWaitForDistributionQueue (io_call (dsCount S (Some host) err_count_query [db, tbl])))
       (\<lambda>errCount. if errCount \<noteq> 0 then io_fail ErrDistributionQueueError
                    else (\<lambda>m. inserts_loop S host db tbl 0 (m\<lparr>world := newTimer S (world m)\<rparr>)))"

definition WaitForDistributionQueue :: "'d datastore \<Rightarrow> string \<Rightarrow> string \<Rightarrow> ('d, unit) io" where
  "WaitForDistributionQueue S db tbl =
     io_bind (wrapping ErrFailedToWaitForDistributionQueue (HostAddrs S))
       (io_each (\<lambda>hostAddr.
          io_bind (wrapping ErrFailedToWaitForDistributionQueue (getConn S hostAddr))
            (\<lambda>_. wrapping ErrFailedToWaitForDistributionQueue (waitForDistributionQueueOnHost S hostAddr db tbl))))"

section \<open>The table of migrations\<close>

definition status_query :: "string \<Rightarrow> nat \<Rightarrow> string" where
  "status_query db migrationID =
     ''SELECT * FROM '' @ db @ ''.schema_migrations_v2 WHERE migration_id = '' @ show_nat migrationID @ '' SETTINGS final = 1;''"

definition distributed_status_query :: "string \<Rightarrow> nat \<Rightarrow> string" where
  "distributed_status_query db migrationID =
     ''SELECT * FROM '' @ db @ ''.distributed_schema_migrations_v2 WHERE migration_id = '' @ show_nat migrationID
       @ '' SETTINGS final = 1;''"

definition insert_query :: "string \<Rightarrow> nat \<Rightarrow> string \<Rightarrow> string \<Rightarrow> string" where
  "insert_query db migrationID status now =
     ''INSERT INTO '' @ db @ ''.distributed_schema_migrations_v2 (migration_id, status, created_at) VALUES (''
       @ show_nat migrationID @ '', '' @ quoted status @ '', '' @ quoted now @ '')''"

definition update_query :: "string \<Rightarrow> string \<Rightarrow> string" where
  "update_query db c =
     ''ALTER TABLE '' @ db @ ''.schema_migrations_v2 ON CLUSTER '' @ c
       @ '' UPDATE status = $1, error = $2, updated_at = $3 WHERE migration_id = $4''"

definition insertMigrationEntry :: "'d datastore \<Rightarrow> string \<Rightarrow> nat \<Rightarrow> string \<Rightarrow> ('d, unit) io" where
  "insertMigrationEntry S db migrationID status m =
     Exec S (insert_query db migrationID status (nowUTC S (world m))) [] m"

definition updateMigrationEntry :: "'d datastore \<Rightarrow> string \<Rightarrow> nat \<Rightarrow> string \<Rightarrow> error \<Rightarrow> ('d, unit) io" where
  "updateMigrationEntry S db migrationID status err m =
     Exec S (update_query db (clusterName m)) [status, err, nowUTC S (world m), show_nat migrationID] m"

definition InsertMigrationEntry :: "'d datastore \<Rightarrow> string \<Rightarrow> nat \<Rightarrow> string \<Rightarrow> ('d, unit) io" where
  "InsertMigrationEntry S db migrationID status m =
     Exec S (insert_query db migrationID status (nowUTC S (world m))) [] m"

definition CheckMigrationStatus :: "'d datastore \<Rightarrow> string \<Rightarrow> nat \<Rightarrow> string \<Rightarrow> ('d, bool) io" where
  "CheckMigrationStatus S db migrationID status m =
     (case dsStatus S (distributed_status_query db migrationID) (world m) of
        (r, w) \<Rightarrow> Some (case r of Row st \<Rightarrow> Ok (st = status) | ErrNoRows \<Rightarrow> Ok False | QueryError e \<Rightarrow> Fail e, m\<lparr>world := w\<rparr>))"

definition shouldRunMigration :: "'d datastore \<Rightarrow> string \<Rightarrow> nat \<Rightarrow> nat list \<Rightarrow> ('d, bool) io" where
  "shouldRunMigration S db migrationID versions m =
     (if versions \<noteq> [] \<and> migrationID \<notin> set versions then Some (Ok False, m)
      else case dsStatus S (status_query db migrationID) (world m) of
        (r, w) \<Rightarrow> Some (case r of
            ErrNoRows \<Rightarrow> Ok True
          | QueryError e \<Rightarrow> Panic e
          | Row status \<Rightarrow> Ok (status \<noteq> InProgressStatus \<and> status \<noteq> FinishedStatus), m\<lparr>world := w\<rparr>))"

section \<open>Running one operation\<close>

text \<open>The handler of every failure: record it, and join the error of recording it.\<close>

definition record_failure :: "'d datastore \<Rightarrow> string \<Rightarrow> nat \<Rightarrow> error \<Rightarrow> ('d, unit) io" where
  "record_failure S db migrationID err =
     io_bind (io_catch (updateMigrationEntry S db migrationID FailedStatus err)
               (\<lambda>updateErr. io_fail (errorsJoin err updateErr)))
       (\<lambda>_. io_fail err)"

definition recording :: "'d datastore \<Rightarrow> string \<Rightarrow> nat \<Rightarrow> ('d, unit) io \<Rightarrow> ('d, unit) io" where
  "recording S db migrationID x = io_catch x (record_failure S db migrationID)"

definition run_statement :: "'d datastore \<Rightarrow> Operation \<Rightarrow> ('d, unit) io" where
  "run_statement S operation m =
     (case ToSQL operation of
        None \<Rightarrow> Some (Panic ''nil pointer dereference'', m)
      | Some sql \<Rightarrow> Exec S sql [] m)"

definition wait_queue :: "'d datastore \<Rightarrow> Operation \<Rightarrow> ('d, unit) io" where
  "wait_queue S operation = (case ShouldWaitForDistributionQueue operation of
     (should, database, tbl) \<Rightarrow> if should then WaitForDistributionQueue S database tbl else io_return ())"

text \<open>
  Inside the statement that waits for the distribution queue the name \<open>database\<close> is that of the
  operation, so a failure there is recorded in the operation's database.
\<close>

definition RunOperation :: "'d datastore \<Rightarrow> Operation \<Rightarrow> nat \<Rightarrow> string \<Rightarrow> bool \<Rightarrow> ('d, unit) io" where
  "RunOperation S operation0 migrationID database skipStatusUpdate m =
     (let operation = prepare (clusterName m) (replicationEnabled m) operation0;
          opDatabase = fst (snd (ShouldWaitForDistributionQueue operation))
      in io_bind (recording S database migrationID (WaitForRunningMutations S)) (\<lambda>_.
         io_bind (recording S database migrationID (WaitDistributedDDLQueue S)) (\<lambda>_.
         io_bind (recording S opDatabase migrationID (wait_queue S operation)) (\<lambda>_.
         io_bind (if skipStatusUpdate then io_return () else insertMigrationEntry S database migrationID InProgressStatus) (\<lambda>_.
         io_bind (recording S database migrationID (run_statement S operation)) (\<lambda>_.
         io_bind (recording S database migrationID (WaitForRunningMutations S)) (\<lambda>_.
         io_bind (recording S database migrationID (WaitDistributedDDLQueue S)) (\<lambda>_.
         if skipStatusUpdate then io_return () else updateMigrationEntry S database migrationID FinishedStatus []))))))) m)"

definition RunOperationWithoutUpdate :: "'d datastore \<Rightarrow> Operation \<Rightarrow> nat \<Rightarrow> string \<Rightarrow> ('d, unit) io" where
  "RunOperationWithoutUpdate S operation0 migrationID database m =
     (let operation = prepare (clusterName m) (replicationEnabled m) operation0
      in io_bind (WaitForRunningMutations S) (\<lambda>_.
         io_bind (WaitDistributedDDLQueue S) (\<lambda>_.
         io_bind (wait_queue S operation) (\<lambda>_.
         run_statement S operation))) m)"

section \<open>Running migrations\<close>

definition IsSyncOperation :: "Operation \<Rightarrow> bool" where
  "IsSyncOperation item \<longleftrightarrow> ForceMigrate item \<or> (\<not> IsMutation item \<and> IsIdempotent item \<and> IsLightweight item)"

definition IsAsyncOperation :: "Operation \<Rightarrow> bool" where
  "IsAsyncOperation item =
     (if ForceMigrate item then False
      else if \<not> IsMutation item \<and> IsIdempotent item \<and> IsLightweight item then False
      else True)"

definition IsSync :: "SchemaMigrationRecord \<Rightarrow> bool" where
  "IsSync migration = list_ex IsSyncOperation (UpItems migration)"

definition IsAsync :: "SchemaMigrationRecord \<Rightarrow> bool" where
  "IsAsync migration = list_ex IsAsyncOperation (UpItems migration)"

definition executeSyncOperations :: "'d datastore \<Rightarrow> Operation list \<Rightarrow> nat \<Rightarrow> string \<Rightarrow> ('d, unit) io" where
  "executeSyncOperations S operations migrationID db =
     io_each (\<lambda>item. if ForceMigrate item \<or> (\<not> IsMutation item \<and> IsIdempotent item \<and> IsLightweight item)
                      then RunOperation S item migrationID db False else io_return ()) operations"

text \<open>The inner loop of the asynchronous modes.\<close>

definition executeAsyncOperations :: "'d datastore \<Rightarrow> Operation list \<Rightarrow> nat \<Rightarrow> string \<Rightarrow> ('d, unit) io" where
  "executeAsyncOperations S operations migrationID db =
     io_each (\<lambda>item. if ForceMigrate item then io_return ()
                      else if \<not> IsMutation item \<and> IsIdempotent item \<and> IsLightweight item then io_return ()
                      else if IsIdempotent item then RunOperation S item migrationID db False
                      else io_return ()) operations"

text \<open>
  The loop over the migrations of one database: \<open>exec\<close> is one of the two executions, \<open>items\<close> the
  direction.
\<close>

definition migrate_db ::
    "'d datastore \<Rightarrow> ('d datastore \<Rightarrow> Operation list \<Rightarrow> nat \<Rightarrow> string \<Rightarrow> ('d, unit) io)
      \<Rightarrow> (SchemaMigrationRecord \<Rightarrow> Operation list) \<Rightarrow> nat list \<Rightarrow> string \<Rightarrow> SchemaMigrationRecord list \<Rightarrow> ('d, unit) io" where
  "migrate_db S exec items versions db =
     io_each (\<lambda>migration. io_bind (shouldRunMigration S db (MigrationID migration) versions)
       (\<lambda>should. if \<not> should then io_return () else exec S (items migration) (MigrationID migration) db))"

text \<open>The lists of migrations the release ships, and the switch for the second version of the logs.\<close>

record catalog =
  TracesMigrations :: "SchemaMigrationRecord list"
  LogsMigrations :: "SchemaMigrationRecord list"
  LogsMigrationsV2 :: "SchemaMigrationRecord list"
  MetricsMigrations :: "SchemaMigrationRecord list"
  MetadataMigrations :: "SchemaMigrationRecord list"
  AnalyticsMigrations :: "SchemaMigrationRecord list"
  MeterMigrations :: "SchemaMigrationRecord list"
  EnableLogsMigrationsV2 :: bool

definition logsMigrations :: "catalog \<Rightarrow> SchemaMigrationRecord list" where
  "logsMigrations C = (if EnableLogsMigrationsV2 C then LogsMigrationsV2 C else LogsMigrations C)"

definition migrate_dbs ::
    "'d datastore \<Rightarrow> ('d datastore \<Rightarrow> Operation list \<Rightarrow> nat \<Rightarrow> string \<Rightarrow> ('d, unit) io)
      \<Rightarrow> (SchemaMigrationRecord \<Rightarrow> Operation list) \<Rightarrow> nat list \<Rightarrow> (string \<times> SchemaMigrationRecord list) list
      \<Rightarrow> ('d, unit) io" where
  "migrate_dbs S exec items versions dbs = io_each (\<lambda>(db, ms). migrate_db S exec items versions db ms) dbs"

definition MigrateUpSync :: "'d datastore \<Rightarrow> catalog \<Rightarrow> nat list \<Rightarrow> ('d, unit) io" where
  "MigrateUpSync S C upVersions = migrate_dbs S executeSyncOperations UpItems upVersions
     [(O11yTracesDB, TracesMigrations C), (O11yLogsDB, logsMigrations C), (O11yMetricsDB, MetricsMigrations C),
      (O11yMetadataDB, MetadataMigrations C), (O11yAnalyticsDB, AnalyticsMigrations C), (O11yMeterDB, MeterMigrations C)]"

definition MigrateDownSync :: "'d datastore \<Rightarrow> catalog \<Rightarrow> nat list \<Rightarrow> ('d, unit) io" where
  "MigrateDownSync S C downVersions = migrate_dbs S executeSyncOperations DownItems downVersions
     [(O11yTracesDB, TracesMigrations C), (O11yLogsDB, logsMigrations C), (O11yMetricsDB, MetricsMigrations C),
      (O11yAnalyticsDB, AnalyticsMigrations C), (O11yMeterDB, MeterMigrations C)]"

definition MigrateUpAsync :: "'d datastore \<Rightarrow> catalog \<Rightarrow> nat list \<Rightarrow> ('d, unit) io" where
  "MigrateUpAsync S C upVersions = migrate_dbs S executeAsyncOperations UpItems upVersions
     [(O11yTracesDB, TracesMigrations C), (O11yMetricsDB, MetricsMigrations C), (O11yLogsDB, logsMigrations C)]"

definition MigrateDownAsync :: "'d datastore \<Rightarrow> catalog \<Rightarrow> nat list \<Rightarrow> ('d, unit) io" where
  "MigrateDownAsync S C downVersions = migrate_dbs S executeAsyncOperations DownItems downVersions
     [(O11yTracesDB, TracesMigrations C), (O11yMetricsDB, MetricsMigrations C), (O11yLogsDB, LogsMigrations C)]"

section \<open>Squashed migrations and bootstrap\<close>

definition tables_query :: string where
  "tables_query = ''SELECT count(*) FROM clusterAllReplicas($1, system.tables) WHERE database = $2 AND name = ''"

definition shouldRunSquashed :: "'d datastore \<Rightarrow> string \<Rightarrow> ('d, bool) io" where
  "shouldRunSquashed S db m =
     io_bind (io_call (dsCount S None (tables_query @ ''$3'') [clusterName m, db, ''schema_migrations''])) (\<lambda>cnt.
     io_bind (io_call (dsCount S None (tables_query @ quoted ''schema_migrations_v2'') [clusterName m, db])) (\<lambda>countV2.
     io_bind (if countV2 > 0
              then io_bind (io_call (dsCount S None (''SELECT count(*) FROM '' @ db @ ''.distributed_schema_migrations_v2'') []))
                     (\<lambda>countMigrations. io_return (countMigrations > 0))
              else io_return False) (\<lambda>didMigrateV2.
     io_return (cnt = 0 \<and> \<not> didMigrateV2)))) m"

definition ShouldRunSquashedV2 :: "'d datastore \<Rightarrow> string \<Rightarrow> ('d, bool) io" where
  "ShouldRunSquashedV2 S db m =
     io_bind (io_call (dsCount S None (tables_query @ ''$3'') [clusterName m, db, ''schema_migrations'']))
       (\<lambda>cnt. io_return (cnt = 0)) m"

text \<open>\<open>for migration { for item { RunOperation } }\<close>\<close>

definition run_all :: "'d datastore \<Rightarrow> string \<Rightarrow> bool \<Rightarrow> SchemaMigrationRecord list \<Rightarrow> ('d, unit) io" where
  "run_all S db skip =
     io_each (\<lambda>migration. io_each (\<lambda>item. RunOperation S item (MigrationID migration) db skip) (UpItems migration))"

definition run_squashed :: "'d datastore \<Rightarrow> string \<Rightarrow> SchemaMigrationRecord list \<Rightarrow> ('d, unit) io" where
  "run_squashed S db migrations =
     io_bind (shouldRunSquashed S db) (\<lambda>should. if \<not> should then io_return () else run_all S db False migrations)"

record squashed_catalog =
  CustomRetentionLogsMigrations :: "SchemaMigrationRecord list"
  SquashedLogsMigrations :: "SchemaMigrationRecord list"
  SquashedMetricsMigrations :: "SchemaMigrationRecord list"
  SquashedTracesMigrations :: "SchemaMigrationRecord list"

definition runCustomRetentionMigrationsForLogs :: "'d datastore \<Rightarrow> squashed_catalog \<Rightarrow> ('d, unit) io" where
  "runCustomRetentionMigrationsForLogs S C = run_squashed S O11yLogsDB (CustomRetentionLogsMigrations C)"

definition runSquashedMigrationsForLogs :: "'d datastore \<Rightarrow> squashed_catalog \<Rightarrow> ('d, unit) io" where
  "runSquashedMigrationsForLogs S C = run_squashed S O11yLogsDB (SquashedLogsMigrations C)"

definition runSquashedMigrationsForMetrics :: "'d datastore \<Rightarrow> squashed_catalog \<Rightarrow> ('d, unit) io" where
  "runSquashedMigrationsForMetrics S C = run_squashed S O11yMetricsDB (SquashedMetricsMigrations C)"

definition runSquashedMigrationsForTraces :: "'d datastore \<Rightarrow> squashed_catalog \<Rightarrow> ('d, unit) io" where
  "runSquashedMigrationsForTraces S C = run_squashed S O11yTracesDB (SquashedTracesMigrations C)"

definition RunSquashedMigrations :: "'d datastore \<Rightarrow> squashed_catalog \<Rightarrow> ('d, unit) io" where
  "RunSquashedMigrations S C =
     io_each (wrapping ''failed to run squashed migrations'')
       [runCustomRetentionMigrationsForLogs S C, runSquashedMigrationsForMetrics S C, runSquashedMigrationsForTraces S C]"

record v2_tables =
  V2MigrationTablesLogs :: "SchemaMigrationRecord list"
  V2MigrationTablesMetrics :: "SchemaMigrationRecord list"
  V2MigrationTablesTraces :: "SchemaMigrationRecord list"
  V2MigrationTablesMetadata :: "SchemaMigrationRecord list"
  V2MigrationTablesAnalytics :: "SchemaMigrationRecord list"
  V2MigrationTablesMeter :: "SchemaMigrationRecord list"

definition Bootstrap :: "'d datastore \<Rightarrow> v2_tables \<Rightarrow> ('d, unit) io" where
  "Bootstrap S V =
     io_bind (wrapping ''failed to create dbs'' (createDBs S)) (\<lambda>_.
       io_each (\<lambda>(db, migrations). wrapping ''failed to create schema_migrations_v2 table'' (run_all S db True migrations))
         [(O11yLogsDB, V2MigrationTablesLogs V), (O11yMetricsDB, V2MigrationTablesMetrics V),
          (O11yTracesDB, V2MigrationTablesTraces V), (O11yMetadataDB, V2MigrationTablesMetadata V),
          (O11yAnalyticsDB, V2MigrationTablesAnalytics V), (O11yMeterDB, V2MigrationTablesMeter V)])"

section \<open>Reasoning about effects\<close>

text \<open>
  \<open>always R x\<close>: whatever the outcome of \<open>x\<close>, the manager before and after are related by \<open>R\<close>;
  \<open>when_ok R x\<close>: they are if \<open>x\<close> returns no error.
\<close>

definition always :: "('d mgr \<Rightarrow> 'd mgr \<Rightarrow> bool) \<Rightarrow> ('d, 'a) io \<Rightarrow> bool" where
  "always R x \<longleftrightarrow> (\<forall>m r m'. x m = Some (r, m') \<longrightarrow> R m m')"

definition when_ok :: "('d mgr \<Rightarrow> 'd mgr \<Rightarrow> bool) \<Rightarrow> ('d, 'a) io \<Rightarrow> bool" where
  "when_ok R x \<longleftrightarrow> (\<forall>m a m'. x m = Some (Ok a, m') \<longrightarrow> R m m')"

lemma alwaysD: "always R x \<Longrightarrow> x m = Some (r, m') \<Longrightarrow> R m m'"
  by (auto simp: always_def)

lemma when_okD: "when_ok R x \<Longrightarrow> x m = Some (Ok a, m') \<Longrightarrow> R m m'"
  by (auto simp: when_ok_def)

lemma always_when_ok: "always R x \<Longrightarrow> when_ok R x"
  by (auto simp: always_def when_ok_def)

lemma io_bind_Some:
  "io_bind x f m = Some (r, m') \<longleftrightarrow>
     (\<exists>a m1. x m = Some (Ok a, m1) \<and> f a m1 = Some (r, m')) \<or>
     (\<exists>e. x m = Some (Fail e, m') \<and> r = Fail e) \<or> (\<exists>e. x m = Some (Panic e, m') \<and> r = Panic e)"
proof (cases "x m")
  case (Some p)
  then show ?thesis by (cases p; cases "fst p") (auto simp: io_bind_def)
qed (simp add: io_bind_def)

lemma io_catch_Some:
  "io_catch x h m = Some (r, m') \<longleftrightarrow>
     (\<exists>a. x m = Some (Ok a, m') \<and> r = Ok a) \<or>
     (\<exists>e m1. x m = Some (Fail e, m1) \<and> h e m1 = Some (r, m')) \<or> (\<exists>e. x m = Some (Panic e, m') \<and> r = Panic e)"
proof (cases "x m")
  case (Some p)
  then show ?thesis by (cases p; cases "fst p") (auto simp: io_catch_def)
qed (simp add: io_catch_def)

text \<open>A relation between managers that effects may be composed under.\<close>

locale effect_relation =
  fixes R :: "'d mgr \<Rightarrow> 'd mgr \<Rightarrow> bool"
  assumes R_refl: "R m m"
    and R_trans: "R m1 m2 \<Longrightarrow> R m2 m3 \<Longrightarrow> R m1 m3"
begin

lemma always_return: "always R (io_return a)"
  by (simp add: always_def io_return_def R_refl)

lemma always_fail: "always R (io_fail e)"
  by (simp add: always_def io_fail_def R_refl)

lemma always_result: "always R (io_result r)"
  by (simp add: always_def io_result_def R_refl)

lemma always_bind: "always R x \<Longrightarrow> (\<And>a. always R (f a)) \<Longrightarrow> always R (io_bind x f)"
  unfolding always_def io_bind_Some using R_trans by blast

lemma always_catch: "always R x \<Longrightarrow> (\<And>e. always R (h e)) \<Longrightarrow> always R (io_catch x h)"
  unfolding always_def io_catch_Some using R_trans by blast

lemma always_wrapping: "always R x \<Longrightarrow> always R (wrapping kind x)"
  unfolding wrapping_def by (intro always_catch always_fail)

lemma always_each: "(\<And>a. a \<in> set xs \<Longrightarrow> always R (f a)) \<Longrightarrow> always R (io_each f xs)"
  by (induction xs) (auto intro: always_return always_bind)

lemma when_ok_bind: "when_ok R x \<Longrightarrow> (\<And>a. when_ok R (f a)) \<Longrightarrow> when_ok R (io_bind x f)"
  unfolding when_ok_def io_bind_Some using R_trans by blast

lemma when_ok_each: "(\<And>a. a \<in> set xs \<Longrightarrow> when_ok R (f a)) \<Longrightarrow> when_ok R (io_each f xs)"
  by (induction xs) (auto intro: always_return [THEN always_when_ok] when_ok_bind)

lemmas always_rules = always_return always_fail always_result always_bind always_catch always_wrapping always_each

end

text \<open>
  What does not change while the manager waits: the statements it has sent, its configuration, and
  an observation \<open>obs\<close> of the world that no reading call changes (\<open>reads_keep\<close>).
\<close>

definition same_view :: "('d \<Rightarrow> 's) \<Rightarrow> 'd mgr \<Rightarrow> 'd mgr \<Rightarrow> bool" where
  "same_view obs m m' \<longleftrightarrow> obs (world m') = obs (world m) \<and> executed m' = executed m \<and>
     clusterName m' = clusterName m \<and> replicationEnabled m' = replicationEnabled m \<and> development m' = development m"

definition reads_keep :: "'d datastore \<Rightarrow> ('d \<Rightarrow> 's) \<Rightarrow> bool" where
  "reads_keep S obs \<longleftrightarrow>
     (\<forall>h q args w. obs (snd (dsCount S h q args w)) = obs w) \<and>
     (\<forall>q w. obs (snd (dsStatus S q w)) = obs w) \<and>
     (\<forall>h q w. obs (snd (dsMutations S h q w)) = obs w) \<and>
     (\<forall>q w. obs (snd (dsDDLQueue S q w)) = obs w) \<and>
     (\<forall>h q args w. obs (snd (dsHosts S h q args w)) = obs w) \<and>
     (\<forall>h w. obs (snd (dsOpen S h w)) = obs w) \<and>
     (\<forall>w. obs (backoffReset S w) = obs w) \<and>
     (\<forall>w. obs (snd (backoffStops S w)) = obs w) \<and>
     (\<forall>w. obs (backoffSleep S w) = obs w) \<and>
     (\<forall>w. obs (newTimer S w) = obs w) \<and>
     (\<forall>w. obs (snd (waitEvent S w)) = obs w)"

lemma reads_keepD:
  assumes "reads_keep S obs"
  shows "dsCount S h q args w = (a, w1) \<Longrightarrow> obs w1 = obs w" and "dsStatus S q w = (b, w2) \<Longrightarrow> obs w2 = obs w"
    and "dsMutations S h' q w = (c, w3) \<Longrightarrow> obs w3 = obs w" and "dsDDLQueue S q w = (d, w4) \<Longrightarrow> obs w4 = obs w"
    and "dsHosts S h q args w = (e, w5) \<Longrightarrow> obs w5 = obs w" and "dsOpen S h' w = (f, w6) \<Longrightarrow> obs w6 = obs w"
    and "obs (backoffReset S w) = obs w" and "backoffStops S w = (g, w7) \<Longrightarrow> obs w7 = obs w"
    and "obs (backoffSleep S w) = obs w" and "waitEvent S w = (i, w8) \<Longrightarrow> obs w8 = obs w"
    and "obs (newTimer S w) = obs w"
  using assms unfolding reads_keep_def by (metis snd_conv)+

lemma reads_keep_unit: "reads_keep S (\<lambda>_. ())"
  by (simp add: reads_keep_def)

interpretation view: effect_relation "same_view obs" for obs
  by unfold_locales (auto simp: same_view_def)

lemma always_call:
  assumes "\<And>w r w'. f w = (r, w') \<Longrightarrow> obs w' = obs w"
  shows "always (same_view obs) (io_call f)"
  using assms by (auto simp: always_def io_call_def same_view_def split: prod.splits)

lemma same_view_world: "obs w = obs (world m) \<Longrightarrow> same_view obs m (m\<lparr>world := w\<rparr>)"
  by (simp add: same_view_def)

lemma mutations_loop_view_aux:
  "mutations_loop S hostAddr m = Some p \<Longrightarrow> reads_keep S obs \<Longrightarrow> same_view obs m (snd p)"
proof (induction rule: mutations_loop.raw_induct [rotated, consumes 1, case_names 1])
  case (1 loop S hostAddr m p)
  obtain stop w where stop: "backoffStops S (world m) = (stop, w)" by (cases "backoffStops S (world m)")
  obtain r w' where r: "dsMutations S hostAddr mutations_query w = (r, w')"
    by (cases "dsMutations S hostAddr mutations_query w")
  have w: "obs w = obs (world m)" "obs w' = obs (world m)" "obs (backoffSleep S w') = obs (world m)"
    using reads_keepD [OF 1(3)] stop r by metis+
  show ?case
  proof (cases "\<not> stop \<and> (\<exists>ms. r = Inr ms \<and> ms \<noteq> [])")
    case True
    with 1(2) stop r have "loop S hostAddr (m\<lparr>world := backoffSleep S w'\<rparr>) = Some p" by auto
    from 1(1) [OF this 1(3)] w show ?thesis by (simp add: same_view_def)
  next
    case False
    with 1(2) stop r w show ?thesis by (auto simp: same_view_def split: sum.splits if_splits)
  qed
qed

lemma mutations_loop_view: "reads_keep S obs \<Longrightarrow> always (same_view obs) (mutations_loop S hostAddr)"
  using mutations_loop_view_aux [of S hostAddr _ _ obs] by (force simp: always_def)

lemma ddl_attempts_view: "reads_keep S obs \<Longrightarrow> obs (snd (ddl_attempts n S w)) = obs w"
proof (induction n arbitrary: w)
  case (Suc n)
  obtain r w' where r: "dsDDLQueue S ddl_query w = (r, w')" by (cases "dsDDLQueue S ddl_query w")
  have "obs w' = obs w" using reads_keepD(4) [OF Suc.prems r] .
  with Suc r show ?case by (auto split: sum.splits ds_error.splits)
qed simp

lemma ddl_loop_view_aux:
  "ddl_loop S m = Some p \<Longrightarrow> reads_keep S obs \<Longrightarrow> same_view obs m (snd p)"
proof (induction rule: ddl_loop.raw_induct [rotated, consumes 1, case_names 1])
  case (1 loop S m p)
  obtain stop w where stop: "backoffStops S (world m) = (stop, w)" by (cases "backoffStops S (world m)")
  obtain r w' where r: "getDistributedDDLQueue S w = (r, w')" by (cases "getDistributedDDLQueue S w")
  have "obs w' = obs w" using ddl_attempts_view [OF 1(3), of 10 w] r by (simp add: getDistributedDDLQueue_def)
  then have w: "obs w = obs (world m)" "obs w' = obs (world m)" "obs (backoffSleep S w') = obs (world m)"
    using reads_keepD [OF 1(3)] stop by metis+
  show ?case
  proof (cases "\<not> stop \<and> (\<exists>q. r = Inr q \<and> q \<noteq> [])")
    case True
    with 1(2) stop r have "loop S (m\<lparr>world := backoffSleep S w'\<rparr>) = Some p" by auto
    from 1(1) [OF this 1(3)] w show ?thesis by (simp add: same_view_def)
  next
    case False
    with 1(2) stop r w show ?thesis by (auto simp: same_view_def split: sum.splits if_splits)
  qed
qed

lemma ddl_loop_view: "reads_keep S obs \<Longrightarrow> always (same_view obs) (ddl_loop S)"
  using ddl_loop_view_aux [of S _ _ obs] by (force simp: always_def)

lemma inserts_loop_view_aux:
  "inserts_loop S host db tbl n m = Some p \<Longrightarrow> reads_keep S obs \<Longrightarrow> same_view obs m (snd p)"
proof (induction rule: inserts_loop.raw_induct [rotated, consumes 1, case_names 1])
  case (1 loop S host db tbl n m p)
  obtain ev w where ev: "waitEvent S (world m) = (ev, w)" by (cases "waitEvent S (world m)")
  obtain r w1 where r: "dsCount S (Some host) err_count_query [db, tbl] w = (r, w1)"
    by (cases "dsCount S (Some host) err_count_query [db, tbl] w")
  obtain r2 w2 where r2: "dsCount S (Some host) data_files_query [db, tbl] w1 = (r2, w2)"
    by (cases "dsCount S (Some host) data_files_query [db, tbl] w1")
  have w: "obs w = obs (world m)" "obs w1 = obs (world m)" "obs w2 = obs (world m)"
    using reads_keepD [OF 1(3)] ev r r2 by metis+
  have IH: "same_view obs m (snd p)" if "loop S host db tbl n' (m\<lparr>world := w2\<rparr>) = Some p" for n'
    using 1(1) [OF that 1(3)] w by (simp add: same_view_def)
  show ?case using 1(2) ev r r2 w
    by (auto simp: Let_def intro: IH same_view_world split: wait_event.splits sum.splits if_splits)
qed

lemma inserts_loop_view: "reads_keep S obs \<Longrightarrow> always (same_view obs) (inserts_loop S host db tbl n)"
  using inserts_loop_view_aux [of S host db tbl n _ _ obs] by (force simp: always_def)

lemma same_view_reset:
  "reads_keep S obs \<Longrightarrow> same_view obs m (m\<lparr>world := backoffReset S (world m)\<rparr>)"
  by (rule same_view_world) (rule reads_keepD(7))

lemma always_from:
  assumes "always (same_view obs) x" and "\<And>m. same_view obs m (g m)"
  shows "always (same_view obs) (\<lambda>m. x (g m))"
  using assms view.R_trans unfolding always_def by blast

lemma getConn_view: "reads_keep S obs \<Longrightarrow> always (same_view obs) (getConn S h)"
  using reads_keepD(6) [of S obs h]
  by (auto simp: always_def getConn_def same_view_def split: option.splits prod.splits if_splits)

lemma HostAddrs_view:
  fixes S :: "'d datastore"
  assumes "reads_keep S obs"
  shows "always (same_view obs) (HostAddrs S)"
proof -
  have hosts: "always (same_view obs) (io_call (dsHosts S h q args))" for h q args
    by (rule always_call) (rule reads_keepD(5) [OF assms])
  have conn: "always (same_view obs) (io_call (\<lambda>w. case dsOpen S h w of (None, w') \<Rightarrow> (Inr (), w') | (Some e, w') \<Rightarrow> (Inl e, w')))"
    for h by (rule always_call) (auto dest: reads_keepD(6) [OF assms] split: prod.splits option.splits)
  have store: "always (same_view obs) (\<lambda>m. Some (Ok hs, m\<lparr>addrs := hs\<rparr>))" for hs :: "string list"
    by (simp add: always_def same_view_def)
  have inner: "always (same_view obs) (case hs of [] \<Rightarrow> io_return hosts | h # _ \<Rightarrow> f h)"
    if "\<And>h. always (same_view obs) (f h)" for hs and f :: "string \<Rightarrow> ('d, string list) io" and hosts
    using that by (cases hs) (auto intro: view.always_return)
  let ?find = "\<lambda>c. io_bind (wrapping ''failed to get host addrs''
        (io_bind (io_call (dsHosts S None host_query [c])) (\<lambda>rows. io_result (add_hosts S rows []))))
        (\<lambda>hosts. io_bind
          (case rangeOrder S hosts of
             [] \<Rightarrow> io_return hosts
           | hostAddr # _ \<Rightarrow>
               io_bind (wrapping ''failed to get conn''
                 (io_bind (io_call (\<lambda>w. case dsOpen S hostAddr w of (None, w') \<Rightarrow> (Inr (), w') | (Some e, w') \<Rightarrow> (Inl e, w')))
                    (\<lambda>_. io_call (dsHosts S (Some hostAddr) host_query [c]))))
                 (\<lambda>rows. wrapping ''failed to get host addrs'' (io_result (add_hosts S rows hosts))))
          (\<lambda>hosts'. \<lambda>m'. Some (Ok (rangeOrder S hosts'), m'\<lparr>addrs := rangeOrder S hosts'\<rparr>)))"
  have find: "always (same_view obs) (?find c)" for c
    by (intro view.always_bind view.always_wrapping inner hosts conn store view.always_result)
  show ?thesis unfolding always_def HostAddrs_def
    using alwaysD [OF find] view.R_refl by (auto split: if_splits)
qed

lemma waits_view:
  assumes "reads_keep S obs"
  shows "always (same_view obs) (WaitForRunningMutations S)" and "always (same_view obs) (WaitDistributedDDLQueue S)"
    and "always (same_view obs) (WaitForDistributionQueue S db tbl)" and "always (same_view obs) (wait_queue S op)"
proof -
  have host: "always (same_view obs) (waitForMutationsOnHost S h)" for h
    unfolding waitForMutationsOnHost_def [abs_def]
    by (rule always_from [where g = "\<lambda>m. m\<lparr>world := backoffReset S (world m)\<rparr>"])
      (intro view.always_bind getConn_view mutations_loop_view assms, rule same_view_reset [OF assms])
  show "always (same_view obs) (WaitForRunningMutations S)"
    unfolding WaitForRunningMutations_def
    by (intro view.always_bind view.always_each view.always_wrapping HostAddrs_view host assms)
  show "always (same_view obs) (WaitDistributedDDLQueue S)"
    unfolding WaitDistributedDDLQueue_def [abs_def]
    by (rule always_from [where g = "\<lambda>m. m\<lparr>world := backoffReset S (world m)\<rparr>"])
      (rule ddl_loop_view [OF assms], rule same_view_reset [OF assms])
  have cnt: "always (same_view obs) (io_call (dsCount S h q args))" for h q args
    by (rule always_call) (rule reads_keepD(1) [OF assms])
  have inserts: "always (same_view obs) (\<lambda>m. inserts_loop S h db tbl n (m\<lparr>world := newTimer S (world m)\<rparr>))" for h db tbl n
    by (rule always_from) (rule inserts_loop_view [OF assms], rule same_view_world, rule reads_keepD(11) [OF assms])
  have queue: "always (same_view obs) (waitForDistributionQueueOnHost S h db tbl)" for h db tbl
    unfolding waitForDistributionQueueOnHost_def
    by (intro view.always_bind view.always_wrapping cnt) (simp add: view.always_fail inserts assms)
  show *: "always (same_view obs) (WaitForDistributionQueue S db tbl)" for db tbl
    unfolding WaitForDistributionQueue_def
    by (intro view.always_bind view.always_each view.always_wrapping HostAddrs_view getConn_view queue assms)
  show "always (same_view obs) (wait_queue S op)"
    unfolding wait_queue_def by (simp add: * view.always_return split: prod.splits)
qed

section \<open>Running an operation\<close>

lemma io_bind_Ok:
  "io_bind x f m = Some (Ok b, m') \<longleftrightarrow> (\<exists>a m1. x m = Some (Ok a, m1) \<and> f a m1 = Some (Ok b, m'))"
  by (auto simp: io_bind_Some)

lemma record_failure_not_Ok: "record_failure S db i e m \<noteq> Some (Ok a, m')"
  by (auto simp: record_failure_def io_bind_Some io_fail_def)

lemma recording_Ok [simp]: "recording S db i x m = Some (Ok a, m') \<longleftrightarrow> x m = Some (Ok a, m')"
  by (auto simp: recording_def io_catch_Some record_failure_not_Ok)

lemma Exec_Some:
  "Exec S q args m = Some (r, m') \<longleftrightarrow> (\<exists>err w. dsExec S q args (world m) = (err, w) \<and>
     r = (case err of None \<Rightarrow> Ok () | Some e \<Rightarrow> Fail e) \<and>
     m' = m\<lparr>world := w, executed := executed m @ [(q, args)]\<rparr>)"
  by (auto simp: Exec_def split: prod.splits)

text \<open>A run without error: wait, insert the entry, run the statement, wait, update the entry.\<close>

lemma RunOperation_Ok:
  assumes "RunOperation S op i db False m = Some (Ok (), m')" and "reads_keep S obs"
  obtains m1 m2 m3 m4 sql where "same_view obs m m1"
    and "insertMigrationEntry S db i InProgressStatus m1 = Some (Ok (), m2)"
    and "ToSQL (prepare (clusterName m) (replicationEnabled m) op) = Some sql"
    and "Exec S sql [] m2 = Some (Ok (), m3)" and "same_view obs m3 m4"
    and "updateMigrationEntry S db i FinishedStatus [] m4 = Some (Ok (), m')"
proof -
  let ?op = "prepare (clusterName m) (replicationEnabled m) op"
  obtain a1 a2 a3 a4 a5 m2 m3 where steps:
    "WaitForRunningMutations S m = Some (Ok (), a1)" "WaitDistributedDDLQueue S a1 = Some (Ok (), a2)"
    "wait_queue S ?op a2 = Some (Ok (), a3)" "insertMigrationEntry S db i InProgressStatus a3 = Some (Ok (), m2)"
    "run_statement S ?op m2 = Some (Ok (), m3)" "WaitForRunningMutations S m3 = Some (Ok (), a4)"
    "WaitDistributedDDLQueue S a4 = Some (Ok (), a5)" "updateMigrationEntry S db i FinishedStatus [] a5 = Some (Ok (), m')"
    using assms(1) by (auto simp: RunOperation_def Let_def io_bind_Ok)
  have before: "same_view obs m a3"
    using alwaysD [OF waits_view(1) [OF assms(2)] steps(1)] alwaysD [OF waits_view(2) [OF assms(2)] steps(2)]
      alwaysD [OF waits_view(4) [OF assms(2)] steps(3)] by (blast intro: view.R_trans)
  have after: "same_view obs m3 a5"
    using alwaysD [OF waits_view(1) [OF assms(2)] steps(6)] alwaysD [OF waits_view(2) [OF assms(2)] steps(7)]
    by (blast intro: view.R_trans)
  obtain sql where "ToSQL ?op = Some sql" "Exec S sql [] m2 = Some (Ok (), m3)"
    using steps(5) by (auto simp: run_statement_def split: option.splits)
  then show ?thesis using that before after steps(4,8) by blast
qed

text \<open>
  \<open>traced m P x\<close>: after \<open>x\<close> the manager has sent what it had sent at \<open>m\<close> and perhaps more, and if
  \<open>x\<close> fails then \<open>P\<close> holds.
\<close>

definition grows :: "'d mgr \<Rightarrow> 'd mgr \<Rightarrow> bool" where
  "grows m m' \<longleftrightarrow> (\<exists>xs. executed m' = executed m @ xs) \<and> clusterName m' = clusterName m"

definition traced :: "'d mgr \<Rightarrow> ('d mgr \<Rightarrow> bool) \<Rightarrow> ('d, 'a) io \<Rightarrow> bool" where
  "traced m P x \<longleftrightarrow> (\<forall>a r c. grows m a \<longrightarrow> x a = Some (r, c) \<longrightarrow>
     (case r of Ok _ \<Rightarrow> grows m c | Fail _ \<Rightarrow> P c | Panic _ \<Rightarrow> True))"

lemma traced_bind: "traced m P x \<Longrightarrow> (\<And>a. traced m P (f a)) \<Longrightarrow> traced m P (io_bind x f)"
  unfolding traced_def io_bind_Some by fastforce

lemma traced_return: "traced m P (io_return a)"
  by (simp add: traced_def io_return_def)

interpretation growth: effect_relation grows
  by unfold_locales (auto simp: grows_def)

text \<open>The last statement sent after \<open>m\<close>.\<close>

definition last_sent :: "'d mgr \<Rightarrow> (string \<Rightarrow> string list \<Rightarrow> bool) \<Rightarrow> 'd mgr \<Rightarrow> bool" where
  "last_sent m Q c \<longleftrightarrow> (\<exists>sent q args. executed c = executed m @ sent @ [(q, args)] \<and> Q q args)"

lemma traced_recording:
  assumes "always grows x"
    and "\<And>db err now. Q (update_query db (clusterName m)) [FailedStatus, err, now, show_nat i]"
  shows "traced m (last_sent m Q) (recording S db i x)"
  unfolding traced_def
proof (intro allI impI)
  fix a r c assume a: "grows m a" and rec: "recording S db i x a = Some (r, c)"
  show "case r of Ok _ \<Rightarrow> grows m c | Fail _ \<Rightarrow> last_sent m Q c | Panic _ \<Rightarrow> True"
  proof (cases r)
    case (Ok u)
    with rec have "x a = Some (Ok u, c)" by simp
    then show ?thesis using a alwaysD [OF assms(1)] growth.R_trans Ok by fastforce
  next
    case (Fail e')
    with rec obtain b err where b: "x a = Some (Fail err, b)" "record_failure S db i err b = Some (Fail e', c)"
      by (auto simp: recording_def io_catch_Some)
    have "grows m b" using a alwaysD [OF assms(1) b(1)] by (rule growth.R_trans)
    with b(2) have "last_sent m Q c"
      using assms(2) unfolding last_sent_def
      by (auto simp: grows_def record_failure_def io_bind_Some io_catch_Some io_fail_def
          updateMigrationEntry_def Exec_Some split: option.splits)
    with Fail show ?thesis by simp
  qed simp
qed

lemma always_grows_waits:
  "always grows (WaitForRunningMutations S)" "always grows (WaitDistributedDDLQueue S)" "always grows (wait_queue S op)"
proof -
  have "always (same_view (\<lambda>_. ())) x \<Longrightarrow> always grows x" for x :: "('d, unit) io"
    by (auto simp: always_def same_view_def grows_def)
  then show "always grows (WaitForRunningMutations S)" "always grows (WaitDistributedDDLQueue S)" "always grows (wait_queue S op)"
    using waits_view [OF reads_keep_unit] by blast+
qed

lemma always_grows_statement: "always grows (run_statement S op)"
  by (auto simp: always_def grows_def run_statement_def Exec_Some split: option.splits)

section \<open>The table of migrations as the manager sees it\<close>

text \<open>
  What the manager relies on of the datastore: \<open>status w (db, i)\<close> is the status of migration \<open>i\<close> in
  the table of \<open>db\<close>, for the migrations \<open>K\<close>; reading calls leave the tables alone, a select answers
  the status, and a statement on the table that returns no error has its effect.
\<close>

definition migration_table ::
    "'d datastore \<Rightarrow> ('d \<Rightarrow> string \<times> nat \<Rightarrow> string option) \<Rightarrow> (string \<times> nat) set \<Rightarrow> string \<Rightarrow> bool" where
  "migration_table S status K c \<longleftrightarrow> reads_keep S status \<and>
     (\<forall>(db, i) \<in> K. \<forall>w. fst (dsStatus S (status_query db i) w) =
        (case status w (db, i) of None \<Rightarrow> ErrNoRows | Some s \<Rightarrow> Row s)) \<and>
     (\<forall>(db, i) \<in> K. \<forall>now w w'. dsExec S (insert_query db i InProgressStatus now) [] w = (None, w') \<longrightarrow>
        status w' = (status w)((db, i) \<mapsto> InProgressStatus)) \<and>
     (\<forall>(db, i) \<in> K. \<forall>st err now w w'. dsExec S (update_query db c) [st, err, now, show_nat i] w = (None, w') \<longrightarrow>
        status w' = (if status w (db, i) = None then status w else (status w)((db, i) \<mapsto> st)))"

text \<open>A statement that does not touch the tables of migrations.\<close>

definition leaves_table :: "'d datastore \<Rightarrow> ('d \<Rightarrow> string \<times> nat \<Rightarrow> string option) \<Rightarrow> string option \<Rightarrow> bool" where
  "leaves_table S status sql \<longleftrightarrow>
     (\<forall>s w w'. sql = Some s \<longrightarrow> dsExec S s [] w = (None, w') \<longrightarrow> status w' = status w)"

definition recorded :: "('d \<Rightarrow> string \<times> nat \<Rightarrow> string option) \<Rightarrow> 'd mgr \<Rightarrow> string \<times> nat \<Rightarrow> bool" where
  "recorded status m k \<longleftrightarrow> status (world m) k \<in> {Some InProgressStatus, Some FinishedStatus}"

text \<open>Successful work never unrecords a migration.\<close>

definition advances :: "('d \<Rightarrow> string \<times> nat \<Rightarrow> string option) \<Rightarrow> 'd mgr \<Rightarrow> 'd mgr \<Rightarrow> bool" where
  "advances status m m' \<longleftrightarrow> (\<forall>k. recorded status m k \<longrightarrow> recorded status m' k) \<and>
     clusterName m' = clusterName m \<and> replicationEnabled m' = replicationEnabled m"

interpretation advance: effect_relation "advances status" for status
  by unfold_locales (auto simp: advances_def)

lemma same_view_advances: "same_view status m m' \<Longrightarrow> advances status m m'"
  by (simp add: same_view_def advances_def recorded_def)

text \<open>What a run without error has sent, and the status it leaves.\<close>

definition sent_for :: "string \<Rightarrow> bool \<Rightarrow> string \<times> nat \<times> Operation \<Rightarrow> (string \<times> string list) list \<Rightarrow> bool" where
  "sent_for c r work xs \<longleftrightarrow> (case work of (db, i, op) \<Rightarrow> \<exists>now now' sql. ToSQL (prepare c r op) = Some sql \<and>
     xs = [(insert_query db i InProgressStatus now, []), (sql, []),
           (update_query db c, [FinishedStatus, [], now', show_nat i])])"

lemma RunOperation_effect:
  assumes "migration_table S status K (clusterName m)" and "(db, i) \<in> K"
    and "leaves_table S status (ToSQL (prepare (clusterName m) (replicationEnabled m) op))"
    and "RunOperation S op i db False m = Some (Ok (), m')"
  shows "status (world m') = (status (world m))((db, i) \<mapsto> FinishedStatus)"
    and "clusterName m' = clusterName m" and "replicationEnabled m' = replicationEnabled m"
    and "\<exists>xs. executed m' = executed m @ xs \<and> sent_for (clusterName m) (replicationEnabled m) (db, i, op) xs"
proof -
  have laws: "reads_keep S status"
    "dsExec S (insert_query db i InProgressStatus now) [] w = (None, w') \<Longrightarrow> status w' = (status w)((db, i) \<mapsto> InProgressStatus)"
    "dsExec S (update_query db (clusterName m)) [st, err, now, show_nat i] w = (None, w') \<Longrightarrow>
       status w' = (if status w (db, i) = None then status w else (status w)((db, i) \<mapsto> st))" for now w w' st err
    using assms(1,2) unfolding migration_table_def by blast+
  obtain m1 m2 m3 m4 sql where v1: "same_view status m m1"
    and ins: "insertMigrationEntry S db i InProgressStatus m1 = Some (Ok (), m2)"
    and sql: "ToSQL (prepare (clusterName m) (replicationEnabled m) op) = Some sql" "Exec S sql [] m2 = Some (Ok (), m3)"
    and v2: "same_view status m3 m4" and upd: "updateMigrationEntry S db i FinishedStatus [] m4 = Some (Ok (), m')"
    by (rule RunOperation_Ok [OF assms(4) laws(1)])
  have s1: "status (world m1) = status (world m)" "clusterName m1 = clusterName m" "replicationEnabled m1 = replicationEnabled m"
    "executed m1 = executed m"
    using v1 by (auto simp: same_view_def)
  have s2: "status (world m2) = (status (world m1))((db, i) \<mapsto> InProgressStatus)" "clusterName m2 = clusterName m1"
    "replicationEnabled m2 = replicationEnabled m1"
    using ins by (auto simp: insertMigrationEntry_def Exec_Some dest: laws(2) split: option.splits)
  have s3: "status (world m3) = status (world m2)" "clusterName m3 = clusterName m2" "replicationEnabled m3 = replicationEnabled m2"
    using sql assms(3) by (auto simp: Exec_Some leaves_table_def split: option.splits)
  have s4: "status (world m4) = status (world m3)" "clusterName m4 = clusterName m3" "replicationEnabled m4 = replicationEnabled m3"
    "executed m4 = executed m3"
    using v2 by (auto simp: same_view_def)
  have "clusterName m4 = clusterName m" using s1 s2 s3 s4 by simp
  then obtain w where w: "m' = m4\<lparr>world := w, executed := executed m'\<rparr>" "status w = (status (world m4))((db, i) \<mapsto> FinishedStatus)"
    using upd s2 s3 s4 by (auto simp: updateMigrationEntry_def Exec_Some dest!: laws(3) split: option.splits)
  show "status (world m') = (status (world m))((db, i) \<mapsto> FinishedStatus)"
    using w s1 s2 s3 s4 by (metis fun_upd_upd mgr.select_convs(6) mgr.surjective mgr.update_convs(6) mgr.update_convs(7))
  show "clusterName m' = clusterName m" "replicationEnabled m' = replicationEnabled m"
    using w(1) s1 s2 s3 s4 by (metis mgr.select_convs mgr.surjective mgr.update_convs)+
  obtain now where e2: "executed m2 = executed m @ [(insert_query db i InProgressStatus now, [])]"
    using ins s1(4) by (auto simp: insertMigrationEntry_def Exec_Some)
  have e3: "executed m3 = executed m2 @ [(sql, [])]" using sql(2) by (auto simp: Exec_Some)
  obtain now' where "executed m' = executed m4 @ [(update_query db (clusterName m), [FinishedStatus, [], now', show_nat i])]"
    using upd \<open>clusterName m4 = clusterName m\<close> by (auto simp: updateMigrationEntry_def Exec_Some)
  with e2 e3 s4(4) sql(1) show "\<exists>xs. executed m' = executed m @ xs \<and>
      sent_for (clusterName m) (replicationEnabled m) (db, i, op) xs"
    by (auto simp: sent_for_def)
qed

lemma RunOperation_finished:
  assumes "migration_table S status K (clusterName m)" and "(db, i) \<in> K"
    and "leaves_table S status (ToSQL (prepare (clusterName m) (replicationEnabled m) op))"
    and "RunOperation S op i db False m = Some (Ok (), m')"
  shows "advances status m m' \<and> status (world m') (db, i) = Some FinishedStatus"
  using RunOperation_effect(1-3) [OF assms] by (simp add: advances_def recorded_def)

definition selected :: "nat list \<Rightarrow> nat \<Rightarrow> bool" where
  "selected versions i \<longleftrightarrow> versions = [] \<or> i \<in> set versions"

lemma shouldRunMigration_table:
  assumes "migration_table S status K c" and "(db, i) \<in> K"
  obtains m1 where "shouldRunMigration S db i versions m = Some (Ok (selected versions i \<and> \<not> recorded status m (db, i)), m1)"
    and "same_view status m m1"
proof (cases "selected versions i")
  case False
  then show ?thesis using that view.R_refl by (auto simp: shouldRunMigration_def selected_def)
next
  case True
  obtain r w where r: "dsStatus S (status_query db i) (world m) = (r, w)" by (cases "dsStatus S (status_query db i) (world m)")
  have "fst (dsStatus S (status_query db i) (world m)) = (case status (world m) (db, i) of None \<Rightarrow> ErrNoRows | Some s \<Rightarrow> Row s)"
    and keep: "reads_keep S status" using assms unfolding migration_table_def by blast+
  with r have "r = (case status (world m) (db, i) of None \<Rightarrow> ErrNoRows | Some s \<Rightarrow> Row s)" by simp
  then have "shouldRunMigration S db i versions m =
      Some (Ok (selected versions i \<and> \<not> recorded status m (db, i)), m\<lparr>world := w\<rparr>)"
    using True r by (auto simp: shouldRunMigration_def selected_def recorded_def split: option.splits)
  moreover have "same_view status m (m\<lparr>world := w\<rparr>)"
    using reads_keepD(2) [OF keep r] by (rule same_view_world)
  ultimately show ?thesis by (rule that)
qed

text \<open>The migrations of a list of databases, and that their statements leave the tables alone.\<close>

definition keys :: "(string \<times> SchemaMigrationRecord list) list \<Rightarrow> (string \<times> nat) set" where
  "keys dbs = {(db, i). \<exists>ms mig. (db, ms) \<in> set dbs \<and> mig \<in> set ms \<and> i = SchemaMigrationRecord.MigrationID mig}"

definition items_leave_table ::
    "'d datastore \<Rightarrow> ('d \<Rightarrow> string \<times> nat \<Rightarrow> string option) \<Rightarrow> string \<Rightarrow> bool
      \<Rightarrow> (SchemaMigrationRecord \<Rightarrow> Operation list) \<Rightarrow> (string \<times> SchemaMigrationRecord list) list \<Rightarrow> bool" where
  "items_leave_table S status c r items dbs \<longleftrightarrow>
     (\<forall>(db, ms) \<in> set dbs. \<forall>mig \<in> set ms. \<forall>op \<in> set (items mig). leaves_table S status (ToSQL (prepare c r op)))"

text \<open>
  A migration needs no more synchronous work when it is not selected, has no synchronous
  operations, or is recorded.
\<close>

definition settled ::
    "('d \<Rightarrow> string \<times> nat \<Rightarrow> string option) \<Rightarrow> (SchemaMigrationRecord \<Rightarrow> Operation list) \<Rightarrow> nat list \<Rightarrow> 'd mgr
      \<Rightarrow> string \<Rightarrow> SchemaMigrationRecord \<Rightarrow> bool" where
  "settled status items versions m db mig \<longleftrightarrow>
     \<not> selected versions (SchemaMigrationRecord.MigrationID mig) \<or> list_all (\<lambda>op. \<not> IsSyncOperation op) (items mig) \<or>
     recorded status m (db, SchemaMigrationRecord.MigrationID mig)"

lemma settled_advances:
  "settled status items versions m db mig \<Longrightarrow> advances status m m' \<Longrightarrow> settled status items versions m' db mig"
  by (auto simp: settled_def advances_def)

text \<open>Running the synchronous operations of a migration records it, unless there are none.\<close>

lemma executeSyncOperations_settles:
  assumes "executeSyncOperations S ops i db m = Some (Ok (), m')"
    and "migration_table S status K (clusterName m)" and "(db, i) \<in> K"
    and "\<forall>op \<in> set ops. leaves_table S status (ToSQL (prepare (clusterName m) (replicationEnabled m) op))"
  shows "advances status m m' \<and> (list_all (\<lambda>op. \<not> IsSyncOperation op) ops \<or> recorded status m' (db, i))"
  using assms
proof (induction ops arbitrary: m)
  case Nil
  then show ?case by (simp add: executeSyncOperations_def io_return_def advance.R_refl)
next
  case (Cons op ops)
  show ?case
  proof (cases "IsSyncOperation op")
    case True
    then obtain m1 where run: "RunOperation S op i db False m = Some (Ok (), m1)"
      "executeSyncOperations S ops i db m1 = Some (Ok (), m')"
      using Cons.prems(1) by (auto simp: executeSyncOperations_def IsSyncOperation_def io_bind_Ok)
    have fin: "advances status m m1" "status (world m1) (db, i) = Some FinishedStatus"
      using RunOperation_finished [OF Cons.prems(2,3) _ run(1)] Cons.prems(4) by auto
    then have c: "clusterName m1 = clusterName m" "replicationEnabled m1 = replicationEnabled m"
      by (auto simp: advances_def)
    have "advances status m1 m'"
      using Cons.IH [OF run(2)] Cons.prems(2-4) c by simp
    moreover from this fin(2) have "recorded status m' (db, i)" by (auto simp: advances_def recorded_def)
    ultimately show ?thesis using fin(1) advance.R_trans by blast
  next
    case False
    then have "executeSyncOperations S ops i db m = Some (Ok (), m')"
      using Cons.prems(1) by (auto simp: executeSyncOperations_def IsSyncOperation_def io_bind_Ok io_return_def)
    from Cons.IH [OF this Cons.prems(2,3)] Cons.prems(4) False show ?thesis by simp
  qed
qed

lemma migrate_db_settles:
  assumes "migrate_db S executeSyncOperations items versions db ms m = Some (Ok (), m')"
    and "migration_table S status K (clusterName m)"
    and "\<forall>mig \<in> set ms. (db, SchemaMigrationRecord.MigrationID mig) \<in> K"
    and "\<forall>mig \<in> set ms. \<forall>op \<in> set (items mig).
      leaves_table S status (ToSQL (prepare (clusterName m) (replicationEnabled m) op))"
  shows "advances status m m' \<and> (\<forall>mig \<in> set ms. settled status items versions m' db mig)"
  using assms
proof (induction ms arbitrary: m)
  case Nil
  then show ?case by (simp add: migrate_db_def io_return_def advance.R_refl)
next
  case (Cons mig ms)
  let ?i = "SchemaMigrationRecord.MigrationID mig"
  have K: "(db, ?i) \<in> K" using Cons.prems(3) by simp
  obtain m1 where m1: "shouldRunMigration S db ?i versions m = Some (Ok (selected versions ?i \<and> \<not> recorded status m (db, ?i)), m1)"
    "same_view status m m1" by (rule shouldRunMigration_table [OF Cons.prems(2) K])
  have v: "advances status m m1" "clusterName m1 = clusterName m" "replicationEnabled m1 = replicationEnabled m"
    using m1(2) by (auto simp: same_view_advances same_view_def)
  obtain m2 where m2: "(if \<not> (selected versions ?i \<and> \<not> recorded status m (db, ?i)) then io_return ()
      else executeSyncOperations S (items mig) ?i db) m1 = Some (Ok (), m2)"
    and rest: "migrate_db S executeSyncOperations items versions db ms m2 = Some (Ok (), m')"
    using Cons.prems(1) m1(1) by (auto simp: migrate_db_def io_bind_Ok)
  have step: "advances status m1 m2 \<and> settled status items versions m2 db mig"
  proof (cases "selected versions ?i \<and> \<not> recorded status m (db, ?i)")
    case True
    with m2 have "executeSyncOperations S (items mig) ?i db m1 = Some (Ok (), m2)" by simp
    from executeSyncOperations_settles [OF this _ K] Cons.prems(2,4) v True show ?thesis by (auto simp: settled_def)
  next
    case False
    then have "m2 = m1" using m2 by (simp add: io_return_def)
    with False v(1) show ?thesis by (auto simp: settled_def advances_def)
  qed
  then have c: "clusterName m2 = clusterName m" "replicationEnabled m2 = replicationEnabled m"
    using v by (auto simp: advances_def)
  have "advances status m2 m' \<and> (\<forall>mig \<in> set ms. settled status items versions m' db mig)"
    using Cons.IH [OF rest] Cons.prems(2-4) c by simp
  with step v(1) show ?case by (auto intro: advance.R_trans settled_advances)
qed

lemma migrate_dbs_settles:
  assumes "migrate_dbs S executeSyncOperations items versions dbs m = Some (Ok (), m')"
    and "migration_table S status K (clusterName m)" and "keys dbs \<subseteq> K"
    and "items_leave_table S status (clusterName m) (replicationEnabled m) items dbs"
  shows "advances status m m' \<and> (\<forall>(db, ms) \<in> set dbs. \<forall>mig \<in> set ms. settled status items versions m' db mig)"
  using assms
proof (induction dbs arbitrary: m)
  case Nil
  then show ?case by (simp add: migrate_dbs_def io_return_def advance.R_refl)
next
  case (Cons p dbs)
  obtain db ms where p: "p = (db, ms)" by (cases p)
  obtain m1 where m1: "migrate_db S executeSyncOperations items versions db ms m = Some (Ok (), m1)"
    and rest: "migrate_dbs S executeSyncOperations items versions dbs m1 = Some (Ok (), m')"
    using Cons.prems(1) p by (auto simp: migrate_dbs_def io_bind_Ok)
  have K: "\<forall>mig \<in> set ms. (db, SchemaMigrationRecord.MigrationID mig) \<in> K" "keys dbs \<subseteq> K"
    using Cons.prems(3) p by (auto simp: keys_def)
  have L: "\<forall>mig \<in> set ms. \<forall>op \<in> set (items mig).
      leaves_table S status (ToSQL (prepare (clusterName m) (replicationEnabled m) op))"
    "items_leave_table S status (clusterName m) (replicationEnabled m) items dbs"
    using Cons.prems(4) p by (auto simp: items_leave_table_def)
  have s1: "advances status m m1" "\<forall>mig \<in> set ms. settled status items versions m1 db mig"
    using migrate_db_settles [OF m1 Cons.prems(2) K(1) L(1)] by auto
  then have c: "clusterName m1 = clusterName m" "replicationEnabled m1 = replicationEnabled m" by (auto simp: advances_def)
  have "advances status m1 m' \<and> (\<forall>(db, ms) \<in> set dbs. \<forall>mig \<in> set ms. settled status items versions m' db mig)"
    using Cons.IH [OF rest] Cons.prems(2) K(2) L(2) c by simp
  with s1 p show ?case by (auto intro: advance.R_trans settled_advances)
qed

text \<open>A list with nothing left to do: every call returns and nothing is sent.\<close>

lemma executeSyncOperations_idle:
  "list_all (\<lambda>op. \<not> IsSyncOperation op) ops \<Longrightarrow> executeSyncOperations S ops i db m = Some (Ok (), m)"
  by (induction ops) (auto simp: executeSyncOperations_def IsSyncOperation_def io_return_def io_bind_def)

lemma executeAsyncOperations_idle:
  "list_all (\<lambda>op. IsSyncOperation op \<or> \<not> IsIdempotent op) ops \<Longrightarrow> executeAsyncOperations S ops i db m = Some (Ok (), m)"
  by (induction ops) (auto simp: executeAsyncOperations_def IsSyncOperation_def io_return_def io_bind_def)

lemma migrate_db_idle:
  assumes "migration_table S status K c"
    and "\<forall>mig \<in> set ms. (db, SchemaMigrationRecord.MigrationID mig) \<in> K"
    and "\<forall>mig \<in> set ms. \<forall>m'. same_view status m m' \<longrightarrow>
      \<not> selected versions (SchemaMigrationRecord.MigrationID mig) \<or> recorded status m (db, SchemaMigrationRecord.MigrationID mig) \<or>
      exec S (items mig) (SchemaMigrationRecord.MigrationID mig) db m' = Some (Ok (), m')"
  shows "\<exists>m'. migrate_db S exec items versions db ms m = Some (Ok (), m') \<and> same_view status m m'"
  using assms(2,3)
proof (induction ms arbitrary: m)
  case Nil
  then show ?case by (simp add: migrate_db_def io_return_def view.R_refl)
next
  case (Cons mig ms)
  let ?i = "SchemaMigrationRecord.MigrationID mig"
  have K: "(db, ?i) \<in> K" using Cons.prems(1) by simp
  obtain m1 where m1: "shouldRunMigration S db ?i versions m = Some (Ok (selected versions ?i \<and> \<not> recorded status m (db, ?i)), m1)"
    "same_view status m m1" by (rule shouldRunMigration_table [OF assms(1) K])
  have "(if \<not> (selected versions ?i \<and> \<not> recorded status m (db, ?i)) then io_return () else exec S (items mig) ?i db) m1 = Some (Ok (), m1)"
    using Cons.prems(2) m1(2) by (auto simp: io_return_def)
  moreover have rec: "recorded status m1 k \<longleftrightarrow> recorded status m k" for k
    using m1(2) by (simp add: recorded_def same_view_def)
  have "\<exists>m'. migrate_db S exec items versions db ms m1 = Some (Ok (), m') \<and> same_view status m1 m'"
    using Cons.prems m1(2) view.R_trans [OF m1(2)] by (intro Cons.IH) (auto simp: rec)
  ultimately show ?case using m1 view.R_trans
    by (auto simp: migrate_db_def io_bind_def)
qed

lemma migrate_dbs_idle:
  assumes "migration_table S status K c" and "keys dbs \<subseteq> K"
    and "\<forall>(db, ms) \<in> set dbs. \<forall>mig \<in> set ms. \<forall>m'. same_view status m m' \<longrightarrow>
      \<not> selected versions (SchemaMigrationRecord.MigrationID mig) \<or> recorded status m (db, SchemaMigrationRecord.MigrationID mig) \<or>
      exec S (items mig) (SchemaMigrationRecord.MigrationID mig) db m' = Some (Ok (), m')"
  shows "\<exists>m'. migrate_dbs S exec items versions dbs m = Some (Ok (), m') \<and> same_view status m m'"
  using assms(2,3)
proof (induction dbs arbitrary: m)
  case Nil
  then show ?case by (simp add: migrate_dbs_def io_return_def view.R_refl)
next
  case (Cons p dbs)
  obtain db ms where p: "p = (db, ms)" by (cases p)
  have K: "\<forall>mig \<in> set ms. (db, SchemaMigrationRecord.MigrationID mig) \<in> K" "keys dbs \<subseteq> K"
    using Cons.prems(1) p by (auto simp: keys_def)
  obtain m1 where m1: "migrate_db S exec items versions db ms m = Some (Ok (), m1)" "same_view status m m1"
    using migrate_db_idle [OF assms(1) K(1), of m versions exec items] Cons.prems(2) p by auto
  have rec: "recorded status m1 k \<longleftrightarrow> recorded status m k" for k
    using m1(2) by (simp add: recorded_def same_view_def)
  have "\<exists>m'. migrate_dbs S exec items versions dbs m1 = Some (Ok (), m') \<and> same_view status m1 m'"
  proof (rule Cons.IH [OF K(2)], clarify)
    fix db' ms' mig m'
    assume "(db', ms') \<in> set dbs" "mig \<in> set ms'" "same_view status m1 m'"
      "exec S (items mig) (SchemaMigrationRecord.MigrationID mig) db' m' \<noteq> Some (Ok (), m')"
      "\<not> recorded status m1 (db', SchemaMigrationRecord.MigrationID mig)"
      "selected versions (SchemaMigrationRecord.MigrationID mig)"
    moreover from this have "same_view status m m'" using view.R_trans m1(2) by blast
    ultimately show False using Cons.prems(2) rec by fastforce
  qed
  with m1 show ?case using view.R_trans by (auto simp: p migrate_dbs_def io_bind_def)
qed

section \<open>A concrete datastore\<close>

text \<open>
  One table with one migration, on a server that is never busy: the world is the status of
  migration 2 of the traces and whether the next statement fails.
\<close>

definition example_insert :: string where
  "example_insert = ''INSERT INTO o11y_traces.distributed_schema_migrations_v2 (migration_id, status, created_at) VALUES (2''"

fun example_exec :: "string \<Rightarrow> string list \<Rightarrow> string option \<times> bool \<Rightarrow> error option \<times> string option \<times> bool" where
  "example_exec q args (st, broken) =
     (if take (length example_insert) q = example_insert then (None, Some InProgressStatus, broken)
      else if args \<noteq> [] then (None, map_option (\<lambda>_. hd args) st, broken)
      else if broken then (Some ''syntax error'', st, broken) else (None, st, broken))"

definition example_store :: "(string option \<times> bool) datastore" where
  "example_store = \<lparr>dsExec = example_exec, dsCount = (\<lambda>h q args w. (Inr 0, w)),
     dsStatus = (\<lambda>q w. (case fst w of None \<Rightarrow> ErrNoRows | Some s \<Rightarrow> Row s, w)),
     dsMutations = (\<lambda>h q w. (Inr [], w)), dsDDLQueue = (\<lambda>q w. (Inr [], w)), dsHosts = (\<lambda>h q args w. (Inr [], w)),
     dsOpen = (\<lambda>h w. (None, w)), parseAddr = (\<lambda>s. Inr s), addrPort = (\<lambda>s p. s), rangeOrder = (\<lambda>xs. xs),
     backoffReset = (\<lambda>w. w), backoffStops = (\<lambda>w. (False, w)), backoffSleep = (\<lambda>w. w), newTimer = (\<lambda>w. w),
     waitEvent = (\<lambda>w. (TimerFired, w)), nowUTC = (\<lambda>w. ''now'')\<rparr>"

definition example_status :: "string option \<times> bool \<Rightarrow> string \<times> nat \<Rightarrow> string option" where
  "example_status w k = (if k = (O11yTracesDB, 2) then fst w else None)"

definition example_mgr :: "string option \<Rightarrow> bool \<Rightarrow> (string option \<times> bool) mgr" where
  "example_mgr st broken = \<lparr>addrs = [], conns = [], clusterName = ''c'', replicationEnabled = False, development = False,
     world = (st, broken), executed = []\<rparr>"

definition example_op :: Operation where
  "example_op = OpDropTTL \<lparr>cluster = [], Database = ''o11y_traces'', Table = ''t''\<rparr>"

lemma show_nat_2 [simp]: "show_nat 2 = ''2''"
  by code_simp

lemma example_waits [simp]:
  "WaitForRunningMutations example_store m = Some (Ok (), m\<lparr>addrs := addrs m\<rparr>)"
  if "addrs m = []"
  using that by (simp add: WaitForRunningMutations_def HostAddrs_def io_bind_def example_store_def wrapping_def io_catch_def
      io_call_def io_result_def io_return_def)

lemma example_ddl [simp]: "WaitDistributedDDLQueue example_store m = Some (Ok (), m)"
  by (simp add: WaitDistributedDDLQueue_def example_store_def getDistributedDDLQueue_def ddl_loop.simps
      eval_nat_numeral)

lemma example_insertion:
  "dsExec example_store (insert_query O11yTracesDB 2 InProgressStatus now) [] w = (None, Some InProgressStatus, snd w)"
  by (cases w) (simp add: example_store_def example_insert_def insert_query_def O11yTracesDB_def)

lemma example_update:
  "dsExec example_store (update_query O11yTracesDB c) (x # xs) w = (None, map_option (\<lambda>_. x) (fst w), snd w)"
  by (cases w) (simp add: example_store_def example_insert_def update_query_def O11yTracesDB_def)

lemma example_statement:
  "ToSQL (prepare ''c'' False example_op) = Some ''ALTER TABLE o11y_traces.t ON CLUSTER c REMOVE TTL''"
  "dsExec example_store ''ALTER TABLE o11y_traces.t ON CLUSTER c REMOVE TTL'' [] (st, broken) =
     (if broken then Some ''syntax error'' else None, st, broken)"
  by (simp_all add: prepare_def example_op_def AlterTableDropTTL_methods_def alter_table_def table_name_def
      on_cluster_def part_def example_store_def example_insert_def del: prepare_DropTTL)

lemma example_traits:
  "ShouldWaitForDistributionQueue (prepare c r example_op) = (False, ''o11y_traces'', ''t'')"
  "IsSyncOperation example_op"
  by (simp_all add: prepare_def Let_def example_op_def AlterTableDropTTL_methods_def IsSyncOperation_def del: prepare_DropTTL)

lemma example_operation:
  "RunOperation example_store example_op 2 O11yTracesDB False (example_mgr st broken) =
     Some (if broken then Fail ''syntax error'' else Ok (),
       (example_mgr (Some (if broken then FailedStatus else FinishedStatus)) broken)\<lparr>executed :=
         [(insert_query O11yTracesDB 2 InProgressStatus ''now'', []),
          (''ALTER TABLE o11y_traces.t ON CLUSTER c REMOVE TTL'', []),
          (update_query O11yTracesDB ''c'',
             [if broken then FailedStatus else FinishedStatus, if broken then ''syntax error'' else [], ''now'', ''2''])]\<rparr>)"
proof -
  have now: "nowUTC example_store w = ''now''" for w by (simp add: example_store_def)
  show ?thesis
    by (simp add: RunOperation_def Let_def io_bind_def recording_def io_catch_def record_failure_def io_fail_def
        wait_queue_def io_return_def insertMigrationEntry_def updateMigrationEntry_def run_statement_def Exec_def
        example_insertion example_update example_statement example_traits now example_mgr_def)
qed

lemma example_table: "migration_table example_store example_status {(O11yTracesDB, 2)} c"
proof -
  have "reads_keep example_store example_status"
    by (simp add: reads_keep_def example_store_def)
  moreover have "example_status w' = (example_status w)((O11yTracesDB, 2) \<mapsto> InProgressStatus)"
    if "dsExec example_store (insert_query O11yTracesDB 2 InProgressStatus now) [] w = (None, w')" for now w w'
    using that by (auto simp: example_insertion example_status_def fun_eq_iff)
  moreover have "example_status w' = (if example_status w (O11yTracesDB, 2) = None then example_status w
      else (example_status w)((O11yTracesDB, 2) \<mapsto> st))"
    if "dsExec example_store (update_query O11yTracesDB c) [st, err, now, show_nat 2] w = (None, w')" for st err now w w'
    using that by (auto simp: example_update example_status_def fun_eq_iff)
  moreover have "fst (dsStatus example_store q w) = (case example_status w (O11yTracesDB, 2) of None \<Rightarrow> ErrNoRows | Some s \<Rightarrow> Row s)"
    for q w by (simp add: example_store_def example_status_def)
  ultimately show ?thesis unfolding migration_table_def by blast
qed

definition example_catalog :: "Operation list \<Rightarrow> catalog" where
  "example_catalog ops = \<lparr>TracesMigrations = [\<lparr>MigrationID = 2, UpItems = ops, DownItems = []\<rparr>], LogsMigrations = [],
     LogsMigrationsV2 = [], MetricsMigrations = [], MetadataMigrations = [], AnalyticsMigrations = [], MeterMigrations = [],
     EnableLogsMigrationsV2 = False\<rparr>"

section \<open>Properties of the manager\<close>



text \<open>
  C21. A failed operation leaves a record: when \<open>RunOperation\<close> returns an error it has sent at least
  one statement, and the last one either records the status \<open>failed\<close>, or is itself the insertion of
  the entry or the update to \<open>finished\<close> that failed.
\<close>

theorem run_operation_failure_recorded:
  assumes "RunOperation S op i db False m = Some (Fail e, m')"
  shows "\<exists>sent q args. executed m' = executed m @ sent @ [(q, args)] \<and>
    ((\<exists>db' err now. q = update_query db' (clusterName m) \<and> args = [FailedStatus, err, now, show_nat i]) \<or>
     (\<exists>now. q = insert_query db i InProgressStatus now \<and> args = []) \<or>
     (\<exists>now. q = update_query db (clusterName m) \<and> args = [FinishedStatus, [], now, show_nat i]))"
proof -
  define Q where "Q q args \<longleftrightarrow>
    (\<exists>db' err now. q = update_query db' (clusterName m) \<and> args = [FailedStatus, err, now, show_nat i]) \<or>
    (\<exists>now. q = insert_query db i InProgressStatus now \<and> args = []) \<or>
    (\<exists>now. q = update_query db (clusterName m) \<and> args = [FinishedStatus, [], now, show_nat i])" for q args
  have rec: "traced m (last_sent m Q) (recording S db' i x)" if "always grows x" for db' x
    using that by (rule traced_recording) (auto simp: Q_def)
  have insert: "traced m (last_sent m Q) (insertMigrationEntry S db i InProgressStatus)"
    and update: "traced m (last_sent m Q) (updateMigrationEntry S db i FinishedStatus [])"
    unfolding traced_def last_sent_def Q_def
    by (fastforce simp: insertMigrationEntry_def updateMigrationEntry_def Exec_Some grows_def split: option.splits)+
  let ?op = "prepare (clusterName m) (replicationEnabled m) op"
  have "traced m (last_sent m Q)
    (io_bind (recording S db i (WaitForRunningMutations S)) (\<lambda>_.
     io_bind (recording S db i (WaitDistributedDDLQueue S)) (\<lambda>_.
     io_bind (recording S (fst (snd (ShouldWaitForDistributionQueue ?op))) i (wait_queue S ?op)) (\<lambda>_.
     io_bind (insertMigrationEntry S db i InProgressStatus) (\<lambda>_.
     io_bind (recording S db i (run_statement S ?op)) (\<lambda>_.
     io_bind (recording S db i (WaitForRunningMutations S)) (\<lambda>_.
     io_bind (recording S db i (WaitDistributedDDLQueue S)) (\<lambda>_.
     updateMigrationEntry S db i FinishedStatus []))))))))"
    by (intro traced_bind rec always_grows_waits always_grows_statement insert update)
  then have "last_sent m Q m'"
    using assms growth.R_refl [of m] unfolding traced_def RunOperation_def Let_def by fastforce
  then show ?thesis by (simp add: last_sent_def Q_def)
qed

theorem run_operation_failure_recorded_witness:
  "\<exists>m'. RunOperation example_store example_op 2 O11yTracesDB False (example_mgr None True) = Some (Fail ''syntax error'', m') \<and>
    (\<exists>sent q args. executed m' = sent @ [(q, args)] \<and>
      ((\<exists>db' err now. q = update_query db' ''c'' \<and> args = [FailedStatus, err, now, show_nat 2]) \<or>
       (\<exists>now. q = insert_query O11yTracesDB 2 InProgressStatus now \<and> args = []) \<or>
       (\<exists>now. q = update_query O11yTracesDB ''c'' \<and> args = [FinishedStatus, [], now, show_nat 2])))"
proof -
  obtain m' where m': "RunOperation example_store example_op 2 O11yTracesDB False (example_mgr None True) = Some (Fail ''syntax error'', m')"
    using example_operation [of None True] by simp
  have "executed (example_mgr None True) = []" "clusterName (example_mgr None True) = ''c''" by (simp_all add: example_mgr_def)
  with run_operation_failure_recorded [OF m'] m' show ?thesis by auto
qed

text \<open>The databases \<open>MigrateUpSync\<close> goes through.\<close>

definition sync_dbs :: "catalog \<Rightarrow> (string \<times> SchemaMigrationRecord list) list" where
  "sync_dbs C = [(O11yTracesDB, TracesMigrations C), (O11yLogsDB, logsMigrations C), (O11yMetricsDB, MetricsMigrations C),
     (O11yMetadataDB, MetadataMigrations C), (O11yAnalyticsDB, AnalyticsMigrations C), (O11yMeterDB, MeterMigrations C)]"


lemma example_sync:
  "MigrateUpSync example_store (example_catalog [example_op]) [] (example_mgr None False) =
     Some (Ok (), (example_mgr (Some FinishedStatus) False)\<lparr>executed :=
         [(insert_query O11yTracesDB 2 InProgressStatus ''now'', []),
          (''ALTER TABLE o11y_traces.t ON CLUSTER c REMOVE TTL'', []),
          (update_query O11yTracesDB ''c'', [FinishedStatus, [], ''now'', ''2''])]\<rparr>)"
proof -
  have should: "shouldRunMigration example_store O11yTracesDB 2 [] (example_mgr None False) = Some (Ok True, example_mgr None False)"
    by (simp add: shouldRunMigration_def example_store_def example_mgr_def)
  have item: "ForceMigrate example_op \<or> \<not> IsMutation example_op \<and> IsIdempotent example_op \<and> IsLightweight example_op"
    using example_traits(2) by (simp add: IsSyncOperation_def)
  show ?thesis
    using example_operation [of None False]
    by (simp add: MigrateUpSync_def migrate_dbs_def migrate_db_def example_catalog_def logsMigrations_def io_bind_def
        io_return_def should executeSyncOperations_def item)
qed

lemma example_leaves:
  "items_leave_table example_store example_status ''c'' False UpItems (sync_dbs (example_catalog [example_op]))"
  by (auto simp: items_leave_table_def sync_dbs_def example_catalog_def logsMigrations_def leaves_table_def
      example_statement(1), auto simp: example_statement(2) split: if_splits)

lemma example_keys: "keys (sync_dbs (example_catalog ops)) = {(O11yTracesDB, 2)}"
  by (auto simp: keys_def sync_dbs_def example_catalog_def logsMigrations_def)


text \<open>
  The synchronous run hides the asynchronous operations: after \<open>MigrateUpSync\<close> has returned
  without error, \<open>MigrateUpAsync\<close> with the same versions sends nothing if every migration of the
  traces, metrics and logs has a synchronous operation, however many asynchronous operations these
  migrations have besides.
\<close>

theorem async_run_skips_recorded:
  assumes "MigrateUpSync S C versions m = Some (Ok (), m1)"
    and "migration_table S status (keys (sync_dbs C)) (clusterName m)"
    and "items_leave_table S status (clusterName m) (replicationEnabled m) UpItems (sync_dbs C)"
    and "list_all IsSync (TracesMigrations C @ MetricsMigrations C @ logsMigrations C)"
  shows "\<exists>m2. MigrateUpAsync S C versions m1 = Some (Ok (), m2) \<and> executed m2 = executed m1"
proof -
  let ?async = "[(O11yTracesDB, TracesMigrations C), (O11yMetricsDB, MetricsMigrations C), (O11yLogsDB, logsMigrations C)]"
  have run: "migrate_dbs S executeSyncOperations UpItems versions (sync_dbs C) m = Some (Ok (), m1)"
    using assms(1) by (simp add: MigrateUpSync_def sync_dbs_def)
  have sub: "set ?async \<subseteq> set (sync_dbs C)" by (simp add: sync_dbs_def)
  have settled: "settled status UpItems versions m1 db mig" if "(db, ms) \<in> set ?async" "mig \<in> set ms" for db ms mig
    using migrate_dbs_settles [OF run assms(2) order_refl assms(3)] that sub by blast
  have sync: "list_ex IsSyncOperation (UpItems mig)" if "(db, ms) \<in> set ?async" "mig \<in> set ms" for db ms mig
    using that assms(4) by (auto simp: IsSync_def list_all_iff)
  have skipped: "\<not> selected versions (SchemaMigrationRecord.MigrationID mig) \<or>
      recorded status m1 (db, SchemaMigrationRecord.MigrationID mig)" if "(db, ms) \<in> set ?async" "mig \<in> set ms" for db ms mig
    using settled [OF that] sync [OF that] by (auto simp: settled_def list_all_iff list_ex_iff)
  have K: "keys ?async \<subseteq> keys (sync_dbs C)" using sub unfolding keys_def by blast
  have "\<exists>m2. migrate_dbs S executeAsyncOperations UpItems versions ?async m1 = Some (Ok (), m2) \<and> same_view status m1 m2"
    using skipped by (intro migrate_dbs_idle [OF assms(2) K]) blast
  then show ?thesis by (auto simp: MigrateUpAsync_def same_view_def)
qed

theorem async_run_skips_recorded_witness:
  "\<exists>m1 m2. MigrateUpSync example_store (example_catalog [example_op]) [] (example_mgr None False) = Some (Ok (), m1) \<and>
     MigrateUpAsync example_store (example_catalog [example_op]) [] m1 = Some (Ok (), m2) \<and> executed m2 = executed m1"
proof -
  have cfg: "clusterName (example_mgr None False) = ''c''" "replicationEnabled (example_mgr None False) = False"
    by (simp_all add: example_mgr_def)
  have "list_all IsSync (TracesMigrations (example_catalog [example_op]) @ MetricsMigrations (example_catalog [example_op])
      @ logsMigrations (example_catalog [example_op]))"
    by (simp add: example_catalog_def logsMigrations_def IsSync_def example_traits)
  from async_run_skips_recorded [OF example_sync, unfolded example_keys, OF example_table, unfolded cfg, OF example_leaves this]
  show ?thesis using example_sync by blast
qed

text \<open>
  A migration that went up does not come down: after \<open>MigrateUpSync\<close> has returned without error,
  \<open>MigrateDownSync\<close> with the same versions sends nothing if every migration it goes through has a
  synchronous operation, because a finished migration is skipped in both directions.
\<close>

theorem down_run_skips_recorded:
  assumes "MigrateUpSync S C versions m = Some (Ok (), m1)"
    and "migration_table S status (keys (sync_dbs C)) (clusterName m)"
    and "items_leave_table S status (clusterName m) (replicationEnabled m) UpItems (sync_dbs C)"
    and "list_all IsSync (concat (map snd (sync_dbs C)))"
  shows "\<exists>m2. MigrateDownSync S C versions m1 = Some (Ok (), m2) \<and> executed m2 = executed m1"
proof -
  let ?down = "[(O11yTracesDB, TracesMigrations C), (O11yLogsDB, logsMigrations C), (O11yMetricsDB, MetricsMigrations C),
      (O11yAnalyticsDB, AnalyticsMigrations C), (O11yMeterDB, MeterMigrations C)]"
  have run: "migrate_dbs S executeSyncOperations UpItems versions (sync_dbs C) m = Some (Ok (), m1)"
    using assms(1) by (simp add: MigrateUpSync_def sync_dbs_def)
  have sub: "set ?down \<subseteq> set (sync_dbs C)" by (simp add: sync_dbs_def)
  have settled: "settled status UpItems versions m1 db mig" if "(db, ms) \<in> set ?down" "mig \<in> set ms" for db ms mig
    using migrate_dbs_settles [OF run assms(2) order_refl assms(3)] that sub by blast
  have sync: "list_ex IsSyncOperation (UpItems mig)" if "(db, ms) \<in> set ?down" "mig \<in> set ms" for db ms mig
    using that assms(4) by (auto simp: IsSync_def list_all_iff sync_dbs_def)
  have skipped: "\<not> selected versions (SchemaMigrationRecord.MigrationID mig) \<or>
      recorded status m1 (db, SchemaMigrationRecord.MigrationID mig)" if "(db, ms) \<in> set ?down" "mig \<in> set ms" for db ms mig
    using settled [OF that] sync [OF that] by (auto simp: settled_def list_all_iff list_ex_iff)
  have K: "keys ?down \<subseteq> keys (sync_dbs C)" using sub unfolding keys_def by blast
  have "\<exists>m2. migrate_dbs S executeSyncOperations DownItems versions ?down m1 = Some (Ok (), m2) \<and> same_view status m1 m2"
    using skipped by (intro migrate_dbs_idle [OF assms(2) K]) blast
  then show ?thesis by (auto simp: MigrateDownSync_def same_view_def)
qed

theorem down_run_skips_recorded_witness:
  "\<exists>m1 m2. MigrateUpSync example_store (example_catalog [example_op]) [] (example_mgr None False) = Some (Ok (), m1) \<and>
     MigrateDownSync example_store (example_catalog [example_op]) [] m1 = Some (Ok (), m2) \<and> executed m2 = executed m1"
proof -
  have cfg: "clusterName (example_mgr None False) = ''c''" "replicationEnabled (example_mgr None False) = False"
    by (simp_all add: example_mgr_def)
  have "list_all IsSync (concat (map snd (sync_dbs (example_catalog [example_op]))))"
    by (simp add: sync_dbs_def example_catalog_def logsMigrations_def IsSync_def example_traits)
  from down_run_skips_recorded [OF example_sync, unfolded example_keys, OF example_table, unfolded cfg, OF example_leaves this]
  show ?thesis using example_sync by blast
qed

text \<open>
  Some operations run in neither mode: an operation that is neither forced nor idempotent, such as
  the removal of a column property or an insert that is not synchronous, is classified as
  asynchronous, but neither the synchronous nor the asynchronous execution of a list runs it.
\<close>

theorem non_idempotent_never_runs:
  assumes "\<not> ForceMigrate op" and "\<not> IsIdempotent op"
  shows "IsAsyncOperation op \<and>
    executeSyncOperations S (xs @ op # ys) i db = executeSyncOperations S (xs @ ys) i db \<and>
    executeAsyncOperations S (xs @ op # ys) i db = executeAsyncOperations S (xs @ ys) i db"
proof -
  have skip: "io_bind (io_return ()) (\<lambda>_. x) = x" for x :: "('a, unit) io"
    by (simp add: fun_eq_iff io_bind_def io_return_def)
  have each: "f op = io_return () \<Longrightarrow> io_each f (xs @ op # ys) = io_each f (xs @ ys)" for f :: "Operation \<Rightarrow> ('a, unit) io"
    by (induction xs) (simp_all add: skip)
  show ?thesis using assms
    by (simp add: IsAsyncOperation_def executeSyncOperations_def executeAsyncOperations_def each)
qed

theorem non_idempotent_never_runs_witness:
  "IsAsyncOperation (OpInsertIntoTable \<lparr>cluster = [], Database = ''d'', Table = ''t'', InsertColumns = [], LightWeight = True,
      Synchronous = False, InsertValues = ''(1)''\<rparr>) \<and>
   executeSyncOperations example_store ([] @ OpInsertIntoTable \<lparr>cluster = [], Database = ''d'', Table = ''t'', InsertColumns = [],
      LightWeight = True, Synchronous = False, InsertValues = ''(1)''\<rparr> # [example_op]) 2 ''d'' =
     executeSyncOperations example_store ([] @ [example_op]) 2 ''d'' \<and>
   executeAsyncOperations example_store ([] @ OpInsertIntoTable \<lparr>cluster = [], Database = ''d'', Table = ''t'', InsertColumns = [],
      LightWeight = True, Synchronous = False, InsertValues = ''(1)''\<rparr> # [example_op]) 2 ''d'' =
     executeAsyncOperations example_store ([] @ [example_op]) 2 ''d''"
  by (rule non_idempotent_never_runs) (simp_all add: InsertIntoTable_methods_def)

end
