(* ===== verification/ManagerTermination.thy ===== *)
theory ManagerTermination
  imports MigrationManager
begin

text \<open>
  The migration manager returns. Its loops poll the database: the model leaves them partial (no
  result is the value \<open>None\<close>), and this theory shows that they end when the backoff stops after
  finitely many tries and the timer fires after finitely many rounds, and with them every mode of
  the manager, the squashed migrations and the bootstrap. It also states what the bounded retry of
  the reading of the DDL queue does when it is exhausted.
\<close>

section \<open>Effects that return\<close>

definition returns :: "('d, 'a) io \<Rightarrow> bool" where
  "returns x \<longleftrightarrow> (\<forall>m. x m \<noteq> None)"

lemma returnsD: "returns x \<Longrightarrow> \<exists>r m'. x m = Some (r, m')"
  unfolding returns_def by (metis option.exhaust surj_pair)

lemma returns_return: "returns (io_return a)"
  by (simp add: returns_def io_return_def)

lemma returns_fail: "returns (io_fail e)"
  by (simp add: returns_def io_fail_def)

lemma returns_result: "returns (io_result r)"
  by (simp add: returns_def io_result_def)

lemma returns_call: "returns (io_call f)"
  by (simp add: returns_def io_call_def split: prod.splits)

lemma returns_Exec: "returns (Exec S q args)"
  by (simp add: returns_def Exec_def split: prod.splits)

lemma returns_bind:
  assumes "returns x" and "\<And>a. returns (f a)"
  shows "returns (io_bind x f)"
  unfolding returns_def
proof
  fix m
  obtain r m' where "x m = Some (r, m')" using returnsD [OF assms(1)] by blast
  then show "io_bind x f m \<noteq> None"
    using assms(2) by (cases r) (auto simp: io_bind_def returns_def)
qed

lemma returns_catch:
  assumes "returns x" and "\<And>e. returns (h e)"
  shows "returns (io_catch x h)"
  unfolding returns_def
proof
  fix m
  obtain r m' where "x m = Some (r, m')" using returnsD [OF assms(1)] by blast
  then show "io_catch x h m \<noteq> None"
    using assms(2) by (cases r) (auto simp: io_catch_def returns_def)
qed

lemma returns_bind_at: "returns (io_bind x f) \<Longrightarrow> io_bind x f m \<noteq> None"
  by (simp add: returns_def)

lemma returns_wrapping: "returns x \<Longrightarrow> returns (wrapping kind x)"
  unfolding wrapping_def by (intro returns_catch returns_fail)

lemma returns_each: "(\<And>a. a \<in> set xs \<Longrightarrow> returns (f a)) \<Longrightarrow> returns (io_each f xs)"
  by (induction xs) (auto intro: returns_return returns_bind)

lemma returns_from: "returns x \<Longrightarrow> returns (\<lambda>m. x (g m))"
  by (simp add: returns_def)

lemma returns_at: "(\<And>m. returns (x m)) \<Longrightarrow> returns (\<lambda>m. x m m)"
  by (simp add: returns_def)

lemmas returns_rules = returns_return returns_fail returns_result returns_call returns_Exec returns_bind
  returns_catch returns_wrapping returns_each

section \<open>The loops\<close>

text \<open>
  What the loops rely on: \<open>tries\<close> bounds how often the backoff goes on before it stops for good,
  reading the mutations or the queue and sleeping do not raise it; \<open>polls\<close> bounds how many rounds
  the timer lets pass before it fires. Resetting the backoff or making a timer may raise them to
  any number.
\<close>

definition time_passes :: "'d datastore \<Rightarrow> ('d \<Rightarrow> nat) \<Rightarrow> ('d \<Rightarrow> nat) \<Rightarrow> bool" where
  "time_passes S tries polls \<longleftrightarrow>
     (\<forall>w w'. backoffStops S w = (False, w') \<longrightarrow> tries w' < tries w) \<and>
     (\<forall>h q w. tries (snd (dsMutations S h q w)) \<le> tries w) \<and>
     (\<forall>q w. tries (snd (dsDDLQueue S q w)) \<le> tries w) \<and>
     (\<forall>w. tries (backoffSleep S w) \<le> tries w) \<and>
     (\<forall>w w'. waitEvent S w = (Polling, w') \<longrightarrow> polls w' < polls w) \<and>
     (\<forall>h q args w. polls (snd (dsCount S h q args w)) \<le> polls w)"

lemma time_passesD:
  assumes "time_passes S tries polls"
  shows "backoffStops S w = (False, w1) \<Longrightarrow> tries w1 < tries w"
    and "dsMutations S h q w = (a, w2) \<Longrightarrow> tries w2 \<le> tries w"
    and "dsDDLQueue S q w = (b, w3) \<Longrightarrow> tries w3 \<le> tries w"
    and "tries (backoffSleep S w) \<le> tries w"
    and "waitEvent S w = (Polling, w4) \<Longrightarrow> polls w4 < polls w"
    and "dsCount S h' q args w = (c, w5) \<Longrightarrow> polls w5 \<le> polls w"
  using assms unfolding time_passes_def by (metis snd_conv)+

lemma mutations_loop_returns:
  assumes "time_passes S tries polls"
  shows "mutations_loop S h m \<noteq> None"
proof (induction "tries (world m)" arbitrary: m rule: less_induct)
  case less
  obtain stop w where stop: "backoffStops S (world m) = (stop, w)" by (cases "backoffStops S (world m)")
  obtain r w' where r: "dsMutations S h mutations_query w = (r, w')" by (cases "dsMutations S h mutations_query w")
  have "mutations_loop S h (m\<lparr>world := backoffSleep S w'\<rparr>) \<noteq> None" if "\<not> stop"
  proof (rule less)
    have "tries w < tries (world m)" using time_passesD(1) [OF assms] stop that by simp
    moreover have "tries (backoffSleep S w') \<le> tries w"
      using time_passesD(2) [OF assms r] time_passesD(4) [OF assms, of w'] by simp
    ultimately show "tries (world (m\<lparr>world := backoffSleep S w'\<rparr>)) < tries (world m)" by simp
  qed
  then show ?case using stop r by (subst mutations_loop.simps) (auto split: sum.splits)
qed

lemma ddl_attempts_tries:
  assumes "time_passes S tries polls"
  shows "tries (snd (ddl_attempts n S w)) \<le> tries w"
proof (induction n arbitrary: w)
  case (Suc n)
  obtain r w' where r: "dsDDLQueue S ddl_query w = (r, w')" by (cases "dsDDLQueue S ddl_query w")
  have "tries w' \<le> tries w" using time_passesD(3) [OF assms r] .
  with r Suc [of w'] show ?case by (auto split: sum.splits ds_error.splits)
qed simp

lemma ddl_loop_returns:
  assumes "time_passes S tries polls"
  shows "ddl_loop S m \<noteq> None"
proof (induction "tries (world m)" arbitrary: m rule: less_induct)
  case less
  obtain stop w where stop: "backoffStops S (world m) = (stop, w)" by (cases "backoffStops S (world m)")
  obtain r w' where r: "getDistributedDDLQueue S w = (r, w')" by (cases "getDistributedDDLQueue S w")
  have "ddl_loop S (m\<lparr>world := backoffSleep S w'\<rparr>) \<noteq> None" if "\<not> stop"
  proof (rule less)
    have "tries w < tries (world m)" using time_passesD(1) [OF assms] stop that by simp
    moreover have "tries (backoffSleep S w') \<le> tries w"
      using ddl_attempts_tries [OF assms, of 10 w] r time_passesD(4) [OF assms, of w']
      by (simp add: getDistributedDDLQueue_def)
    ultimately show "tries (world (m\<lparr>world := backoffSleep S w'\<rparr>)) < tries (world m)" by simp
  qed
  then show ?case using stop r by (subst ddl_loop.simps) (auto split: sum.splits)
qed

lemma inserts_loop_returns:
  assumes "time_passes S tries polls"
  shows "inserts_loop S host db tbl n m \<noteq> None"
proof (induction "polls (world m)" arbitrary: n m rule: less_induct)
  case less
  obtain ev w where ev: "waitEvent S (world m) = (ev, w)" by (cases "waitEvent S (world m)")
  obtain r w1 where r: "dsCount S (Some host) err_count_query [db, tbl] w = (r, w1)"
    by (cases "dsCount S (Some host) err_count_query [db, tbl] w")
  obtain r2 w2 where r2: "dsCount S (Some host) data_files_query [db, tbl] w1 = (r2, w2)"
    by (cases "dsCount S (Some host) data_files_query [db, tbl] w1")
  have "inserts_loop S host db tbl n' (m\<lparr>world := w2\<rparr>) \<noteq> None" if "ev = Polling" for n'
  proof (rule less)
    have "polls w < polls (world m)" using time_passesD(5) [OF assms] ev that by simp
    moreover have "polls w2 \<le> polls w" using time_passesD(6) [OF assms r] time_passesD(6) [OF assms r2] by simp
    ultimately show "polls (world (m\<lparr>world := w2\<rparr>)) < polls (world m)" by simp
  qed
  then show ?case using ev r r2
    by (subst inserts_loop.simps) (auto simp: Let_def split: wait_event.splits sum.splits)
qed

section \<open>The waits and the modes\<close>

lemma getConn_returns: "returns (getConn S h)"
  by (simp add: returns_def getConn_def split: prod.splits option.splits)

lemma HostAddrs_returns: "returns (HostAddrs S)"
proof -
  have inner: "returns (case hs of [] \<Rightarrow> io_return hosts | h # _ \<Rightarrow> f h)"
    if "\<And>h. returns (f h)" for hs :: "string list" and f :: "string \<Rightarrow> ('d, string list) io" and hosts
    using that by (cases hs) (auto intro: returns_return)
  have store: "returns (\<lambda>m. Some (Ok hs, m\<lparr>addrs := hs\<rparr>))" for hs
    by (simp add: returns_def)
  have "HostAddrs S m \<noteq> None" for m
    unfolding HostAddrs_def if_distrib [of "\<lambda>x. x \<noteq> None"]
    by (split if_split, intro conjI impI, simp, split if_split, intro conjI impI, simp)
      (rule returns_bind_at, intro returns_rules inner store)
  then show ?thesis by (simp add: returns_def)
qed

lemma waits_return:
  assumes "time_passes S tries polls"
  shows "returns (WaitForRunningMutations S)" and "returns (WaitDistributedDDLQueue S)"
    and "returns (WaitForDistributionQueue S db tbl)" and "returns (wait_queue S op)"
proof -
  have loops: "returns (mutations_loop S h)" "returns (ddl_loop S)" "returns (inserts_loop S h db tbl n)" for h db tbl n
    using mutations_loop_returns [OF assms] ddl_loop_returns [OF assms] inserts_loop_returns [OF assms]
    by (simp_all add: returns_def)
  have host: "returns (waitForMutationsOnHost S h)" for h
    unfolding waitForMutationsOnHost_def [abs_def] by (rule returns_from) (intro returns_bind getConn_returns loops)
  show "returns (WaitForRunningMutations S)"
    unfolding WaitForRunningMutations_def by (intro returns_rules HostAddrs_returns host)
  show "returns (WaitDistributedDDLQueue S)"
    unfolding WaitDistributedDDLQueue_def [abs_def] by (rule returns_from) (rule loops)
  have queue: "returns (waitForDistributionQueueOnHost S h db tbl)" for h db tbl
    unfolding waitForDistributionQueueOnHost_def
    by (intro returns_bind returns_wrapping returns_call) (simp add: returns_fail returns_from [OF loops(3)])
  show wait: "returns (WaitForDistributionQueue S db tbl)" for db tbl
    unfolding WaitForDistributionQueue_def by (intro returns_rules HostAddrs_returns getConn_returns queue)
  show "returns (wait_queue S op)"
    unfolding wait_queue_def by (simp add: wait returns_return split: prod.splits)
qed

lemma entries_return:
  "returns (insertMigrationEntry S db i st)" "returns (updateMigrationEntry S db i st e)" "returns (run_statement S op)"
  using returns_Exec [of S]
  by (auto simp: returns_def insertMigrationEntry_def updateMigrationEntry_def run_statement_def split: option.splits)

lemma recording_returns: "returns x \<Longrightarrow> returns (recording S db i x)"
  unfolding recording_def record_failure_def by (intro returns_rules entries_return)

lemma RunOperation_returns:
  assumes "time_passes S tries polls"
  shows "returns (RunOperation S op i db skip)"
  unfolding RunOperation_def [abs_def] Let_def
  by (rule returns_at)
    (cases skip; simp; intro returns_bind recording_returns waits_return [OF assms] entries_return returns_return)

lemma shouldRunMigration_returns: "returns (shouldRunMigration S db i versions)"
  by (simp add: returns_def shouldRunMigration_def split: prod.splits)

lemma migrate_dbs_returns:
  assumes "\<And>ops i db. returns (exec S ops i db)"
  shows "returns (migrate_dbs S exec items versions dbs)"
proof -
  have db: "returns (migrate_db S exec items versions db ms)" for db ms
    unfolding migrate_db_def
    by (intro returns_each returns_bind shouldRunMigration_returns) (simp add: assms returns_return)
  show ?thesis unfolding migrate_dbs_def
    by (intro returns_each) (auto simp: db split: prod.splits)
qed

lemma execute_returns:
  assumes "time_passes S tries polls"
  shows "returns (executeSyncOperations S ops i db)" and "returns (executeAsyncOperations S ops i db)"
  unfolding executeSyncOperations_def executeAsyncOperations_def
  by (intro returns_each, simp add: RunOperation_returns [OF assms] returns_return)+

lemma run_all_returns:
  assumes "time_passes S tries polls"
  shows "returns (run_all S db skip ms)"
  unfolding run_all_def by (intro returns_each RunOperation_returns [OF assms])

lemma shouldRunSquashed_returns: "returns (shouldRunSquashed S db)"
  unfolding shouldRunSquashed_def [abs_def]
  by (rule returns_at) (intro returns_bind returns_call, auto intro: returns_rules)

lemma RunSquashedMigrations_returns:
  assumes "time_passes S tries polls"
  shows "returns (RunSquashedMigrations S D)"
proof -
  have "returns (run_squashed S db ms)" for db ms
    unfolding run_squashed_def
    by (intro returns_bind shouldRunSquashed_returns) (simp add: run_all_returns [OF assms] returns_return)
  then show ?thesis
    unfolding RunSquashedMigrations_def runCustomRetentionMigrationsForLogs_def
      runSquashedMigrationsForMetrics_def runSquashedMigrationsForTraces_def
    by (intro returns_each returns_wrapping) auto
qed

lemma Bootstrap_returns:
  assumes "time_passes S tries polls"
  shows "returns (Bootstrap S V)"
proof -
  have dbs: "returns (createDBs S)"
    unfolding createDBs_def [abs_def] by (rule returns_at) (intro returns_rules)
  show ?thesis unfolding Bootstrap_def
    by (intro returns_bind returns_wrapping dbs returns_each)
      (auto intro!: returns_wrapping run_all_returns [OF assms] split: prod.splits)
qed


text \<open>
  A database whose mutations never end: the world counts the tries of the backoff that are left and
  the rounds before the timer fires.
\<close>

definition busy_store :: "(nat \<times> nat) datastore" where
  "busy_store = \<lparr>dsExec = (\<lambda>q args w. (None, w)), dsCount = (\<lambda>h q args w. (Inr 0, w)),
     dsStatus = (\<lambda>q w. (ErrNoRows, w)),
     dsMutations = (\<lambda>h q w. (Inr [\<lparr>mutDatabase = ''d'', mutTable = ''t'', MutationID = ''1'', Command = ''c'', LatestFailReason = []\<rparr>], w)),
     dsDDLQueue = (\<lambda>q w. (Inr [], w)), dsHosts = (\<lambda>h q args w. (Inr [(''10.0.0.1'', 9000)], w)),
     dsOpen = (\<lambda>h w. (None, w)), parseAddr = Inr, addrPort = (\<lambda>a p. a), rangeOrder = (\<lambda>hs. hs),
     backoffReset = (\<lambda>(t, p). (5, p)), backoffStops = (\<lambda>(t, p). (t = 0, (t - 1, p))), backoffSleep = (\<lambda>w. w),
     newTimer = (\<lambda>(t, p). (t, 3)), waitEvent = (\<lambda>(t, p). (if p = 0 then TimerFired else Polling, (t, p - 1))),
     nowUTC = (\<lambda>w. ''now'')\<rparr>"

definition busy_mgr :: "(nat \<times> nat) mgr" where
  "busy_mgr = \<lparr>addrs = [], conns = [], clusterName = ''c'', replicationEnabled = False, development = False,
     world = (0, 0), executed = []\<rparr>"

lemma busy_time: "time_passes busy_store fst snd"
  by (auto simp: time_passes_def busy_store_def split: if_splits)


text \<open>
  Ten retryable failures count as an empty queue: when every reading of the distributed DDL
  queue fails with the exception the manager retries, the wait for the queue returns without error
  although the queue was never read.
\<close>

theorem unread_queue_counts_as_empty:
  assumes "backoffStops S (backoffReset S (world m)) = (False, w)"
    and "\<And>w. \<exists>msg w'. dsDDLQueue S ddl_query w = (Inl (Exception 999 msg), w') \<and> contains msg ''No node''"
  shows "\<exists>w'. WaitDistributedDDLQueue S m = Some (Ok (), m\<lparr>world := w'\<rparr>)"
proof -
  have "\<exists>w'. ddl_attempts n S w = (Inr [], w')" for n w
  proof (induction n arbitrary: w)
    case (Suc n)
    obtain msg w' where "dsDDLQueue S ddl_query w = (Inl (Exception 999 msg), w')" "contains msg ''No node''"
      using assms(2) by blast
    with Suc [of w'] show ?case by simp
  qed simp
  then obtain w' where "getDistributedDDLQueue S w = (Inr [], w')"
    unfolding getDistributedDDLQueue_def by blast
  with assms(1) show ?thesis
    unfolding WaitDistributedDDLQueue_def by (subst ddl_loop.simps) auto
qed

theorem unread_queue_counts_as_empty_witness:
  "\<exists>w'. WaitDistributedDDLQueue (busy_store\<lparr>dsDDLQueue := (\<lambda>q w. (Inl (Exception 999 ''No node''), w))\<rparr>)
     busy_mgr = Some (Ok (), busy_mgr\<lparr>world := w'\<rparr>)"
  by (rule unread_queue_counts_as_empty) (simp_all add: busy_store_def busy_mgr_def)

end
