(* ===== verification/KeyCheck.thy ===== *)
theory KeyCheck
  imports Go_Float
begin

text \<open>
  The checks of keys (pkg/keycheck): which keys look generated and so must not become columns or
  attributes of their own, and which need backticks. The regular expressions of the source are
  anchored at both ends and written out as checks of the whole segment. How a string decomposes
  into runes and which of them are letters is a parameter. The main result is that the index loop
  over a key visits exactly the segments between its dots.
\<close>

section \<open>Strings\<close>

text \<open>\<open>strings.Split\<close> by one character.\<close>

fun split_on :: "char \<Rightarrow> string \<Rightarrow> string list" where
  "split_on c [] = [[]]"
| "split_on c (x # xs) =
     (if x = c then [] # split_on c xs
      else (case split_on c xs of [] \<Rightarrow> [[x]] | p # ps \<Rightarrow> (x # p) # ps))"

abbreviation backtick :: char where "backtick \<equiv> CHR 0x60"

definition in_range :: "char \<Rightarrow> char \<Rightarrow> char \<Rightarrow> bool" where
  "in_range a b c \<longleftrightarrow> (of_char a :: nat) \<le> of_char c \<and> (of_char c :: nat) \<le> of_char b"

abbreviation ascii_digit :: "char \<Rightarrow> bool" where
  "ascii_digit \<equiv> in_range CHR ''0'' CHR ''9''"

abbreviation ascii_letter :: "char \<Rightarrow> bool" where
  "ascii_letter c \<equiv> in_range CHR ''a'' CHR ''z'' c \<or> in_range CHR ''A'' CHR ''Z'' c"

definition hex :: "char \<Rightarrow> bool" where
  "hex c \<longleftrightarrow> ascii_digit c \<or> in_range CHR ''a'' CHR ''f'' c \<or> in_range CHR ''A'' CHR ''F'' c"

section \<open>Random segments (keycheck.go)\<close>

definition MaxKeyLength :: nat where "MaxKeyLength = 256"
definition ShortKeyLength :: nat where "ShortKeyLength = 15"
definition MediumKeyLength :: nat where "MediumKeyLength = 25"

text \<open>The constant is the value of \<open>float64\<close> next to 0.7.\<close>

definition LetterThreshold :: rat where "LetterThreshold = float_div 7 10"

definition uuidRegex :: "string \<Rightarrow> bool" where
  "uuidRegex s = list_all2 (\<lambda>p c. p c)
     (replicate 8 hex @ [(=) CHR ''-''] @ replicate 4 hex @ [(=) CHR ''-'']
      @ in_range CHR ''1'' CHR ''5'' # replicate 3 hex @ [(=) CHR ''-'']
      @ (\<lambda>c. c \<in> set ''89abAB'') # replicate 3 hex @ [(=) CHR ''-''] @ replicate 12 hex) s"

definition hexRegex :: "string \<Rightarrow> bool" where
  "hexRegex s \<longleftrightarrow> 16 \<le> length s \<and> list_all hex s"

definition base64Regex :: "string \<Rightarrow> bool" where
  "base64Regex s \<longleftrightarrow>
     (let b64 = (\<lambda>c. ascii_letter c \<or> ascii_digit c \<or> c = CHR ''+'' \<or> c = CHR ''/'')
      in 16 \<le> length (takeWhile b64 s) \<and> dropWhile b64 s \<in> {[], ''='', ''==''})"

definition timestampRegex :: "string \<Rightarrow> bool" where
  "timestampRegex s \<longleftrightarrow> length s = 13 \<and> list_all ascii_digit s"

text \<open>For each rune of a string, whether it is a lower-case letter and whether it is a letter.\<close>

type_synonym runes = "string \<Rightarrow> (bool \<times> bool) list"

definition containsNonAlpha :: "runes \<Rightarrow> string \<Rightarrow> bool" where
  "containsNonAlpha R s = list_ex (\<lambda>(lower, letter). \<not> letter) (R s)"

definition isBase64String :: "runes \<Rightarrow> string \<Rightarrow> bool" where
  "isBase64String R s = (if \<not> containsNonAlpha R s then False else base64Regex s)"

definition isMostlyLetters :: "runes \<Rightarrow> string \<Rightarrow> bool" where
  "isMostlyLetters R s \<longleftrightarrow>
     float_div (of_nat (length (filter (\<lambda>(lower, letter). letter) (R s)))) (of_nat (length s)) > LetterThreshold"

definition isAlphaLower :: "runes \<Rightarrow> string \<Rightarrow> bool" where
  "isAlphaLower R s = list_all (\<lambda>(lower, letter). \<not> (\<not> lower \<and> \<not> letter)) (R s)"

definition isULID :: "string \<Rightarrow> bool" where
  "isULID s \<longleftrightarrow> length s = 26 \<and>
     list_all (\<lambda>c. (in_range CHR ''A'' CHR ''Z'' c \<or> ascii_digit c) \<and> c \<notin> set ''ILOU'') s"

definition isRandomSegment :: "runes \<Rightarrow> string \<Rightarrow> bool" where
  "isRandomSegment R segment \<longleftrightarrow>
     length segment > MaxKeyLength \<or> uuidRegex segment \<or> hexRegex segment \<or> isBase64String R segment \<or>
     timestampRegex segment \<or> isULID segment"

text \<open>The loop over the indices of the key; \<open>key[start:i]\<close> is the segment before a dot or the end.\<close>

function segments_loop :: "(string \<Rightarrow> bool) \<Rightarrow> string \<Rightarrow> nat \<Rightarrow> nat \<Rightarrow> bool" where
  "segments_loop random key start i =
     (if i > length key then False
      else if i = length key \<or> key ! i = CHR ''.''
      then (let segment = take (i - start) (drop start key)
            in if segment = [] then segments_loop random key (i + 1) (i + 1)
               else if random segment then True
               else segments_loop random key (i + 1) (i + 1))
      else segments_loop random key start (i + 1))"
  by pat_completeness auto
termination
  by (relation "measure (\<lambda>(random, key, start, i). Suc (length key) - i)") auto

declare segments_loop.simps [simp del]

definition processKeySegments :: "runes \<Rightarrow> string \<Rightarrow> bool" where
  "processKeySegments R key = segments_loop (isRandomSegment R) key 0 0"

definition ContainsAny :: "string \<Rightarrow> string \<Rightarrow> bool" where
  "ContainsAny s chars = list_ex (\<lambda>c. c \<in> set chars) s"

definition IsRandomKey :: "runes \<Rightarrow> string \<Rightarrow> bool" where
  "IsRandomKey R key =
     (if length key > MaxKeyLength then True
      else if length key \<le> ShortKeyLength \<and> isAlphaLower R key then False
      else if length key \<le> MediumKeyLength \<and> ContainsAny key ''_-'' \<and> isMostlyLetters R key then False
      else processKeySegments R key)"

section \<open>Cardinal keys and backticks (cardinality.go)\<close>

definition JSONKeyAllowedSymbols :: "string list" where
  "JSONKeyAllowedSymbols = [''_'', ''.'', '':'', ''@'', ''-'', ''$'', ''#'', ''{'', ''}'', ''/'']"

definition BacktickRequiredSymbols :: "string list" where
  "BacktickRequiredSymbols = ['':'', ''@'', ''-'']"

text \<open>A byte of a rune that is not ASCII is neither a letter nor a symbol of the list.\<close>

definition hasNonAllowedSymbols :: "string \<Rightarrow> bool" where
  "hasNonAllowedSymbols s =
     list_ex (\<lambda>c. \<not> ascii_letter c \<and> \<not> ascii_digit c \<and> [c] \<notin> set JSONKeyAllowedSymbols) s"

definition IsCardinal :: "runes \<Rightarrow> string \<Rightarrow> bool" where
  "IsCardinal R key =
     (if length key > MaxKeyLength then True
      else if hasNonAllowedSymbols key then True
      else if length key \<le> ShortKeyLength \<and> isAlphaLower R key then False
      else if length key \<le> MediumKeyLength \<and> ContainsAny key ''_-'' \<and> isMostlyLetters R key then False
      else processKeySegments R key)"

definition IsBacktickRequired :: "string \<Rightarrow> bool" where
  "IsBacktickRequired key = ContainsAny key (concat BacktickRequiredSymbols)"

definition CleanBackticks :: "string \<Rightarrow> string" where
  "CleanBackticks key = filter (\<lambda>c. c \<noteq> backtick) key"

section \<open>Splitting\<close>

lemma split_on_not_Nil [simp]: "split_on c s \<noteq> []"
  by (cases s) (auto split: list.splits)

lemma split_on_parts: "p \<in> set (split_on c s) \<Longrightarrow> c \<notin> set p \<and> set p \<subseteq> set s"
proof (induction s arbitrary: p)
  case (Cons x xs)
  obtain q qs where "split_on c xs = q # qs" by (cases "split_on c xs") auto
  with Cons.IH have "c \<notin> set q" "set q \<subseteq> set xs" "\<forall>p \<in> set qs. c \<notin> set p \<and> set p \<subseteq> set xs" by auto
  then show ?case using Cons.prems \<open>split_on c xs = q # qs\<close> by (auto split: if_splits)
qed simp

lemma join_split_on: "join [c] (split_on c s) = s"
proof (induction s)
  case (Cons x xs)
  obtain q qs where q: "split_on c xs = q # qs" by (cases "split_on c xs") auto
  have tl: "join [c] ((x # q) # qs) = x # join [c] (q # qs)" by (cases qs) simp_all
  show ?case using Cons q tl by auto
qed simp

lemma split_on_append: "c \<notin> set p \<Longrightarrow> split_on c (p @ c # s) = p # split_on c s"
  by (induction p) auto

lemma split_on_single: "c \<notin> set p \<Longrightarrow> split_on c p = [p]"
  by (induction p) auto

lemma split_on_join: "ps \<noteq> [] \<Longrightarrow> (\<And>p. p \<in> set ps \<Longrightarrow> c \<notin> set p) \<Longrightarrow> split_on c (join [c] ps) = ps"
proof (induction ps rule: induct_list012)
  case (3 p q ps)
  then show ?case using split_on_append [of c p "join [c] (q # ps)"] by simp
qed (simp_all add: split_on_single)


text \<open>The loop at index \<open>i\<close>: the segment read so far has no dot, the rest is to be split.\<close>

lemma segments_loop_split:
  "i \<le> length key \<Longrightarrow> start \<le> i \<Longrightarrow> CHR ''.'' \<notin> set (take (i - start) (drop start key)) \<Longrightarrow>
    segments_loop random key start i = (\<exists>s \<in> set (split_on CHR ''.'' (drop start key)). s \<noteq> [] \<and> random s)"
proof (induction random key start i rule: segments_loop.induct)
  case (1 random key start i)
  let ?seg = "take (i - start) (drop start key)"
  have rest: "drop start key = ?seg @ drop i key"
    using "1.prems"(2) by (metis append_take_drop_id drop_drop le_add_diff_inverse2)
  consider (fin) "i = length key" | (dot) "i < length key" "key ! i = CHR ''.''" | (other) "i < length key" "key ! i \<noteq> CHR ''.''"
    using "1.prems"(1) by force
  then show ?case
  proof cases
    case fin
    then have "split_on CHR ''.'' (drop start key) = [?seg]" using rest "1.prems"(3) by (simp add: split_on_single)
    moreover have "segments_loop random key (i + 1) (i + 1) = False" using fin by (simp add: segments_loop.simps)
    ultimately show ?thesis using fin by (subst segments_loop.simps) (simp add: Let_def)
  next
    case dot
    then have "drop i key = CHR ''.'' # drop (i + 1) key" by (metis Cons_nth_drop_Suc Suc_eq_plus1)
    then have split: "split_on CHR ''.'' (drop start key) = ?seg # split_on CHR ''.'' (drop (i + 1) key)"
      using rest split_on_append [OF "1.prems"(3)] by metis
    have "segments_loop random key (i + 1) (i + 1) =
        (\<exists>s \<in> set (split_on CHR ''.'' (drop (i + 1) key)). s \<noteq> [] \<and> random s)"
      if "\<not> (?seg \<noteq> [] \<and> random ?seg)"
      using that dot "1.IH"(1) "1.IH"(2) by (cases "?seg = []"; cases "random ?seg") auto
    then show ?thesis using dot unfolding split by (subst segments_loop.simps) (auto simp: Let_def)
  next
    case other
    have "take (i + 1 - start) (drop start key) = ?seg @ [key ! i]"
      using other(1) "1.prems"(2) by (simp add: Suc_diff_le take_Suc_conv_app_nth)
    then have "segments_loop random key start (i + 1) =
        (\<exists>s \<in> set (split_on CHR ''.'' (drop start key)). s \<noteq> [] \<and> random s)"
      using other "1.prems" by (intro "1.IH"(3)) auto
    then show ?thesis using other by (subst segments_loop.simps) simp
  qed
qed

lemma processKeySegments_split:
  "processKeySegments R key = (\<exists>s \<in> set (split_on CHR ''.'' key). s \<noteq> [] \<and> isRandomSegment R s)"
  using segments_loop_split [of 0 key 0] by (simp add: processKeySegments_def)

text \<open>
  A key is random when one of its segments is: the index loop over a key inspects exactly the
  non-empty segments between its dots, so apart from short words and separated words a key of at
  most 256 bytes is random if and only if one of these segments is; and a key is cardinal if and
  only if it has a symbol outside the whitelist or is random.
\<close>

theorem random_key_segments:
  "(IsRandomKey R key \<longleftrightarrow> length key > 256 \<or>
     \<not> (length key \<le> 15 \<and> isAlphaLower R key) \<and> \<not> (length key \<le> 25 \<and> ContainsAny key ''_-'' \<and> isMostlyLetters R key) \<and>
     (\<exists>s \<in> set (split_on CHR ''.'' key). s \<noteq> [] \<and> isRandomSegment R s)) \<and>
   (IsCardinal R key \<longleftrightarrow> hasNonAllowedSymbols key \<or> IsRandomKey R key)"
  by (auto simp: IsRandomKey_def IsCardinal_def processKeySegments_split MaxKeyLength_def ShortKeyLength_def MediumKeyLength_def)

end
