(* ===== verification/IndexExpr.thy ===== *)
theory IndexExpr
  imports KeyCheck
begin

text \<open>
  Index expressions over sub-columns of a JSON column (index\_operations.go). The two regular expressions of the source are written out as matchers
  with the leftmost, lazy semantics of the standard library. The main result is the round trip
  between an index expression and its sub-column.
\<close>

section \<open>Strings\<close>

text \<open>\<open>strings.Trim\<close> of one character.\<close>

definition trim :: "char \<Rightarrow> string \<Rightarrow> string" where
  "trim c s = rev (dropWhile ((=) c) (rev (dropWhile ((=) c) s)))"

abbreviation quote :: char where "quote \<equiv> CHR 0x27"
abbreviation newline :: char where "newline \<equiv> CHR 0x0A"

definition space :: "char \<Rightarrow> bool" where
  "space c \<longleftrightarrow> c \<in> {CHR '' '', CHR 0x09, CHR 0x0A, CHR 0x0C, CHR 0x0D}"

section \<open>Expressions (index\_operations.go)\<close>

definition JSONSubColumnIndexName :: "string \<Rightarrow> string \<Rightarrow> string \<Rightarrow> string \<Rightarrow> string" where
  "JSONSubColumnIndexName column path typeColumn index =
     [backtick] @ (column @ ''.'' @ path) @ ''_'' @ typeColumn @ ''_'' @ index @ [backtick]"

definition quote_part :: "string \<Rightarrow> string" where
  "quote_part part = (if IsBacktickRequired part then [backtick] @ trim backtick part @ [backtick] else part)"

definition jsonSubColumnIndexExprFormat :: "string \<Rightarrow> string \<Rightarrow> string" where
  "jsonSubColumnIndexExprFormat expr typeColumn =
     (let parts = map quote_part (split_on CHR ''.'' expr);
          sub = join ''.'' parts
      in if typeColumn \<noteq> ''String''
         then ''assumeNotNull(dynamicElement('' @ sub @ '', '' @ [quote] @ typeColumn @ [quote] @ ''))''
         else ''lower(assumeNotNull(dynamicElement('' @ sub @ '', '' @ [quote] @ typeColumn @ [quote] @ '')))'')"

definition JSONSubColumnIndexExpr :: "string \<Rightarrow> string \<Rightarrow> string \<Rightarrow> string" where
  "JSONSubColumnIndexExpr column path typeColumn = jsonSubColumnIndexExprFormat (column @ ''.'' @ path) typeColumn"

definition JSONPathsIndexExpr :: "string \<Rightarrow> string" where
  "JSONPathsIndexExpr column = ''JSONAllPaths('' @ column @ '')''"

definition JSONFullTextIndexExpr :: "string \<Rightarrow> string" where
  "JSONFullTextIndexExpr column = ''lower(toString('' @ column @ ''))''"

text \<open>
  The two regular expressions differ in the text they begin with and in the brackets they end with.
  \<open>type_match\<close> is the part after the first group, up to the end of the text; \<open>lazy_match\<close> the first
  group, as short as possible, and the rest; \<open>find_match\<close> looks for the leftmost match.
\<close>

definition type_match :: "string \<Rightarrow> string \<Rightarrow> string option" where
  "type_match closing s = (case s of
      [] \<Rightarrow> None
    | c # r \<Rightarrow> if c \<noteq> CHR '','' then None else
        (case dropWhile space r of
           [] \<Rightarrow> None
         | q # t \<Rightarrow>
             if q = quote \<and> takeWhile (\<lambda>x. x \<noteq> quote) t \<noteq> [] \<and> dropWhile (\<lambda>x. x \<noteq> quote) t = quote # closing
             then Some (takeWhile (\<lambda>x. x \<noteq> quote) t) else None))"

fun lazy_match :: "string \<Rightarrow> string \<Rightarrow> string \<Rightarrow> (string \<times> string) option" where
  "lazy_match closing acc [] = None"
| "lazy_match closing acc (c # s) =
     (if c = newline then None
      else case type_match closing s of
        Some ty \<Rightarrow> Some (acc @ [c], ty)
      | None \<Rightarrow> lazy_match closing (acc @ [c]) s)"

fun find_match :: "string \<Rightarrow> string \<Rightarrow> string \<Rightarrow> (string \<times> string) option" where
  "find_match pre closing [] = None"
| "find_match pre closing (c # s) =
     (if take (length pre) (c # s) = pre
      then (case lazy_match closing [] (drop (length pre) (c # s)) of
              Some r \<Rightarrow> Some r
            | None \<Rightarrow> find_match pre closing s)
      else find_match pre closing s)"

definition UnfoldJSONSubColumnIndexExpr :: "string \<Rightarrow> (string \<times> string) result" where
  "UnfoldJSONSubColumnIndexExpr expr =
     (case find_match ''lower(assumeNotNull(dynamicElement('' '')))'' expr of
        Some r \<Rightarrow> Inr r
      | None \<Rightarrow>
          (case find_match ''assumeNotNull(dynamicElement('' ''))'' expr of
             Some r \<Rightarrow> Inr r
           | None \<Rightarrow> Inl (''invalid expression: '' @ expr)))"

section \<open>Splitting and quoting\<close>

lemma set_join: "set (join sep ps) \<subseteq> set sep \<union> (\<Union>p \<in> set ps. set p)"
  by (induction ps rule: induct_list012) auto

lemma set_dropWhile: "set (dropWhile P xs) \<subseteq> set xs"
  using set_dropWhileD by fast

lemma set_trim: "set (trim c s) \<subseteq> set s"
  using set_dropWhile [of "(=) c" "rev (dropWhile ((=) c) s)"] set_dropWhile [of "(=) c" s] by (auto simp: trim_def)

lemma trim_keeps: "x \<in> set s \<Longrightarrow> x \<noteq> c \<Longrightarrow> x \<in> set (trim c s)"
proof -
  have drop: "x \<in> set xs \<Longrightarrow> x \<noteq> c \<Longrightarrow> x \<in> set (dropWhile ((=) c) xs)" for xs
    by (induction xs) auto
  show "x \<in> set s \<Longrightarrow> x \<noteq> c \<Longrightarrow> x \<in> set (trim c s)" by (simp add: trim_def drop)
qed

lemma trim_trimmed:
  assumes "trim c s \<noteq> []"
  shows "hd (trim c s) \<noteq> c" and "last (trim c s) \<noteq> c"
proof -
  let ?t = "dropWhile ((=) c) s"
  have t: "?t \<noteq> []" using assms unfolding trim_def by (metis dropWhile.simps(1) rev.simps(1))
  have r: "dropWhile ((=) c) (rev ?t) \<noteq> []" using assms by (simp add: trim_def)
  show "last (trim c s) \<noteq> c" using hd_dropWhile [OF r] by (simp add: trim_def last_rev)
  obtain ys where "?t = trim c s @ ys"
    using takeWhile_dropWhile_id [of "(=) c" "rev ?t"] by (metis rev_append rev_rev_ident trim_def)
  then show "hd (trim c s) \<noteq> c" using hd_dropWhile [OF t] assms by auto
qed

lemma trim_quoted:
  assumes "trim c s \<noteq> []"
  shows "trim c ([c] @ trim c s @ [c]) = trim c s"
proof -
  obtain x xs where x: "trim c s = x # xs" "x \<noteq> c" using trim_trimmed(1) [OF assms] assms by (cases "trim c s") auto
  have "dropWhile ((=) c) (rev (trim c s)) = rev (trim c s)"
    using trim_trimmed(2) [OF assms] assms by (cases "rev (trim c s)") (auto simp: last_rev simp flip: hd_rev)
  then have "rev (dropWhile ((=) c) (rev (trim c s @ [c]))) = trim c s" by simp
  moreover have "dropWhile ((=) c) ([c] @ trim c s @ [c]) = trim c s @ [c]" using x by simp
  ultimately show ?thesis by (simp only: trim_def [of c "[c] @ trim c s @ [c]"])
qed

lemma quote_part_required: "IsBacktickRequired (quote_part p) = IsBacktickRequired p"
proof (cases "IsBacktickRequired p")
  case True
  then obtain x where "x \<in> set p" "x \<in> set (concat BacktickRequiredSymbols)" by (auto simp: IsBacktickRequired_def ContainsAny_def list_ex_iff)
  then have "x \<in> set (trim backtick p)" by (intro trim_keeps) (auto simp: BacktickRequiredSymbols_def)
  then show ?thesis
    using True \<open>x \<in> set (concat BacktickRequiredSymbols)\<close> by (auto simp: quote_part_def IsBacktickRequired_def ContainsAny_def list_ex_iff)
qed (simp add: quote_part_def)

lemma quote_part_idem: "quote_part (quote_part p) = quote_part p"
proof (cases "IsBacktickRequired p")
  case True
  then obtain x where "x \<in> set p" "x \<noteq> backtick"
    by (auto simp: IsBacktickRequired_def ContainsAny_def list_ex_iff BacktickRequiredSymbols_def)
  then have "trim backtick p \<noteq> []" using trim_keeps by fastforce
  then show ?thesis using True quote_part_required [of p] trim_quoted [of backtick p] by (simp add: quote_part_def)
qed (simp add: quote_part_def)

lemma set_quote_part: "set (quote_part p) \<subseteq> insert backtick (set p)"
  using set_trim [of backtick p] by (auto simp: quote_part_def)

definition sub_column :: "string \<Rightarrow> string" where
  "sub_column expr = join ''.'' (map quote_part (split_on CHR ''.'' expr))"

lemma sub_column_idem: "sub_column (sub_column expr) = sub_column expr"
proof -
  have "CHR ''.'' \<notin> set (quote_part p)" if "p \<in> set (split_on CHR ''.'' expr)" for p
    using split_on_parts [OF that] set_quote_part [of p] by auto
  then have "split_on CHR ''.'' (sub_column expr) = map quote_part (split_on CHR ''.'' expr)"
    unfolding sub_column_def by (intro split_on_join) auto
  then show ?thesis by (simp add: sub_column_def quote_part_idem comp_def)
qed

lemma set_sub_column: "set (sub_column expr) \<subseteq> insert backtick (insert CHR ''.'' (set expr))"
proof -
  have "(\<Union>p \<in> set (map quote_part (split_on CHR ''.'' expr)). set p) \<subseteq> insert backtick (set expr)"
    using set_quote_part split_on_parts by fastforce
  then show ?thesis using set_join [of "''.''" "map quote_part (split_on CHR ''.'' expr)"] unfolding sub_column_def by simp blast
qed

section \<open>Matching\<close>

lemma type_match_end:
  assumes "ty \<noteq> []" and "quote \<notin> set ty"
  shows "type_match closing ('', '' @ [quote] @ ty @ [quote] @ closing) = Some ty"
proof -
  have "takeWhile (\<lambda>x. x \<noteq> quote) (ty @ quote # closing) = ty" "dropWhile (\<lambda>x. x \<noteq> quote) (ty @ quote # closing) = quote # closing"
    using assms(2) by (auto simp: takeWhile_append dropWhile_append)
  then show ?thesis using assms(1) by (simp add: type_match_def space_def)
qed

lemma type_match_early:
  assumes "quote \<notin> set e" and "e \<noteq> []"
  shows "type_match closing (e @ '', '' @ rest) = None"
proof -
  obtain c r where e: "e = c # r" using assms(2) by (cases e) auto
  have "\<exists>q t. dropWhile space (r @ '', '' @ rest) = q # t \<and> q \<noteq> quote"
    using assms(1) unfolding e by (induction r) (auto simp: space_def)
  then show ?thesis by (auto simp: type_match_def e)
qed

lemma lazy_match_whole:
  assumes "e \<noteq> []" and "quote \<notin> set e" and "newline \<notin> set e" and "ty \<noteq> []" and "quote \<notin> set ty"
  shows "lazy_match closing acc (e @ '', '' @ [quote] @ ty @ [quote] @ closing) = Some (acc @ e, ty)"
  using assms(1-3)
proof (induction e arbitrary: acc)
  case (Cons c e)
  show ?case
  proof (cases "e = []")
    case True
    then show ?thesis using Cons.prems type_match_end [OF assms(4,5), of closing] by simp
  next
    case False
    define X where "X = e @ '', '' @ [quote] @ ty @ [quote] @ closing"
    have "type_match closing X = None"
      unfolding X_def using Cons.prems False by (intro type_match_early) auto
    then have "lazy_match closing acc (c # X) = lazy_match closing (acc @ [c]) X" using Cons.prems by auto
    also have "\<dots> = Some (acc @ c # e, ty)" unfolding X_def using Cons False by simp
    finally show ?thesis by (simp add: X_def)
  qed
qed simp

lemma find_match_start:
  "lazy_match closing [] s = Some r \<Longrightarrow> pre \<noteq> [] \<Longrightarrow> find_match pre closing (pre @ s) = Some r"
  by (cases pre) auto

text \<open>A match needs the closing brackets right after a quote at the end of the text.\<close>

lemma type_match_suffix: "type_match closing s = Some ty \<Longrightarrow> \<exists>u. s = u @ quote # closing"
proof -
  assume "type_match closing s = Some ty"
  then obtain c r q t where s: "s = c # r" "dropWhile space r = q # t" "dropWhile (\<lambda>x. x \<noteq> quote) t = quote # closing"
    by (auto simp: type_match_def split: list.splits if_splits)
  have "r = takeWhile space r @ q # takeWhile (\<lambda>x. x \<noteq> quote) t @ quote # closing"
    using takeWhile_dropWhile_id [of space r] takeWhile_dropWhile_id [of "\<lambda>x. x \<noteq> quote" t] s(2,3) by simp
  then show ?thesis unfolding s(1) by (metis append_Cons append_assoc)
qed

lemma lazy_match_suffix: "lazy_match closing acc s = Some r \<Longrightarrow> \<exists>u. s = u @ quote # closing"
proof (induction closing acc s rule: lazy_match.induct)
  case (2 closing acc c s)
  then have "\<exists>u. s = u @ quote # closing"
    by (auto dest: type_match_suffix split: if_splits option.splits)
  then show ?case by (metis append_Cons)
qed simp

lemma find_match_suffix: "find_match pre closing s = Some r \<Longrightarrow> \<exists>u. s = u @ quote # closing"
proof (induction pre closing s rule: find_match.induct)
  case (2 pre closing c s)
  have "\<exists>u. s' = u @ quote # closing \<Longrightarrow> s = v @ s' \<Longrightarrow> \<exists>u. c # s = u @ quote # closing" for v s'
    by (metis append_Cons append_assoc)
  moreover have "\<exists>u. c # s = u @ quote # closing" if "\<exists>u. drop (length pre) (c # s) = u @ quote # closing"
    using that by (metis append_assoc append_take_drop_id)
  ultimately show ?case using 2 by (auto dest!: lazy_match_suffix split: if_splits option.splits)
qed simp

section \<open>The round trip\<close>

lemma format_sub_column: "jsonSubColumnIndexExprFormat expr ty =
    (if ty \<noteq> ''String'' then ''assumeNotNull(dynamicElement('' @ sub_column expr @ '', '' @ [quote] @ ty @ [quote] @ ''))''
     else ''lower(assumeNotNull(dynamicElement('' @ sub_column expr @ '', '' @ [quote] @ ty @ [quote] @ '')))'')"
  by (simp add: jsonSubColumnIndexExprFormat_def sub_column_def)

lemma Unfold_format:
  assumes "sub_column expr \<noteq> []" and "quote \<notin> set expr" and "newline \<notin> set expr"
    and "ty \<noteq> []" and "quote \<notin> set ty"
  shows "UnfoldJSONSubColumnIndexExpr (jsonSubColumnIndexExprFormat expr ty) = Inr (sub_column expr, ty)"
proof -
  have chars: "quote \<notin> set (sub_column expr)" "newline \<notin> set (sub_column expr)"
    using set_sub_column [of expr] assms(2,3) by auto
  note whole = lazy_match_whole [OF assms(1) chars assms(4,5), where acc = "[]", simplified]
  show ?thesis
  proof (cases "ty = ''String''")
    case True
    then show ?thesis
      using find_match_start [OF whole [of "'')))''"], of "''lower(assumeNotNull(dynamicElement(''"]
      by (simp add: format_sub_column UnfoldJSONSubColumnIndexExpr_def)
  next
    case False
    let ?text = "''assumeNotNull(dynamicElement('' @ sub_column expr @ '', '' @ [quote] @ ty @ [quote] @ ''))''"
    have "\<nexists>u. ?text = u @ quote # '')))''"
      by (auto simp: append_eq_append_conv2)
    then have "find_match ''lower(assumeNotNull(dynamicElement('' '')))'' ?text = None"
      by (metis find_match_suffix not_None_eq)
    moreover have "find_match ''assumeNotNull(dynamicElement('' ''))'' ?text = Some (sub_column expr, ty)"
      using find_match_start [OF whole [of "''))''"], of "''assumeNotNull(dynamicElement(''"] by simp
    ultimately show ?thesis
      using False by (simp only: format_sub_column UnfoldJSONSubColumnIndexExpr_def if_True option.case)  simp
  qed
qed

lemma CleanBackticks_append [simp]: "CleanBackticks (s @ t) = CleanBackticks s @ CleanBackticks t"
  by (simp add: CleanBackticks_def)

lemma CleanBackticks_Cons [simp]: "CleanBackticks (c # s) = (if c = backtick then CleanBackticks s else c # CleanBackticks s)"
  by (simp add: CleanBackticks_def)

lemma CleanBackticks_quote_part: "CleanBackticks (quote_part p) = CleanBackticks p"
proof -
  have drop: "filter (\<lambda>c. c \<noteq> backtick) (dropWhile ((=) backtick) s) = filter (\<lambda>c. c \<noteq> backtick) s" for s
    by (induction s) auto
  have "CleanBackticks (trim backtick p) = CleanBackticks p"
    unfolding CleanBackticks_def trim_def by (simp add: rev_filter [symmetric] drop)
  then show ?thesis by (simp add: quote_part_def) (simp add: CleanBackticks_def)
qed

lemma CleanBackticks_sub_column: "CleanBackticks (sub_column expr) = CleanBackticks expr"
proof -
  have "CleanBackticks (join ''.'' (map quote_part ps)) = CleanBackticks (join ''.'' ps)" for ps
    by (induction ps rule: induct_list012) (simp_all add: CleanBackticks_quote_part)
  then show ?thesis by (simp add: sub_column_def join_split_on)
qed

lemma sub_column_empty: "sub_column expr = [] \<longleftrightarrow> expr = []"
proof
  assume empty: "sub_column expr = []"
  obtain q qs where q: "split_on CHR ''.'' expr = q # qs" by (cases "split_on CHR ''.'' expr") auto
  have "quote_part q = [] \<and> qs = []" using empty q by (cases qs) (auto simp: sub_column_def)
  then have "split_on CHR ''.'' expr = [[]]" using q by (auto simp: quote_part_def split: if_splits)
  then show "expr = []" using join_split_on [of "CHR ''.''" expr] by simp
qed (simp add: sub_column_def quote_part_def IsBacktickRequired_def ContainsAny_def)

text \<open>
  C31. An index expression gives back its sub-column: for a column and a path without quotes and line
  breaks and any type name, unfolding the expression built from them answers the type and a
  sub-column that is the given one up to backticks, and building the expression again from this
  sub-column gives the same expression.
\<close>

theorem index_expr_round_trip:
  assumes "quote \<notin> set (column @ path)" and "newline \<notin> set (column @ path)"
    and "ty \<noteq> []" and "quote \<notin> set ty"
  shows "\<exists>sub. UnfoldJSONSubColumnIndexExpr (JSONSubColumnIndexExpr column path ty) = Inr (sub, ty) \<and>
    CleanBackticks sub = CleanBackticks (column @ ''.'' @ path) \<and>
    jsonSubColumnIndexExprFormat sub ty = JSONSubColumnIndexExpr column path ty"
proof -
  let ?e = "column @ ''.'' @ path"
  have "UnfoldJSONSubColumnIndexExpr (JSONSubColumnIndexExpr column path ty) = Inr (sub_column ?e, ty)"
    unfolding JSONSubColumnIndexExpr_def using assms by (intro Unfold_format) (auto simp: sub_column_empty)
  moreover have "jsonSubColumnIndexExprFormat (sub_column ?e) ty = JSONSubColumnIndexExpr column path ty"
    by (simp add: JSONSubColumnIndexExpr_def format_sub_column sub_column_idem)
  ultimately show ?thesis using CleanBackticks_sub_column by blast
qed

theorem index_expr_round_trip_witness:
  "\<exists>sub. UnfoldJSONSubColumnIndexExpr (JSONSubColumnIndexExpr ''body'' ''order-id.x'' ''Int64'') = Inr (sub, ''Int64'') \<and>
    CleanBackticks sub = CleanBackticks (''body'' @ ''.'' @ ''order-id.x'') \<and>
    jsonSubColumnIndexExprFormat sub ''Int64'' = JSONSubColumnIndexExpr ''body'' ''order-id.x'' ''Int64''"
  by (rule index_expr_round_trip) simp_all

end
