(* ===== verification/Fingerprint.thy ===== *)
theory Fingerprint
  imports Sampling "HOL-Library.Char_ord" "HOL-Library.List_Lexorder"
begin

text \<open>
  Fingerprints of resources (utils/fingerprint): the hierarchy of dimension labels, the identifier of
  a set of attributes in it, the synonyms of a label, and the hash that completes a fingerprint. A map
  of attributes is a partial function; the order in which the language ranges over it is a list. The
  results: the hash does not depend on that order and hashes an unambiguous text, the two walks over
  the hierarchy find what they look for, and a part of the shipped hierarchy is never used.
\<close>

section \<open>Hierarchies (fingerprint.go)\<close>

datatype DimensionHierarchyNode =
  Node (labels: "string list") (subHierachies: "DimensionHierarchyNode list")

text \<open>\<open>for _, x := range xs { if p(x) { ...; break } }\<close> over results: the first that is not empty.\<close>

definition first_nonempty :: "'a list list \<Rightarrow> 'a list" where
  "first_nonempty xss = (case find (\<lambda>xs. xs \<noteq> []) xss of None \<Rightarrow> [] | Some xs \<Rightarrow> xs)"

fun Identifier :: "(string \<rightharpoonup> 'v) \<Rightarrow> DimensionHierarchyNode \<Rightarrow> (string \<times> 'v) list" where
  "Identifier attributes (Node ls subs) =
     (case find (\<lambda>l. attributes l \<noteq> None) ls of
        None \<Rightarrow> []
      | Some l \<Rightarrow> (case attributes l of None \<Rightarrow> [] | Some lVal \<Rightarrow> [(l, lVal)]))
     @ first_nonempty (map (Identifier attributes) subs)"

fun Synonyms :: "string \<Rightarrow> DimensionHierarchyNode \<Rightarrow> string list" where
  "Synonyms attribute (Node ls subs) =
     (if attribute \<in> set ls then ls else first_nonempty (map (Synonyms attribute) subs))"

definition ResourceHierarchy :: DimensionHierarchyNode where
  "ResourceHierarchy = Node [''cloud.provider'']
    [Node [''cloud.account.id'']
       [Node [''gcp.project'']
          [Node [''cloud.region'', ''aws.region'']
             [Node [''cloud.platform'', ''source_type'']
                [Node [''k8s.cluster.name'', ''k8s.cluster.uid'', ''aws.ecs.cluster.arn'']
                   [Node [''service.namespace'', ''k8s.namespace.name'', ''ec2.tag.service-group'']
                      [Node [''service.name'', ''cloudwatch.log.group.name'', ''k8s.deployment.name'',
                         ''k8s.deployment.uid'', ''k8s.statefulset.name'', ''k8s.statefulset.uid'',
                         ''k8s.daemonset.name'', ''k8s.daemonset.uid'', ''k8s.job.name'', ''k8s.job.uid'',
                         ''k8s.cronjob.name'', ''k8s.cronjob.uid'', ''faas.name'', ''ec2.tag.service'']
                         [Node [''deployment.environment'', ''ec2.tag.env-short'', ''ec2.tag.env'', ''env'']
                            [Node [''service.instance.id'', ''k8s.pod.name'', ''k8s.pod.uid'', ''aws.ecs.task.id'',
                               ''aws.ecs.task.arn'', ''cloudwatch.log.stream'', ''cloud.resource_id'',
                               ''faas.instance'', ''host.id'', ''host.name'', ''host.ip'', ''host'']
                               [Node [''k8s.container.name'', ''container.name'', ''container_name'']
                                  [Node [''component''] []]]]]],
                    Node [''cloud.availability_zone'']
                      [Node [''k8s.node.name'', ''k8s.node.uid'', ''host.id'', ''host.name'', ''host.ip'', ''host'']
                         [Node [''k8s.pod.name'', ''k8s.pod.uid'', ''aws.ecs.task.id'', ''aws.ecs.task.arn'']
                            [Node [''k8s.container.name'', ''container.name''] []]]]]]]]]]"

section \<open>Hash (hash.go)\<close>

definition offset64 :: "64 word" where "offset64 = 14695981039346656037"
definition prime64 :: "64 word" where "prime64 = 1099511628211"
definition separatorByte :: "8 word" where "separatorByte = 255"

definition hashAddByte :: "64 word \<Rightarrow> 8 word \<Rightarrow> 64 word" where
  "hashAddByte h b = (h XOR ucast b) * prime64"

fun hashAdd :: "64 word \<Rightarrow> string \<Rightarrow> 64 word" where
  "hashAdd h [] = h"
| "hashAdd h (c # s) = hashAdd ((h XOR ucast (of_char c :: 8 word)) * prime64) s"

text \<open>
  \<open>printed\<close> is the text of a value under the verb \<open>%v\<close>; \<open>order\<close> is the order in which the map is
  ranged over.
\<close>

definition FingerprintHash :: "('v \<Rightarrow> string) \<Rightarrow> string list \<Rightarrow> (string \<rightharpoonup> 'v) \<Rightarrow> 64 word" where
  "FingerprintHash printed order attribs =
     (if order = [] then offset64
      else foldl (\<lambda>total k.
             (let s1 = hashAdd total k;
                  s2 = hashAddByte s1 separatorByte;
                  s3 = hashAdd s2 (case attribs k of None \<Rightarrow> [] | Some v \<Rightarrow> printed v)
              in hashAddByte s3 separatorByte)) offset64 (sort order))"

definition CalculateFingerprint ::
    "('v \<Rightarrow> string) \<Rightarrow> ('v \<Rightarrow> string) \<Rightarrow> string list \<Rightarrow> (string \<rightharpoonup> 'v) \<Rightarrow> DimensionHierarchyNode \<Rightarrow> string" where
  "CalculateFingerprint printed printedS order attributes hierarchy =
     join '';'' (map (\<lambda>(l, v). l @ ''='' @ printedS v) (Identifier attributes hierarchy)
       @ [''hash='' @ show_nat (unat (FingerprintHash printed order attributes))])"

section \<open>The hash\<close>

definition iterates :: "string list \<Rightarrow> (string \<rightharpoonup> 'v) \<Rightarrow> bool" where
  "iterates order m \<longleftrightarrow> distinct order \<and> set order = dom m"

abbreviation separator :: char where "separator \<equiv> CHR 0xFF"

text \<open>The text that is hashed: the attributes in the order of their names.\<close>

fun pairs_text :: "(string \<times> string) list \<Rightarrow> string" where
  "pairs_text [] = []"
| "pairs_text ((k, v) # ps) = k @ separator # v @ separator # pairs_text ps"

definition attributes_text :: "('v \<Rightarrow> string) \<Rightarrow> (string \<rightharpoonup> 'v) \<Rightarrow> string" where
  "attributes_text printed m =
     pairs_text (map (\<lambda>k. (k, case m k of None \<Rightarrow> [] | Some v \<Rightarrow> printed v)) (sorted_list_of_set (dom m)))"

definition unambiguous :: "('v \<Rightarrow> string) \<Rightarrow> (string \<rightharpoonup> 'v) \<Rightarrow> bool" where
  "unambiguous printed m \<longleftrightarrow> (\<forall>k v. m k = Some v \<longrightarrow> separator \<notin> set k \<and> separator \<notin> set (printed v))"

definition fnv_from :: "64 word \<Rightarrow> 8 word list \<Rightarrow> 64 word" where
  "fnv_from h bs = fold (\<lambda>b h. (h XOR ucast b) * 1099511628211) bs h"

lemma fnv_from_append: "fnv_from h (xs @ ys) = fnv_from (fnv_from h xs) ys"
  by (simp add: fnv_from_def)

lemma hashAdd_fnv: "hashAdd h s = fnv_from h (map of_char s)"
  by (induction h s rule: hashAdd.induct) (simp_all add: fnv_from_def prime64_def)

lemma hashAddByte_fnv: "hashAddByte h separatorByte = fnv_from h (map of_char [separator])"
  by (simp add: hashAddByte_def fnv_from_def prime64_def separatorByte_def)

lemma pairs_hash:
  "foldl (\<lambda>total k. hashAddByte (hashAdd (hashAddByte (hashAdd total k) separatorByte) (f k)) separatorByte) h ks =
     fnv_from h (map of_char (pairs_text (map (\<lambda>k. (k, f k)) ks)))"
proof (induction ks arbitrary: h)
  case (Cons k ks)
  have "map of_char (pairs_text (map (\<lambda>k. (k, f k)) (k # ks))) =
      map of_char k @ map of_char [separator] @ map of_char (f k) @ map of_char [separator]
        @ (map of_char (pairs_text (map (\<lambda>k. (k, f k)) ks)) :: 8 word list)" by simp
  then show ?case using Cons by (simp only: foldl.simps fnv_from_append hashAdd_fnv hashAddByte_fnv)
qed (simp add: fnv_from_def)

lemma sort_order: "iterates order m \<Longrightarrow> sort order = sorted_list_of_set (dom m)"
  unfolding iterates_def by (metis sorted_list_of_set_sort_remdups distinct_remdups_id)

lemma FingerprintHash_text:
  assumes "iterates order m"
  shows "FingerprintHash printed order m = fnv64a (map of_char (attributes_text printed m))"
proof (cases "order = []")
  case True
  then have "dom m = {}" using assms by (simp add: iterates_def)
  then show ?thesis using True by (simp add: FingerprintHash_def attributes_text_def fnv64a_def offset64_def)
next
  case False
  have "fnv64a bs = fnv_from offset64 bs" for bs by (simp add: fnv64a_def fnv_from_def offset64_def)
  then show ?thesis using False
    by (simp add: FingerprintHash_def Let_def pairs_hash attributes_text_def sort_order [OF assms])
qed

lemma up_to_separator:
  "c \<notin> set k \<Longrightarrow> c \<notin> set k' \<Longrightarrow> k @ c # r = k' @ c # r' \<longleftrightarrow> k = k' \<and> r = r'"
proof (induction k arbitrary: k')
  case Nil
  then show ?case by (cases k') auto
next
  case (Cons x k)
  then show ?case by (cases k') auto
qed

lemma pairs_text_inject:
  assumes "\<forall>(k, v) \<in> set ps. separator \<notin> set k \<and> separator \<notin> set v"
    and "\<forall>(k, v) \<in> set qs. separator \<notin> set k \<and> separator \<notin> set v"
    and "pairs_text ps = pairs_text qs"
  shows "ps = qs"
  using assms
proof (induction ps arbitrary: qs)
  case Nil
  then show ?case by (cases qs rule: pairs_text.cases) auto
next
  case (Cons p ps)
  obtain k v where p: "p = (k, v)" by (cases p)
  obtain k' v' qs' where qs: "qs = (k', v') # qs'" using Cons.prems(3) p by (cases qs rule: pairs_text.cases) auto
  have "k @ separator # (v @ separator # pairs_text ps) = k' @ separator # (v' @ separator # pairs_text qs')"
    using Cons.prems(3) p qs by simp
  then have "k = k'" "v @ separator # pairs_text ps = v' @ separator # pairs_text qs'"
    using Cons.prems(1,2) p qs by (auto simp: up_to_separator)
  moreover from this have "v = v'" "pairs_text ps = pairs_text qs'"
    using Cons.prems(1,2) p qs by (auto simp: up_to_separator)
  ultimately show ?case using Cons p qs by auto
qed

text \<open>
  The hash of a set of attributes is well defined: whatever the order in which the map is ranged
  over, it is the FNV-1a hash of one text, and this text determines the names and the printed values
  when they do not contain the separator, a byte that no text in UTF-8 has.
\<close>

theorem fingerprint_hash_canonical:
  assumes "iterates order m" and "iterates order' m'"
    and "unambiguous printed m" and "unambiguous printed m'"
  shows "FingerprintHash printed order m = fnv64a (map of_char (attributes_text printed m)) \<and>
    (attributes_text printed m = attributes_text printed m' \<longleftrightarrow>
      (\<lambda>k. map_option printed (m k)) = (\<lambda>k. map_option printed (m' k)))"
proof -
  let ?ps = "\<lambda>m. map (\<lambda>k. (k, case m k of None \<Rightarrow> [] | Some v \<Rightarrow> printed v)) (sorted_list_of_set (dom m))"
  have fin: "finite (dom m)" "finite (dom m')" using assms(1,2) by (metis iterates_def List.finite_set)+
  have clean: "\<forall>(k, v) \<in> set (?ps m). separator \<notin> set k \<and> separator \<notin> set v"
    "\<forall>(k, v) \<in> set (?ps m'). separator \<notin> set k \<and> separator \<notin> set v"
    using assms(3,4) fin by (auto simp: unambiguous_def)
  have "(\<lambda>k. map_option printed (m k)) = (\<lambda>k. map_option printed (m' k))"
    if "attributes_text printed m = attributes_text printed m'"
  proof -
    have eq: "?ps m = ?ps m'" using that pairs_text_inject [OF clean] by (simp add: attributes_text_def)
    then have "map fst (?ps m) = map fst (?ps m')" by simp
    then have dom: "dom m = dom m'" using fin by (simp add: comp_def) (metis set_sorted_list_of_set)
    show ?thesis
    proof
      fix k
      show "map_option printed (m k) = map_option printed (m' k)"
        using eq fin dom by (cases "m k"; cases "m' k") (auto simp: domIff dest!: bspec [where x = k])
    qed
  qed
  moreover have "attributes_text printed m = attributes_text printed m'"
    if eq: "(\<lambda>k. map_option printed (m k)) = (\<lambda>k. map_option printed (m' k))"
  proof -
    have "m k = None \<longleftrightarrow> m' k = None" "(case m k of None \<Rightarrow> [] | Some v \<Rightarrow> printed v) = (case m' k of None \<Rightarrow> [] | Some v \<Rightarrow> printed v)" for k
      using fun_cong [OF eq, of k] by (auto split: option.splits)
    then show ?thesis by (simp add: attributes_text_def dom_def)
  qed
  ultimately show ?thesis using FingerprintHash_text [OF assms(1)] by blast
qed

theorem fingerprint_hash_canonical_witness:
  "FingerprintHash (\<lambda>v. v) [''b'', ''a''] [''a'' \<mapsto> ''1'', ''b'' \<mapsto> ''2''] =
      fnv64a (map of_char (attributes_text (\<lambda>v. v) [''a'' \<mapsto> ''1'', ''b'' \<mapsto> ''2''])) \<and>
    (attributes_text (\<lambda>v. v) [''a'' \<mapsto> ''1'', ''b'' \<mapsto> ''2''] = attributes_text (\<lambda>v. v) [''ab'' \<mapsto> ''12''] \<longleftrightarrow>
      (\<lambda>k. map_option (\<lambda>v. v) ([''a'' \<mapsto> ''1'', ''b'' \<mapsto> ''2''] k)) = (\<lambda>k. map_option (\<lambda>v. v) ([''ab'' \<mapsto> ''12''] k)))"
  by (rule fingerprint_hash_canonical [of _ _ "[''ab'']"]) (auto simp: iterates_def unambiguous_def split: if_splits)

section \<open>The walks over a hierarchy\<close>

fun tree_labels :: "DimensionHierarchyNode \<Rightarrow> string set" where
  "tree_labels (Node ls subs) = set ls \<union> (\<Union>h \<in> set subs. tree_labels h)"

text \<open>The nodes of a hierarchy in the order of a depth-first walk.\<close>

fun preorder :: "DimensionHierarchyNode \<Rightarrow> string list list" where
  "preorder (Node ls subs) = ls # concat (map preorder subs)"

lemma first_nonempty_Nil [simp]: "first_nonempty [] = []"
  by (simp add: first_nonempty_def)

lemma first_nonempty_Cons [simp]: "first_nonempty (xs # xss) = (if xs \<noteq> [] then xs else first_nonempty xss)"
  by (simp add: first_nonempty_def)

lemma first_nonempty_empty: "first_nonempty xss = [] \<longleftrightarrow> (\<forall>xs \<in> set xss. xs = [])"
  by (induction xss) auto

lemma set_first_nonempty: "set (first_nonempty xss) \<subseteq> (\<Union>xs \<in> set xss. set xs)"
  by (induction xss) auto

definition own :: "(string \<rightharpoonup> 'v) \<Rightarrow> string list \<Rightarrow> (string \<times> 'v) list" where
  "own attributes ls = (case find (\<lambda>l. attributes l \<noteq> None) ls of
     None \<Rightarrow> [] | Some l \<Rightarrow> (case attributes l of None \<Rightarrow> [] | Some lVal \<Rightarrow> [(l, lVal)]))"

lemma Identifier_own: "Identifier m (Node ls subs) = own m ls @ first_nonempty (map (Identifier m) subs)"
  by (simp add: own_def)

lemma own_Cons: "own m (l # ls) = (case m l of None \<Rightarrow> own m ls | Some v \<Rightarrow> [(l, v)])"
  by (simp add: own_def split: option.splits)

lemma set_own: "set (own m ls) \<subseteq> {(l, v). l \<in> set ls \<and> m l = Some v}"
  by (induction ls) (auto simp: own_def [of m "[]"] own_Cons split: option.splits)

lemma own_empty: "own m ls = [] \<longleftrightarrow> set ls \<inter> dom m = {}"
  by (induction ls) (auto simp: own_def [of m "[]"] own_Cons split: option.splits)

declare Identifier.simps [simp del]

lemma Identifier_empty: "Identifier m h = [] \<longleftrightarrow> tree_labels h \<inter> dom m = {}"
proof (induction h)
  case (Node ls subs)
  then show ?case by (simp add: Identifier_own own_empty first_nonempty_empty) blast
qed

lemma set_Identifier: "set (Identifier m h) \<subseteq> {(l, v). l \<in> tree_labels h \<and> m l = Some v}"
proof (induction h)
  case (Node ls subs)
  then show ?case using set_own [of m ls] set_first_nonempty [of "map (Identifier m) subs"]
    by (fastforce simp: Identifier_own)
qed

lemma find_append: "find P (xs @ ys) = (case find P xs of None \<Rightarrow> find P ys | Some x \<Rightarrow> Some x)"
  by (induction xs) auto

lemma Synonyms_preorder:
  "Synonyms a h = (case find (\<lambda>ls. a \<in> set ls) (preorder h) of None \<Rightarrow> [] | Some ls \<Rightarrow> ls)"
proof (induction h)
  case (Node ls subs)
  have found: "find (\<lambda>ls. a \<in> set ls) xss = Some ys \<Longrightarrow> ys \<noteq> []" for xss ys
    by (auto simp: find_Some_iff)
  have "first_nonempty (map (Synonyms a) hs) =
      (case find (\<lambda>ls. a \<in> set ls) (concat (map preorder hs)) of None \<Rightarrow> [] | Some ls \<Rightarrow> ls)" if "set hs \<subseteq> set subs" for hs
    using that Node by (induction hs) (auto simp: find_append dest: found split: option.splits)
  then show ?case by simp
qed

text \<open>
  The walks over a hierarchy find what they look for: the identifier of a set of attributes is
  empty exactly when no label of the hierarchy is among them, and otherwise holds labels of the
  hierarchy with their values only; the synonyms of a label are the labels of the first node, in
  the order of a depth-first walk, that has it, and there are none if no node has it.
\<close>

theorem hierarchy_walks:
  "(Identifier m h = [] \<longleftrightarrow> tree_labels h \<inter> dom m = {}) \<and>
   set (Identifier m h) \<subseteq> {(l, v). l \<in> tree_labels h \<and> m l = Some v} \<and>
   Synonyms a h = (case find (\<lambda>ls. a \<in> set ls) (preorder h) of None \<Rightarrow> [] | Some ls \<Rightarrow> ls)"
  by (intro conjI Identifier_empty set_Identifier Synonyms_preorder)

text \<open>
  The node oriented view of the shipped hierarchy is cut off after the node: no identifier holds
  both the name of a node and a pod or a container, since these labels belong to the service
  oriented view too, which goes first.
\<close>

theorem node_view_cut_off:
  assumes "(''k8s.node.name'', v) \<in> set (Identifier m ResourceHierarchy)"
    and "l \<in> set [''k8s.pod.name'', ''k8s.pod.uid'', ''aws.ecs.task.id'', ''aws.ecs.task.arn'', ''k8s.container.name'', ''container.name'']"
  shows "(l, w) \<notin> set (Identifier m ResourceHierarchy)"
proof
  assume l: "(l, w) \<in> set (Identifier m ResourceHierarchy)"
  obtain a1 a2 a3 a4 a5 a6 service node where rh:
    "ResourceHierarchy = Node a1 [Node a2 [Node a3 [Node a4 [Node a5 [Node a6 [service, node]]]]]]"
    and labels: "''k8s.node.name'' \<notin> set a1 \<union> set a2 \<union> set a3 \<union> set a4 \<union> set a5 \<union> set a6 \<union> tree_labels service"
    "l \<in> tree_labels service"
    using assms(2) by (rule_tac that) (unfold ResourceHierarchy_def, rule refl, auto)
  have "m l = Some w" using set_Identifier l by fastforce
  then have "Identifier m service \<noteq> []" using labels(2) Identifier_empty by fastforce
  then have "Identifier m ResourceHierarchy =
      own m a1 @ own m a2 @ own m a3 @ own m a4 @ own m a5 @ own m a6 @ Identifier m service"
    by (simp add: rh Identifier_own)
  then show False
    using assms(1) labels(1) set_Identifier [of m service] set_own [of m a1] set_own [of m a2] set_own [of m a3]
      set_own [of m a4] set_own [of m a5] set_own [of m a6] by fastforce
qed

theorem node_view_cut_off_witness:
  "(''k8s.pod.name'', ''p'') \<notin> set (Identifier [''k8s.node.name'' \<mapsto> ''n''] ResourceHierarchy)"
  by (rule node_view_cut_off [where v = "''n''"]) (simp_all add: ResourceHierarchy_def Identifier_own own_def)

end
