(* ===== verification/SpanCache.thy ===== *)
theory SpanCache
  imports Otel_Prelude
begin

text \<open>
  The cache of dimensions of the span metrics processor (internal/cache/cache.go): an LRU cache and
  the items it has evicted. The LRU cache is a third-party package: a record of functions, whose
  documented behaviour is the locale \<open>lru_provider\<close>. The contract the processor relies on, that an
  item stays known until the evicted items are removed, is the locale \<open>dimension_cache\<close>; the
  operations of the source fulfil it whenever the package keeps its promise.
\<close>

section \<open>The package\<close>

text \<open>\<open>Add\<close> and \<open>Purge\<close> report the items for which the package calls the eviction callback.\<close>

record ('q, 'k, 'w) lru =
  lruNew :: "nat \<Rightarrow> 'q"
  lruGet :: "'k \<Rightarrow> 'q \<Rightarrow> 'w option \<times> 'q"
  lruAdd :: "'k \<Rightarrow> 'w \<Rightarrow> 'q \<Rightarrow> ('k \<times> 'w) option \<times> 'q"
  lruContains :: "'k \<Rightarrow> 'q \<Rightarrow> bool"
  lruLen :: "'q \<Rightarrow> nat"
  lruPurge :: "'q \<Rightarrow> ('k \<times> 'w) list \<times> 'q"

locale lru_provider =
  fixes L :: "('q, 'k, 'w) lru"
    and content :: "'q \<Rightarrow> ('k \<rightharpoonup> 'w)"
    and valid :: "nat \<Rightarrow> 'q \<Rightarrow> bool"
  assumes new: "0 < n \<Longrightarrow> valid n (lruNew L n) \<and> content (lruNew L n) = Map.empty"
    and get: "valid n q \<Longrightarrow> lruGet L k q = (r, q') \<Longrightarrow> valid n q' \<and> r = content q k \<and> content q' = content q"
    and add_room: "valid n q \<Longrightarrow> lruAdd L k w q = (None, q') \<Longrightarrow> valid n q' \<and> content q' = (content q)(k \<mapsto> w)"
    and add_evict: "valid n q \<Longrightarrow> lruAdd L k w q = (Some (k', w'), q') \<Longrightarrow>
      valid n q' \<and> k' \<noteq> k \<and> content q k' = Some w' \<and> content q' = ((content q)(k \<mapsto> w))(k' := None)"
    and contains: "valid n q \<Longrightarrow> lruContains L k q \<longleftrightarrow> content q k \<noteq> None"
    and len: "valid n q \<Longrightarrow> finite (dom (content q)) \<and> card (dom (content q)) \<le> n"
    and size: "valid n q \<Longrightarrow> lruLen L q = card (dom (content q))"
    and purge: "valid n q \<Longrightarrow> lruPurge L q = (xs, q') \<Longrightarrow> valid n q' \<and> content q' = Map.empty"

section \<open>The cache (cache.go)\<close>

record ('q, 'k, 'w) Cache =
  lru :: 'q
  evictedItems :: "'k \<rightharpoonup> 'w"

definition NewCache :: "('q, 'k, 'w) lru \<Rightarrow> int \<Rightarrow> ('q, 'k, 'w) Cache result" where
  "NewCache L n =
     (if n \<le> 0 then Inl ''Must provide a positive size''
      else Inr \<lparr>lru = lruNew L (nat n), evictedItems = Map.empty\<rparr>)"

definition RemoveEvictedItems :: "('q, 'k, 'w) Cache \<Rightarrow> ('q, 'k, 'w) Cache" where
  "RemoveEvictedItems c = c\<lparr>evictedItems := Map.empty\<rparr>"

definition Cache_Add :: "('q, 'k, 'w) lru \<Rightarrow> 'k \<Rightarrow> 'w \<Rightarrow> ('q, 'k, 'w) Cache \<Rightarrow> ('q, 'k, 'w) Cache" where
  "Cache_Add L key val c = (case lruAdd L key val (lru c) of (evicted, q) \<Rightarrow>
     c\<lparr>lru := q, evictedItems := (case evicted of None \<Rightarrow> evictedItems c | Some (k, w) \<Rightarrow> (evictedItems c)(k \<mapsto> w))\<rparr>)"

definition Cache_Get :: "('q, 'k, 'w) lru \<Rightarrow> 'k \<Rightarrow> ('q, 'k, 'w) Cache \<Rightarrow> 'w option \<times> ('q, 'k, 'w) Cache" where
  "Cache_Get L key c = (case lruGet L key (lru c) of
      (Some val, q) \<Rightarrow> (Some val, c\<lparr>lru := q\<rparr>)
    | (None, q) \<Rightarrow>
        (case evictedItems c key of
           None \<Rightarrow> (None, c\<lparr>lru := q\<rparr>)
         | Some val \<Rightarrow> (Some val, Cache_Add L key val (c\<lparr>lru := q, evictedItems := (evictedItems c)(key := None)\<rparr>))))"

definition Cache_Contains :: "('q, 'k, 'w) lru \<Rightarrow> 'k \<Rightarrow> ('q, 'k, 'w) Cache \<Rightarrow> bool" where
  "Cache_Contains L key c = lruContains L key (lru c)"

definition Cache_Len :: "('q, 'k, 'w) lru \<Rightarrow> ('q, 'k, 'w) Cache \<Rightarrow> nat" where
  "Cache_Len L c = lruLen L (lru c)"

definition Cache_Purge :: "('q, 'k, 'w) lru \<Rightarrow> ('q, 'k, 'w) Cache \<Rightarrow> ('q, 'k, 'w) Cache" where
  "Cache_Purge L c = (case lruPurge L (lru c) of (evicted, q) \<Rightarrow>
     RemoveEvictedItems (c\<lparr>lru := q, evictedItems := foldl (\<lambda>m (k, w). m(k \<mapsto> w)) (evictedItems c) evicted\<rparr>))"

section \<open>The contract of the cache\<close>

text \<open>
  \<open>known c\<close> are the items a client can still get, \<open>kept c\<close> the ones that survive the next removal of
  the evicted items.
\<close>

locale dimension_cache =
  fixes fetch :: "'k \<Rightarrow> 'c \<Rightarrow> 'w option \<times> 'c"
    and store :: "'k \<Rightarrow> 'w \<Rightarrow> 'c \<Rightarrow> 'c"
    and member :: "'k \<Rightarrow> 'c \<Rightarrow> bool"
    and forget :: "'c \<Rightarrow> 'c"
    and clear :: "'c \<Rightarrow> 'c"
    and sound :: "nat \<Rightarrow> 'c \<Rightarrow> bool"
    and known :: "'c \<Rightarrow> ('k \<rightharpoonup> 'w)"
    and kept :: "'c \<Rightarrow> ('k \<rightharpoonup> 'w)"
  assumes fetch: "sound n c \<Longrightarrow> fetch k c = (r, c') \<Longrightarrow> sound n c' \<and> r = known c k \<and> known c' = known c"
    and store: "sound n c \<Longrightarrow> sound n (store k w c) \<and> known (store k w c) = (known c)(k \<mapsto> w)"
    and member: "sound n c \<Longrightarrow> member k c \<longleftrightarrow> kept c k \<noteq> None"
    and kept_known: "sound n c \<Longrightarrow> kept c \<subseteq>\<^sub>m known c"
    and kept_bound: "sound n c \<Longrightarrow> finite (dom (kept c)) \<and> card (dom (kept c)) \<le> n"
    and forget: "sound n c \<Longrightarrow> sound n (forget c) \<and> known (forget c) = kept c \<and> kept (forget c) = kept c"
    and clear: "sound n c \<Longrightarrow> sound n (clear c) \<and> known (clear c) = Map.empty"
begin

text \<open>Getting a list of known keys, one after the other, as the processor does when it collects.\<close>

lemma fetch_known:
  assumes "sound n c" and "known c k = Some w"
  obtains c' where "fetch k c = (Some w, c')" and "sound n c'" and "known c' = known c"
  using assms fetch [OF assms(1), of k] by (cases "fetch k c") auto

text \<open>\<open>if _, has := Get(k); !has { Add(k, w) }\<close> makes \<open>k\<close> known and forgets nothing.\<close>

lemma fetch_or_store:
  assumes "sound n c" and "fetch k c = (r, c1)" and "c2 = (case r of None \<Rightarrow> store k w c1 | Some _ \<Rightarrow> c1)"
  shows "sound n c2" and "known c2 = (case known c k of None \<Rightarrow> (known c)(k \<mapsto> w) | Some _ \<Rightarrow> known c)"
  using fetch [OF assms(1,2)] store [of n c1 k w] assms(3) by (auto split: option.splits)

end

definition Cache_known :: "('q \<Rightarrow> ('k \<rightharpoonup> 'w)) \<Rightarrow> ('q, 'k, 'w) Cache \<Rightarrow> ('k \<rightharpoonup> 'w)" where
  "Cache_known content c = evictedItems c ++ content (lru c)"

context lru_provider
begin

lemma Cache_Add_known:
  assumes "valid n (lru c)"
  shows "valid n (lru (Cache_Add L k w c)) \<and> Cache_known content (Cache_Add L k w c) = (Cache_known content c)(k \<mapsto> w)"
proof -
  obtain e q where e: "lruAdd L k w (lru c) = (e, q)" by (cases "lruAdd L k w (lru c)")
  show ?thesis
  proof (cases e)
    case None
    with add_room [OF assms] e show ?thesis by (simp add: Cache_Add_def Cache_known_def)
  next
    case (Some p)
    obtain k' w' where p: "p = (k', w')" by (cases p)
    have ev: "valid n q" "k' \<noteq> k" "content (lru c) k' = Some w'" "content q = ((content (lru c))(k \<mapsto> w))(k' := None)"
      using add_evict [OF assms] e Some p by auto
    have "(evictedItems c)(k' \<mapsto> w') ++ content q = (evictedItems c ++ content (lru c))(k \<mapsto> w)"
      using ev(2,3) by (auto simp: fun_eq_iff map_add_def ev(4) split: option.splits)
    with e Some p ev(1) show ?thesis by (simp add: Cache_Add_def Cache_known_def)
  qed
qed

lemma Cache_Get_known:
  assumes "valid n (lru c)" and "Cache_Get L k c = (r, c')"
  shows "valid n (lru c') \<and> r = Cache_known content c k \<and> Cache_known content c' = Cache_known content c"
proof -
  obtain v q where v: "lruGet L k (lru c) = (v, q)" by (cases "lruGet L k (lru c)")
  have q: "valid n q" "v = content (lru c) k" "content q = content (lru c)" using get [OF assms(1) v] by auto
  consider (hit) w where "v = Some w" | (miss) "v = None" "evictedItems c k = None"
    | (revived) w where "v = None" "evictedItems c k = Some w" by (cases v; cases "evictedItems c k") auto
  then show ?thesis
  proof cases
    case hit
    with q(2) have "content (lru c) k = Some w" by simp
    moreover have "r = Some w" "c' = c\<lparr>lru := q\<rparr>" using assms(2) v hit by (auto simp: Cache_Get_def)
    ultimately show ?thesis using q(1,3) by (simp add: Cache_known_def map_add_def)
  next
    case miss
    with q(2) have "content (lru c) k = None" by simp
    moreover have "r = None" "c' = c\<lparr>lru := q\<rparr>" using assms(2) v miss by (auto simp: Cache_Get_def)
    ultimately show ?thesis using q(1,3) miss by (simp add: Cache_known_def map_add_def)
  next
    case revived
    let ?c = "c\<lparr>lru := q, evictedItems := (evictedItems c)(k := None)\<rparr>"
    have c': "r = Some w" "c' = Cache_Add L k w ?c" using assms(2) v revived by (auto simp: Cache_Get_def)
    have "Cache_known content ?c = (Cache_known content c)(k := None)"
      using revived q by (auto simp: fun_eq_iff Cache_known_def map_add_def split: option.splits)
    moreover have "Cache_known content c k = Some w" using revived q by (simp add: Cache_known_def map_add_def)
    ultimately show ?thesis using Cache_Add_known [of n ?c k w] q(1) c' by (simp add: fun_upd_idem)
  qed
qed

end

sublocale lru_provider \<subseteq> dims: dimension_cache "Cache_Get L" "Cache_Add L" "Cache_Contains L" RemoveEvictedItems
    "Cache_Purge L" "\<lambda>n c. valid n (lru c)" "Cache_known content" "\<lambda>c. content (lru c)"
proof unfold_locales
  fix n and c :: "('q, 'k, 'w) Cache"
  assume v: "valid n (lru c)"
  show "content (lru c) \<subseteq>\<^sub>m Cache_known content c" by (auto simp: map_le_def Cache_known_def map_add_def)
  show "Cache_Contains L k c \<longleftrightarrow> content (lru c) k \<noteq> None" for k using contains [OF v] by (simp add: Cache_Contains_def)
  show "finite (dom (content (lru c))) \<and> card (dom (content (lru c))) \<le> n" using len [OF v] .
  show "valid n (lru (RemoveEvictedItems c)) \<and> Cache_known content (RemoveEvictedItems c) = content (lru c) \<and>
      content (lru (RemoveEvictedItems c)) = content (lru c)"
    using v by (simp add: RemoveEvictedItems_def Cache_known_def)
  obtain xs q where p: "lruPurge L (lru c) = (xs, q)" by (cases "lruPurge L (lru c)")
  show "valid n (lru (Cache_Purge L c)) \<and> Cache_known content (Cache_Purge L c) = Map.empty"
    using purge [OF v p] p by (simp add: Cache_Purge_def RemoveEvictedItems_def Cache_known_def)
qed (use Cache_Get_known Cache_Add_known in auto)

section \<open>An LRU cache as a list\<close>

text \<open>The most recent item first, with the capacity.\<close>

type_synonym ('k, 'w) lru_list = "nat \<times> ('k \<times> 'w) list"

definition list_lru :: "(('k, 'w) lru_list, 'k, 'w) lru" where
  "list_lru = \<lparr>lruNew = (\<lambda>n. (n, [])),
     lruGet = (\<lambda>k (n, xs). case map_of xs k of None \<Rightarrow> (None, (n, xs))
        | Some w \<Rightarrow> (Some w, (n, (k, w) # filter (\<lambda>p. fst p \<noteq> k) xs))),
     lruAdd = (\<lambda>k w (n, xs). let ys = filter (\<lambda>p. fst p \<noteq> k) xs in
        if length ys < n then (None, (n, (k, w) # ys)) else (Some (last ys), (n, (k, w) # butlast ys))),
     lruContains = (\<lambda>k (n, xs). map_of xs k \<noteq> None),
     lruLen = (\<lambda>(n, xs). length xs),
     lruPurge = (\<lambda>(n, xs). (xs, (n, [])))\<rparr>"

definition list_content :: "('k, 'w) lru_list \<Rightarrow> ('k \<rightharpoonup> 'w)" where
  "list_content q = map_of (snd q)"

definition list_valid :: "nat \<Rightarrow> ('k, 'w) lru_list \<Rightarrow> bool" where
  "list_valid n q \<longleftrightarrow> 0 < n \<and> fst q = n \<and> length (snd q) \<le> n \<and> distinct (map fst (snd q))"

lemma map_of_other: "map_of (filter (\<lambda>p. fst p \<noteq> k) xs) = (map_of xs)(k := None)"
  by (induction xs) auto

lemma distinct_other: "distinct (map fst xs) \<Longrightarrow> distinct (map fst (filter P xs))"
  by (induction xs) auto

lemma map_of_butlast:
  assumes "ys \<noteq> []" and "distinct (map fst ys)"
  shows "map_of (butlast ys) = (map_of ys)(fst (last ys) := None)" and "map_of ys (fst (last ys)) = Some (snd (last ys))"
proof -
  have ys: "ys = butlast ys @ [last ys]" using assms(1) by simp
  have "fst (last ys) \<notin> fst ` set (butlast ys)"
    using assms(2) by (subst (asm) ys) (simp del: append_butlast_last_id)
  moreover have "map_of ys = [fst (last ys) \<mapsto> snd (last ys)] ++ map_of (butlast ys)"
    by (subst ys) (simp del: append_butlast_last_id add: map_of_append)
  ultimately show "map_of (butlast ys) = (map_of ys)(fst (last ys) := None)" "map_of ys (fst (last ys)) = Some (snd (last ys))"
    by (auto simp: fun_eq_iff map_add_def map_of_eq_None_iff split: option.splits)
qed

interpretation recent: lru_provider list_lru list_content list_valid
proof unfold_locales
  fix n :: nat
  assume "0 < n"
  then show "list_valid n (lruNew list_lru n) \<and> list_content (lruNew list_lru n) = Map.empty"
    by (simp add: list_lru_def list_valid_def list_content_def)
next
  fix n and q q' :: "('k, 'w) lru_list" and k r
  assume v: "list_valid n q" and g: "lruGet list_lru k q = (r, q')"
  obtain xs where q: "q = (n, xs)" "distinct (map fst xs)" "length xs \<le> n" "0 < n"
    using v by (cases q) (auto simp: list_valid_def)
  show "list_valid n q' \<and> r = list_content q k \<and> list_content q' = list_content q"
  proof (cases "map_of xs k")
    case None
    with g q show ?thesis by (auto simp: list_lru_def list_content_def list_valid_def)
  next
    case (Some w)
    then have "(k, w) \<in> set xs" by (rule map_of_SomeD)
    then have "length (filter (\<lambda>p. fst p \<noteq> k) xs) < length xs" by (intro length_filter_less) auto
    with Some g q show ?thesis
      by (auto simp: list_lru_def list_content_def list_valid_def distinct_other map_of_other)
  qed
next
  fix n and q q' :: "('k, 'w) lru_list" and k w
  assume v: "list_valid n q" and a: "lruAdd list_lru k w q = (None, q')"
  then show "list_valid n q' \<and> list_content q' = (list_content q)(k \<mapsto> w)"
    by (cases q) (auto simp: list_lru_def list_content_def list_valid_def Let_def distinct_other map_of_other split: if_splits)
next
  fix n and q q' :: "('k, 'w) lru_list" and k w k' w'
  assume v: "list_valid n q" and a: "lruAdd list_lru k w q = (Some (k', w'), q')"
  obtain xs where q: "q = (n, xs)" "distinct (map fst xs)" "length xs \<le> n" "0 < n"
    using v by (cases q) (auto simp: list_valid_def)
  let ?ys = "filter (\<lambda>p. fst p \<noteq> k) xs"
  have l: "last ?ys = (k', w')" "q' = (n, (k, w) # butlast ?ys)" "n \<le> length ?ys"
    using a q(1) by (auto simp: list_lru_def Let_def split: if_splits)
  have ys: "?ys \<noteq> []" "distinct (map fst ?ys)" "k \<notin> fst ` set ?ys" using l(3) q by (auto simp: distinct_other)
  have k': "k' \<noteq> k" using last_in_set [OF ys(1)] ys(3) unfolding l(1) by (metis fst_conv imageI)
  have len: "length ?ys = length xs" using l(3) q(3) length_filter_le [of "\<lambda>p. fst p \<noteq> k" xs] by linarith
  have "distinct (map fst (butlast ?ys))" using ys(2) by (simp add: map_butlast distinct_butlast)
  moreover have "k \<notin> fst ` set (butlast ?ys)" using ys(3) by (auto dest: in_set_butlastD)
  ultimately have "list_valid n q'" using l(2) q(3,4) len by (simp add: list_valid_def)
  moreover have "list_content q k' = Some w'"
    using map_of_butlast(2) [OF ys(1,2)] k' q(1) unfolding l(1) by (simp add: list_content_def map_of_other)
  moreover have "list_content q' = ((list_content q)(k \<mapsto> w))(k' := None)"
    using map_of_butlast(1) [OF ys(1,2)] k' q(1) unfolding l(1,2) by (auto simp: list_content_def map_of_other)
  ultimately show "list_valid n q' \<and> k' \<noteq> k \<and> list_content q k' = Some w' \<and>
      list_content q' = ((list_content q)(k \<mapsto> w))(k' := None)" using k' by blast
next
  fix n and q :: "('k, 'w) lru_list" and k
  assume "list_valid n q"
  then show "lruContains list_lru k q \<longleftrightarrow> list_content q k \<noteq> None"
    by (cases q) (simp add: list_lru_def list_content_def)
next
  fix n and q :: "('k, 'w) lru_list"
  assume "list_valid n q"
  then show "finite (dom (list_content q)) \<and> card (dom (list_content q)) \<le> n"
    by (auto simp: list_valid_def list_content_def dom_map_of_conv_image_fst finite_dom_map_of
        intro: order.trans [OF card_image_le] order.trans [OF card_length])
next
  fix n and q :: "('k, 'w) lru_list"
  assume "list_valid n q"
  then show "lruLen list_lru q = card (dom (list_content q))"
    using distinct_card [of "map fst (snd q)"]
    by (cases q) (auto simp: list_lru_def list_valid_def list_content_def dom_map_of_conv_image_fst)
next
  fix n and q q' :: "('k, 'w) lru_list" and xs
  assume "list_valid n q" and "lruPurge list_lru q = (xs, q')"
  then show "list_valid n q' \<and> list_content q' = Map.empty"
    by (cases q) (auto simp: list_lru_def list_content_def list_valid_def)
qed

end
