(* ===== verification/SpanMetrics.thy ===== *)
theory SpanMetrics
  imports Go_Float SpanCache "HOL-Library.AList" "HOL-Library.Multiset"
begin

text \<open>
  The span metrics processor (processor/o11yspanmetricsprocessor): it aggregates spans into latency
  histograms and call counters per service, operation and configured dimensions, and exports them
  on a ticker. This theory holds the model; the theorems are in \<open>SpanMetricsFacts\<close>.

  A Go map is an association list with distinct keys; where the order in which the language ranges
  over a map matters it is an argument. The attribute values of the OpenTelemetry packages, regular
  expressions, URLs, Unicode classes, exponential histograms and the LRU package are parameters.
\<close>

section \<open>Parameters\<close>

record ('v, 'r, 'h) smlib =
  Str :: "'v \<Rightarrow> string"
  AsString :: "'v \<Rightarrow> string"
  NewValueStr :: "string \<Rightarrow> 'v"
  KindString :: "nat \<Rightarrow> string"
  CodeString :: "nat \<Rightarrow> string"
  MustCompile :: "string \<Rightarrow> 'r option"
  MatchString :: "'r \<Rightarrow> string \<Rightarrow> bool"
  ParseHost :: "string \<Rightarrow> string option"
  Runes :: "string \<Rightarrow> string list"
  LetterOrDigit :: "string \<Rightarrow> bool"
  expNew :: 'h
  expUpdate :: "rat \<Rightarrow> 'h \<Rightarrow> 'h"
  goQuote :: "string \<Rightarrow> string"

section \<open>Spans\<close>

type_synonym TraceID = "8 word list"
type_synonym SpanID = "8 word list"
type_synonym Timestamp = "64 word"

text \<open>\<open>pcommon.Map\<close>, with \<open>Get\<close> as \<open>map_of\<close> and \<open>PutStr\<close>, \<open>PutEmpty\<close> as \<open>AList.update\<close>.\<close>

type_synonym 'v Map = "(string \<times> 'v) list"

text \<open>Kinds and status codes are 32-bit integers with named values.\<close>

definition SpanKindUnspecified :: nat where "SpanKindUnspecified = 0"
definition SpanKindInternal :: nat where "SpanKindInternal = 1"
definition SpanKindServer :: nat where "SpanKindServer = 2"
definition SpanKindClient :: nat where "SpanKindClient = 3"
definition SpanKindProducer :: nat where "SpanKindProducer = 4"
definition SpanKindConsumer :: nat where "SpanKindConsumer = 5"

record 'v span =
  traceID :: TraceID
  spanID :: SpanID
  spanName :: string
  kind :: nat
  statusCode :: nat
  start :: Timestamp
  finish :: Timestamp
  attributes :: "'v Map"

record 'v resourceSpans =
  resource :: "'v Map"
  scopeSpans :: "'v span list list"

text \<open>\<open>Timestamp.AsTime\<close> and \<open>NewTimestampFromTime\<close>, with times as nanoseconds since 1970.\<close>

definition AsTime :: "Timestamp \<Rightarrow> int" where
  "AsTime t = sint t"

definition NewTimestampFromTime :: "int \<Rightarrow> Timestamp" where
  "NewTimestampFromTime t = word_of_int t"

text \<open>\<open>Time.Truncate\<close> rounds down to a multiple of the duration since the year 1.\<close>

definition zeroTime :: int where "zeroTime = 62135596800 * 10 ^ 9"

definition Truncate :: "int \<Rightarrow> int \<Rightarrow> int" where
  "Truncate t d = (if d \<le> 0 then t else t - (t + zeroTime) mod d)"

definition Unix :: "int \<Rightarrow> int" where
  "Unix t = t div 10 ^ 9"

section \<open>Configuration (config.go)\<close>

definition delta :: string where "delta = ''AGGREGATION_TEMPORALITY_DELTA''"

definition defaultTimeBucketInterval :: int where "defaultTimeBucketInterval = 60 * 10 ^ 9"
definition defaultSkipSpansOlderThan :: int where "defaultSkipSpansOlderThan = 24 * 3600 * 10 ^ 9"

record Dimension =
  Name :: string
  Default :: "string option"

record ExcludePattern =
  PatternName :: string
  Pattern :: string

record Config =
  LatencyHistogramBuckets :: "int list option"
  Dimensions :: "Dimension list"
  ExcludePatterns :: "ExcludePattern list"
  DimensionsCacheSize :: int
  AggregationTemporality :: string
  skipSanitizeLabel :: bool
  TimeBucketInterval :: int
  EnableExpHistogram :: bool
  MaxServicesToTrack :: int
  MaxOperationsToTrackPerService :: int
  SkipSpansOlderThan :: int

definition isDelta :: "Config \<Rightarrow> bool" where
  "isDelta c \<longleftrightarrow> AggregationTemporality c = delta"

definition GetTimeBucketInterval :: "Config \<Rightarrow> int" where
  "GetTimeBucketInterval c = (if TimeBucketInterval c = 0 then defaultTimeBucketInterval else TimeBucketInterval c)"

definition GetSkipSpansOlderThan :: "Config \<Rightarrow> int" where
  "GetSkipSpansOlderThan c = (if SkipSpansOlderThan c \<le> 0 then defaultSkipSpansOlderThan else SkipSpansOlderThan c)"

section \<open>State (processor.go)\<close>

type_synonym metricKey = string

record 'v dimension =
  name :: string
  "value" :: "'v option"

record exemplarData =
  exTraceID :: TraceID
  exSpanID :: SpanID
  exValue :: rat

record histogramData =
  observed :: "64 word"
  total :: rat
  bucketCounts :: "64 word list"
  exemplarsData :: "exemplarData list"

record ('v, 'q, 'r, 'h) processorImp =
  instanceID :: string
  config :: Config
  dimensions :: "'v dimension list"
  expDimensions :: "'v dimension list"
  callDimensions :: "'v dimension list"
  dbCallDimensions :: "'v dimension list"
  externalCallDimensions :: "'v dimension list"
  startTimestamp :: Timestamp
  latencyBounds :: "rat list"
  histograms :: "(metricKey \<times> histogramData) list"
  expHistograms :: "(metricKey \<times> 'h) list"
  callHistograms :: "(metricKey \<times> histogramData) list"
  dbCallHistograms :: "(metricKey \<times> histogramData) list"
  externalCallHistograms :: "(metricKey \<times> histogramData) list"
  metricKeyToDimensions :: "('q, metricKey, 'v Map) Cache"
  expHistogramKeyToDimensions :: "('q, metricKey, 'v Map) Cache"
  callMetricKeyToDimensions :: "('q, metricKey, 'v Map) Cache"
  dbCallMetricKeyToDimensions :: "('q, metricKey, 'v Map) Cache"
  externalCallMetricKeyToDimensions :: "('q, metricKey, 'v Map) Cache"
  attrsCardinality :: "(string \<times> string list) list"
  excludePatternRegex :: "(string \<times> 'r) list"
  serviceToOperations :: "(string \<times> string list) list"

text \<open>The package's \<open>count\<close> and \<open>sum\<close> of a histogram are \<open>observed\<close> and \<open>total\<close>.\<close>

definition serviceNameKey :: string where "serviceNameKey = ''service.name''"
definition operationKey :: string where "operationKey = ''operation''"
definition spanKindKey :: string where "spanKindKey = ''span.kind''"
definition statusCodeKey :: string where "statusCodeKey = ''status.code''"
definition tagHTTPStatusCode :: string where "tagHTTPStatusCode = ''http.status_code''"
definition tagHTTPStatusCodeStable :: string where "tagHTTPStatusCodeStable = ''http.response.status_code''"
definition metricKeySeparator :: string where "metricKeySeparator = [CHR 0x00]"
definition o11yID :: string where "o11yID = ''o11y.collector.id''"
definition resourcePrefix :: string where "resourcePrefix = ''resource_''"
definition overflowServiceName :: string where "overflowServiceName = ''overflow_service''"
definition overflowOperation :: string where "overflowOperation = ''overflow_operation''"

definition defaultLatencyHistogramBucketsMs :: "rat list" where
  "defaultLatencyHistogramBucketsMs = [2, 4, 6, 8, 10, 50, 100, 200, 400, 800, 1000, 1400, 2000, 5000, 10000, 15000]"

section \<open>Construction\<close>

text \<open>Conversion of a signed or unsigned 64-bit integer to \<open>float64\<close>.\<close>

definition float64 :: "int \<Rightarrow> rat" where
  "float64 i = round_prec 53 (of_int i)"

definition durationToMillis :: "int \<Rightarrow> rat" where
  "durationToMillis d = float_div (float64 d) (float64 (10 ^ 6))"

definition mapDurationsToMillis :: "int list \<Rightarrow> rat list" where
  "mapDurationsToMillis vs = map durationToMillis vs"

definition newDimensions :: "('v, 'r, 'h) smlib \<Rightarrow> Dimension list \<Rightarrow> 'v dimension list" where
  "newDimensions A cfgDims = map (\<lambda>d. \<lparr>name = Name d, value = map_option (NewValueStr A) (Default d)\<rparr>) cfgDims"

definition sanitizeRune :: "('v, 'r, 'h) smlib \<Rightarrow> string \<Rightarrow> string" where
  "sanitizeRune A r = (if LetterOrDigit A r then r else ''_'')"

definition HasPrefix :: "string \<Rightarrow> string \<Rightarrow> bool" where
  "HasPrefix s p \<longleftrightarrow> take (length p) s = p"

definition isDigit :: "char \<Rightarrow> bool" where
  "isDigit c \<longleftrightarrow> (48 :: nat) \<le> of_char c \<and> of_char c \<le> (57 :: nat)"

definition sanitize :: "('v, 'r, 'h) smlib \<Rightarrow> string \<Rightarrow> bool \<Rightarrow> string" where
  "sanitize A s skip =
     (if s = [] then s
      else let s1 = concat (map (sanitizeRune A) (Runes A s));
               s2 = (case s1 of [] \<Rightarrow> s1 | c # _ \<Rightarrow> if isDigit c then ''key_'' @ s1 else s1);
               s3 = (if \<not> skip \<and> HasPrefix s2 ''_'' then ''key'' @ s2 else s2)
           in if HasPrefix s3 ''__'' then ''key'' @ s3 else s3)"

text \<open>The loop over the dimensions; \<open>labelNames\<close> is the set of the names seen.\<close>

fun validate_loop :: "('v, 'r, 'h) smlib \<Rightarrow> bool \<Rightarrow> string list \<Rightarrow> Dimension list \<Rightarrow> error option" where
  "validate_loop A skip labelNames [] = None"
| "validate_loop A skip labelNames (key # keys) =
     (if Name key \<in> set labelNames then Some (''duplicate dimension name '' @ Name key)
      else let labelNames' = Name key # labelNames;
               sanitizedName = sanitize A (Name key) skip
           in if sanitizedName = Name key then validate_loop A skip labelNames' keys
              else if sanitizedName \<in> set labelNames'
              then Some (''duplicate dimension name '' @ sanitizedName @ '' after sanitization'')
              else validate_loop A skip (sanitizedName # labelNames') keys)"

definition validateDimensions :: "('v, 'r, 'h) smlib \<Rightarrow> Dimension list \<Rightarrow> bool \<Rightarrow> error option" where
  "validateDimensions A dims skip =
     (let reserved = concat (map (\<lambda>k. [k, sanitize A k skip]) [serviceNameKey, spanKindKey, statusCodeKey])
      in validate_loop A skip (operationKey # reserved) dims)"

text \<open>A pattern that does not compile makes the constructor panic.\<close>

datatype 'a built = Built 'a | BuildError error | BuildPanic

fun compile_patterns :: "('v, 'r, 'h) smlib \<Rightarrow> ExcludePattern list \<Rightarrow> (string \<times> 'r) list \<Rightarrow> (string \<times> 'r) list option" where
  "compile_patterns A [] m = Some m"
| "compile_patterns A (p # ps) m =
     (case MustCompile A (Pattern p) of
        None \<Rightarrow> None
      | Some r \<Rightarrow> compile_patterns A ps (AList.update (PatternName p) r m))"

definition newProcessor ::
    "('v, 'r, 'h) smlib \<Rightarrow> ('q, metricKey, 'v Map) lru \<Rightarrow> string \<Rightarrow> int \<Rightarrow> Config \<Rightarrow> ('v, 'q, 'r, 'h) processorImp built" where
  "newProcessor A L instance now cfg0 =
     (let cfg = (if TimeBucketInterval cfg0 = 0 then cfg0\<lparr>TimeBucketInterval := defaultTimeBucketInterval\<rparr> else cfg0);
          bounds = (case LatencyHistogramBuckets cfg of
             None \<Rightarrow> defaultLatencyHistogramBucketsMs | Some ds \<Rightarrow> mapDurationsToMillis ds);
          callDims = \<lparr>Name = tagHTTPStatusCode, Default = None\<rparr> # Dimensions cfg;
          dbCallDims = \<lparr>Name = ''db.system'', Default = None\<rparr> # \<lparr>Name = ''db.name'', Default = None\<rparr> # Dimensions cfg;
          externalDims = \<lparr>Name = tagHTTPStatusCode, Default = None\<rparr> # Dimensions cfg
      in case validateDimensions A (Dimensions cfg) (skipSanitizeLabel cfg) of
           Some e \<Rightarrow> BuildError e
         | None \<Rightarrow>
             if DimensionsCacheSize cfg \<le> 0
             then BuildError (''invalid cache size: '' @ itoa (DimensionsCacheSize cfg)
                    @ '', the maximum number of the items in the cache should be positive'')
             else (case NewCache L (DimensionsCacheSize cfg) of
               Inl e \<Rightarrow> BuildError e
             | Inr c \<Rightarrow>
                 (case compile_patterns A (ExcludePatterns cfg) [] of
                    None \<Rightarrow> BuildPanic
                  | Some patterns \<Rightarrow> Built \<lparr>
                      instanceID = instance, config = cfg,
                      dimensions = newDimensions A (Dimensions cfg), expDimensions = newDimensions A (Dimensions cfg),
                      callDimensions = newDimensions A callDims, dbCallDimensions = newDimensions A dbCallDims,
                      externalCallDimensions = newDimensions A externalDims,
                      startTimestamp = NewTimestampFromTime now, latencyBounds = bounds,
                      histograms = [], expHistograms = [], callHistograms = [], dbCallHistograms = [],
                      externalCallHistograms = [],
                      metricKeyToDimensions = c, expHistogramKeyToDimensions = c, callMetricKeyToDimensions = c,
                      dbCallMetricKeyToDimensions = c, externalCallMetricKeyToDimensions = c,
                      attrsCardinality = [], excludePatternRegex = patterns, serviceToOperations = []\<rparr>)))"

section \<open>Keys\<close>

definition SpanKindStr :: "nat \<Rightarrow> string" where
  "SpanKindStr sk =
     (if sk = SpanKindUnspecified then ''SPAN_KIND_UNSPECIFIED''
      else if sk = SpanKindInternal then ''SPAN_KIND_INTERNAL''
      else if sk = SpanKindServer then ''SPAN_KIND_SERVER''
      else if sk = SpanKindClient then ''SPAN_KIND_CLIENT''
      else if sk = SpanKindProducer then ''SPAN_KIND_PRODUCER''
      else if sk = SpanKindConsumer then ''SPAN_KIND_CONSUMER''
      else [])"

definition StatusCodeStr :: "nat \<Rightarrow> string" where
  "StatusCodeStr sk =
     (if sk = 0 then ''STATUS_CODE_UNSET'' else if sk = 1 then ''STATUS_CODE_OK''
      else if sk = 2 then ''STATUS_CODE_ERROR'' else [])"

definition getDimensionValue :: "'v dimension \<Rightarrow> 'v Map \<Rightarrow> 'v Map \<Rightarrow> 'v option" where
  "getDimensionValue d spanAttr resourceAttr =
     (case map_of spanAttr (name d) of
        Some attr \<Rightarrow> Some attr
      | None \<Rightarrow>
          (case (if name d = tagHTTPStatusCode then map_of spanAttr tagHTTPStatusCodeStable else None) of
             Some attr \<Rightarrow> Some attr
           | None \<Rightarrow>
               (case map_of resourceAttr (name d) of
                  Some attr \<Rightarrow> Some attr
                | None \<Rightarrow> value d)))"

text \<open>The value, if there is one, and whether the resource has the attribute.\<close>

definition getDimensionValueWithResource :: "'v dimension \<Rightarrow> 'v Map \<Rightarrow> 'v Map \<Rightarrow> 'v option \<times> bool" where
  "getDimensionValueWithResource d spanAttr resourceAttr =
     (case map_of spanAttr (name d) of
        Some attr \<Rightarrow> (Some attr, map_of resourceAttr (name d) \<noteq> None)
      | None \<Rightarrow>
          (case (if name d = tagHTTPStatusCode then map_of spanAttr tagHTTPStatusCodeStable else None) of
             Some attr \<Rightarrow> (Some attr, False)
           | None \<Rightarrow>
               (case map_of resourceAttr (name d) of
                  Some attr \<Rightarrow> (Some attr, True)
                | None \<Rightarrow> (value d, False))))"

definition concatDimensionValue :: "string \<Rightarrow> string \<Rightarrow> bool \<Rightarrow> string" where
  "concatDimensionValue dest val prefixSep = dest @ (if prefixSep then metricKeySeparator else []) @ val"

text \<open>The operations seen of a service, and the names under which a span is counted.\<close>

definition operations :: "string \<Rightarrow> ('v, 'q, 'r, 'h) processorImp \<Rightarrow> string list" where
  "operations svc p = (case map_of (serviceToOperations p) svc of None \<Rightarrow> [] | Some ops \<Rightarrow> ops)"

definition trackedService :: "string \<Rightarrow> ('v, 'q, 'r, 'h) processorImp \<Rightarrow> string" where
  "trackedService svc p =
     (if int (length (serviceToOperations p)) > MaxServicesToTrack (config p) then overflowServiceName else svc)"

definition trackedOperation :: "string \<Rightarrow> string \<Rightarrow> ('v, 'q, 'r, 'h) processorImp \<Rightarrow> string" where
  "trackedOperation svc opname p =
     (if int (length (operations svc p)) > MaxOperationsToTrackPerService (config p) then overflowOperation else opname)"

definition buildKey ::
    "('v, 'r, 'h) smlib \<Rightarrow> string \<Rightarrow> string \<Rightarrow> 'v span \<Rightarrow> 'v dimension list \<Rightarrow> 'v Map
      \<Rightarrow> ('v, 'q, 'r, 'h) processorImp \<Rightarrow> string \<times> ('v, 'q, 'r, 'h) processorImp" where
  "buildKey A dest serviceName0 sp optionalDims resourceAttrs p =
     (let serviceName = trackedService serviceName0 p;
          opname = trackedOperation serviceName (spanName sp) p;
          dest1 = concatDimensionValue dest serviceName False;
          dest2 = concatDimensionValue dest1 opname True;
          dest3 = concatDimensionValue dest2 (SpanKindStr (kind sp)) True;
          dest4 = concatDimensionValue dest3 (StatusCodeStr (statusCode sp)) True;
          dest5 = foldl (\<lambda>dest d. case getDimensionValue d (attributes sp) resourceAttrs of
                           Some v \<Rightarrow> concatDimensionValue dest (AsString A v) True | None \<Rightarrow> dest) dest4 optionalDims
      in (dest5, p\<lparr>serviceToOperations :=
            AList.update serviceName (List.insert opname (operations serviceName p)) (serviceToOperations p)\<rparr>))"

definition buildCustomKey ::
    "('v, 'r, 'h) smlib \<Rightarrow> string \<Rightarrow> string \<Rightarrow> 'v span \<Rightarrow> 'v dimension list \<Rightarrow> 'v Map \<Rightarrow> string list \<Rightarrow> string" where
  "buildCustomKey A dest serviceName sp optionalDims resourceAttrs extraVals =
     (let dest1 = concatDimensionValue dest serviceName False;
          dest2 = concatDimensionValue dest1 (StatusCodeStr (statusCode sp)) True;
          dest3 = foldl (\<lambda>dest val. concatDimensionValue dest val True) dest2 extraVals
      in foldl (\<lambda>dest d. case getDimensionValueWithResource d (attributes sp) resourceAttrs of
           (None, found) \<Rightarrow> dest
         | (Some v, found) \<Rightarrow>
             (let dest' = concatDimensionValue dest (AsString A v) True
              in if found then concatDimensionValue dest' (resourcePrefix @ AsString A v) True else dest')) dest3 optionalDims)"

definition AddTimeToKeyBuf :: "string \<Rightarrow> int \<Rightarrow> Config \<Rightarrow> string" where
  "AddTimeToKeyBuf keyBuf t cfg =
     (let bucket = Truncate t (GetTimeBucketInterval cfg)
      in keyBuf @ itoa (Unix bucket) @ metricKeySeparator)"

definition buildMetricKey ::
    "('v, 'r, 'h) smlib \<Rightarrow> string \<Rightarrow> 'v span \<Rightarrow> 'v dimension list \<Rightarrow> 'v Map
      \<Rightarrow> ('v, 'q, 'r, 'h) processorImp \<Rightarrow> metricKey \<times> ('v, 'q, 'r, 'h) processorImp" where
  "buildMetricKey A serviceName sp dims resourceAttr p =
     (let keyBuf = (if isDelta (config p) then AddTimeToKeyBuf [] (AsTime (start sp)) (config p) else [])
      in buildKey A keyBuf serviceName sp dims resourceAttr p)"

definition buildCustomMetricKey ::
    "('v, 'r, 'h) smlib \<Rightarrow> string \<Rightarrow> 'v span \<Rightarrow> 'v dimension list \<Rightarrow> 'v Map \<Rightarrow> string list
      \<Rightarrow> ('v, 'q, 'r, 'h) processorImp \<Rightarrow> metricKey" where
  "buildCustomMetricKey A serviceName sp dims resourceAttr extraVals p =
     (let keyBuf = (if isDelta (config p) then AddTimeToKeyBuf [] (AsTime (start sp)) (config p) else [])
      in buildCustomKey A keyBuf serviceName sp dims resourceAttr extraVals)"

text \<open>
  \<open>strconv.ParseInt(s, 10, 64)\<close>: an optional sign and decimal digits, in the range of \<open>int64\<close>.
\<close>

definition digits_value :: "string \<Rightarrow> nat" where
  "digits_value ds = foldl (\<lambda>n c. 10 * n + (of_char c - 48)) 0 ds"

definition ParseInt :: "string \<Rightarrow> int option" where
  "ParseInt s =
     (let (neg, ds) = (case s of
            [] \<Rightarrow> (False, [])
          | c # r \<Rightarrow> if c = CHR ''-'' then (True, r) else if c = CHR ''+'' then (False, r) else (False, c # r));
          i = (if neg then - int (digits_value ds) else int (digits_value ds))
      in if ds = [] \<or> \<not> list_all isDigit ds \<or> \<not> is_i64 i then None else Some i)"

definition parseTimesFromKeyOrNow :: "metricKey \<Rightarrow> int \<Rightarrow> Timestamp \<Rightarrow> Timestamp \<times> Timestamp" where
  "parseTimesFromKeyOrNow k now processorStartTime =
     (let pre = takeWhile (\<lambda>c. c \<noteq> CHR 0x00) k
      in if pre = [] \<or> pre = k then (processorStartTime, NewTimestampFromTime now)
         else (case ParseInt pre of
                 None \<Rightarrow> (processorStartTime, NewTimestampFromTime now)
               | Some u \<Rightarrow> (NewTimestampFromTime (u * 10 ^ 9), NewTimestampFromTime (u * 10 ^ 9))))"

section \<open>Dimensions\<close>

text \<open>The optional dimensions put into a map of dimensions, in their order.\<close>

definition put_dims :: "'v dimension list \<Rightarrow> 'v Map \<Rightarrow> 'v Map \<Rightarrow> 'v Map \<Rightarrow> 'v Map" where
  "put_dims optionalDims spanAttr resourceAttrs dims =
     foldl (\<lambda>dims d. if name d = o11yID then dims
        else (case getDimensionValueWithResource d spanAttr resourceAttrs of
          (None, found) \<Rightarrow> dims
        | (Some v, found) \<Rightarrow>
            (let dims' = AList.update (name d) v dims
             in if found then AList.update (resourcePrefix @ name d) v dims' else dims'))) dims optionalDims"

text \<open>The bookkeeping for the log of cardinalities.\<close>

definition count_attrs ::
    "('v, 'r, 'h) smlib \<Rightarrow> 'v Map \<Rightarrow> (string \<times> string list) list \<Rightarrow> (string \<times> string list) list" where
  "count_attrs A dims m =
     foldl (\<lambda>m (k, v). AList.update k (List.insert (AsString A v) (case map_of m k of None \<Rightarrow> [] | Some xs \<Rightarrow> xs)) m) m dims"

definition buildDimensionKVs ::
    "('v, 'r, 'h) smlib \<Rightarrow> string \<Rightarrow> 'v span \<Rightarrow> 'v dimension list \<Rightarrow> 'v Map
      \<Rightarrow> ('v, 'q, 'r, 'h) processorImp \<Rightarrow> 'v Map \<times> ('v, 'q, 'r, 'h) processorImp" where
  "buildDimensionKVs A serviceName0 sp optionalDims resourceAttrs p =
     (let serviceName = trackedService serviceName0 p;
          opname = trackedOperation serviceName (spanName sp) p;
          str = NewValueStr A;
          dims = foldl (\<lambda>m (k, v). AList.update k v m) []
            [(serviceNameKey, str serviceName), (operationKey, str opname), (spanKindKey, str (SpanKindStr (kind sp))),
             (statusCodeKey, str (StatusCodeStr (statusCode sp))), (o11yID, str (instanceID p)),
             (resourcePrefix @ o11yID, str (instanceID p))];
          dims' = put_dims optionalDims (attributes sp) resourceAttrs dims
      in (dims', p\<lparr>attrsCardinality := count_attrs A dims' (attrsCardinality p)\<rparr>))"

definition buildCustomDimensionKVs ::
    "('v, 'r, 'h) smlib \<Rightarrow> string \<Rightarrow> 'v span \<Rightarrow> 'v dimension list \<Rightarrow> 'v Map \<Rightarrow> 'v Map
      \<Rightarrow> ('v, 'q, 'r, 'h) processorImp \<Rightarrow> 'v Map \<times> ('v, 'q, 'r, 'h) processorImp" where
  "buildCustomDimensionKVs A serviceName sp optionalDims resourceAttrs extraDims p =
     (let str = NewValueStr A;
          dims = foldl (\<lambda>m (k, v). AList.update k v m) []
            ((serviceNameKey, str serviceName) # extraDims
             @ [(statusCodeKey, str (StatusCodeStr (statusCode sp))), (o11yID, str (instanceID p)),
                (resourcePrefix @ o11yID, str (instanceID p))]);
          dims' = put_dims optionalDims (attributes sp) resourceAttrs dims
      in (dims', p\<lparr>attrsCardinality := count_attrs A dims' (attrsCardinality p)\<rparr>))"

section \<open>Caches and histograms\<close>

definition cacheDims ::
    "('v, 'r, 'h) smlib \<Rightarrow> ('q, metricKey, 'v Map) lru \<Rightarrow> string \<Rightarrow> 'v span \<Rightarrow> metricKey \<Rightarrow> 'v Map
      \<Rightarrow> ('v, 'q, 'r, 'h) processorImp \<Rightarrow> ('v, 'q, 'r, 'h) processorImp" where
  "cacheDims A L serviceName sp k resourceAttrs p =
     (case Cache_Get L k (metricKeyToDimensions p) of
        (Some _, c) \<Rightarrow> p\<lparr>metricKeyToDimensions := c\<rparr>
      | (None, c) \<Rightarrow>
          (case buildDimensionKVs A serviceName sp (dimensions p) resourceAttrs p of
             (dims, p') \<Rightarrow> p'\<lparr>metricKeyToDimensions := Cache_Add L k dims c\<rparr>))"

definition expHistogramCache ::
    "('v, 'r, 'h) smlib \<Rightarrow> ('q, metricKey, 'v Map) lru \<Rightarrow> string \<Rightarrow> 'v span \<Rightarrow> metricKey \<Rightarrow> 'v Map
      \<Rightarrow> ('v, 'q, 'r, 'h) processorImp \<Rightarrow> ('v, 'q, 'r, 'h) processorImp" where
  "expHistogramCache A L serviceName sp k resourceAttrs p =
     (case Cache_Get L k (expHistogramKeyToDimensions p) of
        (Some _, c) \<Rightarrow> p\<lparr>expHistogramKeyToDimensions := c\<rparr>
      | (None, c) \<Rightarrow>
          (case buildDimensionKVs A serviceName sp (expDimensions p) resourceAttrs p of
             (dims, p') \<Rightarrow> p'\<lparr>expHistogramKeyToDimensions := Cache_Add L k dims c\<rparr>))"

definition callCache ::
    "('v, 'r, 'h) smlib \<Rightarrow> ('q, metricKey, 'v Map) lru \<Rightarrow> string \<Rightarrow> 'v span \<Rightarrow> metricKey \<Rightarrow> 'v Map
      \<Rightarrow> ('v, 'q, 'r, 'h) processorImp \<Rightarrow> ('v, 'q, 'r, 'h) processorImp" where
  "callCache A L serviceName sp k resourceAttrs p =
     (case Cache_Get L k (callMetricKeyToDimensions p) of
        (Some _, c) \<Rightarrow> p\<lparr>callMetricKeyToDimensions := c\<rparr>
      | (None, c) \<Rightarrow>
          (case buildDimensionKVs A serviceName sp (callDimensions p) resourceAttrs p of
             (dims, p') \<Rightarrow> p'\<lparr>callMetricKeyToDimensions := Cache_Add L k dims c\<rparr>))"

definition dbCallCache ::
    "('v, 'r, 'h) smlib \<Rightarrow> ('q, metricKey, 'v Map) lru \<Rightarrow> string \<Rightarrow> 'v span \<Rightarrow> metricKey \<Rightarrow> 'v Map
      \<Rightarrow> ('v, 'q, 'r, 'h) processorImp \<Rightarrow> ('v, 'q, 'r, 'h) processorImp" where
  "dbCallCache A L serviceName sp k resourceAttrs p =
     (case Cache_Get L k (dbCallMetricKeyToDimensions p) of
        (Some _, c) \<Rightarrow> p\<lparr>dbCallMetricKeyToDimensions := c\<rparr>
      | (None, c) \<Rightarrow>
          (case buildCustomDimensionKVs A serviceName sp (dbCallDimensions p) resourceAttrs [] p of
             (dims, p') \<Rightarrow> p'\<lparr>dbCallMetricKeyToDimensions := Cache_Add L k dims c\<rparr>))"

definition externalCallCache ::
    "('v, 'r, 'h) smlib \<Rightarrow> ('q, metricKey, 'v Map) lru \<Rightarrow> string \<Rightarrow> 'v span \<Rightarrow> metricKey \<Rightarrow> 'v Map \<Rightarrow> 'v Map
      \<Rightarrow> ('v, 'q, 'r, 'h) processorImp \<Rightarrow> ('v, 'q, 'r, 'h) processorImp" where
  "externalCallCache A L serviceName sp k resourceAttrs extraDims p =
     (case Cache_Get L k (externalCallMetricKeyToDimensions p) of
        (Some _, c) \<Rightarrow> p\<lparr>externalCallMetricKeyToDimensions := c\<rparr>
      | (None, c) \<Rightarrow>
          (case buildCustomDimensionKVs A serviceName sp (externalCallDimensions p) resourceAttrs extraDims p of
             (dims, p') \<Rightarrow> p'\<lparr>externalCallMetricKeyToDimensions := Cache_Add L k dims c\<rparr>))"

text \<open>\<open>sort.Search\<close>: the binary search of the standard library.\<close>

function search :: "(nat \<Rightarrow> bool) \<Rightarrow> nat \<Rightarrow> nat \<Rightarrow> nat" where
  "search f i j =
     (if i < j then (let h = (i + j) div 2 in if \<not> f h then search f (h + 1) j else search f i h) else i)"
  by pat_completeness auto
termination
  by (relation "measure (\<lambda>(f, i, j). j - i)") auto

declare search.simps [simp del]

definition SearchFloat64s :: "rat list \<Rightarrow> rat \<Rightarrow> nat" where
  "SearchFloat64s a x = search (\<lambda>i. a ! i \<ge> x) 0 (length a)"

text \<open>
  One sample: a histogram that does not exist is made with one bucket more than there are bounds. An
  index out of range would panic; \<open>None\<close> stands for that.
\<close>

definition observe :: "rat list \<Rightarrow> rat \<Rightarrow> exemplarData \<Rightarrow> histogramData \<Rightarrow> histogramData option" where
  "observe bounds latency ex histo =
     (let index = SearchFloat64s bounds latency
      in if index < length (bucketCounts histo)
         then Some \<lparr>observed = observed histo + 1, total = round_prec 53 (total histo + latency),
                bucketCounts = (bucketCounts histo)[index := bucketCounts histo ! index + 1],
                exemplarsData = exemplarsData histo @ [ex]\<rparr>
         else None)"

definition newHistogram :: "rat list \<Rightarrow> histogramData" where
  "newHistogram bounds = \<lparr>observed = 0, total = 0, bucketCounts = replicate (length bounds + 1) 0, exemplarsData = []\<rparr>"

definition update_hist ::
    "rat list \<Rightarrow> metricKey \<Rightarrow> rat \<Rightarrow> TraceID \<Rightarrow> SpanID \<Rightarrow> (metricKey \<times> histogramData) list
      \<Rightarrow> (metricKey \<times> histogramData) list option" where
  "update_hist bounds key latency tid sid hs =
     (let histo = (case map_of hs key of None \<Rightarrow> newHistogram bounds | Some h \<Rightarrow> h)
      in map_option (\<lambda>h. AList.update key h hs)
           (observe bounds latency \<lparr>exTraceID = tid, exSpanID = sid, exValue = latency\<rparr> histo))"

definition updateHistogram ::
    "metricKey \<Rightarrow> rat \<Rightarrow> TraceID \<Rightarrow> SpanID \<Rightarrow> ('v, 'q, 'r, 'h) processorImp \<Rightarrow> ('v, 'q, 'r, 'h) processorImp option" where
  "updateHistogram key latency tid sid p =
     map_option (\<lambda>hs. p\<lparr>histograms := hs\<rparr>) (update_hist (latencyBounds p) key latency tid sid (histograms p))"

definition updateCallHistogram ::
    "metricKey \<Rightarrow> rat \<Rightarrow> TraceID \<Rightarrow> SpanID \<Rightarrow> ('v, 'q, 'r, 'h) processorImp \<Rightarrow> ('v, 'q, 'r, 'h) processorImp option" where
  "updateCallHistogram key latency tid sid p =
     map_option (\<lambda>hs. p\<lparr>callHistograms := hs\<rparr>) (update_hist (latencyBounds p) key latency tid sid (callHistograms p))"

definition updateDBHistogram ::
    "metricKey \<Rightarrow> rat \<Rightarrow> TraceID \<Rightarrow> SpanID \<Rightarrow> ('v, 'q, 'r, 'h) processorImp \<Rightarrow> ('v, 'q, 'r, 'h) processorImp option" where
  "updateDBHistogram key latency tid sid p =
     map_option (\<lambda>hs. p\<lparr>dbCallHistograms := hs\<rparr>) (update_hist (latencyBounds p) key latency tid sid (dbCallHistograms p))"

definition updateExternalHistogram ::
    "metricKey \<Rightarrow> rat \<Rightarrow> TraceID \<Rightarrow> SpanID \<Rightarrow> ('v, 'q, 'r, 'h) processorImp \<Rightarrow> ('v, 'q, 'r, 'h) processorImp option" where
  "updateExternalHistogram key latency tid sid p =
     map_option (\<lambda>hs. p\<lparr>externalCallHistograms := hs\<rparr>)
       (update_hist (latencyBounds p) key latency tid sid (externalCallHistograms p))"

definition updateExpHistogram ::
    "('v, 'r, 'h) smlib \<Rightarrow> metricKey \<Rightarrow> rat \<Rightarrow> ('v, 'q, 'r, 'h) processorImp \<Rightarrow> ('v, 'q, 'r, 'h) processorImp" where
  "updateExpHistogram A key latency p =
     (let histo = (case map_of (expHistograms p) key of None \<Rightarrow> expNew A | Some h \<Rightarrow> h)
      in p\<lparr>expHistograms := AList.update key (expUpdate A latency histo) (expHistograms p)\<rparr>)"

section \<open>Spans\<close>

definition shouldSkip :: "('v, 'r, 'h) smlib \<Rightarrow> string \<Rightarrow> 'v span \<Rightarrow> 'v Map \<Rightarrow> ('v, 'q, 'r, 'h) processorImp \<Rightarrow> bool" where
  "shouldSkip A serviceName sp resourceAttrs p =
     list_ex (\<lambda>(key, pattern).
        key = serviceNameKey \<and> MatchString A pattern serviceName \<or>
        key = operationKey \<and> MatchString A pattern (spanName sp) \<or>
        key = spanKindKey \<and> MatchString A pattern (KindString A (kind sp)) \<or>
        key = statusCodeKey \<and> MatchString A pattern (CodeString A (statusCode sp)) \<or>
        list_ex (\<lambda>(k, v). key = k \<and> MatchString A pattern (AsString A v)) (attributes sp) \<or>
        list_ex (\<lambda>(k, v). key = k \<and> MatchString A pattern (AsString A v)) resourceAttrs) (excludePatternRegex p)"

definition with_port :: "('v, 'r, 'h) smlib \<Rightarrow> 'v Map \<Rightarrow> 'v \<Rightarrow> string \<Rightarrow> string" where
  "with_port A attrs addr portKey =
     (case map_of attrs portKey of Some port \<Rightarrow> Str A addr @ '':'' @ Str A port | None \<Rightarrow> Str A addr)"

fun peer_address :: "('v, 'r, 'h) smlib \<Rightarrow> 'v Map \<Rightarrow> (string \<times> string) list \<Rightarrow> string option" where
  "peer_address A attrs [] = None"
| "peer_address A attrs ((addrKey, portKey) # ks) =
     (case map_of attrs addrKey of
        Some addr \<Rightarrow> Some (with_port A attrs addr portKey)
      | None \<Rightarrow> peer_address A attrs ks)"

definition getPeerAddress :: "('v, 'r, 'h) smlib \<Rightarrow> 'v Map \<Rightarrow> string option" where
  "getPeerAddress A attrs = peer_address A attrs
     [(''net.peer.name'', ''net.peer.port''), (''server.address'', ''server.port''), (''net.peer.ip'', ''net.peer.port''),
      (''net.sock.peer.addr'', ''net.sock.peer.port''), (''network.peer.address'', ''network.peer.port'')]"

definition getRemoteAddress :: "('v, 'r, 'h) smlib \<Rightarrow> 'v span \<Rightarrow> string option" where
  "getRemoteAddress A sp =
     (let attrs = attributes sp in
      if map_of attrs ''rpc.system'' \<noteq> None
      then (let addr = (case map_of attrs ''rpc.service'' of Some v \<Rightarrow> Str A v | None \<Rightarrow> []);
                addr' = (case map_of attrs ''rpc.method'' of Some v \<Rightarrow> addr @ ''/'' @ Str A v | None \<Rightarrow> addr)
            in if addr' \<noteq> [] then Some addr' else getPeerAddress A attrs)
      else (case map_of attrs ''http.host'' of
        Some host \<Rightarrow> Some (Str A host)
      | None \<Rightarrow>
          (case getPeerAddress A attrs of
             Some peerAddress \<Rightarrow>
               (case map_of attrs ''net.transport'' of
                  Some transport \<Rightarrow>
                    if Str A transport = ''unix'' \<and> Str A transport = ''pipe'' then None else Some peerAddress
                | None \<Rightarrow> Some peerAddress)
           | None \<Rightarrow>
               (case (case map_of attrs ''http.url'' of Some u \<Rightarrow> Some u | None \<Rightarrow> map_of attrs ''url.full'') of
                  Some httpURL \<Rightarrow>
                    (let urlValue = Str A httpURL;
                         urlValue' = (if \<not> HasPrefix urlValue ''http://'' \<and> \<not> HasPrefix urlValue ''https://''
                                      then ''http://'' @ urlValue else urlValue)
                     in ParseHost A urlValue')
                | None \<Rightarrow> map_option (Str A) (map_of attrs ''peer.service'')))))"

definition latencyOf :: "'v span \<Rightarrow> rat" where
  "latencyOf sp =
     (if start sp < finish sp then float_div (float64 (uint (finish sp - start sp))) (float64 (10 ^ 6)) else 0)"

text \<open>The whole handler of a span; \<open>None\<close> only if an index were out of range.\<close>

definition aggregateMetricsForSpan ::
    "('v, 'r, 'h) smlib \<Rightarrow> ('q, metricKey, 'v Map) lru \<Rightarrow> int \<Rightarrow> string \<Rightarrow> 'v span \<Rightarrow> 'v Map
      \<Rightarrow> ('v, 'q, 'r, 'h) processorImp \<Rightarrow> ('v, 'q, 'r, 'h) processorImp option" where
  "aggregateMetricsForSpan A L now serviceName sp resourceAttr p =
     (if GetSkipSpansOlderThan (config p) > 0 \<and> AsTime (start sp) < now - GetSkipSpansOlderThan (config p) then Some p
      else if shouldSkip A serviceName sp resourceAttr p then Some p
      else
       (let latency = latencyOf sp;
            tid = traceID sp; sid = spanID sp;
            (key, p1) = buildMetricKey A serviceName sp (dimensions p) resourceAttr p
        in Option.bind (updateHistogram key latency tid sid (cacheDims A L serviceName sp key resourceAttr p1)) (\<lambda>p2.
           let p3 = (if EnableExpHistogram (config p2)
                     then (let (expKey, p2') = buildMetricKey A serviceName sp (expDimensions p2) resourceAttr p2
                           in updateExpHistogram A expKey latency (expHistogramCache A L serviceName sp expKey resourceAttr p2'))
                     else p2);
               (callKey, p4) = buildMetricKey A serviceName sp (callDimensions p3) resourceAttr p3
           in Option.bind (updateCallHistogram callKey latency tid sid (callCache A L serviceName sp callKey resourceAttr p4)) (\<lambda>p5.
              Option.bind
               (case getRemoteAddress A sp of
                  Some remoteAddr \<Rightarrow>
                    if kind sp = SpanKindClient
                    then (let externalCallKey =
                            buildCustomMetricKey A serviceName sp (externalCallDimensions p5) resourceAttr [remoteAddr] p5
                          in updateExternalHistogram externalCallKey latency tid sid
                               (externalCallCache A L serviceName sp externalCallKey resourceAttr
                                  [(''address'', NewValueStr A remoteAddr)] p5))
                    else Some p5
                | None \<Rightarrow> Some p5) (\<lambda>p6.
              if kind sp \<noteq> SpanKindServer \<and> map_of (attributes sp) ''db.system'' \<noteq> None
              then (let dbCallKey = buildCustomMetricKey A serviceName sp (dbCallDimensions p6) resourceAttr [] p6
                    in updateDBHistogram dbCallKey latency tid sid
                         (dbCallCache A L serviceName sp dbCallKey resourceAttr p6))
              else Some p6)))))"

fun aggregate_spans ::
    "('v, 'r, 'h) smlib \<Rightarrow> ('q, metricKey, 'v Map) lru \<Rightarrow> int \<Rightarrow> string \<Rightarrow> 'v span list \<Rightarrow> 'v Map
      \<Rightarrow> ('v, 'q, 'r, 'h) processorImp \<Rightarrow> ('v, 'q, 'r, 'h) processorImp option" where
  "aggregate_spans A L now serviceName [] resourceAttr p = Some p"
| "aggregate_spans A L now serviceName (sp # sps) resourceAttr p =
     Option.bind (aggregateMetricsForSpan A L now serviceName sp resourceAttr p) (aggregate_spans A L now serviceName sps resourceAttr)"

text \<open>The instance identifier is written into the attributes of the resource, which the caller keeps.\<close>

fun aggregateMetrics ::
    "('v, 'r, 'h) smlib \<Rightarrow> ('q, metricKey, 'v Map) lru \<Rightarrow> int \<Rightarrow> 'v resourceSpans list
      \<Rightarrow> ('v, 'q, 'r, 'h) processorImp \<Rightarrow> ('v resourceSpans list \<times> ('v, 'q, 'r, 'h) processorImp) option" where
  "aggregateMetrics A L now [] p = Some ([], p)"
| "aggregateMetrics A L now (rspans # traces) p =
     (case map_of (resource rspans) serviceNameKey of
        None \<Rightarrow> map_option (\<lambda>(ts, p'). (rspans # ts, p')) (aggregateMetrics A L now traces p)
      | Some serviceAttr \<Rightarrow>
          (let resourceAttr = AList.update o11yID (NewValueStr A (instanceID p)) (resource rspans)
           in Option.bind (aggregate_spans A L now (Str A serviceAttr) (concat (scopeSpans rspans)) resourceAttr p) (\<lambda>p'.
              map_option (\<lambda>(ts, p''). (rspans\<lparr>resource := resourceAttr\<rparr> # ts, p'')) (aggregateMetrics A L now traces p'))))"

text \<open>\<open>ConsumeTraces\<close>: the traces handed to the next consumer, and the new state.\<close>

definition ConsumeTraces ::
    "('v, 'r, 'h) smlib \<Rightarrow> ('q, metricKey, 'v Map) lru \<Rightarrow> int \<Rightarrow> 'v resourceSpans list
      \<Rightarrow> ('v, 'q, 'r, 'h) processorImp \<Rightarrow> ('v resourceSpans list \<times> ('v, 'q, 'r, 'h) processorImp) option" where
  "ConsumeTraces A L now traces p = aggregateMetrics A L now traces p"

section \<open>Export\<close>

datatype 'h point_value =
    IntValue int
  | DoubleValue rat
  | HistogramValue (explicitBounds: "rat list") (pointCounts: "64 word list") (pointCount: "64 word") (pointSum: rat)
      (exemplars: "(Timestamp \<times> exemplarData) option list")
  | ExpHistogramValue 'h

record ('v, 'h) data_point =
  pointStart :: Timestamp
  pointTime :: Timestamp
  pointValue :: "'h point_value"
  pointAttributes :: "'v Map"

record ('v, 'h) metric =
  metricName :: string
  metricUnit :: string
  deltaTemporality :: bool
  dataPoints :: "('v, 'h) data_point list"

text \<open>\<open>setExemplars\<close>: an exemplar of a span without trace identifier stays empty.\<close>

definition setExemplars :: "exemplarData list \<Rightarrow> Timestamp \<Rightarrow> (Timestamp \<times> exemplarData) option list" where
  "setExemplars eds timestamp =
     map (\<lambda>ed. if list_all (\<lambda>b. b = 0) (exTraceID ed) then None else Some (timestamp, ed)) eds"

text \<open>
  The loop of a collector over a map of histograms: the key, the point's times and the dimensions
  from the cache, or an error if the cache does not know the key. \<open>ks\<close> is the order in which the
  language ranges over the map.
\<close>

fun collect_loop ::
    "('q, metricKey, 'v Map) lru \<Rightarrow> (metricKey \<Rightarrow> error) \<Rightarrow> (metricKey \<Rightarrow> 'a \<Rightarrow> 'v Map \<Rightarrow> 'p) \<Rightarrow> metricKey list
      \<Rightarrow> (metricKey \<times> 'a) list \<Rightarrow> ('q, metricKey, 'v Map) Cache \<Rightarrow> 'p list result \<times> ('q, metricKey, 'v Map) Cache" where
  "collect_loop L missing point [] hs c = (Inr [], c)"
| "collect_loop L missing point (k # ks) hs c =
     (case map_of hs k of
        None \<Rightarrow> collect_loop L missing point ks hs c
      | Some h \<Rightarrow>
          (case Cache_Get L k c of
             (None, c') \<Rightarrow> (Inl (missing k), c')
           | (Some dims, c') \<Rightarrow>
               (case collect_loop L missing point ks hs c' of
                  (Inl e, c'') \<Rightarrow> (Inl e, c'')
                | (Inr ps, c'') \<Rightarrow> (Inr (point k h dims # ps), c''))))"

definition notFound :: "('v, 'r, 'h) smlib \<Rightarrow> string \<Rightarrow> metricKey \<Rightarrow> error" where
  "notFound A cacheName k = ''value not found in '' @ cacheName @ '' cache by key '' @ goQuote A k"

definition timed_point ::
    "int \<Rightarrow> ('v, 'q, 'r, 'h) processorImp \<Rightarrow> metricKey \<Rightarrow> (Timestamp \<Rightarrow> 'h point_value) \<Rightarrow> 'v Map \<Rightarrow> ('v, 'h) data_point" where
  "timed_point now p k val dims =
     (case parseTimesFromKeyOrNow k now (startTimestamp p) of
        (st, en) \<Rightarrow> \<lparr>pointStart = st, pointTime = en, pointValue = val en, pointAttributes = dims\<rparr>)"

definition make_metric :: "string \<Rightarrow> string \<Rightarrow> ('v, 'q, 'r, 'h) processorImp \<Rightarrow> ('v, 'h) data_point list \<Rightarrow> ('v, 'h) metric" where
  "make_metric nm unt p ps = \<lparr>metricName = nm, metricUnit = unt, deltaTemporality = isDelta (config p), dataPoints = ps\<rparr>"

definition collectLatencyMetrics ::
    "('v, 'r, 'h) smlib \<Rightarrow> ('q, metricKey, 'v Map) lru \<Rightarrow> int \<Rightarrow> metricKey list \<Rightarrow> ('v, 'q, 'r, 'h) processorImp
      \<Rightarrow> ('v, 'h) metric list result \<times> ('v, 'q, 'r, 'h) processorImp" where
  "collectLatencyMetrics A L now ks p =
     (case collect_loop L (notFound A ''metricKeyToDimensions'')
             (\<lambda>k h. timed_point now p k (\<lambda>en. HistogramValue (latencyBounds p) (bucketCounts h) (observed h) (total h)
                (setExemplars (exemplarsData h) en))) ks (histograms p) (metricKeyToDimensions p) of
        (r, c) \<Rightarrow> (map_sum id (\<lambda>ps. [make_metric ''o11y_latency'' ''ms'' p ps]) r, p\<lparr>metricKeyToDimensions := c\<rparr>))"

definition collectExpHistogramMetrics ::
    "('v, 'r, 'h) smlib \<Rightarrow> ('q, metricKey, 'v Map) lru \<Rightarrow> int \<Rightarrow> metricKey list \<Rightarrow> ('v, 'q, 'r, 'h) processorImp
      \<Rightarrow> ('v, 'h) metric list result \<times> ('v, 'q, 'r, 'h) processorImp" where
  "collectExpHistogramMetrics A L now ks p =
     (case collect_loop L (notFound A ''expHistogramKeyToDimensions'')
             (\<lambda>k h. timed_point now p k (\<lambda>en. ExpHistogramValue h)) ks (expHistograms p) (expHistogramKeyToDimensions p) of
        (r, c) \<Rightarrow> (map_sum id (\<lambda>ps. [make_metric ''o11y_latency'' ''ms'' p ps]) r, p\<lparr>expHistogramKeyToDimensions := c\<rparr>))"

definition collectCallMetrics ::
    "('v, 'r, 'h) smlib \<Rightarrow> ('q, metricKey, 'v Map) lru \<Rightarrow> int \<Rightarrow> metricKey list \<Rightarrow> ('v, 'q, 'r, 'h) processorImp
      \<Rightarrow> ('v, 'h) metric list result \<times> ('v, 'q, 'r, 'h) processorImp" where
  "collectCallMetrics A L now ks p =
     (case collect_loop L (notFound A ''callMetricKeyToDimensions'')
             (\<lambda>k h. timed_point now p k (\<lambda>en. IntValue (sint (observed h)))) ks (callHistograms p) (callMetricKeyToDimensions p) of
        (r, c) \<Rightarrow> (map_sum id (\<lambda>ps. [make_metric ''o11y_calls_total'' [] p ps]) r, p\<lparr>callMetricKeyToDimensions := c\<rparr>))"

text \<open>The sum and the count of a call are two metrics over the same keys.\<close>

definition sum_and_count ::
    "int \<Rightarrow> ('v, 'q, 'r, 'h) processorImp \<Rightarrow> metricKey \<Rightarrow> histogramData \<Rightarrow> 'v Map \<Rightarrow> ('v, 'h) data_point \<times> ('v, 'h) data_point" where
  "sum_and_count now p k h dims =
     (timed_point now p k (\<lambda>en. DoubleValue (total h)) dims, timed_point now p k (\<lambda>en. IntValue (sint (observed h))) dims)"

definition collectExternalCallMetrics ::
    "('v, 'r, 'h) smlib \<Rightarrow> ('q, metricKey, 'v Map) lru \<Rightarrow> int \<Rightarrow> metricKey list \<Rightarrow> ('v, 'q, 'r, 'h) processorImp
      \<Rightarrow> ('v, 'h) metric list result \<times> ('v, 'q, 'r, 'h) processorImp" where
  "collectExternalCallMetrics A L now ks p =
     (case collect_loop L (notFound A ''externalCallMetricKeyToDimensions'') (sum_and_count now p) ks
             (externalCallHistograms p) (externalCallMetricKeyToDimensions p) of
        (r, c) \<Rightarrow> (map_sum id (\<lambda>ps. [make_metric ''o11y_external_call_latency_sum'' ''1'' p (map fst ps),
             make_metric ''o11y_external_call_latency_count'' ''1'' p (map snd ps)]) r,
           p\<lparr>externalCallMetricKeyToDimensions := c\<rparr>))"

definition collectDBCallMetrics ::
    "('v, 'r, 'h) smlib \<Rightarrow> ('q, metricKey, 'v Map) lru \<Rightarrow> int \<Rightarrow> metricKey list \<Rightarrow> ('v, 'q, 'r, 'h) processorImp
      \<Rightarrow> ('v, 'h) metric list result \<times> ('v, 'q, 'r, 'h) processorImp" where
  "collectDBCallMetrics A L now ks p =
     (case collect_loop L (notFound A ''dbCallMetricKeyToDimensions'') (sum_and_count now p) ks
             (dbCallHistograms p) (dbCallMetricKeyToDimensions p) of
        (r, c) \<Rightarrow> (map_sum id (\<lambda>ps. [make_metric ''o11y_db_latency_sum'' ''1'' p (map fst ps),
             make_metric ''o11y_db_latency_count'' ''1'' p (map snd ps)]) r,
           p\<lparr>dbCallMetricKeyToDimensions := c\<rparr>))"

definition resetAccumulatedMetrics ::
    "('q, metricKey, 'v Map) lru \<Rightarrow> ('v, 'q, 'r, 'h) processorImp \<Rightarrow> ('v, 'q, 'r, 'h) processorImp" where
  "resetAccumulatedMetrics L p = p\<lparr>histograms := [], expHistograms := [], callHistograms := [], dbCallHistograms := [],
     externalCallHistograms := [],
     metricKeyToDimensions := Cache_Purge L (metricKeyToDimensions p),
     expHistogramKeyToDimensions := Cache_Purge L (expHistogramKeyToDimensions p),
     callMetricKeyToDimensions := Cache_Purge L (callMetricKeyToDimensions p),
     dbCallMetricKeyToDimensions := Cache_Purge L (dbCallMetricKeyToDimensions p),
     externalCallMetricKeyToDimensions := Cache_Purge L (externalCallMetricKeyToDimensions p)\<rparr>"

definition reset_exemplars :: "(metricKey \<times> histogramData) list \<Rightarrow> (metricKey \<times> histogramData) list" where
  "reset_exemplars hs = map (\<lambda>(k, h). (k, h\<lparr>exemplarsData := []\<rparr>)) hs"

definition resetExemplarData :: "('v, 'q, 'r, 'h) processorImp \<Rightarrow> ('v, 'q, 'r, 'h) processorImp" where
  "resetExemplarData p = p\<lparr>histograms := reset_exemplars (histograms p), callHistograms := reset_exemplars (callHistograms p),
     dbCallHistograms := reset_exemplars (dbCallHistograms p),
     externalCallHistograms := reset_exemplars (externalCallHistograms p)\<rparr>"

text \<open>The end of a build without error: evicted items are removed, and the keys the caches dropped.\<close>

definition removeEvicted :: "('v, 'q, 'r, 'h) processorImp \<Rightarrow> ('v, 'q, 'r, 'h) processorImp" where
  "removeEvicted p = p\<lparr>metricKeyToDimensions := RemoveEvictedItems (metricKeyToDimensions p),
     expHistogramKeyToDimensions := RemoveEvictedItems (expHistogramKeyToDimensions p),
     callMetricKeyToDimensions := RemoveEvictedItems (callMetricKeyToDimensions p),
     dbCallMetricKeyToDimensions := RemoveEvictedItems (dbCallMetricKeyToDimensions p),
     externalCallMetricKeyToDimensions := RemoveEvictedItems (externalCallMetricKeyToDimensions p)\<rparr>"

definition delete_stale ::
    "('q, metricKey, 'v Map) lru \<Rightarrow> ('q, metricKey, 'v Map) Cache \<Rightarrow> (metricKey \<times> 'a) list \<Rightarrow> (metricKey \<times> 'a) list" where
  "delete_stale L c hs = filter (\<lambda>(k, h). Cache_Contains L k c) hs"

definition deleteStale ::
    "('q, metricKey, 'v Map) lru \<Rightarrow> ('v, 'q, 'r, 'h) processorImp \<Rightarrow> ('v, 'q, 'r, 'h) processorImp" where
  "deleteStale L p = p\<lparr>histograms := delete_stale L (metricKeyToDimensions p) (histograms p),
     callHistograms := delete_stale L (callMetricKeyToDimensions p) (callHistograms p),
     dbCallHistograms := delete_stale L (dbCallMetricKeyToDimensions p) (dbCallHistograms p),
     externalCallHistograms := delete_stale L (externalCallMetricKeyToDimensions p) (externalCallHistograms p),
     expHistograms := delete_stale L (expHistogramKeyToDimensions p) (expHistograms p)\<rparr>"

text \<open>The orders in which the five maps are ranged over.\<close>

record ranges =
  callOrder :: "metricKey list"
  latencyOrder :: "metricKey list"
  externalOrder :: "metricKey list"
  dbOrder :: "metricKey list"
  expOrder :: "metricKey list"

text \<open>The collectors one after the other, the first error ends the build.\<close>

fun collect_all ::
    "(('v, 'q, 'r, 'h) processorImp \<Rightarrow> ('v, 'h) metric list result \<times> ('v, 'q, 'r, 'h) processorImp) list
      \<Rightarrow> ('v, 'q, 'r, 'h) processorImp \<Rightarrow> ('v, 'h) metric list result \<times> ('v, 'q, 'r, 'h) processorImp" where
  "collect_all [] p = (Inr [], p)"
| "collect_all (f # fs) p =
     (case f p of
        (Inl e, p') \<Rightarrow> (Inl e, p')
      | (Inr ms, p') \<Rightarrow>
          (case collect_all fs p' of (Inl e, p'') \<Rightarrow> (Inl e, p'') | (Inr ms', p'') \<Rightarrow> (Inr (ms @ ms'), p'')))"

definition buildMetrics ::
    "('v, 'r, 'h) smlib \<Rightarrow> ('q, metricKey, 'v Map) lru \<Rightarrow> int \<Rightarrow> ranges \<Rightarrow> ('v, 'q, 'r, 'h) processorImp
      \<Rightarrow> ('v, 'h) metric list result \<times> ('v, 'q, 'r, 'h) processorImp" where
  "buildMetrics A L now R p =
     (case collect_all [collectCallMetrics A L now (callOrder R), collectLatencyMetrics A L now (latencyOrder R),
             collectExternalCallMetrics A L now (externalOrder R), collectDBCallMetrics A L now (dbOrder R),
             collectExpHistogramMetrics A L now (expOrder R)] p of
        (Inl e, p') \<Rightarrow> (Inl e, p')
      | (Inr ms, p') \<Rightarrow>
          (let p1 = deleteStale L (removeEvicted p');
               p2 = (if isDelta (config p1) then resetAccumulatedMetrics L p1 else p1)
           in (Inr ms, resetExemplarData p2)))"

text \<open>\<open>exportMetrics\<close>: what the consumers get, and the new state.\<close>

definition exportMetrics ::
    "('v, 'r, 'h) smlib \<Rightarrow> ('q, metricKey, 'v Map) lru \<Rightarrow> int \<Rightarrow> ranges \<Rightarrow> ('v, 'q, 'r, 'h) processorImp
      \<Rightarrow> ('v, 'h) metric list result \<times> ('v, 'q, 'r, 'h) processorImp" where
  "exportMetrics A L now R p = (case buildMetrics A L now R p of (r, p') \<Rightarrow> (r, resetExemplarData p'))"

section \<open>Runs\<close>

text \<open>The lock makes consuming and exporting steps; the ranges of an export are the keys of the maps in any order.\<close>

definition ranges_of :: "('v, 'q, 'r, 'h) processorImp \<Rightarrow> ranges \<Rightarrow> bool" where
  "ranges_of p R \<longleftrightarrow>
     mset (callOrder R) = mset (map fst (callHistograms p)) \<and> mset (latencyOrder R) = mset (map fst (histograms p)) \<and>
     mset (externalOrder R) = mset (map fst (externalCallHistograms p)) \<and> mset (dbOrder R) = mset (map fst (dbCallHistograms p)) \<and>
     mset (expOrder R) = mset (map fst (expHistograms p))"

inductive sm_reachable ::
    "('v, 'r, 'h) smlib \<Rightarrow> ('q, metricKey, 'v Map) lru \<Rightarrow> ('v, 'q, 'r, 'h) processorImp \<Rightarrow> ('v, 'q, 'r, 'h) processorImp \<Rightarrow> bool"
  for A L p0 where
  initial: "sm_reachable A L p0 p0"
| consumed: "sm_reachable A L p0 p \<Longrightarrow> ConsumeTraces A L now traces p = Some (ts, p') \<Longrightarrow> sm_reachable A L p0 p'"
| exported: "sm_reachable A L p0 p \<Longrightarrow> ranges_of p R \<Longrightarrow> exportMetrics A L now R p = (r, p') \<Longrightarrow> sm_reachable A L p0 p'"

end
