(* ===== verification/SpanMetricsInv.thy ===== *)
theory SpanMetricsInv
  imports SpanMetrics
begin

text \<open>
  The invariant of the span metrics processor and that every operation keeps it: each of the five
  maps of histograms has the dimensions of all its keys in its cache, every histogram counts each of
  its samples in one bucket, and the names recorded of services and operations are bounded. The
  lemmas on consuming and exporting are proved once, in the locale \<open>metric_caches\<close>, for any LRU
  cache that keeps its promise.
\<close>

section \<open>Histograms\<close>

lemma search_bounds: "i \<le> j \<Longrightarrow> i \<le> search f i j \<and> search f i j \<le> j"
proof (induction f i j rule: search.induct)
  case (1 f i j)
  show ?case
  proof (cases "i < j")
    case True
    let ?h = "(i + j) div 2"
    have h: "i \<le> ?h" "?h < j" using True by linarith+
    show ?thesis
    proof (cases "f ?h")
      case fh: True
      then have "search f i j = search f i ?h" using True by (subst search.simps) (simp add: Let_def)
      moreover have "i \<le> search f i ?h \<and> search f i ?h \<le> ?h" using "1.IH"(2) [OF True refl] fh h by simp
      ultimately show ?thesis using h by linarith
    next
      case fh: False
      then have "search f i j = search f (?h + 1) j" using True by (subst search.simps) (simp add: Let_def)
      moreover have "?h + 1 \<le> search f (?h + 1) j \<and> search f (?h + 1) j \<le> j" using "1.IH"(1) [OF True refl] fh h by simp
      ultimately show ?thesis using h by linarith
    qed
  next
    case False
    with 1 show ?thesis by (subst (1 2) search.simps) simp
  qed
qed

text \<open>For a predicate that once true stays true the search finds where it becomes true.\<close>

lemma search_first:
  assumes mono: "\<And>a b. a \<le> b \<Longrightarrow> b < n \<Longrightarrow> f a \<Longrightarrow> f b"
    and "i \<le> j" and "j \<le> n" and "\<And>a. a < i \<Longrightarrow> \<not> f a" and "\<And>a. j \<le> a \<Longrightarrow> a < n \<Longrightarrow> f a"
  shows "(\<forall>a < search f i j. \<not> f a) \<and> (\<forall>a. search f i j \<le> a \<and> a < n \<longrightarrow> f a)"
  using assms(2-)
proof (induction "j - i" arbitrary: i j rule: less_induct)
  case less
  show ?case
  proof (cases "i < j")
    case False
    then have "search f i j = i" by (subst search.simps) simp
    with less.prems False show ?thesis by auto
  next
    case True
    let ?h = "(i + j) div 2"
    have h: "i \<le> ?h" "?h < j" "?h < n" using True less.prems(2) by linarith+
    show ?thesis
    proof (cases "f ?h")
      case fh: True
      have "search f i j = search f i ?h" using True fh by (subst search.simps) (simp add: Let_def)
      moreover have "(\<forall>a < search f i ?h. \<not> f a) \<and> (\<forall>a. search f i ?h \<le> a \<and> a < n \<longrightarrow> f a)"
        using True h mono [of ?h] fh less.prems by (intro less.hyps) auto
      ultimately show ?thesis by simp
    next
      case fh: False
      have "search f i j = search f (?h + 1) j" using True fh by (subst search.simps) (simp add: Let_def)
      moreover have "\<not> f a" if "a < ?h + 1" for a using mono [of a ?h] fh that h(3) by auto
      then have "(\<forall>a < search f (?h + 1) j. \<not> f a) \<and> (\<forall>a. search f (?h + 1) j \<le> a \<and> a < n \<longrightarrow> f a)"
        using True h less.prems(2,4) by (intro less.hyps) auto
      ultimately show ?thesis by simp
    qed
  qed
qed

lemma SearchFloat64s_le: "SearchFloat64s bounds x \<le> length bounds"
  using search_bounds [of 0 "length bounds"] by (simp add: SearchFloat64s_def)

lemma SearchFloat64s_sorted:
  assumes "sorted bounds"
  shows "a < SearchFloat64s bounds x \<Longrightarrow> bounds ! a < x"
    and "SearchFloat64s bounds x \<le> a \<Longrightarrow> a < length bounds \<Longrightarrow> x \<le> bounds ! a"
proof -
  have "(\<forall>a < SearchFloat64s bounds x. \<not> x \<le> bounds ! a) \<and>
      (\<forall>a. SearchFloat64s bounds x \<le> a \<and> a < length bounds \<longrightarrow> x \<le> bounds ! a)"
    unfolding SearchFloat64s_def
  proof (rule search_first)
    show "x \<le> bounds ! b" if "a \<le> b" "b < length bounds" "x \<le> bounds ! a" for a b
      using sorted_nth_mono [OF assms that(1,2)] that(3) by simp
  qed auto
  then show "a < SearchFloat64s bounds x \<Longrightarrow> bounds ! a < x"
    and "SearchFloat64s bounds x \<le> a \<Longrightarrow> a < length bounds \<Longrightarrow> x \<le> bounds ! a" by auto
qed

text \<open>A histogram counts every sample in one bucket.\<close>

definition hist_ok :: "rat list \<Rightarrow> histogramData \<Rightarrow> bool" where
  "hist_ok bounds h \<longleftrightarrow> length (bucketCounts h) = length bounds + 1 \<and> sum_list (bucketCounts h) = observed h"

definition hists_ok :: "rat list \<Rightarrow> (metricKey \<times> histogramData) list \<Rightarrow> bool" where
  "hists_ok bounds hs \<longleftrightarrow> distinct (map fst hs) \<and> (\<forall>h \<in> set (map snd hs). hist_ok bounds h)"

lemma sum_list_incr: "i < length xs \<Longrightarrow> sum_list (xs[i := xs ! i + 1]) = sum_list xs + (1 :: 64 word)"
proof (induction xs arbitrary: i)
  case (Cons x xs)
  then show ?case by (cases i) (simp_all add: ac_simps)
qed simp

lemma newHistogram_ok: "hist_ok bounds (newHistogram bounds)"
  by (simp add: hist_ok_def newHistogram_def sum_list_replicate)

lemma observe_ok:
  assumes "hist_ok bounds h"
  obtains h' where "observe bounds latency ex h = Some h'" and "hist_ok bounds h'"
proof -
  have "SearchFloat64s bounds latency < length (bucketCounts h)"
    using SearchFloat64s_le [of bounds latency] assms by (simp add: hist_ok_def)
  then show thesis using assms that by (auto simp: observe_def Let_def hist_ok_def sum_list_incr)
qed

lemma map_of_in_snd: "map_of hs k = Some h \<Longrightarrow> h \<in> set (map snd hs)"
  by (metis map_of_SomeD image_eqI set_map snd_conv)

lemma snd_update: "set (map snd (AList.update k v xs)) \<subseteq> insert v (set (map snd xs))"
  by (induction xs) auto

lemma update_hist_ok:
  assumes "hists_ok bounds hs"
  obtains hs' where "update_hist bounds key latency tid sid hs = Some hs'" and "hists_ok bounds hs'"
    and "set (map fst hs') = insert key (set (map fst hs))"
proof -
  let ?h = "case map_of hs key of None \<Rightarrow> newHistogram bounds | Some h \<Rightarrow> h"
  have "hist_ok bounds ?h"
    using assms map_of_in_snd [of hs key] newHistogram_ok by (auto simp: hists_ok_def split: option.splits)
  then obtain h' where h': "observe bounds latency \<lparr>exTraceID = tid, exSpanID = sid, exValue = latency\<rparr> ?h = Some h'"
    "hist_ok bounds h'" by (rule observe_ok)
  show thesis
  proof (rule that)
    show "update_hist bounds key latency tid sid hs = Some (AList.update key h' hs)"
      using h'(1) by (simp add: update_hist_def Let_def)
    show "hists_ok bounds (AList.update key h' hs)"
      using assms h'(2) snd_update [of key h' hs] unfolding hists_ok_def by (metis distinct_update insert_iff subsetD)
    show "set (map fst (AList.update key h' hs)) = insert key (set (map fst hs))"
      by (rule set_map_fst_update)
  qed
qed

section \<open>The invariant\<close>

text \<open>
  A map of histograms and its cache: the cache is sound for its size and knows every key. The whole
  processor has five such pairs, and its histograms are consistent.
\<close>

definition pair_inv ::
    "('q \<Rightarrow> (metricKey \<rightharpoonup> 'v Map)) \<Rightarrow> (nat \<Rightarrow> 'q \<Rightarrow> bool) \<Rightarrow> nat \<Rightarrow> ('q, metricKey, 'v Map) Cache \<Rightarrow> metricKey set \<Rightarrow> bool" where
  "pair_inv content valid n c ks \<longleftrightarrow> valid n (lru c) \<and> ks \<subseteq> dom (Cache_known content c)"

definition sm_inv ::
    "('q \<Rightarrow> (metricKey \<rightharpoonup> 'v Map)) \<Rightarrow> (nat \<Rightarrow> 'q \<Rightarrow> bool) \<Rightarrow> nat \<Rightarrow> ('v, 'q, 'r, 'h) processorImp \<Rightarrow> bool" where
  "sm_inv content valid n p \<longleftrightarrow>
     pair_inv content valid n (metricKeyToDimensions p) (set (map fst (histograms p))) \<and>
     pair_inv content valid n (expHistogramKeyToDimensions p) (set (map fst (expHistograms p))) \<and>
     pair_inv content valid n (callMetricKeyToDimensions p) (set (map fst (callHistograms p))) \<and>
     pair_inv content valid n (dbCallMetricKeyToDimensions p) (set (map fst (dbCallHistograms p))) \<and>
     pair_inv content valid n (externalCallMetricKeyToDimensions p) (set (map fst (externalCallHistograms p))) \<and>
     hists_ok (latencyBounds p) (histograms p) \<and> hists_ok (latencyBounds p) (callHistograms p) \<and>
     hists_ok (latencyBounds p) (dbCallHistograms p) \<and> hists_ok (latencyBounds p) (externalCallHistograms p) \<and>
     distinct (map fst (expHistograms p))"

lemma sm_invD:
  assumes "sm_inv content valid n p"
  shows "pair_inv content valid n (metricKeyToDimensions p) (set (map fst (histograms p)))" and "hists_ok (latencyBounds p) (histograms p)"
    and "pair_inv content valid n (callMetricKeyToDimensions p) (set (map fst (callHistograms p)))" and "hists_ok (latencyBounds p) (callHistograms p)"
    and "pair_inv content valid n (dbCallMetricKeyToDimensions p) (set (map fst (dbCallHistograms p)))" and "hists_ok (latencyBounds p) (dbCallHistograms p)"
    and "pair_inv content valid n (externalCallMetricKeyToDimensions p) (set (map fst (externalCallHistograms p)))" and "hists_ok (latencyBounds p) (externalCallHistograms p)"
    and "pair_inv content valid n (expHistogramKeyToDimensions p) (set (map fst (expHistograms p)))" and "distinct (map fst (expHistograms p))"
  using assms unfolding sm_inv_def by blast+

text \<open>What the bookkeeping of services, operations and cardinalities does not touch.\<close>

lemma sm_inv_bookkeeping [simp]:
  "sm_inv content valid n (p\<lparr>serviceToOperations := x\<rparr>) = sm_inv content valid n p"
  "sm_inv content valid n (p\<lparr>attrsCardinality := y\<rparr>) = sm_inv content valid n p"
  by (simp_all add: sm_inv_def)

lemma buildMetricKey_inv [simp]:
  "buildMetricKey A svc sp dims res p = (k, p') \<Longrightarrow> sm_inv content valid n p' = sm_inv content valid n p"
  by (auto simp: buildMetricKey_def buildKey_def Let_def)

text \<open>\<open>if _, has := Get(k); !has { Add(k, w) }\<close>\<close>

definition get_or_add ::
    "('q, 'k, 'w) lru \<Rightarrow> 'k \<Rightarrow> 'w \<Rightarrow> ('q, 'k, 'w) Cache \<Rightarrow> ('q, 'k, 'w) Cache" where
  "get_or_add L k w c = (case Cache_Get L k c of (Some _, c') \<Rightarrow> c' | (None, c') \<Rightarrow> Cache_Add L k w c')"

text \<open>The five caching functions are instances of it.\<close>

lemma built_dims:
  "\<exists>w y. buildDimensionKVs A svc sp ds res p = (w, p\<lparr>attrsCardinality := y\<rparr>)"
  "\<exists>w y. buildCustomDimensionKVs A svc sp ds res ex p = (w, p\<lparr>attrsCardinality := y\<rparr>)"
  unfolding buildDimensionKVs_def buildCustomDimensionKVs_def Let_def by (rule exI, rule exI, rule refl)+

lemma cacheDims_get_or_add:
  "\<exists>w y. cacheDims A L svc sp k res p = p\<lparr>metricKeyToDimensions := get_or_add L k w (metricKeyToDimensions p), attrsCardinality := y\<rparr>"
proof -
  obtain w y where b: "buildDimensionKVs A svc sp (dimensions p) res p = (w, p\<lparr>attrsCardinality := y\<rparr>)"
    using built_dims(1) by blast
  obtain r c where r: "Cache_Get L k (metricKeyToDimensions p) = (r, c)" by (cases "Cache_Get L k (metricKeyToDimensions p)")
  show ?thesis using b r
    by (intro exI [of _ w] exI [of _ "if r = None then y else attrsCardinality p"])
      (cases r; simp add: cacheDims_def get_or_add_def)
qed

lemma expHistogramCache_get_or_add:
  "\<exists>w y. expHistogramCache A L svc sp k res p = p\<lparr>expHistogramKeyToDimensions := get_or_add L k w (expHistogramKeyToDimensions p), attrsCardinality := y\<rparr>"
proof -
  obtain w y where b: "buildDimensionKVs A svc sp (expDimensions p) res p = (w, p\<lparr>attrsCardinality := y\<rparr>)"
    using built_dims(1) by blast
  obtain r c where r: "Cache_Get L k (expHistogramKeyToDimensions p) = (r, c)" by (cases "Cache_Get L k (expHistogramKeyToDimensions p)")
  show ?thesis using b r
    by (intro exI [of _ w] exI [of _ "if r = None then y else attrsCardinality p"])
      (cases r; simp add: expHistogramCache_def get_or_add_def)
qed

lemma callCache_get_or_add:
  "\<exists>w y. callCache A L svc sp k res p = p\<lparr>callMetricKeyToDimensions := get_or_add L k w (callMetricKeyToDimensions p), attrsCardinality := y\<rparr>"
proof -
  obtain w y where b: "buildDimensionKVs A svc sp (callDimensions p) res p = (w, p\<lparr>attrsCardinality := y\<rparr>)"
    using built_dims(1) by blast
  obtain r c where r: "Cache_Get L k (callMetricKeyToDimensions p) = (r, c)" by (cases "Cache_Get L k (callMetricKeyToDimensions p)")
  show ?thesis using b r
    by (intro exI [of _ w] exI [of _ "if r = None then y else attrsCardinality p"])
      (cases r; simp add: callCache_def get_or_add_def)
qed

lemma dbCallCache_get_or_add:
  "\<exists>w y. dbCallCache A L svc sp k res p = p\<lparr>dbCallMetricKeyToDimensions := get_or_add L k w (dbCallMetricKeyToDimensions p), attrsCardinality := y\<rparr>"
proof -
  obtain w y where b: "buildCustomDimensionKVs A svc sp (dbCallDimensions p) res [] p = (w, p\<lparr>attrsCardinality := y\<rparr>)"
    using built_dims(2) by blast
  obtain r c where r: "Cache_Get L k (dbCallMetricKeyToDimensions p) = (r, c)" by (cases "Cache_Get L k (dbCallMetricKeyToDimensions p)")
  show ?thesis using b r
    by (intro exI [of _ w] exI [of _ "if r = None then y else attrsCardinality p"])
      (cases r; simp add: dbCallCache_def get_or_add_def)
qed

lemma externalCallCache_get_or_add:
  "\<exists>w y. externalCallCache A L svc sp k res ex p = p\<lparr>externalCallMetricKeyToDimensions := get_or_add L k w (externalCallMetricKeyToDimensions p), attrsCardinality := y\<rparr>"
proof -
  obtain w y where b: "buildCustomDimensionKVs A svc sp (externalCallDimensions p) res ex p = (w, p\<lparr>attrsCardinality := y\<rparr>)"
    using built_dims(2) by blast
  obtain r c where r: "Cache_Get L k (externalCallMetricKeyToDimensions p) = (r, c)" by (cases "Cache_Get L k (externalCallMetricKeyToDimensions p)")
  show ?thesis using b r
    by (intro exI [of _ w] exI [of _ "if r = None then y else attrsCardinality p"])
      (cases r; simp add: externalCallCache_def get_or_add_def)
qed

section \<open>Counting\<close>

text \<open>One more sample under one key, and the other histograms as before.\<close>

definition count_at :: "(metricKey \<times> histogramData) list \<Rightarrow> metricKey \<Rightarrow> 64 word" where
  "count_at hs k = (case map_of hs k of None \<Rightarrow> 0 | Some h \<Rightarrow> observed h)"

definition counted :: "metricKey \<Rightarrow> (metricKey \<times> histogramData) list \<Rightarrow> (metricKey \<times> histogramData) list \<Rightarrow> bool" where
  "counted k hs hs' \<longleftrightarrow> k \<in> set (map fst hs') \<and> count_at hs' k = count_at hs k + 1 \<and> (\<forall>k'. k' \<noteq> k \<longrightarrow> map_of hs' k' = map_of hs k')"

lemma update_hist_counted: "update_hist bounds k latency tid sid hs = Some hs' \<Longrightarrow> counted k hs hs'"
  by (auto simp: update_hist_def observe_def newHistogram_def counted_def count_at_def update_conv' set_map_fst_update Let_def
      simp del: set_map split: if_splits option.splits)

lemma update_frames:
  "updateHistogram k latency tid sid p = Some p' \<Longrightarrow> counted k (histograms p) (histograms p') \<and> callHistograms p' = callHistograms p"
  "updateCallHistogram k latency tid sid p = Some p' \<Longrightarrow> counted k (callHistograms p) (callHistograms p') \<and> histograms p' = histograms p"
  "updateExternalHistogram k latency tid sid p = Some p' \<Longrightarrow> callHistograms p' = callHistograms p \<and> histograms p' = histograms p"
  "updateDBHistogram k latency tid sid p = Some p' \<Longrightarrow> callHistograms p' = callHistograms p \<and> histograms p' = histograms p"
  by (auto simp: updateHistogram_def updateCallHistogram_def updateExternalHistogram_def updateDBHistogram_def
      dest: update_hist_counted)

lemma cache_frames [simp]:
  "histograms (cacheDims A L svc sp k res p) = histograms p" "callHistograms (cacheDims A L svc sp k res p) = callHistograms p"
  "histograms (expHistogramCache A L svc sp k res p) = histograms p" "callHistograms (expHistogramCache A L svc sp k res p) = callHistograms p"
  "histograms (callCache A L svc sp k res p) = histograms p" "callHistograms (callCache A L svc sp k res p) = callHistograms p"
  "histograms (dbCallCache A L svc sp k res p) = histograms p" "callHistograms (dbCallCache A L svc sp k res p) = callHistograms p"
  "histograms (externalCallCache A L svc sp k res ex p) = histograms p" "callHistograms (externalCallCache A L svc sp k res ex p) = callHistograms p"
proof -
  show "histograms (cacheDims A L svc sp k res p) = histograms p" "callHistograms (cacheDims A L svc sp k res p) = callHistograms p"
    using cacheDims_get_or_add [of A L svc sp k res p] by auto
  show "histograms (expHistogramCache A L svc sp k res p) = histograms p" "callHistograms (expHistogramCache A L svc sp k res p) = callHistograms p"
    using expHistogramCache_get_or_add [of A L svc sp k res p] by auto
  show "histograms (callCache A L svc sp k res p) = histograms p" "callHistograms (callCache A L svc sp k res p) = callHistograms p"
    using callCache_get_or_add [of A L svc sp k res p] by auto
  show "histograms (dbCallCache A L svc sp k res p) = histograms p" "callHistograms (dbCallCache A L svc sp k res p) = callHistograms p"
    using dbCallCache_get_or_add [of A L svc sp k res p] by auto
  show "histograms (externalCallCache A L svc sp k res ex p) = histograms p" "callHistograms (externalCallCache A L svc sp k res ex p) = callHistograms p"
    using externalCallCache_get_or_add [of A L svc sp k res ex p] by auto
qed

lemma key_frames:
  "buildMetricKey A svc sp dims res p = (k, p') \<Longrightarrow> histograms p' = histograms p \<and> callHistograms p' = callHistograms p"
  by (auto simp: buildMetricKey_def buildKey_def Let_def)

lemma exp_frames [simp]:
  "histograms (updateExpHistogram A k latency p) = histograms p" "callHistograms (updateExpHistogram A k latency p) = callHistograms p"
  by (simp_all add: updateExpHistogram_def Let_def)

lemma bind_SomeE: "Option.bind x f = Some y \<Longrightarrow> (\<And>z. x = Some z \<Longrightarrow> f z = Some y \<Longrightarrow> P) \<Longrightarrow> P"
  by (cases x) simp_all

lemma span_counted:
  assumes "aggregateMetricsForSpan A L now svc sp res p = Some p'"
    and "\<not> (GetSkipSpansOlderThan (config p) > 0 \<and> AsTime (start sp) < now - GetSkipSpansOlderThan (config p))"
    and "\<not> shouldSkip A svc sp res p"
  shows "\<exists>k k'. k = fst (buildMetricKey A svc sp (dimensions p) res p) \<and> counted k (histograms p) (histograms p') \<and>
    counted k' (callHistograms p) (callHistograms p')"
proof -
  obtain k p1 where 1: "buildMetricKey A svc sp (dimensions p) res p = (k, p1)" by fastforce
  note eq = assms(1) [unfolded aggregateMetricsForSpan_def Let_def if_not_P [OF assms(2)] if_not_P [OF assms(3)] 1 prod.case]
  from eq obtain p2 where 2: "updateHistogram k (latencyOf sp) (traceID sp) (spanID sp) (cacheDims A L svc sp k res p1) = Some p2"
    by (auto simp: bind_eq_Some_conv)
  obtain ke p2' where 3: "buildMetricKey A svc sp (expDimensions p2) res p2 = (ke, p2')" by fastforce
  define p3 where "p3 = (if EnableExpHistogram (config p2)
      then updateExpHistogram A ke (latencyOf sp) (expHistogramCache A L svc sp ke res p2') else p2)"
  obtain kc p4 where 4: "buildMetricKey A svc sp (callDimensions p3) res p3 = (kc, p4)" by fastforce
  note eq' = eq [unfolded 2 bind.simps Let_def 3 prod.case p3_def [symmetric] 4]
  from eq' obtain p5 where 5: "updateCallHistogram kc (latencyOf sp) (traceID sp) (spanID sp) (callCache A L svc sp kc res p4) = Some p5"
    by (auto simp: bind_eq_Some_conv)
  have rest: "histograms p' = histograms p5 \<and> callHistograms p' = callHistograms p5"
    using eq' unfolding 5 bind.simps
  proof (rule bind_SomeE, goal_cases)
    case (1 p6)
    have "histograms p6 = histograms p5 \<and> callHistograms p6 = callHistograms p5"
    proof (cases "getRemoteAddress A sp")
      case None
      with 1(1) show ?thesis by simp
    next
      case (Some a)
      show ?thesis
      proof (cases "kind sp = SpanKindClient")
        case True
        with 1(1) Some show ?thesis using update_frames(3) by fastforce
      next
        case False
        with 1(1) Some show ?thesis by simp
      qed
    qed
    moreover have "histograms p' = histograms p6 \<and> callHistograms p' = callHistograms p6"
    proof (cases "kind sp \<noteq> SpanKindServer \<and> map_of (attributes sp) ''db.system'' \<noteq> None")
      case True
      then show ?thesis using 1(2) update_frames(4) by fastforce
    next
      case False
      with 1(2) show ?thesis by (simp only: if_False) simp
    qed
    ultimately show ?case by simp
  qed
  have "histograms p3 = histograms p2" "callHistograms p3 = callHistograms p2" using key_frames [OF 3] by (simp_all add: p3_def)
  then have "counted k (histograms p) (histograms p')" "counted kc (callHistograms p) (callHistograms p')"
    using rest update_frames(1) [OF 2] update_frames(2) [OF 5] key_frames [OF 1] key_frames [OF 4] by simp_all
  with 1 show ?thesis by auto
qed

section \<open>Services and operations\<close>

text \<open>
  The operations recorded per service are bounded: not counting the overflow name at most one more
  than the configured number of each, because the check comes before the insertion.
\<close>

definition names_ok :: "int \<Rightarrow> string \<Rightarrow> string list \<Rightarrow> bool" where
  "names_ok m overflow xs \<longleftrightarrow> distinct xs \<and> int (length (filter (\<lambda>x. x \<noteq> overflow) xs)) \<le> max 0 (m + 1)"

definition tracked :: "('v, 'q, 'r, 'h) processorImp \<Rightarrow> bool" where
  "tracked p \<longleftrightarrow> names_ok (MaxServicesToTrack (config p)) overflowServiceName (map fst (serviceToOperations p)) \<and>
     (\<forall>ops \<in> set (map snd (serviceToOperations p)). names_ok (MaxOperationsToTrackPerService (config p)) overflowOperation ops)"

lemma names_ok_Nil [simp]: "names_ok m ovf []"
  by (simp add: names_ok_def)

lemma names_ok_insert:
  assumes "names_ok m ovf xs" and "x = (if int (length xs) > m then ovf else y)" and "x \<notin> set xs"
  shows "names_ok m ovf (xs @ [x])" and "names_ok m ovf (x # xs)"
proof -
  have "int (length (filter (\<lambda>x. x \<noteq> ovf) xs)) \<le> m" if "x \<noteq> ovf"
  proof -
    have "int (length xs) \<le> m" using that assms(2) by (simp split: if_splits)
    moreover have "length (filter (\<lambda>x. x \<noteq> ovf) xs) \<le> length xs" by (rule length_filter_le)
    ultimately show ?thesis by linarith
  qed
  then show "names_ok m ovf (xs @ [x])" and "names_ok m ovf (x # xs)"
    using assms(1,3) by (auto simp: names_ok_def)
qed

lemma names_ok_length: "names_ok m ovf xs \<Longrightarrow> int (length xs) \<le> max 0 (m + 1) + 1"
proof -
  assume a: "names_ok m ovf xs"
  then have "length (filter (\<lambda>x. x = ovf) xs) \<le> 1"
    by (auto simp: names_ok_def distinct_length_filter intro: order.trans [OF card_mono [of "{ovf}"]])
  then show ?thesis using a sum_length_filter_compl [of "\<lambda>x. x = ovf" xs] by (auto simp: names_ok_def)
qed

lemma map_fst_update: "map fst (AList.update k v xs) = (if k \<in> set (map fst xs) then map fst xs else map fst xs @ [k])"
  by (induction xs) auto

lemma buildMetricKey_tracked:
  assumes "tracked p" and "buildMetricKey A svc sp dims res p = (k, p')"
  shows "tracked p'" and "\<exists>t. p' = p\<lparr>serviceToOperations := t\<rparr>"
proof -
  let ?s = "trackedService svc p"
  let ?o = "trackedOperation ?s (spanName sp) p"
  have p': "p' = p\<lparr>serviceToOperations := AList.update ?s (List.insert ?o (operations ?s p)) (serviceToOperations p)\<rparr>"
    using assms(2) by (simp add: buildMetricKey_def buildKey_def Let_def)
  then show "\<exists>t. p' = p\<lparr>serviceToOperations := t\<rparr>" by blast
  have ops: "names_ok (MaxOperationsToTrackPerService (config p)) overflowOperation (operations ?s p)"
    using assms(1) map_of_SomeD [of "serviceToOperations p" ?s] by (force simp: operations_def tracked_def split: option.splits)
  then have "names_ok (MaxOperationsToTrackPerService (config p)) overflowOperation (List.insert ?o (operations ?s p))"
    using names_ok_insert(2) [OF ops, of ?o "spanName sp"] by (auto simp: List.insert_def trackedOperation_def)
  moreover have "names_ok (MaxServicesToTrack (config p)) overflowServiceName
      (map fst (AList.update ?s (List.insert ?o (operations ?s p)) (serviceToOperations p)))"
    using assms(1) names_ok_insert(1) [of "MaxServicesToTrack (config p)" _ "map fst (serviceToOperations p)" ?s svc]
    by (auto simp: map_fst_update tracked_def trackedService_def)
  ultimately show "tracked p'"
    using assms(1) snd_update [of ?s "List.insert ?o (operations ?s p)" "serviceToOperations p"]
    unfolding tracked_def p' by (simp del: set_map) blast
qed

text \<open>What does not change while the processor runs.\<close>

definition fixedParts :: "('v, 'q, 'r, 'h) processorImp \<Rightarrow> Config \<times> rat list \<times> string \<times> Timestamp" where
  "fixedParts p = (config p, latencyBounds p, instanceID p, startTimestamp p)"

text \<open>
  A metric reports a map of histograms: one point per key in the order of \<open>ks\<close>, whose value shows the
  histogram and whose attributes are the dimensions known for the key.
\<close>

definition reports ::
    "string \<Rightarrow> ('a \<Rightarrow> 'h point_value \<Rightarrow> bool) \<Rightarrow> metricKey list \<Rightarrow> (metricKey \<times> 'a) list \<Rightarrow> (metricKey \<rightharpoonup> 'v Map)
      \<Rightarrow> ('v, 'h) metric \<Rightarrow> bool" where
  "reports nm shows_hist ks hs known m \<longleftrightarrow> metricName m = nm \<and>
     list_all2 (\<lambda>k pt. (\<exists>h. map_of hs k = Some h \<and> shows_hist h (pointValue pt)) \<and> known k = Some (pointAttributes pt))
       ks (dataPoints m)"

definition shows_latency :: "rat list \<Rightarrow> histogramData \<Rightarrow> 'h point_value \<Rightarrow> bool" where
  "shows_latency bounds h pv \<longleftrightarrow> (\<exists>exs. pv = HistogramValue bounds (bucketCounts h) (observed h) (total h) exs)"

definition shows_count :: "histogramData \<Rightarrow> 'h point_value \<Rightarrow> bool" where
  "shows_count h pv \<longleftrightarrow> pv = IntValue (sint (observed h))"

definition shows_sum :: "histogramData \<Rightarrow> 'h point_value \<Rightarrow> bool" where
  "shows_sum h pv \<longleftrightarrow> pv = DoubleValue (total h)"

definition shows_exp :: "'h \<Rightarrow> 'h point_value \<Rightarrow> bool" where
  "shows_exp h pv \<longleftrightarrow> pv = ExpHistogramValue h"

text \<open>The seven metrics of an export report the five maps.\<close>

definition full_report ::
    "('q \<Rightarrow> (metricKey \<rightharpoonup> 'v Map)) \<Rightarrow> ranges \<Rightarrow> ('v, 'q, 'r, 'h) processorImp \<Rightarrow> ('v, 'h) metric list \<Rightarrow> bool" where
  "full_report content R p ms \<longleftrightarrow> (\<exists>m1 m2 m3 m4 m5 m6 m7. ms = [m1, m2, m3, m4, m5, m6, m7] \<and>
    reports ''o11y_calls_total'' shows_count (callOrder R) (callHistograms p) (Cache_known content (callMetricKeyToDimensions p)) m1 \<and>
    reports ''o11y_latency'' (shows_latency (latencyBounds p)) (latencyOrder R) (histograms p) (Cache_known content (metricKeyToDimensions p)) m2 \<and>
    reports ''o11y_external_call_latency_sum'' shows_sum (externalOrder R) (externalCallHistograms p) (Cache_known content (externalCallMetricKeyToDimensions p)) m3 \<and>
    reports ''o11y_external_call_latency_count'' shows_count (externalOrder R) (externalCallHistograms p) (Cache_known content (externalCallMetricKeyToDimensions p)) m4 \<and>
    reports ''o11y_db_latency_sum'' shows_sum (dbOrder R) (dbCallHistograms p) (Cache_known content (dbCallMetricKeyToDimensions p)) m5 \<and>
    reports ''o11y_db_latency_count'' shows_count (dbOrder R) (dbCallHistograms p) (Cache_known content (dbCallMetricKeyToDimensions p)) m6 \<and>
    reports ''o11y_latency'' shows_exp (expOrder R) (expHistograms p) (Cache_known content (expHistogramKeyToDimensions p)) m7)"

lemma reports_map:
  assumes "metricName m = nm" and "set ks \<subseteq> set (map fst hs)" and "set ks \<subseteq> dom known"
    and "dataPoints m = map (\<lambda>k. point k (the (map_of hs k)) (the (known k))) ks"
    and "\<And>k h d. shows_hist h (pointValue (point k h d)) \<and> pointAttributes (point k h d) = d"
  shows "reports nm shows_hist ks hs known m"
proof -
  have "map_of hs k = Some (the (map_of hs k))" if "k \<in> set ks" for k
    using that assms(2) by (cases "map_of hs k") (auto simp: map_of_eq_None_iff)
  moreover have "known k = Some (the (known k))" if "k \<in> set ks" for k using that assms(3) by auto
  ultimately have "list_all2 (\<lambda>k k'. (\<exists>h. map_of hs k = Some h \<and>
      shows_hist h (pointValue (point k' (the (map_of hs k')) (the (known k'))))) \<and>
      known k = Some (pointAttributes (point k' (the (map_of hs k')) (the (known k'))))) ks ks"
    using assms(5) by (intro list.rel_refl_strong) metis
  then show ?thesis using assms(1) unfolding reports_def assms(4) list_all2_map2 by blast
qed

lemma timed_point_sel [simp]:
  "\<exists>en. pointValue (timed_point now p k val dims) = val en" "pointAttributes (timed_point now p k val dims) = dims"
  by (auto simp: timed_point_def split: prod.splits)

text \<open>The number of keys of each of the five maps.\<close>

definition keys_within :: "nat \<Rightarrow> ('v, 'q, 'r, 'h) processorImp \<Rightarrow> bool" where
  "keys_within n p \<longleftrightarrow> length (histograms p) \<le> n \<and> length (expHistograms p) \<le> n \<and> length (callHistograms p) \<le> n \<and>
     length (dbCallHistograms p) \<le> n \<and> length (externalCallHistograms p) \<le> n"

lemma reset_exemplars_simps [simp]:
  "map fst (reset_exemplars hs) = map fst hs" "length (reset_exemplars hs) = length hs"
  by (simp_all add: reset_exemplars_def comp_def case_prod_beta)

lemma reset_exemplars_ok [simp]: "hists_ok bounds (reset_exemplars hs) = hists_ok bounds hs"
  unfolding hists_ok_def reset_exemplars_simps by (auto simp: reset_exemplars_def hist_ok_def)

lemma resetExemplarData_keeps:
  "sm_inv content valid n (resetExemplarData p) = sm_inv content valid n p"
  "tracked (resetExemplarData p) = tracked p" "fixedParts (resetExemplarData p) = fixedParts p"
  "keys_within m (resetExemplarData p) = keys_within m p"
  by (simp_all add: sm_inv_def resetExemplarData_def tracked_def fixedParts_def keys_within_def del: set_map)

locale metric_caches = lru_provider L content valid
  for L :: "('q, metricKey, 'v Map) lru" and content and valid
begin

abbreviation inv where "inv \<equiv> sm_inv content valid"

lemma get_or_add_pair:
  assumes "pair_inv content valid n c ks"
  shows "pair_inv content valid n (get_or_add L k w c) (insert k ks)"
proof -
  obtain r c' where r: "Cache_Get L k c = (r, c')" by (cases "Cache_Get L k c")
  have c': "valid n (lru c')" "r = Cache_known content c k" "Cache_known content c' = Cache_known content c"
    using assms Cache_Get_known [of n c k r c'] r by (simp_all add: pair_inv_def)
  show ?thesis
  proof (cases r)
    case None
    have "get_or_add L k w c = Cache_Add L k w c'" using r None by (simp add: get_or_add_def)
    then show ?thesis using Cache_Add_known [OF c'(1), of k w] c'(3) assms by (auto simp: pair_inv_def)
  next
    case (Some v)
    have "get_or_add L k w c = c'" using r Some by (simp add: get_or_add_def)
    moreover have "k \<in> dom (Cache_known content c)" using Some c'(2) by auto
    ultimately show ?thesis using c'(1,3) assms by (simp add: pair_inv_def)
  qed
qed

lemma update_pair:
  assumes "pair_inv content valid n c (set (map fst hs))" and "hists_ok bounds hs"
  obtains hs' where "update_hist bounds k latency tid sid hs = Some hs'" and "hists_ok bounds hs'"
    and "pair_inv content valid n (get_or_add L k w c) (set (map fst hs'))"
proof -
  obtain hs' where hs': "update_hist bounds k latency tid sid hs = Some hs'" "hists_ok bounds hs'"
    "set (map fst hs') = insert k (set (map fst hs))" using assms(2) by (rule update_hist_ok)
  show thesis using hs'(1,2) get_or_add_pair [OF assms(1), of k w] unfolding hs'(3) [symmetric] by (rule that)
qed

lemma latency_step:
  assumes "inv n p"
  shows "\<exists>c hs y. updateHistogram k latency tid sid (cacheDims A L svc sp k res p) =
      Some (p\<lparr>metricKeyToDimensions := c, histograms := hs, attrsCardinality := y\<rparr>) \<and>
    inv n (p\<lparr>metricKeyToDimensions := c, histograms := hs, attrsCardinality := y\<rparr>)"
proof -
  obtain w y where c: "cacheDims A L svc sp k res p =
      p\<lparr>metricKeyToDimensions := get_or_add L k w (metricKeyToDimensions p), attrsCardinality := y\<rparr>"
    using cacheDims_get_or_add by blast
  obtain hs where hs: "update_hist (latencyBounds p) k latency tid sid (histograms p) = Some hs"
    "hists_ok (latencyBounds p) hs" "pair_inv content valid n (get_or_add L k w (metricKeyToDimensions p)) (set (map fst hs))"
    using update_pair [OF sm_invD(1,2) [OF assms]] by blast
  then show ?thesis using assms unfolding sm_inv_def
    by (intro exI [of _ "get_or_add L k w (metricKeyToDimensions p)"] exI [of _ hs] exI [of _ y]) (simp add: updateHistogram_def c)
qed

lemma call_step:
  assumes "inv n p"
  shows "\<exists>c hs y. updateCallHistogram k latency tid sid (callCache A L svc sp k res p) =
      Some (p\<lparr>callMetricKeyToDimensions := c, callHistograms := hs, attrsCardinality := y\<rparr>) \<and>
    inv n (p\<lparr>callMetricKeyToDimensions := c, callHistograms := hs, attrsCardinality := y\<rparr>)"
proof -
  obtain w y where c: "callCache A L svc sp k res p =
      p\<lparr>callMetricKeyToDimensions := get_or_add L k w (callMetricKeyToDimensions p), attrsCardinality := y\<rparr>"
    using callCache_get_or_add by blast
  obtain hs where hs: "update_hist (latencyBounds p) k latency tid sid (callHistograms p) = Some hs"
    "hists_ok (latencyBounds p) hs" "pair_inv content valid n (get_or_add L k w (callMetricKeyToDimensions p)) (set (map fst hs))"
    using update_pair [OF sm_invD(3,4) [OF assms]] by blast
  then show ?thesis using assms unfolding sm_inv_def
    by (intro exI [of _ "get_or_add L k w (callMetricKeyToDimensions p)"] exI [of _ hs] exI [of _ y]) (simp add: updateCallHistogram_def c)
qed

lemma external_step:
  assumes "inv n p"
  shows "\<exists>c hs y. updateExternalHistogram k latency tid sid (externalCallCache A L svc sp k res ex p) =
      Some (p\<lparr>externalCallMetricKeyToDimensions := c, externalCallHistograms := hs, attrsCardinality := y\<rparr>) \<and>
    inv n (p\<lparr>externalCallMetricKeyToDimensions := c, externalCallHistograms := hs, attrsCardinality := y\<rparr>)"
proof -
  obtain w y where c: "externalCallCache A L svc sp k res ex p =
      p\<lparr>externalCallMetricKeyToDimensions := get_or_add L k w (externalCallMetricKeyToDimensions p), attrsCardinality := y\<rparr>"
    using externalCallCache_get_or_add by blast
  obtain hs where hs: "update_hist (latencyBounds p) k latency tid sid (externalCallHistograms p) = Some hs"
    "hists_ok (latencyBounds p) hs" "pair_inv content valid n (get_or_add L k w (externalCallMetricKeyToDimensions p)) (set (map fst hs))"
    using update_pair [OF sm_invD(7,8) [OF assms]] by blast
  then show ?thesis using assms unfolding sm_inv_def
    by (intro exI [of _ "get_or_add L k w (externalCallMetricKeyToDimensions p)"] exI [of _ hs] exI [of _ y]) (simp add: updateExternalHistogram_def c)
qed

lemma db_step:
  assumes "inv n p"
  shows "\<exists>c hs y. updateDBHistogram k latency tid sid (dbCallCache A L svc sp k res p) =
      Some (p\<lparr>dbCallMetricKeyToDimensions := c, dbCallHistograms := hs, attrsCardinality := y\<rparr>) \<and>
    inv n (p\<lparr>dbCallMetricKeyToDimensions := c, dbCallHistograms := hs, attrsCardinality := y\<rparr>)"
proof -
  obtain w y where c: "dbCallCache A L svc sp k res p =
      p\<lparr>dbCallMetricKeyToDimensions := get_or_add L k w (dbCallMetricKeyToDimensions p), attrsCardinality := y\<rparr>"
    using dbCallCache_get_or_add by blast
  obtain hs where hs: "update_hist (latencyBounds p) k latency tid sid (dbCallHistograms p) = Some hs"
    "hists_ok (latencyBounds p) hs" "pair_inv content valid n (get_or_add L k w (dbCallMetricKeyToDimensions p)) (set (map fst hs))"
    using update_pair [OF sm_invD(5,6) [OF assms]] by blast
  then show ?thesis using assms unfolding sm_inv_def
    by (intro exI [of _ "get_or_add L k w (dbCallMetricKeyToDimensions p)"] exI [of _ hs] exI [of _ y]) (simp add: updateDBHistogram_def c)
qed

lemma exp_step:
  assumes "inv n p"
  shows "\<exists>c hs y. updateExpHistogram A k latency (expHistogramCache A L svc sp k res p) =
      p\<lparr>expHistogramKeyToDimensions := c, expHistograms := hs, attrsCardinality := y\<rparr> \<and>
    inv n (p\<lparr>expHistogramKeyToDimensions := c, expHistograms := hs, attrsCardinality := y\<rparr>)"
proof -
  obtain w y where c: "expHistogramCache A L svc sp k res p =
      p\<lparr>expHistogramKeyToDimensions := get_or_add L k w (expHistogramKeyToDimensions p), attrsCardinality := y\<rparr>"
    using expHistogramCache_get_or_add by blast
  let ?c = "get_or_add L k w (expHistogramKeyToDimensions p)"
  let ?hs = "AList.update k (expUpdate A latency (case map_of (expHistograms p) k of None \<Rightarrow> expNew A | Some h \<Rightarrow> h)) (expHistograms p)"
  have "pair_inv content valid n (expHistogramKeyToDimensions p) (set (map fst (expHistograms p)))"
    using assms by (simp add: sm_inv_def)
  from get_or_add_pair [OF this, of k w] have "inv n (p\<lparr>expHistogramKeyToDimensions := ?c, expHistograms := ?hs, attrsCardinality := y\<rparr>)"
    using assms unfolding sm_inv_def by (simp add: set_map_fst_update distinct_update del: set_map)
  moreover have "updateExpHistogram A k latency (expHistogramCache A L svc sp k res p) =
      p\<lparr>expHistogramKeyToDimensions := ?c, expHistograms := ?hs, attrsCardinality := y\<rparr>"
    by (simp add: updateExpHistogram_def c Let_def)
  ultimately show ?thesis by blast
qed

text \<open>A state with the invariant, bounded names and the same fixed parts as before.\<close>

definition good :: "nat \<Rightarrow> ('v, 'q, 'r, 'h) processorImp \<Rightarrow> ('v, 'q, 'r, 'h) processorImp \<Rightarrow> bool" where
  "good n p p' \<longleftrightarrow> inv n p' \<and> tracked p' \<and> fixedParts p' = fixedParts p"

lemma good_refl: "inv n p \<Longrightarrow> tracked p \<Longrightarrow> good n p p"
  by (simp add: good_def)

lemma good_trans: "good n p p' \<Longrightarrow> good n p' p'' \<Longrightarrow> good n p p''"
  by (simp add: good_def)

lemma key_good:
  assumes "inv n p" and "tracked p" and "buildMetricKey A svc sp dims res p = (k, p')"
  shows "good n p p'"
  using buildMetricKey_tracked [OF assms(2,3)] buildMetricKey_inv [OF assms(3)] assms(1)
  by (auto simp: good_def fixedParts_def)

lemma steps_good:
  assumes "good n p0 p"
  shows "\<exists>p'. updateHistogram k latency tid sid (cacheDims A L svc sp k res p) = Some p' \<and> good n p0 p'"
    and "\<exists>p'. updateCallHistogram k latency tid sid (callCache A L svc sp k res p) = Some p' \<and> good n p0 p'"
    and "\<exists>p'. updateExternalHistogram k latency tid sid (externalCallCache A L svc sp k res ex p) = Some p' \<and> good n p0 p'"
    and "\<exists>p'. updateDBHistogram k latency tid sid (dbCallCache A L svc sp k res p) = Some p' \<and> good n p0 p'"
    and "good n p0 (updateExpHistogram A k latency (expHistogramCache A L svc sp k res p))"
proof -
  have i: "inv n p" "tracked p" "fixedParts p = fixedParts p0" using assms by (auto simp: good_def)
  note frame = good_def tracked_def fixedParts_def
  show "\<exists>p'. updateHistogram k latency tid sid (cacheDims A L svc sp k res p) = Some p' \<and> good n p0 p'"
    using latency_step [OF i(1), of k latency tid sid A svc sp res] i(2,3) by (elim exE conjE) (simp add: frame)
  show "\<exists>p'. updateCallHistogram k latency tid sid (callCache A L svc sp k res p) = Some p' \<and> good n p0 p'"
    using call_step [OF i(1), of k latency tid sid A svc sp res] i(2,3) by (elim exE conjE) (simp add: frame)
  show "\<exists>p'. updateExternalHistogram k latency tid sid (externalCallCache A L svc sp k res ex p) = Some p' \<and> good n p0 p'"
    using external_step [OF i(1), of k latency tid sid A svc sp res ex] i(2,3) by (elim exE conjE) (simp add: frame)
  show "\<exists>p'. updateDBHistogram k latency tid sid (dbCallCache A L svc sp k res p) = Some p' \<and> good n p0 p'"
    using db_step [OF i(1), of k latency tid sid A svc sp res] i(2,3) by (elim exE conjE) (simp add: frame)
  show "good n p0 (updateExpHistogram A k latency (expHistogramCache A L svc sp k res p))"
    using exp_step [OF i(1), of A k latency svc sp res] i(2,3) by (elim exE conjE) (simp add: frame)
qed

lemma key_step:
  assumes "good n p0 p"
  obtains k p' where "buildMetricKey A svc sp dims res p = (k, p')" and "good n p0 p'"
  using assms key_good [of n p A svc sp dims res] good_trans [of n p0 p]
  by (cases "buildMetricKey A svc sp dims res p") (auto simp: good_def)

lemma if_some: "\<exists>x. a = Some x \<and> P x \<Longrightarrow> P y \<Longrightarrow> \<exists>x. (if b then a else Some y) = Some x \<and> P x"
  by auto

lemma case_some:
  "(\<And>v. \<exists>x. f v = Some x \<and> P x) \<Longrightarrow> P y \<Longrightarrow> \<exists>x. (case a of Some v \<Rightarrow> f v | None \<Rightarrow> Some y) = Some x \<and> P x"
  by (cases a) auto

lemma span_step:
  assumes "inv n p" and "tracked p"
  shows "\<exists>p'. aggregateMetricsForSpan A L now svc sp res p = Some p' \<and> good n p p'"
proof (cases "GetSkipSpansOlderThan (config p) > 0 \<and> AsTime (start sp) < now - GetSkipSpansOlderThan (config p) \<or> shouldSkip A svc sp res p")
  case True
  then show ?thesis using good_refl [OF assms] by (auto simp: aggregateMetricsForSpan_def)
next
  case False
  let ?l = "latencyOf sp" and ?t = "traceID sp" and ?s = "spanID sp"
  have p0: "good n p p" using assms by (rule good_refl)
  obtain k p1 where 1: "buildMetricKey A svc sp (dimensions p) res p = (k, p1)" "good n p p1" using p0 by (rule key_step)
  obtain p2 where 2: "updateHistogram k ?l ?t ?s (cacheDims A L svc sp k res p1) = Some p2" "good n p p2"
    using steps_good(1) [OF 1(2)] by blast
  obtain ke p2' where 3: "buildMetricKey A svc sp (expDimensions p2) res p2 = (ke, p2')" "good n p p2'" using 2(2) by (rule key_step)
  define p3 where "p3 = (if EnableExpHistogram (config p2)
      then updateExpHistogram A ke ?l (expHistogramCache A L svc sp ke res p2') else p2)"
  have 4: "good n p p3" using 2(2) steps_good(5) [OF 3(2)] by (simp add: p3_def)
  obtain kc p4 where 5: "buildMetricKey A svc sp (callDimensions p3) res p3 = (kc, p4)" "good n p p4" using 4 by (rule key_step)
  obtain p5 where 6: "updateCallHistogram kc ?l ?t ?s (callCache A L svc sp kc res p4) = Some p5" "good n p p5"
    using steps_good(2) [OF 5(2)] by blast
  let ?kx = "\<lambda>a. buildCustomMetricKey A svc sp (externalCallDimensions p5) res [a] p5"
  let ?r = "case getRemoteAddress A sp of
       Some a \<Rightarrow> if kind sp = SpanKindClient
         then updateExternalHistogram (?kx a) ?l ?t ?s (externalCallCache A L svc sp (?kx a) res [(''address'', NewValueStr A a)] p5)
         else Some p5
     | None \<Rightarrow> Some p5"
  have "\<exists>p6. ?r = Some p6 \<and> good n p p6" by (rule case_some, rule if_some, rule steps_good(3)) (rule 6(2))+
  then obtain p6 where 7: "?r = Some p6" "good n p p6" by blast
  let ?kd = "buildCustomMetricKey A svc sp (dbCallDimensions p6) res [] p6"
  obtain p7 where 8: "(if kind sp \<noteq> SpanKindServer \<and> map_of (attributes sp) ''db.system'' \<noteq> None
      then updateDBHistogram ?kd ?l ?t ?s (dbCallCache A L svc sp ?kd res p6) else Some p6) = Some p7" "good n p p7"
    using if_some [OF steps_good(4) [OF 7(2)] 7(2)] by blast
  have fresh: "(GetSkipSpansOlderThan (config p) > 0 \<and> AsTime (start sp) < now - GetSkipSpansOlderThan (config p)) = False"
    "shouldSkip A svc sp res p = False" using False by blast+
  have "aggregateMetricsForSpan A L now svc sp res p = Some p7"
    using fresh 5(1) 7(1) 8(1) p3_def unfolding aggregateMetricsForSpan_def Let_def
    unfolding fresh if_False by (cases "EnableExpHistogram (config p2)") (simp_all add: 1(1) 2(1) 3(1) 6(1))
  then show ?thesis using 8(2) by blast
qed

lemma spans_step:
  "inv n p \<Longrightarrow> tracked p \<Longrightarrow> \<exists>p'. aggregate_spans A L now svc sps res p = Some p' \<and> good n p p'"
proof (induction sps arbitrary: p)
  case Nil
  then show ?case using good_refl by simp
next
  case (Cons sp sps)
  obtain p1 where 1: "aggregateMetricsForSpan A L now svc sp res p = Some p1" "good n p p1"
    using span_step [OF Cons.prems] by blast
  then obtain p2 where "aggregate_spans A L now svc sps res p1 = Some p2" "good n p1 p2"
    using Cons.IH [of p1] by (auto simp: good_def)
  with 1 show ?case using good_trans by auto
qed

lemma consume_step:
  "inv n p \<Longrightarrow> tracked p \<Longrightarrow> \<exists>ts p'. ConsumeTraces A L now traces p = Some (ts, p') \<and> good n p p'"
  unfolding ConsumeTraces_def
proof (induction traces arbitrary: p)
  case Nil
  then show ?case using good_refl by simp
next
  case (Cons rs traces)
  show ?case
  proof (cases "map_of (resource rs) serviceNameKey")
    case None
    then show ?thesis using Cons.IH [OF Cons.prems] by auto
  next
    case (Some svc)
    let ?res = "AList.update o11yID (NewValueStr A (instanceID p)) (resource rs)"
    obtain p1 where 1: "aggregate_spans A L now (Str A svc) (concat (scopeSpans rs)) ?res p = Some p1" "good n p p1"
      using spans_step [OF Cons.prems] by blast
    then obtain ts p2 where "aggregateMetrics A L now traces p1 = Some (ts, p2)" "good n p1 p2"
      using Cons.IH [of p1] by (auto simp: good_def)
    with 1 Some show ?thesis using good_trans [of n p p1 p2] by (auto simp: Let_def)
  qed
qed

text \<open>The loop of a collector over known keys: one point per key, with the dimensions of the cache.\<close>

definition points ::
    "(metricKey \<Rightarrow> 'a \<Rightarrow> 'v Map \<Rightarrow> 'p) \<Rightarrow> metricKey list \<Rightarrow> (metricKey \<times> 'a) list \<Rightarrow> ('q, metricKey, 'v Map) Cache \<Rightarrow> 'p list" where
  "points point ks hs c = map (\<lambda>k. point k (the (map_of hs k)) (the (Cache_known content c k))) ks"

lemma collect_points:
  "valid n (lru c) \<Longrightarrow> set ks \<subseteq> set (map fst hs) \<Longrightarrow> set (map fst hs) \<subseteq> dom (Cache_known content c) \<Longrightarrow>
   \<exists>c'. collect_loop L missing point ks hs c = (Inr (points point ks hs c), c') \<and>
     valid n (lru c') \<and> Cache_known content c' = Cache_known content c"
proof (induction ks arbitrary: c)
  case Nil
  then show ?case by (simp add: points_def)
next
  case (Cons k ks)
  obtain h where h: "map_of hs k = Some h"
    using Cons.prems(2) by (cases "map_of hs k") (auto simp: map_of_eq_None_iff)
  obtain d where d: "Cache_known content c k = Some d" using Cons.prems(2,3) by auto
  obtain c1 where c1: "Cache_Get L k c = (Some d, c1)" "valid n (lru c1)" "Cache_known content c1 = Cache_known content c"
    using dims.fetch_known [OF Cons.prems(1) d] by blast
  obtain c2 where "collect_loop L missing point ks hs c1 = (Inr (points point ks hs c1), c2)" "valid n (lru c2)"
    "Cache_known content c2 = Cache_known content c1" using Cons.IH [OF c1(2)] Cons.prems(2,3) c1(3) by auto
  then show ?case using h d c1 by (simp add: points_def)
qed

lemma collect_pair:
  assumes "pair_inv content valid n c (set (map fst hs))" and "set ks \<subseteq> set (map fst hs)"
  shows "\<exists>c'. collect_loop L missing point ks hs c = (Inr (points point ks hs c), c') \<and>
    pair_inv content valid n c' (set (map fst hs))"
  using collect_points [of n c ks hs missing point] assms by (auto simp: pair_inv_def)

lemma reports_points:
  assumes "pair_inv content valid n c (set (map fst hs))" and "set ks \<subseteq> set (map fst hs)"
    and "\<And>k h d. shows_hist h (pointValue (point k h d)) \<and> pointAttributes (point k h d) = d"
  shows "reports nm shows_hist ks hs (Cache_known content c) (make_metric nm u p (points point ks hs c))"
proof (rule reports_map [where point = point, OF _ assms(2) _ _ assms(3)])
  show "set ks \<subseteq> dom (Cache_known content c)" using assms(1,2) unfolding pair_inv_def by blast
qed (simp_all add: make_metric_def points_def)

lemma reports_points_fst:
  assumes "pair_inv content valid n c (set (map fst hs))" and "set ks \<subseteq> set (map fst hs)"
    and "\<And>k h d. shows_hist h (pointValue (fst (point k h d))) \<and> pointAttributes (fst (point k h d)) = d"
  shows "reports nm shows_hist ks hs (Cache_known content c) (make_metric nm u p (map fst (points point ks hs c)))"
  using reports_points [where point = "\<lambda>k h d. fst (point k h d)", OF assms] by (simp add: points_def comp_def)

lemma reports_points_snd:
  assumes "pair_inv content valid n c (set (map fst hs))" and "set ks \<subseteq> set (map fst hs)"
    and "\<And>k h d. shows_hist h (pointValue (snd (point k h d))) \<and> pointAttributes (snd (point k h d)) = d"
  shows "reports nm shows_hist ks hs (Cache_known content c) (make_metric nm u p (map snd (points point ks hs c)))"
  using reports_points [where point = "\<lambda>k h d. snd (point k h d)", OF assms] by (simp add: points_def comp_def)

lemmas shows_defs = shows_latency_def shows_count_def shows_sum_def shows_exp_def

lemma call_collected:
  assumes "inv n p" and "set ks \<subseteq> set (map fst (callHistograms p))"
  shows "\<exists>m1 c. collectCallMetrics A L now ks p = (Inr [m1], p\<lparr>callMetricKeyToDimensions := c\<rparr>) \<and>
    inv n (p\<lparr>callMetricKeyToDimensions := c\<rparr>) \<and>
    reports ''o11y_calls_total'' shows_count ks (callHistograms p) (Cache_known content (callMetricKeyToDimensions p)) m1"
proof -
  have P: "pair_inv content valid n (callMetricKeyToDimensions p) (set (map fst (callHistograms p)))" using assms(1) by (rule sm_invD)
  obtain c where c: "collect_loop L (notFound A ''callMetricKeyToDimensions'') (\<lambda>k h. timed_point now p k (\<lambda>en. IntValue (sint (observed h)))) ks (callHistograms p) (callMetricKeyToDimensions p) =
      (Inr (points (\<lambda>k h. timed_point now p k (\<lambda>en. IntValue (sint (observed h)))) ks (callHistograms p) (callMetricKeyToDimensions p)), c)" "pair_inv content valid n c (set (map fst (callHistograms p)))"
    using collect_pair [OF P assms(2)] by blast
  have "inv n (p\<lparr>callMetricKeyToDimensions := c\<rparr>)" using assms(1) c(2) by (simp add: sm_inv_def)
  moreover have "reports ''o11y_calls_total'' shows_count ks (callHistograms p) (Cache_known content (callMetricKeyToDimensions p)) (make_metric ''o11y_calls_total'' [] p (points (\<lambda>k h. timed_point now p k (\<lambda>en. IntValue (sint (observed h)))) ks (callHistograms p) (callMetricKeyToDimensions p)))"
    by (rule reports_points [OF P assms(2)]) (simp add: shows_defs sum_and_count_def timed_point_def split: prod.splits)
  moreover have "collectCallMetrics A L now ks p = (Inr [make_metric ''o11y_calls_total'' [] p (points (\<lambda>k h. timed_point now p k (\<lambda>en. IntValue (sint (observed h)))) ks (callHistograms p) (callMetricKeyToDimensions p))], p\<lparr>callMetricKeyToDimensions := c\<rparr>)"
    by (simp add: collectCallMetrics_def c(1))
  ultimately show ?thesis by blast
qed

lemma latency_collected:
  assumes "inv n p" and "set ks \<subseteq> set (map fst (histograms p))"
  shows "\<exists>m1 c. collectLatencyMetrics A L now ks p = (Inr [m1], p\<lparr>metricKeyToDimensions := c\<rparr>) \<and>
    inv n (p\<lparr>metricKeyToDimensions := c\<rparr>) \<and>
    reports ''o11y_latency'' (shows_latency (latencyBounds p)) ks (histograms p) (Cache_known content (metricKeyToDimensions p)) m1"
proof -
  have P: "pair_inv content valid n (metricKeyToDimensions p) (set (map fst (histograms p)))" using assms(1) by (rule sm_invD)
  obtain c where c: "collect_loop L (notFound A ''metricKeyToDimensions'') (\<lambda>k h. timed_point now p k (\<lambda>en. HistogramValue (latencyBounds p) (bucketCounts h) (observed h) (total h) (setExemplars (exemplarsData h) en))) ks (histograms p) (metricKeyToDimensions p) =
      (Inr (points (\<lambda>k h. timed_point now p k (\<lambda>en. HistogramValue (latencyBounds p) (bucketCounts h) (observed h) (total h) (setExemplars (exemplarsData h) en))) ks (histograms p) (metricKeyToDimensions p)), c)" "pair_inv content valid n c (set (map fst (histograms p)))"
    using collect_pair [OF P assms(2)] by blast
  have "inv n (p\<lparr>metricKeyToDimensions := c\<rparr>)" using assms(1) c(2) by (simp add: sm_inv_def)
  moreover have "reports ''o11y_latency'' (shows_latency (latencyBounds p)) ks (histograms p) (Cache_known content (metricKeyToDimensions p)) (make_metric ''o11y_latency'' ''ms'' p (points (\<lambda>k h. timed_point now p k (\<lambda>en. HistogramValue (latencyBounds p) (bucketCounts h) (observed h) (total h) (setExemplars (exemplarsData h) en))) ks (histograms p) (metricKeyToDimensions p)))"
    by (rule reports_points [OF P assms(2)]) (simp add: shows_defs sum_and_count_def timed_point_def split: prod.splits)
  moreover have "collectLatencyMetrics A L now ks p = (Inr [make_metric ''o11y_latency'' ''ms'' p (points (\<lambda>k h. timed_point now p k (\<lambda>en. HistogramValue (latencyBounds p) (bucketCounts h) (observed h) (total h) (setExemplars (exemplarsData h) en))) ks (histograms p) (metricKeyToDimensions p))], p\<lparr>metricKeyToDimensions := c\<rparr>)"
    by (simp add: collectLatencyMetrics_def c(1))
  ultimately show ?thesis by blast
qed

lemma external_collected:
  assumes "inv n p" and "set ks \<subseteq> set (map fst (externalCallHistograms p))"
  shows "\<exists>m1 m2 c. collectExternalCallMetrics A L now ks p = (Inr [m1, m2], p\<lparr>externalCallMetricKeyToDimensions := c\<rparr>) \<and>
    inv n (p\<lparr>externalCallMetricKeyToDimensions := c\<rparr>) \<and>
    reports ''o11y_external_call_latency_sum'' shows_sum ks (externalCallHistograms p) (Cache_known content (externalCallMetricKeyToDimensions p)) m1 \<and>
    reports ''o11y_external_call_latency_count'' shows_count ks (externalCallHistograms p) (Cache_known content (externalCallMetricKeyToDimensions p)) m2"
proof -
  have P: "pair_inv content valid n (externalCallMetricKeyToDimensions p) (set (map fst (externalCallHistograms p)))" using assms(1) by (rule sm_invD)
  obtain c where c: "collect_loop L (notFound A ''externalCallMetricKeyToDimensions'') (sum_and_count now p) ks (externalCallHistograms p) (externalCallMetricKeyToDimensions p) =
      (Inr (points (sum_and_count now p) ks (externalCallHistograms p) (externalCallMetricKeyToDimensions p)), c)" "pair_inv content valid n c (set (map fst (externalCallHistograms p)))"
    using collect_pair [OF P assms(2)] by blast
  have "inv n (p\<lparr>externalCallMetricKeyToDimensions := c\<rparr>)" using assms(1) c(2) by (simp add: sm_inv_def)
  moreover have "reports ''o11y_external_call_latency_sum'' shows_sum ks (externalCallHistograms p) (Cache_known content (externalCallMetricKeyToDimensions p)) (make_metric ''o11y_external_call_latency_sum'' ''1'' p (map fst (points (sum_and_count now p) ks (externalCallHistograms p) (externalCallMetricKeyToDimensions p))))"
    by (rule reports_points_fst [OF P assms(2)]) (simp add: shows_defs sum_and_count_def timed_point_def split: prod.splits)
  moreover have "reports ''o11y_external_call_latency_count'' shows_count ks (externalCallHistograms p) (Cache_known content (externalCallMetricKeyToDimensions p)) (make_metric ''o11y_external_call_latency_count'' ''1'' p (map snd (points (sum_and_count now p) ks (externalCallHistograms p) (externalCallMetricKeyToDimensions p))))"
    by (rule reports_points_snd [OF P assms(2)]) (simp add: shows_defs sum_and_count_def timed_point_def split: prod.splits)
  moreover have "collectExternalCallMetrics A L now ks p = (Inr [make_metric ''o11y_external_call_latency_sum'' ''1'' p (map fst (points (sum_and_count now p) ks (externalCallHistograms p) (externalCallMetricKeyToDimensions p))), make_metric ''o11y_external_call_latency_count'' ''1'' p (map snd (points (sum_and_count now p) ks (externalCallHistograms p) (externalCallMetricKeyToDimensions p)))], p\<lparr>externalCallMetricKeyToDimensions := c\<rparr>)"
    by (simp add: collectExternalCallMetrics_def c(1))
  ultimately show ?thesis by blast
qed

lemma db_collected:
  assumes "inv n p" and "set ks \<subseteq> set (map fst (dbCallHistograms p))"
  shows "\<exists>m1 m2 c. collectDBCallMetrics A L now ks p = (Inr [m1, m2], p\<lparr>dbCallMetricKeyToDimensions := c\<rparr>) \<and>
    inv n (p\<lparr>dbCallMetricKeyToDimensions := c\<rparr>) \<and>
    reports ''o11y_db_latency_sum'' shows_sum ks (dbCallHistograms p) (Cache_known content (dbCallMetricKeyToDimensions p)) m1 \<and>
    reports ''o11y_db_latency_count'' shows_count ks (dbCallHistograms p) (Cache_known content (dbCallMetricKeyToDimensions p)) m2"
proof -
  have P: "pair_inv content valid n (dbCallMetricKeyToDimensions p) (set (map fst (dbCallHistograms p)))" using assms(1) by (rule sm_invD)
  obtain c where c: "collect_loop L (notFound A ''dbCallMetricKeyToDimensions'') (sum_and_count now p) ks (dbCallHistograms p) (dbCallMetricKeyToDimensions p) =
      (Inr (points (sum_and_count now p) ks (dbCallHistograms p) (dbCallMetricKeyToDimensions p)), c)" "pair_inv content valid n c (set (map fst (dbCallHistograms p)))"
    using collect_pair [OF P assms(2)] by blast
  have "inv n (p\<lparr>dbCallMetricKeyToDimensions := c\<rparr>)" using assms(1) c(2) by (simp add: sm_inv_def)
  moreover have "reports ''o11y_db_latency_sum'' shows_sum ks (dbCallHistograms p) (Cache_known content (dbCallMetricKeyToDimensions p)) (make_metric ''o11y_db_latency_sum'' ''1'' p (map fst (points (sum_and_count now p) ks (dbCallHistograms p) (dbCallMetricKeyToDimensions p))))"
    by (rule reports_points_fst [OF P assms(2)]) (simp add: shows_defs sum_and_count_def timed_point_def split: prod.splits)
  moreover have "reports ''o11y_db_latency_count'' shows_count ks (dbCallHistograms p) (Cache_known content (dbCallMetricKeyToDimensions p)) (make_metric ''o11y_db_latency_count'' ''1'' p (map snd (points (sum_and_count now p) ks (dbCallHistograms p) (dbCallMetricKeyToDimensions p))))"
    by (rule reports_points_snd [OF P assms(2)]) (simp add: shows_defs sum_and_count_def timed_point_def split: prod.splits)
  moreover have "collectDBCallMetrics A L now ks p = (Inr [make_metric ''o11y_db_latency_sum'' ''1'' p (map fst (points (sum_and_count now p) ks (dbCallHistograms p) (dbCallMetricKeyToDimensions p))), make_metric ''o11y_db_latency_count'' ''1'' p (map snd (points (sum_and_count now p) ks (dbCallHistograms p) (dbCallMetricKeyToDimensions p)))], p\<lparr>dbCallMetricKeyToDimensions := c\<rparr>)"
    by (simp add: collectDBCallMetrics_def c(1))
  ultimately show ?thesis by blast
qed

lemma exp_collected:
  assumes "inv n p" and "set ks \<subseteq> set (map fst (expHistograms p))"
  shows "\<exists>m1 c. collectExpHistogramMetrics A L now ks p = (Inr [m1], p\<lparr>expHistogramKeyToDimensions := c\<rparr>) \<and>
    inv n (p\<lparr>expHistogramKeyToDimensions := c\<rparr>) \<and>
    reports ''o11y_latency'' shows_exp ks (expHistograms p) (Cache_known content (expHistogramKeyToDimensions p)) m1"
proof -
  have P: "pair_inv content valid n (expHistogramKeyToDimensions p) (set (map fst (expHistograms p)))" using assms(1) by (rule sm_invD)
  obtain c where c: "collect_loop L (notFound A ''expHistogramKeyToDimensions'') (\<lambda>k h. timed_point now p k (\<lambda>en. ExpHistogramValue h)) ks (expHistograms p) (expHistogramKeyToDimensions p) =
      (Inr (points (\<lambda>k h. timed_point now p k (\<lambda>en. ExpHistogramValue h)) ks (expHistograms p) (expHistogramKeyToDimensions p)), c)" "pair_inv content valid n c (set (map fst (expHistograms p)))"
    using collect_pair [OF P assms(2)] by blast
  have "inv n (p\<lparr>expHistogramKeyToDimensions := c\<rparr>)" using assms(1) c(2) by (simp add: sm_inv_def)
  moreover have "reports ''o11y_latency'' shows_exp ks (expHistograms p) (Cache_known content (expHistogramKeyToDimensions p)) (make_metric ''o11y_latency'' ''ms'' p (points (\<lambda>k h. timed_point now p k (\<lambda>en. ExpHistogramValue h)) ks (expHistograms p) (expHistogramKeyToDimensions p)))"
    by (rule reports_points [OF P assms(2)]) (simp add: shows_defs sum_and_count_def timed_point_def split: prod.splits)
  moreover have "collectExpHistogramMetrics A L now ks p = (Inr [make_metric ''o11y_latency'' ''ms'' p (points (\<lambda>k h. timed_point now p k (\<lambda>en. ExpHistogramValue h)) ks (expHistograms p) (expHistogramKeyToDimensions p))], p\<lparr>expHistogramKeyToDimensions := c\<rparr>)"
    by (simp add: collectExpHistogramMetrics_def c(1))
  ultimately show ?thesis by blast
qed

text \<open>The whole collection: seven metrics, no error, and only the caches' order of use changes.\<close>

abbreviation collectors where
  "collectors A now R \<equiv> [collectCallMetrics A L now (callOrder R), collectLatencyMetrics A L now (latencyOrder R),
     collectExternalCallMetrics A L now (externalOrder R), collectDBCallMetrics A L now (dbOrder R),
     collectExpHistogramMetrics A L now (expOrder R)]"

lemma ranges_subset:
  assumes "ranges_of p R"
  shows "set (callOrder R) \<subseteq> set (map fst (callHistograms p))" "set (latencyOrder R) \<subseteq> set (map fst (histograms p))"
    "set (externalOrder R) \<subseteq> set (map fst (externalCallHistograms p))" "set (dbOrder R) \<subseteq> set (map fst (dbCallHistograms p))"
    "set (expOrder R) \<subseteq> set (map fst (expHistograms p))"
  using assms unfolding ranges_of_def by (metis mset_eq_setD subset_refl)+

lemma all_collected:
  assumes "inv n p" and "tracked p" and "ranges_of p R"
  shows "\<exists>ms p'. collect_all (collectors A now R) p = (Inr ms, p') \<and> good n p p' \<and> full_report content R p ms"
proof -
  note sub = ranges_subset [OF assms(3)]
  obtain m1 c1 where 1: "collectCallMetrics A L now (callOrder R) p = (Inr [m1], p\<lparr>callMetricKeyToDimensions := c1\<rparr>)"
    "inv n (p\<lparr>callMetricKeyToDimensions := c1\<rparr>)"
    "reports ''o11y_calls_total'' shows_count (callOrder R) (callHistograms p) (Cache_known content (callMetricKeyToDimensions p)) m1"
    using call_collected [OF assms(1) sub(1)] by blast
  let ?p1 = "p\<lparr>callMetricKeyToDimensions := c1\<rparr>"
  obtain m2 c2 where 2: "collectLatencyMetrics A L now (latencyOrder R) ?p1 = (Inr [m2], ?p1\<lparr>metricKeyToDimensions := c2\<rparr>)"
    "inv n (?p1\<lparr>metricKeyToDimensions := c2\<rparr>)"
    "reports ''o11y_latency'' (shows_latency (latencyBounds p)) (latencyOrder R) (histograms p) (Cache_known content (metricKeyToDimensions p)) m2"
    using latency_collected [OF 1(2), of "latencyOrder R" A now] sub(2) by (simp del: set_map) blast
  let ?p2 = "?p1\<lparr>metricKeyToDimensions := c2\<rparr>"
  obtain m3 m4 c3 where 3: "collectExternalCallMetrics A L now (externalOrder R) ?p2 = (Inr [m3, m4], ?p2\<lparr>externalCallMetricKeyToDimensions := c3\<rparr>)"
    "inv n (?p2\<lparr>externalCallMetricKeyToDimensions := c3\<rparr>)"
    "reports ''o11y_external_call_latency_sum'' shows_sum (externalOrder R) (externalCallHistograms p) (Cache_known content (externalCallMetricKeyToDimensions p)) m3"
    "reports ''o11y_external_call_latency_count'' shows_count (externalOrder R) (externalCallHistograms p) (Cache_known content (externalCallMetricKeyToDimensions p)) m4"
    using external_collected [OF 2(2), of "externalOrder R" A now] sub(3) by (simp del: set_map) blast
  let ?p3 = "?p2\<lparr>externalCallMetricKeyToDimensions := c3\<rparr>"
  obtain m5 m6 c4 where 4: "collectDBCallMetrics A L now (dbOrder R) ?p3 = (Inr [m5, m6], ?p3\<lparr>dbCallMetricKeyToDimensions := c4\<rparr>)"
    "inv n (?p3\<lparr>dbCallMetricKeyToDimensions := c4\<rparr>)"
    "reports ''o11y_db_latency_sum'' shows_sum (dbOrder R) (dbCallHistograms p) (Cache_known content (dbCallMetricKeyToDimensions p)) m5"
    "reports ''o11y_db_latency_count'' shows_count (dbOrder R) (dbCallHistograms p) (Cache_known content (dbCallMetricKeyToDimensions p)) m6"
    using db_collected [OF 3(2), of "dbOrder R" A now] sub(4) by (simp del: set_map) blast
  let ?p4 = "?p3\<lparr>dbCallMetricKeyToDimensions := c4\<rparr>"
  obtain m7 c5 where 5: "collectExpHistogramMetrics A L now (expOrder R) ?p4 = (Inr [m7], ?p4\<lparr>expHistogramKeyToDimensions := c5\<rparr>)"
    "inv n (?p4\<lparr>expHistogramKeyToDimensions := c5\<rparr>)"
    "reports ''o11y_latency'' shows_exp (expOrder R) (expHistograms p) (Cache_known content (expHistogramKeyToDimensions p)) m7"
    using exp_collected [OF 4(2), of "expOrder R" A now] sub(5) by (simp del: set_map) blast
  let ?p5 = "?p4\<lparr>expHistogramKeyToDimensions := c5\<rparr>"
  have "collect_all (collectors A now R) p = (Inr [m1, m2, m3, m4, m5, m6, m7], ?p5)"
    by (simp add: 1(1) 2(1) 3(1) 4(1) 5(1))
  moreover have "good n p ?p5" using 5(2) assms(2) by (simp add: good_def tracked_def fixedParts_def)
  moreover have "full_report content R p [m1, m2, m3, m4, m5, m6, m7]"
    unfolding full_report_def using 1(3) 2(3) 3(3,4) 4(3,4) 5(3) by blast
  ultimately show ?thesis by blast
qed

text \<open>The evicted items are removed, and with them the histograms they described.\<close>

lemma stale_pair:
  assumes "valid n (lru c)"
  shows "pair_inv content valid n (RemoveEvictedItems c) (set (map fst (delete_stale L (RemoveEvictedItems c) hs)))"
    and "distinct (map fst hs) \<Longrightarrow> distinct (map fst (delete_stale L (RemoveEvictedItems c) hs))"
    and "distinct (map fst hs) \<Longrightarrow> length (delete_stale L (RemoveEvictedItems c) hs) \<le> n"
proof -
  let ?c = "RemoveEvictedItems c" and ?hs = "delete_stale L (RemoveEvictedItems c) hs"
  have f: "valid n (lru ?c)" "Cache_known content ?c = content (lru c)" "content (lru ?c) = content (lru c)"
    using dims.forget [OF assms] by auto
  have sub: "set (map fst ?hs) \<subseteq> dom (content (lru c))"
    using dims.member [OF f(1)] f(3) by (auto simp: delete_stale_def)
  then show "pair_inv content valid n ?c (set (map fst ?hs))" using f(1,2) by (simp add: pair_inv_def)
  assume d: "distinct (map fst hs)"
  then show d': "distinct (map fst ?hs)" by (simp add: delete_stale_def distinct_map_filter)
  have "length ?hs = card (set (map fst ?hs))" using distinct_card [OF d'] by simp
  also have "\<dots> \<le> card (dom (content (lru c)))" using sub dims.kept_bound [OF assms] by (auto intro: card_mono)
  also have "\<dots> \<le> n" using dims.kept_bound [OF assms] by simp
  finally show "length ?hs \<le> n" .
qed

lemma stale_hists:
  assumes "hists_ok bounds hs"
  shows "hists_ok bounds (delete_stale L c hs)"
  using assms by (auto simp: hists_ok_def delete_stale_def distinct_map_filter)

lemma trimmed:
  assumes "inv n p"
  shows "inv n (deleteStale L (removeEvicted p))" and "keys_within n (deleteStale L (removeEvicted p))"
proof -
  have v: "valid n (lru (metricKeyToDimensions p))" "valid n (lru (expHistogramKeyToDimensions p))"
    "valid n (lru (callMetricKeyToDimensions p))" "valid n (lru (dbCallMetricKeyToDimensions p))"
    "valid n (lru (externalCallMetricKeyToDimensions p))" using assms by (auto simp: sm_inv_def pair_inv_def)
  have h: "hists_ok (latencyBounds p) (histograms p)" "hists_ok (latencyBounds p) (callHistograms p)"
    "hists_ok (latencyBounds p) (dbCallHistograms p)" "hists_ok (latencyBounds p) (externalCallHistograms p)"
    "distinct (map fst (expHistograms p))" using assms by (auto simp: sm_inv_def)
  then have d: "distinct (map fst (histograms p))" "distinct (map fst (callHistograms p))"
    "distinct (map fst (dbCallHistograms p))" "distinct (map fst (externalCallHistograms p))" by (simp_all add: hists_ok_def)
  show "inv n (deleteStale L (removeEvicted p))"
    using v h by (simp add: sm_inv_def deleteStale_def removeEvicted_def stale_pair(1,2) stale_hists del: set_map)
  show "keys_within n (deleteStale L (removeEvicted p))"
    using v h(5) d by (simp add: keys_within_def deleteStale_def removeEvicted_def stale_pair(3))
qed

lemma accumulated_reset:
  assumes "inv n p"
  shows "inv n (resetAccumulatedMetrics L p)" and "keys_within 0 (resetAccumulatedMetrics L p)"
proof -
  have "valid n (lru (metricKeyToDimensions p))" "valid n (lru (expHistogramKeyToDimensions p))"
    "valid n (lru (callMetricKeyToDimensions p))" "valid n (lru (dbCallMetricKeyToDimensions p))"
    "valid n (lru (externalCallMetricKeyToDimensions p))" using assms by (auto simp: sm_inv_def pair_inv_def)
  then show "inv n (resetAccumulatedMetrics L p)" and "keys_within 0 (resetAccumulatedMetrics L p)"
    using dims.clear by (simp_all add: sm_inv_def pair_inv_def resetAccumulatedMetrics_def hists_ok_def keys_within_def)
qed

lemma export_step:
  assumes "inv n p" and "tracked p" and "ranges_of p R"
  shows "\<exists>ms p'. exportMetrics A L now R p = (Inr ms, p') \<and> good n p p' \<and>
    keys_within (if isDelta (config p) then 0 else n) p' \<and> full_report content R p ms"
proof -
  obtain ms p1 where 1: "collect_all (collectors A now R) p = (Inr ms, p1)"
    "good n p p1" "full_report content R p ms" using all_collected [OF assms, of A now] by blast
  let ?p2 = "deleteStale L (removeEvicted p1)"
  let ?p3 = "if isDelta (config ?p2) then resetAccumulatedMetrics L ?p2 else ?p2"
  have "inv n p1" "tracked p1" "fixedParts p1 = fixedParts p" using 1(2) by (auto simp: good_def)
  note t = trimmed [OF this(1)] and a = accumulated_reset [OF trimmed(1) [OF this(1)]]
  have same: "tracked ?p3" "fixedParts ?p3 = fixedParts p"
    using \<open>tracked p1\<close> \<open>fixedParts p1 = fixedParts p\<close>
    by (simp_all add: tracked_def fixedParts_def resetAccumulatedMetrics_def deleteStale_def removeEvicted_def)
  have cfg: "config ?p2 = config p" using \<open>fixedParts p1 = fixedParts p\<close> by (simp add: fixedParts_def deleteStale_def removeEvicted_def)
  have "exportMetrics A L now R p = (Inr ms, resetExemplarData (resetExemplarData ?p3))"
    unfolding exportMetrics_def buildMetrics_def 1(1) by (simp add: Let_def)
  moreover have "good n p (resetExemplarData (resetExemplarData ?p3))"
    using t(1) a(1) same by (simp add: good_def resetExemplarData_keeps)
  moreover have "keys_within (if isDelta (config p) then 0 else n) (resetExemplarData (resetExemplarData ?p3))"
    using t(2) a(2) cfg by (simp add: resetExemplarData_keeps)
  ultimately show ?thesis using 1(3) by blast
qed

end

end
