(* ===== verification/SpanMetricsFacts.thy ===== *)
theory SpanMetricsFacts
  imports SpanMetricsInv
begin

text \<open>
  What the span metrics processor guarantees in every state it can reach: consuming traces never
  panics and the metrics can always be built; memory is bounded by the size of the caches and the
  limits on services and operations; histograms are consistent and samples fall into the right
  bucket; the times in the keys of delta metrics are those of the spans. And what it does not: keys
  are ambiguous.
\<close>

section \<open>Reachable states\<close>

context metric_caches
begin

lemma reachable_good:
  assumes "inv n p0" and "tracked p0" and "sm_reachable A L p0 p"
  shows "good n p0 p"
  using assms(3)
proof (induction rule: sm_reachable.induct)
  case initial
  show ?case using assms(1,2) by (rule good_refl)
next
  case (consumed p now traces ts p')
  then show ?case using consume_step [of n p A now traces] good_trans [of n p0 p p'] by (auto simp: good_def)
next
  case (exported p R now r p')
  then show ?case using export_step [of n p R A now] good_trans [of n p0 p p'] by (auto simp: good_def)
qed

lemma new_good:
  assumes "newProcessor A L inst now cfg = Built p0"
  shows "inv (nat (DimensionsCacheSize cfg)) p0 \<and> tracked p0 \<and> 0 < DimensionsCacheSize cfg"
proof -
  have sz: "0 < DimensionsCacheSize cfg"
    using assms by (auto simp: newProcessor_def Let_def split: option.splits if_splits)
  then have "valid (nat (DimensionsCacheSize cfg)) (lruNew L (nat (DimensionsCacheSize cfg)))"
    using new by simp
  then show ?thesis using assms sz
    by (auto simp: newProcessor_def Let_def NewCache_def sm_inv_def pair_inv_def hists_ok_def tracked_def
        split: option.splits if_splits)
qed

end

interpretation recent_caches: metric_caches list_lru list_content list_valid
  by unfold_locales

lemma metric_cachesI: "lru_provider L content valid \<Longrightarrow> metric_caches L content valid"
  by (simp add: metric_caches_def)

lemma reachable_from_new:
  assumes "lru_provider L content valid" and "newProcessor A L inst now cfg = Built p0" and "sm_reachable A L p0 p"
  shows "sm_inv content valid (nat (DimensionsCacheSize cfg)) p" and "tracked p" and "fixedParts p = fixedParts p0"
  using metric_caches.reachable_good [OF metric_cachesI [OF assms(1)] _ _ assms(3)]
    metric_caches.new_good [OF metric_cachesI [OF assms(1)] assms(2)]
  by (auto simp: metric_caches.good_def [OF metric_cachesI [OF assms(1)]])

lemma new_fixedParts:
  assumes "newProcessor A L inst now cfg = Built p0"
  shows "isDelta (config p0) = isDelta cfg" "MaxServicesToTrack (config p0) = MaxServicesToTrack cfg"
    "MaxOperationsToTrackPerService (config p0) = MaxOperationsToTrackPerService cfg"
  using assms by (auto simp: newProcessor_def Let_def isDelta_def split: option.splits if_splits sum.splits)

text \<open>
  C16. In every state the processor can reach, whatever was consumed and exported before, consuming
  traces does not panic, and the metrics can be built: seven metrics, with one point for every key of
  the five maps, that shows the histogram of the key and the dimensions cached for it. The error
  "value not found in cache" cannot happen.
\<close>

theorem metrics_always_built:
  assumes "lru_provider L content valid" and "newProcessor A L inst now0 cfg = Built p0" and "sm_reachable A L p0 p"
  shows "(\<exists>ts p'. ConsumeTraces A L now traces p = Some (ts, p')) \<and>
    (ranges_of p R \<longrightarrow> (\<exists>ms p'. exportMetrics A L now R p = (Inr ms, p') \<and> full_report content R p ms))"
  using metric_caches.consume_step [OF metric_cachesI [OF assms(1)] reachable_from_new(1,2) [OF assms], of A now traces]
    metric_caches.export_step [OF metric_cachesI [OF assms(1)] reachable_from_new(1,2) [OF assms], of R A now]
  by blast

text \<open>
  C24. Every span that is neither too old nor excluded is counted: in the latency histograms under its
  key, and in the calls, one sample more under one key and nothing else changed.
\<close>

theorem accepted_span_counted:
  assumes "lru_provider L content valid" and "newProcessor A L inst now0 cfg = Built p0" and "sm_reachable A L p0 p"
    and "\<not> (GetSkipSpansOlderThan (config p) > 0 \<and> AsTime (start sp) < now - GetSkipSpansOlderThan (config p))"
    and "\<not> shouldSkip A svc sp res p"
  shows "\<exists>p' k. aggregateMetricsForSpan A L now svc sp res p = Some p' \<and>
    counted (fst (buildMetricKey A svc sp (dimensions p) res p)) (histograms p) (histograms p') \<and>
    counted k (callHistograms p) (callHistograms p')"
  using metric_caches.span_step [OF metric_cachesI [OF assms(1)] reachable_from_new(1,2) [OF assms(1-3)], of A now svc sp res]
    span_counted [OF _ assms(4,5)] by blast


text \<open>
  The names the processor keeps are bounded in every reachable state: at most one service more
  than configured and the overflow service, and per service at most one operation more than
  configured and the overflow operation.
\<close>

theorem tracked_names_bounded:
  assumes "lru_provider L content valid" and "newProcessor A L inst now0 cfg = Built p0" and "sm_reachable A L p0 p"
  shows "int (length (serviceToOperations p)) \<le> max 0 (MaxServicesToTrack cfg + 1) + 1 \<and>
    int (length (operations svc p)) \<le> max 0 (MaxOperationsToTrackPerService cfg + 1) + 1"
proof -
  have t: "tracked p" by (rule reachable_from_new(2) [OF assms])
  have c: "config p = config p0" using reachable_from_new(3) [OF assms] by (simp add: fixedParts_def)
  have "names_ok (MaxOperationsToTrackPerService cfg) overflowOperation (operations svc p)"
    using t c new_fixedParts(3) [OF assms(2)] map_of_SomeD [of "serviceToOperations p" svc]
    by (force simp: operations_def tracked_def split: option.splits)
  then show ?thesis
    using names_ok_length names_ok_length [of _ _ "map fst (serviceToOperations p)"] t c new_fixedParts(2) [OF assms(2)]
    by (fastforce simp: tracked_def)
qed

text \<open>
  In every reachable state every histogram is consistent: it has one bucket more than there are
  bounds, and the counts of the buckets add up to the number of samples, as 64-bit integers.
\<close>

theorem histograms_consistent:
  assumes "lru_provider L content valid" and "newProcessor A L inst now0 cfg = Built p0" and "sm_reachable A L p0 p"
    and "h \<in> set (map snd (histograms p @ callHistograms p @ dbCallHistograms p @ externalCallHistograms p))"
  shows "length (bucketCounts h) = length (latencyBounds p0) + 1 \<and> sum_list (bucketCounts h) = observed h"
proof -
  have "latencyBounds p = latencyBounds p0" using reachable_from_new(3) [OF assms(1-3)] by (simp add: fixedParts_def)
  then show ?thesis using reachable_from_new(1) [OF assms(1-3)] assms(4)
    by (fastforce simp: sm_inv_def hists_ok_def hist_ok_def)
qed

text \<open>
  A sample falls into the right bucket: for sorted bounds the bucket counted is the one above all
  smaller bounds and at or below the first bound that is not smaller.
\<close>

theorem sample_in_right_bucket:
  assumes "sorted bounds" and "length (bucketCounts h) = length bounds + 1"
  shows "\<exists>i h'. observe bounds latency ex h = Some h' \<and> i < length (bucketCounts h) \<and>
    bucketCounts h' = (bucketCounts h)[i := bucketCounts h ! i + 1] \<and> observed h' = observed h + 1 \<and>
    (\<forall>j < i. bounds ! j < latency) \<and> (\<forall>j. i \<le> j \<and> j < length bounds \<longrightarrow> latency \<le> bounds ! j)"
  using SearchFloat64s_le [of bounds latency] SearchFloat64s_sorted [OF assms(1), where x = latency] assms(2)
  by (intro exI [of _ "SearchFloat64s bounds latency"]) (auto simp: observe_def Let_def)

section \<open>The times in the keys\<close>

lemma show_nat_digits: "show_nat n \<noteq> [] \<and> list_all isDigit (show_nat n) \<and> digits_value (show_nat n) = n"
  using show_nat_range [of _ n] by (auto simp: show_nat_nonempty list_all_iff isDigit_def digits_value_def show_nat_value)

lemma isDigit_simps: "isDigit c \<Longrightarrow> c \<noteq> CHR ''-'' \<and> c \<noteq> CHR ''+'' \<and> c \<noteq> CHR 0x00"
  by (auto simp: isDigit_def)

lemma ParseInt_itoa:
  assumes "is_i64 i"
  shows "ParseInt (itoa i) = Some i"
proof (cases "i < 0")
  case True
  then show ?thesis using assms show_nat_digits [of "nat (- i)"] by (simp add: ParseInt_def itoa_def Let_def)
next
  case False
  obtain c cs where c: "show_nat (nat i) = c # cs" using show_nat_digits [of "nat i"] by (cases "show_nat (nat i)") auto
  then show ?thesis using assms False show_nat_digits [of "nat i"] isDigit_simps [of c] by (simp add: ParseInt_def itoa_def Let_def)
qed

lemma itoa_no_separator: "CHR 0x00 \<notin> set (itoa i)" "itoa i \<noteq> []"
proof -
  have "CHR 0x00 \<notin> set (show_nat n)" for n
    using show_nat_digits [of n] isDigit_simps by (auto simp: list_all_iff)
  then show "CHR 0x00 \<notin> set (itoa i)" "itoa i \<noteq> []" using show_nat_digits by (auto simp: itoa_def)
qed

lemma parse_time_key:
  assumes "is_i64 u"
  shows "parseTimesFromKeyOrNow (itoa u @ metricKeySeparator @ rest) now st =
    (NewTimestampFromTime (u * 10 ^ 9), NewTimestampFromTime (u * 10 ^ 9))"
proof -
  have "takeWhile (\<lambda>c. c \<noteq> CHR 0x00) (itoa u @ metricKeySeparator @ rest) = itoa u"
    using itoa_no_separator(1) [of u] by (subst takeWhile_append2) (auto simp: metricKeySeparator_def)
  then show ?thesis using itoa_no_separator(2) [of u] ParseInt_itoa [OF assms]
    by (simp add: parseTimesFromKeyOrNow_def Let_def metricKeySeparator_def)
qed

lemma Truncate_bounds:
  assumes "0 < d"
  shows "Truncate t d \<le> t" and "t < Truncate t d + d"
  using assms pos_mod_sign [of d "t + zeroTime"] pos_mod_bound [of d "t + zeroTime"] by (auto simp: Truncate_def)

lemma Truncate_seconds:
  assumes "0 < d" and "10 ^ 9 dvd d"
  shows "10 ^ 9 dvd Truncate t d"
proof -
  have "d dvd t + zeroTime - (t + zeroTime) mod d" by (rule dvd_minus_mod)
  then have "10 ^ 9 dvd t + zeroTime - (t + zeroTime) mod d" using assms(2) by (rule dvd_trans [rotated])
  moreover have "10 ^ 9 dvd zeroTime" by (simp add: zeroTime_def)
  ultimately have "10 ^ 9 dvd t + zeroTime - (t + zeroTime) mod d - zeroTime" by (rule dvd_diff)
  then show ?thesis using assms(1) by (simp add: Truncate_def algebra_simps)
qed

lemma concat_dims_prefix:
  "\<exists>rest. foldl (\<lambda>dest d. case g d of Some v \<Rightarrow> concatDimensionValue dest (AsString A v) True | None \<Rightarrow> dest) (dest @ x) ds = dest @ rest"
proof (induction ds arbitrary: x)
  case (Cons d ds)
  show ?case
    using Cons [of x] Cons [of "x @ metricKeySeparator @ AsString A (the (g d))"]
    by (cases "g d") (simp_all add: concatDimensionValue_def)
qed simp

lemma buildKey_prefix: "\<exists>rest. fst (buildKey A dest svc sp dims res p) = dest @ rest"
  unfolding buildKey_def Let_def fst_conv
  by (subst (2 3 4 5) concatDimensionValue_def) (simp add: concat_dims_prefix)

text \<open>
  With delta temporality and a bucket interval of whole seconds, the times a metric point gets
  from its key are both the start of the bucket, and the start of the span lies in that bucket.
\<close>

theorem delta_key_times:
  assumes "isDelta (config p)" and "0 < GetTimeBucketInterval (config p)" and "10 ^ 9 dvd GetTimeBucketInterval (config p)"
    and "is_i64 (Truncate (AsTime (start sp)) (GetTimeBucketInterval (config p)))"
  shows "\<exists>b. parseTimesFromKeyOrNow (fst (buildMetricKey A svc sp dims res p)) now st = (b, b) \<and>
    AsTime b \<le> AsTime (start sp) \<and> AsTime (start sp) < AsTime b + GetTimeBucketInterval (config p)"
proof -
  let ?d = "GetTimeBucketInterval (config p)" and ?t = "AsTime (start sp)"
  let ?u = "Unix (Truncate ?t ?d)"
  have u: "?u * 10 ^ 9 = Truncate ?t ?d" using Truncate_seconds [OF assms(2,3), of ?t] by (simp add: Unix_def)
  then have "is_i64 ?u" using assms(4) by (auto simp: is_i64_def minInt64_def maxInt64_def)
  moreover obtain rest where "fst (buildMetricKey A svc sp dims res p) = itoa ?u @ metricKeySeparator @ rest"
    using buildKey_prefix [of A "itoa ?u @ metricKeySeparator" svc sp dims res p] assms(1)
    by (auto simp: buildMetricKey_def AddTimeToKeyBuf_def Let_def)
  ultimately have "parseTimesFromKeyOrNow (fst (buildMetricKey A svc sp dims res p)) now st =
      (NewTimestampFromTime (Truncate ?t ?d), NewTimestampFromTime (Truncate ?t ?d))"
    using parse_time_key [of ?u rest now st] u by simp
  moreover have "AsTime (NewTimestampFromTime (Truncate ?t ?d)) = Truncate ?t ?d"
    using assms(4) by (simp add: AsTime_def NewTimestampFromTime_def is_i64_def minInt64_def maxInt64_def signed_of_int signed_take_bit_int_eq_self_iff)
  ultimately show ?thesis using Truncate_bounds [OF assms(2), of ?t] by auto
qed

section \<open>Keys are ambiguous\<close>

text \<open>
  A dimension that a span lacks leaves no trace in the key, not even a separator: two spans of the
  same service and operation with the same value under two different dimensions get the same key,
  although their dimensions differ. Both are counted in one histogram, which carries the dimensions
  of the first.
\<close>

theorem keys_ambiguous:
  assumes "a \<noteq> b" and "map_of res a = None" and "map_of res b = None"
    and "a \<notin> {serviceNameKey, operationKey, spanKindKey, statusCodeKey, tagHTTPStatusCode, o11yID, resourcePrefix @ o11yID}"
    and "b \<notin> {tagHTTPStatusCode, o11yID}"
  shows "fst (buildMetricKey A svc (sp\<lparr>attributes := [(a, v)]\<rparr>) [\<lparr>name = a, value = None\<rparr>, \<lparr>name = b, value = None\<rparr>] res p) =
      fst (buildMetricKey A svc (sp\<lparr>attributes := [(b, v)]\<rparr>) [\<lparr>name = a, value = None\<rparr>, \<lparr>name = b, value = None\<rparr>] res p) \<and>
    map_of (fst (buildDimensionKVs A svc (sp\<lparr>attributes := [(a, v)]\<rparr>) [\<lparr>name = a, value = None\<rparr>, \<lparr>name = b, value = None\<rparr>] res p)) a = Some v \<and>
    map_of (fst (buildDimensionKVs A svc (sp\<lparr>attributes := [(b, v)]\<rparr>) [\<lparr>name = a, value = None\<rparr>, \<lparr>name = b, value = None\<rparr>] res p)) a = None"
  using assms
  by (simp add: buildMetricKey_def buildKey_def buildDimensionKVs_def put_dims_def getDimensionValue_def
      getDimensionValueWithResource_def Let_def update_conv')

section \<open>Examples\<close>

definition example_smlib :: "(string, string, nat) smlib" where
  "example_smlib = \<lparr>Str = id, AsString = id, NewValueStr = id, KindString = itoa \<circ> int, CodeString = itoa \<circ> int,
     MustCompile = Some, MatchString = (=), ParseHost = Some, Runes = map (\<lambda>c. [c]), LetterOrDigit = (\<lambda>r. list_all isDigit r),
     expNew = 0, expUpdate = (\<lambda>_ n. n + 1), goQuote = id\<rparr>"

definition example_smconfig :: "bool \<Rightarrow> Config" where
  "example_smconfig isdelta = \<lparr>LatencyHistogramBuckets = None, Dimensions = [], ExcludePatterns = [], DimensionsCacheSize = 1,
     AggregationTemporality = (if isdelta then delta else []), skipSanitizeLabel = False, TimeBucketInterval = 0,
     EnableExpHistogram = False, MaxServicesToTrack = 1, MaxOperationsToTrackPerService = 1, SkipSpansOlderThan = 0\<rparr>"

definition example_sp :: "string span" where
  "example_sp = \<lparr>traceID = [1], spanID = [1], spanName = ''add'', kind = SpanKindServer, statusCode = 0,
     start = 60000000000, finish = 60003000000, attributes = []\<rparr>"

definition example_traces :: "string resourceSpans list" where
  "example_traces = [\<lparr>resource = [(serviceNameKey, ''cart'')], scopeSpans = [[example_sp]]\<rparr>]"

definition example_processor :: "bool \<Rightarrow> (string, (metricKey, string Map) lru_list, string, nat) processorImp" where
  "example_processor isdelta = (case newProcessor example_smlib list_lru ''c1'' 0 (example_smconfig isdelta) of Built p \<Rightarrow> p)"

lemma example_built: "newProcessor example_smlib list_lru ''c1'' 0 (example_smconfig isdelta) = Built (example_processor isdelta)"
proof -
  have "case newProcessor example_smlib list_lru ''c1'' 0 (example_smconfig isdelta) of Built _ \<Rightarrow> True | _ \<Rightarrow> False"
    by (cases isdelta) code_simp+
  then show ?thesis by (auto simp: example_processor_def split: built.splits)
qed

definition example_consumed :: "bool \<Rightarrow> (string, (metricKey, string Map) lru_list, string, nat) processorImp" where
  "example_consumed isdelta = snd (the (ConsumeTraces example_smlib list_lru 0 example_traces (example_processor isdelta)))"

lemma example_reachable: "sm_reachable example_smlib list_lru (example_processor isdelta) (example_consumed isdelta)"
proof -
  obtain ts p' where "ConsumeTraces example_smlib list_lru 0 example_traces (example_processor isdelta) = Some (ts, p')"
    using recent_caches.consume_step recent_caches.new_good [OF example_built [of isdelta]] by blast
  then show ?thesis
    using sm_reachable.consumed [OF sm_reachable.initial] by (simp add: example_consumed_def)
qed

definition example_ranges :: "bool \<Rightarrow> ranges" where
  "example_ranges isdelta = (let p = example_consumed isdelta in \<lparr>callOrder = map fst (callHistograms p), latencyOrder = map fst (histograms p),
     externalOrder = map fst (externalCallHistograms p), dbOrder = map fst (dbCallHistograms p), expOrder = map fst (expHistograms p)\<rparr>)"

lemma example_ranges_of: "ranges_of (example_consumed isdelta) (example_ranges isdelta)"
  by (simp add: ranges_of_def example_ranges_def Let_def)

lemma example_fresh:
  "\<not> (GetSkipSpansOlderThan (config p) > 0 \<and> AsTime (start example_sp) < 0 - GetSkipSpansOlderThan (config p))"
  by (simp add: AsTime_def example_sp_def)

lemma example_not_skipped: "\<not> shouldSkip example_smlib svc sp res (example_processor isdelta)"
proof -
  have "excludePatternRegex (example_processor isdelta) = []" by (cases isdelta) code_simp+
  then show ?thesis by (simp add: shouldSkip_def)
qed

lemma example_sampled: "fst (buildMetricKey example_smlib ''cart'' example_sp (dimensions (example_processor isdelta))
    [(serviceNameKey, ''cart''), (o11yID, ''c1'')] (example_processor isdelta)) \<in> set (map fst (histograms (example_consumed isdelta)))"
proof -
  let ?p = "example_processor isdelta" and ?res = "[(serviceNameKey, ''cart''), (o11yID, ''c1'')]"
  have i: "instanceID ?p = ''c1''" by (cases isdelta) code_simp+
  have good: "sm_inv list_content list_valid (nat (DimensionsCacheSize (example_smconfig isdelta))) ?p" "tracked ?p"
    using recent_caches.new_good [OF example_built [of isdelta]] by blast+
  obtain p' where p': "aggregateMetricsForSpan example_smlib list_lru 0 ''cart'' example_sp ?res ?p = Some p'"
    using recent_caches.span_step [OF good] by blast
  then have "example_consumed isdelta = p'"
    by (simp add: example_consumed_def ConsumeTraces_def example_traces_def serviceNameKey_def o11yID_def i Let_def) (simp add: example_smlib_def)
  then show ?thesis using span_counted [OF p' example_fresh example_not_skipped] by (auto simp: counted_def)
qed

lemma example_histogram:
  obtains h where "h \<in> set (map snd (histograms (example_consumed isdelta)))"
  using example_sampled [of isdelta] by (cases "histograms (example_consumed isdelta)") auto

section \<open>The theorems at the examples\<close>

theorem metrics_always_built_witness:
  "callHistograms (example_processor False) = [] \<and> histograms (example_consumed False) \<noteq> [] \<and>
   (\<exists>ts p'. ConsumeTraces example_smlib list_lru 0 example_traces (example_consumed False) = Some (ts, p')) \<and>
   (\<exists>ms p'. exportMetrics example_smlib list_lru 0 (example_ranges False) (example_consumed False) = (Inr ms, p') \<and>
      full_report list_content (example_ranges False) (example_consumed False) ms)"
proof -
  have "callHistograms (example_processor False) = []" by code_simp
  moreover have "histograms (example_consumed False) \<noteq> []" by (rule example_histogram [of False]) auto
  ultimately show ?thesis
    using metrics_always_built [OF recent.lru_provider_axioms example_built [of False] example_reachable,
        where now = 0 and traces = example_traces and R = "example_ranges False"]
      example_ranges_of [of False] by blast
qed

theorem accepted_span_counted_witness:
  "\<exists>p' k. aggregateMetricsForSpan example_smlib list_lru 0 ''cart'' example_sp [] (example_processor True) = Some p' \<and>
    counted (fst (buildMetricKey example_smlib ''cart'' example_sp (dimensions (example_processor True)) [] (example_processor True)))
      (histograms (example_processor True)) (histograms p') \<and>
    counted k (callHistograms (example_processor True)) (callHistograms p')"
  by (rule accepted_span_counted [OF recent.lru_provider_axioms example_built sm_reachable.initial example_fresh example_not_skipped])


theorem tracked_names_bounded_witness:
  "int (length (serviceToOperations (example_consumed False))) \<le> 3 \<and> int (length (operations ''cart'' (example_consumed False))) \<le> 3"
  using tracked_names_bounded [OF recent.lru_provider_axioms example_built example_reachable, of False "''cart''"]
  by (simp add: example_smconfig_def)

theorem histograms_consistent_witness:
  "\<exists>h \<in> set (map snd (histograms (example_consumed False))).
    length (bucketCounts h) = length (latencyBounds (example_processor False)) + 1 \<and> sum_list (bucketCounts h) = observed h"
proof -
  obtain h where h: "h \<in> set (map snd (histograms (example_consumed False)))" by (rule example_histogram)
  then show ?thesis
    using histograms_consistent [OF recent.lru_provider_axioms example_built example_reachable, of h False] by auto
qed

theorem sample_in_right_bucket_witness:
  "\<exists>i h'. observe [1, 2] (3 / 2) \<lparr>exTraceID = [], exSpanID = [], exValue = 3 / 2\<rparr> (newHistogram [1, 2]) = Some h' \<and>
    i < length (bucketCounts (newHistogram [1, 2])) \<and>
    bucketCounts h' = (bucketCounts (newHistogram [1, 2]))[i := bucketCounts (newHistogram [1, 2]) ! i + 1] \<and>
    observed h' = observed (newHistogram [1, 2]) + 1 \<and>
    (\<forall>j < i. [1, 2] ! j < (3 / 2 :: rat)) \<and> (\<forall>j. i \<le> j \<and> j < length [1, 2 :: rat] \<longrightarrow> (3 / 2 :: rat) \<le> [1, 2] ! j)"
  by (rule sample_in_right_bucket) (simp_all add: newHistogram_def)

theorem delta_key_times_witness:
  "\<exists>b. parseTimesFromKeyOrNow (fst (buildMetricKey example_smlib ''cart'' example_sp [] [] (example_processor True))) 0 0 = (b, b) \<and>
    AsTime b \<le> AsTime (start example_sp) \<and> AsTime (start example_sp) < AsTime b + 60 * 10 ^ 9"
proof -
  have c: "isDelta (config (example_processor True))" by code_simp
  have d: "GetTimeBucketInterval (config (example_processor True)) = 60 * 10 ^ 9" by code_simp
  have t: "is_i64 (Truncate (AsTime (start example_sp)) (60 * 10 ^ 9))" by code_simp
  show ?thesis using delta_key_times [OF c] d t by simp
qed

theorem keys_ambiguous_witness:
  "fst (buildMetricKey example_smlib ''cart'' (example_sp\<lparr>attributes := [(''region'', ''eu'')]\<rparr>)
      [\<lparr>name = ''region'', value = None\<rparr>, \<lparr>name = ''zone'', value = None\<rparr>] [] (example_processor False)) =
   fst (buildMetricKey example_smlib ''cart'' (example_sp\<lparr>attributes := [(''zone'', ''eu'')]\<rparr>)
      [\<lparr>name = ''region'', value = None\<rparr>, \<lparr>name = ''zone'', value = None\<rparr>] [] (example_processor False))"
  using keys_ambiguous [where a = "''region''" and b = "''zone''" and res = "[]" and A = example_smlib and svc = "''cart''" and sp = example_sp
      and v = "''eu''" and p = "example_processor False"]
  by (simp add: serviceNameKey_def operationKey_def spanKindKey_def statusCodeKey_def tagHTTPStatusCode_def o11yID_def resourcePrefix_def)

end
