(* ===== verification/LogFields.thy ===== *)
theory LogFields
  imports Otel_Prelude "HOL-Library.AList" "HOL-Library.Sublist"
begin

text \<open>
  The fields of log entries of the log pipeline processor
  (processor/o11ylogspipelineprocessor/stanza/entry): the notation of a field, its parser and printer,
  and reading, writing and deleting a field of the body, where a body of JSON text is parsed on
  reading and the result kept in the attributes. The prefixes of the fields and the JSON parser belong
  to other packages and are parameters. Values are immutable here: two maps that share a nested map
  in the program are two copies.
\<close>

section \<open>Notation (field.go)\<close>

record prefixes =
  AttributesPrefix :: string
  ResourcePrefix :: string
  BodyPrefix :: string

datatype Field =
    AttributeField "string list"
  | ResourceField "string list"
  | BodyField "string list"

datatype splitState = Begin | InBracket | InQuote | OutQuote | OutBracket | InUnbracketedToken

definition dot :: char where "dot = CHR ''.''"
definition lbracket :: char where "lbracket = CHR ''[''"
definition rbracket :: char where "rbracket = CHR '']''"
definition squote :: char where "squote = CHR 0x27"
definition dquote :: char where "dquote = CHR 0x22"

lemmas char_defs = dot_def lbracket_def rbracket_def squote_def dquote_def

text \<open>\<open>s[a:b]\<close>\<close>

definition slice :: "string \<Rightarrow> nat \<Rightarrow> nat \<Rightarrow> string" where
  "slice s a b = take (b - a) (drop a s)"

text \<open>
  The loop of \<open>fromJSONDot\<close>: \<open>i\<close> is the position and \<open>cs\<close> the text from there. The characters it
  looks for are ASCII, so it works on bytes. At the end of the text it answers the fields.
\<close>

fun split_loop :: "string \<Rightarrow> nat \<Rightarrow> string \<Rightarrow> splitState \<Rightarrow> char \<Rightarrow> nat \<Rightarrow> string list \<Rightarrow> string list result" where
  "split_loop s i [] state quoteChar tokenStart flds =
     (case state of
        InBracket \<Rightarrow> Inl ''found unclosed left bracket''
      | OutQuote \<Rightarrow> Inl ''found unclosed left bracket''
      | InQuote \<Rightarrow> if quoteChar = dquote then Inl ''found unclosed double quote'' else Inl ''found unclosed single quote''
      | InUnbracketedToken \<Rightarrow> Inr (flds @ [drop tokenStart s])
      | _ \<Rightarrow> Inr flds)"
| "split_loop s i (c # cs) state quoteChar tokenStart flds =
     (case state of
        Begin \<Rightarrow>
          if c = lbracket then split_loop s (i + 1) cs InBracket quoteChar tokenStart flds
          else split_loop s (i + 1) cs InUnbracketedToken quoteChar i flds
      | InBracket \<Rightarrow>
          if \<not> (c = squote \<or> c = dquote) then Inl ''strings in brackets must be surrounded by quotes''
          else split_loop s (i + 1) cs InQuote c (i + 1) flds
      | InQuote \<Rightarrow>
          if c = quoteChar then split_loop s (i + 1) cs OutQuote quoteChar tokenStart (flds @ [slice s tokenStart i])
          else split_loop s (i + 1) cs InQuote quoteChar tokenStart flds
      | OutQuote \<Rightarrow>
          if c \<noteq> rbracket then Inl ''found characters between closed quote and closing bracket''
          else split_loop s (i + 1) cs OutBracket quoteChar tokenStart flds
      | OutBracket \<Rightarrow>
          if c = dot then split_loop s (i + 1) cs InUnbracketedToken quoteChar (i + 1) flds
          else if c = lbracket then split_loop s (i + 1) cs InBracket quoteChar tokenStart flds
          else Inl ''bracketed access must be followed by a dot or another bracketed access''
      | InUnbracketedToken \<Rightarrow>
          if c = dot then split_loop s (i + 1) cs InUnbracketedToken quoteChar (i + 1) (flds @ [slice s tokenStart i])
          else if c = lbracket then split_loop s (i + 1) cs InBracket quoteChar tokenStart (flds @ [slice s tokenStart i])
          else split_loop s (i + 1) cs InUnbracketedToken quoteChar tokenStart flds)"

definition fromJSONDot :: "string \<Rightarrow> string list result" where
  "fromJSONDot s = (case split_loop s 0 s Begin (CHR 0x00) 0 [] of
      Inl e \<Rightarrow> Inl e
    | Inr flds \<Rightarrow> if flds = [] then Inl ''fields size is 0'' else Inr flds)"

definition toJSONDot :: "string \<Rightarrow> string list \<Rightarrow> string" where
  "toJSONDot pre keys =
     (if keys = [] then pre
      else if list_ex (\<lambda>key. dot \<in> set key) keys
      then pre @ concat (map (\<lambda>key. [lbracket, squote] @ key @ [squote, rbracket]) keys)
      else pre @ [dot] @ join [dot] keys)"

definition newField :: "prefixes \<Rightarrow> string \<Rightarrow> bool \<Rightarrow> Field result" where
  "newField P s rootable = (case fromJSONDot s of
      Inl e \<Rightarrow> Inl (''splitting field: '' @ e)
    | Inr keys \<Rightarrow>
        if hd keys = AttributesPrefix P
        then (if \<not> rootable \<and> length keys = 1 then Inl ''attributes cannot be referenced without subfield''
              else Inr (AttributeField (tl keys)))
        else if hd keys = ResourcePrefix P
        then (if \<not> rootable \<and> length keys = 1 then Inl ''resource cannot be referenced without subfield''
              else Inr (ResourceField (tl keys)))
        else if hd keys = BodyPrefix P then Inr (BodyField (tl keys))
        else Inl ''unrecognized prefix'')"

definition NewField :: "prefixes \<Rightarrow> string \<Rightarrow> Field result" where
  "NewField P s = newField P s False"

section \<open>Fields of the body (body_field.go)\<close>

text \<open>
  A value of type \<open>any\<close>, as far as the code tells the types apart. A map may be the nil map, which
  reads as an empty map and panics when written.
\<close>

datatype 'x any =
    Null
  | Str string
  | Bytes string
  | Other 'x
  | NilMap
  | MapVal "(string \<times> 'x any) list"

type_synonym 'x amap = "(string \<times> 'x any) list"

record 'x entry =
  Body :: "'x any"
  Attributes :: "'x amap option"

text \<open>\<open>json.Unmarshal\<close> into a map: an error, the nil map for the text \<open>null\<close>, or a map.\<close>

type_synonym 'x unmarshal = "string \<Rightarrow> 'x amap option result"

definition isRoot :: "string list \<Rightarrow> bool" where
  "isRoot keys \<longleftrightarrow> length keys = 0"

definition Parent :: "string list \<Rightarrow> string list" where
  "Parent keys = (if isRoot keys then keys else take (length keys - 1) keys)"

definition Child :: "string list \<Rightarrow> string \<Rightarrow> string list" where
  "Child keys key = keys @ [key]"

definition BodyField_String :: "prefixes \<Rightarrow> string list \<Rightarrow> string" where
  "BodyField_String P keys = toJSONDot (BodyPrefix P) keys"

definition BodyField_Unmarshal :: "prefixes \<Rightarrow> string \<Rightarrow> string list result" where
  "BodyField_Unmarshal P text = (case fromJSONDot text of
      Inl e \<Rightarrow> Inl e
    | Inr keys \<Rightarrow> if hd keys \<noteq> BodyPrefix P then Inl (''must start with '' @ [squote] @ ''body'' @ [squote] @ '': '' @ text) else Inr (tl keys))"

text \<open>\<open>v.(map[string]any)\<close>, with the nil map as an empty one, and a map lookup.\<close>

definition as_map :: "'x any \<Rightarrow> 'x amap option" where
  "as_map v = (case v of MapVal m \<Rightarrow> Some m | NilMap \<Rightarrow> Some [] | _ \<Rightarrow> None)"

text \<open>\<open>m[key] = v\<close>, which panics for the nil map.\<close>

definition assign :: "'x any \<Rightarrow> string \<Rightarrow> 'x any \<Rightarrow> 'x any option" where
  "assign m key v = (case m of MapVal xs \<Rightarrow> Some (MapVal (AList.update key v xs)) | _ \<Rightarrow> None)"

definition InternalTempAttributePrefix :: string where
  "InternalTempAttributePrefix = ''__o11ylogspipelineprocessor_internal__''"

definition cachedBodyJsonKey :: string where
  "cachedBodyJsonKey = InternalTempAttributePrefix @ ''parsedBodyJson''"

text \<open>
  The map of the body, \<open>None\<close> for the nil map, and the entry with the cache. A cached value of another
  type panics: the outer \<open>None\<close>.
\<close>

definition ParseBodyJson :: "'x unmarshal \<Rightarrow> 'x entry \<Rightarrow> ('x amap option \<times> 'x entry) option" where
  "ParseBodyJson U e = (case Body e of
      MapVal m \<Rightarrow> Some (Some m, e)
    | NilMap \<Rightarrow> Some (None, e)
    | _ \<Rightarrow>
       (let attrs = (case Attributes e of None \<Rightarrow> [] | Some a \<Rightarrow> a);
            e' = e\<lparr>Attributes := Some attrs\<rparr>
        in case map_of attrs cachedBodyJsonKey of
             Some cached \<Rightarrow> (case cached of MapVal m \<Rightarrow> Some (Some m, e') | NilMap \<Rightarrow> Some (None, e') | _ \<Rightarrow> None)
           | None \<Rightarrow>
               (case (case Body e of Bytes b \<Rightarrow> Some b | Str b \<Rightarrow> Some b | _ \<Rightarrow> None) of
                  None \<Rightarrow> Some (None, e')
                | Some bodyBytes \<Rightarrow>
                    (case U bodyBytes of
                       Inl err \<Rightarrow> Some (None, e')
                     | Inr parsedBody \<Rightarrow>
                         (let cached = (case parsedBody of None \<Rightarrow> NilMap | Some m \<Rightarrow> MapVal m)
                          in Some (parsedBody, e'\<lparr>Attributes := Some (AList.update cachedBodyJsonKey cached attrs)\<rparr>))))))"

fun get_path :: "string list \<Rightarrow> 'x any \<Rightarrow> 'x any option" where
  "get_path [] v = Some v"
| "get_path (key # keys) v =
     (case as_map v of None \<Rightarrow> None | Some m \<Rightarrow> (case map_of m key of None \<Rightarrow> None | Some v' \<Rightarrow> get_path keys v'))"

text \<open>\<open>Get\<close>: the value, if the field exists, and the entry with the cache.\<close>

definition Get :: "'x unmarshal \<Rightarrow> string list \<Rightarrow> 'x entry \<Rightarrow> ('x any option \<times> 'x entry) option" where
  "Get U keys e =
     (if length keys > 0
      then (case ParseBodyJson U e of
              None \<Rightarrow> None
            | Some (bodyJson, e') \<Rightarrow>
                Some (get_path keys (case bodyJson of None \<Rightarrow> Body e | Some m \<Rightarrow> MapVal m), e'))
      else Some (Some (Body e), e))"

text \<open>\<open>getNestedMap\<close>: the nested map and the map that holds it.\<close>

definition getNestedMap :: "'x any \<Rightarrow> string \<Rightarrow> ('x any \<times> 'x any) option" where
  "getNestedMap currentMap key =
     (let currentValue = (case as_map currentMap of None \<Rightarrow> None | Some m \<Rightarrow> map_of m key)
      in case currentValue of
           Some (MapVal n) \<Rightarrow> Some (MapVal n, currentMap)
         | Some NilMap \<Rightarrow> Some (NilMap, currentMap)
         | _ \<Rightarrow> map_option (\<lambda>m. (MapVal [], m)) (assign currentMap key (MapVal [])))"

text \<open>The walk down the keys, after which \<open>f\<close> changes the map reached.\<close>

fun modify_path :: "string list \<Rightarrow> ('x any \<Rightarrow> 'x any option) \<Rightarrow> 'x any \<Rightarrow> 'x any option" where
  "modify_path [] f m = f m"
| "modify_path (key # keys) f m =
     Option.bind (getNestedMap m key) (\<lambda>(nested, m'). Option.bind (modify_path keys f nested) (\<lambda>nested'.
       assign m' key nested'))"

definition body_map :: "'x any \<Rightarrow> 'x any" where
  "body_map v = (case as_map v of None \<Rightarrow> MapVal [] | Some _ \<Rightarrow> v)"

text \<open>\<open>maps.Copy\<close>, which panics if there is something to write into the nil map.\<close>

definition maps_Copy :: "'x amap \<Rightarrow> 'x any \<Rightarrow> 'x any option" where
  "maps_Copy src m = fold (\<lambda>(k, v) r. Option.bind r (\<lambda>m. assign m k v)) src (Some m)"

definition Merge :: "string list \<Rightarrow> 'x amap \<Rightarrow> 'x entry \<Rightarrow> 'x entry option" where
  "Merge keys mapValues e =
     map_option (\<lambda>b. e\<lparr>Body := b\<rparr>) (modify_path keys (maps_Copy mapValues) (body_map (Body e)))"

definition Set :: "string list \<Rightarrow> 'x any \<Rightarrow> 'x entry \<Rightarrow> 'x entry option" where
  "Set keys val e = (case as_map val of
      Some mapValue \<Rightarrow> Merge keys mapValue e
    | None \<Rightarrow>
        if isRoot keys then Some (e\<lparr>Body := val\<rparr>)
        else map_option (\<lambda>b. e\<lparr>Body := b\<rparr>)
               (modify_path (butlast keys) (\<lambda>m. assign m (last keys) val) (body_map (Body e))))"

text \<open>The value deleted and what is left.\<close>

fun delete_path :: "string list \<Rightarrow> 'x any \<Rightarrow> ('x any \<times> 'x any) option" where
  "delete_path [] v = None"
| "delete_path (key # keys) v =
     (case v of
        MapVal m \<Rightarrow>
          (case map_of m key of
             None \<Rightarrow> None
           | Some v' \<Rightarrow>
               if keys = [] then Some (v', MapVal (AList.delete key m))
               else map_option (\<lambda>(old, v''). (old, MapVal (AList.update key v'' m))) (delete_path keys v'))
      | _ \<Rightarrow> None)"

definition Delete :: "string list \<Rightarrow> 'x entry \<Rightarrow> 'x any option \<times> 'x entry" where
  "Delete keys e =
     (if isRoot keys then (Some (Body e), e\<lparr>Body := Null\<rparr>)
      else (case delete_path keys (Body e) of
              None \<Rightarrow> (None, e)
            | Some (old, b) \<Rightarrow> (Some old, e\<lparr>Body := b\<rparr>)))"

section \<open>Reading what was written\<close>

text \<open>A value without nil maps: what JSON objects and the maps made here are.\<close>

fun clean :: "'x any \<Rightarrow> bool" where
  "clean (MapVal m) = (\<forall>(k, v) \<in> set m. clean v)"
| "clean NilMap = False"
| "clean v = True"

text \<open>Paths of which neither leads through the other.\<close>

definition apart :: "string list \<Rightarrow> string list \<Rightarrow> bool" where
  "apart ks qs \<longleftrightarrow> \<not> prefix ks qs \<and> \<not> prefix qs ks"

lemma apart_Cons: "apart (k # ks) (q # qs) \<longleftrightarrow> k \<noteq> q \<or> apart ks qs"
  by (auto simp: apart_def)

lemma apart_not_Nil: "apart ks qs \<Longrightarrow> ks \<noteq> [] \<and> qs \<noteq> []"
  by (auto simp: apart_def)

lemma get_path_update:
  "get_path (q # qs) (MapVal (AList.update k v m)) = (if q = k then get_path qs v else get_path (q # qs) (MapVal m))"
  by (simp add: as_map_def update_conv')

lemma get_path_delete:
  "get_path (q # qs) (MapVal (AList.delete k m)) = (if q = k then None else get_path (q # qs) (MapVal m))"
  by (simp add: as_map_def delete_conv')

lemma nested_map:
  assumes "clean (MapVal m)"
  obtains n m' where "getNestedMap (MapVal m) k = Some (MapVal n, MapVal m')" and "clean (MapVal n)"
    and "\<And>v. map_of (AList.update k v m') = map_of (AList.update k v m)"
    and "\<And>qs. qs \<noteq> [] \<Longrightarrow> get_path qs (MapVal n) = get_path (k # qs) (MapVal m)"
proof (cases "map_of m k")
  case None
  then show ?thesis
    by (intro that [of "[]" "AList.update k (MapVal []) m"])
      (auto simp: getNestedMap_def as_map_def assign_def update_conv' neq_Nil_conv)
next
  case (Some v)
  have "clean v" using assms map_of_SomeD [OF Some] by auto
  show ?thesis
  proof (cases v)
    case (MapVal n)
    then show ?thesis using Some \<open>clean v\<close>
      by (intro that [of n m]) (auto simp: getNestedMap_def as_map_def)
  qed (use Some \<open>clean v\<close> in \<open>auto intro!: that [of "[]" "AList.update k (MapVal []) m"]
      simp: getNestedMap_def as_map_def assign_def update_conv' neq_Nil_conv\<close>)
qed

lemma get_path_map_of: "map_of m = map_of m' \<Longrightarrow> qs \<noteq> [] \<Longrightarrow> get_path qs (MapVal m) = get_path qs (MapVal m')"
  by (cases qs) (simp_all add: as_map_def)

lemma modify_path_set:
  "clean (MapVal m) \<Longrightarrow> \<exists>m'. modify_path ks (\<lambda>m. assign m k v) (MapVal m) = Some (MapVal m') \<and>
     get_path (ks @ [k]) (MapVal m') = Some v \<and>
     (\<forall>qs. apart (ks @ [k]) qs \<longrightarrow> get_path qs (MapVal m') = get_path qs (MapVal m))"
proof (induction ks arbitrary: m)
  case Nil
  have "get_path qs (MapVal (AList.update k v m)) = get_path qs (MapVal m)" if "apart [k] qs" for qs
    using that apart_not_Nil [OF that] by (cases qs) (auto simp: get_path_update apart_Cons apart_def simp del: get_path.simps(2))
  then show ?case by (simp add: assign_def as_map_def update_conv')
next
  case (Cons x ks)
  obtain n m1 where n: "getNestedMap (MapVal m) x = Some (MapVal n, MapVal m1)" "clean (MapVal n)"
    "\<And>v. map_of (AList.update x v m1) = map_of (AList.update x v m)"
    "\<And>qs. qs \<noteq> [] \<Longrightarrow> get_path qs (MapVal n) = get_path (x # qs) (MapVal m)"
    using nested_map [OF Cons.prems] by metis
  obtain n' where n': "modify_path ks (\<lambda>m. assign m k v) (MapVal n) = Some (MapVal n')"
    "get_path (ks @ [k]) (MapVal n') = Some v" "\<forall>qs. apart (ks @ [k]) qs \<longrightarrow> get_path qs (MapVal n') = get_path qs (MapVal n)"
    using Cons.IH [OF n(2)] by blast
  let ?m = "AList.update x (MapVal n') m1"
  have "get_path qs (MapVal ?m) = get_path qs (MapVal m)" if a: "apart (x # ks @ [k]) qs" for qs
  proof -
    obtain q qs' where qs: "qs = q # qs'" using apart_not_Nil [OF a] by (cases qs) auto
    have "get_path qs (MapVal ?m) = get_path qs (MapVal (AList.update x (MapVal n') m))"
      using n(3) qs by (intro get_path_map_of) auto
    also have "\<dots> = get_path qs (MapVal m)"
    proof (cases "q = x")
      case True
      then have "apart (ks @ [k]) qs'" using a qs by (simp add: apart_Cons)
      then show ?thesis using n'(3) n(4) [of qs'] apart_not_Nil True qs by (auto simp: get_path_update simp del: get_path.simps(2))
    qed (simp add: qs get_path_update del: get_path.simps(2))
    finally show ?thesis .
  qed
  moreover have "modify_path (x # ks) (\<lambda>m. assign m k v) (MapVal m) = Some (MapVal ?m)"
    using n(1) n'(1) by (simp add: assign_def)
  moreover have "get_path ((x # ks) @ [k]) (MapVal ?m) = Some v" using n'(2) by (simp add: as_map_def update_conv')
  ultimately show ?case by auto
qed

lemma delete_path_get:
  "keys \<noteq> [] \<Longrightarrow> (case delete_path keys v of
      None \<Rightarrow> get_path keys v = None
    | Some (old, v') \<Rightarrow> get_path keys v = Some old \<and> get_path keys v' = None \<and> as_map v' \<noteq> None \<and>
        (\<forall>qs. apart keys qs \<longrightarrow> get_path qs v' = get_path qs v))"
proof (induction keys arbitrary: v)
  case (Cons k keys)
  show ?case
  proof (cases v)
    case (MapVal m)
    show ?thesis
    proof (cases "map_of m k")
      case None
      with MapVal show ?thesis by (simp add: as_map_def)
    next
      case (Some w)
      show ?thesis
      proof (cases "keys = []")
        case True
        have "get_path qs (MapVal (AList.delete k m)) = get_path qs (MapVal m)" if "apart [k] qs" for qs
          using that apart_not_Nil [OF that] by (cases qs) (auto simp: get_path_delete apart_Cons apart_def simp del: get_path.simps(2))
        with True show ?thesis using MapVal Some by (simp add: as_map_def delete_conv')
      next
        case False
        show ?thesis
        proof (cases "delete_path keys w")
          case None
          then show ?thesis using MapVal Some False Cons.IH [OF False, of w] by (simp add: as_map_def)
        next
          case (Some p)
          obtain old w' where p: "p = (old, w')" by (cases p)
          have w: "get_path keys w = Some old" "get_path keys w' = None" "\<forall>qs. apart keys qs \<longrightarrow> get_path qs w' = get_path qs w"
            using Cons.IH [OF False, of w] Some p by auto
          have "get_path qs (MapVal (AList.update k w' m)) = get_path qs (MapVal m)" if a: "apart (k # keys) qs" for qs
          proof -
            obtain q qs' where qs: "qs = q # qs'" using apart_not_Nil [OF a] by (cases qs) auto
            show ?thesis
            proof (cases "q = k")
              case True
              then show ?thesis using w(3) a qs \<open>map_of m k = Some w\<close> by (simp add: apart_Cons as_map_def update_conv')
            qed (simp add: qs as_map_def update_conv')
          qed
          then show ?thesis using MapVal \<open>map_of m k = Some w\<close> False Some p w(1,2)
            by (simp add: as_map_def update_conv')
        qed
      qed
    qed
  qed (auto simp: as_map_def)
qed simp

text \<open>For a body that is a map, reading a field is reading the path and changes nothing.\<close>

lemma Get_map: "keys \<noteq> [] \<Longrightarrow> Body e = MapVal m \<Longrightarrow> Get U keys e = Some (get_path keys (MapVal m), e)"
  by (simp add: Get_def ParseBodyJson_def)



section \<open>The cache of the parsed body\<close>

text \<open>
  The parsed body is not forgotten when the body is replaced: after one field of a JSON text has
  been read and the whole body replaced by another text, the fields read are still those of the old
  text, whatever the new one is.
\<close>

theorem stale_body_cache:
  assumes "Body e = Str text" and "U text = Inr (Some m)" and "keys \<noteq> []" and "keys' \<noteq> []"
    and "map_of (case Attributes e of None \<Rightarrow> [] | Some a \<Rightarrow> a) cachedBodyJsonKey = None"
  shows "\<exists>e1 e2 e3. Get U keys e = Some (get_path keys (MapVal m), e1) \<and> Set [] (Str text') e1 = Some e2 \<and>
    Body e2 = Str text' \<and> Get U keys' e2 = Some (get_path keys' (MapVal m), e3)"
  using assms by (auto simp: Get_def ParseBodyJson_def Set_def as_map_def isRoot_def Let_def update_conv')

theorem stale_body_cache_witness:
  "\<exists>e1 e2 e3. Get (\<lambda>t. Inr (Some [(''level'', Str t)])) [''level''] \<lparr>Body = Str ''old'', Attributes = None\<rparr> = Some (Some (Str ''old''), e1) \<and>
    Set [] (Str ''new'') e1 = Some e2 \<and> Body e2 = (Str ''new'' :: nat any) \<and>
    Get (\<lambda>t. Inr (Some [(''level'', Str t)])) [''level''] e2 = Some (Some (Str ''old''), e3)"
  using stale_body_cache [of "\<lparr>Body = Str ''old'', Attributes = None\<rparr> :: nat entry" "''old''" "\<lambda>t. Inr (Some [(''level'', Str t)])"
      "[(''level'', Str ''old'')]" "[''level'']" "[''level'']" "''new''"]
  by (simp add: as_map_def)

section \<open>The notation\<close>

lemma slice_token: "slice (pre @ tok @ post) (length pre) (length pre + length tok) = tok"
  by (simp add: slice_def)

lemma split_token:
  "dot \<notin> set tok \<Longrightarrow> lbracket \<notin> set tok \<Longrightarrow>
   split_loop s i (tok @ cs) InUnbracketedToken q ts flds = split_loop s (i + length tok) cs InUnbracketedToken q ts flds"
  by (induction tok arbitrary: i) auto

lemma split_quoted:
  "q \<notin> set tok \<Longrightarrow>
   split_loop s i (tok @ cs) InQuote q ts flds = split_loop s (i + length tok) cs InQuote q ts flds"
  by (induction tok arbitrary: i) auto

lemma split_dotted:
  "keys \<noteq> [] \<Longrightarrow> (\<And>k. k \<in> set keys \<Longrightarrow> dot \<notin> set k \<and> lbracket \<notin> set k) \<Longrightarrow> s = pre @ join [dot] keys \<Longrightarrow>
   split_loop s (length pre) (join [dot] keys) InUnbracketedToken q (length pre) flds = Inr (flds @ keys)"
proof (induction keys arbitrary: pre flds)
  case (Cons k keys)
  show ?case
  proof (cases keys)
    case Nil
    then show ?thesis using Cons.prems split_token [of k s "length pre" "[]" q "length pre" flds] by simp
  next
    case (Cons k' ks)
    have s: "s = (pre @ k @ [dot]) @ join [dot] keys" using Cons.prems(3) Cons by simp
    have "slice s (length pre) (length pre + length k) = k" using s slice_token [of pre k "[dot] @ join [dot] keys"] by simp
    moreover have "split_loop s (length (pre @ k @ [dot])) (join [dot] keys) InUnbracketedToken q (length (pre @ k @ [dot])) (flds @ [k]) =
        Inr ((flds @ [k]) @ keys)" using Cons.IH [OF _ _ s, of "flds @ [k]"] Cons.prems(2) Cons by auto
    ultimately show ?thesis
      using Cons.prems(2) [of k] Cons split_token [of k s "length pre" "dot # join [dot] keys" q "length pre" flds] by simp
  qed
qed simp

abbreviation bracketed :: "string list \<Rightarrow> string" where
  "bracketed keys \<equiv> concat (map (\<lambda>key. [lbracket, squote] @ key @ [squote, rbracket]) keys)"

lemma split_bracketed:
  "(\<And>k. k \<in> set keys \<Longrightarrow> squote \<notin> set k) \<Longrightarrow> s = pre @ bracketed keys \<Longrightarrow>
   split_loop s (length pre) (bracketed keys) OutBracket q ts flds = Inr (flds @ keys)"
proof (induction keys arbitrary: pre q ts flds)
  case (Cons k keys)
  let ?pre = "pre @ [lbracket, squote] @ k @ [squote, rbracket]"
  have s: "s = ?pre @ bracketed keys" using Cons.prems(2) by simp
  have sl: "slice s (length pre + 2) (length pre + 2 + length k) = k"
    using slice_token [of "pre @ [lbracket, squote]" k "[squote, rbracket] @ bracketed keys"] s by simp
  have "split_loop s (length ?pre) (bracketed keys) OutBracket squote (length pre + 2) (flds @ [k]) = Inr ((flds @ [k]) @ keys)"
    using Cons.prems(1) by (intro Cons.IH [OF _ s]) auto
  then show ?case
    using Cons.prems(1) [of k] sl split_quoted [of squote k s "length pre + 2" "squote # rbracket # bracketed keys" "length pre + 2" flds]
    by (simp add: char_defs)
qed simp

lemma fromJSONDot_toJSONDot:
  assumes "pre \<noteq> []" and "dot \<notin> set pre" and "lbracket \<notin> set pre"
    and "(\<exists>k \<in> set keys. dot \<in> set k) \<Longrightarrow> \<forall>k \<in> set keys. squote \<notin> set k"
    and "\<not> (\<exists>k \<in> set keys. dot \<in> set k) \<Longrightarrow> \<forall>k \<in> set keys. lbracket \<notin> set k"
  shows "fromJSONDot (toJSONDot pre keys) = Inr (pre # keys)"
proof -
  obtain c cs where pre: "pre = c # cs" using assms(1) by (cases pre) auto
  have start: "split_loop s 0 (pre @ r) Begin q 0 [] = split_loop s (length pre) r InUnbracketedToken q 0 []" for s r q
    using assms(2,3) split_token [of cs s 1 r q 0 "[]"] by (auto simp: pre)
  have tok: "slice (pre @ r) 0 (length pre) = pre" for r using slice_token [of "[]" pre r] by simp
  consider (none) "keys = []" | (brackets) "keys \<noteq> []" "\<exists>k \<in> set keys. dot \<in> set k"
    | (dots) "keys \<noteq> []" "\<not> (\<exists>k \<in> set keys. dot \<in> set k)" by blast
  then show ?thesis
  proof cases
    case none
    then show ?thesis using start [of pre "[]"] by (simp add: fromJSONDot_def toJSONDot_def)
  next
    case brackets
    let ?s = "pre @ bracketed keys"
    have "split_loop ?s (length pre) (bracketed keys) InUnbracketedToken q 0 [] =
        split_loop ?s (length pre) (bracketed keys) OutBracket q 0 [pre]" for q
      using brackets(1) tok [of "bracketed keys"] by (cases keys) (simp_all add: char_defs)
    moreover have "split_loop ?s (length pre) (bracketed keys) OutBracket q 0 [pre] = Inr ([pre] @ keys)" for q
      using assms(4) [OF brackets(2)] by (intro split_bracketed) auto
    moreover have "toJSONDot pre keys = ?s" using brackets by (auto simp: toJSONDot_def list_ex_iff)
    ultimately show ?thesis using start [of ?s "bracketed keys"] by (simp add: fromJSONDot_def)
  next
    case dots
    let ?s = "(pre @ [dot]) @ join [dot] keys"
    have "split_loop ?s (length (pre @ [dot])) (join [dot] keys) InUnbracketedToken q (length (pre @ [dot])) [pre] = Inr ([pre] @ keys)" for q
      using assms(5) [OF dots(2)] dots by (intro split_dotted) auto
    moreover have "toJSONDot pre keys = ?s" using dots by (auto simp: toJSONDot_def list_ex_iff)
    ultimately show ?thesis using start [of ?s "dot # join [dot] keys"] tok [of "dot # join [dot] keys"]
      by (simp add: fromJSONDot_def)
  qed
qed



end
