(* ===== verification/Grok.thy ===== *)
theory Grok
  imports Otel_Prelude KeyCheck "HOL-Library.AList" "HOL-Library.Multiset"
begin

text \<open>
  The grok patterns of the log pipeline (pkg/grok): named patterns that refer to each other as
  \<open>%{SYNTAX:SEMANTIC:TYPE}\<close>, sorted by their dependencies and expanded into regular expressions. The
  three regular expressions of the package are written out; the compiler of the expanded ones is a
  parameter. Ranging over a map takes its order as an argument.
\<close>

section \<open>The order of the patterns (graph.go)\<close>

type_synonym graph = "(string \<times> string list) list"

definition deps :: "graph \<Rightarrow> string \<Rightarrow> string list" where
  "deps g n = (case map_of g n of None \<Rightarrow> [] | Some ms \<Rightarrow> ms)"

definition reverseList :: "string list \<Rightarrow> string list" where
  "reverseList s = foldl (\<lambda>r i. i # r) [] s"

text \<open>The variables that the closure \<open>visit\<close> shares with \<open>sortGraph\<close>; \<open>idx\<close> is \<open>i\<close>.\<close>

record dfs =
  L :: "string list"
  idx :: int
  temp :: "string list"
  perm :: "string list"
  cycleFound :: bool
  cycleStart :: string
  cyclic :: "string list"

text \<open>
  \<open>visit\<close> and its loop over the dependencies, which also answers whether it returned early. The depth
  of the recursion is limited by the first argument; \<open>None\<close> is a panic, for an index below zero, or
  the end of that limit.
\<close>

fun visit :: "nat \<Rightarrow> graph \<Rightarrow> string \<Rightarrow> dfs \<Rightarrow> dfs option"
  and visit_deps :: "nat \<Rightarrow> graph \<Rightarrow> string \<Rightarrow> string list \<Rightarrow> dfs \<Rightarrow> (bool \<times> dfs) option" where
  "visit 0 g n s = None"
| "visit (Suc f) g n s =
     (if n \<in> set (temp s) then Some (s\<lparr>cycleFound := True, cycleStart := n\<rparr>)
      else if n \<in> set (perm s) then Some s
      else (case visit_deps f g n (deps g n) (s\<lparr>temp := n # temp s\<rparr>) of
              None \<Rightarrow> None
            | Some (True, s') \<Rightarrow> Some s'
            | Some (False, s') \<Rightarrow>
                (let i = idx s' - 1
                 in if i < 0 then None
                    else Some (s'\<lparr>temp := removeAll n (temp s'), perm := n # perm s', idx := i, L := (L s')[nat i := n]\<rparr>))))"
| "visit_deps f g n [] s = Some (False, s)"
| "visit_deps f g n (m # ms) s =
     (case visit f g m s of
        None \<Rightarrow> None
      | Some s' \<Rightarrow>
          if cycleFound s'
          then Some (True,
            if cycleStart s' \<noteq> []
            then s'\<lparr>cyclic := cyclic s' @ [n], cycleStart := (if n = cycleStart s' then [] else cycleStart s')\<rparr>
            else s')
          else visit_deps f g n ms s')"

fun sort_loop :: "nat \<Rightarrow> graph \<Rightarrow> string list \<Rightarrow> dfs \<Rightarrow> (string list \<times> string list) option" where
  "sort_loop f g [] s = Some (L s, [])"
| "sort_loop f g (n # ns) s =
     (if n \<in> set (perm s) then sort_loop f g ns s
      else (case visit f g n s of
              None \<Rightarrow> None
            | Some s' \<Rightarrow> if cycleFound s' then Some ([], cyclic s') else sort_loop f g ns s'))"

definition dfs_init :: "graph \<Rightarrow> dfs" where
  "dfs_init g = \<lparr>L = replicate (length g) [], idx = int (length g), temp = [], perm = [], cycleFound = False,
     cycleStart = [], cyclic = []\<rparr>"

definition sortGraph :: "string list \<Rightarrow> graph \<Rightarrow> (string list \<times> string list) option" where
  "sortGraph order g = sort_loop (length g + 1) g order (dfs_init g)"

section \<open>The depth-first search\<close>

definition edges :: "graph \<Rightarrow> (string \<times> string) set" where
  "edges g = {(n, m). m \<in> set (deps g n)}"

definition closed_graph :: "graph \<Rightarrow> bool" where
  "closed_graph g \<longleftrightarrow> distinct (map fst g) \<and> (\<forall>(n, ms) \<in> set g. set ms \<subseteq> set (map fst g))"

text \<open>Every node has all its dependencies behind it.\<close>

fun topological :: "graph \<Rightarrow> string list \<Rightarrow> bool" where
  "topological g [] = True"
| "topological g (n # ns) = (set (deps g n) \<subseteq> set ns \<and> topological g ns)"

text \<open>The nodes placed so far.\<close>

definition placed :: "dfs \<Rightarrow> string list" where
  "placed s = drop (nat (idx s)) (L s)"

text \<open>The nodes in \<open>temp\<close> are a path of the graph that ends in the first of them.\<close>

fun stack :: "graph \<Rightarrow> string list \<Rightarrow> bool" where
  "stack g [] = True"
| "stack g [n] = True"
| "stack g (m # n # ns) = ((n, m) \<in> edges g \<and> stack g (n # ns))"

definition dfs_inv :: "graph \<Rightarrow> dfs \<Rightarrow> bool" where
  "dfs_inv g s \<longleftrightarrow> \<not> cycleFound s \<and> length (L s) = length g \<and> 0 \<le> idx s \<and> idx s \<le> int (length g) \<and>
     set (perm s) = set (placed s) \<and> distinct (placed s) \<and> set (placed s) \<subseteq> set (map fst g) \<and>
     topological g (placed s) \<and>
     distinct (temp s) \<and> set (temp s) \<subseteq> set (map fst g) \<and> set (temp s) \<inter> set (placed s) = {} \<and> stack g (temp s)"

lemma stack_reaches:
  "stack g (t # ts) \<Longrightarrow> n \<in> set (t # ts) \<Longrightarrow> (n, t) \<in> (edges g)\<^sup>*"
proof (induction ts arbitrary: t)
  case (Cons u ts)
  then show ?case
  proof (cases "n = t")
    case False
    then have "(n, u) \<in> (edges g)\<^sup>*" using Cons by auto
    moreover have "(u, t) \<in> edges g" using Cons.prems(1) by simp
    ultimately show ?thesis by (rule rtrancl_into_rtrancl)
  qed simp
qed simp

text \<open>What a visit promises: no panic; a cycle that is reported exists; otherwise the node is placed.\<close>

definition visited :: "graph \<Rightarrow> string set \<Rightarrow> dfs \<Rightarrow> dfs \<Rightarrow> bool" where
  "visited g ns s s' \<longleftrightarrow> (if cycleFound s' then \<exists>a. (a, a) \<in> (edges g)\<^sup>+
     else dfs_inv g s' \<and> temp s' = temp s \<and> set (placed s) \<subseteq> set (placed s') \<and> ns \<subseteq> set (placed s'))"

lemma place_node:
  assumes "dfs_inv g s" and "temp s = n # ts" and "set (deps g n) \<subseteq> set (placed s)"
  shows "idx s \<ge> 1" and "dfs_inv g (s\<lparr>temp := removeAll n (temp s), perm := n # perm s, idx := idx s - 1, L := (L s)[nat (idx s - 1) := n]\<rparr>)"
    and "placed (s\<lparr>temp := removeAll n (temp s), perm := n # perm s, idx := idx s - 1, L := (L s)[nat (idx s - 1) := n]\<rparr>) = n # placed s"
    and "removeAll n (temp s) = ts"
proof -
  have n: "n \<in> set (map fst g)" "n \<notin> set (placed s)" "n \<notin> set ts" using assms(1,2) by (auto simp: dfs_inv_def)
  have "card (set (n # placed s)) \<le> card (set (map fst g))"
    using assms(1) n(1) by (intro card_mono) (auto simp: dfs_inv_def)
  also have "\<dots> \<le> length g" using card_length [of "map fst g"] by simp
  finally have "Suc (length (placed s)) \<le> length g" using assms(1) n(2) by (simp add: dfs_inv_def distinct_card)
  then show i: "idx s \<ge> 1" using assms(1) by (auto simp: dfs_inv_def placed_def)
  then have nat: "nat (idx s) = Suc (nat (idx s - 1))" by simp
  moreover have len: "nat (idx s - 1) < length (L s)" using assms(1) i by (auto simp: dfs_inv_def)
  ultimately show p: "placed (s\<lparr>temp := removeAll n (temp s), perm := n # perm s, idx := idx s - 1, L := (L s)[nat (idx s - 1) := n]\<rparr>) = n # placed s"
    by (simp add: placed_def drop_update_swap Cons_nth_drop_Suc [symmetric])
  show t: "removeAll n (temp s) = ts" using assms(2) n(3) by simp
  have "stack g ts" using assms(1,2) by (cases ts) (auto simp: dfs_inv_def)
  then show "dfs_inv g (s\<lparr>temp := removeAll n (temp s), perm := n # perm s, idx := idx s - 1, L := (L s)[nat (idx s - 1) := n]\<rparr>)"
    using assms i p t n unfolding dfs_inv_def by auto
qed

lemma visit_correct:
  "closed_graph g \<Longrightarrow> dfs_inv g s \<Longrightarrow> n \<in> set (map fst g) \<Longrightarrow> stack g (n # temp s) \<Longrightarrow> length (temp s) + f > length g \<Longrightarrow>
   \<exists>s'. visit f g n s = Some s' \<and> visited g {n} s s'"
  "closed_graph g \<Longrightarrow> dfs_inv g s \<Longrightarrow> set ms \<subseteq> set (deps g n) \<Longrightarrow> temp s = n # ts \<Longrightarrow> length (temp s) + f > length g \<Longrightarrow>
   \<exists>b s'. visit_deps f g n ms s = Some (b, s') \<and> visited g (set ms) s s' \<and> b = cycleFound s'"
proof (induction f g n s and f g n ms s arbitrary: and ts rule: visit_visit_deps.induct)
  case (1 g n s)
  then have "length (temp s) \<le> length g"
    using card_mono [of "set (map fst g)" "set (temp s)"] card_length [of "map fst g"] by (auto simp: dfs_inv_def distinct_card)
  with 1 show ?case by simp
next
  case (2 f g n s)
  consider (cycle) "n \<in> set (temp s)" | (known) "n \<notin> set (temp s)" "n \<in> set (perm s)" | (new) "n \<notin> set (temp s)" "n \<notin> set (perm s)" by blast
  then show ?case
  proof cases
    case cycle
    then obtain t ts where t: "temp s = t # ts" by (cases "temp s") auto
    then have "(n, t) \<in> (edges g)\<^sup>*" using stack_reaches [of g t ts n] 2 cycle by (auto simp: dfs_inv_def)
    moreover have "(t, n) \<in> edges g" using 2 t by simp
    ultimately have "(n, n) \<in> (edges g)\<^sup>+" by (rule rtrancl_into_trancl1)
    with cycle show ?thesis by (auto simp: visited_def)
  next
    case known
    then show ?thesis using 2 by (auto simp: visited_def dfs_inv_def)
  next
    case new
    let ?s = "s\<lparr>temp := n # temp s\<rparr>"
    have inv: "dfs_inv g ?s" using 2 new by (auto simp: dfs_inv_def placed_def)
    obtain b s' where s': "visit_deps f g n (deps g n) ?s = Some (b, s')" "visited g (set (deps g n)) ?s s'" "b = cycleFound s'"
      using "2.IH" [of "temp s"] new 2 inv by auto
    show ?thesis
    proof (cases "cycleFound s'")
      case True
      then show ?thesis using s' new by (auto simp: visited_def)
    next
      case False
      then have v: "dfs_inv g s'" "temp s' = n # temp s" "set (deps g n) \<subseteq> set (placed s')" "set (placed s) \<subseteq> set (placed s')"
        using s'(2) by (auto simp: visited_def placed_def)
      note p = place_node [OF v(1-3)]
      show ?thesis using s'(1,3) False new p v(4) by (auto simp: visited_def Let_def dfs_inv_def)
    qed
  qed
next
  case (3 f g n s)
  then show ?case by (auto simp: visited_def dfs_inv_def)
next
  case (4 f g n m ms s)
  have m: "m \<in> set (map fst g)" "stack g (m # temp s)"
    using 4 by (auto simp: closed_graph_def deps_def edges_def dfs_inv_def split: option.splits dest!: map_of_SomeD)
  obtain s1 where s1: "visit f g m s = Some s1" "visited g {m} s s1" using "4.IH"(1) 4 m by auto
  show ?case
  proof (cases "cycleFound s1")
    case True
    then show ?thesis using s1 by (auto simp: visited_def)
  next
    case False
    then have v: "dfs_inv g s1" "temp s1 = temp s" "set (placed s) \<subseteq> set (placed s1)" "m \<in> set (placed s1)"
      using s1(2) by (auto simp: visited_def)
    then obtain b s' where "visit_deps f g n ms s1 = Some (b, s')" "visited g (set ms) s1 s'" "b = cycleFound s'"
      using "4.IH"(2) [OF s1(1) False, of ts] 4 by auto
    then show ?thesis using s1(1) False v by (auto simp: visited_def) blast
  qed
qed

lemma topological_split: "topological g (xs @ a # ys) \<Longrightarrow> set (deps g a) \<subseteq> set ys \<and> topological g ys"
  by (induction xs) auto

lemma topological_reaches:
  "(a, b) \<in> (edges g)\<^sup>+ \<Longrightarrow> topological g (xs @ a # ys) \<Longrightarrow> b \<in> set ys"
proof (induction rule: trancl_induct)
  case (base b)
  then show ?case using topological_split [of g xs a ys] by (auto simp: edges_def)
next
  case (step b c)
  then obtain us vs where ys: "ys = us @ b # vs" by (meson split_list)
  then have "topological g (us @ b # vs)" using topological_split [OF step.prems] by simp
  then show ?case using topological_split [of g us b vs] step.hyps(2) ys by (auto simp: edges_def)
qed

lemma topological_acyclic:
  assumes "topological g l" and "distinct l" and "set (map fst g) \<subseteq> set l"
  shows "acyclic (edges g)"
proof (rule acyclicI, intro allI notI)
  fix a assume a: "(a, a) \<in> (edges g)\<^sup>+"
  then obtain b where "(a, b) \<in> edges g" by (auto dest: tranclD)
  then have "a \<in> set (map fst g)" by (cases "map_of g a") (auto simp: edges_def deps_def map_of_Some_fst simp del: set_map)
  then obtain xs ys where l: "l = xs @ a # ys" using assms(3) by (meson split_list subsetD)
  then show False using topological_reaches [OF a] assms(1,2) by auto
qed

lemma sort_loop_correct:
  "closed_graph g \<Longrightarrow> dfs_inv g s \<Longrightarrow> temp s = [] \<Longrightarrow> set ns \<subseteq> set (map fst g) \<Longrightarrow> set (map fst g) \<subseteq> set ns \<union> set (placed s) \<Longrightarrow>
   (\<exists>l. sort_loop (length g + 1) g ns s = Some (l, []) \<and> distinct l \<and> set l = set (map fst g) \<and> topological g l) \<or>
   (\<exists>c. sort_loop (length g + 1) g ns s = Some ([], c) \<and> \<not> acyclic (edges g))"
proof (induction ns arbitrary: s)
  case Nil
  then have "set (placed s) = set (map fst g)" by (auto simp: dfs_inv_def)
  moreover have "length (placed s) = length g"
    using Nil.prems(1,2) calculation distinct_card [of "placed s"] distinct_card [of "map fst g"] by (simp add: dfs_inv_def closed_graph_def)
  ultimately have "placed s = L s" using Nil.prems(2) by (auto simp: dfs_inv_def placed_def)
  then show ?case using Nil.prems(2) \<open>set (placed s) = set (map fst g)\<close> by (auto simp: dfs_inv_def)
next
  case (Cons n ns)
  show ?case
  proof (cases "n \<in> set (perm s)")
    case True
    then have "n \<in> set (placed s)" using Cons.prems(2) by (simp add: dfs_inv_def)
    then have "set (map fst g) \<subseteq> set ns \<union> set (placed s)" using Cons.prems(5) by auto
    then show ?thesis using Cons.IH [OF Cons.prems(1-3)] Cons.prems(4) True by simp
  next
    case False
    obtain s' where s': "visit (length g + 1) g n s = Some s'" "visited g {n} s s'"
      using visit_correct(1) [OF Cons.prems(1,2), of n "length g + 1"] Cons.prems(3,4) by auto
    show ?thesis
    proof (cases "cycleFound s'")
      case True
      then show ?thesis using s' False by (auto simp: visited_def acyclic_def)
    next
      case found: False
      then have v: "dfs_inv g s'" "temp s' = temp s" "set (placed s) \<subseteq> set (placed s')" "n \<in> set (placed s')"
        using s'(2) by (auto simp: visited_def)
      have "set (map fst g) \<subseteq> set ns \<union> set (placed s')" using Cons.prems(5) v(3,4) by auto
      then show ?thesis using Cons.IH [OF Cons.prems(1) v(1)] Cons.prems(3,4) v(2) s'(1) False found by simp
    qed
  qed
qed

lemma dfs_init_inv: "dfs_inv g (dfs_init g)" "temp (dfs_init g) = []" "placed (dfs_init g) = []"
  by (simp_all add: dfs_inv_def dfs_init_def placed_def)

lemma sortGraph_cases:
  assumes "closed_graph g" and "set order = set (map fst g)"
  shows "(acyclic (edges g) \<and> (\<exists>l. sortGraph order g = Some (l, []) \<and> distinct l \<and> set l = set (map fst g) \<and> topological g l)) \<or>
    (\<not> acyclic (edges g) \<and> (\<exists>c. sortGraph order g = Some ([], c)))"
  using sort_loop_correct [OF assms(1) dfs_init_inv(1,2), of order] assms(2) topological_acyclic
  unfolding sortGraph_def by fastforce

section \<open>Patterns (grok.go)\<close>

text \<open>The classes \<open>\w\<close> and \<open>[\w-.]\<close>.\<close>

definition word_char :: "char \<Rightarrow> bool" where
  "word_char c \<longleftrightarrow> in_range (CHR ''a'') (CHR ''z'') c \<or> in_range (CHR ''A'') (CHR ''Z'') c \<or> in_range (CHR ''0'') (CHR ''9'') c \<or> c = CHR ''_''"

definition name_char :: "char \<Rightarrow> bool" where
  "name_char c \<longleftrightarrow> word_char c \<or> c = CHR ''-'' \<or> c = CHR ''.''"

text \<open>
  \<open>normal\<close>: after \<open>%{\<close> one to three names separated by colons and a closing brace. As neither a colon nor
  a brace is in a name, the match at a position is the text up to the first brace, if it has this form.
\<close>

definition normal_at :: "string \<Rightarrow> string option" where
  "normal_at s =
     (if take 2 s = ''%{''
      then (let inner = takeWhile (\<lambda>c. c \<noteq> CHR ''}'') (drop 2 s)
            in if length inner + 2 < length s \<and> length (split_on (CHR '':'') inner) \<le> 3
                  \<and> list_all (\<lambda>nm. nm \<noteq> [] \<and> list_all name_char nm) (split_on (CHR '':'') inner)
               then Some inner else None)
      else None)"

text \<open>\<open>FindAllStringSubmatch\<close>: the first groups of the matches, from left to right, without overlap.\<close>

function normal_find :: "string \<Rightarrow> string list" where
  "normal_find [] = []"
| "normal_find (c # cs) =
     (case normal_at (c # cs) of
        Some inner \<Rightarrow> inner # normal_find (drop (length inner + 3) (c # cs))
      | None \<Rightarrow> normal_find cs)"
  by pat_completeness auto
termination
  by (relation "measure length") auto

text \<open>\<open>valid\<close>: a syntax of words joined by dots and hyphens, then optionally a semantic name and a type.\<close>

fun joined_words :: "bool \<Rightarrow> string \<Rightarrow> bool" where
  "joined_words inWord [] = inWord"
| "joined_words inWord (c # cs) =
     (if word_char c then joined_words True cs
      else if (c = CHR ''-'' \<or> c = CHR ''.'') \<and> inWord then joined_words False cs
      else False)"

definition valid_name :: "string \<Rightarrow> bool" where
  "valid_name s =
     (case split_on (CHR '':'') s of
        [syntx] \<Rightarrow> joined_words False syntx
      | [syntx, sem] \<Rightarrow> joined_words False syntx \<and> sem \<noteq> [] \<and> list_all name_char sem
      | [syntx, sem, ty] \<Rightarrow> joined_words False syntx \<and> sem \<noteq> [] \<and> list_all name_char sem
          \<and> ty \<in> {''string'', ''float'', ''int''}
      | _ \<Rightarrow> False)"

text \<open>\<open>symbolic.ReplaceAllString(name, "_")\<close>, for names of ASCII characters, as valid names are.\<close>

definition symbolic_replace :: "string \<Rightarrow> string" where
  "symbolic_replace nm = map (\<lambda>c. if word_char c then c else CHR ''_'') nm"

text \<open>\<open>strings.Replace(s, old, new, -1)\<close> for a text \<open>old\<close> that is not empty.\<close>

function replace_all :: "string \<Rightarrow> string \<Rightarrow> string \<Rightarrow> string" where
  "replace_all old new [] = []"
| "replace_all old new (c # cs) =
     (if old \<noteq> [] \<and> take (length old) (c # cs) = old then new @ replace_all old new (drop (length old) (c # cs))
      else c # replace_all old new cs)"
  by pat_completeness auto
termination
  by (relation "measure (\<lambda>(old, new, s). length s)") auto

type_synonym semanticTypes = "(string \<times> string) list"

record gPattern =
  expression :: string
  typeInfo :: semanticTypes

record 'r gRegexp =
  regexp :: 'r
  regexpTypes :: semanticTypes

record Config =
  NamedCapturesOnly :: bool
  SkipDefaultPatterns :: bool
  RemoveEmptyValues :: bool
  Patterns :: "(string \<times> string) list"

record 'r Grok =
  rawPattern :: "(string \<times> string) list"
  config :: Config
  aliases :: "(string \<times> string) list"
  compiledPatterns :: "(string \<times> 'r gRegexp) list"
  patterns :: "(string \<times> gPattern) list"

definition aliasizePatternName :: "string \<Rightarrow> 'r Grok \<Rightarrow> string \<times> 'r Grok" where
  "aliasizePatternName nm g = (let alias = symbolic_replace nm in (alias, g\<lparr>aliases := AList.update alias nm (aliases g)\<rparr>))"

definition nameToAlias :: "string \<Rightarrow> 'r Grok \<Rightarrow> string" where
  "nameToAlias nm g = (case map_of (aliases g) nm of Some alias \<Rightarrow> alias | None \<Rightarrow> nm)"

text \<open>Merging of types: a type that is there already stays.\<close>

definition merge_types :: "semanticTypes \<Rightarrow> semanticTypes \<Rightarrow> semanticTypes" where
  "merge_types stored ti = foldl (\<lambda>ti (k, v). if map_of ti k = None then AList.update k v ti else ti) ti stored"

text \<open>The loop of \<open>denormalizePattern\<close> over the references found in the pattern.\<close>

fun denormalize_loop ::
    "string list \<Rightarrow> string \<Rightarrow> semanticTypes \<Rightarrow> (string \<times> gPattern) list \<Rightarrow> 'r Grok \<Rightarrow> (string \<times> semanticTypes) result \<times> 'r Grok" where
  "denormalize_loop [] pat ti stored g = (Inr (pat, ti), g)"
| "denormalize_loop (ref # refs) pat ti stored g =
     (if \<not> valid_name ref then (Inl (''invalid pattern %{'' @ ref @ ''}''), g)
      else
       (let names = split_on (CHR '':'') ref;
            syntx = names ! 0;
            semantic = (if length names > 1 then names ! 1 else syntx);
            (alias, g1) = (if length names > 1 then aliasizePatternName semantic g else (syntx, g));
            ti1 = (if length names = 3 \<and> names ! 2 \<noteq> ''string'' then AList.update semantic (names ! 2) ti else ti)
        in case map_of stored syntx of
             None \<Rightarrow> (Inl (''no pattern found for %{'' @ syntx @ ''}''), g1)
           | Some storedPattern \<Rightarrow>
               (let buffer = (if \<not> NamedCapturesOnly (config g1) \<or> NamedCapturesOnly (config g1) \<and> length names > 1
                              then ''(?P<'' @ alias @ ''>'' @ expression storedPattern @ '')''
                              else ''('' @ expression storedPattern @ '')'')
                in denormalize_loop refs (replace_all (''%{'' @ ref @ ''}'') buffer pat)
                     (merge_types (typeInfo storedPattern) ti1) stored g1)))"

definition denormalizePattern ::
    "string \<Rightarrow> (string \<times> gPattern) list \<Rightarrow> 'r Grok \<Rightarrow> (string \<times> semanticTypes) result \<times> 'r Grok" where
  "denormalizePattern pat stored g = denormalize_loop (normal_find pat) pat [] stored g"

definition addPattern :: "string \<Rightarrow> string \<Rightarrow> 'r Grok \<Rightarrow> unit result \<times> 'r Grok" where
  "addPattern nm pat g =
     (case denormalizePattern pat (patterns g) g of
        (Inl e, g1) \<Rightarrow> (Inl e, g1)
      | (Inr (dnPattern, ti), g1) \<Rightarrow>
          (Inr (), g1\<lparr>patterns := AList.update nm \<lparr>expression = dnPattern, typeInfo = ti\<rparr> (patterns g1)\<rparr>))"

text \<open>The references of one pattern.\<close>

fun reference_keys :: "(string \<times> gPattern) list \<Rightarrow> (string \<times> string) list \<Rightarrow> string list \<Rightarrow> string list result" where
  "reference_keys stored m [] = Inr []"
| "reference_keys stored m (ref # refs) =
     (if \<not> valid_name ref then Inl (''invalid pattern %{'' @ ref @ ''}'')
      else (let syntx = split_on (CHR '':'') ref ! 0
            in if map_of stored syntx = None \<and> map_of m syntx = None then Inl (''no pattern found for %{'' @ syntx @ ''}'')
               else map_sum id (\<lambda>keys. syntx # keys) (reference_keys stored m refs)))"

text \<open>The graph of the references, for the keys in the order of the range.\<close>

fun pattern_deps :: "(string \<times> gPattern) list \<Rightarrow> (string \<times> string) list \<Rightarrow> string list \<Rightarrow> graph result" where
  "pattern_deps stored m [] = Inr []"
| "pattern_deps stored m (k # ks) =
     (case reference_keys stored m (normal_find (the (map_of m k))) of
        Inl e \<Rightarrow> Inl e
      | Inr keys \<Rightarrow> map_sum id (\<lambda>g. (k, keys) # g) (pattern_deps stored m ks))"

fun add_loop :: "(string \<Rightarrow> string) \<Rightarrow> (string \<times> string) list \<Rightarrow> string list \<Rightarrow> 'r Grok \<Rightarrow> unit result \<times> 'r Grok" where
  "add_loop Q m [] g = (Inr (), g)"
| "add_loop Q m (key # keys) g =
     (case addPattern key (case map_of m key of None \<Rightarrow> [] | Some v \<Rightarrow> v) g of
        (Inl e, g1) \<Rightarrow> (Inl (''cannot add pattern '' @ Q key @ '': '' @ e), g1)
      | (Inr _, g1) \<Rightarrow> add_loop Q m keys g1)"

text \<open>
  \<open>addPatternsFromMap\<close> with the orders of its two ranges; the cycle found is ignored. \<open>Q\<close> is the verb
  \<open>%q\<close> of error messages.
\<close>

definition addPatternsFromMap ::
    "(string \<Rightarrow> string) \<Rightarrow> string list \<Rightarrow> string list \<Rightarrow> (string \<times> string) list \<Rightarrow> 'r Grok \<Rightarrow> (unit result \<times> 'r Grok) option" where
  "addPatternsFromMap Q order1 order2 m g =
     (case pattern_deps (patterns g) m order1 of
        Inl e \<Rightarrow> Some (Inl e, g)
      | Inr patternDeps \<Rightarrow>
          (case sortGraph order2 patternDeps of
             None \<Rightarrow> None
           | Some (order, _) \<Rightarrow> Some (add_loop Q m (reverseList order) g)))"

definition buildPatterns :: "(string \<Rightarrow> string) \<Rightarrow> string list \<Rightarrow> string list \<Rightarrow> 'r Grok \<Rightarrow> (unit result \<times> 'r Grok) option" where
  "buildPatterns Q order1 order2 g = addPatternsFromMap Q order1 order2 (rawPattern g) (g\<lparr>patterns := []\<rparr>)"

definition AddPattern :: "(string \<Rightarrow> string) \<Rightarrow> string list \<Rightarrow> string list \<Rightarrow> string \<Rightarrow> string \<Rightarrow> 'r Grok \<Rightarrow> (unit result \<times> 'r Grok) option" where
  "AddPattern Q order1 order2 nm pat g = buildPatterns Q order1 order2 (g\<lparr>rawPattern := AList.update nm pat (rawPattern g)\<rparr>)"

definition AddPatternsFromMap ::
    "(string \<Rightarrow> string) \<Rightarrow> string list \<Rightarrow> string list \<Rightarrow> (string \<times> string) list \<Rightarrow> 'r Grok \<Rightarrow> (unit result \<times> 'r Grok) option" where
  "AddPatternsFromMap Q order1 order2 m g =
     buildPatterns Q order1 order2 (g\<lparr>rawPattern := foldl (\<lambda>r (k, v). AList.update k v r) (rawPattern g) m\<rparr>)"

text \<open>\<open>compile\<close> with its cache; the compiler of regular expressions is a parameter.\<close>

definition compile :: "(string \<Rightarrow> 'r result) \<Rightarrow> string \<Rightarrow> 'r Grok \<Rightarrow> 'r gRegexp result \<times> 'r Grok" where
  "compile C pat g =
     (case map_of (compiledPatterns g) pat of
        Some gr \<Rightarrow> (Inr gr, g)
      | None \<Rightarrow>
          (case denormalizePattern pat (patterns g) g of
             (Inl e, g1) \<Rightarrow> (Inl e, g1)
           | (Inr (newPattern, ti), g1) \<Rightarrow>
               (case C newPattern of
                  Inl e \<Rightarrow> (Inl e, g1)
                | Inr compiled \<Rightarrow>
                    (let gr = \<lparr>regexp = compiled, regexpTypes = ti\<rparr>
                     in (Inr gr, g1\<lparr>compiledPatterns := AList.update pat gr (compiledPatterns g1)\<rparr>)))))"

text \<open>The captures of a match: the names of the groups and the matches at the same positions.\<close>

definition compiledParse ::
    "('r \<Rightarrow> string \<Rightarrow> string list) \<Rightarrow> ('r \<Rightarrow> string list) \<Rightarrow> 'r gRegexp \<Rightarrow> string \<Rightarrow> 'r Grok \<Rightarrow> (string \<times> string) list" where
  "compiledParse FindStringSubmatch SubexpNames gr text g =
     (let mtch = FindStringSubmatch (regexp gr) text
      in if length mtch > 0
         then foldl (\<lambda>captures (nm, v).
                if nm = [] \<or> RemoveEmptyValues (config g) \<and> v = [] then captures
                else AList.update (nameToAlias nm g) v captures) [] (zip (SubexpNames (regexp gr)) mtch)
         else [])"

definition Parse ::
    "(string \<Rightarrow> 'r result) \<Rightarrow> ('r \<Rightarrow> string \<Rightarrow> string list) \<Rightarrow> ('r \<Rightarrow> string list) \<Rightarrow> string \<Rightarrow> string \<Rightarrow> 'r Grok
      \<Rightarrow> (string \<times> string) list result \<times> 'r Grok" where
  "Parse C FindStringSubmatch SubexpNames pat text g =
     (case compile C pat g of
        (Inl e, g1) \<Rightarrow> (Inl e, g1)
      | (Inr gr, g1) \<Rightarrow> (Inr (compiledParse FindStringSubmatch SubexpNames gr text g1), g1))"

definition ParseToMultiMap ::
    "(string \<Rightarrow> 'r result) \<Rightarrow> ('r \<Rightarrow> string \<Rightarrow> string list) \<Rightarrow> ('r \<Rightarrow> string list) \<Rightarrow> string \<Rightarrow> string \<Rightarrow> 'r Grok
      \<Rightarrow> (string \<times> string list) list result \<times> 'r Grok" where
  "ParseToMultiMap C FindStringSubmatch SubexpNames pat text g =
     (case compile C pat g of
        (Inl e, g1) \<Rightarrow> (Inl e, g1)
      | (Inr gr, g1) \<Rightarrow>
          (let mtch = FindStringSubmatch (regexp gr) text
           in (Inr (if length mtch > 0
                    then foldl (\<lambda>captures (nm, v).
                      if nm = [] \<or> RemoveEmptyValues (config g1) \<and> v = [] then captures
                      else (let name = nameToAlias nm g1
                            in AList.update name ((case map_of captures name of None \<Rightarrow> [] | Some vs \<Rightarrow> vs) @ [v]) captures))
                      [] (zip (SubexpNames (regexp gr)) mtch)
                    else []), g1)))"

definition Match :: "(string \<Rightarrow> 'r result) \<Rightarrow> ('r \<Rightarrow> string \<Rightarrow> bool) \<Rightarrow> string \<Rightarrow> string \<Rightarrow> 'r Grok \<Rightarrow> bool result \<times> 'r Grok" where
  "Match C MatchString pat text g =
     (case compile C pat g of
        (Inl e, g1) \<Rightarrow> (Inl e, g1)
      | (Inr gr, g1) \<Rightarrow> (Inr (MatchString (regexp gr) text), g1))"

section \<open>Patterns are defined\<close>

definition references :: "string \<Rightarrow> string list" where
  "references pat = map (\<lambda>ref. split_on (CHR '':'') ref ! 0) (normal_find pat)"

text \<open>Every reference is valid and names a pattern of the map.\<close>

definition well_formed :: "(string \<times> string) list \<Rightarrow> bool" where
  "well_formed m \<longleftrightarrow> distinct (map fst m) \<and>
     (\<forall>(k, pat) \<in> set m. (\<forall>ref \<in> set (normal_find pat). valid_name ref) \<and> set (references pat) \<subseteq> set (map fst m))"

definition depends :: "(string \<times> string) list \<Rightarrow> (string \<times> string) set" where
  "depends m = {(a, b). \<exists>pat. map_of m a = Some pat \<and> b \<in> set (references pat)}"

lemma reference_keys_ok:
  assumes "\<forall>ref \<in> set refs. valid_name ref \<and> map_of m (split_on (CHR '':'') ref ! 0) \<noteq> None"
  shows "reference_keys stored m refs = Inr (map (\<lambda>ref. split_on (CHR '':'') ref ! 0) refs)"
  using assms by (induction refs) (auto simp: Let_def)

lemma pattern_deps_ok:
  assumes "well_formed m"
  shows "set ks \<subseteq> set (map fst m) \<Longrightarrow> pattern_deps stored m ks = Inr (map (\<lambda>k. (k, references (the (map_of m k)))) ks)"
proof (induction ks)
  case (Cons k ks)
  then obtain pat where pat: "map_of m k = Some pat" by (cases "map_of m k") (auto simp: map_of_eq_None_iff)
  then have "\<forall>ref \<in> set (normal_find pat). valid_name ref \<and> map_of m (split_on (CHR '':'') ref ! 0) \<noteq> None"
  proof -
    have wf: "\<forall>ref \<in> set (normal_find pat). valid_name ref" "set (references pat) \<subseteq> set (map fst m)"
      using assms map_of_SomeD [OF pat] by (auto simp: well_formed_def)
    have "map_of m (split_on (CHR '':'') ref ! 0) \<noteq> None" if "ref \<in> set (normal_find pat)" for ref
    proof -
      have "split_on (CHR '':'') ref ! 0 \<in> set (references pat)" using that by (simp add: references_def)
      then have "split_on (CHR '':'') ref ! 0 \<in> set (map fst m)" using wf(2) by blast
      then show ?thesis unfolding map_of_Some_fst by auto
    qed
    with wf(1) show ?thesis by blast
  qed
  then have "reference_keys stored m (normal_find pat) = Inr (references pat)" by (simp add: reference_keys_ok references_def)
  then show ?case using Cons pat by simp
qed simp

lemma denormalize_ok:
  assumes "\<forall>ref \<in> set refs. valid_name ref \<and> map_of stored (split_on (CHR '':'') ref ! 0) \<noteq> None"
  shows "\<exists>r as. denormalize_loop refs pat ti stored g = (Inr r, g\<lparr>aliases := as\<rparr>)"
  using assms
proof (induction refs arbitrary: pat ti g)
  case Nil
  show ?case by (rule exI, rule exI [of _ "aliases g"]) simp
next
  case (Cons ref refs)
  obtain sp where sp: "map_of stored (split_on (CHR '':'') ref ! 0) = Some sp" using Cons.prems by auto
  show ?case
    using Cons.prems sp Cons.IH [of _ _ g]
      Cons.IH [of _ _ "g\<lparr>aliases := AList.update (symbolic_replace (split_on (CHR '':'') ref ! 1)) (split_on (CHR '':'') ref ! 1) (aliases g)\<rparr>"]
    by (auto simp: Let_def aliasizePatternName_def)
qed

lemma addPattern_ok:
  assumes "\<forall>ref \<in> set (normal_find pat). valid_name ref" and "set (references pat) \<subseteq> set (map fst (patterns g))"
  shows "\<exists>g'. addPattern nm pat g = (Inr (), g') \<and> set (map fst (patterns g')) = insert nm (set (map fst (patterns g)))"
proof -
  have "\<forall>ref \<in> set (normal_find pat). valid_name ref \<and> map_of (patterns g) (split_on (CHR '':'') ref ! 0) \<noteq> None"
    using assms by (auto simp: references_def map_of_eq_None_iff)
  from denormalize_ok [OF this, of pat "[]" g] obtain r as
    where "denormalizePattern pat (patterns g) g = (Inr r, g\<lparr>aliases := as\<rparr>)" by (auto simp: denormalizePattern_def)
  then show ?thesis by (cases r) (simp add: addPattern_def set_map_fst_update del: set_map)
qed

lemma add_loop_ok:
  assumes "well_formed m"
  shows "set ks \<subseteq> set (map fst m) \<Longrightarrow>
    (\<And>xs k ys. ks = xs @ k # ys \<Longrightarrow> set (references (the (map_of m k))) \<subseteq> set xs \<union> set (map fst (patterns g))) \<Longrightarrow>
    \<exists>g'. add_loop Q m ks g = (Inr (), g') \<and> set (map fst (patterns g')) = set ks \<union> set (map fst (patterns g))"
proof (induction ks arbitrary: g)
  case (Cons k ks)
  then obtain pat where pat: "map_of m k = Some pat" by (cases "map_of m k") (auto simp: map_of_eq_None_iff)
  have "\<forall>ref \<in> set (normal_find pat). valid_name ref" using assms map_of_SomeD [OF pat] by (auto simp: well_formed_def)
  then obtain g1 where g1: "addPattern k pat g = (Inr (), g1)" "set (map fst (patterns g1)) = insert k (set (map fst (patterns g)))"
    using addPattern_ok [of pat g k] Cons.prems(2) [of "[]" k ks] pat by auto
  have "set (references (the (map_of m k'))) \<subseteq> set xs \<union> set (map fst (patterns g1))" if "ks = xs @ k' # ys" for xs k' ys
    using Cons.prems(2) [of "k # xs" k' ys] that g1(2) by auto
  then obtain g' where "add_loop Q m ks g1 = (Inr (), g')" "set (map fst (patterns g')) = set ks \<union> set (map fst (patterns g1))"
    using Cons.IH [of g1] Cons.prems(1) by auto
  then show ?case using g1 pat by auto
qed simp

lemma reverseList_rev: "reverseList s = rev s"
proof -
  have "foldl (\<lambda>r i. i # r) acc s = rev s @ acc" for acc by (induction s arbitrary: acc) auto
  then show ?thesis by (simp add: reverseList_def)
qed

text \<open>
  C34. For patterns whose references are valid and defined, building the patterns returns without an
  error, whatever the orders of the ranges: if the references have no cycle every pattern is defined
  afterwards; if they have a cycle, none is, and still no error is reported.
\<close>

theorem patterns_built:
  assumes "well_formed (rawPattern g)" and "mset order1 = mset (map fst (rawPattern g))" and "mset order2 = mset (map fst (rawPattern g))"
  shows "\<exists>g'. buildPatterns Q order1 order2 g = Some (Inr (), g') \<and>
    (if acyclic (depends (rawPattern g)) then set (map fst (patterns g')) = set (map fst (rawPattern g)) else patterns g' = [])"
proof -
  let ?m = "rawPattern g" and ?g = "g\<lparr>patterns := []\<rparr>"
  let ?G = "map (\<lambda>k. (k, references (the (map_of (rawPattern g) k)))) order1"
  have ord: "set order1 = set (map fst ?m)" "set order2 = set (map fst ?m)" "distinct order1"
    using mset_eq_setD [OF assms(2)] mset_eq_setD [OF assms(3)] mset_eq_imp_distinct_iff [OF assms(2)] assms(1)
    by (simp_all add: well_formed_def)
  have G: "pattern_deps [] ?m order1 = Inr ?G" using pattern_deps_ok [OF assms(1), of order1] ord by simp
  have fstG: "map fst ?G = order1" by (simp add: comp_def)
  have depsG: "deps ?G k = (if k \<in> set order1 then references (the (map_of ?m k)) else [])" for k
    by (auto simp: deps_def map_of_map_restrict restrict_map_def)
  have refs: "set (references (the (map_of ?m k))) \<subseteq> set (map fst ?m)" if "k \<in> set order1" for k
  proof -
    obtain pat where "map_of ?m k = Some pat" using \<open>k \<in> set order1\<close> ord(1) map_of_Some_fst by metis
    then show ?thesis using assms(1) map_of_SomeD by (fastforce simp: well_formed_def)
  qed
  have E: "edges ?G = depends ?m"
    using ord(1) map_of_Some_fst [of _ ?m] by (auto simp: edges_def depends_def depsG simp del: set_map)
  have closed: "closed_graph ?G" using ord refs fstG unfolding closed_graph_def by auto
  have "set order2 = set (map fst ?G)" using ord fstG by simp
  from sortGraph_cases [OF closed this] show ?thesis
  proof (elim disjE conjE exE)
    fix l assume ac: "acyclic (edges ?G)" and l: "sortGraph order2 ?G = Some (l, [])" "distinct l" "set l = set (map fst ?G)" "topological ?G l"
    have "set (references (the (map_of ?m k))) \<subseteq> set xs" if "rev l = xs @ k # ys" for xs k ys
    proof -
      have "l = rev ys @ k # rev xs" using that by (metis append.assoc append_Cons append_Nil rev_append rev_rev_ident rev.simps(2))
      then show ?thesis using topological_split [of ?G "rev ys" k "rev xs"] l(3,4) fstG by (auto simp: depsG split: if_splits)
    qed
    then obtain g' where "add_loop Q ?m (rev l) ?g = (Inr (), g')" "set (map fst (patterns g')) = set l"
      using add_loop_ok [OF assms(1), of "rev l" ?g Q] l(3) fstG ord(1) by auto
    then show ?thesis using G l(1,3) ac E fstG ord(1)
      by (simp add: buildPatterns_def addPatternsFromMap_def reverseList_rev)
  next
    fix c assume "\<not> acyclic (edges ?G)" "sortGraph order2 ?G = Some ([], c)"
    then show ?thesis using G E by (simp add: buildPatterns_def addPatternsFromMap_def reverseList_rev)
  qed
qed

theorem patterns_built_witness:
  "\<exists>g'. buildPatterns id [''A'', ''B''] [''A'', ''B'']
      \<lparr>rawPattern = [(''A'', ''%{B:x}''), (''B'', ''%{A}'')], config = \<lparr>NamedCapturesOnly = False, SkipDefaultPatterns = True,
         RemoveEmptyValues = False, Patterns = []\<rparr>, aliases = [], compiledPatterns = ([] :: (string \<times> unit gRegexp) list), patterns = []\<rparr> =
      Some (Inr (), g') \<and> patterns g' = []"
proof -
  let ?g = "\<lparr>rawPattern = [(''A'', ''%{B:x}''), (''B'', ''%{A}'')], config = \<lparr>NamedCapturesOnly = False, SkipDefaultPatterns = True,
    RemoveEmptyValues = False, Patterns = []\<rparr>, aliases = [], compiledPatterns = ([] :: (string \<times> unit gRegexp) list), patterns = []\<rparr>"
  have wf: "well_formed (rawPattern ?g)" by code_simp
  have "references ''%{B:x}'' = [''B'']" "references ''%{A}'' = [''A'']" by code_simp+
  then have "(''A'', ''B'') \<in> depends (rawPattern ?g)" "(''B'', ''A'') \<in> depends (rawPattern ?g)" by (simp_all add: depends_def)
  then have "(''A'', ''A'') \<in> (depends (rawPattern ?g))\<^sup>+" by (rule trancl_into_trancl [OF r_into_trancl])
  then have "\<not> acyclic (depends (rawPattern ?g))" by (auto simp: acyclic_def)
  then show ?thesis using patterns_built [OF wf, of "[''A'', ''B'']" "[''A'', ''B'']" id] by simp
qed

text \<open>
  C33. Sorting a graph whose edges lead to its own nodes returns for every order of the range, with no
  index out of range: without a cycle it answers every node once, each before its dependencies;
  with a cycle it answers no node.
\<close>

theorem graph_sorted:
  assumes "closed_graph g" and "set order = set (map fst g)"
  shows "if acyclic (edges g)
    then \<exists>l. sortGraph order g = Some (l, []) \<and> distinct l \<and> set l = set (map fst g) \<and> topological g l
    else \<exists>c. sortGraph order g = Some ([], c)"
  using sortGraph_cases [OF assms] by auto

theorem graph_sorted_witness:
  "\<exists>l. sortGraph [''a'', ''b''] [(''a'', [''b'']), (''b'', [])] = Some (l, []) \<and> distinct l \<and> set l = {''a'', ''b''} \<and>
    topological [(''a'', [''b'']), (''b'', [])] l"
proof -
  let ?g = "[(''a'', [''b'']), (''b'', [])]"
  have "closed_graph ?g" by code_simp
  moreover have "acyclic (edges ?g)" by (rule topological_acyclic [of _ "[''a'', ''b'']"]) (simp_all add: deps_def)
  ultimately show ?thesis using graph_sorted [of ?g "[''a'', ''b'']"] by simp
qed

end
