(* ===== verification/SchemaCatalog.thy ===== *)
theory SchemaCatalog
  imports MigrationManager IndexExpr
begin

text \<open>
  The vocabulary of the shipped migrations
  (\<open>cmd/o11yschemamigrator/schema_migrator/*_migrations.go\<close>) and what it means that they fit
  together.

  A composite literal of the source leaves out the fields with the zero value; the abbreviations
  below give the literals that occur. The primitive types are the variables of \<open>column.go\<close>, the
  names of tables and columns the constants of \<open>constants/constants.go\<close>.
\<close>

section \<open>Primitive types (column.go) and names (constants/constants.go)\<close>

definition ColumnTypeString :: ColumnType where
  "ColumnTypeString = PrimitiveColumnType ''String'' ColumnTypeEnumString"

definition ColumnTypeInt8 :: ColumnType where
  "ColumnTypeInt8 = PrimitiveColumnType ''Int8'' ColumnTypeEnumInt8"

definition ColumnTypeInt16 :: ColumnType where
  "ColumnTypeInt16 = PrimitiveColumnType ''Int16'' ColumnTypeEnumInt16"

definition ColumnTypeInt64 :: ColumnType where
  "ColumnTypeInt64 = PrimitiveColumnType ''Int64'' ColumnTypeEnumInt64"

definition ColumnTypeUInt8 :: ColumnType where
  "ColumnTypeUInt8 = PrimitiveColumnType ''UInt8'' ColumnTypeEnumUInt8"

definition ColumnTypeUInt16 :: ColumnType where
  "ColumnTypeUInt16 = PrimitiveColumnType ''UInt16'' ColumnTypeEnumUInt16"

definition ColumnTypeUInt32 :: ColumnType where
  "ColumnTypeUInt32 = PrimitiveColumnType ''UInt32'' ColumnTypeEnumUInt32"

definition ColumnTypeUInt64 :: ColumnType where
  "ColumnTypeUInt64 = PrimitiveColumnType ''UInt64'' ColumnTypeEnumUInt64"

definition ColumnTypeFloat64 :: ColumnType where
  "ColumnTypeFloat64 = PrimitiveColumnType ''Float64'' ColumnTypeEnumFloat64"

definition ColumnTypeBool :: ColumnType where
  "ColumnTypeBool = PrimitiveColumnType ''Bool'' ColumnTypeEnumBool"

definition BodyV2Column :: string where
  "BodyV2Column = ''body_v2''"

definition BodyPromotedColumn :: string where
  "BodyPromotedColumn = ''body_promoted''"

definition LocalPathTypesTable :: string where
  "LocalPathTypesTable = ''json_path_types''"

definition DistributedPathTypesTable :: string where
  "DistributedPathTypesTable = ''distributed_json_path_types''"

definition PathTypesTablePathColumn :: string where
  "PathTypesTablePathColumn = ''path''"

definition PathTypesTableTypeColumn :: string where
  "PathTypesTableTypeColumn = ''type''"

definition FieldKeysTableNameColumn :: string where
  "FieldKeysTableNameColumn = ''field_name''"

definition FieldKeysTableDataTypeColumn :: string where
  "FieldKeysTableDataTypeColumn = ''field_data_type''"

definition FieldKeysTableLastSeenColumn :: string where
  "FieldKeysTableLastSeenColumn = ''last_seen''"

lemmas primitive_defs = ColumnTypeString_def ColumnTypeInt8_def ColumnTypeInt16_def ColumnTypeInt64_def ColumnTypeUInt8_def ColumnTypeUInt16_def ColumnTypeUInt32_def ColumnTypeUInt64_def ColumnTypeFloat64_def ColumnTypeBool_def

section \<open>Literals\<close>

abbreviation column :: "string \<Rightarrow> ColumnType \<Rightarrow> string \<Rightarrow> Column" where
  "column n t codec \<equiv> Column n (Some t) codec [] [] [] [] None []"

abbreviation column_default :: "string \<Rightarrow> ColumnType \<Rightarrow> string \<Rightarrow> string \<Rightarrow> Column" where
  "column_default n t codec dflt \<equiv> Column n (Some t) codec [] dflt [] [] None []"

abbreviation column_alias :: "string \<Rightarrow> ColumnType \<Rightarrow> string \<Rightarrow> Column" where
  "column_alias n t a \<equiv> Column n (Some t) [] a [] [] [] None []"

abbreviation named :: "string \<Rightarrow> Column" where
  "named n \<equiv> Column n None [] [] [] [] [] None []"

abbreviation index :: "string \<Rightarrow> string \<Rightarrow> string \<Rightarrow> int \<Rightarrow> Index" where
  "index n e t g \<equiv> \<lparr>indexName = n, Expression = e, indexType = t, Granularity = g\<rparr>"

abbreviation setting :: "string \<Rightarrow> string \<Rightarrow> TableSetting" where
  "setting n v \<equiv> \<lparr>tsName = n, tsValue = v\<rparr>"

abbreviation merge_tree :: "string \<Rightarrow> string \<Rightarrow> string \<Rightarrow> string \<Rightarrow> string \<Rightarrow> TableSettings \<Rightarrow> MergeTree" where
  "merge_tree order_by pk partition_by sample ttl st \<equiv> \<lparr>Replicated = False, OrderBy = order_by, PrimaryKey = pk,
     PartitionBy = partition_by, SampleBy = sample, engineTTL = ttl, engineSettings = st\<rparr>"

abbreviation distributed :: "string \<Rightarrow> string \<Rightarrow> string \<Rightarrow> TableEngine" where
  "distributed db t key \<equiv> DistributedEngine \<lparr>distCluster = [], distDatabase = db, distTable = t, ShardingKey = key\<rparr>"

abbreviation create_table :: "string \<Rightarrow> string \<Rightarrow> Column list \<Rightarrow> Index list \<Rightarrow> Projection list \<Rightarrow> TableEngine \<Rightarrow> Operation" where
  "create_table db t cs is ps e \<equiv> OpCreateTable \<lparr>cluster = [], Database = db, Table = t, Columns = cs, Indexes = is,
     Projections = ps, Engine = e\<rparr>"

abbreviation drop_table :: "string \<Rightarrow> string \<Rightarrow> TableSettings \<Rightarrow> Operation" where
  "drop_table db t st \<equiv> OpDropTable \<lparr>cluster = [], Database = db, Table = t, OpTableSettings = st\<rparr>"

abbreviation create_view :: "string \<Rightarrow> string \<Rightarrow> string \<Rightarrow> Column list \<Rightarrow> string \<Rightarrow> Operation" where
  "create_view db v dest cs q \<equiv> OpCreateMaterializedView \<lparr>cluster = [], Database = db, ViewName = v, DestTable = dest,
     ViewColumns = cs, ViewQuery = q\<rparr>"

abbreviation modify_query :: "string \<Rightarrow> string \<Rightarrow> string \<Rightarrow> Operation" where
  "modify_query db v q \<equiv> OpModifyQueryMaterializedView \<lparr>cluster = [], Database = db, ViewName = v, NewQuery = q\<rparr>"

abbreviation add_column :: "string \<Rightarrow> string \<Rightarrow> Column \<Rightarrow> Column option \<Rightarrow> Operation" where
  "add_column db t c a \<equiv> OpAddColumn \<lparr>cluster = [], Database = db, Table = t, OpColumn = c, After = a\<rparr>"

abbreviation drop_column :: "string \<Rightarrow> string \<Rightarrow> Column \<Rightarrow> Operation" where
  "drop_column db t c \<equiv> OpDropColumn \<lparr>cluster = [], Database = db, Table = t, OpColumn = c\<rparr>"

abbreviation modify_column :: "string \<Rightarrow> string \<Rightarrow> Column \<Rightarrow> Operation" where
  "modify_column db t c \<equiv> OpModifyColumn \<lparr>cluster = [], Database = db, Table = t, OpColumn = c\<rparr>"

abbreviation materialize_column :: "string \<Rightarrow> string \<Rightarrow> Column \<Rightarrow> string \<Rightarrow> string \<Rightarrow> Operation" where
  "materialize_column db t c p i \<equiv> OpMaterializeColumn \<lparr>cluster = [], Database = db, Table = t, OpColumn = c,
     ColumnPartition = p, PartitionID = i\<rparr>"

abbreviation add_index :: "string \<Rightarrow> string \<Rightarrow> Index \<Rightarrow> Operation" where
  "add_index db t i \<equiv> OpAddIndex \<lparr>cluster = [], Database = db, Table = t, OpIndex = i\<rparr>"

abbreviation drop_index :: "string \<Rightarrow> string \<Rightarrow> Index \<Rightarrow> Operation" where
  "drop_index db t i \<equiv> OpDropIndex \<lparr>cluster = [], Database = db, Table = t, OpIndex = i\<rparr>"

abbreviation modify_ttl :: "string \<Rightarrow> string \<Rightarrow> string \<Rightarrow> bool \<Rightarrow> Operation" where
  "modify_ttl db t ttl m \<equiv> OpModifyTTL \<lparr>cluster = [], Database = db, Table = t, OpTTL = ttl,
     MaterializeTTLAfterModify = m\<rparr>"

abbreviation drop_ttl :: "string \<Rightarrow> string \<Rightarrow> Operation" where
  "drop_ttl db t \<equiv> OpDropTTL \<lparr>cluster = [], Database = db, Table = t\<rparr>"

abbreviation modify_settings :: "string \<Rightarrow> string \<Rightarrow> TableSettings \<Rightarrow> Operation" where
  "modify_settings db t st \<equiv> OpModifySettings \<lparr>cluster = [], Database = db, Table = t, OpTableSettings = st\<rparr>"

abbreviation insert_into :: "string \<Rightarrow> string \<Rightarrow> string list \<Rightarrow> bool \<Rightarrow> bool \<Rightarrow> string \<Rightarrow> Operation" where
  "insert_into db t cs l s v \<equiv> OpInsertIntoTable \<lparr>cluster = [], Database = db, Table = t, InsertColumns = cs,
     LightWeight = l, Synchronous = s, InsertValues = v\<rparr>"

abbreviation migration :: "nat \<Rightarrow> Operation list \<Rightarrow> Operation list \<Rightarrow> SchemaMigrationRecord" where
  "migration n up down \<equiv> \<lparr>MigrationID = n, UpItems = up, DownItems = down\<rparr>"

section \<open>Resolving names\<close>

text \<open>
  The tables and views of a database: the names of the columns, and for a distributed table the table
  it reads from, for a view the table it writes to.

  \<open>resolve\<close> is the effect of an operation on the tables of its database. It fails if the operation
  names a table, view or column that is not there, if a distributed table or a view would get a
  column that its target lacks, and if a table or column is dropped that a distributed table or a
  view still uses. As the statements say \<open>IF NOT EXISTS\<close> and \<open>IF EXISTS\<close>, creating what exists and
  dropping what does not changes nothing.
\<close>

record entry =
  entryColumns :: "string list"
  entryTarget :: "string option"

type_synonym tables = "(string \<times> entry) list"

text \<open>
  The functions below match on the outcome of a test instead of branching on it, so that the rewriting
  that evaluates them on the shipped migrations does not visit their arguments again.
\<close>

fun same :: "string \<Rightarrow> string \<Rightarrow> bool" and same_if :: "bool \<Rightarrow> string \<Rightarrow> string \<Rightarrow> bool" where
  "same [] [] = True"
| "same [] (y # ys) = False"
| "same (x # xs) [] = False"
| "same (x # xs) (y # ys) = same_if (x = y) xs ys"
| "same_if False xs ys = False"
| "same_if True xs ys = same xs ys"

fun elem :: "string list \<Rightarrow> string \<Rightarrow> bool" and elem_if :: "bool \<Rightarrow> string list \<Rightarrow> string \<Rightarrow> bool" where
  "elem [] x = False"
| "elem (y # ys) x = elem_if (same x y) ys x"
| "elem_if True ys x = True"
| "elem_if False ys x = elem ys x"

fun uniq :: "string list \<Rightarrow> bool" and uniq_if :: "bool \<Rightarrow> string list \<Rightarrow> bool" where
  "uniq [] = True"
| "uniq (x # xs) = uniq_if (elem xs x) xs"
| "uniq_if True xs = False"
| "uniq_if False xs = uniq xs"

fun subset_of :: "string list \<Rightarrow> string list \<Rightarrow> bool" and subset_if :: "bool \<Rightarrow> string list \<Rightarrow> string list \<Rightarrow> bool" where
  "subset_of [] ys = True"
| "subset_of (x # xs) ys = subset_if (elem ys x) xs ys"
| "subset_if False xs ys = False"
| "subset_if True xs ys = subset_of xs ys"

fun find_entry :: "tables \<Rightarrow> string \<Rightarrow> entry option"
  and find_if :: "bool \<Rightarrow> entry \<Rightarrow> tables \<Rightarrow> string \<Rightarrow> entry option" where
  "find_entry [] t = None"
| "find_entry ((t', e) # ts) t = find_if (same t' t) e ts t"
| "find_if True e ts t = Some e"
| "find_if False e ts t = find_entry ts t"

fun put_entry :: "string \<Rightarrow> entry \<Rightarrow> tables \<Rightarrow> tables"
  and put_if :: "bool \<Rightarrow> string \<Rightarrow> entry \<Rightarrow> string \<Rightarrow> entry \<Rightarrow> tables \<Rightarrow> tables" where
  "put_entry t e [] = [(t, e)]"
| "put_entry t e ((t', e') # ts) = put_if (same t' t) t e t' e' ts"
| "put_if True t e t' e' ts = (t, e) # ts"
| "put_if False t e t' e' ts = (t', e') # put_entry t e ts"

fun remove_entry :: "string \<Rightarrow> tables \<Rightarrow> tables"
  and remove_if :: "bool \<Rightarrow> string \<Rightarrow> string \<Rightarrow> entry \<Rightarrow> tables \<Rightarrow> tables" where
  "remove_entry t [] = []"
| "remove_entry t ((t', e') # ts) = remove_if (same t' t) t t' e' ts"
| "remove_if True t t' e' ts = remove_entry t ts"
| "remove_if False t t' e' ts = (t', e') # remove_entry t ts"

fun targets :: "entry \<Rightarrow> string \<Rightarrow> bool" where
  "targets \<lparr>entryColumns = cs, entryTarget = None\<rparr> t = False"
| "targets \<lparr>entryColumns = cs, entryTarget = Some t'\<rparr> t = same t' t"

text \<open>The columns of the tables and views that use a table.\<close>

fun users :: "tables \<Rightarrow> string \<Rightarrow> string list list"
  and users_if :: "bool \<Rightarrow> entry \<Rightarrow> tables \<Rightarrow> string \<Rightarrow> string list list" where
  "users [] t = []"
| "users ((t', e) # ts) t = users_if (targets e t) e ts t"
| "users_if True e ts t = entryColumns e # users ts t"
| "users_if False e ts t = users ts t"

fun covers :: "entry option \<Rightarrow> string list \<Rightarrow> bool" where
  "covers None cs = False"
| "covers (Some e) cs = subset_of cs (entryColumns e)"

fun has_columns :: "tables \<Rightarrow> string option \<Rightarrow> string list \<Rightarrow> bool" where
  "has_columns ts None cs = True"
| "has_columns ts (Some t) cs = covers (find_entry ts t) cs"

fun guard :: "bool \<Rightarrow> 'a option \<Rightarrow> 'a option" where
  "guard True x = x"
| "guard False x = None"

fun insert_new :: "entry option \<Rightarrow> string \<Rightarrow> string list \<Rightarrow> string option \<Rightarrow> tables \<Rightarrow> tables" where
  "insert_new None t cs tgt ts = (t, \<lparr>entryColumns = cs, entryTarget = tgt\<rparr>) # ts"
| "insert_new (Some e) t cs tgt ts = ts"

definition create :: "string \<Rightarrow> string list \<Rightarrow> string option \<Rightarrow> tables \<Rightarrow> tables option" where
  "create t cs tgt ts = guard (has_columns ts tgt cs) (Some (insert_new (find_entry ts t) t cs tgt ts))"

fun create_with :: "TableEngine \<Rightarrow> string \<Rightarrow> string \<Rightarrow> string list \<Rightarrow> tables \<Rightarrow> tables option" where
  "create_with (DistributedEngine d) db t cs ts =
     guard (same (distDatabase d) db) (create t cs (Some (distTable d)) ts)"
| "create_with e db t cs ts = guard (uniq cs) (create t cs None ts)"

definition with_columns :: "string \<Rightarrow> string list \<Rightarrow> tables \<Rightarrow> tables option" where
  "with_columns t cs ts = guard (has_columns ts (Some t) cs) (Some ts)"

fun add_if :: "bool \<Rightarrow> string \<Rightarrow> string \<Rightarrow> entry \<Rightarrow> tables \<Rightarrow> tables" where
  "add_if True t c e ts = ts"
| "add_if False t c e ts = put_entry t (e\<lparr>entryColumns := c # entryColumns e\<rparr>) ts"

fun add_to :: "entry option \<Rightarrow> string \<Rightarrow> string \<Rightarrow> tables \<Rightarrow> tables option" where
  "add_to None t c ts = None"
| "add_to (Some e) t c ts =
     guard (has_columns ts (entryTarget e) [c]) (Some (add_if (elem (entryColumns e) c) t c e ts))"

fun none_has :: "string list list \<Rightarrow> string \<Rightarrow> bool" where
  "none_has [] c = True"
| "none_has (cs # css) c = (\<not> elem cs c \<and> none_has css c)"

fun remove_from :: "entry option \<Rightarrow> string \<Rightarrow> string \<Rightarrow> tables \<Rightarrow> tables option" where
  "remove_from None t c ts = None"
| "remove_from (Some e) t c ts = guard (none_has (users ts t) c)
     (Some (put_entry t (e\<lparr>entryColumns := removeAll c (entryColumns e)\<rparr>) ts))"

fun drop_from :: "entry option \<Rightarrow> string \<Rightarrow> tables \<Rightarrow> tables option" where
  "drop_from None t ts = Some ts"
| "drop_from (Some e) t ts = guard (users ts t = []) (Some (remove_entry t ts))"

fun is_view :: "entry option \<Rightarrow> bool" where
  "is_view None = False"
| "is_view (Some e) = (entryTarget e \<noteq> None)"

fun after_columns :: "Column option \<Rightarrow> string list" where
  "after_columns None = []"
| "after_columns (Some c) = [columnName c]"

fun op_database :: "Operation \<Rightarrow> string" where
  "op_database (OpCreateTable a) = Database a"
| "op_database (OpCreateMaterializedView a) = Database a"
| "op_database (OpDropTable a) = Database a"
| "op_database (OpModifyQueryMaterializedView a) = Database a"
| "op_database (OpAddColumn a) = Database a"
| "op_database (OpDropColumn a) = Database a"
| "op_database (OpModifyColumn a) = Database a"
| "op_database (OpModifyColumnRemove a) = Database a"
| "op_database (OpModifyColumnModifySettings a) = Database a"
| "op_database (OpModifyColumnResetSettings a) = Database a"
| "op_database (OpMaterializeColumn a) = Database a"
| "op_database (OpInsertIntoTable a) = Database a"
| "op_database (OpAddIndex a) = Database a"
| "op_database (OpDropIndex a) = Database a"
| "op_database (OpMaterializeIndex a) = Database a"
| "op_database (OpClearIndex a) = Database a"
| "op_database (OpTruncateTable a) = Database a"
| "op_database (OpModifyTTL a) = Database a"
| "op_database (OpDropTTL a) = Database a"
| "op_database (OpModifySettings a) = Database a"
| "op_database (OpCreateProjection a) = Database a"
| "op_database (OpDropProjection a) = Database a"

fun resolve :: "Operation \<Rightarrow> tables \<Rightarrow> tables option" where
  "resolve (OpCreateTable a) ts = create_with (Engine a) (Database a) (Table a) (map columnName (Columns a)) ts"
| "resolve (OpCreateMaterializedView a) ts =
     create (ViewName a) (map columnName (ViewColumns a)) (Some (DestTable a)) ts"
| "resolve (OpDropTable a) ts = drop_from (find_entry ts (Table a)) (Table a) ts"
| "resolve (OpModifyQueryMaterializedView a) ts = guard (is_view (find_entry ts (ViewName a))) (Some ts)"
| "resolve (OpAddColumn a) ts = guard (has_columns ts (Some (Table a)) (after_columns (After a)))
     (add_to (find_entry ts (Table a)) (Table a) (columnName (OpColumn a)) ts)"
| "resolve (OpDropColumn a) ts = remove_from (find_entry ts (Table a)) (Table a) (columnName (OpColumn a)) ts"
| "resolve (OpModifyColumn a) ts = with_columns (Table a) [columnName (OpColumn a)] ts"
| "resolve (OpModifyColumnRemove a) ts = with_columns (Table a) [columnName (OpColumn a)] ts"
| "resolve (OpModifyColumnModifySettings a) ts = with_columns (Table a) [columnName (OpColumn a)] ts"
| "resolve (OpModifyColumnResetSettings a) ts = with_columns (Table a) [columnName (OpColumn a)] ts"
| "resolve (OpMaterializeColumn a) ts = with_columns (Table a) [columnName (OpColumn a)] ts"
| "resolve (OpInsertIntoTable a) ts = with_columns (Table a) (InsertColumns a) ts"
| "resolve (OpAddIndex a) ts = with_columns (Table a) [] ts"
| "resolve (OpDropIndex a) ts = with_columns (Table a) [] ts"
| "resolve (OpMaterializeIndex a) ts = with_columns (Table a) [] ts"
| "resolve (OpClearIndex a) ts = with_columns (Table a) [] ts"
| "resolve (OpTruncateTable a) ts = with_columns (Table a) [] ts"
| "resolve (OpModifyTTL a) ts = with_columns (Table a) [] ts"
| "resolve (OpDropTTL a) ts = with_columns (Table a) [] ts"
| "resolve (OpModifySettings a) ts = with_columns (Table a) [] ts"
| "resolve (OpCreateProjection a) ts = with_columns (Table a) [] ts"
| "resolve (OpDropProjection a) ts = with_columns (Table a) [] ts"

fun resolve_tables :: "Operation list \<Rightarrow> tables option \<Rightarrow> tables option" where
  "resolve_tables xs None = None"
| "resolve_tables [] (Some ts) = Some ts"
| "resolve_tables (x # xs) (Some ts) = resolve_tables xs (resolve x ts)"

type_synonym schema = "string \<Rightarrow> tables"

fun resolve_all :: "Operation list \<Rightarrow> schema \<Rightarrow> schema option" where
  "resolve_all [] s = Some s"
| "resolve_all (x # xs) s =
     (case resolve x (s (op_database x)) of
        None \<Rightarrow> None
      | Some ts \<Rightarrow> resolve_all xs (s(op_database x := ts)))"

section \<open>Distributed tables and views never lack a column\<close>

lemma same_eq [simp]: "same xs ys \<longleftrightarrow> xs = ys" "same_if b xs ys \<longleftrightarrow> b \<and> xs = ys"
  by (induction xs ys and b xs ys rule: same_same_if.induct) auto

lemma elem_member [simp]: "elem ys x \<longleftrightarrow> x \<in> set ys" "elem_if b ys x \<longleftrightarrow> b \<or> x \<in> set ys"
  by (induction ys x and b ys x rule: elem_elem_if.induct) auto

lemma uniq_distinct [simp]: "uniq xs \<longleftrightarrow> distinct xs" "uniq_if b xs \<longleftrightarrow> \<not> b \<and> distinct xs"
  by (induction xs and b xs rule: uniq_uniq_if.induct) auto

lemma subset_of_set [simp]: "subset_of xs ys \<longleftrightarrow> set xs \<subseteq> set ys" "subset_if b xs ys \<longleftrightarrow> b \<and> set xs \<subseteq> set ys"
  by (induction xs ys and b xs ys rule: subset_of_subset_if.induct) auto

lemma find_entry_map_of [simp]: "find_entry ts t = map_of ts t" "find_if b e ts t = (if b then Some e else map_of ts t)"
  by (induction ts t and b e ts t rule: find_entry_find_if.induct) auto

lemma put_entry_update [simp]:
  "put_entry t e ts = AList.update t e ts"
  "put_if b t e t' e' ts = (if b then (t, e) # ts else (t', e') # AList.update t e ts)"
  by (induction t e ts and b t e t' e' ts rule: put_entry_put_if.induct) auto

lemma remove_entry_delete [simp]:
  "remove_entry t ts = AList.delete t ts"
  "remove_if b t t' e' ts = (if b then AList.delete t ts else (t', e') # AList.delete t ts)"
  by (induction t ts and b t t' e' ts rule: remove_entry_remove_if.induct) (auto simp: AList.delete_eq)

lemma targets_target [simp]: "targets e t \<longleftrightarrow> entryTarget e = Some t"
  by (cases e; cases "entryTarget e") auto

lemma guard_Some [simp]: "guard b x = Some y \<longleftrightarrow> b \<and> x = Some y"
  by (cases b) auto

lemma users_eq [simp]:
  "users ts t = map (\<lambda>(_, e). entryColumns e) (filter (\<lambda>(_, e). entryTarget e = Some t) ts)"
  "users_if b e ts t = (if b then [entryColumns e] else []) @
     map (\<lambda>(_, e). entryColumns e) (filter (\<lambda>(_, e). entryTarget e = Some t) ts)"
  by (induction ts t and b e ts t rule: users_users_if.induct) auto

lemma none_has_set [simp]: "none_has css c \<longleftrightarrow> (\<forall>cs \<in> set css. c \<notin> set cs)"
  by (induction css) auto

lemma covers_columns [simp]: "covers x cs \<longleftrightarrow> (\<exists>e. x = Some e \<and> set cs \<subseteq> set (entryColumns e))"
  by (cases x) auto

text \<open>Every target is there and has the columns of what uses it.\<close>

definition mirrored :: "tables \<Rightarrow> bool" where
  "mirrored ts \<longleftrightarrow> (\<forall>t e u. map_of ts t = Some e \<longrightarrow> entryTarget e = Some u \<longrightarrow>
     (\<exists>e'. map_of ts u = Some e' \<and> set (entryColumns e) \<subseteq> set (entryColumns e')))"

lemma mirroredD:
  "mirrored ts \<Longrightarrow> map_of ts t = Some e \<Longrightarrow> entryTarget e = Some u \<Longrightarrow>
     \<exists>e'. map_of ts u = Some e' \<and> set (entryColumns e) \<subseteq> set (entryColumns e')"
  by (auto simp: mirrored_def)

lemma create_mirrored:
  assumes "mirrored ts" and "create t cs tgt ts = Some ts'"
  shows "mirrored ts'"
proof (cases "map_of ts t")
  case None
  then have ts': "ts' = (t, \<lparr>entryColumns = cs, entryTarget = tgt\<rparr>) # ts" "has_columns ts tgt cs"
    using assms(2) by (auto simp: create_def)
  show ?thesis unfolding mirrored_def
  proof (intro allI impI)
    fix t' f u assume f: "map_of ts' t' = Some f" "entryTarget f = Some u"
    then have "\<exists>e'. map_of ts u = Some e' \<and> set (entryColumns f) \<subseteq> set (entryColumns e')"
      using ts' mirroredD [OF assms(1)] by (auto split: if_splits)
    then show "\<exists>e'. map_of ts' u = Some e' \<and> set (entryColumns f) \<subseteq> set (entryColumns e')"
      using ts'(1) None by auto
  qed
qed (use assms in \<open>auto simp: create_def\<close>)

lemma add_to_mirrored:
  assumes "mirrored ts" and "add_to (map_of ts t) t c ts = Some ts'"
  shows "mirrored ts'"
proof (cases "map_of ts t")
  case (Some e)
  show ?thesis
  proof (cases "c \<in> set (entryColumns e)")
    case False
    then have ts': "ts' = AList.update t (e\<lparr>entryColumns := c # entryColumns e\<rparr>) ts" "has_columns ts (entryTarget e) [c]"
      using assms(2) Some by auto
    show ?thesis unfolding mirrored_def
    proof (intro allI impI)
      fix t' f u assume f: "map_of ts' t' = Some f" "entryTarget f = Some u"
      show "\<exists>e'. map_of ts' u = Some e' \<and> set (entryColumns f) \<subseteq> set (entryColumns e')"
      proof (cases "t' = t")
        case True
        then have "f = e\<lparr>entryColumns := c # entryColumns e\<rparr>" "entryTarget e = Some u"
          using f ts'(1) by (auto simp: update_conv')
        then show ?thesis using mirroredD [OF assms(1) Some, of u] ts' by (auto simp: update_conv' Some)
      next
        case False
        then have "map_of ts t' = Some f" using f(1) ts'(1) by (simp add: update_conv')
        from mirroredD [OF assms(1) this f(2)] ts'(1) Some show ?thesis by (auto simp: update_conv')
      qed
    qed
  qed (use assms Some in auto)
qed (use assms in auto)

lemma remove_from_mirrored:
  assumes "mirrored ts" and "remove_from (map_of ts t) t c ts = Some ts'"
  shows "mirrored ts'"
proof (cases "map_of ts t")
  case (Some e)
  then have ts': "ts' = AList.update t (e\<lparr>entryColumns := removeAll c (entryColumns e)\<rparr>) ts"
    "\<forall>(t', f) \<in> set ts. entryTarget f = Some t \<longrightarrow> c \<notin> set (entryColumns f)"
    using assms(2) by auto
  show ?thesis unfolding mirrored_def
  proof (intro allI impI)
    fix t' f u assume f: "map_of ts' t' = Some f" "entryTarget f = Some u"
    obtain f0 where f0: "map_of ts t' = Some f0" "entryTarget f0 = Some u" "set (entryColumns f) \<subseteq> set (entryColumns f0)"
      using f ts'(1) Some by (cases "t' = t") (auto simp: update_conv')
    obtain g where g: "map_of ts u = Some g" "set (entryColumns f0) \<subseteq> set (entryColumns g)"
      using mirroredD [OF assms(1) f0(1,2)] by blast
    show "\<exists>e'. map_of ts' u = Some e' \<and> set (entryColumns f) \<subseteq> set (entryColumns e')"
    proof (cases "u = t")
      case True
      then have "c \<notin> set (entryColumns f0)" using ts'(2) f0 by (auto dest: map_of_SomeD)
      then show ?thesis using True g f0(3) ts'(1) Some by (auto simp: update_conv')
    next
      case False
      then show ?thesis using g f0(3) ts'(1) by (auto simp: update_conv')
    qed
  qed
qed (use assms in auto)

lemma drop_from_mirrored:
  assumes "mirrored ts" and "drop_from (map_of ts t) t ts = Some ts'"
  shows "mirrored ts'"
proof (cases "map_of ts t")
  case (Some e)
  then have ts': "ts' = AList.delete t ts" "\<forall>(t', f) \<in> set ts. entryTarget f \<noteq> Some t"
    using assms(2) by (auto simp: filter_empty_conv)
  show ?thesis unfolding mirrored_def
  proof (intro allI impI)
    fix t' f u assume f: "map_of ts' t' = Some f" "entryTarget f = Some u"
    have "map_of ts t' = Some f" using f(1) ts'(1) by (auto simp: delete_conv' split: if_splits)
    moreover from this have "u \<noteq> t" using ts'(2) f(2) by (auto dest: map_of_SomeD)
    ultimately show "\<exists>e'. map_of ts' u = Some e' \<and> set (entryColumns f) \<subseteq> set (entryColumns e')"
      using mirroredD [OF assms(1) _ f(2)] ts'(1) by (auto simp: delete_conv')
  qed
qed (use assms in auto)

lemma resolve_mirrored: "mirrored ts \<Longrightarrow> resolve x ts = Some ts' \<Longrightarrow> mirrored ts'"
proof (cases x)
  case (OpCreateTable a)
  then show "mirrored ts \<Longrightarrow> resolve x ts = Some ts' \<Longrightarrow> mirrored ts'"
    by (cases "Engine a") (auto intro: create_mirrored)
qed (auto simp: with_columns_def intro: create_mirrored add_to_mirrored remove_from_mirrored drop_from_mirrored)

lemma resolve_all_mirrored:
  "resolve_all xs s = Some s' \<Longrightarrow> (\<And>db. mirrored (s db)) \<Longrightarrow> mirrored (s' db)"
proof (induction xs arbitrary: s)
  case (Cons x xs)
  then obtain ts where ts: "resolve x (s (op_database x)) = Some ts" "resolve_all xs (s(op_database x := ts)) = Some s'"
    by (auto split: option.splits)
  show ?case by (rule Cons.IH [OF ts(2)]) (use Cons.prems(2) resolve_mirrored [OF _ ts(1)] in auto)
qed simp

lemma resolve_all_databases:
  "resolve_all xs s \<noteq> None \<longleftrightarrow> (\<forall>db. resolve_tables (filter (\<lambda>x. op_database x = db) xs) (Some (s db)) \<noteq> None)"
proof (induction xs arbitrary: s)
  case (Cons x xs)
  show ?case
  proof (cases "resolve x (s (op_database x))")
    case None
    then show ?thesis by (auto intro!: exI [of _ "op_database x"])
  next
    case (Some ts)
    then have "resolve_tables (filter (\<lambda>x. op_database x = db) (x # xs)) (Some (s db)) =
        resolve_tables (filter (\<lambda>x. op_database x = db) xs) (Some ((s(op_database x := ts)) db))" for db by auto
    with Some show ?thesis using Cons [of "s(op_database x := ts)"] by (simp del: fun_upd_apply filter.simps)
  qed
qed simp

end
