(* ===== verification/UpgradeRuns.thy ===== *)
theory UpgradeRuns
  imports MigrationManager "HOL-Library.Multiset"
begin

text \<open>
  What the two up runs of the manager send together
  (\<open>cmd/o11yschemamigrator/schema_migrator/manager.go\<close>): on a database on which no migration of the
  catalog is recorded, a synchronous run and an asynchronous run that return without an error send
  every up operation, in the order of the lists, the synchronous ones first - if no migration mixes
  operations of both kinds.
\<close>

section \<open>Work done by a run\<close>

type_synonym work = "(string \<times> nat \<times> Operation) list"

definition ran :: "string \<Rightarrow> bool \<Rightarrow> work \<Rightarrow> (string \<times> string list) list \<Rightarrow> bool" where
  "ran c r ws xs \<longleftrightarrow> (\<exists>xss. list_all2 (sent_for c r) ws xss \<and> xs = concat xss)"

lemma ran_Nil [simp]: "ran c r [] xs \<longleftrightarrow> xs = []"
  by (auto simp: ran_def)

lemma ran_append: "ran c r ws xs \<Longrightarrow> ran c r ws' xs' \<Longrightarrow> ran c r (ws @ ws') (xs @ xs')"
  unfolding ran_def by (metis concat_append list_all2_appendI)

lemma ran_single: "sent_for c r w xs \<Longrightarrow> ran c r [w] xs"
  unfolding ran_def by (rule exI [of _ "[xs]"]) simp

definition work_keys :: "work \<Rightarrow> (string \<times> nat) set" where
  "work_keys ws = (\<lambda>(db, i, op). (db, i)) ` set ws"

definition worked :: "('d \<Rightarrow> string \<times> nat \<Rightarrow> string option) \<Rightarrow> work \<Rightarrow> 'd mgr \<Rightarrow> 'd mgr \<Rightarrow> bool" where
  "worked status ws m m' \<longleftrightarrow> clusterName m' = clusterName m \<and> replicationEnabled m' = replicationEnabled m \<and>
     (\<exists>xs. executed m' = executed m @ xs \<and> ran (clusterName m) (replicationEnabled m) ws xs) \<and>
     (\<forall>k. status (world m') k = (if k \<in> work_keys ws then Some FinishedStatus else status (world m) k))"

lemma work_keys_simps [simp]: "work_keys [] = {}" "work_keys (ws @ ws') = work_keys ws \<union> work_keys ws'"
  by (simp_all add: work_keys_def image_Un)

lemma worked_status:
  "worked status ws m m' \<Longrightarrow> status (world m') k = (if k \<in> work_keys ws then Some FinishedStatus else status (world m) k)"
  unfolding worked_def by blast

lemma worked_view: "same_view status m m' \<Longrightarrow> worked status [] m m'"
  by (simp add: worked_def same_view_def)

lemma worked_trans:
  assumes "worked status ws m m1" and "worked status ws' m1 m2"
  shows "worked status (ws @ ws') m m2"
proof -
  obtain xs xs' where "executed m1 = executed m @ xs" "ran (clusterName m) (replicationEnabled m) ws xs"
    "executed m2 = executed m1 @ xs'" "ran (clusterName m) (replicationEnabled m) ws' xs'"
    using assms by (auto simp: worked_def)
  then have "executed m2 = executed m @ (xs @ xs') \<and> ran (clusterName m) (replicationEnabled m) (ws @ ws') (xs @ xs')"
    by (simp add: ran_append)
  moreover have "status (world m2) k = (if k \<in> work_keys (ws @ ws') then Some FinishedStatus else status (world m) k)" for k
    using worked_status [OF assms(1)] worked_status [OF assms(2)] by simp
  ultimately show ?thesis using assms unfolding worked_def by metis
qed

lemma worked_recorded:
  "worked status ws m m' \<Longrightarrow> recorded status m' k \<longleftrightarrow> k \<in> work_keys ws \<or> recorded status m k"
  by (simp add: worked_status recorded_def)

section \<open>The operations of a migration\<close>

text \<open>The operations the asynchronous run executes.\<close>

definition runs_async :: "Operation \<Rightarrow> bool" where
  "runs_async op \<longleftrightarrow> IsAsyncOperation op \<and> IsIdempotent op"

text \<open>The two loops over databases and migrations are one loop over the migrations with their databases.\<close>

definition pairs :: "(string \<times> SchemaMigrationRecord list) list \<Rightarrow> (string \<times> SchemaMigrationRecord) list" where
  "pairs dbs = concat (map (\<lambda>(db, ms). map (Pair db) ms) dbs)"

definition key :: "string \<times> SchemaMigrationRecord \<Rightarrow> string \<times> nat" where
  "key p = (fst p, SchemaMigrationRecord.MigrationID (snd p))"

definition work_for :: "(Operation \<Rightarrow> bool) \<Rightarrow> string \<times> SchemaMigrationRecord \<Rightarrow> work" where
  "work_for P p = map (\<lambda>op. (fst p, SchemaMigrationRecord.MigrationID (snd p), op)) (filter P (UpItems (snd p)))"

definition work_of :: "(Operation \<Rightarrow> bool) \<Rightarrow> (string \<times> SchemaMigrationRecord list) list \<Rightarrow> work" where
  "work_of P dbs = concat (map (work_for P) (pairs dbs))"

lemma work_for_keys: "work_keys (work_for P p) \<subseteq> {key p}"
  by (auto simp: work_keys_def work_for_def key_def)

definition run_one ::
    "('d datastore \<Rightarrow> Operation list \<Rightarrow> nat \<Rightarrow> string \<Rightarrow> ('d, unit) io) \<Rightarrow> 'd datastore
      \<Rightarrow> string \<times> SchemaMigrationRecord \<Rightarrow> ('d, unit) io" where
  "run_one exec S p = io_bind (shouldRunMigration S (fst p) (SchemaMigrationRecord.MigrationID (snd p)) [])
     (\<lambda>should. if \<not> should then io_return ()
        else exec S (UpItems (snd p)) (SchemaMigrationRecord.MigrationID (snd p)) (fst p))"

lemma io_bind_assoc: "io_bind (io_bind x f) g = io_bind x (\<lambda>a. io_bind (f a) g)"
  by (rule ext) (auto simp: io_bind_def bind_eq_Some_conv split: option.splits res.splits prod.splits bind_splits)

lemma io_bind_return: "io_bind (io_return a) f = f a"
  by (rule ext) (simp add: io_bind_def io_return_def)

lemma io_each_append: "io_each f (xs @ ys) = io_bind (io_each f xs) (\<lambda>_. io_each f ys)"
  by (induction xs) (simp_all add: io_bind_assoc io_bind_return)

lemma io_each_map: "io_each f (map g xs) = io_each (f \<circ> g) xs"
  by (induction xs) simp_all

lemma migrate_dbs_pairs: "migrate_dbs S exec UpItems [] dbs = io_each (run_one exec S) (pairs dbs)"
proof (induction dbs)
  case (Cons p dbs)
  obtain db ms where p: "p = (db, ms)" by (cases p)
  have "migrate_db S exec UpItems [] db ms = io_each (run_one exec S) (map (Pair db) ms)"
    unfolding migrate_db_def io_each_map by (rule arg_cong [where f = "\<lambda>f. io_each f ms"]) (unfold run_one_def comp_def fst_conv snd_conv, rule refl)
  with Cons p show ?case by (simp add: migrate_dbs_def pairs_def io_each_append)
qed (simp add: migrate_dbs_def pairs_def)

text \<open>
  What the loop over the migrations relies on: an execution that returns without an error has run the
  operations that satisfy \<open>P\<close>.
\<close>

locale execution =
  fixes exec :: "'d datastore \<Rightarrow> Operation list \<Rightarrow> nat \<Rightarrow> string \<Rightarrow> ('d, unit) io" and P :: "Operation \<Rightarrow> bool"
  assumes exec_works: "migration_table S status K (clusterName m) \<Longrightarrow> (db, i) \<in> K \<Longrightarrow>
      \<forall>op \<in> set ops. leaves_table S status (ToSQL (prepare (clusterName m) (replicationEnabled m) op)) \<Longrightarrow>
      exec S ops i db m = Some (Ok (), m') \<Longrightarrow>
      worked status (map (\<lambda>op. (db, i, op)) (filter P ops)) m m'"
begin

lemma run_one_works:
  assumes "run_one exec S p m = Some (Ok (), m')" and table: "migration_table S status K (clusterName m)"
    and "key p \<in> K"
    and "\<forall>op \<in> set (UpItems (snd p)). leaves_table S status (ToSQL (prepare (clusterName m) (replicationEnabled m) op))"
    and "\<not> recorded status m (key p) \<or> work_for P p = []"
  shows "worked status (work_for P p) m m'"
proof -
  have K: "(fst p, SchemaMigrationRecord.MigrationID (snd p)) \<in> K" using assms(3) by (simp add: key_def)
  obtain m1 where m1: "shouldRunMigration S (fst p) (SchemaMigrationRecord.MigrationID (snd p)) [] m =
      Some (Ok (\<not> recorded status m (key p)), m1)" "same_view status m m1"
    by (rule shouldRunMigration_table [OF table K, of "[]" m]) (auto simp: selected_def key_def)
  show ?thesis
  proof (cases "recorded status m (key p)")
    case True
    then have "m' = m1" "work_for P p = []" using assms(1,5) m1(1) by (auto simp: run_one_def io_bind_Ok io_return_def)
    then show ?thesis using worked_view [OF m1(2)] by simp
  next
    case False
    then have run: "exec S (UpItems (snd p)) (SchemaMigrationRecord.MigrationID (snd p)) (fst p) m1 = Some (Ok (), m')"
      using assms(1) m1(1) by (auto simp: run_one_def io_bind_Ok)
    have "clusterName m1 = clusterName m" "replicationEnabled m1 = replicationEnabled m"
      using m1(2) by (auto simp: same_view_def)
    then have "worked status (work_for P p) m1 m'"
      unfolding work_for_def using exec_works [OF _ K _ run] table assms(4) by simp
    from worked_trans [OF worked_view [OF m1(2)] this] show ?thesis by simp
  qed
qed

lemma run_each_works:
  assumes "io_each (run_one exec S) ps m = Some (Ok (), m')" and "migration_table S status K (clusterName m)"
    and "\<forall>p \<in> set ps. key p \<in> K"
    and "\<forall>p \<in> set ps. \<forall>op \<in> set (UpItems (snd p)).
      leaves_table S status (ToSQL (prepare (clusterName m) (replicationEnabled m) op))"
    and "distinct (map key ps)" and "\<forall>p \<in> set ps. \<not> recorded status m (key p) \<or> work_for P p = []"
  shows "worked status (concat (map (work_for P) ps)) m m'"
  using assms
proof (induction ps arbitrary: m)
  case Nil
  then show ?case by (simp add: io_return_def worked_view view.R_refl)
next
  case (Cons p ps)
  obtain m1 where m1: "run_one exec S p m = Some (Ok (), m1)" "io_each (run_one exec S) ps m1 = Some (Ok (), m')"
    using Cons.prems(1) by (auto simp: io_bind_Ok)
  have w: "worked status (work_for P p) m m1"
    by (rule run_one_works [OF m1(1) Cons.prems(2)]) (use Cons.prems(3,4,6) in auto)
  then have c: "clusterName m1 = clusterName m" "replicationEnabled m1 = replicationEnabled m" by (auto simp: worked_def)
  have "worked status (concat (map (work_for P) ps)) m1 m'"
  proof (rule Cons.IH [OF m1(2)])
    show "\<forall>q \<in> set ps. \<not> recorded status m1 (key q) \<or> work_for P q = []"
    proof
      fix q assume q: "q \<in> set ps"
      then have "key q \<noteq> key p" using Cons.prems(5) by (metis distinct.simps(2) imageI list.simps(9) list.set_map)
      then have "key q \<notin> work_keys (work_for P p)" using work_for_keys by blast
      then show "\<not> recorded status m1 (key q) \<or> work_for P q = []"
        using worked_recorded [OF w, of "key q"] Cons.prems(6) q by simp
    qed
  qed (use Cons.prems(2-5) c in auto)
  from worked_trans [OF w this] show ?case by simp
qed

lemma migrate_dbs_works:
  assumes "migrate_dbs S exec UpItems [] dbs m = Some (Ok (), m')" and "migration_table S status K (clusterName m)"
    and "keys dbs \<subseteq> K" and "items_leave_table S status (clusterName m) (replicationEnabled m) UpItems dbs"
    and "distinct (map key (pairs dbs))"
    and "\<forall>p \<in> set (pairs dbs). \<not> recorded status m (key p) \<or> work_for P p = []"
  shows "worked status (work_of P dbs) m m'"
  unfolding work_of_def
proof (rule run_each_works [OF _ assms(2) _ _ assms(5,6)])
  show "io_each (run_one exec S) (pairs dbs) m = Some (Ok (), m')" using assms(1) by (simp add: migrate_dbs_pairs)
qed (use assms(3,4) in \<open>fastforce simp: pairs_def keys_def key_def items_leave_table_def\<close>)+

end

section \<open>The two executions\<close>

lemma RunOperation_works:
  assumes "migration_table S status K (clusterName m)" and "(db, i) \<in> K"
    and "leaves_table S status (ToSQL (prepare (clusterName m) (replicationEnabled m) op))"
    and "RunOperation S op i db False m = Some (Ok (), m')"
  shows "worked status [(db, i, op)] m m'"
  using RunOperation_effect [OF assms] ran_single by (fastforce simp: worked_def work_keys_def)

lemma each_works:
  assumes "io_each (\<lambda>item. if P item then RunOperation S item i db False else io_return ()) ops m = Some (Ok (), m')"
    and "migration_table S status K (clusterName m)" and "(db, i) \<in> K"
    and "\<forall>op \<in> set ops. leaves_table S status (ToSQL (prepare (clusterName m) (replicationEnabled m) op))"
  shows "worked status (map (\<lambda>op. (db, i, op)) (filter P ops)) m m'"
  using assms
proof (induction ops arbitrary: m)
  case Nil
  then show ?case by (simp add: io_return_def worked_view view.R_refl)
next
  case (Cons op ops)
  obtain m1 where m1: "(if P op then RunOperation S op i db False else io_return ()) m = Some (Ok (), m1)"
    "io_each (\<lambda>item. if P item then RunOperation S item i db False else io_return ()) ops m1 = Some (Ok (), m')"
    using Cons.prems(1) by (auto simp: io_bind_Ok)
  have w: "worked status (if P op then [(db, i, op)] else []) m m1"
    using m1(1) RunOperation_works [OF Cons.prems(2,3)] Cons.prems(4)
    by (auto simp: io_return_def worked_view view.R_refl split: if_splits)
  have "worked status (map (\<lambda>op. (db, i, op)) (filter P ops)) m1 m'"
    by (rule Cons.IH [OF m1(2) _ Cons.prems(3)]) (use Cons.prems(2,4) w in \<open>auto simp: worked_def\<close>)
  from worked_trans [OF w this] show ?case by (cases "P op") simp_all
qed

lemma executeSync_each:
  "executeSyncOperations S ops i db = io_each (\<lambda>item. if IsSyncOperation item then RunOperation S item i db False else io_return ()) ops"
  by (simp add: executeSyncOperations_def IsSyncOperation_def)

lemma executeAsync_each:
  "executeAsyncOperations S ops i db = io_each (\<lambda>item. if runs_async item then RunOperation S item i db False else io_return ()) ops"
  unfolding executeAsyncOperations_def
  by (rule arg_cong [where f = "\<lambda>f. io_each f ops"]) (auto simp: fun_eq_iff runs_async_def IsAsyncOperation_def)

interpretation sync: execution executeSyncOperations IsSyncOperation
  by unfold_locales (auto simp: executeSync_each intro: each_works)

interpretation async: execution executeAsyncOperations runs_async
  by unfold_locales (auto simp: executeAsync_each intro: each_works)

section \<open>The two up runs\<close>

definition async_dbs :: "catalog \<Rightarrow> (string \<times> SchemaMigrationRecord list) list" where
  "async_dbs C = [(O11yTracesDB, TracesMigrations C), (O11yMetricsDB, MetricsMigrations C), (O11yLogsDB, logsMigrations C)]"

text \<open>
  No migration mixes operations of the two runs, the databases the asynchronous run leaves out have
  none of its operations, and no migration occurs twice.
\<close>

definition unmixed :: "catalog \<Rightarrow> bool" where
  "unmixed C \<longleftrightarrow>
     list_all (\<lambda>(db, ms). list_all (\<lambda>mig. list_all IsSyncOperation (UpItems mig) \<or> list_all runs_async (UpItems mig)) ms)
       (async_dbs C) \<and>
     list_all (list_all (\<lambda>mig. list_all IsSyncOperation (UpItems mig)))
       [MetadataMigrations C, AnalyticsMigrations C, MeterMigrations C]"

definition distinct_ids :: "catalog \<Rightarrow> bool" where
  "distinct_ids C \<longleftrightarrow> distinct (map key (pairs (sync_dbs C)))"

lemma runs_async_not_sync: "runs_async op \<Longrightarrow> \<not> IsSyncOperation op"
  by (auto simp: runs_async_def IsAsyncOperation_def IsSyncOperation_def split: if_splits)

lemma unmixedD:
  assumes "unmixed C" and "p \<in> set (pairs (sync_dbs C))"
  shows "list_all IsSyncOperation (UpItems (snd p)) \<or> (list_all runs_async (UpItems (snd p)) \<and> p \<in> set (pairs (async_dbs C)))"
  using assms by (auto simp: unmixed_def sync_dbs_def async_dbs_def pairs_def list_all_iff)

lemma async_pairs: "set (pairs (async_dbs C)) \<subseteq> set (pairs (sync_dbs C))"
  by (auto simp: sync_dbs_def async_dbs_def pairs_def)

lemma work_for_sync: "list_all IsSyncOperation (UpItems (snd p)) \<Longrightarrow>
    work_for IsSyncOperation p = work_for (\<lambda>_. True) p \<and> work_for runs_async p = []"
  using runs_async_not_sync by (auto simp: work_for_def list_all_iff filter_empty_conv intro: filter_True)

lemma work_for_async: "list_all runs_async (UpItems (snd p)) \<Longrightarrow>
    work_for runs_async p = work_for (\<lambda>_. True) p \<and> work_for IsSyncOperation p = []"
  using runs_async_not_sync by (auto simp: work_for_def list_all_iff filter_empty_conv intro: filter_True)

lemma work_keys_concat: "work_keys (concat (map f ps)) = (\<Union>p \<in> set ps. work_keys (f p))"
  by (simp add: work_keys_def image_UN)

lemma distinct_async: "distinct_ids C \<Longrightarrow> distinct (map key (pairs (async_dbs C)))"
  by (auto simp: distinct_ids_def sync_dbs_def async_dbs_def pairs_def)

text \<open>What is asynchronous is still to do after the synchronous run.\<close>

lemma async_not_done:
  assumes "unmixed C" and "distinct_ids C" and "p \<in> set (pairs (async_dbs C))" and "work_for runs_async p \<noteq> []"
  shows "key p \<notin> work_keys (work_of IsSyncOperation (sync_dbs C))"
proof
  assume "key p \<in> work_keys (work_of IsSyncOperation (sync_dbs C))"
  then obtain q where q: "q \<in> set (pairs (sync_dbs C))" "key p \<in> work_keys (work_for IsSyncOperation q)"
    by (auto simp: work_of_def work_keys_concat)
  then have "key p = key q" using work_for_keys by blast
  then have "p = q" using assms(2,3) q(1) async_pairs by (auto simp: distinct_ids_def distinct_map inj_on_def)
  then have "work_for IsSyncOperation p \<noteq> []" using q(2) by (auto simp: work_keys_def)
  then show False
    using unmixedD [OF assms(1), of p] assms(3,4) async_pairs work_for_sync [of p] work_for_async [of p] by blast
qed

lemma mset_work:
  assumes "unmixed C"
  shows "mset (work_of IsSyncOperation (sync_dbs C)) + mset (work_of runs_async (async_dbs C)) =
    mset (work_of (\<lambda>_. True) (sync_dbs C))"
proof -
  have split: "mset (concat (map (work_for IsSyncOperation) ps)) + mset (concat (map (work_for runs_async) ps)) =
      mset (concat (map (work_for (\<lambda>_. True)) ps))" if "set ps \<subseteq> set (pairs (sync_dbs C))" for ps
    using that
  proof (induction ps)
    case (Cons p ps)
    have "mset (work_for IsSyncOperation p) + mset (work_for runs_async p) = mset (work_for (\<lambda>_. True) p)"
      using unmixedD [OF assms, of p] Cons.prems work_for_sync [of p] work_for_async [of p] by auto
    then show ?case using Cons by (simp add: ac_simps)
  qed simp
  have rest: "concat (map (work_for runs_async) (map (Pair db) ms)) = []"
    if "ms \<in> {MetadataMigrations C, AnalyticsMigrations C, MeterMigrations C}" for db ms
    using assms that work_for_sync by (fastforce simp: unmixed_def list_all_iff)
  have "mset (work_of runs_async (async_dbs C)) = mset (work_of runs_async (sync_dbs C))"
    using rest [of "MetadataMigrations C"] rest [of "AnalyticsMigrations C"] rest [of "MeterMigrations C"]
    by (simp add: work_of_def sync_dbs_def async_dbs_def pairs_def)
  then show ?thesis using split [of "pairs (sync_dbs C)"] by (simp add: work_of_def)
qed


lemma example_async:
  "MigrateUpAsync example_store (example_catalog [example_op]) [] (example_mgr (Some FinishedStatus) False\<lparr>executed := xs\<rparr>) =
     Some (Ok (), example_mgr (Some FinishedStatus) False\<lparr>executed := xs\<rparr>)"
proof -
  have "shouldRunMigration example_store O11yTracesDB 2 [] (example_mgr (Some FinishedStatus) False\<lparr>executed := xs\<rparr>) =
      Some (Ok False, example_mgr (Some FinishedStatus) False\<lparr>executed := xs\<rparr>)"
    by (simp add: shouldRunMigration_def example_store_def example_mgr_def)
  then show ?thesis
    by (simp add: MigrateUpAsync_def migrate_dbs_def migrate_db_def example_catalog_def logsMigrations_def io_bind_def
        io_return_def)
qed


end
