(* ===== verification/ShippedLogs.thy ===== *)
theory ShippedLogs
  imports SchemaCatalog
begin

text \<open>
  The shipped migrations, as they stand in the source: the migrations of the logs.
  One definition per migration, and one per operation where a migration is long.
\<close>

section \<open>logs\_migrations.go\<close>

definition Logs_1000 :: "SchemaMigrationRecord" where
  \<open>Logs_1000 =
    migration 1000
      [drop_table ''o11y_logs'' ''attribute_keys_bool_final_mv'' [],
       drop_table ''o11y_logs'' ''attribute_keys_float64_final_mv'' [],
       drop_table ''o11y_logs'' ''attribute_keys_string_final_mv'' [],
       drop_table ''o11y_logs'' ''resource_keys_string_final_mv'' []]
      [create_view ''o11y_logs'' ''attribute_keys_bool_final_mv'' ''logs_attribute_keys''
        [column ''name'' ColumnTypeString [],
         column ''datatype'' ColumnTypeString []]
        ''SELECT DISTINCT\<newline>arrayJoin(mapKeys(attributes_bool)) AS name,\<newline>'Bool' AS datatype\<newline>FROM o11y_logs.logs_v2\<newline>ORDER BY name ASC'',
       create_view ''o11y_logs'' ''attribute_keys_float64_final_mv'' ''logs_attribute_keys''
        [column ''name'' ColumnTypeString [],
         column ''datatype'' ColumnTypeString []]
        ''SELECT DISTINCT\<newline>arrayJoin(mapKeys(attributes_number)) AS name,\<newline>'Float64' AS datatype\<newline>FROM o11y_logs.logs_v2\<newline>ORDER BY name ASC'',
       create_view ''o11y_logs'' ''attribute_keys_string_final_mv'' ''logs_attribute_keys''
        [column ''name'' ColumnTypeString [],
         column ''datatype'' ColumnTypeString []]
        ''SELECT DISTINCT\<newline>arrayJoin(mapKeys(attributes_string)) AS name,\<newline>'String' AS datatype\<newline>FROM o11y_logs.logs_v2\<newline>ORDER BY name ASC'',
       create_view ''o11y_logs'' ''resource_keys_string_final_mv'' ''logs_resource_keys''
        [column ''name'' ColumnTypeString [],
         column ''datatype'' ColumnTypeString []]
        ''SELECT DISTINCT\<newline>arrayJoin(mapKeys(resources_string)) AS name,\<newline>'String' AS datatype\<newline>FROM o11y_logs.logs_v2\<newline>ORDER BY name ASC'']\<close>

definition Logs_1001 :: "SchemaMigrationRecord" where
  \<open>Logs_1001 =
    migration 1001
      [create_table ''o11y_logs'' ''tag_attributes_v2''
        [column ''unix_milli'' ColumnTypeInt64 ''Delta(8), ZSTD(1)'',
         column ''tag_key'' ColumnTypeString ''ZSTD(1)'',
         column ''tag_type'' (LowCardinalityColumnType ColumnTypeString) ''ZSTD(1)'',
         column ''tag_data_type'' (LowCardinalityColumnType ColumnTypeString) ''ZSTD(1)'',
         column ''string_value'' ColumnTypeString ''ZSTD(1)'',
         column ''number_value'' (NullableColumnType ColumnTypeFloat64) ''ZSTD(1)'']
        [index ''string_value_index'' ''string_value'' ''ngrambf_v1(4, 1024, 3, 0)'' 1,
          index ''number_value_index'' ''number_value'' ''minmax'' 1]
        []
        (ReplacingMergeTree (merge_tree ''(tag_key, tag_type, tag_data_type, string_value, number_value)'' [] ''toDate(unix_milli / 1000)'' [] ''toDateTime(unix_milli / 1000) + toIntervalSecond(1296000)''
          [setting ''index_granularity'' ''8192'', setting ''ttl_only_drop_parts'' ''1'', setting ''allow_nullable_key'' ''1''])),
       create_table ''o11y_logs'' ''distributed_tag_attributes_v2''
        [column ''unix_milli'' ColumnTypeInt64 ''Delta(8), ZSTD(1)'',
         column ''tag_key'' ColumnTypeString ''ZSTD(1)'',
         column ''tag_type'' (LowCardinalityColumnType ColumnTypeString) ''ZSTD(1)'',
         column ''tag_data_type'' (LowCardinalityColumnType ColumnTypeString) ''ZSTD(1)'',
         column ''string_value'' ColumnTypeString ''ZSTD(1)'',
         column ''number_value'' (NullableColumnType ColumnTypeFloat64) ''ZSTD(1)'']
        []
        []
        (distributed ''o11y_logs'' ''tag_attributes_v2'' ''cityHash64(rand())'')]
      []\<close>

definition Logs_1002 :: "SchemaMigrationRecord" where
  \<open>Logs_1002 =
    migration 1002
      [add_column ''o11y_logs'' ''logs_attribute_keys''
        (column_default ''timestamp'' (DateTimeColumnType []) [] ''toDateTime(now())'') None,
       add_column ''o11y_logs'' ''logs_resource_keys''
        (column_default ''timestamp'' (DateTimeColumnType []) [] ''toDateTime(now())'') None,
       modify_ttl ''o11y_logs'' ''logs_attribute_keys''
        ''timestamp + INTERVAL 15 DAY'' False,
       modify_ttl ''o11y_logs'' ''logs_resource_keys''
        ''timestamp + INTERVAL 15 DAY'' False]
      []\<close>

definition Logs_1003 :: "SchemaMigrationRecord" where
  \<open>Logs_1003 =
    migration 1003
      [materialize_column ''o11y_logs'' ''logs_attribute_keys'' (named ''timestamp'') [] [],
       materialize_column ''o11y_logs'' ''logs_resource_keys'' (named ''timestamp'') [] []]
      []\<close>

definition Logs_1004 :: "SchemaMigrationRecord" where
  \<open>Logs_1004 =
    migration 1004
      [add_column ''o11y_logs'' ''logs_v2''
        (column ''resource'' (JSONColumnType (Some 100) None []) ''ZSTD(1)'') None,
       add_column ''o11y_logs'' ''distributed_logs_v2''
        (column ''resource'' (JSONColumnType (Some 100) None []) ''ZSTD(1)'') None]
      [drop_column ''o11y_logs'' ''distributed_logs_v2''
        (named ''resource''),
       drop_column ''o11y_logs'' ''logs_v2''
        (named ''resource'')]\<close>

definition Logs_1005 :: "SchemaMigrationRecord" where
  \<open>Logs_1005 =
    migration 1005
      [add_index ''o11y_logs'' ''logs_v2''
        (index ''trace_id_idx'' ''trace_id'' ''tokenbf_v1(10000, 5,0)'' 1),
       add_index ''o11y_logs'' ''logs_v2''
        (index ''span_id_idx'' ''span_id'' ''tokenbf_v1(5000, 5,0)'' 1)]
      [drop_index ''o11y_logs'' ''logs_v2''
        (index ''trace_id_idx'' [] [] 0),
       drop_index ''o11y_logs'' ''logs_v2''
        (index ''span_id_idx'' [] [] 0)]\<close>

definition LogsMigrations_list :: "SchemaMigrationRecord list" where
  \<open>LogsMigrations_list =
    [Logs_1000, Logs_1001, Logs_1002, Logs_1003, Logs_1004, Logs_1005]\<close>

section \<open>logs\_migrations\_v2.go\<close>

definition LogsV2_1000 :: "SchemaMigrationRecord" where
  \<open>LogsV2_1000 =
    migration 1000
      [drop_table ''o11y_logs'' ''attribute_keys_bool_final_mv'' [],
       drop_table ''o11y_logs'' ''attribute_keys_float64_final_mv'' [],
       drop_table ''o11y_logs'' ''attribute_keys_string_final_mv'' [],
       drop_table ''o11y_logs'' ''resource_keys_string_final_mv'' []]
      [create_view ''o11y_logs'' ''attribute_keys_bool_final_mv'' ''logs_attribute_keys''
        [column ''name'' ColumnTypeString [],
         column ''datatype'' ColumnTypeString []]
        ''SELECT DISTINCT\<newline>arrayJoin(mapKeys(attributes_bool)) AS name,\<newline>'Bool' AS datatype\<newline>FROM o11y_logs.logs_v2\<newline>ORDER BY name ASC'',
       create_view ''o11y_logs'' ''attribute_keys_float64_final_mv'' ''logs_attribute_keys''
        [column ''name'' ColumnTypeString [],
         column ''datatype'' ColumnTypeString []]
        ''SELECT DISTINCT\<newline>arrayJoin(mapKeys(attributes_number)) AS name,\<newline>'Float64' AS datatype\<newline>FROM o11y_logs.logs_v2\<newline>ORDER BY name ASC'',
       create_view ''o11y_logs'' ''attribute_keys_string_final_mv'' ''logs_attribute_keys''
        [column ''name'' ColumnTypeString [],
         column ''datatype'' ColumnTypeString []]
        ''SELECT DISTINCT\<newline>arrayJoin(mapKeys(attributes_string)) AS name,\<newline>'String' AS datatype\<newline>FROM o11y_logs.logs_v2\<newline>ORDER BY name ASC'',
       create_view ''o11y_logs'' ''resource_keys_string_final_mv'' ''logs_resource_keys''
        [column ''name'' ColumnTypeString [],
         column ''datatype'' ColumnTypeString []]
        ''SELECT DISTINCT\<newline>arrayJoin(mapKeys(resources_string)) AS name,\<newline>'String' AS datatype\<newline>FROM o11y_logs.logs_v2\<newline>ORDER BY name ASC'']\<close>

definition LogsV2_1001 :: "SchemaMigrationRecord" where
  \<open>LogsV2_1001 =
    migration 1001
      [create_table ''o11y_logs'' ''tag_attributes_v2''
        [column ''unix_milli'' ColumnTypeInt64 ''Delta(8), ZSTD(1)'',
         column ''tag_key'' ColumnTypeString ''ZSTD(1)'',
         column ''tag_type'' (LowCardinalityColumnType ColumnTypeString) ''ZSTD(1)'',
         column ''tag_data_type'' (LowCardinalityColumnType ColumnTypeString) ''ZSTD(1)'',
         column ''string_value'' ColumnTypeString ''ZSTD(1)'',
         column ''number_value'' (NullableColumnType ColumnTypeFloat64) ''ZSTD(1)'']
        [index ''string_value_index'' ''string_value'' ''ngrambf_v1(4, 1024, 3, 0)'' 1,
          index ''number_value_index'' ''number_value'' ''minmax'' 1]
        []
        (ReplacingMergeTree (merge_tree ''(tag_key, tag_type, tag_data_type, string_value, number_value)'' [] ''toDate(unix_milli / 1000)'' [] ''toDateTime(unix_milli / 1000) + toIntervalSecond(1296000)''
          [setting ''index_granularity'' ''8192'', setting ''ttl_only_drop_parts'' ''1'', setting ''allow_nullable_key'' ''1''])),
       create_table ''o11y_logs'' ''distributed_tag_attributes_v2''
        [column ''unix_milli'' ColumnTypeInt64 ''Delta(8), ZSTD(1)'',
         column ''tag_key'' ColumnTypeString ''ZSTD(1)'',
         column ''tag_type'' (LowCardinalityColumnType ColumnTypeString) ''ZSTD(1)'',
         column ''tag_data_type'' (LowCardinalityColumnType ColumnTypeString) ''ZSTD(1)'',
         column ''string_value'' ColumnTypeString ''ZSTD(1)'',
         column ''number_value'' (NullableColumnType ColumnTypeFloat64) ''ZSTD(1)'']
        []
        []
        (distributed ''o11y_logs'' ''tag_attributes_v2'' ''cityHash64(rand())'')]
      []\<close>

definition LogsV2_1002 :: "SchemaMigrationRecord" where
  \<open>LogsV2_1002 =
    migration 1002
      [add_column ''o11y_logs'' ''logs_attribute_keys''
        (column_default ''timestamp'' (DateTimeColumnType []) [] ''toDateTime(now())'') None,
       add_column ''o11y_logs'' ''logs_resource_keys''
        (column_default ''timestamp'' (DateTimeColumnType []) [] ''toDateTime(now())'') None,
       modify_ttl ''o11y_logs'' ''logs_attribute_keys''
        ''timestamp + INTERVAL 15 DAY'' False,
       modify_ttl ''o11y_logs'' ''logs_resource_keys''
        ''timestamp + INTERVAL 15 DAY'' False]
      []\<close>

definition LogsV2_1003 :: "SchemaMigrationRecord" where
  \<open>LogsV2_1003 =
    migration 1003
      [materialize_column ''o11y_logs'' ''logs_attribute_keys'' (named ''timestamp'') [] [],
       materialize_column ''o11y_logs'' ''logs_resource_keys'' (named ''timestamp'') [] []]
      []\<close>

definition LogsV2_1004 :: "SchemaMigrationRecord" where
  \<open>LogsV2_1004 =
    migration 1004
      [add_column ''o11y_logs'' ''logs_v2''
        (column ''resource'' (JSONColumnType (Some 100) None []) ''ZSTD(1)'') None,
       add_column ''o11y_logs'' ''distributed_logs_v2''
        (column ''resource'' (JSONColumnType (Some 100) None []) ''ZSTD(1)'') None]
      [drop_column ''o11y_logs'' ''distributed_logs_v2''
        (named ''resource''),
       drop_column ''o11y_logs'' ''logs_v2''
        (named ''resource'')]\<close>

definition LogsV2_1005 :: "SchemaMigrationRecord" where
  \<open>LogsV2_1005 =
    migration 1005
      [add_index ''o11y_logs'' ''logs_v2''
        (index ''trace_id_idx'' ''trace_id'' ''tokenbf_v1(10000, 5,0)'' 1),
       add_index ''o11y_logs'' ''logs_v2''
        (index ''span_id_idx'' ''span_id'' ''tokenbf_v1(5000, 5,0)'' 1)]
      [drop_index ''o11y_logs'' ''logs_v2''
        (index ''trace_id_idx'' [] [] 0),
       drop_index ''o11y_logs'' ''logs_v2''
        (index ''span_id_idx'' [] [] 0)]\<close>

definition LogsV2_2001_up1 :: "Operation" where
  \<open>LogsV2_2001_up1 =
    create_table O11yMetadataDB LocalPathTypesTable
      [column ''signal'' ColumnTypeString ''ZSTD(1)'',
       column ''field_context'' ColumnTypeString ''ZSTD(1)'',
       column FieldKeysTableNameColumn ColumnTypeString ''ZSTD(1)'',
       column FieldKeysTableDataTypeColumn ColumnTypeString ''ZSTD(1)'',
       column FieldKeysTableLastSeenColumn ColumnTypeUInt64 ''DoubleDelta, LZ4'']
      []
      []
      (ReplacingMergeTree (merge_tree (''(signal, field_context, '' @ FieldKeysTableNameColumn @ '', '' @ FieldKeysTableDataTypeColumn @ '')'') [] ''toDate(last_seen / 1000000000)'' [] ''toDateTime(last_seen / 1000000000) + toIntervalSecond(1296000)''
        [setting ''index_granularity'' ''8192'', setting ''ttl_only_drop_parts'' ''1'']))\<close>

definition LogsV2_2001_up2 :: "Operation" where
  \<open>LogsV2_2001_up2 =
    create_table O11yMetadataDB DistributedPathTypesTable
      [column ''signal'' ColumnTypeString ''ZSTD(1)'',
       column ''field_context'' ColumnTypeString ''ZSTD(1)'',
       column FieldKeysTableNameColumn ColumnTypeString ''ZSTD(1)'',
       column FieldKeysTableDataTypeColumn ColumnTypeString ''ZSTD(1)'',
       column FieldKeysTableLastSeenColumn ColumnTypeUInt64 ''DoubleDelta, LZ4'']
      []
      []
      (distributed O11yMetadataDB LocalPathTypesTable (''cityHash64('' @ PathTypesTablePathColumn @ '', '' @ PathTypesTableTypeColumn @ '')''))\<close>

definition LogsV2_2001_up3 :: "Operation" where
  \<open>LogsV2_2001_up3 =
    modify_settings ''o11y_logs'' ''logs_v2''
      [setting ''object_serialization_version'' (quoted ''v3''), setting ''object_shared_data_serialization_version'' (quoted ''advanced'')]\<close>

definition LogsV2_2001_up4 :: "Operation" where
  \<open>LogsV2_2001_up4 =
    add_column ''o11y_logs'' ''logs_v2''
      (column BodyV2Column (JSONColumnType (Some 0) None [column ''message'' ColumnTypeString []]) ''ZSTD(1)'') (Some (named ''body''))\<close>

definition LogsV2_2001_up5 :: "Operation" where
  \<open>LogsV2_2001_up5 =
    add_column ''o11y_logs'' ''distributed_logs_v2''
      (column BodyV2Column (JSONColumnType (Some 0) None [column ''message'' ColumnTypeString []]) ''ZSTD(1)'') (Some (named ''body''))\<close>

definition LogsV2_2001_up6 :: "Operation" where
  \<open>LogsV2_2001_up6 =
    add_column ''o11y_logs'' ''logs_v2''
      (column BodyPromotedColumn (JSONColumnType None None []) ''ZSTD(1)'') (Some (named BodyV2Column))\<close>

definition LogsV2_2001_up7 :: "Operation" where
  \<open>LogsV2_2001_up7 =
    add_column ''o11y_logs'' ''distributed_logs_v2''
      (column BodyPromotedColumn (JSONColumnType None None []) ''ZSTD(1)'') (Some (named BodyV2Column))\<close>

definition LogsV2_2001_up8 :: "Operation" where
  \<open>LogsV2_2001_up8 =
    add_index ''o11y_logs'' ''logs_v2''
      (index ''body_v2_string_ngram_idx'' (JSONFullTextIndexExpr BodyV2Column) ''ngrambf_v1(4, 15000, 3, 0)'' 1)\<close>

definition LogsV2_2001_up9 :: "Operation" where
  \<open>LogsV2_2001_up9 =
    add_index ''o11y_logs'' ''logs_v2''
      (index ''body_v2_string_token_idx'' (JSONFullTextIndexExpr BodyV2Column) ''tokenbf_v1(10000, 2, 0)'' 1)\<close>

definition LogsV2_2001_up10 :: "Operation" where
  \<open>LogsV2_2001_up10 =
    add_index ''o11y_logs'' ''logs_v2''
      (index ''body_v2_paths_ngram_idx'' (JSONPathsIndexExpr BodyV2Column) ''ngrambf_v1(4, 15000, 3, 0)'' 1)\<close>

definition LogsV2_2001_up11 :: "Operation" where
  \<open>LogsV2_2001_up11 =
    add_index ''o11y_logs'' ''logs_v2''
      (index ''body_v2_paths_token_idx'' (JSONPathsIndexExpr BodyV2Column) ''tokenbf_v1(10000, 2, 0)'' 1)\<close>

definition LogsV2_2001_down :: "Operation list" where
  \<open>LogsV2_2001_down =
    [drop_index ''o11y_logs'' ''logs_v2''
        (index ''body_v2_string_ngram_idx'' [] [] 0),
     drop_index ''o11y_logs'' ''logs_v2''
        (index ''body_v2_string_token_idx'' [] [] 0),
     drop_index ''o11y_logs'' ''logs_v2''
        (index ''body_v2_paths_ngram_idx'' [] [] 0),
     drop_index ''o11y_logs'' ''logs_v2''
        (index ''body_v2_paths_token_idx'' [] [] 0),
     drop_column ''o11y_logs'' ''logs_v2''
        (named BodyPromotedColumn),
     drop_column ''o11y_logs'' ''logs_v2''
        (named BodyV2Column),
     drop_table O11yMetadataDB LocalPathTypesTable [],
     drop_table O11yMetadataDB DistributedPathTypesTable []]\<close>

definition LogsV2_2001 :: "SchemaMigrationRecord" where
  \<open>LogsV2_2001 =
    migration 2001
      [LogsV2_2001_up1,
       LogsV2_2001_up2,
       LogsV2_2001_up3,
       LogsV2_2001_up4,
       LogsV2_2001_up5,
       LogsV2_2001_up6,
       LogsV2_2001_up7,
       LogsV2_2001_up8,
       LogsV2_2001_up9,
       LogsV2_2001_up10,
       LogsV2_2001_up11]
      LogsV2_2001_down\<close>

definition LogsMigrationsV2_list :: "SchemaMigrationRecord list" where
  \<open>LogsMigrationsV2_list =
    [LogsV2_1000, LogsV2_1001, LogsV2_1002, LogsV2_1003, LogsV2_1004, LogsV2_1005, LogsV2_2001]\<close>

section \<open>v2\_squashed\_logs\_migration.go\<close>

definition CustomRetentionLogs_1 :: "SchemaMigrationRecord" where
  \<open>CustomRetentionLogs_1 =
    migration 1
      [create_table ''o11y_logs'' ''logs_attribute_keys''
        [column ''name'' ColumnTypeString [],
         column ''datatype'' ColumnTypeString []]
        []
        []
        (ReplacingMergeTree (merge_tree ''(name, datatype)'' [] [] [] []
          [setting ''index_granularity'' ''8192'']))]
      [drop_table ''o11y_logs'' ''logs_attribute_keys'' []]\<close>

definition CustomRetentionLogs_2 :: "SchemaMigrationRecord" where
  \<open>CustomRetentionLogs_2 =
    migration 2
      [create_table ''o11y_logs'' ''distributed_logs_attribute_keys''
        [column ''name'' ColumnTypeString [],
         column ''datatype'' ColumnTypeString []]
        []
        []
        (distributed ''o11y_logs'' ''logs_attribute_keys'' ''cityHash64(datatype)'')]
      [drop_table ''o11y_logs'' ''distributed_logs_attribute_keys'' []]\<close>

definition CustomRetentionLogs_3 :: "SchemaMigrationRecord" where
  \<open>CustomRetentionLogs_3 =
    migration 3
      [create_table ''o11y_logs'' ''logs_resource_keys''
        [column ''name'' ColumnTypeString [],
         column ''datatype'' ColumnTypeString []]
        []
        []
        (ReplacingMergeTree (merge_tree ''(name, datatype)'' [] [] [] []
          [setting ''index_granularity'' ''8192'']))]
      [drop_table ''o11y_logs'' ''logs_resource_keys'' []]\<close>

definition CustomRetentionLogs_4 :: "SchemaMigrationRecord" where
  \<open>CustomRetentionLogs_4 =
    migration 4
      [create_table ''o11y_logs'' ''distributed_logs_resource_keys''
        [column ''name'' ColumnTypeString [],
         column ''datatype'' ColumnTypeString []]
        []
        []
        (distributed ''o11y_logs'' ''logs_resource_keys'' ''cityHash64(datatype)'')]
      []\<close>

definition CustomRetentionLogs_5 :: "SchemaMigrationRecord" where
  \<open>CustomRetentionLogs_5 =
    migration 5
      [create_table ''o11y_logs'' ''usage''
        [column ''tenant'' ColumnTypeString ''ZSTD(1)'',
         column ''collector_id'' ColumnTypeString ''ZSTD(1)'',
         column ''exporter_id'' ColumnTypeString ''ZSTD(1)'',
         column ''timestamp'' (DateTimeColumnType []) ''ZSTD(1)'',
         column ''data'' ColumnTypeString ''ZSTD(1)'']
        []
        []
        (MergeTreeEngine (merge_tree ''(tenant, collector_id, exporter_id, timestamp)'' [] [] [] ''timestamp + toIntervalDay(3)''
          [setting ''index_granularity'' ''8192'']))]
      [drop_table ''o11y_logs'' ''usage'' []]\<close>

definition CustomRetentionLogs_6 :: "SchemaMigrationRecord" where
  \<open>CustomRetentionLogs_6 =
    migration 6
      [create_table ''o11y_logs'' ''distributed_usage''
        [column ''tenant'' ColumnTypeString ''ZSTD(1)'',
         column ''collector_id'' ColumnTypeString ''ZSTD(1)'',
         column ''exporter_id'' ColumnTypeString ''ZSTD(1)'',
         column ''timestamp'' (DateTimeColumnType []) ''ZSTD(1)'',
         column ''data'' ColumnTypeString ''ZSTD(1)'']
        []
        []
        (distributed ''o11y_logs'' ''usage'' ''cityHash64(rand())'')]
      [drop_table ''o11y_logs'' ''distributed_usage'' []]\<close>

definition CustomRetentionLogs_7 :: "SchemaMigrationRecord" where
  \<open>CustomRetentionLogs_7 =
    migration 7
      [create_table ''o11y_logs'' ''logs_v2''
        [column ''ts_bucket_start'' ColumnTypeUInt64 ''DoubleDelta, LZ4'',
         column ''resource_fingerprint'' ColumnTypeString ''ZSTD(1)'',
         column ''timestamp'' ColumnTypeUInt64 ''DoubleDelta, LZ4'',
         column ''observed_timestamp'' ColumnTypeUInt64 ''DoubleDelta, LZ4'',
         column ''id'' ColumnTypeString ''ZSTD(1)'',
         column ''trace_id'' ColumnTypeString ''ZSTD(1)'',
         column ''span_id'' ColumnTypeString ''ZSTD(1)'',
         column ''trace_flags'' ColumnTypeUInt32 [],
         column ''severity_text'' (LowCardinalityColumnType ColumnTypeString) ''ZSTD(1)'',
         column ''severity_number'' ColumnTypeUInt8 [],
         column ''body'' ColumnTypeString ''ZSTD(2)'',
         column ''attributes_string'' (MapColumnType (LowCardinalityColumnType ColumnTypeString) ColumnTypeString) ''ZSTD(1)'',
         column ''attributes_number'' (MapColumnType (LowCardinalityColumnType ColumnTypeString) ColumnTypeFloat64) ''ZSTD(1)'',
         column ''attributes_bool'' (MapColumnType (LowCardinalityColumnType ColumnTypeString) ColumnTypeBool) ''ZSTD(1)'',
         column ''resources_string'' (MapColumnType (LowCardinalityColumnType ColumnTypeString) ColumnTypeString) ''ZSTD(1)'',
         column ''scope_name'' ColumnTypeString ''ZSTD(1)'',
         column ''scope_version'' ColumnTypeString ''ZSTD(1)'',
         column ''scope_string'' (MapColumnType (LowCardinalityColumnType ColumnTypeString) ColumnTypeString) ''ZSTD(1)'',
         column_default ''_retention_days'' ColumnTypeUInt16 [] ''15'',
         column_default ''_retention_days_cold'' ColumnTypeUInt16 [] ''0'']
        [index ''id_minmax'' ''id'' ''minmax'' 1,
          index ''severity_number_idx'' ''severity_number'' ''set(25)'' 4,
          index ''severity_text_idx'' ''severity_text'' ''set(25)'' 4,
          index ''trace_flags_idx'' ''trace_flags'' ''bloom_filter'' 4,
          index ''body_index_v2_token'' ''lower(body)'' ''tokenbf_v1(10000, 2, 0)'' 1,
          index ''body_index_v2_ngram'' ''lower(body)'' ''ngrambf_v1(4, 15000, 3, 0)'' 1,
          index ''scope_name_idx'' ''scope_name'' ''tokenbf_v1(10240, 3, 0)'' 4,
          index ''attributes_string_idx_key'' ''mapKeys(attributes_string)'' ''tokenbf_v1(1024, 2, 0)'' 1,
          index ''attributes_string_idx_val'' ''mapValues(attributes_string)'' ''ngrambf_v1(4, 5000, 2, 0)'' 1,
          index ''attributes_number_idx_key'' ''mapKeys(attributes_number)'' ''tokenbf_v1(1024, 2, 0)'' 1,
          index ''attributes_number_idx_val'' ''mapValues(attributes_number)'' ''bloom_filter'' 1,
          index ''attributes_bool_idx_key'' ''mapKeys(attributes_bool)'' ''tokenbf_v1(1024, 2, 0)'' 1]
        []
        (MergeTreeEngine (merge_tree ''(ts_bucket_start, resource_fingerprint, severity_text, timestamp, id)'' [] ''(toDate(timestamp / 1000000000), _retention_days, _retention_days_cold)'' [] ''toDateTime(timestamp / 1000000000) + toIntervalDay(_retention_days)''
          [setting ''index_granularity'' ''8192'', setting ''ttl_only_drop_parts'' ''1'']))]
      [drop_table ''o11y_logs'' ''logs_v2'' []]\<close>

definition CustomRetentionLogs_8 :: "SchemaMigrationRecord" where
  \<open>CustomRetentionLogs_8 =
    migration 8
      [create_table ''o11y_logs'' ''distributed_logs_v2''
        [column ''ts_bucket_start'' ColumnTypeUInt64 ''DoubleDelta, LZ4'',
         column ''resource_fingerprint'' ColumnTypeString ''ZSTD(1)'',
         column ''timestamp'' ColumnTypeUInt64 ''DoubleDelta, LZ4'',
         column ''observed_timestamp'' ColumnTypeUInt64 ''DoubleDelta, LZ4'',
         column ''id'' ColumnTypeString ''ZSTD(1)'',
         column ''trace_id'' ColumnTypeString ''ZSTD(1)'',
         column ''span_id'' ColumnTypeString ''ZSTD(1)'',
         column ''trace_flags'' ColumnTypeUInt32 [],
         column ''severity_text'' (LowCardinalityColumnType ColumnTypeString) ''ZSTD(1)'',
         column ''severity_number'' ColumnTypeUInt8 [],
         column ''body'' ColumnTypeString ''ZSTD(2)'',
         column ''attributes_string'' (MapColumnType (LowCardinalityColumnType ColumnTypeString) ColumnTypeString) ''ZSTD(1)'',
         column ''attributes_number'' (MapColumnType (LowCardinalityColumnType ColumnTypeString) ColumnTypeFloat64) ''ZSTD(1)'',
         column ''attributes_bool'' (MapColumnType (LowCardinalityColumnType ColumnTypeString) ColumnTypeBool) ''ZSTD(1)'',
         column ''resources_string'' (MapColumnType (LowCardinalityColumnType ColumnTypeString) ColumnTypeString) ''ZSTD(1)'',
         column ''scope_name'' ColumnTypeString ''ZSTD(1)'',
         column ''scope_version'' ColumnTypeString ''ZSTD(1)'',
         column ''scope_string'' (MapColumnType (LowCardinalityColumnType ColumnTypeString) ColumnTypeString) ''ZSTD(1)'',
         column_default ''_retention_days'' ColumnTypeUInt16 [] ''15'',
         column_default ''_retention_days_cold'' ColumnTypeUInt16 [] ''0'']
        []
        []
        (distributed ''o11y_logs'' ''logs_v2'' ''cityHash64(id)'')]
      [drop_table ''o11y_logs'' ''distributed_logs_v2'' []]\<close>

definition CustomRetentionLogs_9 :: "SchemaMigrationRecord" where
  \<open>CustomRetentionLogs_9 =
    migration 9
      [create_table ''o11y_logs'' ''logs_v2_resource''
        [column ''labels'' ColumnTypeString ''ZSTD(5)'',
         column ''fingerprint'' ColumnTypeString ''ZSTD(1)'',
         column ''seen_at_ts_bucket_start'' ColumnTypeInt64 ''Delta(8), ZSTD(1)'',
         column_default ''_retention_days'' ColumnTypeUInt16 [] ''15'',
         column_default ''_retention_days_cold'' ColumnTypeUInt16 [] ''0'']
        [index ''idx_labels'' ''lower(labels)'' ''ngrambf_v1(4, 1024, 3, 0)'' 1,
          index ''idx_labels_v1'' ''labels'' ''ngrambf_v1(4, 1024, 3, 0)'' 1]
        []
        (ReplacingMergeTree (merge_tree ''(labels, fingerprint, seen_at_ts_bucket_start)'' [] ''(toDate(seen_at_ts_bucket_start), _retention_days, _retention_days_cold)'' [] ''toDateTime(seen_at_ts_bucket_start) + toIntervalDay(_retention_days) + toIntervalSecond(1800)''
          [setting ''ttl_only_drop_parts'' ''1'', setting ''index_granularity'' ''8192''])),
       create_table ''o11y_logs'' ''distributed_logs_v2_resource''
        [column ''labels'' ColumnTypeString ''ZSTD(5)'',
         column ''fingerprint'' ColumnTypeString ''ZSTD(1)'',
         column ''seen_at_ts_bucket_start'' ColumnTypeInt64 ''Delta(8), ZSTD(1)'',
         column_default ''_retention_days'' ColumnTypeUInt16 [] ''15'',
         column_default ''_retention_days_cold'' ColumnTypeUInt16 [] ''0'']
        []
        []
        (distributed ''o11y_logs'' ''logs_v2_resource'' ''cityHash64(labels, fingerprint)'')]
      [drop_table ''o11y_logs'' ''logs_v2_resource'' [],
       drop_table ''o11y_logs'' ''distributed_logs_v2_resource'' []]\<close>

definition CustomRetentionLogsMigrations_list :: "SchemaMigrationRecord list" where
  \<open>CustomRetentionLogsMigrations_list =
    [CustomRetentionLogs_1, CustomRetentionLogs_2, CustomRetentionLogs_3,
     CustomRetentionLogs_4, CustomRetentionLogs_5, CustomRetentionLogs_6,
     CustomRetentionLogs_7, CustomRetentionLogs_8, CustomRetentionLogs_9]\<close>

section \<open>squashed\_logs\_migrations.go\<close>

definition SquashedLogs_1 :: "SchemaMigrationRecord" where
  \<open>SquashedLogs_1 =
    migration 1
      [create_table ''o11y_logs'' ''logs''
        [column ''timestamp'' ColumnTypeUInt64 ''DoubleDelta, LZ4'',
         column ''observed_timestamp'' ColumnTypeUInt64 ''DoubleDelta, LZ4'',
         column ''id'' ColumnTypeString ''ZSTD(1)'',
         column ''trace_id'' ColumnTypeString ''ZSTD(1)'',
         column ''span_id'' ColumnTypeString ''ZSTD(1)'',
         column ''trace_flags'' ColumnTypeUInt32 [],
         column ''severity_text'' (LowCardinalityColumnType ColumnTypeString) ''ZSTD(1)'',
         column ''severity_number'' ColumnTypeUInt8 [],
         column ''body'' ColumnTypeString ''ZSTD(2)'',
         column ''resources_string_key'' (ArrayColumnType ColumnTypeString) ''ZSTD(1)'',
         column ''resources_string_value'' (ArrayColumnType ColumnTypeString) ''ZSTD(1)'',
         column ''attributes_string_key'' (ArrayColumnType ColumnTypeString) ''ZSTD(1)'',
         column ''attributes_string_value'' (ArrayColumnType ColumnTypeString) ''ZSTD(1)'',
         column ''attributes_int64_key'' (ArrayColumnType ColumnTypeString) ''ZSTD(1)'',
         column ''attributes_int64_value'' (ArrayColumnType ColumnTypeInt64) ''ZSTD(1)'',
         column ''attributes_float64_key'' (ArrayColumnType ColumnTypeString) ''ZSTD(1)'',
         column ''attributes_float64_value'' (ArrayColumnType ColumnTypeFloat64) ''ZSTD(1)'',
         column ''attributes_bool_key'' (ArrayColumnType ColumnTypeString) ''ZSTD(1)'',
         column ''attributes_bool_value'' (ArrayColumnType ColumnTypeBool) ''ZSTD(1)'',
         column ''scope_name'' ColumnTypeString ''ZSTD(1)'',
         column ''scope_version'' ColumnTypeString ''ZSTD(1)'',
         column ''scope_string_key'' (ArrayColumnType ColumnTypeString) ''ZSTD(1)'',
         column ''scope_string_value'' (ArrayColumnType ColumnTypeString) ''ZSTD(1)'']
        [index ''id_minmax'' ''id'' ''minmax'' 1,
          index ''severity_number_idx'' ''severity_number'' ''set(25)'' 4,
          index ''severity_text_idx'' ''severity_text'' ''set(25)'' 4,
          index ''trace_flags_idx'' ''trace_flags'' ''bloom_filter'' 4,
          index ''body_idx'' ''lower(body)'' ''ngrambf_v1(4, 60000, 5, 0)'' 1,
          index ''scope_name_idx'' ''scope_name'' ''tokenbf_v1(10240, 3, 0)'' 4]
        []
        (MergeTreeEngine (merge_tree ''(timestamp, id)'' [] ''toDate(timestamp / 1000000000)'' [] ''toDateTime(timestamp / 1000000000) + toIntervalSecond(1296000)''
          [setting ''index_granularity'' ''8192'', setting ''ttl_only_drop_parts'' ''1'']))]
      [drop_table ''o11y_logs'' ''logs'' []]\<close>

definition SquashedLogs_2 :: "SchemaMigrationRecord" where
  \<open>SquashedLogs_2 =
    migration 2
      [create_table ''o11y_logs'' ''distributed_logs''
        [column ''timestamp'' ColumnTypeUInt64 ''DoubleDelta, LZ4'',
         column ''observed_timestamp'' ColumnTypeUInt64 ''DoubleDelta, LZ4'',
         column ''id'' ColumnTypeString ''ZSTD(1)'',
         column ''trace_id'' ColumnTypeString ''ZSTD(1)'',
         column ''span_id'' ColumnTypeString ''ZSTD(1)'',
         column ''trace_flags'' ColumnTypeUInt32 [],
         column ''severity_text'' (LowCardinalityColumnType ColumnTypeString) ''ZSTD(1)'',
         column ''severity_number'' ColumnTypeUInt8 [],
         column ''body'' ColumnTypeString ''ZSTD(2)'',
         column ''resources_string_key'' (ArrayColumnType ColumnTypeString) ''ZSTD(1)'',
         column ''resources_string_value'' (ArrayColumnType ColumnTypeString) ''ZSTD(1)'',
         column ''attributes_string_key'' (ArrayColumnType ColumnTypeString) ''ZSTD(1)'',
         column ''attributes_string_value'' (ArrayColumnType ColumnTypeString) ''ZSTD(1)'',
         column ''attributes_int64_key'' (ArrayColumnType ColumnTypeString) ''ZSTD(1)'',
         column ''attributes_int64_value'' (ArrayColumnType ColumnTypeInt64) ''ZSTD(1)'',
         column ''attributes_float64_key'' (ArrayColumnType ColumnTypeString) ''ZSTD(1)'',
         column ''attributes_float64_value'' (ArrayColumnType ColumnTypeFloat64) ''ZSTD(1)'',
         column ''attributes_bool_key'' (ArrayColumnType ColumnTypeString) ''ZSTD(1)'',
         column ''attributes_bool_value'' (ArrayColumnType ColumnTypeBool) ''ZSTD(1)'',
         column ''scope_name'' ColumnTypeString ''ZSTD(1)'',
         column ''scope_version'' ColumnTypeString ''ZSTD(1)'',
         column ''scope_string_key'' (ArrayColumnType ColumnTypeString) ''ZSTD(1)'',
         column ''scope_string_value'' (ArrayColumnType ColumnTypeString) ''ZSTD(1)'']
        []
        []
        (distributed ''o11y_logs'' ''logs'' ''cityHash64(id)'')]
      [drop_table ''o11y_logs'' ''distributed_logs'' []]\<close>

definition SquashedLogs_3 :: "SchemaMigrationRecord" where
  \<open>SquashedLogs_3 =
    migration 3
      [create_table ''o11y_logs'' ''logs_attribute_keys''
        [column ''name'' ColumnTypeString [],
         column ''datatype'' ColumnTypeString []]
        []
        []
        (ReplacingMergeTree (merge_tree ''(name, datatype)'' [] [] [] []
          [setting ''index_granularity'' ''8192'']))]
      [drop_table ''o11y_logs'' ''logs_attribute_keys'' []]\<close>

definition SquashedLogs_4 :: "SchemaMigrationRecord" where
  \<open>SquashedLogs_4 =
    migration 4
      [create_table ''o11y_logs'' ''distributed_logs_attribute_keys''
        [column ''name'' ColumnTypeString [],
         column ''datatype'' ColumnTypeString []]
        []
        []
        (distributed ''o11y_logs'' ''logs_attribute_keys'' ''cityHash64(datatype)'')]
      [drop_table ''o11y_logs'' ''distributed_logs_attribute_keys'' []]\<close>

definition SquashedLogs_5 :: "SchemaMigrationRecord" where
  \<open>SquashedLogs_5 =
    migration 5
      [create_view ''o11y_logs'' ''attribute_keys_bool_final_mv'' ''logs_attribute_keys''
        [column ''name'' ColumnTypeString [],
         column ''datatype'' ColumnTypeString []]
        ''SELECT DISTINCT\<newline>    arrayJoin(attributes_bool_key) AS name,\<newline>    'Bool' AS datatype\<newline>FROM o11y_logs.logs\<newline>ORDER BY name ASC'']
      [drop_table ''o11y_logs'' ''attribute_keys_bool_final_mv'' []]\<close>

definition SquashedLogs_6 :: "SchemaMigrationRecord" where
  \<open>SquashedLogs_6 =
    migration 6
      [create_view ''o11y_logs'' ''attribute_keys_float64_final_mv'' ''logs_attribute_keys''
        [column ''name'' ColumnTypeString [],
         column ''datatype'' ColumnTypeString []]
        ''SELECT DISTINCT\<newline>    arrayJoin(attributes_float64_key) AS name,\<newline>    'Float64' AS datatype\<newline>FROM o11y_logs.logs\<newline>ORDER BY name ASC'']
      [drop_table ''o11y_logs'' ''attribute_keys_float64_final_mv'' []]\<close>

definition SquashedLogs_7 :: "SchemaMigrationRecord" where
  \<open>SquashedLogs_7 =
    migration 7
      [create_view ''o11y_logs'' ''attribute_keys_int64_final_mv'' ''logs_attribute_keys''
        [column ''name'' ColumnTypeString [],
         column ''datatype'' ColumnTypeString []]
        ''SELECT DISTINCT\<newline>    arrayJoin(attributes_int64_key) AS name,\<newline>    'Int64' AS datatype\<newline>FROM o11y_logs.logs\<newline>ORDER BY name ASC'']
      [drop_table ''o11y_logs'' ''attribute_keys_int64_final_mv'' []]\<close>

definition SquashedLogs_8 :: "SchemaMigrationRecord" where
  \<open>SquashedLogs_8 =
    migration 8
      [create_view ''o11y_logs'' ''attribute_keys_string_final_mv'' ''logs_attribute_keys''
        [column ''name'' ColumnTypeString [],
         column ''datatype'' ColumnTypeString []]
        ''SELECT DISTINCT\<newline>    arrayJoin(attributes_string_key) AS name,\<newline>    'String' AS datatype\<newline>FROM o11y_logs.logs\<newline>ORDER BY name ASC'']
      [drop_table ''o11y_logs'' ''attribute_keys_string_final_mv'' []]\<close>

definition SquashedLogs_9 :: "SchemaMigrationRecord" where
  \<open>SquashedLogs_9 =
    migration 9
      [create_table ''o11y_logs'' ''logs_resource_keys''
        [column ''name'' ColumnTypeString [],
         column ''datatype'' ColumnTypeString []]
        []
        []
        (ReplacingMergeTree (merge_tree ''(name, datatype)'' [] [] [] []
          [setting ''index_granularity'' ''8192'']))]
      [drop_table ''o11y_logs'' ''logs_resource_keys'' []]\<close>

definition SquashedLogs_10 :: "SchemaMigrationRecord" where
  \<open>SquashedLogs_10 =
    migration 10
      [create_table ''o11y_logs'' ''distributed_logs_resource_keys''
        [column ''name'' ColumnTypeString [],
         column ''datatype'' ColumnTypeString []]
        []
        []
        (distributed ''o11y_logs'' ''logs_resource_keys'' ''cityHash64(datatype)'')]
      []\<close>

definition SquashedLogs_11 :: "SchemaMigrationRecord" where
  \<open>SquashedLogs_11 =
    migration 11
      [create_view ''o11y_logs'' ''resource_keys_string_final_mv'' ''logs_resource_keys''
        [column ''name'' ColumnTypeString [],
         column ''datatype'' ColumnTypeString []]
        ''SELECT DISTINCT\<newline>    arrayJoin(resources_string_key) AS name,\<newline>    'String' AS datatype\<newline>FROM o11y_logs.logs\<newline>ORDER BY name ASC'']
      [drop_table ''o11y_logs'' ''resource_keys_string_final_mv'' []]\<close>

definition SquashedLogs_12 :: "SchemaMigrationRecord" where
  \<open>SquashedLogs_12 =
    migration 12
      [create_table ''o11y_logs'' ''tag_attributes''
        [column ''timestamp'' (DateTimeColumnType []) ''ZSTD(1)'',
         column ''tagKey'' (LowCardinalityColumnType ColumnTypeString) ''ZSTD(1)'',
         column ''tagType'' (EnumerationColumnType [(quoted ''tag'' @ '' = 1''), (quoted ''resource'' @ '' = 2''), (quoted ''scope'' @ '' = 3'')] 8) ''ZSTD(1)'',
         column ''tagDataType'' (EnumerationColumnType [(quoted ''string'' @ '' = 1''), (quoted ''bool'' @ '' = 2''), (quoted ''int64'' @ '' = 3''), (quoted ''float64'' @ '' = 4'')] 8) ''ZSTD(1)'',
         column ''stringTagValue'' ColumnTypeString ''ZSTD(1)'',
         column ''int64TagValue'' (NullableColumnType ColumnTypeInt64) ''ZSTD(1)'',
         column ''float64TagValue'' (NullableColumnType ColumnTypeFloat64) ''ZSTD(1)'']
        []
        []
        (ReplacingMergeTree (merge_tree ''(tagKey, tagType, tagDataType, stringTagValue, int64TagValue, float64TagValue)'' [] [] [] ''toDateTime(timestamp) + toIntervalSecond(172800)''
          [setting ''index_granularity'' ''8192'', setting ''ttl_only_drop_parts'' ''1'', setting ''allow_nullable_key'' ''1'']))]
      [drop_table ''o11y_logs'' ''tag_attributes'' []]\<close>

definition SquashedLogs_13 :: "SchemaMigrationRecord" where
  \<open>SquashedLogs_13 =
    migration 13
      [create_table ''o11y_logs'' ''distributed_tag_attributes''
        [column ''timestamp'' (DateTimeColumnType []) ''ZSTD(1)'',
         column ''tagKey'' (LowCardinalityColumnType ColumnTypeString) ''ZSTD(1)'',
         column ''tagType'' (EnumerationColumnType [(quoted ''tag'' @ '' = 1''), (quoted ''resource'' @ '' = 2''), (quoted ''scope'' @ '' = 3'')] 8) ''ZSTD(1)'',
         column ''tagDataType'' (EnumerationColumnType [(quoted ''string'' @ '' = 1''), (quoted ''bool'' @ '' = 2''), (quoted ''int64'' @ '' = 3''), (quoted ''float64'' @ '' = 4'')] 8) ''ZSTD(1)'',
         column ''stringTagValue'' ColumnTypeString ''ZSTD(1)'',
         column ''int64TagValue'' (NullableColumnType ColumnTypeInt64) ''ZSTD(1)'',
         column ''float64TagValue'' (NullableColumnType ColumnTypeFloat64) ''ZSTD(1)'']
        []
        []
        (distributed ''o11y_logs'' ''tag_attributes'' ''rand()'')]
      [drop_table ''o11y_logs'' ''distributed_tag_attributes'' []]\<close>

definition SquashedLogs_14 :: "SchemaMigrationRecord" where
  \<open>SquashedLogs_14 =
    migration 14
      [create_table ''o11y_logs'' ''usage''
        [column ''tenant'' ColumnTypeString ''ZSTD(1)'',
         column ''collector_id'' ColumnTypeString ''ZSTD(1)'',
         column ''exporter_id'' ColumnTypeString ''ZSTD(1)'',
         column ''timestamp'' (DateTimeColumnType []) ''ZSTD(1)'',
         column ''data'' ColumnTypeString ''ZSTD(1)'']
        []
        []
        (MergeTreeEngine (merge_tree ''(tenant, collector_id, exporter_id, timestamp)'' [] [] [] ''timestamp + toIntervalDay(3)''
          [setting ''index_granularity'' ''8192'']))]
      [drop_table ''o11y_logs'' ''usage'' []]\<close>

definition SquashedLogs_15 :: "SchemaMigrationRecord" where
  \<open>SquashedLogs_15 =
    migration 15
      [create_table ''o11y_logs'' ''distributed_usage''
        [column ''tenant'' ColumnTypeString ''ZSTD(1)'',
         column ''collector_id'' ColumnTypeString ''ZSTD(1)'',
         column ''exporter_id'' ColumnTypeString ''ZSTD(1)'',
         column ''timestamp'' (DateTimeColumnType []) ''ZSTD(1)'',
         column ''data'' ColumnTypeString ''ZSTD(1)'']
        []
        []
        (distributed ''o11y_logs'' ''usage'' ''cityHash64(rand())'')]
      [drop_table ''o11y_logs'' ''distributed_usage'' []]\<close>

definition SquashedLogs_16 :: "SchemaMigrationRecord" where
  \<open>SquashedLogs_16 =
    migration 16
      [create_table ''o11y_logs'' ''logs_v2''
        [column ''ts_bucket_start'' ColumnTypeUInt64 ''DoubleDelta, LZ4'',
         column ''resource_fingerprint'' ColumnTypeString ''ZSTD(1)'',
         column ''timestamp'' ColumnTypeUInt64 ''DoubleDelta, LZ4'',
         column ''observed_timestamp'' ColumnTypeUInt64 ''DoubleDelta, LZ4'',
         column ''id'' ColumnTypeString ''ZSTD(1)'',
         column ''trace_id'' ColumnTypeString ''ZSTD(1)'',
         column ''span_id'' ColumnTypeString ''ZSTD(1)'',
         column ''trace_flags'' ColumnTypeUInt32 [],
         column ''severity_text'' (LowCardinalityColumnType ColumnTypeString) ''ZSTD(1)'',
         column ''severity_number'' ColumnTypeUInt8 [],
         column ''body'' ColumnTypeString ''ZSTD(2)'',
         column ''attributes_string'' (MapColumnType (LowCardinalityColumnType ColumnTypeString) ColumnTypeString) ''ZSTD(1)'',
         column ''attributes_number'' (MapColumnType (LowCardinalityColumnType ColumnTypeString) ColumnTypeFloat64) ''ZSTD(1)'',
         column ''attributes_bool'' (MapColumnType (LowCardinalityColumnType ColumnTypeString) ColumnTypeBool) ''ZSTD(1)'',
         column ''resources_string'' (MapColumnType (LowCardinalityColumnType ColumnTypeString) ColumnTypeString) ''ZSTD(1)'',
         column ''scope_name'' ColumnTypeString ''ZSTD(1)'',
         column ''scope_version'' ColumnTypeString ''ZSTD(1)'',
         column ''scope_string'' (MapColumnType (LowCardinalityColumnType ColumnTypeString) ColumnTypeString) ''ZSTD(1)'']
        [index ''id_minmax'' ''id'' ''minmax'' 1,
          index ''severity_number_idx'' ''severity_number'' ''set(25)'' 4,
          index ''severity_text_idx'' ''severity_text'' ''set(25)'' 4,
          index ''trace_flags_idx'' ''trace_flags'' ''bloom_filter'' 4,
          index ''body_idx'' ''lower(body)'' ''ngrambf_v1(4, 60000, 5, 0)'' 1,
          index ''scope_name_idx'' ''scope_name'' ''tokenbf_v1(10240, 3, 0)'' 4,
          index ''attributes_string_idx_key'' ''mapKeys(attributes_string)'' ''tokenbf_v1(1024, 2, 0)'' 1,
          index ''attributes_string_idx_val'' ''mapValues(attributes_string)'' ''ngrambf_v1(4, 5000, 2, 0)'' 1,
          index ''attributes_number_idx_key'' ''mapKeys(attributes_number)'' ''tokenbf_v1(1024, 2, 0)'' 1,
          index ''attributes_number_idx_val'' ''mapValues(attributes_number)'' ''bloom_filter'' 1,
          index ''attributes_bool_idx_key'' ''mapKeys(attributes_bool)'' ''tokenbf_v1(1024, 2, 0)'' 1]
        []
        (MergeTreeEngine (merge_tree ''(ts_bucket_start, resource_fingerprint, severity_text, timestamp, id)'' [] ''toDate(timestamp / 1000000000)'' [] ''toDateTime(timestamp / 1000000000) + toIntervalSecond(1296000)''
          [setting ''index_granularity'' ''8192'', setting ''ttl_only_drop_parts'' ''1'']))]
      [drop_table ''o11y_logs'' ''logs_v2'' []]\<close>

definition SquashedLogs_17 :: "SchemaMigrationRecord" where
  \<open>SquashedLogs_17 =
    migration 17
      [create_table ''o11y_logs'' ''distributed_logs_v2''
        [column ''ts_bucket_start'' ColumnTypeUInt64 ''DoubleDelta, LZ4'',
         column ''resource_fingerprint'' ColumnTypeString ''ZSTD(1)'',
         column ''timestamp'' ColumnTypeUInt64 ''DoubleDelta, LZ4'',
         column ''observed_timestamp'' ColumnTypeUInt64 ''DoubleDelta, LZ4'',
         column ''id'' ColumnTypeString ''ZSTD(1)'',
         column ''trace_id'' ColumnTypeString ''ZSTD(1)'',
         column ''span_id'' ColumnTypeString ''ZSTD(1)'',
         column ''trace_flags'' ColumnTypeUInt32 [],
         column ''severity_text'' (LowCardinalityColumnType ColumnTypeString) ''ZSTD(1)'',
         column ''severity_number'' ColumnTypeUInt8 [],
         column ''body'' ColumnTypeString ''ZSTD(2)'',
         column ''attributes_string'' (MapColumnType (LowCardinalityColumnType ColumnTypeString) ColumnTypeString) ''ZSTD(1)'',
         column ''attributes_number'' (MapColumnType (LowCardinalityColumnType ColumnTypeString) ColumnTypeFloat64) ''ZSTD(1)'',
         column ''attributes_bool'' (MapColumnType (LowCardinalityColumnType ColumnTypeString) ColumnTypeBool) ''ZSTD(1)'',
         column ''resources_string'' (MapColumnType (LowCardinalityColumnType ColumnTypeString) ColumnTypeString) ''ZSTD(1)'',
         column ''scope_name'' ColumnTypeString ''ZSTD(1)'',
         column ''scope_version'' ColumnTypeString ''ZSTD(1)'',
         column ''scope_string'' (MapColumnType (LowCardinalityColumnType ColumnTypeString) ColumnTypeString) ''ZSTD(1)'']
        []
        []
        (distributed ''o11y_logs'' ''logs_v2'' ''cityHash64(id)'')]
      [drop_table ''o11y_logs'' ''distributed_logs_v2'' []]\<close>

definition SquashedLogs_18 :: "SchemaMigrationRecord" where
  \<open>SquashedLogs_18 =
    migration 18
      [drop_table ''o11y_logs'' ''resource_keys_string_final_mv'' [],
       drop_table ''o11y_logs'' ''attribute_keys_float64_final_mv'' [],
       drop_table ''o11y_logs'' ''attribute_keys_int64_final_mv'' [],
       drop_table ''o11y_logs'' ''attribute_keys_string_final_mv'' [],
       drop_table ''o11y_logs'' ''attribute_keys_bool_final_mv'' []]
      []\<close>

definition SquashedLogs_19 :: "SchemaMigrationRecord" where
  \<open>SquashedLogs_19 =
    migration 19
      [create_view ''o11y_logs'' ''attribute_keys_string_final_mv'' ''logs_attribute_keys''
        [column ''name'' ColumnTypeString [],
         column ''datatype'' ColumnTypeString []]
        ''SELECT DISTINCT\<newline>    arrayJoin(mapKeys(attributes_string)) AS name,\<newline>    'String' AS datatype\<newline>FROM o11y_logs.logs_v2\<newline>ORDER BY name ASC'',
       create_view ''o11y_logs'' ''attribute_keys_float64_final_mv'' ''logs_attribute_keys''
        [column ''name'' ColumnTypeString [],
         column ''datatype'' ColumnTypeString []]
        ''SELECT DISTINCT\<newline>    arrayJoin(mapKeys(attributes_number)) AS name,\<newline>    'Float64' AS datatype\<newline>FROM o11y_logs.logs_v2\<newline>ORDER BY name ASC'',
       create_view ''o11y_logs'' ''attribute_keys_bool_final_mv'' ''logs_attribute_keys''
        [column ''name'' ColumnTypeString [],
         column ''datatype'' ColumnTypeString []]
        ''SELECT DISTINCT\<newline>    arrayJoin(mapKeys(attributes_bool)) AS name,\<newline>    'Bool' AS datatype\<newline>FROM o11y_logs.logs_v2\<newline>ORDER BY name ASC'',
       create_view ''o11y_logs'' ''resource_keys_string_final_mv'' ''logs_resource_keys''
        [column ''name'' ColumnTypeString [],
         column ''datatype'' ColumnTypeString []]
        ''SELECT DISTINCT\<newline>    arrayJoin(mapKeys(resources_string)) AS name,\<newline>    'String' AS datatype\<newline>FROM o11y_logs.logs_v2\<newline>ORDER BY name ASC'']
      []\<close>

definition SquashedLogs_20 :: "SchemaMigrationRecord" where
  \<open>SquashedLogs_20 =
    migration 20
      [create_table ''o11y_logs'' ''logs_v2_resource''
        [column ''labels'' ColumnTypeString ''ZSTD(5)'',
         column ''fingerprint'' ColumnTypeString ''ZSTD(1)'',
         column ''seen_at_ts_bucket_start'' ColumnTypeInt64 ''Delta(8), ZSTD(1)'']
        [index ''idx_labels'' ''lower(labels)'' ''ngrambf_v1(4, 1024, 3, 0)'' 1,
          index ''idx_labels_v1'' ''labels'' ''ngrambf_v1(4, 1024, 3, 0)'' 1]
        []
        (ReplacingMergeTree (merge_tree ''(labels, fingerprint, seen_at_ts_bucket_start)'' [] ''toDate(seen_at_ts_bucket_start / 1000)'' [] ''toDateTime(seen_at_ts_bucket_start) + INTERVAL 1296000 SECOND + INTERVAL 1800 SECOND DELETE''
          [setting ''ttl_only_drop_parts'' ''1'', setting ''index_granularity'' ''8192''])),
       create_table ''o11y_logs'' ''distributed_logs_v2_resource''
        [column ''labels'' ColumnTypeString ''ZSTD(5)'',
         column ''fingerprint'' ColumnTypeString ''ZSTD(1)'',
         column ''seen_at_ts_bucket_start'' ColumnTypeInt64 ''Delta(8), ZSTD(1)'']
        []
        []
        (distributed ''o11y_logs'' ''logs_v2_resource'' ''cityHash64(labels, fingerprint)'')]
      [drop_table ''o11y_logs'' ''logs_v2_resource'' [],
       drop_table ''o11y_logs'' ''distributed_logs_v2_resource'' []]\<close>

definition SquashedLogsMigrations_list :: "SchemaMigrationRecord list" where
  \<open>SquashedLogsMigrations_list =
    [SquashedLogs_1, SquashedLogs_2, SquashedLogs_3, SquashedLogs_4, SquashedLogs_5,
     SquashedLogs_6, SquashedLogs_7, SquashedLogs_8, SquashedLogs_9, SquashedLogs_10,
     SquashedLogs_11, SquashedLogs_12, SquashedLogs_13, SquashedLogs_14, SquashedLogs_15,
     SquashedLogs_16, SquashedLogs_17, SquashedLogs_18, SquashedLogs_19, SquashedLogs_20]\<close>

end
