(* ===== verification/ShippedTraces.thy ===== *)
theory ShippedTraces
  imports SchemaCatalog
begin

text \<open>
  The shipped migrations, as they stand in the source: the migrations of the traces.
  One definition per migration, and one per operation where a migration is long.
\<close>

section \<open>traces\_migrations.go\<close>

definition Traces_1000_up1 :: "Operation" where
  \<open>Traces_1000_up1 =
    create_table ''o11y_traces'' ''o11y_index_v3''
      [column ''ts_bucket_start'' ColumnTypeUInt64 ''DoubleDelta, LZ4'',
       column ''resource_fingerprint'' ColumnTypeString ''ZSTD(1)'',
       column ''timestamp'' (DateTime64ColumnType 9 []) ''DoubleDelta, LZ4'',
       column ''trace_id'' (FixedStringColumnType 32) ''ZSTD(1)'',
       column ''span_id'' ColumnTypeString ''ZSTD(1)'',
       column ''trace_state'' ColumnTypeString ''ZSTD(1)'',
       column ''parent_span_id'' ColumnTypeString ''ZSTD(1)'',
       column ''flags'' ColumnTypeUInt32 ''T64, ZSTD(1)'',
       column ''name'' (LowCardinalityColumnType ColumnTypeString) ''ZSTD(1)'',
       column ''kind'' ColumnTypeInt8 ''T64, ZSTD(1)'',
       column ''kind_string'' ColumnTypeString ''ZSTD(1)'',
       column ''duration_nano'' ColumnTypeUInt64 ''T64, ZSTD(1)'',
       column ''status_code'' ColumnTypeInt16 ''T64, ZSTD(1)'',
       column ''status_message'' ColumnTypeString ''ZSTD(1)'',
       column ''status_code_string'' ColumnTypeString ''ZSTD(1)'',
       column ''attributes_string'' (MapColumnType (LowCardinalityColumnType ColumnTypeString) ColumnTypeString) ''ZSTD(1)'',
       column ''attributes_number'' (MapColumnType (LowCardinalityColumnType ColumnTypeString) ColumnTypeFloat64) ''ZSTD(1)'',
       column ''attributes_bool'' (MapColumnType (LowCardinalityColumnType ColumnTypeString) ColumnTypeBool) ''ZSTD(1)'',
       column ''resources_string'' (MapColumnType (LowCardinalityColumnType ColumnTypeString) ColumnTypeString) ''ZSTD(1)'',
       column ''events'' (ArrayColumnType ColumnTypeString) ''ZSTD(2)'',
       column ''links'' ColumnTypeString ''ZSTD(1)'',
       column ''response_status_code'' (LowCardinalityColumnType ColumnTypeString) ''ZSTD(1)'',
       column ''external_http_url'' (LowCardinalityColumnType ColumnTypeString) ''ZSTD(1)'',
       column ''http_url'' (LowCardinalityColumnType ColumnTypeString) ''ZSTD(1)'',
       column ''external_http_method'' (LowCardinalityColumnType ColumnTypeString) ''ZSTD(1)'',
       column ''http_method'' (LowCardinalityColumnType ColumnTypeString) ''ZSTD(1)'',
       column ''http_host'' (LowCardinalityColumnType ColumnTypeString) ''ZSTD(1)'',
       column ''db_name'' (LowCardinalityColumnType ColumnTypeString) ''ZSTD(1)'',
       column ''db_operation'' (LowCardinalityColumnType ColumnTypeString) ''ZSTD(1)'',
       column ''has_error'' ColumnTypeBool ''T64, ZSTD(1)'',
       column ''is_remote'' (LowCardinalityColumnType ColumnTypeString) ''ZSTD(1)'',
       column_default ''resource_string_service$$name'' (LowCardinalityColumnType ColumnTypeString) ''ZSTD(1)'' ''resources_string['service.name']'',
       column_default ''attribute_string_http$$route'' (LowCardinalityColumnType ColumnTypeString) ''ZSTD(1)'' ''attributes_string['http.route']'',
       column_default ''attribute_string_messaging$$system'' (LowCardinalityColumnType ColumnTypeString) ''ZSTD(1)'' ''attributes_string['messaging.system']'',
       column_default ''attribute_string_messaging$$operation'' (LowCardinalityColumnType ColumnTypeString) ''ZSTD(1)'' ''attributes_string['messaging.operation']'',
       column_default ''attribute_string_db$$system'' (LowCardinalityColumnType ColumnTypeString) ''ZSTD(1)'' ''attributes_string['db.system']'',
       column_default ''attribute_string_rpc$$system'' (LowCardinalityColumnType ColumnTypeString) ''ZSTD(1)'' ''attributes_string['rpc.system']'',
       column_default ''attribute_string_rpc$$service'' (LowCardinalityColumnType ColumnTypeString) ''ZSTD(1)'' ''attributes_string['rpc.service']'',
       column_default ''attribute_string_rpc$$method'' (LowCardinalityColumnType ColumnTypeString) ''ZSTD(1)'' ''attributes_string['rpc.method']'',
       column_default ''attribute_string_peer$$service'' (LowCardinalityColumnType ColumnTypeString) ''ZSTD(1)'' ''attributes_string['peer.service']'',
       column_alias ''traceID'' (FixedStringColumnType 32) ''trace_id'',
       column_alias ''spanID'' ColumnTypeString ''span_id'',
       column_alias ''parentSpanID'' ColumnTypeString ''parent_span_id'',
       column_alias ''spanKind'' ColumnTypeString ''kind_string'',
       column_alias ''durationNano'' ColumnTypeUInt64 ''duration_nano'',
       column_alias ''statusCode'' ColumnTypeInt16 ''status_code'',
       column_alias ''statusMessage'' ColumnTypeString ''status_message'',
       column_alias ''statusCodeString'' ColumnTypeString ''status_code_string'',
       column_alias ''references'' ColumnTypeString ''links'',
       column_alias ''responseStatusCode'' (LowCardinalityColumnType ColumnTypeString) ''response_status_code'',
       column_alias ''externalHttpUrl'' (LowCardinalityColumnType ColumnTypeString) ''external_http_url'',
       column_alias ''httpUrl'' (LowCardinalityColumnType ColumnTypeString) ''http_url'',
       column_alias ''externalHttpMethod'' (LowCardinalityColumnType ColumnTypeString) ''external_http_method'',
       column_alias ''httpMethod'' (LowCardinalityColumnType ColumnTypeString) ''http_method'',
       column_alias ''httpHost'' (LowCardinalityColumnType ColumnTypeString) ''http_host'',
       column_alias ''dbName'' (LowCardinalityColumnType ColumnTypeString) ''db_name'',
       column_alias ''dbOperation'' (LowCardinalityColumnType ColumnTypeString) ''db_operation'',
       column_alias ''hasError'' ColumnTypeBool ''has_error'',
       column_alias ''isRemote'' (LowCardinalityColumnType ColumnTypeString) ''is_remote'',
       column_alias ''serviceName'' (LowCardinalityColumnType ColumnTypeString) ''resource_string_service$$name'',
       column_alias ''httpRoute'' (LowCardinalityColumnType ColumnTypeString) ''attribute_string_http$$route'',
       column_alias ''msgSystem'' (LowCardinalityColumnType ColumnTypeString) ''attribute_string_messaging$$system'',
       column_alias ''msgOperation'' (LowCardinalityColumnType ColumnTypeString) ''attribute_string_messaging$$operation'',
       column_alias ''dbSystem'' (LowCardinalityColumnType ColumnTypeString) ''attribute_string_db$$system'',
       column_alias ''rpcSystem'' (LowCardinalityColumnType ColumnTypeString) ''attribute_string_rpc$$system'',
       column_alias ''rpcService'' (LowCardinalityColumnType ColumnTypeString) ''attribute_string_rpc$$service'',
       column_alias ''rpcMethod'' (LowCardinalityColumnType ColumnTypeString) ''attribute_string_rpc$$method'',
       column_alias ''peerService'' (LowCardinalityColumnType ColumnTypeString) ''attribute_string_peer$$service'']
      [index ''idx_trace_id'' ''trace_id'' ''tokenbf_v1(10000, 5,0)'' 1,
        index ''idx_span_id'' ''span_id'' ''tokenbf_v1(5000, 5,0)'' 1,
        index ''idx_duration'' ''duration_nano'' ''minmax'' 1,
        index ''idx_name'' ''name'' ''ngrambf_v1(4, 5000, 2, 0)'' 1,
        index ''idx_kind'' ''kind'' ''minmax'' 4,
        index ''idx_http_route'' ''attribute_string_http$$route'' ''bloom_filter'' 4,
        index ''idx_http_url'' ''http_url'' ''bloom_filter'' 4,
        index ''idx_http_host'' ''http_host'' ''bloom_filter'' 4,
        index ''idx_http_method'' ''http_method'' ''bloom_filter'' 4,
        index ''idx_timestamp'' ''timestamp'' ''minmax'' 1,
        index ''idx_rpc_method'' ''attribute_string_rpc$$method'' ''bloom_filter'' 4,
        index ''idx_response_statusCode'' ''response_status_code'' ''set(0)'' 1,
        index ''idx_status_code_string'' ''status_code_string'' ''set(3)'' 4,
        index ''idx_kind_string'' ''kind_string'' ''set(5)'' 4,
        index ''attributes_string_idx_key'' ''mapKeys(attributes_string)'' ''tokenbf_v1(1024, 2, 0)'' 1,
        index ''attributes_string_idx_val'' ''mapValues(attributes_string)'' ''ngrambf_v1(4, 5000, 2, 0)'' 1,
        index ''attributes_number_idx_key'' ''mapKeys(attributes_number)'' ''tokenbf_v1(1024, 2, 0)'' 1,
        index ''attributes_number_idx_val'' ''mapValues(attributes_number)'' ''bloom_filter'' 1,
        index ''attributes_bool_idx_key'' ''mapKeys(attributes_bool)'' ''tokenbf_v1(1024, 2, 0)'' 1,
        index ''resources_string_idx_key'' ''mapKeys(resources_string)'' ''tokenbf_v1(1024, 2, 0)'' 1,
        index ''resources_string_idx_val'' ''mapValues(resources_string)'' ''ngrambf_v1(4, 5000, 2, 0)'' 1]
      []
      (MergeTreeEngine (merge_tree ''(ts_bucket_start, resource_fingerprint, has_error, name, timestamp)'' [] ''toDate(timestamp)'' [] ''toDateTime(timestamp) + toIntervalSecond(1296000)''
        [setting ''index_granularity'' ''8192'', setting ''ttl_only_drop_parts'' ''1'']))\<close>

definition Traces_1000_up2 :: "Operation" where
  \<open>Traces_1000_up2 =
    create_table ''o11y_traces'' ''distributed_o11y_index_v3''
      [column ''ts_bucket_start'' ColumnTypeUInt64 ''DoubleDelta, LZ4'',
       column ''resource_fingerprint'' ColumnTypeString ''ZSTD(1)'',
       column ''timestamp'' (DateTime64ColumnType 9 []) ''DoubleDelta, LZ4'',
       column ''trace_id'' (FixedStringColumnType 32) ''ZSTD(1)'',
       column ''span_id'' ColumnTypeString ''ZSTD(1)'',
       column ''trace_state'' ColumnTypeString ''ZSTD(1)'',
       column ''parent_span_id'' ColumnTypeString ''ZSTD(1)'',
       column ''flags'' ColumnTypeUInt32 ''T64, ZSTD(1)'',
       column ''name'' (LowCardinalityColumnType ColumnTypeString) ''ZSTD(1)'',
       column ''kind'' ColumnTypeInt8 ''T64, ZSTD(1)'',
       column ''kind_string'' ColumnTypeString ''ZSTD(1)'',
       column ''duration_nano'' ColumnTypeUInt64 ''T64, ZSTD(1)'',
       column ''status_code'' ColumnTypeInt16 ''T64, ZSTD(1)'',
       column ''status_message'' ColumnTypeString ''ZSTD(1)'',
       column ''status_code_string'' ColumnTypeString ''ZSTD(1)'',
       column ''attributes_string'' (MapColumnType (LowCardinalityColumnType ColumnTypeString) ColumnTypeString) ''ZSTD(1)'',
       column ''attributes_number'' (MapColumnType (LowCardinalityColumnType ColumnTypeString) ColumnTypeFloat64) ''ZSTD(1)'',
       column ''attributes_bool'' (MapColumnType (LowCardinalityColumnType ColumnTypeString) ColumnTypeBool) ''ZSTD(1)'',
       column ''resources_string'' (MapColumnType (LowCardinalityColumnType ColumnTypeString) ColumnTypeString) ''ZSTD(1)'',
       column ''events'' (ArrayColumnType ColumnTypeString) ''ZSTD(2)'',
       column ''links'' ColumnTypeString ''ZSTD(1)'',
       column ''response_status_code'' (LowCardinalityColumnType ColumnTypeString) ''ZSTD(1)'',
       column ''external_http_url'' (LowCardinalityColumnType ColumnTypeString) ''ZSTD(1)'',
       column ''http_url'' (LowCardinalityColumnType ColumnTypeString) ''ZSTD(1)'',
       column ''external_http_method'' (LowCardinalityColumnType ColumnTypeString) ''ZSTD(1)'',
       column ''http_method'' (LowCardinalityColumnType ColumnTypeString) ''ZSTD(1)'',
       column ''http_host'' (LowCardinalityColumnType ColumnTypeString) ''ZSTD(1)'',
       column ''db_name'' (LowCardinalityColumnType ColumnTypeString) ''ZSTD(1)'',
       column ''db_operation'' (LowCardinalityColumnType ColumnTypeString) ''ZSTD(1)'',
       column ''has_error'' ColumnTypeBool ''T64, ZSTD(1)'',
       column ''is_remote'' (LowCardinalityColumnType ColumnTypeString) ''ZSTD(1)'',
       column_default ''resource_string_service$$name'' (LowCardinalityColumnType ColumnTypeString) ''ZSTD(1)'' ''resources_string['service.name']'',
       column_default ''attribute_string_http$$route'' (LowCardinalityColumnType ColumnTypeString) ''ZSTD(1)'' ''attributes_string['http.route']'',
       column_default ''attribute_string_messaging$$system'' (LowCardinalityColumnType ColumnTypeString) ''ZSTD(1)'' ''attributes_string['messaging.system']'',
       column_default ''attribute_string_messaging$$operation'' (LowCardinalityColumnType ColumnTypeString) ''ZSTD(1)'' ''attributes_string['messaging.operation']'',
       column_default ''attribute_string_db$$system'' (LowCardinalityColumnType ColumnTypeString) ''ZSTD(1)'' ''attributes_string['db.system']'',
       column_default ''attribute_string_rpc$$system'' (LowCardinalityColumnType ColumnTypeString) ''ZSTD(1)'' ''attributes_string['rpc.system']'',
       column_default ''attribute_string_rpc$$service'' (LowCardinalityColumnType ColumnTypeString) ''ZSTD(1)'' ''attributes_string['rpc.service']'',
       column_default ''attribute_string_rpc$$method'' (LowCardinalityColumnType ColumnTypeString) ''ZSTD(1)'' ''attributes_string['rpc.method']'',
       column_default ''attribute_string_peer$$service'' (LowCardinalityColumnType ColumnTypeString) ''ZSTD(1)'' ''attributes_string['peer.service']'',
       column_alias ''traceID'' (FixedStringColumnType 32) ''trace_id'',
       column_alias ''spanID'' ColumnTypeString ''span_id'',
       column_alias ''parentSpanID'' ColumnTypeString ''parent_span_id'',
       column_alias ''spanKind'' ColumnTypeString ''kind_string'',
       column_alias ''durationNano'' ColumnTypeUInt64 ''duration_nano'',
       column_alias ''statusCode'' ColumnTypeInt16 ''status_code'',
       column_alias ''statusMessage'' ColumnTypeString ''status_message'',
       column_alias ''statusCodeString'' ColumnTypeString ''status_code_string'',
       column_alias ''references'' ColumnTypeString ''links'',
       column_alias ''responseStatusCode'' (LowCardinalityColumnType ColumnTypeString) ''response_status_code'',
       column_alias ''externalHttpUrl'' (LowCardinalityColumnType ColumnTypeString) ''external_http_url'',
       column_alias ''httpUrl'' (LowCardinalityColumnType ColumnTypeString) ''http_url'',
       column_alias ''externalHttpMethod'' (LowCardinalityColumnType ColumnTypeString) ''external_http_method'',
       column_alias ''httpMethod'' (LowCardinalityColumnType ColumnTypeString) ''http_method'',
       column_alias ''httpHost'' (LowCardinalityColumnType ColumnTypeString) ''http_host'',
       column_alias ''dbName'' (LowCardinalityColumnType ColumnTypeString) ''db_name'',
       column_alias ''dbOperation'' (LowCardinalityColumnType ColumnTypeString) ''db_operation'',
       column_alias ''hasError'' ColumnTypeBool ''has_error'',
       column_alias ''isRemote'' (LowCardinalityColumnType ColumnTypeString) ''is_remote'',
       column_alias ''serviceName'' (LowCardinalityColumnType ColumnTypeString) ''resource_string_service$$name'',
       column_alias ''httpRoute'' (LowCardinalityColumnType ColumnTypeString) ''attribute_string_http$$route'',
       column_alias ''msgSystem'' (LowCardinalityColumnType ColumnTypeString) ''attribute_string_messaging$$system'',
       column_alias ''msgOperation'' (LowCardinalityColumnType ColumnTypeString) ''attribute_string_messaging$$operation'',
       column_alias ''dbSystem'' (LowCardinalityColumnType ColumnTypeString) ''attribute_string_db$$system'',
       column_alias ''rpcSystem'' (LowCardinalityColumnType ColumnTypeString) ''attribute_string_rpc$$system'',
       column_alias ''rpcService'' (LowCardinalityColumnType ColumnTypeString) ''attribute_string_rpc$$service'',
       column_alias ''rpcMethod'' (LowCardinalityColumnType ColumnTypeString) ''attribute_string_rpc$$method'',
       column_alias ''peerService'' (LowCardinalityColumnType ColumnTypeString) ''attribute_string_peer$$service'']
      []
      []
      (distributed ''o11y_traces'' ''o11y_index_v3'' ''cityHash64(trace_id)'')\<close>

definition Traces_1000_up3 :: "Operation" where
  \<open>Traces_1000_up3 =
    create_table ''o11y_traces'' ''traces_v3_resource''
      [column ''labels'' ColumnTypeString ''ZSTD(5)'',
       column ''fingerprint'' ColumnTypeString ''ZSTD(1)'',
       column ''seen_at_ts_bucket_start'' ColumnTypeInt64 ''Delta(8), ZSTD(1)'']
      [index ''idx_labels'' ''lower(labels)'' ''ngrambf_v1(4, 1024, 3, 0)'' 1,
        index ''idx_labels_v1'' ''labels'' ''ngrambf_v1(4, 1024, 3, 0)'' 1]
      []
      (ReplacingMergeTree (merge_tree ''(labels, fingerprint, seen_at_ts_bucket_start)'' [] ''toDate(seen_at_ts_bucket_start)'' [] ''toDateTime(seen_at_ts_bucket_start) + INTERVAL 1296000 SECOND + INTERVAL 1800 SECOND DELETE''
        [setting ''ttl_only_drop_parts'' ''1'', setting ''index_granularity'' ''8192'']))\<close>

definition Traces_1000_up4 :: "Operation" where
  \<open>Traces_1000_up4 =
    create_table ''o11y_traces'' ''distributed_traces_v3_resource''
      [column ''labels'' ColumnTypeString ''ZSTD(5)'',
       column ''fingerprint'' ColumnTypeString ''ZSTD(1)'',
       column ''seen_at_ts_bucket_start'' ColumnTypeInt64 ''Delta(8), ZSTD(1)'']
      []
      []
      (distributed ''o11y_traces'' ''traces_v3_resource'' ''cityHash64(labels, fingerprint)'')\<close>

definition Traces_1000_up5 :: "Operation" where
  \<open>Traces_1000_up5 =
    create_table ''o11y_traces'' ''trace_summary''
      [column ''trace_id'' ColumnTypeString ''ZSTD(1)'',
       column ''start'' (SimpleAggregateFunction ''min'' [(DateTime64ColumnType 9 [])]) ''ZSTD(1)'',
       column ''end'' (SimpleAggregateFunction ''max'' [(DateTime64ColumnType 9 [])]) ''ZSTD(1)'',
       column ''num_spans'' (SimpleAggregateFunction ''sum'' [ColumnTypeUInt64]) ''ZSTD(1)'']
      []
      []
      (AggregatingMergeTree (merge_tree ''(trace_id)'' [] ''toDate(end)'' [] ''toDateTime(end) + toIntervalSecond(1296000)''
        [setting ''index_granularity'' ''8192'', setting ''ttl_only_drop_parts'' ''1'']))\<close>

definition Traces_1000_up6 :: "Operation" where
  \<open>Traces_1000_up6 =
    create_table ''o11y_traces'' ''distributed_trace_summary''
      [column ''trace_id'' ColumnTypeString ''ZSTD(1)'',
       column ''start'' (SimpleAggregateFunction ''min'' [(DateTime64ColumnType 9 [])]) ''ZSTD(1)'',
       column ''end'' (SimpleAggregateFunction ''max'' [(DateTime64ColumnType 9 [])]) ''ZSTD(1)'',
       column ''num_spans'' (SimpleAggregateFunction ''sum'' [ColumnTypeUInt64]) ''ZSTD(1)'']
      []
      []
      (distributed ''o11y_traces'' ''trace_summary'' ''cityHash64(trace_id)'')\<close>

definition Traces_1000_up7 :: "Operation" where
  \<open>Traces_1000_up7 =
    create_view ''o11y_traces'' ''trace_summary_mv'' ''trace_summary''
      []
      ''SELECT\<newline>							trace_id,\<newline>							min(timestamp) AS start,\<newline>							max(timestamp) AS end,\<newline>							toUInt64(count()) AS num_spans\<newline>						FROM o11y_traces.o11y_index_v3\<newline>						GROUP BY trace_id;''\<close>

definition Traces_1000_up8 :: "Operation" where
  \<open>Traces_1000_up8 =
    modify_query ''o11y_traces'' ''root_operations''
      (''SELECT DISTINCT\<newline>							name,\<newline>							resource_string_service$$name as serviceName\<newline>						FROM o11y_traces.o11y_index_v3\<newline>						WHERE parent_span_id = '' @ quoted [])\<close>

definition Traces_1000_up9 :: "Operation" where
  \<open>Traces_1000_up9 =
    modify_query ''o11y_traces'' ''sub_root_operations''
      ''SELECT DISTINCT\<newline>							name,\<newline>							resource_string_service$$name as serviceName\<newline>						FROM o11y_traces.o11y_index_v3 AS A, o11y_traces.o11y_index_v3 AS B\<newline>						WHERE (A.resource_string_service$$name != B.resource_string_service$$name) AND (A.parent_span_id = B.span_id)''\<close>

definition Traces_1000_down :: "Operation list" where
  \<open>Traces_1000_down =
    [drop_table ''o11y_traces'' ''o11y_index_v3'' [],
     drop_table ''o11y_traces'' ''distributed_o11y_index_v3'' [],
     drop_table ''o11y_traces'' ''traces_v3_resource'' [],
     drop_table ''o11y_traces'' ''distributed_traces_v3_resource'' [],
     drop_table ''o11y_traces'' ''trace_summary'' [],
     drop_table ''o11y_traces'' ''distributed_trace_summary'' [],
     drop_table ''o11y_traces'' ''trace_summary_mv'' [],
     modify_query ''o11y_traces'' ''root_operations''
        (''SELECT DISTINCT\<newline>							name,\<newline>							serviceName\<newline>						FROM o11y_traces.o11y_index_v2\<newline>						WHERE parentSpanID = '' @ quoted []),
     modify_query ''o11y_traces'' ''sub_root_operations''
        ''SELECT DISTINCT\<newline>							name,\<newline>							serviceName\<newline>						FROM o11y_traces.o11y_index_v2 AS A, o11y_traces.o11y_index_v2 AS B\<newline>						WHERE (A.serviceName != B.serviceName) AND (A.parentSpanID = B.spanID)'']\<close>

definition Traces_1000 :: "SchemaMigrationRecord" where
  \<open>Traces_1000 =
    migration 1000
      [Traces_1000_up1,
       Traces_1000_up2,
       Traces_1000_up3,
       Traces_1000_up4,
       Traces_1000_up5,
       Traces_1000_up6,
       Traces_1000_up7,
       Traces_1000_up8,
       Traces_1000_up9]
      Traces_1000_down\<close>

definition Traces_1001 :: "SchemaMigrationRecord" where
  \<open>Traces_1001 =
    migration 1001
      [drop_table ''o11y_traces'' ''durationSortMV'' [],
       drop_table ''o11y_traces'' ''distributed_durationSort'' []]
      []\<close>

definition Traces_1002 :: "SchemaMigrationRecord" where
  \<open>Traces_1002 =
    migration 1002
      [modify_query ''o11y_traces'' ''dependency_graph_minutes_db_calls_mv_v2''
        (''SELECT\<newline>							resource_string_service$$name AS src,\<newline>							attribute_string_db$$system AS dest,\<newline>							quantilesState(0.5, 0.75, 0.9, 0.95, 0.99)(toFloat64(duration_nano)) AS duration_quantiles_state,\<newline>							countIf(status_code = 2) AS error_count,\<newline>							count(*) AS total_count,\<newline>							toStartOfMinute(timestamp) AS timestamp,\<newline>							resources_string['deployment.environment'] AS deployment_environment,\<newline>							resources_string['k8s.cluster.name'] AS k8s_cluster_name,\<newline>							resources_string['k8s.namespace.name'] AS k8s_namespace_name\<newline>						FROM o11y_traces.o11y_index_v3\<newline>						WHERE (dest != '' @ quoted [] @ '') AND (kind != 2)\<newline>						GROUP BY\<newline>							timestamp,\<newline>							src,\<newline>							dest,\<newline>							deployment_environment,\<newline>							k8s_cluster_name,\<newline>							k8s_namespace_name''),
       modify_query ''o11y_traces'' ''dependency_graph_minutes_messaging_calls_mv_v2''
        (''SELECT\<newline>							resource_string_service$$name  AS src,\<newline>							attribute_string_messaging$$system AS dest,\<newline>							quantilesState(0.5, 0.75, 0.9, 0.95, 0.99)(toFloat64(duration_nano)) AS duration_quantiles_state,\<newline>							countIf(status_code = 2) AS error_count,\<newline>							count(*) AS total_count,\<newline>							toStartOfMinute(timestamp) AS timestamp,\<newline>							resources_string['deployment.environment'] AS deployment_environment,\<newline>							resources_string['k8s.cluster.name'] AS k8s_cluster_name,\<newline>							resources_string['k8s.namespace.name'] AS k8s_namespace_name\<newline>						FROM o11y_traces.o11y_index_v3\<newline>						WHERE (dest != '' @ quoted [] @ '') AND (kind != 2)\<newline>						GROUP BY\<newline>							timestamp,\<newline>							src,\<newline>							dest,\<newline>							deployment_environment,\<newline>							k8s_cluster_name,\<newline>							k8s_namespace_name''),
       modify_query ''o11y_traces'' ''dependency_graph_minutes_service_calls_mv_v2''
        ''SELECT\<newline>							A.resource_string_service$$name AS src,\<newline>							B.resource_string_service$$name AS dest,\<newline>							quantilesState(0.5, 0.75, 0.9, 0.95, 0.99)(toFloat64(B.duration_nano)) AS duration_quantiles_state,\<newline>							countIf(B.status_code = 2) AS error_count,\<newline>							count(*) AS total_count,\<newline>							toStartOfMinute(B.timestamp) AS timestamp,\<newline>							B.resources_string['deployment.environment'] AS deployment_environment,\<newline>							B.resources_string['k8s.cluster.name'] AS k8s_cluster_name,\<newline>							B.resources_string['k8s.namespace.name'] AS k8s_namespace_name\<newline>						FROM o11y_traces.o11y_index_v3 AS A, o11y_traces.o11y_index_v3 AS B\<newline>						WHERE (A.resource_string_service$$name != B.resource_string_service$$name) AND (A.span_id = B.parent_span_id)\<newline>						GROUP BY\<newline>							timestamp,\<newline>							src,\<newline>							dest,\<newline>							deployment_environment,\<newline>							k8s_cluster_name,\<newline>							k8s_namespace_name'']
      []\<close>

definition Traces_1003 :: "SchemaMigrationRecord" where
  \<open>Traces_1003 =
    migration 1003
      [drop_table ''o11y_traces'' ''dependency_graph_minutes_db_calls_mv'' [],
       drop_table ''o11y_traces'' ''dependency_graph_minutes_messaging_calls_mv'' [],
       drop_table ''o11y_traces'' ''dependency_graph_minutes_service_calls_mv'' [],
       drop_table ''o11y_traces'' ''distributed_dependency_graph_minutes'' []]
      []\<close>

definition Traces_1004 :: "SchemaMigrationRecord" where
  \<open>Traces_1004 =
    migration 1004
      [create_table ''o11y_traces'' ''tag_attributes_v2''
        [column ''unix_milli'' ColumnTypeInt64 ''Delta(8), ZSTD(1)'',
         column ''tag_key'' ColumnTypeString ''ZSTD(1)'',
         column ''tag_type'' (LowCardinalityColumnType ColumnTypeString) ''ZSTD(1)'',
         column ''tag_data_type'' (LowCardinalityColumnType ColumnTypeString) ''ZSTD(1)'',
         column ''string_value'' ColumnTypeString ''ZSTD(1)'',
         column ''number_value'' (NullableColumnType ColumnTypeFloat64) ''ZSTD(1)'']
        [index ''string_value_index'' ''string_value'' ''ngrambf_v1(4, 1024, 3, 0)'' 1,
          index ''number_value_index'' ''number_value'' ''minmax'' 1]
        []
        (ReplacingMergeTree (merge_tree ''(tag_key, tag_type, tag_data_type, string_value, number_value)'' [] ''toDate(unix_milli / 1000)'' [] ''toDateTime(unix_milli / 1000) + toIntervalSecond(1296000)''
          [setting ''index_granularity'' ''8192'', setting ''ttl_only_drop_parts'' ''1'', setting ''allow_nullable_key'' ''1''])),
       create_table ''o11y_traces'' ''distributed_tag_attributes_v2''
        [column ''unix_milli'' ColumnTypeInt64 ''Delta(8), ZSTD(1)'',
         column ''tag_key'' ColumnTypeString ''ZSTD(1)'',
         column ''tag_type'' (LowCardinalityColumnType ColumnTypeString) ''ZSTD(1)'',
         column ''tag_data_type'' (LowCardinalityColumnType ColumnTypeString) ''ZSTD(1)'',
         column ''string_value'' ColumnTypeString ''ZSTD(1)'',
         column ''number_value'' (NullableColumnType ColumnTypeFloat64) ''ZSTD(1)'']
        []
        []
        (distributed ''o11y_traces'' ''tag_attributes_v2'' ''cityHash64(rand())'')]
      []\<close>

definition Traces_1005_up1 :: "Operation" where
  \<open>Traces_1005_up1 =
    add_column ''o11y_traces'' ''o11y_index_v3''
      (column_default ''resource_string_service$$name_exists'' ColumnTypeBool ''ZSTD(1)'' ''if(mapContains(resources_string, 'service.name') != 0, true, false)'') None\<close>

definition Traces_1005_up2 :: "Operation" where
  \<open>Traces_1005_up2 =
    add_column ''o11y_traces'' ''o11y_index_v3''
      (column_default ''attribute_string_http$$route_exists'' ColumnTypeBool ''ZSTD(1)'' ''if(mapContains(attributes_string, 'http.route') != 0, true, false)'') None\<close>

definition Traces_1005_up3 :: "Operation" where
  \<open>Traces_1005_up3 =
    add_column ''o11y_traces'' ''o11y_index_v3''
      (column_default ''attribute_string_messaging$$system_exists'' ColumnTypeBool ''ZSTD(1)'' ''if(mapContains(attributes_string, 'messaging.system') != 0, true, false)'') None\<close>

definition Traces_1005_up4 :: "Operation" where
  \<open>Traces_1005_up4 =
    add_column ''o11y_traces'' ''o11y_index_v3''
      (column_default ''attribute_string_messaging$$operation_exists'' ColumnTypeBool ''ZSTD(1)'' ''if(mapContains(attributes_string, 'messaging.operation') != 0, true, false)'') None\<close>

definition Traces_1005_up5 :: "Operation" where
  \<open>Traces_1005_up5 =
    add_column ''o11y_traces'' ''o11y_index_v3''
      (column_default ''attribute_string_db$$system_exists'' ColumnTypeBool ''ZSTD(1)'' ''if(mapContains(attributes_string, 'db.system') != 0, true, false)'') None\<close>

definition Traces_1005_up6 :: "Operation" where
  \<open>Traces_1005_up6 =
    add_column ''o11y_traces'' ''o11y_index_v3''
      (column_default ''attribute_string_rpc$$system_exists'' ColumnTypeBool ''ZSTD(1)'' ''if(mapContains(attributes_string, 'rpc.system') != 0, true, false)'') None\<close>

definition Traces_1005_up7 :: "Operation" where
  \<open>Traces_1005_up7 =
    add_column ''o11y_traces'' ''o11y_index_v3''
      (column_default ''attribute_string_rpc$$service_exists'' ColumnTypeBool ''ZSTD(1)'' ''if(mapContains(attributes_string, 'rpc.service') != 0, true, false)'') None\<close>

definition Traces_1005_up8 :: "Operation" where
  \<open>Traces_1005_up8 =
    add_column ''o11y_traces'' ''o11y_index_v3''
      (column_default ''attribute_string_rpc$$method_exists'' ColumnTypeBool ''ZSTD(1)'' ''if(mapContains(attributes_string, 'rpc.method') != 0, true, false)'') None\<close>

definition Traces_1005_up9 :: "Operation" where
  \<open>Traces_1005_up9 =
    add_column ''o11y_traces'' ''o11y_index_v3''
      (column_default ''attribute_string_peer$$service_exists'' ColumnTypeBool ''ZSTD(1)'' ''if(mapContains(attributes_string, 'peer.service') != 0, true, false)'') None\<close>

definition Traces_1005_up10 :: "Operation" where
  \<open>Traces_1005_up10 =
    add_column ''o11y_traces'' ''distributed_o11y_index_v3''
      (column_default ''resource_string_service$$name_exists'' ColumnTypeBool ''ZSTD(1)'' ''if(mapContains(resources_string, 'service.name') != 0, true, false)'') None\<close>

definition Traces_1005_up11 :: "Operation" where
  \<open>Traces_1005_up11 =
    add_column ''o11y_traces'' ''distributed_o11y_index_v3''
      (column_default ''attribute_string_http$$route_exists'' ColumnTypeBool ''ZSTD(1)'' ''if(mapContains(attributes_string, 'http.route') != 0, true, false)'') None\<close>

definition Traces_1005_up12 :: "Operation" where
  \<open>Traces_1005_up12 =
    add_column ''o11y_traces'' ''distributed_o11y_index_v3''
      (column_default ''attribute_string_messaging$$system_exists'' ColumnTypeBool ''ZSTD(1)'' ''if(mapContains(attributes_string, 'messaging.system') != 0, true, false)'') None\<close>

definition Traces_1005_up13 :: "Operation" where
  \<open>Traces_1005_up13 =
    add_column ''o11y_traces'' ''distributed_o11y_index_v3''
      (column_default ''attribute_string_messaging$$operation_exists'' ColumnTypeBool ''ZSTD(1)'' ''if(mapContains(attributes_string, 'messaging.operation') != 0, true, false)'') None\<close>

definition Traces_1005_up14 :: "Operation" where
  \<open>Traces_1005_up14 =
    add_column ''o11y_traces'' ''distributed_o11y_index_v3''
      (column_default ''attribute_string_db$$system_exists'' ColumnTypeBool ''ZSTD(1)'' ''if(mapContains(attributes_string, 'db.system') != 0, true, false)'') None\<close>

definition Traces_1005_up15 :: "Operation" where
  \<open>Traces_1005_up15 =
    add_column ''o11y_traces'' ''distributed_o11y_index_v3''
      (column_default ''attribute_string_rpc$$system_exists'' ColumnTypeBool ''ZSTD(1)'' ''if(mapContains(attributes_string, 'rpc.system') != 0, true, false)'') None\<close>

definition Traces_1005_up16 :: "Operation" where
  \<open>Traces_1005_up16 =
    add_column ''o11y_traces'' ''distributed_o11y_index_v3''
      (column_default ''attribute_string_rpc$$service_exists'' ColumnTypeBool ''ZSTD(1)'' ''if(mapContains(attributes_string, 'rpc.service') != 0, true, false)'') None\<close>

definition Traces_1005_up17 :: "Operation" where
  \<open>Traces_1005_up17 =
    add_column ''o11y_traces'' ''distributed_o11y_index_v3''
      (column_default ''attribute_string_rpc$$method_exists'' ColumnTypeBool ''ZSTD(1)'' ''if(mapContains(attributes_string, 'rpc.method') != 0, true, false)'') None\<close>

definition Traces_1005_up18 :: "Operation" where
  \<open>Traces_1005_up18 =
    add_column ''o11y_traces'' ''distributed_o11y_index_v3''
      (column_default ''attribute_string_peer$$service_exists'' ColumnTypeBool ''ZSTD(1)'' ''if(mapContains(attributes_string, 'peer.service') != 0, true, false)'') None\<close>

definition Traces_1005_down :: "Operation list" where
  \<open>Traces_1005_down =
    [drop_column ''o11y_traces'' ''distributed_o11y_index_v3''
        (named ''resource_string_service$$name_exists''),
     drop_column ''o11y_traces'' ''distributed_o11y_index_v3''
        (named ''attribute_string_http$$route_exists''),
     drop_column ''o11y_traces'' ''distributed_o11y_index_v3''
        (named ''attribute_string_messaging$$system_exists''),
     drop_column ''o11y_traces'' ''distributed_o11y_index_v3''
        (named ''attribute_string_messaging$$operation_exists''),
     drop_column ''o11y_traces'' ''distributed_o11y_index_v3''
        (named ''attribute_string_db$$system_exists''),
     drop_column ''o11y_traces'' ''distributed_o11y_index_v3''
        (named ''attribute_string_rpc$$system_exists''),
     drop_column ''o11y_traces'' ''distributed_o11y_index_v3''
        (named ''attribute_string_rpc$$service_exists''),
     drop_column ''o11y_traces'' ''distributed_o11y_index_v3''
        (named ''attribute_string_rpc$$method_exists''),
     drop_column ''o11y_traces'' ''distributed_o11y_index_v3''
        (named ''attribute_string_peer$$service_exists''),
     drop_column ''o11y_traces'' ''o11y_index_v3''
        (named ''resource_string_service$$name_exists''),
     drop_column ''o11y_traces'' ''o11y_index_v3''
        (named ''attribute_string_http$$route_exists''),
     drop_column ''o11y_traces'' ''o11y_index_v3''
        (named ''attribute_string_messaging$$system_exists''),
     drop_column ''o11y_traces'' ''o11y_index_v3''
        (named ''attribute_string_messaging$$operation_exists''),
     drop_column ''o11y_traces'' ''o11y_index_v3''
        (named ''attribute_string_db$$system_exists''),
     drop_column ''o11y_traces'' ''o11y_index_v3''
        (named ''attribute_string_rpc$$system_exists''),
     drop_column ''o11y_traces'' ''o11y_index_v3''
        (named ''attribute_string_rpc$$service_exists''),
     drop_column ''o11y_traces'' ''o11y_index_v3''
        (named ''attribute_string_rpc$$method_exists''),
     drop_column ''o11y_traces'' ''o11y_index_v3''
        (named ''attribute_string_peer$$service_exists'')]\<close>

definition Traces_1005 :: "SchemaMigrationRecord" where
  \<open>Traces_1005 =
    migration 1005
      [Traces_1005_up1,
       Traces_1005_up2,
       Traces_1005_up3,
       Traces_1005_up4,
       Traces_1005_up5,
       Traces_1005_up6,
       Traces_1005_up7,
       Traces_1005_up8,
       Traces_1005_up9,
       Traces_1005_up10,
       Traces_1005_up11,
       Traces_1005_up12,
       Traces_1005_up13,
       Traces_1005_up14,
       Traces_1005_up15,
       Traces_1005_up16,
       Traces_1005_up17,
       Traces_1005_up18]
      Traces_1005_down\<close>

definition Traces_1006 :: "SchemaMigrationRecord" where
  \<open>Traces_1006 =
    migration 1006
      [add_column ''o11y_traces'' ''o11y_index_v3''
        (column ''resource'' (JSONColumnType (Some 100) None []) ''ZSTD(1)'') None,
       add_column ''o11y_traces'' ''distributed_o11y_index_v3''
        (column ''resource'' (JSONColumnType (Some 100) None []) ''ZSTD(1)'') None]
      [drop_column ''o11y_traces'' ''distributed_o11y_index_v3''
        (named ''resource''),
       drop_column ''o11y_traces'' ''o11y_index_v3''
        (named ''resource'')]\<close>

definition Traces_1007 :: "SchemaMigrationRecord" where
  \<open>Traces_1007 =
    migration 1007
      [modify_query ''o11y_traces'' ''dependency_graph_minutes_service_calls_mv_v2''
        (''SELECT\<newline>							A.resource_string_service$$name AS src,\<newline>							B.resource_string_service$$name AS dest,\<newline>							quantilesState(0.5, 0.75, 0.9, 0.95, 0.99)(toFloat64(B.duration_nano)) AS duration_quantiles_state,\<newline>							countIf(B.status_code = 2) AS error_count,\<newline>							count(*) AS total_count,\<newline>							toStartOfMinute(B.timestamp) AS timestamp,\<newline>							B.resources_string['deployment.environment'] AS deployment_environment,\<newline>							B.resources_string['k8s.cluster.name'] AS k8s_cluster_name,\<newline>							B.resources_string['k8s.namespace.name'] AS k8s_namespace_name\<newline>						FROM o11y_traces.o11y_index_v3 AS A, o11y_traces.o11y_index_v3 AS B\<newline>						WHERE (A.resource_string_service$$name != B.resource_string_service$$name) AND (A.span_id = B.parent_span_id)\<newline>							AND B.span_id != '' @ quoted [] @ '' AND A.span_id != '' @ quoted [] @ ''\<newline>						GROUP BY\<newline>							timestamp,\<newline>							src,\<newline>							dest,\<newline>							deployment_environment,\<newline>							k8s_cluster_name,\<newline>							k8s_namespace_name;''),
       modify_query ''o11y_traces'' ''sub_root_operations''
        (''SELECT DISTINCT\<newline>							name,\<newline>							resource_string_service$$name AS serviceName\<newline>						FROM o11y_traces.o11y_index_v3 AS A, o11y_traces.o11y_index_v3 AS B\<newline>						WHERE (A.resource_string_service$$name != B.resource_string_service$$name) AND (A.parent_span_id = B.span_id) AND B.span_id != '' @ quoted [] @ '' AND A.span_id != '' @ quoted [])]
      [modify_query ''o11y_traces'' ''dependency_graph_minutes_service_calls_mv_v2''
        ''SELECT\<newline>							A.resource_string_service$$name AS src,\<newline>							B.resource_string_service$$name AS dest,\<newline>							quantilesState(0.5, 0.75, 0.9, 0.95, 0.99)(toFloat64(B.duration_nano)) AS duration_quantiles_state,\<newline>							countIf(B.status_code = 2) AS error_count,\<newline>							count(*) AS total_count,\<newline>							toStartOfMinute(B.timestamp) AS timestamp,\<newline>							B.resources_string['deployment.environment'] AS deployment_environment,\<newline>							B.resources_string['k8s.cluster.name'] AS k8s_cluster_name,\<newline>							B.resources_string['k8s.namespace.name'] AS k8s_namespace_name\<newline>						FROM o11y_traces.o11y_index_v3 AS A, o11y_traces.o11y_index_v3 AS B\<newline>						WHERE (A.resource_string_service$$name != B.resource_string_service$$name) AND (A.span_id = B.parent_span_id)\<newline>						GROUP BY\<newline>							timestamp,\<newline>							src,\<newline>							dest,\<newline>							deployment_environment,\<newline>							k8s_cluster_name,\<newline>							k8s_namespace_name;'',
       modify_query ''o11y_traces'' ''sub_root_operations''
        ''SELECT DISTINCT\<newline>							name,\<newline>							resource_string_service$$name AS serviceName\<newline>						FROM o11y_traces.o11y_index_v3 AS A, o11y_traces.o11y_index_v3 AS B\<newline>						WHERE (A.resource_string_service$$name != B.resource_string_service$$name) AND (A.parent_span_id = B.span_id)'']\<close>

definition Traces_1008 :: "SchemaMigrationRecord" where
  \<open>Traces_1008 =
    migration 1008
      [add_column ''o11y_traces'' ''span_attributes_keys''
        (column_default ''timestamp'' (DateTimeColumnType []) [] ''toDateTime(now())'') None,
       modify_ttl ''o11y_traces'' ''span_attributes_keys''
        ''timestamp + INTERVAL 15 DAY'' False]
      [drop_column ''o11y_traces'' ''span_attributes_keys''
        (named ''timestamp''),
       drop_ttl ''o11y_traces'' ''span_attributes_keys'']\<close>

definition Traces_1009 :: "SchemaMigrationRecord" where
  \<open>Traces_1009 =
    migration 1009
      [add_column ''o11y_traces'' ''o11y_index_v3''
        (column ''scope'' (JSONColumnType (Some 0) None [column ''name'' ColumnTypeString [],
 column ''version'' ColumnTypeString [],
 column ''attributes'' (JSONColumnType (Some 0) None []) []]) ''ZSTD(1)'') None,
       add_column ''o11y_traces'' ''distributed_o11y_index_v3''
        (column ''scope'' (JSONColumnType (Some 0) None [column ''name'' ColumnTypeString [],
 column ''version'' ColumnTypeString [],
 column ''attributes'' (JSONColumnType (Some 0) None []) []]) ''ZSTD(1)'') None]
      [drop_column ''o11y_traces'' ''distributed_o11y_index_v3''
        (named ''scope''),
       drop_column ''o11y_traces'' ''o11y_index_v3''
        (named ''scope'')]\<close>

definition Traces_1010 :: "SchemaMigrationRecord" where
  \<open>Traces_1010 =
    migration 1010
      [modify_column ''o11y_traces'' ''span_attributes_keys''
        (column ''tagType'' (EnumerationColumnType [(quoted ''tag'' @ '' = 1''), (quoted ''resource'' @ '' = 2''), (quoted ''scope'' @ '' = 3'')] 8) []),
       modify_column ''o11y_traces'' ''distributed_span_attributes_keys''
        (column ''tagType'' (EnumerationColumnType [(quoted ''tag'' @ '' = 1''), (quoted ''resource'' @ '' = 2''), (quoted ''scope'' @ '' = 3'')] 8) [])]
      [modify_column ''o11y_traces'' ''distributed_span_attributes_keys''
        (column ''tagType'' (EnumerationColumnType [(quoted ''tag'' @ '' = 1''), (quoted ''resource'' @ '' = 2'')] 8) []),
       modify_column ''o11y_traces'' ''span_attributes_keys''
        (column ''tagType'' (EnumerationColumnType [(quoted ''tag'' @ '' = 1''), (quoted ''resource'' @ '' = 2'')] 8) [])]\<close>

definition TracesMigrations_list :: "SchemaMigrationRecord list" where
  \<open>TracesMigrations_list =
    [Traces_1000, Traces_1001, Traces_1002, Traces_1003, Traces_1004, Traces_1005, Traces_1006,
     Traces_1007, Traces_1008, Traces_1009, Traces_1010]\<close>

section \<open>squashed\_traces\_migrations.go\<close>

definition SquashedTraces_1 :: "SchemaMigrationRecord" where
  \<open>SquashedTraces_1 =
    migration 1
      [create_table ''o11y_traces'' ''o11y_index_v2''
        [column ''timestamp'' (DateTime64ColumnType 9 []) ''DoubleDelta, LZ4'',
         column ''traceID'' (FixedStringColumnType 32) ''ZSTD(1)'',
         column ''spanID'' ColumnTypeString ''ZSTD(1)'',
         column ''parentSpanID'' ColumnTypeString ''ZSTD(1)'',
         column ''serviceName'' (LowCardinalityColumnType ColumnTypeString) ''ZSTD(1)'',
         column ''name'' (LowCardinalityColumnType ColumnTypeString) ''ZSTD(1)'',
         column ''kind'' ColumnTypeInt8 ''T64, ZSTD(1)'',
         column ''durationNano'' ColumnTypeUInt64 ''T64, ZSTD(1)'',
         column ''statusCode'' ColumnTypeInt16 ''T64, ZSTD(1)'',
         column ''externalHttpMethod'' (LowCardinalityColumnType ColumnTypeString) ''ZSTD(1)'',
         column ''externalHttpUrl'' (LowCardinalityColumnType ColumnTypeString) ''ZSTD(1)'',
         column ''dbSystem'' (LowCardinalityColumnType ColumnTypeString) ''ZSTD(1)'',
         column ''dbName'' (LowCardinalityColumnType ColumnTypeString) ''ZSTD(1)'',
         column ''dbOperation'' (LowCardinalityColumnType ColumnTypeString) ''ZSTD(1)'',
         column ''peerService'' (LowCardinalityColumnType ColumnTypeString) ''ZSTD(1)'',
         column ''events'' (ArrayColumnType ColumnTypeString) ''ZSTD(2)'',
         column ''httpMethod'' (LowCardinalityColumnType ColumnTypeString) ''ZSTD(1)'',
         column ''httpUrl'' (LowCardinalityColumnType ColumnTypeString) ''ZSTD(1)'',
         column ''httpRoute'' (LowCardinalityColumnType ColumnTypeString) ''ZSTD(1)'',
         column ''httpHost'' (LowCardinalityColumnType ColumnTypeString) ''ZSTD(1)'',
         column ''msgSystem'' (LowCardinalityColumnType ColumnTypeString) ''ZSTD(1)'',
         column ''msgOperation'' (LowCardinalityColumnType ColumnTypeString) ''ZSTD(1)'',
         column ''hasError'' ColumnTypeBool ''T64, ZSTD(1)'',
         column ''rpcSystem'' (LowCardinalityColumnType ColumnTypeString) ''ZSTD(1)'',
         column ''rpcService'' (LowCardinalityColumnType ColumnTypeString) ''ZSTD(1)'',
         column ''rpcMethod'' (LowCardinalityColumnType ColumnTypeString) ''ZSTD(1)'',
         column ''responseStatusCode'' (LowCardinalityColumnType ColumnTypeString) ''ZSTD(1)'',
         column ''stringTagMap'' (MapColumnType ColumnTypeString ColumnTypeString) ''ZSTD(1)'',
         column ''numberTagMap'' (MapColumnType ColumnTypeString ColumnTypeFloat64) ''ZSTD(1)'',
         column ''boolTagMap'' (MapColumnType ColumnTypeString ColumnTypeBool) ''ZSTD(1)'',
         column ''resourceTagsMap'' (MapColumnType (LowCardinalityColumnType ColumnTypeString) ColumnTypeString) ''ZSTD(1)'',
         column ''isRemote'' (LowCardinalityColumnType ColumnTypeString) ''ZSTD(1)'',
         column ''statusMessage'' ColumnTypeString ''ZSTD(1)'',
         column ''statusCodeString'' ColumnTypeString ''ZSTD(1)'',
         column ''spanKind'' ColumnTypeString ''ZSTD(1)'']
        [index ''idx_service'' ''serviceName'' ''bloom_filter'' 4,
          index ''idx_name'' ''name'' ''bloom_filter'' 4,
          index ''idx_kind'' ''kind'' ''minmax'' 4,
          index ''idx_duration'' ''durationNano'' ''minmax'' 1,
          index ''idx_hasError'' ''hasError'' ''set(2)'' 1,
          index ''idx_httpRoute'' ''httpRoute'' ''bloom_filter'' 4,
          index ''idx_httpUrl'' ''httpUrl'' ''bloom_filter'' 4,
          index ''idx_httpHost'' ''httpHost'' ''bloom_filter'' 4,
          index ''idx_httpMethod'' ''httpMethod'' ''bloom_filter'' 4,
          index ''idx_timestamp'' ''timestamp'' ''minmax'' 1,
          index ''idx_rpcMethod'' ''rpcMethod'' ''bloom_filter'' 4,
          index ''idx_responseStatusCode'' ''responseStatusCode'' ''set(0)'' 1,
          index ''idx_resourceTagsMapKeys'' ''mapKeys(resourceTagsMap)'' ''bloom_filter(0.01)'' 64,
          index ''idx_resourceTagsMapValues'' ''mapValues(resourceTagsMap)'' ''bloom_filter(0.01)'' 64,
          index ''idx_statusCodeString'' ''statusCodeString'' ''set(3)'' 4,
          index ''idx_spanKind'' ''spanKind'' ''set(5)'' 4,
          index ''idx_stringTagMapKeys'' ''mapKeys(stringTagMap)'' ''tokenbf_v1(1024, 2, 0)'' 1,
          index ''idx_stringTagMapValues'' ''mapValues(stringTagMap)'' ''ngrambf_v1(4, 5000, 2, 0)'' 1,
          index ''idx_numberTagMapKeys'' ''mapKeys(numberTagMap)'' ''tokenbf_v1(1024, 2, 0)'' 1,
          index ''idx_numberTagMapValues'' ''mapValues(numberTagMap)'' ''bloom_filter(0.01)'' 1,
          index ''idx_boolTagMapKeys'' ''mapKeys(boolTagMap)'' ''tokenbf_v1(1024, 2, 0)'' 1,
          index ''idx_resourceTagMapKeys'' ''mapKeys(resourceTagsMap)'' ''tokenbf_v1(1024, 2, 0)'' 1,
          index ''idx_resourceTagMapValues'' ''mapValues(resourceTagsMap)'' ''ngrambf_v1(4, 5000, 2, 0)'' 1]
        [\<lparr>projectionName = ''timestampSort'', projectionQuery = ''SELECT * ORDER BY timestamp''\<rparr>]
        (MergeTreeEngine (merge_tree ''(serviceName, hasError, toStartOfHour(timestamp), name, timestamp)'' ''(serviceName, hasError, toStartOfHour(timestamp), name)'' ''toDate(timestamp)'' [] ''toDateTime(timestamp) + toIntervalSecond(1296000)''
          [setting ''index_granularity'' ''8192'', setting ''ttl_only_drop_parts'' ''1'']))]
      [drop_table ''o11y_traces'' ''o11y_index_v2'' []]\<close>

definition SquashedTraces_2 :: "SchemaMigrationRecord" where
  \<open>SquashedTraces_2 =
    migration 2
      [create_table ''o11y_traces'' ''distributed_o11y_index_v2''
        [column ''timestamp'' (DateTime64ColumnType 9 []) ''DoubleDelta, LZ4'',
         column ''traceID'' (FixedStringColumnType 32) ''ZSTD(1)'',
         column ''spanID'' ColumnTypeString ''ZSTD(1)'',
         column ''parentSpanID'' ColumnTypeString ''ZSTD(1)'',
         column ''serviceName'' (LowCardinalityColumnType ColumnTypeString) ''ZSTD(1)'',
         column ''name'' (LowCardinalityColumnType ColumnTypeString) ''ZSTD(1)'',
         column ''kind'' ColumnTypeInt8 ''T64, ZSTD(1)'',
         column ''durationNano'' ColumnTypeUInt64 ''T64, ZSTD(1)'',
         column ''statusCode'' ColumnTypeInt16 ''T64, ZSTD(1)'',
         column ''externalHttpMethod'' (LowCardinalityColumnType ColumnTypeString) ''ZSTD(1)'',
         column ''externalHttpUrl'' (LowCardinalityColumnType ColumnTypeString) ''ZSTD(1)'',
         column ''dbSystem'' (LowCardinalityColumnType ColumnTypeString) ''ZSTD(1)'',
         column ''dbName'' (LowCardinalityColumnType ColumnTypeString) ''ZSTD(1)'',
         column ''dbOperation'' (LowCardinalityColumnType ColumnTypeString) ''ZSTD(1)'',
         column ''peerService'' (LowCardinalityColumnType ColumnTypeString) ''ZSTD(1)'',
         column ''events'' (ArrayColumnType ColumnTypeString) ''ZSTD(2)'',
         column ''httpMethod'' (LowCardinalityColumnType ColumnTypeString) ''ZSTD(1)'',
         column ''httpUrl'' (LowCardinalityColumnType ColumnTypeString) ''ZSTD(1)'',
         column ''httpRoute'' (LowCardinalityColumnType ColumnTypeString) ''ZSTD(1)'',
         column ''httpHost'' (LowCardinalityColumnType ColumnTypeString) ''ZSTD(1)'',
         column ''msgSystem'' (LowCardinalityColumnType ColumnTypeString) ''ZSTD(1)'',
         column ''msgOperation'' (LowCardinalityColumnType ColumnTypeString) ''ZSTD(1)'',
         column ''hasError'' ColumnTypeBool ''T64, ZSTD(1)'',
         column ''rpcSystem'' (LowCardinalityColumnType ColumnTypeString) ''ZSTD(1)'',
         column ''rpcService'' (LowCardinalityColumnType ColumnTypeString) ''ZSTD(1)'',
         column ''rpcMethod'' (LowCardinalityColumnType ColumnTypeString) ''ZSTD(1)'',
         column ''responseStatusCode'' (LowCardinalityColumnType ColumnTypeString) ''ZSTD(1)'',
         column ''stringTagMap'' (MapColumnType ColumnTypeString ColumnTypeString) ''ZSTD(1)'',
         column ''numberTagMap'' (MapColumnType ColumnTypeString ColumnTypeFloat64) ''ZSTD(1)'',
         column ''boolTagMap'' (MapColumnType ColumnTypeString ColumnTypeBool) ''ZSTD(1)'',
         column ''resourceTagsMap'' (MapColumnType (LowCardinalityColumnType ColumnTypeString) ColumnTypeString) ''ZSTD(1)'',
         column ''isRemote'' (LowCardinalityColumnType ColumnTypeString) ''ZSTD(1)'',
         column ''statusMessage'' ColumnTypeString ''ZSTD(1)'',
         column ''statusCodeString'' ColumnTypeString ''ZSTD(1)'',
         column ''spanKind'' ColumnTypeString ''ZSTD(1)'']
        []
        []
        (distributed ''o11y_traces'' ''o11y_index_v2'' ''cityHash64(traceID)'')]
      [drop_table ''o11y_traces'' ''distributed_o11y_index_v2'' []]\<close>

definition SquashedTraces_3 :: "SchemaMigrationRecord" where
  \<open>SquashedTraces_3 =
    migration 3
      [create_table ''o11y_traces'' ''durationSort''
        [column ''timestamp'' (DateTime64ColumnType 9 []) ''DoubleDelta, LZ4'',
         column ''traceID'' (FixedStringColumnType 32) ''ZSTD(1)'',
         column ''spanID'' ColumnTypeString ''ZSTD(1)'',
         column ''parentSpanID'' ColumnTypeString ''ZSTD(1)'',
         column ''serviceName'' (LowCardinalityColumnType ColumnTypeString) ''ZSTD(1)'',
         column ''name'' (LowCardinalityColumnType ColumnTypeString) ''ZSTD(1)'',
         column ''kind'' ColumnTypeInt8 ''T64, ZSTD(1)'',
         column ''durationNano'' ColumnTypeUInt64 ''T64, ZSTD(1)'',
         column ''statusCode'' ColumnTypeInt16 ''T64, ZSTD(1)'',
         column ''httpMethod'' (LowCardinalityColumnType ColumnTypeString) ''ZSTD(1)'',
         column ''httpUrl'' (LowCardinalityColumnType ColumnTypeString) ''ZSTD(1)'',
         column ''httpRoute'' (LowCardinalityColumnType ColumnTypeString) ''ZSTD(1)'',
         column ''httpHost'' (LowCardinalityColumnType ColumnTypeString) ''ZSTD(1)'',
         column ''hasError'' ColumnTypeBool ''T64, ZSTD(1)'',
         column ''rpcSystem'' (LowCardinalityColumnType ColumnTypeString) ''ZSTD(1)'',
         column ''rpcService'' (LowCardinalityColumnType ColumnTypeString) ''ZSTD(1)'',
         column ''rpcMethod'' (LowCardinalityColumnType ColumnTypeString) ''ZSTD(1)'',
         column ''responseStatusCode'' (LowCardinalityColumnType ColumnTypeString) ''ZSTD(1)'',
         column ''stringTagMap'' (MapColumnType ColumnTypeString ColumnTypeString) ''ZSTD(1)'',
         column ''numberTagMap'' (MapColumnType ColumnTypeString ColumnTypeFloat64) ''ZSTD(1)'',
         column ''boolTagMap'' (MapColumnType ColumnTypeString ColumnTypeBool) ''ZSTD(1)'',
         column ''isRemote'' (LowCardinalityColumnType ColumnTypeString) ''ZSTD(1)'',
         column ''statusMessage'' ColumnTypeString ''ZSTD(1)'',
         column ''statusCodeString'' ColumnTypeString ''ZSTD(1)'',
         column ''spanKind'' ColumnTypeString ''ZSTD(1)'']
        [index ''idx_service'' ''serviceName'' ''bloom_filter'' 4,
          index ''idx_name'' ''name'' ''bloom_filter'' 4,
          index ''idx_kind'' ''kind'' ''minmax'' 4,
          index ''idx_duration'' ''durationNano'' ''minmax'' 1,
          index ''idx_hasError'' ''hasError'' ''set(2)'' 1,
          index ''idx_httpRoute'' ''httpRoute'' ''bloom_filter'' 4,
          index ''idx_httpUrl'' ''httpUrl'' ''bloom_filter'' 4,
          index ''idx_httpHost'' ''httpHost'' ''bloom_filter'' 4,
          index ''idx_httpMethod'' ''httpMethod'' ''bloom_filter'' 4,
          index ''idx_timestamp'' ''timestamp'' ''minmax'' 1,
          index ''idx_rpcMethod'' ''rpcMethod'' ''bloom_filter'' 4,
          index ''idx_responseStatusCode'' ''responseStatusCode'' ''set(0)'' 1]
        []
        (MergeTreeEngine (merge_tree ''(durationNano, timestamp)'' [] ''toDate(timestamp)'' [] ''toDateTime(timestamp) + toIntervalSecond(1296000)''
          [setting ''index_granularity'' ''8192'', setting ''ttl_only_drop_parts'' ''1'']))]
      [drop_table ''o11y_traces'' ''durationSort'' []]\<close>

definition SquashedTraces_4 :: "SchemaMigrationRecord" where
  \<open>SquashedTraces_4 =
    migration 4
      [create_view ''o11y_traces'' ''durationSortMV'' ''durationSort''
        [column ''timestamp'' (DateTime64ColumnType 9 []) ''DoubleDelta, LZ4'',
         column ''traceID'' (FixedStringColumnType 32) ''ZSTD(1)'',
         column ''spanID'' ColumnTypeString ''ZSTD(1)'',
         column ''parentSpanID'' ColumnTypeString ''ZSTD(1)'',
         column ''serviceName'' (LowCardinalityColumnType ColumnTypeString) ''ZSTD(1)'',
         column ''name'' (LowCardinalityColumnType ColumnTypeString) ''ZSTD(1)'',
         column ''kind'' ColumnTypeInt8 ''T64, ZSTD(1)'',
         column ''durationNano'' ColumnTypeUInt64 ''T64, ZSTD(1)'',
         column ''statusCode'' ColumnTypeInt16 ''T64, ZSTD(1)'',
         column ''httpMethod'' (LowCardinalityColumnType ColumnTypeString) ''ZSTD(1)'',
         column ''httpUrl'' (LowCardinalityColumnType ColumnTypeString) ''ZSTD(1)'',
         column ''httpRoute'' (LowCardinalityColumnType ColumnTypeString) ''ZSTD(1)'',
         column ''httpHost'' (LowCardinalityColumnType ColumnTypeString) ''ZSTD(1)'',
         column ''hasError'' ColumnTypeBool ''T64, ZSTD(1)'',
         column ''rpcSystem'' (LowCardinalityColumnType ColumnTypeString) ''ZSTD(1)'',
         column ''rpcService'' (LowCardinalityColumnType ColumnTypeString) ''ZSTD(1)'',
         column ''rpcMethod'' (LowCardinalityColumnType ColumnTypeString) ''ZSTD(1)'',
         column ''responseStatusCode'' (LowCardinalityColumnType ColumnTypeString) ''ZSTD(1)'',
         column ''stringTagMap'' (MapColumnType ColumnTypeString ColumnTypeString) ''ZSTD(1)'',
         column ''numberTagMap'' (MapColumnType ColumnTypeString ColumnTypeFloat64) ''ZSTD(1)'',
         column ''boolTagMap'' (MapColumnType ColumnTypeString ColumnTypeBool) ''ZSTD(1)'',
         column ''isRemote'' (LowCardinalityColumnType ColumnTypeString) ''ZSTD(1)'',
         column ''statusMessage'' ColumnTypeString ''ZSTD(1)'',
         column ''statusCodeString'' ColumnTypeString ''ZSTD(1)'',
         column ''spanKind'' ColumnTypeString ''ZSTD(1)'']
        ''SELECT\<newline>    timestamp,\<newline>    traceID,\<newline>    spanID,\<newline>    parentSpanID,\<newline>    serviceName,\<newline>    name,\<newline>    kind,\<newline>    durationNano,\<newline>    statusCode,\<newline>    httpMethod,\<newline>    httpUrl,\<newline>    httpRoute,\<newline>    httpHost,\<newline>    hasError,\<newline>    rpcSystem,\<newline>    rpcService,\<newline>    rpcMethod,\<newline>    responseStatusCode,\<newline>    stringTagMap,\<newline>    numberTagMap,\<newline>    boolTagMap,\<newline>    isRemote,\<newline>    statusMessage,\<newline>    statusCodeString,\<newline>    spanKind\<newline>FROM o11y_traces.o11y_index_v2\<newline>ORDER BY\<newline>    durationNano ASC,\<newline>    timestamp ASC'']
      [drop_table ''o11y_traces'' ''durationSortMV'' []]\<close>

definition SquashedTraces_5 :: "SchemaMigrationRecord" where
  \<open>SquashedTraces_5 =
    migration 5
      [create_table ''o11y_traces'' ''distributed_durationSort''
        [column ''timestamp'' (DateTime64ColumnType 9 []) ''DoubleDelta, LZ4'',
         column ''traceID'' (FixedStringColumnType 32) ''ZSTD(1)'',
         column ''spanID'' ColumnTypeString ''ZSTD(1)'',
         column ''parentSpanID'' ColumnTypeString ''ZSTD(1)'',
         column ''serviceName'' (LowCardinalityColumnType ColumnTypeString) ''ZSTD(1)'',
         column ''name'' (LowCardinalityColumnType ColumnTypeString) ''ZSTD(1)'',
         column ''kind'' ColumnTypeInt8 ''T64, ZSTD(1)'',
         column ''durationNano'' ColumnTypeUInt64 ''T64, ZSTD(1)'',
         column ''statusCode'' ColumnTypeInt16 ''T64, ZSTD(1)'',
         column ''httpMethod'' (LowCardinalityColumnType ColumnTypeString) ''ZSTD(1)'',
         column ''httpUrl'' (LowCardinalityColumnType ColumnTypeString) ''ZSTD(1)'',
         column ''httpRoute'' (LowCardinalityColumnType ColumnTypeString) ''ZSTD(1)'',
         column ''httpHost'' (LowCardinalityColumnType ColumnTypeString) ''ZSTD(1)'',
         column ''hasError'' ColumnTypeBool ''T64, ZSTD(1)'',
         column ''rpcSystem'' (LowCardinalityColumnType ColumnTypeString) ''ZSTD(1)'',
         column ''rpcService'' (LowCardinalityColumnType ColumnTypeString) ''ZSTD(1)'',
         column ''rpcMethod'' (LowCardinalityColumnType ColumnTypeString) ''ZSTD(1)'',
         column ''responseStatusCode'' (LowCardinalityColumnType ColumnTypeString) ''ZSTD(1)'',
         column ''stringTagMap'' (MapColumnType ColumnTypeString ColumnTypeString) ''ZSTD(1)'',
         column ''numberTagMap'' (MapColumnType ColumnTypeString ColumnTypeFloat64) ''ZSTD(1)'',
         column ''boolTagMap'' (MapColumnType ColumnTypeString ColumnTypeBool) ''ZSTD(1)'',
         column ''isRemote'' (LowCardinalityColumnType ColumnTypeString) ''ZSTD(1)'',
         column ''statusMessage'' ColumnTypeString ''ZSTD(1)'',
         column ''statusCodeString'' ColumnTypeString ''ZSTD(1)'',
         column ''spanKind'' ColumnTypeString ''ZSTD(1)'']
        []
        []
        (distributed ''o11y_traces'' ''durationSort'' ''cityHash64(traceID)'')]
      [drop_table ''o11y_traces'' ''distributed_durationSort'' []]\<close>

definition SquashedTraces_6 :: "SchemaMigrationRecord" where
  \<open>SquashedTraces_6 =
    migration 6
      [create_table ''o11y_traces'' ''o11y_error_index_v2''
        [column ''timestamp'' (DateTime64ColumnType 9 []) ''DoubleDelta, LZ4'',
         column ''errorID'' (FixedStringColumnType 32) ''ZSTD(1)'',
         column ''groupID'' (FixedStringColumnType 32) ''ZSTD(1)'',
         column ''traceID'' (FixedStringColumnType 32) ''ZSTD(1)'',
         column ''spanID'' ColumnTypeString ''ZSTD(1)'',
         column ''serviceName'' (LowCardinalityColumnType ColumnTypeString) ''ZSTD(1)'',
         column ''exceptionType'' (LowCardinalityColumnType ColumnTypeString) ''ZSTD(1)'',
         column ''exceptionMessage'' ColumnTypeString ''ZSTD(1)'',
         column ''exceptionStacktrace'' ColumnTypeString ''ZSTD(1)'',
         column ''exceptionEscaped'' ColumnTypeBool ''T64, ZSTD(1)'',
         column ''resourceTagsMap'' (MapColumnType (LowCardinalityColumnType ColumnTypeString) ColumnTypeString) ''ZSTD(1)'']
        [index ''idx_error_id'' ''errorID'' ''bloom_filter'' 4,
          index ''idx_resourceTagsMapKeys'' ''mapKeys(resourceTagsMap)'' ''bloom_filter(0.01)'' 64,
          index ''idx_resourceTagsMapValues'' ''mapValues(resourceTagsMap)'' ''bloom_filter(0.01)'' 64]
        []
        (MergeTreeEngine (merge_tree ''(timestamp, groupID)'' [] ''toDate(timestamp)'' [] ''toDateTime(timestamp) + toIntervalSecond(1296000)''
          [setting ''index_granularity'' ''8192'', setting ''ttl_only_drop_parts'' ''1'']))]
      [drop_table ''o11y_traces'' ''o11y_error_index_v2'' []]\<close>

definition SquashedTraces_7 :: "SchemaMigrationRecord" where
  \<open>SquashedTraces_7 =
    migration 7
      [create_table ''o11y_traces'' ''distributed_o11y_error_index_v2''
        [column ''timestamp'' (DateTime64ColumnType 9 []) ''DoubleDelta, LZ4'',
         column ''errorID'' (FixedStringColumnType 32) ''ZSTD(1)'',
         column ''groupID'' (FixedStringColumnType 32) ''ZSTD(1)'',
         column ''traceID'' (FixedStringColumnType 32) ''ZSTD(1)'',
         column ''spanID'' ColumnTypeString ''ZSTD(1)'',
         column ''serviceName'' (LowCardinalityColumnType ColumnTypeString) ''ZSTD(1)'',
         column ''exceptionType'' (LowCardinalityColumnType ColumnTypeString) ''ZSTD(1)'',
         column ''exceptionMessage'' ColumnTypeString ''ZSTD(1)'',
         column ''exceptionStacktrace'' ColumnTypeString ''ZSTD(1)'',
         column ''exceptionEscaped'' ColumnTypeBool ''T64, ZSTD(1)'',
         column ''resourceTagsMap'' (MapColumnType (LowCardinalityColumnType ColumnTypeString) ColumnTypeString) ''ZSTD(1)'']
        []
        []
        (distributed ''o11y_traces'' ''o11y_error_index_v2'' ''cityHash64(groupID)'')]
      [drop_table ''o11y_traces'' ''distributed_o11y_error_index_v2'' []]\<close>

definition SquashedTraces_8 :: "SchemaMigrationRecord" where
  \<open>SquashedTraces_8 =
    migration 8
      [create_table ''o11y_traces'' ''o11y_spans''
        [column ''timestamp'' (DateTime64ColumnType 9 []) ''DoubleDelta, LZ4'',
         column ''traceID'' (FixedStringColumnType 32) ''ZSTD(1)'',
         column ''model'' ColumnTypeString ''ZSTD(9)'']
        []
        []
        (MergeTreeEngine (merge_tree ''(traceID)'' [] ''toDate(timestamp)'' [] ''toDateTime(timestamp) + toIntervalSecond(1296000)''
          [setting ''index_granularity'' ''1024'', setting ''ttl_only_drop_parts'' ''1'']))]
      [drop_table ''o11y_traces'' ''o11y_spans'' []]\<close>

definition SquashedTraces_9 :: "SchemaMigrationRecord" where
  \<open>SquashedTraces_9 =
    migration 9
      [create_table ''o11y_traces'' ''distributed_o11y_spans''
        [column ''timestamp'' (DateTime64ColumnType 9 []) ''DoubleDelta, LZ4'',
         column ''traceID'' (FixedStringColumnType 32) ''ZSTD(1)'',
         column ''model'' ColumnTypeString ''ZSTD(9)'']
        []
        []
        (distributed ''o11y_traces'' ''o11y_spans'' ''cityHash64(traceID)'')]
      [drop_table ''o11y_traces'' ''distributed_o11y_spans'' []]\<close>

definition SquashedTraces_10 :: "SchemaMigrationRecord" where
  \<open>SquashedTraces_10 =
    migration 10
      [create_table ''o11y_traces'' ''dependency_graph_minutes_v2''
        [column ''src'' (LowCardinalityColumnType ColumnTypeString) ''ZSTD(1)'',
         column ''dest'' (LowCardinalityColumnType ColumnTypeString) ''ZSTD(1)'',
         column ''duration_quantiles_state'' (AggregateFunction ''quantiles(0.5, 0.75, 0.9, 0.95, 0.99)'' [ColumnTypeFloat64]) ''Default'',
         column ''error_count'' (SimpleAggregateFunction ''sum'' [ColumnTypeUInt64]) ''T64, ZSTD(1)'',
         column ''total_count'' (SimpleAggregateFunction ''sum'' [ColumnTypeUInt64]) ''T64, ZSTD(1)'',
         column ''timestamp'' (DateTimeColumnType []) ''DoubleDelta, LZ4'',
         column ''deployment_environment'' (LowCardinalityColumnType ColumnTypeString) ''ZSTD(1)'',
         column ''k8s_cluster_name'' (LowCardinalityColumnType ColumnTypeString) ''ZSTD(1)'',
         column ''k8s_namespace_name'' (LowCardinalityColumnType ColumnTypeString) ''ZSTD(1)'']
        []
        []
        (AggregatingMergeTree (merge_tree ''(timestamp, src, dest, deployment_environment, k8s_cluster_name, k8s_namespace_name)'' [] ''toDate(timestamp)'' [] ''toDateTime(timestamp) + toIntervalSecond(1296000)''
          [setting ''index_granularity'' ''8192'']))]
      [drop_table ''o11y_traces'' ''dependency_graph_minutes_v2'' []]\<close>

definition SquashedTraces_11 :: "SchemaMigrationRecord" where
  \<open>SquashedTraces_11 =
    migration 11
      [create_view ''o11y_traces'' ''dependency_graph_minutes_db_calls_mv_v2'' ''dependency_graph_minutes_v2''
        [column ''src'' (LowCardinalityColumnType ColumnTypeString) ''ZSTD(1)'',
         column ''dest'' (LowCardinalityColumnType ColumnTypeString) ''ZSTD(1)'',
         column ''duration_quantiles_state'' (AggregateFunction ''quantiles(0.5, 0.75, 0.9, 0.95, 0.99)'' [ColumnTypeFloat64]) ''Default'',
         column ''error_count'' (SimpleAggregateFunction ''sum'' [ColumnTypeUInt64]) ''T64, ZSTD(1)'',
         column ''total_count'' (SimpleAggregateFunction ''sum'' [ColumnTypeUInt64]) ''T64, ZSTD(1)'',
         column ''timestamp'' (DateTimeColumnType []) ''DoubleDelta, LZ4'',
         column ''deployment_environment'' (LowCardinalityColumnType ColumnTypeString) ''ZSTD(1)'',
         column ''k8s_cluster_name'' (LowCardinalityColumnType ColumnTypeString) ''ZSTD(1)'',
         column ''k8s_namespace_name'' (LowCardinalityColumnType ColumnTypeString) ''ZSTD(1)'']
        (''SELECT\<newline>    serviceName AS src,\<newline>    dbSystem AS dest,\<newline>    quantilesState(0.5, 0.75, 0.9, 0.95, 0.99)(toFloat64(durationNano)) AS duration_quantiles_state,\<newline>    countIf(statusCode = 2) AS error_count,\<newline>    count(*) AS total_count,\<newline>    toStartOfMinute(timestamp) AS timestamp,\<newline>    resourceTagsMap['deployment.environment'] AS deployment_environment,\<newline>    resourceTagsMap['k8s.cluster.name'] AS k8s_cluster_name,\<newline>    resourceTagsMap['k8s.namespace.name'] AS k8s_namespace_name\<newline>FROM o11y_traces.o11y_index_v2\<newline>WHERE (dest != '' @ quoted [] @ '') AND (kind != 2)\<newline>GROUP BY\<newline>    timestamp,\<newline>    src,\<newline>    dest,\<newline>    deployment_environment,\<newline>    k8s_cluster_name,\<newline>    k8s_namespace_name'')]
      [drop_table ''o11y_traces'' ''dependency_graph_minutes_db_calls_mv_v2'' []]\<close>

definition SquashedTraces_12 :: "SchemaMigrationRecord" where
  \<open>SquashedTraces_12 =
    migration 12
      [create_view ''o11y_traces'' ''dependency_graph_minutes_messaging_calls_mv_v2'' ''dependency_graph_minutes_v2''
        [column ''src'' (LowCardinalityColumnType ColumnTypeString) ''ZSTD(1)'',
         column ''dest'' (LowCardinalityColumnType ColumnTypeString) ''ZSTD(1)'',
         column ''duration_quantiles_state'' (AggregateFunction ''quantiles(0.5, 0.75, 0.9, 0.95, 0.99)'' [ColumnTypeFloat64]) ''Default'',
         column ''error_count'' (SimpleAggregateFunction ''sum'' [ColumnTypeUInt64]) ''T64, ZSTD(1)'',
         column ''total_count'' (SimpleAggregateFunction ''sum'' [ColumnTypeUInt64]) ''T64, ZSTD(1)'',
         column ''timestamp'' (DateTimeColumnType []) ''DoubleDelta, LZ4'',
         column ''deployment_environment'' (LowCardinalityColumnType ColumnTypeString) ''ZSTD(1)'',
         column ''k8s_cluster_name'' (LowCardinalityColumnType ColumnTypeString) ''ZSTD(1)'',
         column ''k8s_namespace_name'' (LowCardinalityColumnType ColumnTypeString) ''ZSTD(1)'']
        (''SELECT\<newline>    serviceName AS src,\<newline>    msgSystem AS dest,\<newline>    quantilesState(0.5, 0.75, 0.9, 0.95, 0.99)(toFloat64(durationNano)) AS duration_quantiles_state,\<newline>    countIf(statusCode = 2) AS error_count,\<newline>    count(*) AS total_count,\<newline>    toStartOfMinute(timestamp) AS timestamp,\<newline>    resourceTagsMap['deployment.environment'] AS deployment_environment,\<newline>    resourceTagsMap['k8s.cluster.name'] AS k8s_cluster_name,\<newline>    resourceTagsMap['k8s.namespace.name'] AS k8s_namespace_name\<newline>FROM o11y_traces.o11y_index_v2\<newline>WHERE (dest != '' @ quoted [] @ '') AND (kind != 2)\<newline>GROUP BY\<newline>    timestamp,\<newline>    src,\<newline>    dest,\<newline>    deployment_environment,\<newline>    k8s_cluster_name,\<newline>    k8s_namespace_name'')]
      [drop_table ''o11y_traces'' ''dependency_graph_minutes_messaging_calls_mv_v2'' []]\<close>

definition SquashedTraces_13 :: "SchemaMigrationRecord" where
  \<open>SquashedTraces_13 =
    migration 13
      [create_view ''o11y_traces'' ''dependency_graph_minutes_service_calls_mv_v2'' ''dependency_graph_minutes_v2''
        [column ''src'' (LowCardinalityColumnType ColumnTypeString) ''ZSTD(1)'',
         column ''dest'' (LowCardinalityColumnType ColumnTypeString) ''ZSTD(1)'',
         column ''duration_quantiles_state'' (AggregateFunction ''quantiles(0.5, 0.75, 0.9, 0.95, 0.99)'' [ColumnTypeFloat64]) ''Default'',
         column ''error_count'' (SimpleAggregateFunction ''sum'' [ColumnTypeUInt64]) ''T64, ZSTD(1)'',
         column ''total_count'' (SimpleAggregateFunction ''sum'' [ColumnTypeUInt64]) ''T64, ZSTD(1)'',
         column ''timestamp'' (DateTimeColumnType []) ''DoubleDelta, LZ4'',
         column ''deployment_environment'' (LowCardinalityColumnType ColumnTypeString) ''ZSTD(1)'',
         column ''k8s_cluster_name'' (LowCardinalityColumnType ColumnTypeString) ''ZSTD(1)'',
         column ''k8s_namespace_name'' (LowCardinalityColumnType ColumnTypeString) ''ZSTD(1)'']
        ''SELECT\<newline>    A.serviceName AS src,\<newline>    B.serviceName AS dest,\<newline>    quantilesState(0.5, 0.75, 0.9, 0.95, 0.99)(toFloat64(B.durationNano)) AS duration_quantiles_state,\<newline>    countIf(B.statusCode = 2) AS error_count,\<newline>    count(*) AS total_count,\<newline>    toStartOfMinute(B.timestamp) AS timestamp,\<newline>    B.resourceTagsMap['deployment.environment'] AS deployment_environment,\<newline>    B.resourceTagsMap['k8s.cluster.name'] AS k8s_cluster_name,\<newline>    B.resourceTagsMap['k8s.namespace.name'] AS k8s_namespace_name\<newline>FROM o11y_traces.o11y_index_v2 AS A, o11y_traces.o11y_index_v2 AS B\<newline>WHERE (A.serviceName != B.serviceName) AND (A.spanID = B.parentSpanID)\<newline>GROUP BY\<newline>    timestamp,\<newline>    src,\<newline>    dest,\<newline>    deployment_environment,\<newline>    k8s_cluster_name,\<newline>    k8s_namespace_name'']
      [drop_table ''o11y_traces'' ''dependency_graph_minutes_service_calls_mv_v2'' []]\<close>

definition SquashedTraces_14 :: "SchemaMigrationRecord" where
  \<open>SquashedTraces_14 =
    migration 14
      [create_table ''o11y_traces'' ''distributed_dependency_graph_minutes_v2''
        [column ''src'' (LowCardinalityColumnType ColumnTypeString) ''ZSTD(1)'',
         column ''dest'' (LowCardinalityColumnType ColumnTypeString) ''ZSTD(1)'',
         column ''duration_quantiles_state'' (AggregateFunction ''quantiles(0.5, 0.75, 0.9, 0.95, 0.99)'' [ColumnTypeFloat64]) ''Default'',
         column ''error_count'' (SimpleAggregateFunction ''sum'' [ColumnTypeUInt64]) ''T64, ZSTD(1)'',
         column ''total_count'' (SimpleAggregateFunction ''sum'' [ColumnTypeUInt64]) ''T64, ZSTD(1)'',
         column ''timestamp'' (DateTimeColumnType []) ''DoubleDelta, LZ4'',
         column ''deployment_environment'' (LowCardinalityColumnType ColumnTypeString) ''ZSTD(1)'',
         column ''k8s_cluster_name'' (LowCardinalityColumnType ColumnTypeString) ''ZSTD(1)'',
         column ''k8s_namespace_name'' (LowCardinalityColumnType ColumnTypeString) ''ZSTD(1)'']
        []
        []
        (distributed ''o11y_traces'' ''dependency_graph_minutes_v2'' ''cityHash64(rand())'')]
      [drop_table ''o11y_traces'' ''distributed_dependency_graph_minutes_v2'' []]\<close>

definition SquashedTraces_15 :: "SchemaMigrationRecord" where
  \<open>SquashedTraces_15 =
    migration 15
      [create_table ''o11y_traces'' ''usage_explorer''
        [column ''timestamp'' (DateTime64ColumnType 9 []) ''DoubleDelta, LZ4'',
         column ''service_name'' (LowCardinalityColumnType ColumnTypeString) ''ZSTD(1)'',
         column ''count'' ColumnTypeUInt64 ''T64, ZSTD(1)'']
        []
        []
        (SummingMergeTree (merge_tree ''(timestamp, service_name)'' [] ''toDate(timestamp)'' [] ''toDateTime(timestamp) + toIntervalSecond(1296000)''
          [setting ''index_granularity'' ''8192'', setting ''ttl_only_drop_parts'' ''1'']))]
      [drop_table ''o11y_traces'' ''usage_explorer'' []]\<close>

definition SquashedTraces_16 :: "SchemaMigrationRecord" where
  \<open>SquashedTraces_16 =
    migration 16
      [create_view ''o11y_traces'' ''usage_explorer_mv'' ''usage_explorer''
        [column ''timestamp'' (DateTime64ColumnType 9 []) ''DoubleDelta, LZ4'',
         column ''service_name'' (LowCardinalityColumnType ColumnTypeString) ''ZSTD(1)'',
         column ''count'' ColumnTypeUInt64 ''T64, ZSTD(1)'']
        ''SELECT\<newline>    toStartOfHour(timestamp) AS timestamp,\<newline>    serviceName AS service_name,\<newline>    count() AS count\<newline>FROM o11y_traces.o11y_index_v2\<newline>GROUP BY\<newline>    timestamp,\<newline>    serviceName'']
      [drop_table ''o11y_traces'' ''usage_explorer_mv'' []]\<close>

definition SquashedTraces_17 :: "SchemaMigrationRecord" where
  \<open>SquashedTraces_17 =
    migration 17
      [create_table ''o11y_traces'' ''distributed_usage_explorer''
        [column ''timestamp'' (DateTime64ColumnType 9 []) ''DoubleDelta, LZ4'',
         column ''service_name'' (LowCardinalityColumnType ColumnTypeString) ''ZSTD(1)'',
         column ''count'' ColumnTypeUInt64 ''T64, ZSTD(1)'']
        []
        []
        (distributed ''o11y_traces'' ''usage_explorer'' ''cityHash64(rand())'')]
      [drop_table ''o11y_traces'' ''distributed_usage_explorer'' []]\<close>

definition SquashedTraces_18 :: "SchemaMigrationRecord" where
  \<open>SquashedTraces_18 =
    migration 18
      [create_table ''o11y_traces'' ''top_level_operations''
        [column ''name'' (LowCardinalityColumnType ColumnTypeString) ''ZSTD(1)'',
         column ''serviceName'' (LowCardinalityColumnType ColumnTypeString) ''ZSTD(1)'',
         column_default ''time'' (DateTimeColumnType []) ''ZSTD(1)'' ''now()'']
        []
        []
        (ReplacingMergeTree (merge_tree ''(serviceName, name)'' [] [] [] ''time + toIntervalMonth(1)''
          [setting ''index_granularity'' ''8192'']))]
      [drop_table ''o11y_traces'' ''top_level_operations'' []]\<close>

definition SquashedTraces_19 :: "SchemaMigrationRecord" where
  \<open>SquashedTraces_19 =
    migration 19
      [create_table ''o11y_traces'' ''distributed_top_level_operations''
        [column ''name'' (LowCardinalityColumnType ColumnTypeString) ''ZSTD(1)'',
         column ''serviceName'' (LowCardinalityColumnType ColumnTypeString) ''ZSTD(1)'',
         column_default ''time'' (DateTimeColumnType []) ''ZSTD(1)'' ''now()'']
        []
        []
        (distributed ''o11y_traces'' ''top_level_operations'' ''cityHash64(rand())'')]
      [drop_table ''o11y_traces'' ''distributed_top_level_operations'' []]\<close>

definition SquashedTraces_20 :: "SchemaMigrationRecord" where
  \<open>SquashedTraces_20 =
    migration 20
      [create_view ''o11y_traces'' ''root_operations'' ''top_level_operations''
        [column ''name'' (LowCardinalityColumnType ColumnTypeString) ''ZSTD(1)'',
         column ''serviceName'' (LowCardinalityColumnType ColumnTypeString) ''ZSTD(1)'']
        (''SELECT DISTINCT\<newline>    name,\<newline>    serviceName\<newline>FROM o11y_traces.o11y_index_v2\<newline>WHERE parentSpanID = '' @ quoted [])]
      [drop_table ''o11y_traces'' ''root_operations'' []]\<close>

definition SquashedTraces_21 :: "SchemaMigrationRecord" where
  \<open>SquashedTraces_21 =
    migration 21
      [create_view ''o11y_traces'' ''sub_root_operations'' ''top_level_operations''
        [column ''name'' (LowCardinalityColumnType ColumnTypeString) ''ZSTD(1)'',
         column ''serviceName'' (LowCardinalityColumnType ColumnTypeString) ''ZSTD(1)'']
        ''SELECT DISTINCT\<newline>    name,\<newline>    serviceName\<newline>FROM o11y_traces.o11y_index_v2 AS A, o11y_traces.o11y_index_v2 AS B\<newline>WHERE (A.serviceName != B.serviceName) AND (A.parentSpanID = B.spanID)'']
      [drop_table ''o11y_traces'' ''sub_root_operations'' []]\<close>

definition SquashedTraces_22 :: "SchemaMigrationRecord" where
  \<open>SquashedTraces_22 =
    migration 22
      [create_table ''o11y_traces'' ''span_attributes''
        [column ''timestamp'' (DateTimeColumnType []) ''DoubleDelta, ZSTD(1)'',
         column ''tagKey'' (LowCardinalityColumnType ColumnTypeString) ''ZSTD(1)'',
         column ''tagType'' (EnumerationColumnType [(quoted ''tag'' @ '' = 1''), (quoted ''resource'' @ '' = 2'')] 8) ''ZSTD(1)'',
         column ''dataType'' (EnumerationColumnType [(quoted ''string'' @ '' = 1''), (quoted ''bool'' @ '' = 2''), (quoted ''float64'' @ '' = 3'')] 8) ''ZSTD(1)'',
         column ''stringTagValue'' ColumnTypeString ''ZSTD(1)'',
         column ''float64TagValue'' (NullableColumnType ColumnTypeFloat64) ''ZSTD(1)'',
         column ''isColumn'' ColumnTypeBool ''ZSTD(1)'']
        []
        []
        (ReplacingMergeTree (merge_tree ''(tagKey, tagType, dataType, stringTagValue, float64TagValue, isColumn)'' [] [] [] ''toDateTime(timestamp) + toIntervalSecond(172800)''
          [setting ''index_granularity'' ''8192'', setting ''ttl_only_drop_parts'' ''1'', setting ''allow_nullable_key'' ''1'']))]
      [drop_table ''o11y_traces'' ''span_attributes'' []]\<close>

definition SquashedTraces_23 :: "SchemaMigrationRecord" where
  \<open>SquashedTraces_23 =
    migration 23
      [create_table ''o11y_traces'' ''distributed_span_attributes''
        [column ''timestamp'' (DateTimeColumnType []) ''DoubleDelta, ZSTD(1)'',
         column ''tagKey'' (LowCardinalityColumnType ColumnTypeString) ''ZSTD(1)'',
         column ''tagType'' (EnumerationColumnType [(quoted ''tag'' @ '' = 1''), (quoted ''resource'' @ '' = 2'')] 8) ''ZSTD(1)'',
         column ''dataType'' (EnumerationColumnType [(quoted ''string'' @ '' = 1''), (quoted ''bool'' @ '' = 2''), (quoted ''float64'' @ '' = 3'')] 8) ''ZSTD(1)'',
         column ''stringTagValue'' ColumnTypeString ''ZSTD(1)'',
         column ''float64TagValue'' (NullableColumnType ColumnTypeFloat64) ''ZSTD(1)'',
         column ''isColumn'' ColumnTypeBool ''ZSTD(1)'']
        []
        []
        (distributed ''o11y_traces'' ''span_attributes'' ''cityHash64(rand())'')]
      [drop_table ''o11y_traces'' ''distributed_span_attributes'' []]\<close>

definition SquashedTraces_24 :: "SchemaMigrationRecord" where
  \<open>SquashedTraces_24 =
    migration 24
      [create_table ''o11y_traces'' ''span_attributes_keys''
        [column ''tagKey'' (LowCardinalityColumnType ColumnTypeString) ''ZSTD(1)'',
         column ''tagType'' (EnumerationColumnType [(quoted ''tag'' @ '' = 1''), (quoted ''resource'' @ '' = 2'')] 8) ''ZSTD(1)'',
         column ''dataType'' (EnumerationColumnType [(quoted ''string'' @ '' = 1''), (quoted ''bool'' @ '' = 2''), (quoted ''float64'' @ '' = 3'')] 8) ''ZSTD(1)'',
         column ''isColumn'' ColumnTypeBool ''ZSTD(1)'']
        []
        []
        (ReplacingMergeTree (merge_tree ''(tagKey, tagType, dataType, isColumn)'' [] [] [] []
          []))]
      [drop_table ''o11y_traces'' ''span_attributes_keys'' []]\<close>

definition SquashedTraces_25 :: "SchemaMigrationRecord" where
  \<open>SquashedTraces_25 =
    migration 25
      [create_table ''o11y_traces'' ''distributed_span_attributes_keys''
        [column ''tagKey'' (LowCardinalityColumnType ColumnTypeString) ''ZSTD(1)'',
         column ''tagType'' (EnumerationColumnType [(quoted ''tag'' @ '' = 1''), (quoted ''resource'' @ '' = 2'')] 8) ''ZSTD(1)'',
         column ''dataType'' (EnumerationColumnType [(quoted ''string'' @ '' = 1''), (quoted ''bool'' @ '' = 2''), (quoted ''float64'' @ '' = 3'')] 8) ''ZSTD(1)'',
         column ''isColumn'' ColumnTypeBool ''ZSTD(1)'']
        []
        []
        (distributed ''o11y_traces'' ''span_attributes_keys'' ''cityHash64(rand())'')]
      [drop_table ''o11y_traces'' ''distributed_span_attributes_keys'' []]\<close>

definition SquashedTraces_26 :: "SchemaMigrationRecord" where
  \<open>SquashedTraces_26 =
    migration 26
      [create_table ''o11y_traces'' ''usage''
        [column ''tenant'' ColumnTypeString ''ZSTD(1)'',
         column ''collector_id'' ColumnTypeString ''ZSTD(1)'',
         column ''exporter_id'' ColumnTypeString ''ZSTD(1)'',
         column ''timestamp'' (DateTimeColumnType []) ''ZSTD(1)'',
         column ''data'' ColumnTypeString ''ZSTD(1)'']
        []
        []
        (MergeTreeEngine (merge_tree ''(tenant, collector_id, exporter_id, timestamp)'' [] [] [] ''timestamp + toIntervalDay(3)''
          [setting ''index_granularity'' ''8192'']))]
      [drop_table ''o11y_traces'' ''usage'' []]\<close>

definition SquashedTraces_27 :: "SchemaMigrationRecord" where
  \<open>SquashedTraces_27 =
    migration 27
      [create_table ''o11y_traces'' ''distributed_usage''
        [column ''tenant'' ColumnTypeString ''ZSTD(1)'',
         column ''collector_id'' ColumnTypeString ''ZSTD(1)'',
         column ''exporter_id'' ColumnTypeString ''ZSTD(1)'',
         column ''timestamp'' (DateTimeColumnType []) ''ZSTD(1)'',
         column ''data'' ColumnTypeString ''ZSTD(1)'']
        []
        []
        (distributed ''o11y_traces'' ''usage'' ''cityHash64(rand())'')]
      []\<close>

definition SquashedTracesMigrations_list :: "SchemaMigrationRecord list" where
  \<open>SquashedTracesMigrations_list =
    [SquashedTraces_1, SquashedTraces_2, SquashedTraces_3, SquashedTraces_4, SquashedTraces_5,
     SquashedTraces_6, SquashedTraces_7, SquashedTraces_8, SquashedTraces_9, SquashedTraces_10,
     SquashedTraces_11, SquashedTraces_12, SquashedTraces_13, SquashedTraces_14,
     SquashedTraces_15, SquashedTraces_16, SquashedTraces_17, SquashedTraces_18,
     SquashedTraces_19, SquashedTraces_20, SquashedTraces_21, SquashedTraces_22,
     SquashedTraces_23, SquashedTraces_24, SquashedTraces_25, SquashedTraces_26,
     SquashedTraces_27]\<close>

end
