(* ===== verification/ShippedMetrics.thy ===== *)
theory ShippedMetrics
  imports SchemaCatalog
begin

text \<open>
  The shipped migrations, as they stand in the source: the migrations of the metrics.
  One definition per migration, and one per operation where a migration is long.
\<close>

section \<open>metrics\_migrations.go\<close>

definition Metrics_1000_up1 :: "Operation" where
  \<open>Metrics_1000_up1 =
    add_column ''o11y_metrics'' ''time_series_v4''
      (column_default ''attrs'' (MapColumnType (LowCardinalityColumnType ColumnTypeString) ColumnTypeString) ''ZSTD(1)'' ''map()'') None\<close>

definition Metrics_1000_up2 :: "Operation" where
  \<open>Metrics_1000_up2 =
    add_column ''o11y_metrics'' ''time_series_v4''
      (column_default ''scope_attrs'' (MapColumnType (LowCardinalityColumnType ColumnTypeString) ColumnTypeString) ''ZSTD(1)'' ''map()'') None\<close>

definition Metrics_1000_up3 :: "Operation" where
  \<open>Metrics_1000_up3 =
    add_column ''o11y_metrics'' ''time_series_v4''
      (column_default ''resource_attrs'' (MapColumnType (LowCardinalityColumnType ColumnTypeString) ColumnTypeString) ''ZSTD(1)'' ''map()'') None\<close>

definition Metrics_1000_up4 :: "Operation" where
  \<open>Metrics_1000_up4 =
    add_column ''o11y_metrics'' ''distributed_time_series_v4''
      (column_default ''attrs'' (MapColumnType (LowCardinalityColumnType ColumnTypeString) ColumnTypeString) ''ZSTD(1)'' ''map()'') None\<close>

definition Metrics_1000_up5 :: "Operation" where
  \<open>Metrics_1000_up5 =
    add_column ''o11y_metrics'' ''distributed_time_series_v4''
      (column_default ''scope_attrs'' (MapColumnType (LowCardinalityColumnType ColumnTypeString) ColumnTypeString) ''ZSTD(1)'' ''map()'') None\<close>

definition Metrics_1000_up6 :: "Operation" where
  \<open>Metrics_1000_up6 =
    add_column ''o11y_metrics'' ''distributed_time_series_v4''
      (column_default ''resource_attrs'' (MapColumnType (LowCardinalityColumnType ColumnTypeString) ColumnTypeString) ''ZSTD(1)'' ''map()'') None\<close>

definition Metrics_1000_up7 :: "Operation" where
  \<open>Metrics_1000_up7 =
    add_column ''o11y_metrics'' ''time_series_v4_6hrs''
      (column_default ''attrs'' (MapColumnType (LowCardinalityColumnType ColumnTypeString) ColumnTypeString) ''ZSTD(1)'' ''map()'') None\<close>

definition Metrics_1000_up8 :: "Operation" where
  \<open>Metrics_1000_up8 =
    add_column ''o11y_metrics'' ''time_series_v4_6hrs''
      (column_default ''scope_attrs'' (MapColumnType (LowCardinalityColumnType ColumnTypeString) ColumnTypeString) ''ZSTD(1)'' ''map()'') None\<close>

definition Metrics_1000_up9 :: "Operation" where
  \<open>Metrics_1000_up9 =
    add_column ''o11y_metrics'' ''time_series_v4_6hrs''
      (column_default ''resource_attrs'' (MapColumnType (LowCardinalityColumnType ColumnTypeString) ColumnTypeString) ''ZSTD(1)'' ''map()'') None\<close>

definition Metrics_1000_up10 :: "Operation" where
  \<open>Metrics_1000_up10 =
    add_column ''o11y_metrics'' ''distributed_time_series_v4_6hrs''
      (column_default ''attrs'' (MapColumnType (LowCardinalityColumnType ColumnTypeString) ColumnTypeString) ''ZSTD(1)'' ''map()'') None\<close>

definition Metrics_1000_up11 :: "Operation" where
  \<open>Metrics_1000_up11 =
    add_column ''o11y_metrics'' ''distributed_time_series_v4_6hrs''
      (column_default ''scope_attrs'' (MapColumnType (LowCardinalityColumnType ColumnTypeString) ColumnTypeString) ''ZSTD(1)'' ''map()'') None\<close>

definition Metrics_1000_up12 :: "Operation" where
  \<open>Metrics_1000_up12 =
    add_column ''o11y_metrics'' ''distributed_time_series_v4_6hrs''
      (column_default ''resource_attrs'' (MapColumnType (LowCardinalityColumnType ColumnTypeString) ColumnTypeString) ''ZSTD(1)'' ''map()'') None\<close>

definition Metrics_1000_up13 :: "Operation" where
  \<open>Metrics_1000_up13 =
    add_column ''o11y_metrics'' ''time_series_v4_1day''
      (column_default ''attrs'' (MapColumnType (LowCardinalityColumnType ColumnTypeString) ColumnTypeString) ''ZSTD(1)'' ''map()'') None\<close>

definition Metrics_1000_up14 :: "Operation" where
  \<open>Metrics_1000_up14 =
    add_column ''o11y_metrics'' ''time_series_v4_1day''
      (column_default ''scope_attrs'' (MapColumnType (LowCardinalityColumnType ColumnTypeString) ColumnTypeString) ''ZSTD(1)'' ''map()'') None\<close>

definition Metrics_1000_up15 :: "Operation" where
  \<open>Metrics_1000_up15 =
    add_column ''o11y_metrics'' ''time_series_v4_1day''
      (column_default ''resource_attrs'' (MapColumnType (LowCardinalityColumnType ColumnTypeString) ColumnTypeString) ''ZSTD(1)'' ''map()'') None\<close>

definition Metrics_1000_up16 :: "Operation" where
  \<open>Metrics_1000_up16 =
    add_column ''o11y_metrics'' ''distributed_time_series_v4_1day''
      (column_default ''attrs'' (MapColumnType (LowCardinalityColumnType ColumnTypeString) ColumnTypeString) ''ZSTD(1)'' ''map()'') None\<close>

definition Metrics_1000_up17 :: "Operation" where
  \<open>Metrics_1000_up17 =
    add_column ''o11y_metrics'' ''distributed_time_series_v4_1day''
      (column_default ''scope_attrs'' (MapColumnType (LowCardinalityColumnType ColumnTypeString) ColumnTypeString) ''ZSTD(1)'' ''map()'') None\<close>

definition Metrics_1000_up18 :: "Operation" where
  \<open>Metrics_1000_up18 =
    add_column ''o11y_metrics'' ''distributed_time_series_v4_1day''
      (column_default ''resource_attrs'' (MapColumnType (LowCardinalityColumnType ColumnTypeString) ColumnTypeString) ''ZSTD(1)'' ''map()'') None\<close>

definition Metrics_1000_up19 :: "Operation" where
  \<open>Metrics_1000_up19 =
    add_column ''o11y_metrics'' ''time_series_v4_1week''
      (column_default ''attrs'' (MapColumnType (LowCardinalityColumnType ColumnTypeString) ColumnTypeString) ''ZSTD(1)'' ''map()'') None\<close>

definition Metrics_1000_up20 :: "Operation" where
  \<open>Metrics_1000_up20 =
    add_column ''o11y_metrics'' ''time_series_v4_1week''
      (column_default ''scope_attrs'' (MapColumnType (LowCardinalityColumnType ColumnTypeString) ColumnTypeString) ''ZSTD(1)'' ''map()'') None\<close>

definition Metrics_1000_up21 :: "Operation" where
  \<open>Metrics_1000_up21 =
    add_column ''o11y_metrics'' ''time_series_v4_1week''
      (column_default ''resource_attrs'' (MapColumnType (LowCardinalityColumnType ColumnTypeString) ColumnTypeString) ''ZSTD(1)'' ''map()'') None\<close>

definition Metrics_1000_up22 :: "Operation" where
  \<open>Metrics_1000_up22 =
    add_column ''o11y_metrics'' ''distributed_time_series_v4_1week''
      (column_default ''attrs'' (MapColumnType (LowCardinalityColumnType ColumnTypeString) ColumnTypeString) ''ZSTD(1)'' ''map()'') None\<close>

definition Metrics_1000_up23 :: "Operation" where
  \<open>Metrics_1000_up23 =
    add_column ''o11y_metrics'' ''distributed_time_series_v4_1week''
      (column_default ''scope_attrs'' (MapColumnType (LowCardinalityColumnType ColumnTypeString) ColumnTypeString) ''ZSTD(1)'' ''map()'') None\<close>

definition Metrics_1000_up24 :: "Operation" where
  \<open>Metrics_1000_up24 =
    add_column ''o11y_metrics'' ''distributed_time_series_v4_1week''
      (column_default ''resource_attrs'' (MapColumnType (LowCardinalityColumnType ColumnTypeString) ColumnTypeString) ''ZSTD(1)'' ''map()'') None\<close>

definition Metrics_1000_up25 :: "Operation" where
  \<open>Metrics_1000_up25 =
    create_table ''o11y_metrics'' ''metadata''
      [column ''temporality'' (LowCardinalityColumnType ColumnTypeString) ''ZSTD(1)'',
       column ''metric_name'' (LowCardinalityColumnType ColumnTypeString) ''ZSTD(1)'',
       column ''description'' ColumnTypeString ''ZSTD(1)'',
       column ''unit'' (LowCardinalityColumnType ColumnTypeString) ''ZSTD(1)'',
       column ''type'' (LowCardinalityColumnType ColumnTypeString) ''ZSTD(1)'',
       column ''is_monotonic'' ColumnTypeBool ''ZSTD(1)'',
       column ''attr_name'' (LowCardinalityColumnType ColumnTypeString) ''ZSTD(1)'',
       column ''attr_type'' (LowCardinalityColumnType ColumnTypeString) ''ZSTD(1)'',
       column ''attr_datatype'' (LowCardinalityColumnType ColumnTypeString) ''ZSTD(1)'',
       column ''attr_string_value'' ColumnTypeString ''ZSTD(1)'',
       column ''first_reported_unix_milli'' (SimpleAggregateFunction ''min'' [ColumnTypeUInt64]) ''ZSTD(1)'',
       column ''last_reported_unix_milli'' (SimpleAggregateFunction ''max'' [ColumnTypeUInt64]) ''ZSTD(1)'']
      []
      []
      (AggregatingMergeTree (merge_tree ''(temporality, metric_name, attr_name, attr_type, attr_datatype, attr_string_value)'' [] ''toDate(last_reported_unix_milli / 1000)'' [] ''toDateTime(last_reported_unix_milli / 1000) + toIntervalSecond(2592000)''
        [setting ''ttl_only_drop_parts'' ''1'']))\<close>

definition Metrics_1000_up26 :: "Operation" where
  \<open>Metrics_1000_up26 =
    create_table ''o11y_metrics'' ''distributed_metadata''
      [column ''temporality'' (LowCardinalityColumnType ColumnTypeString) ''ZSTD(1)'',
       column ''metric_name'' (LowCardinalityColumnType ColumnTypeString) ''ZSTD(1)'',
       column ''description'' ColumnTypeString ''ZSTD(1)'',
       column ''unit'' (LowCardinalityColumnType ColumnTypeString) ''ZSTD(1)'',
       column ''type'' (LowCardinalityColumnType ColumnTypeString) ''ZSTD(1)'',
       column ''is_monotonic'' ColumnTypeBool ''ZSTD(1)'',
       column ''attr_name'' (LowCardinalityColumnType ColumnTypeString) ''ZSTD(1)'',
       column ''attr_type'' (LowCardinalityColumnType ColumnTypeString) ''ZSTD(1)'',
       column ''attr_datatype'' (LowCardinalityColumnType ColumnTypeString) ''ZSTD(1)'',
       column ''attr_string_value'' ColumnTypeString ''ZSTD(1)'',
       column ''first_reported_unix_milli'' (SimpleAggregateFunction ''min'' [ColumnTypeUInt64]) ''ZSTD(1)'',
       column ''last_reported_unix_milli'' (SimpleAggregateFunction ''max'' [ColumnTypeUInt64]) ''ZSTD(1)'']
      []
      []
      (distributed ''o11y_metrics'' ''metadata'' ''rand()'')\<close>

definition Metrics_1000_up27 :: "Operation" where
  \<open>Metrics_1000_up27 =
    create_view ''o11y_metrics'' ''time_series_v4_6hrs_mv_separate_attrs'' ''time_series_v4_6hrs''
      [column_default ''env'' (LowCardinalityColumnType ColumnTypeString) [] (quoted ''default''),
       column_default ''temporality'' (LowCardinalityColumnType ColumnTypeString) [] (quoted ''Unspecified''),
       column ''metric_name'' (LowCardinalityColumnType ColumnTypeString) [],
       column_default ''description'' (LowCardinalityColumnType ColumnTypeString) ''ZSTD(1)'' (quoted []),
       column_default ''unit'' (LowCardinalityColumnType ColumnTypeString) ''ZSTD(1)'' (quoted []),
       column_default ''type'' (LowCardinalityColumnType ColumnTypeString) ''ZSTD(1)'' (quoted []),
       column_default ''is_monotonic'' ColumnTypeBool ''ZSTD(1)'' ''false'',
       column ''fingerprint'' ColumnTypeUInt64 ''Delta(8), ZSTD(1)'',
       column ''unix_milli'' ColumnTypeInt64 ''Delta(8), ZSTD(1)'',
       column ''labels'' ColumnTypeString ''ZSTD(5)'',
       column ''attrs'' (MapColumnType (LowCardinalityColumnType ColumnTypeString) ColumnTypeString) ''ZSTD(1)'',
       column ''scope_attrs'' (MapColumnType (LowCardinalityColumnType ColumnTypeString) ColumnTypeString) ''ZSTD(1)'',
       column ''resource_attrs'' (MapColumnType (LowCardinalityColumnType ColumnTypeString) ColumnTypeString) ''ZSTD(1)'']
      ''SELECT\<newline>							env,\<newline>							temporality,\<newline>							metric_name,\<newline>							description,\<newline>							unit,\<newline>							type,\<newline>							is_monotonic,\<newline>							fingerprint,\<newline>							floor(unix_milli / 21600000) * 21600000 AS unix_milli,\<newline>							labels,\<newline>							attrs,\<newline>							scope_attrs,\<newline>							resource_attrs\<newline>						FROM o11y_metrics.time_series_v4''\<close>

definition Metrics_1000_up28 :: "Operation" where
  \<open>Metrics_1000_up28 =
    create_view ''o11y_metrics'' ''time_series_v4_1day_mv_separate_attrs'' ''time_series_v4_1day''
      [column_default ''env'' (LowCardinalityColumnType ColumnTypeString) [] (quoted ''default''),
       column_default ''temporality'' (LowCardinalityColumnType ColumnTypeString) [] (quoted ''Unspecified''),
       column ''metric_name'' (LowCardinalityColumnType ColumnTypeString) [],
       column_default ''description'' (LowCardinalityColumnType ColumnTypeString) ''ZSTD(1)'' (quoted []),
       column_default ''unit'' (LowCardinalityColumnType ColumnTypeString) ''ZSTD(1)'' (quoted []),
       column_default ''type'' (LowCardinalityColumnType ColumnTypeString) ''ZSTD(1)'' (quoted []),
       column_default ''is_monotonic'' ColumnTypeBool ''ZSTD(1)'' ''false'',
       column ''fingerprint'' ColumnTypeUInt64 ''Delta(8), ZSTD(1)'',
       column ''unix_milli'' ColumnTypeInt64 ''Delta(8), ZSTD(1)'',
       column ''labels'' ColumnTypeString ''ZSTD(5)'',
       column ''attrs'' (MapColumnType (LowCardinalityColumnType ColumnTypeString) ColumnTypeString) ''ZSTD(1)'',
       column ''scope_attrs'' (MapColumnType (LowCardinalityColumnType ColumnTypeString) ColumnTypeString) ''ZSTD(1)'',
       column ''resource_attrs'' (MapColumnType (LowCardinalityColumnType ColumnTypeString) ColumnTypeString) ''ZSTD(1)'']
      ''SELECT\<newline>							env,\<newline>							temporality,\<newline>							metric_name,\<newline>							description,\<newline>							unit,\<newline>							type,\<newline>							is_monotonic,\<newline>							fingerprint,\<newline>							floor(unix_milli / 86400000) * 86400000 AS unix_milli,\<newline>							labels,\<newline>							attrs,\<newline>							scope_attrs,\<newline>							resource_attrs\<newline>						FROM o11y_metrics.time_series_v4_6hrs''\<close>

definition Metrics_1000_up29 :: "Operation" where
  \<open>Metrics_1000_up29 =
    create_view ''o11y_metrics'' ''time_series_v4_1week_mv_separate_attrs'' ''time_series_v4_1week''
      [column_default ''env'' (LowCardinalityColumnType ColumnTypeString) [] (quoted ''default''),
       column_default ''temporality'' (LowCardinalityColumnType ColumnTypeString) [] (quoted ''Unspecified''),
       column ''metric_name'' (LowCardinalityColumnType ColumnTypeString) [],
       column_default ''description'' (LowCardinalityColumnType ColumnTypeString) ''ZSTD(1)'' (quoted []),
       column_default ''unit'' (LowCardinalityColumnType ColumnTypeString) ''ZSTD(1)'' (quoted []),
       column_default ''type'' (LowCardinalityColumnType ColumnTypeString) ''ZSTD(1)'' (quoted []),
       column_default ''is_monotonic'' ColumnTypeBool ''ZSTD(1)'' ''false'',
       column ''fingerprint'' ColumnTypeUInt64 ''Delta(8), ZSTD(1)'',
       column ''unix_milli'' ColumnTypeInt64 ''Delta(8), ZSTD(1)'',
       column ''labels'' ColumnTypeString ''ZSTD(5)'',
       column ''attrs'' (MapColumnType (LowCardinalityColumnType ColumnTypeString) ColumnTypeString) ''ZSTD(1)'',
       column ''scope_attrs'' (MapColumnType (LowCardinalityColumnType ColumnTypeString) ColumnTypeString) ''ZSTD(1)'',
       column ''resource_attrs'' (MapColumnType (LowCardinalityColumnType ColumnTypeString) ColumnTypeString) ''ZSTD(1)'']
      ''SELECT\<newline>							env,\<newline>							temporality,\<newline>							metric_name,\<newline>							description,\<newline>							unit,\<newline>							type,\<newline>							is_monotonic,\<newline>							fingerprint,\<newline>							floor(unix_milli / 604800000) * 604800000 AS unix_milli,\<newline>							labels,\<newline>							attrs,\<newline>							scope_attrs,\<newline>							resource_attrs\<newline>						FROM o11y_metrics.time_series_v4_1day''\<close>

definition Metrics_1000 :: "SchemaMigrationRecord" where
  \<open>Metrics_1000 =
    migration 1000
      [Metrics_1000_up1,
       Metrics_1000_up2,
       Metrics_1000_up3,
       Metrics_1000_up4,
       Metrics_1000_up5,
       Metrics_1000_up6,
       Metrics_1000_up7,
       Metrics_1000_up8,
       Metrics_1000_up9,
       Metrics_1000_up10,
       Metrics_1000_up11,
       Metrics_1000_up12,
       Metrics_1000_up13,
       Metrics_1000_up14,
       Metrics_1000_up15,
       Metrics_1000_up16,
       Metrics_1000_up17,
       Metrics_1000_up18,
       Metrics_1000_up19,
       Metrics_1000_up20,
       Metrics_1000_up21,
       Metrics_1000_up22,
       Metrics_1000_up23,
       Metrics_1000_up24,
       Metrics_1000_up25,
       Metrics_1000_up26,
       Metrics_1000_up27,
       Metrics_1000_up28,
       Metrics_1000_up29]
      []\<close>

definition Metrics_1001_up1 :: "Operation" where
  \<open>Metrics_1001_up1 =
    add_column ''o11y_metrics'' ''time_series_v4''
      (column_default ''__normalized'' ColumnTypeBool ''ZSTD(1)'' ''true'') None\<close>

definition Metrics_1001_up2 :: "Operation" where
  \<open>Metrics_1001_up2 =
    add_column ''o11y_metrics'' ''distributed_time_series_v4''
      (column_default ''__normalized'' ColumnTypeBool ''ZSTD(1)'' ''true'') None\<close>

definition Metrics_1001_up3 :: "Operation" where
  \<open>Metrics_1001_up3 =
    add_column ''o11y_metrics'' ''time_series_v4_6hrs''
      (column_default ''__normalized'' ColumnTypeBool ''ZSTD(1)'' ''true'') None\<close>

definition Metrics_1001_up4 :: "Operation" where
  \<open>Metrics_1001_up4 =
    add_column ''o11y_metrics'' ''distributed_time_series_v4_6hrs''
      (column_default ''__normalized'' ColumnTypeBool ''ZSTD(1)'' ''true'') None\<close>

definition Metrics_1001_up5 :: "Operation" where
  \<open>Metrics_1001_up5 =
    add_column ''o11y_metrics'' ''time_series_v4_1day''
      (column_default ''__normalized'' ColumnTypeBool ''ZSTD(1)'' ''true'') None\<close>

definition Metrics_1001_up6 :: "Operation" where
  \<open>Metrics_1001_up6 =
    add_column ''o11y_metrics'' ''distributed_time_series_v4_1day''
      (column_default ''__normalized'' ColumnTypeBool ''ZSTD(1)'' ''true'') None\<close>

definition Metrics_1001_up7 :: "Operation" where
  \<open>Metrics_1001_up7 =
    add_column ''o11y_metrics'' ''time_series_v4_1week''
      (column_default ''__normalized'' ColumnTypeBool ''ZSTD(1)'' ''true'') None\<close>

definition Metrics_1001_up8 :: "Operation" where
  \<open>Metrics_1001_up8 =
    add_column ''o11y_metrics'' ''distributed_time_series_v4_1week''
      (column_default ''__normalized'' ColumnTypeBool ''ZSTD(1)'' ''true'') None\<close>

definition Metrics_1001_up9 :: "Operation" where
  \<open>Metrics_1001_up9 =
    modify_query ''o11y_metrics'' ''time_series_v4_6hrs_mv''
      ''SELECT\<newline>							env,\<newline>							temporality,\<newline>							metric_name,\<newline>							description,\<newline>							unit,\<newline>							type,\<newline>							is_monotonic,\<newline>							fingerprint,\<newline>							floor(unix_milli / 21600000) * 21600000 AS unix_milli,\<newline>							labels,\<newline>							__normalized\<newline>						FROM o11y_metrics.time_series_v4''\<close>

definition Metrics_1001_up10 :: "Operation" where
  \<open>Metrics_1001_up10 =
    modify_query ''o11y_metrics'' ''time_series_v4_1day_mv''
      ''SELECT\<newline>							env,\<newline>							temporality,\<newline>							metric_name,\<newline>							description,\<newline>							unit,\<newline>							type,\<newline>							is_monotonic,\<newline>							fingerprint,\<newline>							floor(unix_milli / 86400000) * 86400000 AS unix_milli,\<newline>							labels,\<newline>							__normalized\<newline>						FROM o11y_metrics.time_series_v4_6hrs''\<close>

definition Metrics_1001_up11 :: "Operation" where
  \<open>Metrics_1001_up11 =
    modify_query ''o11y_metrics'' ''time_series_v4_1week_mv''
      ''SELECT\<newline>							env,\<newline>							temporality,\<newline>							metric_name,\<newline>							description,\<newline>							unit,\<newline>							type,\<newline>							is_monotonic,\<newline>							fingerprint,\<newline>							floor(unix_milli / 604800000) * 604800000 AS unix_milli,\<newline>							labels,\<newline>							__normalized\<newline>						FROM o11y_metrics.time_series_v4_1day''\<close>

definition Metrics_1001_up12 :: "Operation" where
  \<open>Metrics_1001_up12 =
    modify_query ''o11y_metrics'' ''time_series_v4_6hrs_mv_separate_attrs''
      ''SELECT\<newline>							env,\<newline>							temporality,\<newline>							metric_name,\<newline>							description,\<newline>							unit,\<newline>							type,\<newline>							is_monotonic,\<newline>							fingerprint,\<newline>							floor(unix_milli / 21600000) * 21600000 AS unix_milli,\<newline>							labels,\<newline>							attrs,\<newline>							scope_attrs,\<newline>							resource_attrs,\<newline>							__normalized\<newline>						FROM o11y_metrics.time_series_v4''\<close>

definition Metrics_1001_up13 :: "Operation" where
  \<open>Metrics_1001_up13 =
    modify_query ''o11y_metrics'' ''time_series_v4_1day_mv_separate_attrs''
      ''SELECT\<newline>							env,\<newline>							temporality,\<newline>							metric_name,\<newline>							description,\<newline>							unit,\<newline>							type,\<newline>							is_monotonic,\<newline>							fingerprint,\<newline>							floor(unix_milli / 86400000) * 86400000 AS unix_milli,\<newline>							labels,\<newline>							attrs,\<newline>							scope_attrs,\<newline>							resource_attrs,\<newline>							__normalized\<newline>						FROM o11y_metrics.time_series_v4_6hrs''\<close>

definition Metrics_1001_up14 :: "Operation" where
  \<open>Metrics_1001_up14 =
    modify_query ''o11y_metrics'' ''time_series_v4_1week_mv_separate_attrs''
      ''SELECT\<newline>							env,\<newline>							temporality,\<newline>							metric_name,\<newline>							description,\<newline>							unit,\<newline>							type,\<newline>							is_monotonic,\<newline>							fingerprint,\<newline>							floor(unix_milli / 604800000) * 604800000 AS unix_milli,\<newline>							labels,\<newline>							attrs,\<newline>							scope_attrs,\<newline>							resource_attrs,\<newline>							__normalized\<newline>						FROM o11y_metrics.time_series_v4_1day''\<close>

definition Metrics_1001 :: "SchemaMigrationRecord" where
  \<open>Metrics_1001 =
    migration 1001
      [Metrics_1001_up1,
       Metrics_1001_up2,
       Metrics_1001_up3,
       Metrics_1001_up4,
       Metrics_1001_up5,
       Metrics_1001_up6,
       Metrics_1001_up7,
       Metrics_1001_up8,
       Metrics_1001_up9,
       Metrics_1001_up10,
       Metrics_1001_up11,
       Metrics_1001_up12,
       Metrics_1001_up13,
       Metrics_1001_up14]
      []\<close>

definition Metrics_1002 :: "SchemaMigrationRecord" where
  \<open>Metrics_1002 =
    migration 1002
      [create_table ''o11y_metrics'' ''updated_metadata''
        [column ''metric_name'' (LowCardinalityColumnType ColumnTypeString) ''ZSTD(1)'',
         column ''temporality'' (LowCardinalityColumnType ColumnTypeString) ''ZSTD(1)'',
         column ''is_monotonic'' ColumnTypeBool ''ZSTD(1)'',
         column ''type'' (LowCardinalityColumnType ColumnTypeString) ''ZSTD(1)'',
         column ''description'' (LowCardinalityColumnType ColumnTypeString) ''ZSTD(1)'',
         column ''unit'' (LowCardinalityColumnType ColumnTypeString) ''ZSTD(1)'',
         column ''created_at'' ColumnTypeInt64 ''ZSTD(1)'']
        []
        []
        (MergeTreeEngine (merge_tree ''(metric_name)'' [] [] [] []
          [])),
       create_table ''o11y_metrics'' ''distributed_updated_metadata''
        [column ''metric_name'' (LowCardinalityColumnType ColumnTypeString) ''ZSTD(1)'',
         column ''temporality'' (LowCardinalityColumnType ColumnTypeString) ''ZSTD(1)'',
         column ''is_monotonic'' ColumnTypeBool ''ZSTD(1)'',
         column ''type'' (LowCardinalityColumnType ColumnTypeString) ''ZSTD(1)'',
         column ''description'' (LowCardinalityColumnType ColumnTypeString) ''ZSTD(1)'',
         column ''unit'' (LowCardinalityColumnType ColumnTypeString) ''ZSTD(1)'',
         column ''created_at'' ColumnTypeInt64 ''ZSTD(1)'']
        []
        []
        (distributed ''o11y_metrics'' ''updated_metadata'' ''cityHash64(metric_name)'')]
      []\<close>

definition Metrics_1003 :: "SchemaMigrationRecord" where
  \<open>Metrics_1003 =
    migration 1003
      [add_column ''o11y_metrics'' ''samples_v4''
        (column_default ''flags'' ColumnTypeUInt32 ''ZSTD(1)'' ''0'') None,
       add_column ''o11y_metrics'' ''distributed_samples_v4''
        (column_default ''flags'' ColumnTypeUInt32 ''ZSTD(1)'' ''0'') None,
       add_column ''o11y_metrics'' ''exp_hist''
        (column_default ''flags'' ColumnTypeUInt32 ''ZSTD(1)'' ''0'') None,
       add_column ''o11y_metrics'' ''distributed_exp_hist''
        (column_default ''flags'' ColumnTypeUInt32 ''ZSTD(1)'' ''0'') None,
       modify_query ''o11y_metrics'' ''samples_v4_agg_5m_mv''
        ''SELECT\<newline>							env,\<newline>							temporality,\<newline>							metric_name,\<newline>							fingerprint,\<newline>							intDiv(unix_milli, 300000) * 300000 as unix_milli,\<newline>							anyLast(value) as last,\<newline>							min(value) as min,\<newline>							max(value) as max,\<newline>							sum(value) as sum,\<newline>							count(*) as count\<newline>						FROM o11y_metrics.samples_v4\<newline>						WHERE bitAnd(flags, 1) = 0\<newline>						GROUP BY\<newline>							env,\<newline>							temporality,\<newline>							metric_name,\<newline>							fingerprint,\<newline>							unix_milli;'',
       modify_query ''o11y_metrics'' ''samples_v4_agg_30m_mv''
        ''SELECT\<newline>							env,\<newline>							temporality,\<newline>							metric_name,\<newline>							fingerprint,\<newline>							intDiv(unix_milli, 1800000) * 1800000 AS unix_milli,\<newline>							anyLast(last) AS last,\<newline>							min(min) AS min,\<newline>							max(max) AS max,\<newline>							sum(sum) AS sum,\<newline>							sum(count) AS count\<newline>						FROM o11y_metrics.samples_v4_agg_5m\<newline>						GROUP BY\<newline>							env,\<newline>							temporality,\<newline>							metric_name,\<newline>							fingerprint,\<newline>							unix_milli;'']
      []\<close>

definition Metrics_1004 :: "SchemaMigrationRecord" where
  \<open>Metrics_1004 =
    migration 1004
      [modify_query ''o11y_metrics'' ''time_series_v4_6hrs_mv''
        ''SELECT\<newline>							env,\<newline>							temporality,\<newline>							metric_name,\<newline>							description,\<newline>							unit,\<newline>							type,\<newline>							is_monotonic,\<newline>							fingerprint,\<newline>							floor(unix_milli / 21600000) * 21600000 AS unix_milli,\<newline>							labels,\<newline>							attrs,\<newline>							scope_attrs,\<newline>							resource_attrs,\<newline>							__normalized\<newline>						FROM o11y_metrics.time_series_v4'',
       modify_query ''o11y_metrics'' ''time_series_v4_1day_mv''
        ''SELECT\<newline>							env,\<newline>							temporality,\<newline>							metric_name,\<newline>							description,\<newline>							unit,\<newline>							type,\<newline>							is_monotonic,\<newline>							fingerprint,\<newline>							floor(unix_milli / 86400000) * 86400000 AS unix_milli,\<newline>							labels,\<newline>							attrs,\<newline>							scope_attrs,\<newline>							resource_attrs,\<newline>							__normalized\<newline>						FROM o11y_metrics.time_series_v4_6hrs'',
       modify_query ''o11y_metrics'' ''time_series_v4_1week_mv''
        ''SELECT\<newline>							env,\<newline>							temporality,\<newline>							metric_name,\<newline>							description,\<newline>							unit,\<newline>							type,\<newline>							is_monotonic,\<newline>							fingerprint,\<newline>							floor(unix_milli / 604800000) * 604800000 AS unix_milli,\<newline>							labels,\<newline>							attrs,\<newline>							scope_attrs,\<newline>							resource_attrs,\<newline>							__normalized\<newline>						FROM o11y_metrics.time_series_v4_1day'']
      []\<close>

definition Metrics_1005 :: "SchemaMigrationRecord" where
  \<open>Metrics_1005 =
    migration 1005
      [drop_table ''o11y_metrics'' ''time_series_v4_6hrs_mv_separate_attrs'' [],
       drop_table ''o11y_metrics'' ''time_series_v4_1day_mv_separate_attrs'' [],
       drop_table ''o11y_metrics'' ''time_series_v4_1week_mv_separate_attrs'' []]
      []\<close>

definition Metrics_1006 :: "SchemaMigrationRecord" where
  \<open>Metrics_1006 =
    migration 1006
      [drop_index ''o11y_metrics'' ''time_series_v4''
        (index ''idx_labels'' [] [] 0),
       drop_index ''o11y_metrics'' ''time_series_v4_6hrs''
        (index ''idx_labels'' [] [] 0),
       drop_index ''o11y_metrics'' ''time_series_v4_1day''
        (index ''idx_labels'' [] [] 0),
       drop_index ''o11y_metrics'' ''time_series_v4_1week''
        (index ''idx_labels'' [] [] 0)]
      []\<close>

definition Metrics_1007 :: "SchemaMigrationRecord" where
  \<open>Metrics_1007 =
    migration 1007
      [add_column ''o11y_metrics'' ''samples_v4''
        (column ''inserted_at_unix_milli'' ColumnTypeInt64 ''ZSTD(1)'') None,
       add_column ''o11y_metrics'' ''distributed_samples_v4''
        (column ''inserted_at_unix_milli'' ColumnTypeInt64 ''ZSTD(1)'') None,
       add_column ''o11y_metrics'' ''time_series_v4''
        (column ''inserted_at_unix_milli'' ColumnTypeInt64 ''ZSTD(1)'') None,
       add_column ''o11y_metrics'' ''distributed_time_series_v4''
        (column ''inserted_at_unix_milli'' ColumnTypeInt64 ''ZSTD(1)'') None,
       add_column ''o11y_metrics'' ''exp_hist''
        (column ''inserted_at_unix_milli'' ColumnTypeInt64 ''ZSTD(1)'') None,
       add_column ''o11y_metrics'' ''distributed_exp_hist''
        (column ''inserted_at_unix_milli'' ColumnTypeInt64 ''ZSTD(1)'') None]
      []\<close>

definition MetricsMigrations_list :: "SchemaMigrationRecord list" where
  \<open>MetricsMigrations_list =
    [Metrics_1000, Metrics_1001, Metrics_1002, Metrics_1003, Metrics_1004, Metrics_1005,
     Metrics_1006, Metrics_1007]\<close>

section \<open>squashed\_metrics\_migrations.go\<close>

definition SquashedMetrics_1 :: "SchemaMigrationRecord" where
  \<open>SquashedMetrics_1 =
    migration 1
      [create_table ''o11y_metrics'' ''samples_v2''
        [column ''metric_name'' (LowCardinalityColumnType ColumnTypeString) [],
         column ''fingerprint'' ColumnTypeUInt64 ''ZSTD(1)'',
         column ''timestamp_ms'' ColumnTypeInt64 ''DoubleDelta, LZ4'',
         column ''value'' ColumnTypeFloat64 ''Gorilla, LZ4'']
        []
        []
        (MergeTreeEngine (merge_tree ''(metric_name, fingerprint, timestamp_ms)'' [] ''toDate(timestamp_ms / 1000)'' [] ''toDateTime(timestamp_ms / 1000) + toIntervalSecond(2592000)''
          [setting ''index_granularity'' ''8192'', setting ''ttl_only_drop_parts'' ''1'']))]
      [drop_table ''o11y_metrics'' ''samples_v2'' []]\<close>

definition SquashedMetrics_2 :: "SchemaMigrationRecord" where
  \<open>SquashedMetrics_2 =
    migration 2
      [create_table ''o11y_metrics'' ''distributed_samples_v2''
        [column ''metric_name'' (LowCardinalityColumnType ColumnTypeString) [],
         column ''fingerprint'' ColumnTypeUInt64 ''ZSTD(1)'',
         column ''timestamp_ms'' ColumnTypeInt64 ''DoubleDelta, LZ4'',
         column ''value'' ColumnTypeFloat64 ''Gorilla, LZ4'']
        []
        []
        (distributed ''o11y_metrics'' ''samples_v2'' ''cityHash64(metric_name, fingerprint)'')]
      [drop_table ''o11y_metrics'' ''distributed_samples_v2'' []]\<close>

definition SquashedMetrics_3 :: "SchemaMigrationRecord" where
  \<open>SquashedMetrics_3 =
    migration 3
      [create_table ''o11y_metrics'' ''time_series_v2''
        [column ''metric_name'' (LowCardinalityColumnType ColumnTypeString) [],
         column ''fingerprint'' ColumnTypeUInt64 ''ZSTD(1)'',
         column ''timestamp_ms'' ColumnTypeInt64 ''DoubleDelta, LZ4'',
         column ''labels'' ColumnTypeString ''ZSTD(5)'',
         column_default ''temporality'' (LowCardinalityColumnType ColumnTypeString) ''ZSTD(5)'' (quoted ''Unspecified''),
         column_default ''description'' (LowCardinalityColumnType ColumnTypeString) ''ZSTD(1)'' (quoted []),
         column_default ''unit'' (LowCardinalityColumnType ColumnTypeString) ''ZSTD(1)'' (quoted []),
         column_default ''type'' (LowCardinalityColumnType ColumnTypeString) ''ZSTD(1)'' (quoted []),
         column_default ''is_monotonic'' ColumnTypeBool ''ZSTD(1)'' ''false'']
        [index ''temporality_index'' ''temporality'' ''SET(3)'' 1]
        []
        (ReplacingMergeTree (merge_tree ''(metric_name, fingerprint)'' [] ''toDate(timestamp_ms / 1000)'' [] []
          [setting ''index_granularity'' ''8192'']))]
      []\<close>

definition SquashedMetrics_4 :: "SchemaMigrationRecord" where
  \<open>SquashedMetrics_4 =
    migration 4
      [create_table ''o11y_metrics'' ''distributed_time_series_v2''
        [column ''metric_name'' (LowCardinalityColumnType ColumnTypeString) [],
         column ''fingerprint'' ColumnTypeUInt64 ''ZSTD(1)'',
         column ''timestamp_ms'' ColumnTypeInt64 ''DoubleDelta, LZ4'',
         column ''labels'' ColumnTypeString ''ZSTD(5)'',
         column_default ''temporality'' (LowCardinalityColumnType ColumnTypeString) ''ZSTD(5)'' (quoted ''Unspecified''),
         column_default ''description'' (LowCardinalityColumnType ColumnTypeString) ''ZSTD(1)'' (quoted []),
         column_default ''unit'' (LowCardinalityColumnType ColumnTypeString) ''ZSTD(1)'' (quoted []),
         column_default ''type'' (LowCardinalityColumnType ColumnTypeString) ''ZSTD(1)'' (quoted []),
         column_default ''is_monotonic'' ColumnTypeBool ''ZSTD(1)'' ''false'']
        []
        []
        (distributed ''o11y_metrics'' ''time_series_v2'' ''cityHash64(metric_name, fingerprint)'')]
      []\<close>

definition SquashedMetrics_5 :: "SchemaMigrationRecord" where
  \<open>SquashedMetrics_5 =
    migration 5
      [create_table ''o11y_metrics'' ''exp_hist''
        [column_default ''env'' (LowCardinalityColumnType ColumnTypeString) [] (quoted ''default''),
         column_default ''temporality'' (LowCardinalityColumnType ColumnTypeString) [] (quoted ''Unspecified''),
         column ''metric_name'' (LowCardinalityColumnType ColumnTypeString) [],
         column ''fingerprint'' ColumnTypeUInt64 ''Delta(8), ZSTD(1)'',
         column ''unix_milli'' ColumnTypeInt64 ''DoubleDelta, ZSTD(1)'',
         column ''count'' ColumnTypeUInt64 ''ZSTD(1)'',
         column ''sum'' ColumnTypeFloat64 ''Gorilla, ZSTD(1)'',
         column ''min'' ColumnTypeFloat64 ''Gorilla, ZSTD(1)'',
         column ''max'' ColumnTypeFloat64 ''Gorilla, ZSTD(1)'',
         column ''sketch'' (AggregateFunction ''quantilesDD(0.01, 0.5, 0.75, 0.9, 0.95, 0.99)'' [ColumnTypeUInt64]) ''ZSTD(1)'']
        []
        []
        (MergeTreeEngine (merge_tree ''(env, temporality, metric_name, fingerprint, unix_milli)'' [] ''toDate(unix_milli / 1000)'' [] ''toDateTime(unix_milli / 1000) + toIntervalSecond(2592000)''
          [setting ''index_granularity'' ''8192'', setting ''ttl_only_drop_parts'' ''1'']))]
      [drop_table ''o11y_metrics'' ''exp_hist'' []]\<close>

definition SquashedMetrics_6 :: "SchemaMigrationRecord" where
  \<open>SquashedMetrics_6 =
    migration 6
      [create_table ''o11y_metrics'' ''distributed_exp_hist''
        [column_default ''env'' (LowCardinalityColumnType ColumnTypeString) [] (quoted ''default''),
         column_default ''temporality'' (LowCardinalityColumnType ColumnTypeString) [] (quoted ''Unspecified''),
         column ''metric_name'' (LowCardinalityColumnType ColumnTypeString) [],
         column ''fingerprint'' ColumnTypeUInt64 ''Delta(8), ZSTD(1)'',
         column ''unix_milli'' ColumnTypeInt64 ''DoubleDelta, ZSTD(1)'',
         column ''count'' ColumnTypeUInt64 ''ZSTD(1)'',
         column ''sum'' ColumnTypeFloat64 ''Gorilla, ZSTD(1)'',
         column ''min'' ColumnTypeFloat64 ''Gorilla, ZSTD(1)'',
         column ''max'' ColumnTypeFloat64 ''Gorilla, ZSTD(1)'',
         column ''sketch'' (AggregateFunction ''quantilesDD(0.01, 0.5, 0.75, 0.9, 0.95, 0.99)'' [ColumnTypeUInt64]) ''ZSTD(1)'']
        []
        []
        (distributed ''o11y_metrics'' ''exp_hist'' ''cityHash64(env, temporality, metric_name, fingerprint)'')]
      [drop_table ''o11y_metrics'' ''distributed_exp_hist'' []]\<close>

definition SquashedMetrics_7 :: "SchemaMigrationRecord" where
  \<open>SquashedMetrics_7 =
    migration 7
      [create_table ''o11y_metrics'' ''samples_v4''
        [column_default ''env'' (LowCardinalityColumnType ColumnTypeString) [] (quoted ''default''),
         column_default ''temporality'' (LowCardinalityColumnType ColumnTypeString) [] (quoted ''Unspecified''),
         column ''metric_name'' (LowCardinalityColumnType ColumnTypeString) [],
         column ''fingerprint'' ColumnTypeUInt64 ''Delta(8), ZSTD(1)'',
         column ''unix_milli'' ColumnTypeInt64 ''DoubleDelta, ZSTD(1)'',
         column ''value'' ColumnTypeFloat64 ''Gorilla, ZSTD(1)'']
        []
        []
        (MergeTreeEngine (merge_tree ''(env, temporality, metric_name, fingerprint, unix_milli)'' [] ''toDate(unix_milli / 1000)'' [] ''toDateTime(unix_milli / 1000) + toIntervalSecond(2592000)''
          [setting ''index_granularity'' ''8192'', setting ''ttl_only_drop_parts'' ''1'']))]
      [drop_table ''o11y_metrics'' ''samples_v4'' []]\<close>

definition SquashedMetrics_8 :: "SchemaMigrationRecord" where
  \<open>SquashedMetrics_8 =
    migration 8
      [create_table ''o11y_metrics'' ''distributed_samples_v4''
        [column_default ''env'' (LowCardinalityColumnType ColumnTypeString) [] (quoted ''default''),
         column_default ''temporality'' (LowCardinalityColumnType ColumnTypeString) [] (quoted ''Unspecified''),
         column ''metric_name'' (LowCardinalityColumnType ColumnTypeString) [],
         column ''fingerprint'' ColumnTypeUInt64 ''Delta(8), ZSTD(1)'',
         column ''unix_milli'' ColumnTypeInt64 ''DoubleDelta, ZSTD(1)'',
         column ''value'' ColumnTypeFloat64 ''Gorilla, ZSTD(1)'']
        []
        []
        (distributed ''o11y_metrics'' ''samples_v4'' ''cityHash64(env, temporality, metric_name, fingerprint)'')]
      [drop_table ''o11y_metrics'' ''distributed_samples_v4'' []]\<close>

definition SquashedMetrics_9 :: "SchemaMigrationRecord" where
  \<open>SquashedMetrics_9 =
    migration 9
      [create_table ''o11y_metrics'' ''time_series_v4''
        [column_default ''env'' (LowCardinalityColumnType ColumnTypeString) [] (quoted ''default''),
         column_default ''temporality'' (LowCardinalityColumnType ColumnTypeString) [] (quoted ''Unspecified''),
         column ''metric_name'' (LowCardinalityColumnType ColumnTypeString) [],
         column_default ''description'' (LowCardinalityColumnType ColumnTypeString) ''ZSTD(1)'' (quoted []),
         column_default ''unit'' (LowCardinalityColumnType ColumnTypeString) ''ZSTD(1)'' (quoted []),
         column_default ''type'' (LowCardinalityColumnType ColumnTypeString) ''ZSTD(1)'' (quoted []),
         column_default ''is_monotonic'' ColumnTypeBool ''ZSTD(1)'' ''false'',
         column ''fingerprint'' ColumnTypeUInt64 ''Delta(8), ZSTD(1)'',
         column ''unix_milli'' ColumnTypeInt64 ''Delta(8), ZSTD(1)'',
         column ''labels'' ColumnTypeString ''ZSTD(5)'']
        []
        []
        (ReplacingMergeTree (merge_tree ''(env, temporality, metric_name, fingerprint, unix_milli)'' [] ''toDate(unix_milli / 1000)'' [] ''toDateTime(unix_milli / 1000) + toIntervalSecond(2592000)''
          [setting ''index_granularity'' ''8192'', setting ''ttl_only_drop_parts'' ''1'']))]
      [drop_table ''o11y_metrics'' ''time_series_v4'' []]\<close>

definition SquashedMetrics_10 :: "SchemaMigrationRecord" where
  \<open>SquashedMetrics_10 =
    migration 10
      [create_table ''o11y_metrics'' ''distributed_time_series_v4''
        [column_default ''env'' (LowCardinalityColumnType ColumnTypeString) [] (quoted ''default''),
         column_default ''temporality'' (LowCardinalityColumnType ColumnTypeString) [] (quoted ''Unspecified''),
         column ''metric_name'' (LowCardinalityColumnType ColumnTypeString) [],
         column_default ''description'' (LowCardinalityColumnType ColumnTypeString) ''ZSTD(1)'' (quoted []),
         column_default ''unit'' (LowCardinalityColumnType ColumnTypeString) ''ZSTD(1)'' (quoted []),
         column_default ''type'' (LowCardinalityColumnType ColumnTypeString) ''ZSTD(1)'' (quoted []),
         column_default ''is_monotonic'' ColumnTypeBool ''ZSTD(1)'' ''false'',
         column ''fingerprint'' ColumnTypeUInt64 ''Delta(8), ZSTD(1)'',
         column ''unix_milli'' ColumnTypeInt64 ''Delta(8), ZSTD(1)'',
         column ''labels'' ColumnTypeString ''ZSTD(5)'']
        []
        []
        (distributed ''o11y_metrics'' ''time_series_v4'' ''cityHash64(env, temporality, metric_name, fingerprint)'')]
      [drop_table ''o11y_metrics'' ''distributed_time_series_v4'' []]\<close>

definition SquashedMetrics_11 :: "SchemaMigrationRecord" where
  \<open>SquashedMetrics_11 =
    migration 11
      [create_table ''o11y_metrics'' ''time_series_v4_6hrs''
        [column_default ''env'' (LowCardinalityColumnType ColumnTypeString) [] (quoted ''default''),
         column_default ''temporality'' (LowCardinalityColumnType ColumnTypeString) [] (quoted ''Unspecified''),
         column ''metric_name'' (LowCardinalityColumnType ColumnTypeString) [],
         column_default ''description'' (LowCardinalityColumnType ColumnTypeString) ''ZSTD(1)'' (quoted []),
         column_default ''unit'' (LowCardinalityColumnType ColumnTypeString) ''ZSTD(1)'' (quoted []),
         column_default ''type'' (LowCardinalityColumnType ColumnTypeString) ''ZSTD(1)'' (quoted []),
         column_default ''is_monotonic'' ColumnTypeBool ''ZSTD(1)'' ''false'',
         column ''fingerprint'' ColumnTypeUInt64 ''Delta(8), ZSTD(1)'',
         column ''unix_milli'' ColumnTypeInt64 ''Delta(8), ZSTD(1)'',
         column ''labels'' ColumnTypeString ''ZSTD(5)'']
        []
        []
        (ReplacingMergeTree (merge_tree ''(env, temporality, metric_name, fingerprint, unix_milli)'' [] ''toDate(unix_milli / 1000)'' [] ''toDateTime(unix_milli / 1000) + toIntervalSecond(2592000)''
          [setting ''index_granularity'' ''8192'', setting ''ttl_only_drop_parts'' ''1'']))]
      [drop_table ''o11y_metrics'' ''time_series_v4_6hrs'' []]\<close>

definition SquashedMetrics_12 :: "SchemaMigrationRecord" where
  \<open>SquashedMetrics_12 =
    migration 12
      [create_table ''o11y_metrics'' ''distributed_time_series_v4_6hrs''
        [column_default ''env'' (LowCardinalityColumnType ColumnTypeString) [] (quoted ''default''),
         column_default ''temporality'' (LowCardinalityColumnType ColumnTypeString) [] (quoted ''Unspecified''),
         column ''metric_name'' (LowCardinalityColumnType ColumnTypeString) [],
         column_default ''description'' (LowCardinalityColumnType ColumnTypeString) ''ZSTD(1)'' (quoted []),
         column_default ''unit'' (LowCardinalityColumnType ColumnTypeString) ''ZSTD(1)'' (quoted []),
         column_default ''type'' (LowCardinalityColumnType ColumnTypeString) ''ZSTD(1)'' (quoted []),
         column_default ''is_monotonic'' ColumnTypeBool ''ZSTD(1)'' ''false'',
         column ''fingerprint'' ColumnTypeUInt64 ''Delta(8), ZSTD(1)'',
         column ''unix_milli'' ColumnTypeInt64 ''Delta(8), ZSTD(1)'',
         column ''labels'' ColumnTypeString ''ZSTD(5)'']
        []
        []
        (distributed ''o11y_metrics'' ''time_series_v4_6hrs'' ''cityHash64(env, temporality, metric_name, fingerprint)'')]
      [drop_table ''o11y_metrics'' ''distributed_time_series_v4_6hrs'' []]\<close>

definition SquashedMetrics_13 :: "SchemaMigrationRecord" where
  \<open>SquashedMetrics_13 =
    migration 13
      [create_table ''o11y_metrics'' ''time_series_v4_1day''
        [column_default ''env'' (LowCardinalityColumnType ColumnTypeString) [] (quoted ''default''),
         column_default ''temporality'' (LowCardinalityColumnType ColumnTypeString) [] (quoted ''Unspecified''),
         column ''metric_name'' (LowCardinalityColumnType ColumnTypeString) [],
         column_default ''description'' (LowCardinalityColumnType ColumnTypeString) ''ZSTD(1)'' (quoted []),
         column_default ''unit'' (LowCardinalityColumnType ColumnTypeString) ''ZSTD(1)'' (quoted []),
         column_default ''type'' (LowCardinalityColumnType ColumnTypeString) ''ZSTD(1)'' (quoted []),
         column_default ''is_monotonic'' ColumnTypeBool ''ZSTD(1)'' ''false'',
         column ''fingerprint'' ColumnTypeUInt64 ''Delta(8), ZSTD(1)'',
         column ''unix_milli'' ColumnTypeInt64 ''Delta(8), ZSTD(1)'',
         column ''labels'' ColumnTypeString ''ZSTD(5)'']
        []
        []
        (ReplacingMergeTree (merge_tree ''(env, temporality, metric_name, fingerprint, unix_milli)'' [] ''toDate(unix_milli / 1000)'' [] ''toDateTime(unix_milli / 1000) + toIntervalSecond(2592000)''
          [setting ''index_granularity'' ''8192'', setting ''ttl_only_drop_parts'' ''1'']))]
      [drop_table ''o11y_metrics'' ''time_series_v4_1day'' []]\<close>

definition SquashedMetrics_14 :: "SchemaMigrationRecord" where
  \<open>SquashedMetrics_14 =
    migration 14
      [create_table ''o11y_metrics'' ''distributed_time_series_v4_1day''
        [column_default ''env'' (LowCardinalityColumnType ColumnTypeString) [] (quoted ''default''),
         column_default ''temporality'' (LowCardinalityColumnType ColumnTypeString) [] (quoted ''Unspecified''),
         column ''metric_name'' (LowCardinalityColumnType ColumnTypeString) [],
         column_default ''description'' (LowCardinalityColumnType ColumnTypeString) ''ZSTD(1)'' (quoted []),
         column_default ''unit'' (LowCardinalityColumnType ColumnTypeString) ''ZSTD(1)'' (quoted []),
         column_default ''type'' (LowCardinalityColumnType ColumnTypeString) ''ZSTD(1)'' (quoted []),
         column_default ''is_monotonic'' ColumnTypeBool ''ZSTD(1)'' ''false'',
         column ''fingerprint'' ColumnTypeUInt64 ''Delta(8), ZSTD(1)'',
         column ''unix_milli'' ColumnTypeInt64 ''Delta(8), ZSTD(1)'',
         column ''labels'' ColumnTypeString ''ZSTD(5)'']
        []
        []
        (distributed ''o11y_metrics'' ''time_series_v4_1day'' ''cityHash64(env, temporality, metric_name, fingerprint)'')]
      [drop_table ''o11y_metrics'' ''distributed_time_series_v4_1day'' []]\<close>

definition SquashedMetrics_15 :: "SchemaMigrationRecord" where
  \<open>SquashedMetrics_15 =
    migration 15
      [create_table ''o11y_metrics'' ''time_series_v4_1week''
        [column_default ''env'' (LowCardinalityColumnType ColumnTypeString) [] (quoted ''default''),
         column_default ''temporality'' (LowCardinalityColumnType ColumnTypeString) [] (quoted ''Unspecified''),
         column ''metric_name'' (LowCardinalityColumnType ColumnTypeString) [],
         column_default ''description'' (LowCardinalityColumnType ColumnTypeString) ''ZSTD(1)'' (quoted []),
         column_default ''unit'' (LowCardinalityColumnType ColumnTypeString) ''ZSTD(1)'' (quoted []),
         column_default ''type'' (LowCardinalityColumnType ColumnTypeString) ''ZSTD(1)'' (quoted []),
         column_default ''is_monotonic'' ColumnTypeBool ''ZSTD(1)'' ''false'',
         column ''fingerprint'' ColumnTypeUInt64 ''Delta(8), ZSTD(1)'',
         column ''unix_milli'' ColumnTypeInt64 ''Delta(8), ZSTD(1)'',
         column ''labels'' ColumnTypeString ''ZSTD(5)'']
        []
        []
        (ReplacingMergeTree (merge_tree ''(env, temporality, metric_name, fingerprint, unix_milli)'' [] ''toDate(unix_milli / 1000)'' [] ''toDateTime(unix_milli / 1000) + toIntervalSecond(2592000)''
          [setting ''index_granularity'' ''8192'', setting ''ttl_only_drop_parts'' ''1'']))]
      [drop_table ''o11y_metrics'' ''time_series_v4_1week'' []]\<close>

definition SquashedMetrics_16 :: "SchemaMigrationRecord" where
  \<open>SquashedMetrics_16 =
    migration 16
      [create_table ''o11y_metrics'' ''distributed_time_series_v4_1week''
        [column_default ''env'' (LowCardinalityColumnType ColumnTypeString) [] (quoted ''default''),
         column_default ''temporality'' (LowCardinalityColumnType ColumnTypeString) [] (quoted ''Unspecified''),
         column ''metric_name'' (LowCardinalityColumnType ColumnTypeString) [],
         column_default ''description'' (LowCardinalityColumnType ColumnTypeString) ''ZSTD(1)'' (quoted []),
         column_default ''unit'' (LowCardinalityColumnType ColumnTypeString) ''ZSTD(1)'' (quoted []),
         column_default ''type'' (LowCardinalityColumnType ColumnTypeString) ''ZSTD(1)'' (quoted []),
         column_default ''is_monotonic'' ColumnTypeBool ''ZSTD(1)'' ''false'',
         column ''fingerprint'' ColumnTypeUInt64 ''Delta(8), ZSTD(1)'',
         column ''unix_milli'' ColumnTypeInt64 ''Delta(8), ZSTD(1)'',
         column ''labels'' ColumnTypeString ''ZSTD(5)'']
        []
        []
        (distributed ''o11y_metrics'' ''time_series_v4_1week'' ''cityHash64(env, temporality, metric_name, fingerprint)'')]
      [drop_table ''o11y_metrics'' ''distributed_time_series_v4_1week'' []]\<close>

definition SquashedMetrics_17 :: "SchemaMigrationRecord" where
  \<open>SquashedMetrics_17 =
    migration 17
      [create_view ''o11y_metrics'' ''time_series_v4_6hrs_mv'' ''time_series_v4_6hrs''
        [column_default ''env'' (LowCardinalityColumnType ColumnTypeString) [] (quoted ''default''),
         column_default ''temporality'' (LowCardinalityColumnType ColumnTypeString) [] (quoted ''Unspecified''),
         column ''metric_name'' (LowCardinalityColumnType ColumnTypeString) [],
         column_default ''description'' (LowCardinalityColumnType ColumnTypeString) ''ZSTD(1)'' (quoted []),
         column_default ''unit'' (LowCardinalityColumnType ColumnTypeString) ''ZSTD(1)'' (quoted []),
         column_default ''type'' (LowCardinalityColumnType ColumnTypeString) ''ZSTD(1)'' (quoted []),
         column_default ''is_monotonic'' ColumnTypeBool ''ZSTD(1)'' ''false'',
         column ''fingerprint'' ColumnTypeUInt64 ''Delta(8), ZSTD(1)'',
         column ''unix_milli'' ColumnTypeInt64 ''Delta(8), ZSTD(1)'',
         column ''labels'' ColumnTypeString ''ZSTD(5)'']
        ''SELECT\<newline>    env,\<newline>    temporality,\<newline>    metric_name,\<newline>    description,\<newline>    unit,\<newline>    type,\<newline>    is_monotonic,\<newline>    fingerprint,\<newline>    floor(unix_milli / 21600000) * 21600000 AS unix_milli,\<newline>    labels\<newline>FROM o11y_metrics.time_series_v4'']
      [drop_table ''o11y_metrics'' ''time_series_v4_6hrs_mv'' []]\<close>

definition SquashedMetrics_18 :: "SchemaMigrationRecord" where
  \<open>SquashedMetrics_18 =
    migration 18
      [create_view ''o11y_metrics'' ''time_series_v4_1day_mv'' ''time_series_v4_1day''
        [column_default ''env'' (LowCardinalityColumnType ColumnTypeString) [] (quoted ''default''),
         column_default ''temporality'' (LowCardinalityColumnType ColumnTypeString) [] (quoted ''Unspecified''),
         column ''metric_name'' (LowCardinalityColumnType ColumnTypeString) [],
         column_default ''description'' (LowCardinalityColumnType ColumnTypeString) ''ZSTD(1)'' (quoted []),
         column_default ''unit'' (LowCardinalityColumnType ColumnTypeString) ''ZSTD(1)'' (quoted []),
         column_default ''type'' (LowCardinalityColumnType ColumnTypeString) ''ZSTD(1)'' (quoted []),
         column_default ''is_monotonic'' ColumnTypeBool ''ZSTD(1)'' ''false'',
         column ''fingerprint'' ColumnTypeUInt64 ''Delta(8), ZSTD(1)'',
         column ''unix_milli'' ColumnTypeInt64 ''Delta(8), ZSTD(1)'',
         column ''labels'' ColumnTypeString ''ZSTD(5)'']
        ''SELECT\<newline>    env,\<newline>    temporality,\<newline>    metric_name,\<newline>    description,\<newline>    unit,\<newline>    type,\<newline>    is_monotonic,\<newline>    fingerprint,\<newline>    floor(unix_milli / 86400000) * 86400000 AS unix_milli,\<newline>    labels\<newline>FROM o11y_metrics.time_series_v4'']
      [drop_table ''o11y_metrics'' ''time_series_v4_1day_mv'' []]\<close>

definition SquashedMetrics_19 :: "SchemaMigrationRecord" where
  \<open>SquashedMetrics_19 =
    migration 19
      [create_view ''o11y_metrics'' ''time_series_v4_1week_mv'' ''time_series_v4_1week''
        [column_default ''env'' (LowCardinalityColumnType ColumnTypeString) [] (quoted ''default''),
         column_default ''temporality'' (LowCardinalityColumnType ColumnTypeString) [] (quoted ''Unspecified''),
         column ''metric_name'' (LowCardinalityColumnType ColumnTypeString) [],
         column_default ''description'' (LowCardinalityColumnType ColumnTypeString) ''ZSTD(1)'' (quoted []),
         column_default ''unit'' (LowCardinalityColumnType ColumnTypeString) ''ZSTD(1)'' (quoted []),
         column_default ''type'' (LowCardinalityColumnType ColumnTypeString) ''ZSTD(1)'' (quoted []),
         column_default ''is_monotonic'' ColumnTypeBool ''ZSTD(1)'' ''false'',
         column ''fingerprint'' ColumnTypeUInt64 ''Delta(8), ZSTD(1)'',
         column ''unix_milli'' ColumnTypeInt64 ''Delta(8), ZSTD(1)'',
         column ''labels'' ColumnTypeString ''ZSTD(5)'']
        ''SELECT\<newline>    env,\<newline>    temporality,\<newline>    metric_name,\<newline>    description,\<newline>    unit,\<newline>    type,\<newline>    is_monotonic,\<newline>    fingerprint,\<newline>    floor(unix_milli / 604800000) * 604800000 AS unix_milli,\<newline>    labels\<newline>FROM o11y_metrics.time_series_v4_1day'']
      [drop_table ''o11y_metrics'' ''time_series_v4_1week_mv'' []]\<close>

definition SquashedMetrics_20 :: "SchemaMigrationRecord" where
  \<open>SquashedMetrics_20 =
    migration 20
      [create_table ''o11y_metrics'' ''samples_v4_agg_5m''
        [column_default ''env'' (LowCardinalityColumnType ColumnTypeString) [] (quoted ''default''),
         column_default ''temporality'' (LowCardinalityColumnType ColumnTypeString) [] (quoted ''Unspecified''),
         column ''metric_name'' (LowCardinalityColumnType ColumnTypeString) [],
         column ''fingerprint'' ColumnTypeUInt64 ''ZSTD(1)'',
         column ''unix_milli'' ColumnTypeInt64 ''Delta(8), ZSTD(1)'',
         column ''last'' (SimpleAggregateFunction ''anyLast'' [ColumnTypeFloat64]) ''ZSTD(1)'',
         column ''min'' (SimpleAggregateFunction ''min'' [ColumnTypeFloat64]) ''ZSTD(1)'',
         column ''max'' (SimpleAggregateFunction ''max'' [ColumnTypeFloat64]) ''ZSTD(1)'',
         column ''sum'' (SimpleAggregateFunction ''sum'' [ColumnTypeFloat64]) ''ZSTD(1)'',
         column ''count'' (SimpleAggregateFunction ''sum'' [ColumnTypeUInt64]) ''ZSTD(1)'']
        []
        []
        (AggregatingMergeTree (merge_tree ''(env, temporality, metric_name, fingerprint, unix_milli)'' [] ''toDate(unix_milli / 1000)'' [] ''toDateTime(unix_milli / 1000) + toIntervalSecond(2592000)''
          [setting ''index_granularity'' ''8192'', setting ''ttl_only_drop_parts'' ''1'']))]
      [drop_table ''o11y_metrics'' ''samples_v4_agg_5m'' []]\<close>

definition SquashedMetrics_21 :: "SchemaMigrationRecord" where
  \<open>SquashedMetrics_21 =
    migration 21
      [create_table ''o11y_metrics'' ''samples_v4_agg_30m''
        [column_default ''env'' (LowCardinalityColumnType ColumnTypeString) [] (quoted ''default''),
         column_default ''temporality'' (LowCardinalityColumnType ColumnTypeString) [] (quoted ''Unspecified''),
         column ''metric_name'' (LowCardinalityColumnType ColumnTypeString) [],
         column ''fingerprint'' ColumnTypeUInt64 ''ZSTD(1)'',
         column ''unix_milli'' ColumnTypeInt64 ''Delta(8), ZSTD(1)'',
         column ''last'' (SimpleAggregateFunction ''anyLast'' [ColumnTypeFloat64]) ''ZSTD(1)'',
         column ''min'' (SimpleAggregateFunction ''min'' [ColumnTypeFloat64]) ''ZSTD(1)'',
         column ''max'' (SimpleAggregateFunction ''max'' [ColumnTypeFloat64]) ''ZSTD(1)'',
         column ''sum'' (SimpleAggregateFunction ''sum'' [ColumnTypeFloat64]) ''ZSTD(1)'',
         column ''count'' (SimpleAggregateFunction ''sum'' [ColumnTypeUInt64]) ''ZSTD(1)'']
        []
        []
        (AggregatingMergeTree (merge_tree ''(env, temporality, metric_name, fingerprint, unix_milli)'' [] ''toDate(unix_milli / 1000)'' [] ''toDateTime(unix_milli / 1000) + toIntervalSecond(2592000)''
          [setting ''index_granularity'' ''8192'', setting ''ttl_only_drop_parts'' ''1'']))]
      [drop_table ''o11y_metrics'' ''samples_v4_agg_30m'' []]\<close>

definition SquashedMetrics_22 :: "SchemaMigrationRecord" where
  \<open>SquashedMetrics_22 =
    migration 22
      [create_view ''o11y_metrics'' ''samples_v4_agg_5m_mv'' ''samples_v4_agg_5m''
        []
        ''SELECT\<newline>    env,\<newline>    temporality,\<newline>    metric_name,\<newline>    fingerprint,\<newline>    intDiv(unix_milli, 300000) * 300000 as unix_milli,\<newline>    anyLast(value) as last,\<newline>    min(value) as min,\<newline>    max(value) as max,\<newline>    sum(value) as sum,\<newline>    count(*) as count\<newline>FROM o11y_metrics.samples_v4 \<newline>GROUP BY\<newline>    env,\<newline>    temporality,\<newline>    metric_name,\<newline>    fingerprint,\<newline>    unix_milli;'']
      [drop_table ''o11y_metrics'' ''samples_v4_agg_5m_mv'' []]\<close>

definition SquashedMetrics_23 :: "SchemaMigrationRecord" where
  \<open>SquashedMetrics_23 =
    migration 23
      [create_view ''o11y_metrics'' ''samples_v4_agg_30m_mv'' ''samples_v4_agg_30m''
        []
        ''SELECT\<newline>    env,\<newline>    temporality,\<newline>    metric_name,\<newline>    fingerprint,\<newline>    intDiv(unix_milli, 1800000) * 1800000 as unix_milli,\<newline>    anyLast(last) as last,\<newline>    min(min) as min,\<newline>    max(max) as max,\<newline>    sum(sum) as sum,\<newline>    sum(count) as count\<newline>FROM o11y_metrics.samples_v4_agg_5m \<newline>GROUP BY\<newline>    env,\<newline>    temporality,\<newline>    metric_name,\<newline>    fingerprint,\<newline>    unix_milli;'']
      [drop_table ''o11y_metrics'' ''samples_v4_agg_30m_mv'' []]\<close>

definition SquashedMetrics_24 :: "SchemaMigrationRecord" where
  \<open>SquashedMetrics_24 =
    migration 24
      [create_table ''o11y_metrics'' ''distributed_samples_v4_agg_5m''
        [column_default ''env'' (LowCardinalityColumnType ColumnTypeString) [] (quoted ''default''),
         column_default ''temporality'' (LowCardinalityColumnType ColumnTypeString) [] (quoted ''Unspecified''),
         column ''metric_name'' (LowCardinalityColumnType ColumnTypeString) [],
         column ''fingerprint'' ColumnTypeUInt64 ''ZSTD(1)'',
         column ''unix_milli'' ColumnTypeInt64 ''Delta(8), ZSTD(1)'',
         column ''last'' (SimpleAggregateFunction ''anyLast'' [ColumnTypeFloat64]) ''ZSTD(1)'',
         column ''min'' (SimpleAggregateFunction ''min'' [ColumnTypeFloat64]) ''ZSTD(1)'',
         column ''max'' (SimpleAggregateFunction ''max'' [ColumnTypeFloat64]) ''ZSTD(1)'',
         column ''sum'' (SimpleAggregateFunction ''sum'' [ColumnTypeFloat64]) ''ZSTD(1)'',
         column ''count'' (SimpleAggregateFunction ''sum'' [ColumnTypeUInt64]) ''ZSTD(1)'']
        []
        []
        (distributed ''o11y_metrics'' ''samples_v4_agg_5m'' ''cityHash64(env, temporality, metric_name, fingerprint)'')]
      [drop_table ''o11y_metrics'' ''distributed_samples_v4_agg_5m'' []]\<close>

definition SquashedMetrics_25 :: "SchemaMigrationRecord" where
  \<open>SquashedMetrics_25 =
    migration 25
      [create_table ''o11y_metrics'' ''distributed_samples_v4_agg_30m''
        [column_default ''env'' (LowCardinalityColumnType ColumnTypeString) [] (quoted ''default''),
         column_default ''temporality'' (LowCardinalityColumnType ColumnTypeString) [] (quoted ''Unspecified''),
         column ''metric_name'' (LowCardinalityColumnType ColumnTypeString) [],
         column ''fingerprint'' ColumnTypeUInt64 ''ZSTD(1)'',
         column ''unix_milli'' ColumnTypeInt64 ''Delta(8), ZSTD(1)'',
         column ''last'' (SimpleAggregateFunction ''anyLast'' [ColumnTypeFloat64]) ''ZSTD(1)'',
         column ''min'' (SimpleAggregateFunction ''min'' [ColumnTypeFloat64]) ''ZSTD(1)'',
         column ''max'' (SimpleAggregateFunction ''max'' [ColumnTypeFloat64]) ''ZSTD(1)'',
         column ''sum'' (SimpleAggregateFunction ''sum'' [ColumnTypeFloat64]) ''ZSTD(1)'',
         column ''count'' (SimpleAggregateFunction ''sum'' [ColumnTypeUInt64]) ''ZSTD(1)'']
        []
        []
        (distributed ''o11y_metrics'' ''samples_v4_agg_30m'' ''cityHash64(env, temporality, metric_name, fingerprint)'')]
      [drop_table ''o11y_metrics'' ''distributed_samples_v4_agg_30m'' []]\<close>

definition SquashedMetrics_26 :: "SchemaMigrationRecord" where
  \<open>SquashedMetrics_26 =
    migration 26
      [create_table ''o11y_metrics'' ''usage''
        [column ''tenant'' ColumnTypeString ''ZSTD(1)'',
         column ''collector_id'' ColumnTypeString ''ZSTD(1)'',
         column ''exporter_id'' ColumnTypeString ''ZSTD(1)'',
         column ''timestamp'' (DateTimeColumnType []) ''ZSTD(1)'',
         column ''data'' ColumnTypeString ''ZSTD(1)'']
        []
        []
        (MergeTreeEngine (merge_tree ''(tenant, collector_id, exporter_id, timestamp)'' [] [] [] ''timestamp + toIntervalDay(3)''
          [setting ''index_granularity'' ''8192'']))]
      [drop_table ''o11y_metrics'' ''usage'' []]\<close>

definition SquashedMetrics_27 :: "SchemaMigrationRecord" where
  \<open>SquashedMetrics_27 =
    migration 27
      [create_table ''o11y_metrics'' ''distributed_usage''
        [column ''tenant'' ColumnTypeString ''ZSTD(1)'',
         column ''collector_id'' ColumnTypeString ''ZSTD(1)'',
         column ''exporter_id'' ColumnTypeString ''ZSTD(1)'',
         column ''timestamp'' (DateTimeColumnType []) ''ZSTD(1)'',
         column ''data'' ColumnTypeString ''ZSTD(1)'']
        []
        []
        (distributed ''o11y_metrics'' ''usage'' ''cityHash64(rand())'')]
      [drop_table ''o11y_metrics'' ''distributed_usage'' []]\<close>

definition SquashedMetrics_28_up1 :: "Operation" where
  \<open>SquashedMetrics_28_up1 =
    create_table ''o11y_metrics'' ''samples_v4_agg_5m''
      [column_default ''env'' (LowCardinalityColumnType ColumnTypeString) [] (quoted ''default''),
       column_default ''temporality'' (LowCardinalityColumnType ColumnTypeString) [] (quoted ''Unspecified''),
       column ''metric_name'' (LowCardinalityColumnType ColumnTypeString) [],
       column ''fingerprint'' ColumnTypeUInt64 ''ZSTD(1)'',
       column ''unix_milli'' ColumnTypeInt64 ''Delta(8), ZSTD(1)'',
       column ''last'' (SimpleAggregateFunction ''anyLast'' [ColumnTypeFloat64]) ''ZSTD(1)'',
       column ''min'' (SimpleAggregateFunction ''min'' [ColumnTypeFloat64]) ''ZSTD(1)'',
       column ''max'' (SimpleAggregateFunction ''max'' [ColumnTypeFloat64]) ''ZSTD(1)'',
       column ''sum'' (SimpleAggregateFunction ''sum'' [ColumnTypeFloat64]) ''ZSTD(1)'',
       column ''count'' (SimpleAggregateFunction ''sum'' [ColumnTypeUInt64]) ''ZSTD(1)'']
      []
      []
      (AggregatingMergeTree (merge_tree ''(env, temporality, metric_name, fingerprint, unix_milli)'' [] ''toDate(unix_milli / 1000)'' [] ''toDateTime(unix_milli/1000) + INTERVAL 2592000 SECOND DELETE''
        [setting ''ttl_only_drop_parts'' ''1'']))\<close>

definition SquashedMetrics_28_up2 :: "Operation" where
  \<open>SquashedMetrics_28_up2 =
    create_table ''o11y_metrics'' ''samples_v4_agg_30m''
      [column_default ''env'' (LowCardinalityColumnType ColumnTypeString) [] (quoted ''default''),
       column_default ''temporality'' (LowCardinalityColumnType ColumnTypeString) [] (quoted ''Unspecified''),
       column ''metric_name'' (LowCardinalityColumnType ColumnTypeString) [],
       column ''fingerprint'' ColumnTypeUInt64 ''ZSTD(1)'',
       column ''unix_milli'' ColumnTypeInt64 ''Delta(8), ZSTD(1)'',
       column ''last'' (SimpleAggregateFunction ''anyLast'' [ColumnTypeFloat64]) ''ZSTD(1)'',
       column ''min'' (SimpleAggregateFunction ''min'' [ColumnTypeFloat64]) ''ZSTD(1)'',
       column ''max'' (SimpleAggregateFunction ''max'' [ColumnTypeFloat64]) ''ZSTD(1)'',
       column ''sum'' (SimpleAggregateFunction ''sum'' [ColumnTypeFloat64]) ''ZSTD(1)'',
       column ''count'' (SimpleAggregateFunction ''sum'' [ColumnTypeUInt64]) ''ZSTD(1)'']
      []
      []
      (AggregatingMergeTree (merge_tree ''(env, temporality, metric_name, fingerprint, unix_milli)'' [] ''toDate(unix_milli / 1000)'' [] ''toDateTime(unix_milli/1000) + INTERVAL 2592000 SECOND DELETE''
        [setting ''ttl_only_drop_parts'' ''1'']))\<close>

definition SquashedMetrics_28_up3 :: "Operation" where
  \<open>SquashedMetrics_28_up3 =
    create_view ''o11y_metrics'' ''samples_v4_agg_5m_mv'' ''samples_v4_agg_5m''
      [column_default ''env'' (LowCardinalityColumnType ColumnTypeString) [] (quoted ''default''),
       column_default ''temporality'' (LowCardinalityColumnType ColumnTypeString) [] (quoted ''Unspecified''),
       column ''metric_name'' (LowCardinalityColumnType ColumnTypeString) [],
       column ''fingerprint'' ColumnTypeUInt64 ''ZSTD(1)'',
       column ''unix_milli'' ColumnTypeInt64 ''Delta(8), ZSTD(1)'',
       column ''last'' (SimpleAggregateFunction ''anyLast'' [ColumnTypeFloat64]) ''ZSTD(1)'',
       column ''min'' (SimpleAggregateFunction ''min'' [ColumnTypeFloat64]) ''ZSTD(1)'',
       column ''max'' (SimpleAggregateFunction ''max'' [ColumnTypeFloat64]) ''ZSTD(1)'',
       column ''sum'' (SimpleAggregateFunction ''sum'' [ColumnTypeFloat64]) ''ZSTD(1)'',
       column ''count'' (SimpleAggregateFunction ''sum'' [ColumnTypeUInt64]) ''ZSTD(1)'']
      ''SELECT\<newline>    env,\<newline>    temporality,\<newline>    metric_name,\<newline>    fingerprint,\<newline>    intDiv(unix_milli, 300000) * 300000 as unix_milli,\<newline>    anyLast(value) as last,\<newline>    min(value) as min,\<newline>    max(value) as max,\<newline>    sum(value) as sum,\<newline>    count(*) as count\<newline>FROM o11y_metrics.samples_v4 \<newline>GROUP BY\<newline>    env,\<newline>    temporality,\<newline>    metric_name,\<newline>    fingerprint,\<newline>    unix_milli;''\<close>

definition SquashedMetrics_28_up4 :: "Operation" where
  \<open>SquashedMetrics_28_up4 =
    create_view ''o11y_metrics'' ''samples_v4_agg_30m_mv'' ''samples_v4_agg_30m''
      [column_default ''env'' (LowCardinalityColumnType ColumnTypeString) [] (quoted ''default''),
       column_default ''temporality'' (LowCardinalityColumnType ColumnTypeString) [] (quoted ''Unspecified''),
       column ''metric_name'' (LowCardinalityColumnType ColumnTypeString) [],
       column ''fingerprint'' ColumnTypeUInt64 ''ZSTD(1)'',
       column ''unix_milli'' ColumnTypeInt64 ''Delta(8), ZSTD(1)'',
       column ''last'' (SimpleAggregateFunction ''anyLast'' [ColumnTypeFloat64]) ''ZSTD(1)'',
       column ''min'' (SimpleAggregateFunction ''min'' [ColumnTypeFloat64]) ''ZSTD(1)'',
       column ''max'' (SimpleAggregateFunction ''max'' [ColumnTypeFloat64]) ''ZSTD(1)'',
       column ''sum'' (SimpleAggregateFunction ''sum'' [ColumnTypeFloat64]) ''ZSTD(1)'',
       column ''count'' (SimpleAggregateFunction ''sum'' [ColumnTypeUInt64]) ''ZSTD(1)'']
      ''SELECT\<newline>    env,\<newline>    temporality,\<newline>    metric_name,\<newline>    fingerprint,\<newline>    intDiv(unix_milli, 1800000) * 1800000 as unix_milli,\<newline>    anyLast(last) as last,\<newline>    min(min) as min,\<newline>    max(max) as max,\<newline>    sum(sum) as sum,\<newline>    sum(count) as count\<newline>FROM o11y_metrics.samples_v4_agg_5m \<newline>GROUP BY\<newline>    env,\<newline>    temporality,\<newline>    metric_name,\<newline>    fingerprint,\<newline>    unix_milli;''\<close>

definition SquashedMetrics_28_up5 :: "Operation" where
  \<open>SquashedMetrics_28_up5 =
    create_table ''o11y_metrics'' ''distributed_samples_v4_agg_5m''
      [column_default ''env'' (LowCardinalityColumnType ColumnTypeString) [] (quoted ''default''),
       column_default ''temporality'' (LowCardinalityColumnType ColumnTypeString) [] (quoted ''Unspecified''),
       column ''metric_name'' (LowCardinalityColumnType ColumnTypeString) [],
       column ''fingerprint'' ColumnTypeUInt64 ''ZSTD(1)'',
       column ''unix_milli'' ColumnTypeInt64 ''Delta(8), ZSTD(1)'',
       column ''last'' (SimpleAggregateFunction ''anyLast'' [ColumnTypeFloat64]) ''ZSTD(1)'',
       column ''min'' (SimpleAggregateFunction ''min'' [ColumnTypeFloat64]) ''ZSTD(1)'',
       column ''max'' (SimpleAggregateFunction ''max'' [ColumnTypeFloat64]) ''ZSTD(1)'',
       column ''sum'' (SimpleAggregateFunction ''sum'' [ColumnTypeFloat64]) ''ZSTD(1)'',
       column ''count'' (SimpleAggregateFunction ''sum'' [ColumnTypeUInt64]) ''ZSTD(1)'']
      []
      []
      (distributed ''o11y_metrics'' ''samples_v4_agg_5m'' ''cityHash64(env, temporality, metric_name, fingerprint)'')\<close>

definition SquashedMetrics_28_up6 :: "Operation" where
  \<open>SquashedMetrics_28_up6 =
    create_table ''o11y_metrics'' ''distributed_samples_v4_agg_30m''
      [column_default ''env'' (LowCardinalityColumnType ColumnTypeString) [] (quoted ''default''),
       column_default ''temporality'' (LowCardinalityColumnType ColumnTypeString) [] (quoted ''Unspecified''),
       column ''metric_name'' (LowCardinalityColumnType ColumnTypeString) [],
       column ''fingerprint'' ColumnTypeUInt64 ''ZSTD(1)'',
       column ''unix_milli'' ColumnTypeInt64 ''Delta(8), ZSTD(1)'',
       column ''last'' (SimpleAggregateFunction ''anyLast'' [ColumnTypeFloat64]) ''ZSTD(1)'',
       column ''min'' (SimpleAggregateFunction ''min'' [ColumnTypeFloat64]) ''ZSTD(1)'',
       column ''max'' (SimpleAggregateFunction ''max'' [ColumnTypeFloat64]) ''ZSTD(1)'',
       column ''sum'' (SimpleAggregateFunction ''sum'' [ColumnTypeFloat64]) ''ZSTD(1)'',
       column ''count'' (SimpleAggregateFunction ''sum'' [ColumnTypeUInt64]) ''ZSTD(1)'']
      []
      []
      (distributed ''o11y_metrics'' ''samples_v4_agg_30m'' ''cityHash64(env, temporality, metric_name, fingerprint)'')\<close>

definition SquashedMetrics_28_up7 :: "Operation" where
  \<open>SquashedMetrics_28_up7 =
    create_table ''o11y_metrics'' ''time_series_v4_1week''
      [column_default ''env'' (LowCardinalityColumnType ColumnTypeString) [] (quoted ''default''),
       column_default ''temporality'' (LowCardinalityColumnType ColumnTypeString) [] (quoted ''Unspecified''),
       column ''metric_name'' (LowCardinalityColumnType ColumnTypeString) [],
       column_default ''description'' (LowCardinalityColumnType ColumnTypeString) [] (quoted ''default''),
       column_default ''unit'' (LowCardinalityColumnType ColumnTypeString) [] (quoted ''default''),
       column_default ''type'' (LowCardinalityColumnType ColumnTypeString) [] (quoted ''default''),
       column_default ''is_monotonic'' ColumnTypeBool [] ''false'',
       column ''fingerprint'' ColumnTypeUInt64 ''Delta(8), ZSTD(1)'',
       column ''unix_milli'' ColumnTypeInt64 ''Delta(8), ZSTD(1)'',
       column ''labels'' ColumnTypeString ''ZSTD(5)'']
      []
      []
      (ReplacingMergeTree (merge_tree ''(env, temporality, metric_name, fingerprint, unix_milli)'' [] ''toDate(unix_milli / 1000)'' [] ''toDateTime(unix_milli/1000) + INTERVAL 2592000 SECOND DELETE''
        [setting ''ttl_only_drop_parts'' ''1'']))\<close>

definition SquashedMetrics_28_up8 :: "Operation" where
  \<open>SquashedMetrics_28_up8 =
    create_view ''o11y_metrics'' ''time_series_v4_1week_mv'' ''time_series_v4_1week''
      [column_default ''env'' (LowCardinalityColumnType ColumnTypeString) [] (quoted ''default''),
       column_default ''temporality'' (LowCardinalityColumnType ColumnTypeString) [] (quoted ''Unspecified''),
       column ''metric_name'' (LowCardinalityColumnType ColumnTypeString) [],
       column_default ''description'' (LowCardinalityColumnType ColumnTypeString) [] (quoted ''default''),
       column_default ''unit'' (LowCardinalityColumnType ColumnTypeString) [] (quoted ''default''),
       column_default ''type'' (LowCardinalityColumnType ColumnTypeString) [] (quoted ''default''),
       column_default ''is_monotonic'' ColumnTypeBool [] ''false'',
       column ''fingerprint'' ColumnTypeUInt64 ''Delta(8), ZSTD(1)'',
       column ''unix_milli'' ColumnTypeInt64 ''Delta(8), ZSTD(1)'',
       column ''labels'' ColumnTypeString ''ZSTD(5)'']
      ''SELECT\<newline>    env,\<newline>    temporality,\<newline>    metric_name,\<newline>    description,\<newline>    unit,\<newline>    type,\<newline>    is_monotonic,\<newline>    fingerprint,\<newline>    floor(unix_milli/604800000)*604800000 AS unix_milli,\<newline>    labels\<newline>FROM o11y_metrics.time_series_v4_1day;''\<close>

definition SquashedMetrics_28_up9 :: "Operation" where
  \<open>SquashedMetrics_28_up9 =
    create_table ''o11y_metrics'' ''distributed_time_series_v4_1week''
      [column_default ''env'' (LowCardinalityColumnType ColumnTypeString) [] (quoted ''default''),
       column_default ''temporality'' (LowCardinalityColumnType ColumnTypeString) [] (quoted ''Unspecified''),
       column ''metric_name'' (LowCardinalityColumnType ColumnTypeString) [],
       column_default ''description'' (LowCardinalityColumnType ColumnTypeString) [] (quoted ''default'')]
      []
      []
      (distributed ''o11y_metrics'' ''time_series_v4_1week'' ''cityHash64(env, temporality, metric_name, fingerprint)'')\<close>

definition SquashedMetrics_28_down :: "Operation list" where
  \<open>SquashedMetrics_28_down =
    [drop_table ''o11y_metrics'' ''samples_v4_agg_5m'' [],
     drop_table ''o11y_metrics'' ''samples_v4_agg_5m_mv'' [],
     drop_table ''o11y_metrics'' ''samples_v4_agg_30m'' [],
     drop_table ''o11y_metrics'' ''samples_v4_agg_30m_mv'' [],
     drop_table ''o11y_metrics'' ''distributed_samples_v4_agg_5m'' [],
     drop_table ''o11y_metrics'' ''distributed_samples_v4_agg_30m'' [],
     drop_table ''o11y_metrics'' ''time_series_v4_1week'' [],
     drop_table ''o11y_metrics'' ''distributed_time_series_v4_1week'' [],
     drop_table ''o11y_metrics'' ''time_series_v4_1week_mv'' []]\<close>

definition SquashedMetrics_28 :: "SchemaMigrationRecord" where
  \<open>SquashedMetrics_28 =
    migration 28
      [SquashedMetrics_28_up1,
       SquashedMetrics_28_up2,
       SquashedMetrics_28_up3,
       SquashedMetrics_28_up4,
       SquashedMetrics_28_up5,
       SquashedMetrics_28_up6,
       SquashedMetrics_28_up7,
       SquashedMetrics_28_up8,
       SquashedMetrics_28_up9]
      SquashedMetrics_28_down\<close>

definition SquashedMetricsMigrations_list :: "SchemaMigrationRecord list" where
  \<open>SquashedMetricsMigrations_list =
    [SquashedMetrics_1, SquashedMetrics_2, SquashedMetrics_3, SquashedMetrics_4,
     SquashedMetrics_5, SquashedMetrics_6, SquashedMetrics_7, SquashedMetrics_8,
     SquashedMetrics_9, SquashedMetrics_10, SquashedMetrics_11, SquashedMetrics_12,
     SquashedMetrics_13, SquashedMetrics_14, SquashedMetrics_15, SquashedMetrics_16,
     SquashedMetrics_17, SquashedMetrics_18, SquashedMetrics_19, SquashedMetrics_20,
     SquashedMetrics_21, SquashedMetrics_22, SquashedMetrics_23, SquashedMetrics_24,
     SquashedMetrics_25, SquashedMetrics_26, SquashedMetrics_27, SquashedMetrics_28]\<close>

end
