(* ===== verification/ShippedOthers.thy ===== *)
theory ShippedOthers
  imports SchemaCatalog
begin

text \<open>
  The shipped migrations, as they stand in the source: the migrations of the metadata, analytics and meter databases, and the tables that record migrations.
  One definition per migration, and one per operation where a migration is long.
  Two rows of the metadata carry the time at which the package is initialised; the times are arguments.
\<close>

section \<open>metadata\_migrations.go\<close>

definition Metadata_1000 :: "SchemaMigrationRecord" where
  \<open>Metadata_1000 =
    migration 1000
      [create_table ''o11y_metadata'' ''attributes_metadata''
        [column ''unix_milli'' ColumnTypeUInt64 [],
         column ''data_source'' ColumnTypeString [],
         column ''resource_fingerprint'' ColumnTypeUInt64 [],
         column ''attrs_fingerprint'' ColumnTypeUInt64 [],
         column ''resource_attributes'' (MapColumnType (LowCardinalityColumnType ColumnTypeString) ColumnTypeString) [],
         column ''attributes'' (MapColumnType (LowCardinalityColumnType ColumnTypeString) ColumnTypeString) []]
        [index ''idx_resource_attributes_map_keys'' ''mapKeys(resource_attributes)'' ''tokenbf_v1(1024, 2, 0)'' 1,
          index ''idx_attributes_map_keys'' ''mapKeys(attributes)'' ''tokenbf_v1(1024, 2, 0)'' 1,
          index ''idx_resource_attributes_map_values'' ''mapValues(resource_attributes)'' ''ngrambf_v1(4, 5000, 2, 0)'' 1,
          index ''idx_attributes_map_values'' ''mapValues(attributes)'' ''ngrambf_v1(4, 5000, 2, 0)'' 1]
        []
        (ReplacingMergeTree (merge_tree ''(data_source, unix_milli, resource_fingerprint, attrs_fingerprint)'' [] ''toDate(unix_milli / 1000)'' [] ''toDateTime(unix_milli / 1000) + INTERVAL 2592000 SECOND DELETE''
          [setting ''ttl_only_drop_parts'' ''1'', setting ''index_granularity'' ''8192''])),
       create_table ''o11y_metadata'' ''distributed_attributes_metadata''
        [column ''unix_milli'' ColumnTypeUInt64 [],
         column ''data_source'' ColumnTypeString [],
         column ''resource_fingerprint'' ColumnTypeUInt64 [],
         column ''attrs_fingerprint'' ColumnTypeUInt64 [],
         column ''resource_attributes'' (MapColumnType (LowCardinalityColumnType ColumnTypeString) ColumnTypeString) [],
         column ''attributes'' (MapColumnType (LowCardinalityColumnType ColumnTypeString) ColumnTypeString) []]
        []
        []
        (distributed ''o11y_metadata'' ''attributes_metadata'' ''cityHash64(data_source, resource_fingerprint, attrs_fingerprint)'')]
      [drop_table ''o11y_metadata'' ''distributed_attributes_metadata'' [],
       drop_table ''o11y_metadata'' ''attributes_metadata'' []]\<close>

definition Metadata_1001 :: "int \<Rightarrow> int \<Rightarrow> SchemaMigrationRecord" where
  \<open>Metadata_1001 now1 now2 =
    migration 1001
      [create_table ''o11y_metadata'' ''column_evolution_metadata''
        [column ''signal'' ColumnTypeString ''ZSTD(1)'',
         column ''column_name'' ColumnTypeString ''ZSTD(1)'',
         column ''column_type'' ColumnTypeString ''ZSTD(1)'',
         column ''field_context'' ColumnTypeString ''ZSTD(1)'',
         column ''field_name'' ColumnTypeString ''ZSTD(1)'',
         column ''version'' ColumnTypeUInt32 ''DoubleDelta, ZSTD(1)'',
         column ''release_time'' (SimpleAggregateFunction ''min'' [ColumnTypeFloat64]) ''ZSTD(1)'']
        []
        []
        (AggregatingMergeTree (merge_tree ''(signal, column_name, column_type, field_context, field_name, version)'' [] ''toDate(release_time / 1000000000)'' [] []
          [])),
       create_table ''o11y_metadata'' ''distributed_column_evolution_metadata''
        [column ''signal'' ColumnTypeString ''ZSTD(1)'',
         column ''column_name'' ColumnTypeString ''ZSTD(1)'',
         column ''column_type'' ColumnTypeString ''ZSTD(1)'',
         column ''field_context'' ColumnTypeString ''ZSTD(1)'',
         column ''field_name'' ColumnTypeString ''ZSTD(1)'',
         column ''version'' ColumnTypeUInt32 ''DoubleDelta, ZSTD(1)'',
         column ''release_time'' (SimpleAggregateFunction ''min'' [ColumnTypeFloat64]) ''ZSTD(1)'']
        []
        []
        (distributed ''o11y_metadata'' ''column_evolution_metadata'' ''cityHash64(signal,column_name)''),
       insert_into ''o11y_metadata'' ''distributed_column_evolution_metadata''
        [''signal'', ''column_name'', ''column_type'', ''field_context'', ''field_name'', ''version'', ''release_time''] True True
        ''('logs', 'resources_string', 'Map(LowCardinality(String), Float64)', 'resource', '__all__', 0, 0)'',
       insert_into ''o11y_metadata'' ''distributed_column_evolution_metadata''
        [''signal'', ''column_name'', ''column_type'', ''field_context'', ''field_name'', ''version'', ''release_time''] True True
        (''('logs', 'resource', 'JSON()', 'resource', '__all__', 1, '' @ itoa now1 @ '')''),
       insert_into ''o11y_metadata'' ''distributed_column_evolution_metadata''
        [''signal'', ''column_name'', ''column_type'', ''field_context'', ''field_name'', ''version'', ''release_time''] True True
        ''('traces', 'resources_string', 'Map(LowCardinality(String), Float64)', 'resource', '__all__', 0, 0)'',
       insert_into ''o11y_metadata'' ''distributed_column_evolution_metadata''
        [''signal'', ''column_name'', ''column_type'', ''field_context'', ''field_name'', ''version'', ''release_time''] True True
        (''('traces', 'resource', 'JSON()', 'resource', '__all__', 1, '' @ itoa now2 @ '')'')]
      [drop_table ''o11y_metadata'' ''distributed_column_evolution_metadata'' [],
       drop_table ''o11y_metadata'' ''column_evolution_metadata'' []]\<close>

definition MetadataMigrations_list :: "int \<Rightarrow> int \<Rightarrow> SchemaMigrationRecord list" where
  \<open>MetadataMigrations_list now1 now2 =
    [Metadata_1000, Metadata_1001 now1 now2]\<close>

section \<open>analytics\_migrations.go\<close>

definition Analytics_1 :: "SchemaMigrationRecord" where
  \<open>Analytics_1 =
    migration 1
      [create_table ''o11y_analytics'' ''rule_state_history_v0''
        [column_default ''_retention_days'' ColumnTypeUInt32 [] ''180'',
         column ''rule_id'' (LowCardinalityColumnType ColumnTypeString) [],
         column ''rule_name'' (LowCardinalityColumnType ColumnTypeString) [],
         column ''overall_state'' (LowCardinalityColumnType ColumnTypeString) [],
         column ''overall_state_changed'' ColumnTypeBool [],
         column ''state'' (LowCardinalityColumnType ColumnTypeString) [],
         column ''state_changed'' ColumnTypeBool [],
         column ''unix_milli'' ColumnTypeInt64 ''Delta(8), ZSTD(1)'',
         column ''fingerprint'' ColumnTypeUInt64 ''ZSTD(1)'',
         column ''value'' ColumnTypeFloat64 ''Gorilla, ZSTD(1)'',
         column ''labels'' ColumnTypeString ''ZSTD(5)'']
        []
        []
        (MergeTreeEngine (merge_tree ''(rule_id, unix_milli)'' [] ''toDate(unix_milli / 1000)'' [] ''toDateTime(unix_milli / 1000) + toIntervalDay(_retention_days)''
          [setting ''ttl_only_drop_parts'' ''1'', setting ''index_granularity'' ''8192''])),
       create_table ''o11y_analytics'' ''distributed_rule_state_history_v0''
        [column ''rule_id'' (LowCardinalityColumnType ColumnTypeString) [],
         column ''rule_name'' (LowCardinalityColumnType ColumnTypeString) [],
         column ''overall_state'' (LowCardinalityColumnType ColumnTypeString) [],
         column ''overall_state_changed'' ColumnTypeBool [],
         column ''state'' (LowCardinalityColumnType ColumnTypeString) [],
         column ''state_changed'' ColumnTypeBool [],
         column ''unix_milli'' ColumnTypeInt64 ''Delta(8), ZSTD(1)'',
         column ''fingerprint'' ColumnTypeUInt64 ''ZSTD(1)'',
         column ''value'' ColumnTypeFloat64 ''Gorilla, ZSTD(1)'',
         column ''labels'' ColumnTypeString ''ZSTD(5)'']
        []
        []
        (distributed ''o11y_analytics'' ''rule_state_history_v0'' ''cityHash64(rule_id, rule_name, fingerprint)'')]
      [drop_table ''o11y_analytics'' ''distributed_rule_state_history_v0'' [],
       drop_table ''o11y_analytics'' ''rule_state_history_v0'' []]\<close>

definition AnalyticsMigrations_list :: "SchemaMigrationRecord list" where
  \<open>AnalyticsMigrations_list =
    [Analytics_1]\<close>

section \<open>meter\_migrations.go\<close>

definition Meter_1 :: "SchemaMigrationRecord" where
  \<open>Meter_1 =
    migration 1
      [create_table ''o11y_meter'' ''samples''
        [column_default ''temporality'' (LowCardinalityColumnType ColumnTypeString) [] (quoted ''Unspecified''),
         column ''metric_name'' (LowCardinalityColumnType ColumnTypeString) [],
         column_default ''description'' (LowCardinalityColumnType ColumnTypeString) [] (quoted ''default''),
         column_default ''unit'' (LowCardinalityColumnType ColumnTypeString) [] (quoted ''default''),
         column_default ''type'' (LowCardinalityColumnType ColumnTypeString) [] (quoted ''default''),
         column_default ''is_monotonic'' ColumnTypeBool [] ''false'',
         column ''labels'' ColumnTypeString ''ZSTD(5)'',
         column ''fingerprint'' ColumnTypeUInt64 ''Delta(8), ZSTD(1)'',
         column ''unix_milli'' ColumnTypeInt64 ''DoubleDelta, ZSTD(1)'',
         column ''value'' ColumnTypeFloat64 ''Gorilla, ZSTD(1)'']
        []
        []
        (MergeTreeEngine (merge_tree ''(temporality, metric_name, fingerprint, toDayOfMonth(toDateTime(intDiv(unix_milli, 1000))))'' [] ''toYYYYMM(toDateTime(intDiv(unix_milli, 1000)))'' [] ''toDateTime(intDiv(unix_milli, 1000)) + toIntervalYear(1)''
          [setting ''index_granularity'' ''8192'', setting ''ttl_only_drop_parts'' ''1'']))]
      [drop_table ''o11y_meter'' ''samples'' []]\<close>

definition Meter_2 :: "SchemaMigrationRecord" where
  \<open>Meter_2 =
    migration 2
      [create_table ''o11y_meter'' ''distributed_samples''
        [column_default ''temporality'' (LowCardinalityColumnType ColumnTypeString) [] (quoted ''Unspecified''),
         column ''metric_name'' (LowCardinalityColumnType ColumnTypeString) [],
         column_default ''description'' (LowCardinalityColumnType ColumnTypeString) [] (quoted ''default''),
         column_default ''unit'' (LowCardinalityColumnType ColumnTypeString) [] (quoted ''default''),
         column_default ''type'' (LowCardinalityColumnType ColumnTypeString) [] (quoted ''default''),
         column_default ''is_monotonic'' ColumnTypeBool [] ''false'',
         column ''labels'' ColumnTypeString ''ZSTD(5)'',
         column ''fingerprint'' ColumnTypeUInt64 ''Delta(8), ZSTD(1)'',
         column ''unix_milli'' ColumnTypeInt64 ''DoubleDelta, ZSTD(1)'',
         column ''value'' ColumnTypeFloat64 ''Gorilla, ZSTD(1)'']
        []
        []
        (distributed ''o11y_meter'' ''samples'' ''cityHash64(temporality, metric_name, fingerprint)'')]
      [drop_table ''o11y_meter'' ''distributed_samples'' []]\<close>

definition Meter_3 :: "SchemaMigrationRecord" where
  \<open>Meter_3 =
    migration 3
      [create_table ''o11y_meter'' ''samples_agg_1d''
        [column_default ''temporality'' (LowCardinalityColumnType ColumnTypeString) [] (quoted ''Unspecified''),
         column ''metric_name'' (LowCardinalityColumnType ColumnTypeString) [],
         column_default ''description'' (LowCardinalityColumnType ColumnTypeString) [] (quoted ''default''),
         column_default ''unit'' (LowCardinalityColumnType ColumnTypeString) [] (quoted ''default''),
         column_default ''type'' (LowCardinalityColumnType ColumnTypeString) [] (quoted ''default''),
         column_default ''is_monotonic'' ColumnTypeBool [] ''false'',
         column ''labels'' ColumnTypeString ''ZSTD(5)'',
         column ''fingerprint'' ColumnTypeUInt64 ''Delta(8), ZSTD(1)'',
         column ''unix_milli'' ColumnTypeInt64 ''DoubleDelta, ZSTD(1)'',
         column ''last'' (SimpleAggregateFunction ''anyLast'' [ColumnTypeFloat64]) ''ZSTD(1)'',
         column ''min'' (SimpleAggregateFunction ''min'' [ColumnTypeFloat64]) ''ZSTD(1)'',
         column ''max'' (SimpleAggregateFunction ''max'' [ColumnTypeFloat64]) ''ZSTD(1)'',
         column ''sum'' (SimpleAggregateFunction ''sum'' [ColumnTypeFloat64]) ''ZSTD(1)'',
         column ''count'' (SimpleAggregateFunction ''sum'' [ColumnTypeUInt64]) ''ZSTD(1)'']
        []
        []
        (AggregatingMergeTree (merge_tree ''(temporality, metric_name, fingerprint, toDayOfMonth(toDateTime(intDiv(unix_milli, 1000))))'' [] ''toYYYYMM(toDateTime(intDiv(unix_milli, 1000)))'' [] ''toDateTime(intDiv(unix_milli, 1000)) + toIntervalYear(1)''
          [setting ''index_granularity'' ''8192'', setting ''ttl_only_drop_parts'' ''1'']))]
      [drop_table ''o11y_meter'' ''samples_agg_1d'' []]\<close>

definition Meter_4 :: "SchemaMigrationRecord" where
  \<open>Meter_4 =
    migration 4
      [create_table ''o11y_meter'' ''distributed_samples_agg_1d''
        [column_default ''temporality'' (LowCardinalityColumnType ColumnTypeString) [] (quoted ''Unspecified''),
         column ''metric_name'' (LowCardinalityColumnType ColumnTypeString) [],
         column_default ''description'' (LowCardinalityColumnType ColumnTypeString) [] (quoted ''default''),
         column_default ''unit'' (LowCardinalityColumnType ColumnTypeString) [] (quoted ''default''),
         column_default ''type'' (LowCardinalityColumnType ColumnTypeString) [] (quoted ''default''),
         column_default ''is_monotonic'' ColumnTypeBool [] ''false'',
         column ''labels'' ColumnTypeString ''ZSTD(5)'',
         column ''fingerprint'' ColumnTypeUInt64 ''Delta(8), ZSTD(1)'',
         column ''unix_milli'' ColumnTypeInt64 ''DoubleDelta, ZSTD(1)'',
         column ''last'' (SimpleAggregateFunction ''anyLast'' [ColumnTypeFloat64]) ''ZSTD(1)'',
         column ''min'' (SimpleAggregateFunction ''min'' [ColumnTypeFloat64]) ''ZSTD(1)'',
         column ''max'' (SimpleAggregateFunction ''max'' [ColumnTypeFloat64]) ''ZSTD(1)'',
         column ''sum'' (SimpleAggregateFunction ''sum'' [ColumnTypeFloat64]) ''ZSTD(1)'',
         column ''count'' (SimpleAggregateFunction ''sum'' [ColumnTypeUInt64]) ''ZSTD(1)'']
        []
        []
        (distributed ''o11y_meter'' ''samples_agg_1d'' ''cityHash64(temporality, metric_name, fingerprint)'')]
      [drop_table ''o11y_meter'' ''distributed_samples_agg_1d'' []]\<close>

definition Meter_5 :: "SchemaMigrationRecord" where
  \<open>Meter_5 =
    migration 5
      [create_view ''o11y_meter'' ''samples_agg_1d_mv'' ''samples_agg_1d''
        [column_default ''temporality'' (LowCardinalityColumnType ColumnTypeString) [] (quoted ''Unspecified''),
         column ''metric_name'' (LowCardinalityColumnType ColumnTypeString) [],
         column_default ''description'' (LowCardinalityColumnType ColumnTypeString) [] (quoted ''default''),
         column_default ''unit'' (LowCardinalityColumnType ColumnTypeString) [] (quoted ''default''),
         column_default ''type'' (LowCardinalityColumnType ColumnTypeString) [] (quoted ''default''),
         column_default ''is_monotonic'' ColumnTypeBool [] ''false'',
         column ''labels'' ColumnTypeString ''ZSTD(5)'',
         column ''fingerprint'' ColumnTypeUInt64 ''Delta(8), ZSTD(1)'',
         column ''unix_milli'' ColumnTypeInt64 ''DoubleDelta, ZSTD(1)'',
         column ''last'' (SimpleAggregateFunction ''anyLast'' [ColumnTypeFloat64]) ''ZSTD(1)'',
         column ''min'' (SimpleAggregateFunction ''min'' [ColumnTypeFloat64]) ''ZSTD(1)'',
         column ''max'' (SimpleAggregateFunction ''max'' [ColumnTypeFloat64]) ''ZSTD(1)'',
         column ''sum'' (SimpleAggregateFunction ''sum'' [ColumnTypeFloat64]) ''ZSTD(1)'',
         column ''count'' (SimpleAggregateFunction ''sum'' [ColumnTypeUInt64]) ''ZSTD(1)'']
        ''SELECT\<newline>							temporality,\<newline>							metric_name,\<newline>							description,\<newline>							unit,\<newline>							type,\<newline>							is_monotonic,\<newline>							labels,\<newline>							fingerprint,\<newline>							intDiv(unix_milli,86400000) * 86400000 as unix_milli,\<newline>							anyLast(value) as last,\<newline>							min(value) as min,\<newline>							max(value) as max,\<newline>							sum(value) as sum,\<newline>							count(*) as count\<newline>						FROM o11y_meter.samples\<newline>						GROUP BY\<newline>							temporality,\<newline>							metric_name,\<newline>							fingerprint,\<newline>							description,\<newline>							unit,\<newline>							type,\<newline>							is_monotonic,\<newline>							labels,\<newline>							unix_milli;'']
      [drop_table ''o11y_meter'' ''samples_agg_1d_mv'' []]\<close>

definition MeterMigrations_list :: "SchemaMigrationRecord list" where
  \<open>MeterMigrations_list =
    [Meter_1, Meter_2, Meter_3, Meter_4, Meter_5]\<close>

section \<open>schema\_migrations\_v2\_tables.go\<close>

definition V2TablesLogs_1 :: "SchemaMigrationRecord" where
  \<open>V2TablesLogs_1 =
    migration 1
      [create_table ''o11y_logs'' ''schema_migrations_v2''
        [column ''migration_id'' ColumnTypeUInt64 [],
         column ''status'' ColumnTypeString [],
         column ''error'' ColumnTypeString [],
         column ''created_at'' (DateTime64ColumnType 9 []) [],
         column ''updated_at'' (DateTime64ColumnType 9 []) []]
        []
        []
        (ReplacingMergeTree (merge_tree ''migration_id'' ''migration_id'' [] [] []
          []))]
      []\<close>

definition V2TablesLogs_2 :: "SchemaMigrationRecord" where
  \<open>V2TablesLogs_2 =
    migration 2
      [create_table ''o11y_logs'' ''distributed_schema_migrations_v2''
        [column ''migration_id'' ColumnTypeUInt64 [],
         column ''status'' ColumnTypeString [],
         column ''error'' ColumnTypeString [],
         column ''created_at'' (DateTime64ColumnType 9 []) [],
         column ''updated_at'' (DateTime64ColumnType 9 []) []]
        []
        []
        (distributed ''o11y_logs'' ''schema_migrations_v2'' ''rand()'')]
      []\<close>

definition V2MigrationTablesLogs_list :: "SchemaMigrationRecord list" where
  \<open>V2MigrationTablesLogs_list =
    [V2TablesLogs_1, V2TablesLogs_2]\<close>

definition V2TablesTraces_3 :: "SchemaMigrationRecord" where
  \<open>V2TablesTraces_3 =
    migration 3
      [create_table ''o11y_traces'' ''schema_migrations_v2''
        [column ''migration_id'' ColumnTypeUInt64 [],
         column ''status'' ColumnTypeString [],
         column ''error'' ColumnTypeString [],
         column ''created_at'' (DateTime64ColumnType 9 []) [],
         column ''updated_at'' (DateTime64ColumnType 9 []) []]
        []
        []
        (ReplacingMergeTree (merge_tree ''migration_id'' ''migration_id'' [] [] []
          []))]
      []\<close>

definition V2TablesTraces_4 :: "SchemaMigrationRecord" where
  \<open>V2TablesTraces_4 =
    migration 4
      [create_table ''o11y_traces'' ''distributed_schema_migrations_v2''
        [column ''migration_id'' ColumnTypeUInt64 [],
         column ''status'' ColumnTypeString [],
         column ''error'' ColumnTypeString [],
         column ''created_at'' (DateTime64ColumnType 9 []) [],
         column ''updated_at'' (DateTime64ColumnType 9 []) []]
        []
        []
        (distributed ''o11y_traces'' ''schema_migrations_v2'' ''rand()'')]
      []\<close>

definition V2MigrationTablesTraces_list :: "SchemaMigrationRecord list" where
  \<open>V2MigrationTablesTraces_list =
    [V2TablesTraces_3, V2TablesTraces_4]\<close>

definition V2TablesMetrics_5 :: "SchemaMigrationRecord" where
  \<open>V2TablesMetrics_5 =
    migration 5
      [create_table ''o11y_metrics'' ''schema_migrations_v2''
        [column ''migration_id'' ColumnTypeUInt64 [],
         column ''status'' ColumnTypeString [],
         column ''error'' ColumnTypeString [],
         column ''created_at'' (DateTime64ColumnType 9 []) [],
         column ''updated_at'' (DateTime64ColumnType 9 []) []]
        []
        []
        (ReplacingMergeTree (merge_tree ''migration_id'' ''migration_id'' [] [] []
          []))]
      []\<close>

definition V2TablesMetrics_6 :: "SchemaMigrationRecord" where
  \<open>V2TablesMetrics_6 =
    migration 6
      [create_table ''o11y_metrics'' ''distributed_schema_migrations_v2''
        [column ''migration_id'' ColumnTypeUInt64 [],
         column ''status'' ColumnTypeString [],
         column ''error'' ColumnTypeString [],
         column ''created_at'' (DateTime64ColumnType 9 []) [],
         column ''updated_at'' (DateTime64ColumnType 9 []) []]
        []
        []
        (distributed ''o11y_metrics'' ''schema_migrations_v2'' ''rand()'')]
      []\<close>

definition V2MigrationTablesMetrics_list :: "SchemaMigrationRecord list" where
  \<open>V2MigrationTablesMetrics_list =
    [V2TablesMetrics_5, V2TablesMetrics_6]\<close>

definition V2TablesMetadata_7 :: "SchemaMigrationRecord" where
  \<open>V2TablesMetadata_7 =
    migration 7
      [create_table ''o11y_metadata'' ''schema_migrations_v2''
        [column ''migration_id'' ColumnTypeUInt64 [],
         column ''status'' ColumnTypeString [],
         column ''error'' ColumnTypeString [],
         column ''created_at'' (DateTime64ColumnType 9 []) [],
         column ''updated_at'' (DateTime64ColumnType 9 []) []]
        []
        []
        (ReplacingMergeTree (merge_tree ''migration_id'' ''migration_id'' [] [] []
          []))]
      []\<close>

definition V2TablesMetadata_8 :: "SchemaMigrationRecord" where
  \<open>V2TablesMetadata_8 =
    migration 8
      [create_table ''o11y_metadata'' ''distributed_schema_migrations_v2''
        [column ''migration_id'' ColumnTypeUInt64 [],
         column ''status'' ColumnTypeString [],
         column ''error'' ColumnTypeString [],
         column ''created_at'' (DateTime64ColumnType 9 []) [],
         column ''updated_at'' (DateTime64ColumnType 9 []) []]
        []
        []
        (distributed ''o11y_metadata'' ''schema_migrations_v2'' ''rand()'')]
      []\<close>

definition V2MigrationTablesMetadata_list :: "SchemaMigrationRecord list" where
  \<open>V2MigrationTablesMetadata_list =
    [V2TablesMetadata_7, V2TablesMetadata_8]\<close>

definition V2TablesAnalytics_9 :: "SchemaMigrationRecord" where
  \<open>V2TablesAnalytics_9 =
    migration 9
      [create_table ''o11y_analytics'' ''schema_migrations_v2''
        [column ''migration_id'' ColumnTypeUInt64 [],
         column ''status'' ColumnTypeString [],
         column ''error'' ColumnTypeString [],
         column ''created_at'' (DateTime64ColumnType 9 []) [],
         column ''updated_at'' (DateTime64ColumnType 9 []) []]
        []
        []
        (ReplacingMergeTree (merge_tree ''migration_id'' ''migration_id'' [] [] []
          [])),
       create_table ''o11y_analytics'' ''distributed_schema_migrations_v2''
        [column ''migration_id'' ColumnTypeUInt64 [],
         column ''status'' ColumnTypeString [],
         column ''error'' ColumnTypeString [],
         column ''created_at'' (DateTime64ColumnType 9 []) [],
         column ''updated_at'' (DateTime64ColumnType 9 []) []]
        []
        []
        (distributed ''o11y_analytics'' ''schema_migrations_v2'' ''rand()'')]
      []\<close>

definition V2MigrationTablesAnalytics_list :: "SchemaMigrationRecord list" where
  \<open>V2MigrationTablesAnalytics_list =
    [V2TablesAnalytics_9]\<close>

definition V2TablesMeter_10 :: "SchemaMigrationRecord" where
  \<open>V2TablesMeter_10 =
    migration 10
      [create_table ''o11y_meter'' ''schema_migrations_v2''
        [column ''migration_id'' ColumnTypeUInt64 [],
         column ''status'' ColumnTypeString [],
         column ''error'' ColumnTypeString [],
         column ''created_at'' (DateTime64ColumnType 9 []) [],
         column ''updated_at'' (DateTime64ColumnType 9 []) []]
        []
        []
        (ReplacingMergeTree (merge_tree ''migration_id'' ''migration_id'' [] [] []
          [])),
       create_table ''o11y_meter'' ''distributed_schema_migrations_v2''
        [column ''migration_id'' ColumnTypeUInt64 [],
         column ''status'' ColumnTypeString [],
         column ''error'' ColumnTypeString [],
         column ''created_at'' (DateTime64ColumnType 9 []) [],
         column ''updated_at'' (DateTime64ColumnType 9 []) []]
        []
        []
        (distributed ''o11y_meter'' ''schema_migrations_v2'' ''rand()'')]
      []\<close>

definition V2MigrationTablesMeter_list :: "SchemaMigrationRecord list" where
  \<open>V2MigrationTablesMeter_list =
    [V2TablesMeter_10]\<close>

end
