(* ===== verification/ShippedCatalog.thy ===== *)
theory ShippedCatalog
  imports UpgradeRuns ShippedLogs ShippedTraces ShippedMetrics ShippedOthers
begin

text \<open>
  The shipped migrations put together: the catalogs the manager takes as arguments, evaluated against
  what the manager and the schema need of them.
\<close>

section \<open>The catalogs\<close>

text \<open>The arguments are the switch for the second version of the logs and the two times in the metadata.\<close>

definition shipped :: "bool \<Rightarrow> int \<Rightarrow> int \<Rightarrow> catalog" where
  "shipped v2 now1 now2 = \<lparr>TracesMigrations = TracesMigrations_list, LogsMigrations = LogsMigrations_list,
     LogsMigrationsV2 = LogsMigrationsV2_list, MetricsMigrations = MetricsMigrations_list,
     MetadataMigrations = MetadataMigrations_list now1 now2, AnalyticsMigrations = AnalyticsMigrations_list,
     MeterMigrations = MeterMigrations_list, EnableLogsMigrationsV2 = v2\<rparr>"

definition shipped_squashed :: squashed_catalog where
  "shipped_squashed = \<lparr>CustomRetentionLogsMigrations = CustomRetentionLogsMigrations_list,
     SquashedLogsMigrations = SquashedLogsMigrations_list, SquashedMetricsMigrations = SquashedMetricsMigrations_list,
     SquashedTracesMigrations = SquashedTracesMigrations_list\<rparr>"

definition shipped_tables :: v2_tables where
  "shipped_tables = \<lparr>V2MigrationTablesLogs = V2MigrationTablesLogs_list, V2MigrationTablesMetrics = V2MigrationTablesMetrics_list,
     V2MigrationTablesTraces = V2MigrationTablesTraces_list, V2MigrationTablesMetadata = V2MigrationTablesMetadata_list,
     V2MigrationTablesAnalytics = V2MigrationTablesAnalytics_list, V2MigrationTablesMeter = V2MigrationTablesMeter_list\<rparr>"

definition ups :: "SchemaMigrationRecord list \<Rightarrow> Operation list" where
  "ups ms = concat (map UpItems ms)"

definition downs :: "SchemaMigrationRecord list \<Rightarrow> Operation list" where
  "downs ms = concat (map DownItems ms)"

definition all_lists :: "int \<Rightarrow> int \<Rightarrow> SchemaMigrationRecord list list" where
  "all_lists now1 now2 = [TracesMigrations_list, LogsMigrations_list, LogsMigrationsV2_list, MetricsMigrations_list,
     MetadataMigrations_list now1 now2, AnalyticsMigrations_list, MeterMigrations_list,
     CustomRetentionLogsMigrations_list, SquashedLogsMigrations_list, SquashedMetricsMigrations_list,
     SquashedTracesMigrations_list, V2MigrationTablesLogs_list, V2MigrationTablesMetrics_list,
     V2MigrationTablesTraces_list, V2MigrationTablesMetadata_list, V2MigrationTablesAnalytics_list,
     V2MigrationTablesMeter_list]"

section \<open>Well-formedness\<close>

definition increasing :: "SchemaMigrationRecord list \<Rightarrow> bool" where
  "increasing ms \<longleftrightarrow> sorted_wrt (<) (map SchemaMigrationRecord.MigrationID ms)"

lemma shipped_increasing: "list_all increasing (all_lists now1 now2)"
  by code_simp

lemma shipped_unmixed: "unmixed (shipped v2 now1 now2)"
proof -
  have "unmixed (shipped True now1 now2)" by code_simp
  moreover have "unmixed (shipped False now1 now2)" by code_simp
  ultimately show ?thesis by (cases v2) simp_all
qed

fun printable :: "Operation \<Rightarrow> bool" where
  "printable (OpCreateTable a) = list_all column_ok (Columns a)"
| "printable (OpCreateMaterializedView a) = list_all column_ok (ViewColumns a)"
| "printable (OpAddColumn a) = column_ok (OpColumn a)"
| "printable (OpModifyColumn a) = (case columnType (OpColumn a) of None \<Rightarrow> True | Some t \<Rightarrow> type_ok t)"
| "printable _ = True"

lemma shipped_printable: "list_all (list_all (\<lambda>mig. list_all printable (UpItems mig @ DownItems mig))) (all_lists now1 now2)"
  by code_simp

lemma type_ok_prints: "type_ok t \<Longrightarrow> \<exists>s. String t = Some s"
  using String_type_ok [of t] by auto

lemma printable_prints: "printable op \<Longrightarrow> ToSQL op \<noteq> None"
  by (cases op) (auto simp: operation_methods list_all_iff Column_ToSQL_ok type_ok_prints split: option.splits)

lemma shipped_distinct: "distinct_ids (shipped v2 now1 now2)"
proof -
  have "distinct_ids (shipped True now1 now2)" by code_simp
  moreover have "distinct_ids (shipped False now1 now2)" by code_simp
  ultimately show ?thesis by (cases v2) simp_all
qed

section \<open>Names\<close>

text \<open>The selection of operations, matched like \<open>same\<close> and the functions after it.\<close>

fun pick :: "(Operation \<Rightarrow> bool) \<Rightarrow> Operation list \<Rightarrow> Operation list"
  and pick_if :: "bool \<Rightarrow> (Operation \<Rightarrow> bool) \<Rightarrow> Operation \<Rightarrow> Operation list \<Rightarrow> Operation list" where
  "pick P [] = []"
| "pick P (x # xs) = pick_if (P x) P x xs"
| "pick_if True P x xs = x # pick P xs"
| "pick_if False P x xs = pick P xs"

lemma pick_filter: "pick P xs = filter P xs" "pick_if b P x xs = (if b then x # filter P xs else filter P xs)"
  by (induction P xs and b P x xs rule: pick_pick_if.induct) auto

text \<open>
  The operations in the order in which the bootstrap, the squashed migrations and the two up runs send
  them on a new installation.
\<close>

definition installation :: "bool \<Rightarrow> int \<Rightarrow> int \<Rightarrow> Operation list" where
  "installation v2 now1 now2 =
     concat (map ups [V2MigrationTablesLogs shipped_tables, V2MigrationTablesMetrics shipped_tables,
       V2MigrationTablesTraces shipped_tables, V2MigrationTablesMetadata shipped_tables,
       V2MigrationTablesAnalytics shipped_tables, V2MigrationTablesMeter shipped_tables]) @
     concat (map ups [CustomRetentionLogsMigrations shipped_squashed, SquashedMetricsMigrations shipped_squashed,
       SquashedTracesMigrations shipped_squashed]) @
     map (\<lambda>(db, i, op). op) (work_of IsSyncOperation (sync_dbs (shipped v2 now1 now2))) @
     map (\<lambda>(db, i, op). op) (work_of runs_async (async_dbs (shipped v2 now1 now2)))"

lemma work_operations:
  "map (\<lambda>(db, i, op). op) (work_of P dbs) = filter P (concat (map (\<lambda>(db, ms). ups ms) dbs))"
proof (induction dbs)
  case (Cons p dbs)
  obtain db ms where p: "p = (db, ms)" by (cases p)
  have "map (\<lambda>(db, i, op). op) (concat (map (work_for P) (map (Pair db) ms))) = filter P (ups ms)"
    by (induction ms) (simp_all add: work_for_def ups_def comp_def)
  with Cons p show ?case by (simp add: work_of_def pairs_def)
qed (simp add: work_of_def pairs_def)

text \<open>Each list belongs to one database, except the second version of the logs.\<close>

definition belongs :: "string \<Rightarrow> Operation list \<Rightarrow> bool" where
  "belongs db xs \<longleftrightarrow> list_all (\<lambda>x. same (op_database x) db) xs"

definition logs_v2_metadata :: "Operation list" where
  "logs_v2_metadata = [LogsV2_2001_up1, LogsV2_2001_up2]"

definition logs_v2_before :: "Operation list" where
  "logs_v2_before = ups [LogsV2_1000, LogsV2_1001, LogsV2_1002, LogsV2_1003, LogsV2_1004, LogsV2_1005]"

definition logs_v2_after :: "Operation list" where
  "logs_v2_after = drop 2 (UpItems LogsV2_2001)"

lemma logs_v2_split: "ups LogsMigrationsV2_list = logs_v2_before @ logs_v2_metadata @ logs_v2_after"
  by (simp add: ups_def LogsMigrationsV2_list_def logs_v2_before_def logs_v2_metadata_def logs_v2_after_def LogsV2_2001_def)

lemma belongs_lists:
  "belongs O11yLogsDB (ups V2MigrationTablesLogs_list)" "belongs O11yTracesDB (ups V2MigrationTablesTraces_list)"
  "belongs O11yMetricsDB (ups V2MigrationTablesMetrics_list)" "belongs O11yMetadataDB (ups V2MigrationTablesMetadata_list)"
  "belongs O11yAnalyticsDB (ups V2MigrationTablesAnalytics_list)" "belongs O11yMeterDB (ups V2MigrationTablesMeter_list)"
  "belongs O11yLogsDB (ups CustomRetentionLogsMigrations_list)" "belongs O11yTracesDB (ups SquashedTracesMigrations_list)"
  "belongs O11yMetricsDB (ups SquashedMetricsMigrations_list)" "belongs O11yTracesDB (ups TracesMigrations_list)"
  "belongs O11yMetricsDB (ups MetricsMigrations_list)" "belongs O11yMetadataDB (ups (MetadataMigrations_list now1 now2))"
  "belongs O11yAnalyticsDB (ups AnalyticsMigrations_list)" "belongs O11yMeterDB (ups MeterMigrations_list)"
  "belongs O11yLogsDB (ups LogsMigrations_list)" "belongs O11yLogsDB logs_v2_before" "belongs O11yMetadataDB logs_v2_metadata"
  "belongs O11yLogsDB logs_v2_after"
  by code_simp+

lemma filter_belongs: "belongs db xs \<Longrightarrow> filter (\<lambda>x. op_database x = db') xs = (if db' = db then xs else [])"
  by (induction xs) (auto simp: belongs_def)

lemma filter_belongs_selected:
  "belongs db xs \<Longrightarrow> filter (\<lambda>x. P x \<and> op_database x = db') xs = (if db' = db then filter P xs else [])"
  by (induction xs) (auto simp: belongs_def)

lemmas filter_lists = belongs_lists [THEN filter_belongs] belongs_lists [THEN filter_belongs_selected]

lemma databases_apart:
  "O11yLogsDB \<noteq> O11yTracesDB" "O11yLogsDB \<noteq> O11yMetricsDB"
  "O11yLogsDB \<noteq> O11yMetadataDB" "O11yLogsDB \<noteq> O11yAnalyticsDB" "O11yLogsDB \<noteq> O11yMeterDB"
  "O11yTracesDB \<noteq> O11yLogsDB" "O11yTracesDB \<noteq> O11yMetricsDB"
  "O11yTracesDB \<noteq> O11yMetadataDB" "O11yTracesDB \<noteq> O11yAnalyticsDB" "O11yTracesDB \<noteq> O11yMeterDB"
  "O11yMetricsDB \<noteq> O11yLogsDB" "O11yMetricsDB \<noteq> O11yTracesDB" "O11yMetricsDB \<noteq> O11yMetadataDB" "O11yMetricsDB \<noteq> O11yAnalyticsDB" "O11yMetricsDB \<noteq> O11yMeterDB"
  "O11yMetadataDB \<noteq> O11yLogsDB" "O11yMetadataDB \<noteq> O11yTracesDB" "O11yMetadataDB \<noteq> O11yMetricsDB"
  "O11yMetadataDB \<noteq> O11yAnalyticsDB" "O11yMetadataDB \<noteq> O11yMeterDB"
  "O11yAnalyticsDB \<noteq> O11yLogsDB" "O11yAnalyticsDB \<noteq> O11yTracesDB" "O11yAnalyticsDB \<noteq> O11yMetricsDB"
  "O11yAnalyticsDB \<noteq> O11yMetadataDB" "O11yAnalyticsDB \<noteq> O11yMeterDB"
  "O11yMeterDB \<noteq> O11yLogsDB" "O11yMeterDB \<noteq> O11yTracesDB" "O11yMeterDB \<noteq> O11yMetricsDB"
  "O11yMeterDB \<noteq> O11yMetadataDB" "O11yMeterDB \<noteq> O11yAnalyticsDB"
  by (simp_all add: db_names)

section \<open>Evaluation, one database at a time\<close>

definition both_runs :: "Operation list \<Rightarrow> Operation list" where
  "both_runs xs = pick IsSyncOperation xs @ pick runs_async xs"

definition logs_order :: "bool \<Rightarrow> Operation list" where
  "logs_order v2 = ups V2MigrationTablesLogs_list @ ups CustomRetentionLogsMigrations_list @
     both_runs (if v2 then logs_v2_before @ logs_v2_after else ups LogsMigrations_list)"

lemma logs_resolve: "resolve_tables (logs_order v2) (Some []) \<noteq> None"
proof -
  have "resolve_tables (logs_order True) (Some []) \<noteq> None" by code_simp
  moreover have "resolve_tables (logs_order False) (Some []) \<noteq> None" by code_simp
  ultimately show ?thesis by (cases v2) simp_all
qed

lemma traces_resolve:
  "resolve_tables (ups V2MigrationTablesTraces_list @ ups SquashedTracesMigrations_list @ both_runs (ups TracesMigrations_list))
     (Some []) \<noteq> None"
  by code_simp

lemma metrics_resolve:
  "resolve_tables (ups V2MigrationTablesMetrics_list @ ups SquashedMetricsMigrations_list @ both_runs (ups MetricsMigrations_list))
     (Some []) \<noteq> None"
  by code_simp

definition metadata_order :: "bool \<Rightarrow> int \<Rightarrow> int \<Rightarrow> Operation list" where
  "metadata_order v2 now1 now2 = ups V2MigrationTablesMetadata_list @
     pick IsSyncOperation ((if v2 then logs_v2_metadata else []) @ ups (MetadataMigrations_list now1 now2))"

lemma metadata_resolve: "resolve_tables (metadata_order v2 now1 now2) (Some []) \<noteq> None"
proof -
  have "resolve_tables (metadata_order True now1 now2) (Some []) \<noteq> None" by code_simp
  moreover have "resolve_tables (metadata_order False now1 now2) (Some []) \<noteq> None" by code_simp
  ultimately show ?thesis by (cases v2) simp_all
qed

lemma analytics_resolve:
  "resolve_tables (ups V2MigrationTablesAnalytics_list @ pick IsSyncOperation (ups AnalyticsMigrations_list)) (Some []) \<noteq> None"
  by code_simp

lemma meter_resolve:
  "resolve_tables (ups V2MigrationTablesMeter_list @ pick IsSyncOperation (ups MeterMigrations_list)) (Some []) \<noteq> None"
  by code_simp

lemma logs_v2_metadata_sync: "filter runs_async logs_v2_metadata = []"
  by code_simp

lemma installation_lists:
  "installation v2 now1 now2 =
     ups V2MigrationTablesLogs_list @ ups V2MigrationTablesMetrics_list @ ups V2MigrationTablesTraces_list @
     ups V2MigrationTablesMetadata_list @ ups V2MigrationTablesAnalytics_list @ ups V2MigrationTablesMeter_list @
     ups CustomRetentionLogsMigrations_list @ ups SquashedMetricsMigrations_list @ ups SquashedTracesMigrations_list @
     filter IsSyncOperation (ups TracesMigrations_list @
       (if v2 then logs_v2_before @ logs_v2_metadata @ logs_v2_after else ups LogsMigrations_list) @
       ups MetricsMigrations_list @ ups (MetadataMigrations_list now1 now2) @ ups AnalyticsMigrations_list @
       ups MeterMigrations_list) @
     filter runs_async (ups TracesMigrations_list @ ups MetricsMigrations_list @
       (if v2 then logs_v2_before @ logs_v2_metadata @ logs_v2_after else ups LogsMigrations_list))"
  by (simp add: installation_def work_operations sync_dbs_def async_dbs_def shipped_def shipped_tables_def
      shipped_squashed_def logsMigrations_def logs_v2_split)

lemma installation_database:
  "filter (\<lambda>x. op_database x = db) (installation v2 now1 now2) =
     (if db = O11yLogsDB then logs_order v2
      else if db = O11yTracesDB then ups V2MigrationTablesTraces_list @ ups SquashedTracesMigrations_list @
        both_runs (ups TracesMigrations_list)
      else if db = O11yMetricsDB then ups V2MigrationTablesMetrics_list @ ups SquashedMetricsMigrations_list @
        both_runs (ups MetricsMigrations_list)
      else if db = O11yMetadataDB then metadata_order v2 now1 now2
      else if db = O11yAnalyticsDB then ups V2MigrationTablesAnalytics_list @ pick IsSyncOperation (ups AnalyticsMigrations_list)
      else if db = O11yMeterDB then ups V2MigrationTablesMeter_list @ pick IsSyncOperation (ups MeterMigrations_list)
      else [])"
  by (simp add: databases_apart installation_lists filter_lists logs_order_def metadata_order_def both_runs_def pick_filter logs_v2_metadata_sync
      filter_append if_distrib [where f = "filter P" for P])


text \<open>
  C37. The shipped catalog is what the manager needs: the identifiers of every list increase, no
  migration mixes operations of the two up runs, no migration occurs twice in a database, and every
  operation of every list prints a statement, for every cluster and with or without replication.
\<close>

theorem shipped_well_formed:
  "list_all increasing (all_lists now1 now2) \<and> unmixed (shipped v2 now1 now2) \<and> distinct_ids (shipped v2 now1 now2) \<and>
   list_all (list_all (\<lambda>mig. list_all (\<lambda>op. ToSQL (prepare c r op) \<noteq> None) (UpItems mig @ DownItems mig)))
     (all_lists now1 now2)"
proof -
  have "ToSQL (prepare c r op) \<noteq> None"
    if "ms \<in> set (all_lists now1 now2)" "mig \<in> set ms" "op \<in> set (UpItems mig @ DownItems mig)" for ms mig op
  proof -
    have "printable op" using shipped_printable that unfolding list_all_iff by blast
    from printable_prints [OF this] show ?thesis by (simp only: prepare_prints not_False_eq_True)
  qed
  then have "list_all (list_all (\<lambda>mig. list_all (\<lambda>op. ToSQL (prepare c r op) \<noteq> None) (UpItems mig @ DownItems mig)))
      (all_lists now1 now2)" unfolding list_all_iff by blast
  with shipped_increasing shipped_unmixed shipped_distinct show ?thesis by blast
qed

section \<open>Two defects of the shipped data\<close>

text \<open>The names a sharding key mentions: the words that are not followed by a parenthesis.\<close>

definition word_of :: "string \<Rightarrow> string list" where
  "word_of w = (if w = [] then [] else [rev w])"

fun key_columns :: "string \<Rightarrow> string \<Rightarrow> string list" where
  "key_columns w [] = word_of w"
| "key_columns w (c # cs) =
     (if c = CHR ''('' then key_columns [] cs
      else if c \<in> set '' ,)'' then word_of w @ key_columns [] cs
      else key_columns (c # w) cs)"

fun missing_keys :: "Operation \<Rightarrow> (string \<times> string) list" where
  "missing_keys (OpCreateTable a) = (case Engine a of
      DistributedEngine d \<Rightarrow> map (Pair (Table a))
        (filter (\<lambda>k. \<not> elem (map columnName (Columns a)) k) (key_columns [] (ShardingKey d)))
    | _ \<Rightarrow> [])"
| "missing_keys _ = []"

text \<open>
  All distributed tables that the shipped migrations create are sharded by their own columns, with
  two exceptions: the literal for \<open>distributed_time_series_v4_1week\<close> in the last squashed migration of
  the metrics lacks the column \<open>fingerprint\<close>, and \<open>distributed_json_path_types\<close> is sharded by the
  columns \<open>path\<close> and \<open>type\<close> that the table no longer has.
\<close>

theorem sharding_keys_missing:
  "concat (map missing_keys (concat (map ups (all_lists now1 now2)))) =
     [(''distributed_json_path_types'', ''path''), (''distributed_json_path_types'', ''type''),
      (''distributed_time_series_v4_1week'', ''fingerprint'')]"
  by code_simp

lemma logs_v2_down_logs:
  "resolve_tables (logs_order True @ pick (\<lambda>x. same (op_database x) O11yLogsDB) LogsV2_2001_down) (Some []) = None"
  by code_simp

text \<open>
  The last migration of the second version of the logs cannot be taken back: its down operations
  drop columns of \<open>logs_v2\<close> and the table \<open>json_path_types\<close> while the distributed tables over them still
  have these columns and read from this table.
\<close>

theorem logs_v2_down_dangles:
  "resolve_all (installation True now1 now2 @ DownItems LogsV2_2001) (\<lambda>_. []) = None"
proof (rule ccontr)
  assume "resolve_all (installation True now1 now2 @ DownItems LogsV2_2001) (\<lambda>_. []) \<noteq> None"
  then have "resolve_tables (filter (\<lambda>x. op_database x = O11yLogsDB)
      (installation True now1 now2 @ DownItems LogsV2_2001)) (Some []) \<noteq> None"
    unfolding resolve_all_databases by blast
  then show False
    using logs_v2_down_logs by (simp add: installation_database LogsV2_2001_def pick_filter)
qed

end
