(* ===== verification/MetadataCache.thy ===== *)
theory MetadataCache
  imports Otel_Prelude
begin

text \<open>
  The cache of fingerprints of the metadata exporter (exporter/metadataexporter/cache/inmemory.go): for
  each signal the resources seen, and for each resource the fingerprints of attributes seen with it.

  A cache with times to live is a third-party package: a record of functions that take the time of the
  call, with its documented behaviour as the locales \<open>ttl_store\<close> and \<open>ttl_provider\<close>. The cache holds
  pointers; the entries they point to are the list \<open>entries\<close>, and an entry is changed in place. A
  dereferenced nil pointer answers \<open>None\<close>. Lengths and limits are natural numbers: a sum of two lengths
  is far below the bound of \<open>uint64\<close>.
\<close>

section \<open>The package\<close>

record ('c, 'k) ttlcache =
  ttlNew :: 'c
  ttlGet :: "int \<Rightarrow> 'k \<Rightarrow> 'c \<Rightarrow> nat option \<times> 'c"
  ttlSet :: "int \<Rightarrow> 'k \<Rightarrow> nat \<Rightarrow> 'c \<Rightarrow> 'c"
  ttlKeys :: "int \<Rightarrow> 'c \<Rightarrow> 'k list"

text \<open>\<open>live t c\<close> is what the cache holds and has not expired at \<open>t\<close>. Setting an item may evict others.\<close>

locale ttl_store =
  fixes T :: "('c, 'k) ttlcache" and live :: "int \<Rightarrow> 'c \<Rightarrow> ('k \<rightharpoonup> nat)"
  assumes new: "live t (ttlNew T) = Map.empty"
    and get: "ttlGet T t k c = (r, c') \<Longrightarrow> r = live t c k \<and> live t c' = live t c"
    and set_here: "live t (ttlSet T t k p c) k = Some p"
    and set_there: "k' \<noteq> k \<Longrightarrow> live t (ttlSet T t k p c) k' = Some q \<Longrightarrow> live t c k' = Some q"
    and keys: "distinct (ttlKeys T t c) \<and> set (ttlKeys T t c) = dom (live t c)"
    and later: "t \<le> t' \<Longrightarrow> live t' c k = Some p \<Longrightarrow> live t c k = Some p"

text \<open>A cache without a capacity evicts nothing.\<close>

locale ttl_provider = ttl_store T live for T :: "('c, 'k) ttlcache" and live :: "int \<Rightarrow> 'c \<Rightarrow> ('k \<rightharpoonup> nat)" +
  assumes set_keeps: "k' \<noteq> k \<Longrightarrow> live t c k' = Some q \<Longrightarrow> live t (ttlSet T t k p c) k' = Some q"
begin

lemma set_eq: "live t (ttlSet T t k p c) = (live t c)(k \<mapsto> p)"
proof
  fix k'
  show "live t (ttlSet T t k p c) k' = ((live t c)(k \<mapsto> p)) k'"
  proof (cases "k' = k")
    case False
    have "live t (ttlSet T t k p c) k' = Some q \<longleftrightarrow> live t c k' = Some q" for q
      using set_there [OF False] set_keeps [OF False] by blast
    with False show ?thesis by (metis fun_upd_other not_Some_eq)
  qed (simp add: set_here)
qed

end

section \<open>The key cache (inmemory.go)\<close>

datatype Signal = SignalTraces | SignalMetrics | SignalLogs | OtherSignal string

fun Signal_String :: "Signal \<Rightarrow> string" where
  "Signal_String SignalTraces = ''traces''"
| "Signal_String SignalMetrics = ''metrics''"
| "Signal_String SignalLogs = ''logs''"
| "Signal_String (OtherSignal s) = s"

type_synonym fp = "64 word"

record 'c resources =
  ttl :: 'c
  entries :: "fp list list"

record InMemoryKeyCacheOptions =
  optMaxTracesResourceFp :: nat
  optMaxMetricsResourceFp :: nat
  optMaxLogsResourceFp :: nat
  optMaxTracesCardinalityPerResource :: nat
  optMaxMetricsCardinalityPerResource :: nat
  optMaxLogsCardinalityPerResource :: nat
  optTracesMaxTotalCardinality :: nat
  optMetricsMaxTotalCardinality :: nat
  optLogsMaxTotalCardinality :: nat

record 'c InMemoryKeyCache =
  tracesCache :: "'c resources"
  metricsCache :: "'c resources"
  logsCache :: "'c resources"
  maxTracesResourceFp :: nat
  maxMetricsResourceFp :: nat
  maxLogsResourceFp :: nat
  maxTracesCardinalityPerResource :: nat
  maxMetricsCardinalityPerResource :: nat
  maxLogsCardinalityPerResource :: nat
  tracesMaxTotalCardinality :: nat
  metricsMaxTotalCardinality :: nat
  logsMaxTotalCardinality :: nat

definition NewInMemoryKeyCache :: "('c, fp) ttlcache \<Rightarrow> InMemoryKeyCacheOptions \<Rightarrow> 'c InMemoryKeyCache" where
  "NewInMemoryKeyCache T opts = (let empty = \<lparr>ttl = ttlNew T, entries = []\<rparr> in
     \<lparr>tracesCache = empty, metricsCache = empty, logsCache = empty,
      maxTracesResourceFp = optMaxTracesResourceFp opts,
      maxMetricsResourceFp = optMaxMetricsResourceFp opts,
      maxLogsResourceFp = optMaxLogsResourceFp opts,
      maxTracesCardinalityPerResource = optMaxTracesCardinalityPerResource opts,
      maxMetricsCardinalityPerResource = optMaxMetricsCardinalityPerResource opts,
      maxLogsCardinalityPerResource = optMaxLogsCardinalityPerResource opts,
      tracesMaxTotalCardinality = optTracesMaxTotalCardinality opts,
      metricsMaxTotalCardinality = optMetricsMaxTotalCardinality opts,
      logsMaxTotalCardinality = optLogsMaxTotalCardinality opts\<rparr>)"

fun getCacheAndLimits :: "Signal \<Rightarrow> 'c InMemoryKeyCache \<Rightarrow> ('c resources \<times> nat \<times> nat) option" where
  "getCacheAndLimits SignalTraces c = Some (tracesCache c, maxTracesResourceFp c, maxTracesCardinalityPerResource c)"
| "getCacheAndLimits SignalMetrics c = Some (metricsCache c, maxMetricsResourceFp c, maxMetricsCardinalityPerResource c)"
| "getCacheAndLimits SignalLogs c = Some (logsCache c, maxLogsResourceFp c, maxLogsCardinalityPerResource c)"
| "getCacheAndLimits (OtherSignal s) c = None"

text \<open>The caches are changed through the pointer that \<open>getCacheAndLimits\<close> answers.\<close>

fun store :: "Signal \<Rightarrow> 'c resources \<Rightarrow> 'c InMemoryKeyCache \<Rightarrow> 'c InMemoryKeyCache" where
  "store SignalTraces r c = c\<lparr>tracesCache := r\<rparr>"
| "store SignalMetrics r c = c\<lparr>metricsCache := r\<rparr>"
| "store SignalLogs r c = c\<lparr>logsCache := r\<rparr>"
| "store (OtherSignal s) r c = c"

lemma getCacheAndLimits_store:
  "getCacheAndLimits ds' (store ds r c) =
     (if ds' = ds then map_option (\<lambda>(_, maxR, maxA). (r, maxR, maxA)) (getCacheAndLimits ds c) else getCacheAndLimits ds' c)"
  by (cases ds; cases ds') simp_all

definition add_attrs :: "fp \<Rightarrow> fp list \<Rightarrow> Signal \<Rightarrow> nat \<Rightarrow> nat \<Rightarrow> 'c resources \<Rightarrow> unit result \<times> 'c resources" where
  "add_attrs resourceFp attrFps ds maxAttrCount p r =
     (if maxAttrCount < length (entries r ! p) + length attrFps
      then (Inl (''too many attribute fingerprints for resource '' @ show_nat (unat resourceFp) @ '' in ''
              @ Signal_String ds @ '' cache''), r)
      else (Inr (), r\<lparr>entries := (entries r)[p := fold List.insert attrFps (entries r ! p)]\<rparr>))"

definition AddAttrsToResource ::
    "('c, fp) ttlcache \<Rightarrow> int \<Rightarrow> fp \<Rightarrow> fp list \<Rightarrow> Signal \<Rightarrow> 'c InMemoryKeyCache \<Rightarrow> (unit result \<times> 'c InMemoryKeyCache) option" where
  "AddAttrsToResource T now resourceFp attrFps ds c =
     (case getCacheAndLimits ds c of
        None \<Rightarrow> None
      | Some (cache, maxResourceCount, maxAttrCount) \<Rightarrow>
          (case ttlGet T now resourceFp (ttl cache) of
             (Some p, c1) \<Rightarrow>
               (case add_attrs resourceFp attrFps ds maxAttrCount p (cache\<lparr>ttl := c1\<rparr>) of (res, r) \<Rightarrow>
                  Some (res, store ds r c))
           | (None, c1) \<Rightarrow>
               (if maxResourceCount \<le> length (ttlKeys T now c1)
                then Some (Inl (''too many resource fingerprints in '' @ Signal_String ds @ '' cache''),
                       store ds (cache\<lparr>ttl := c1\<rparr>) c)
                else
                  (let c2 = ttlSet T now resourceFp (length (entries cache)) c1;
                       r = cache\<lparr>entries := entries cache @ [[]]\<rparr>
                   in case ttlGet T now resourceFp c2 of
                        (None, c3) \<Rightarrow> None
                      | (Some p, c3) \<Rightarrow>
                          (case add_attrs resourceFp attrFps ds maxAttrCount p (r\<lparr>ttl := c3\<rparr>) of (res, r') \<Rightarrow>
                             Some (res, store ds r' c))))))"

definition AttrsExistForResource ::
    "('c, fp) ttlcache \<Rightarrow> int \<Rightarrow> fp \<Rightarrow> fp list \<Rightarrow> Signal \<Rightarrow> 'c InMemoryKeyCache \<Rightarrow> (bool list \<times> 'c InMemoryKeyCache) option" where
  "AttrsExistForResource T now resourceFp attrFps ds c =
     (case getCacheAndLimits ds c of
        None \<Rightarrow> None
      | Some (cache, _, _) \<Rightarrow>
          (case ttlGet T now resourceFp (ttl cache) of
             (None, c1) \<Rightarrow> Some (map (\<lambda>_. False) attrFps, store ds (cache\<lparr>ttl := c1\<rparr>) c)
           | (Some p, c1) \<Rightarrow> Some (map (\<lambda>a. a \<in> set (entries cache ! p)) attrFps, store ds (cache\<lparr>ttl := c1\<rparr>) c)))"

definition ResourcesLimitExceeded :: "('c, fp) ttlcache \<Rightarrow> int \<Rightarrow> Signal \<Rightarrow> 'c InMemoryKeyCache \<Rightarrow> bool option" where
  "ResourcesLimitExceeded T now ds c =
     (case getCacheAndLimits ds c of
        None \<Rightarrow> None
      | Some (cache, _, _) \<Rightarrow> Some (maxTracesResourceFp c \<le> length (ttlKeys T now (ttl cache))))"

text \<open>
  The loop over the keys of the cache of the traces, whatever the signal. The \<open>n\<close>-th item is fetched at
  the time \<open>clock n\<close>, and may have expired since the keys were listed.
\<close>

fun total_loop :: "('c, fp) ttlcache \<Rightarrow> (nat \<Rightarrow> int) \<Rightarrow> nat \<Rightarrow> fp list \<Rightarrow> nat \<Rightarrow> 'c resources \<Rightarrow> (nat \<times> 'c resources) option" where
  "total_loop T clock n [] acc r = Some (acc, r)"
| "total_loop T clock n (k # ks) acc r =
     (case ttlGet T (clock n) k (ttl r) of
        (None, c1) \<Rightarrow> None
      | (Some p, c1) \<Rightarrow> total_loop T clock (Suc n) ks (acc + length (entries r ! p)) (r\<lparr>ttl := c1\<rparr>))"

definition TotalCardinalityLimitExceeded ::
    "('c, fp) ttlcache \<Rightarrow> int \<Rightarrow> (nat \<Rightarrow> int) \<Rightarrow> Signal \<Rightarrow> 'c InMemoryKeyCache \<Rightarrow> (bool \<times> 'c InMemoryKeyCache) option" where
  "TotalCardinalityLimitExceeded T now clock ds c =
     (case total_loop T clock 0 (ttlKeys T now (ttl (tracesCache c))) 0 (tracesCache c) of
        None \<Rightarrow> None
      | Some (acc, r) \<Rightarrow> Some (maxTracesCardinalityPerResource c \<le> acc, c\<lparr>tracesCache := r\<rparr>))"

definition CardinalityLimitExceeded ::
    "('c, fp) ttlcache \<Rightarrow> int \<Rightarrow> fp \<Rightarrow> Signal \<Rightarrow> 'c InMemoryKeyCache \<Rightarrow> (bool \<times> 'c InMemoryKeyCache) option" where
  "CardinalityLimitExceeded T now resourceFp ds c =
     (case getCacheAndLimits ds c of
        None \<Rightarrow> None
      | Some (cache, _, _) \<Rightarrow>
          (case ttlGet T now resourceFp (ttl cache) of
             (None, c1) \<Rightarrow> Some (False, store ds (cache\<lparr>ttl := c1\<rparr>) c)
           | (Some p, c1) \<Rightarrow> Some (maxTracesCardinalityPerResource c \<le> length (entries cache ! p),
                                store ds (cache\<lparr>ttl := c1\<rparr>) c)))"

fun CardinalityLimitExceededMulti ::
    "('c, fp) ttlcache \<Rightarrow> int \<Rightarrow> fp list \<Rightarrow> Signal \<Rightarrow> 'c InMemoryKeyCache \<Rightarrow> (bool list \<times> 'c InMemoryKeyCache) option" where
  "CardinalityLimitExceededMulti T now [] ds c = Some ([], c)"
| "CardinalityLimitExceededMulti T now (f # fs) ds c =
     (case CardinalityLimitExceeded T now f ds c of
        None \<Rightarrow> None
      | Some (b, c1) \<Rightarrow> map_option (\<lambda>(bs, c2). (b # bs, c2)) (CardinalityLimitExceededMulti T now fs ds c1))"

section \<open>What the cache promises\<close>

text \<open>
  A history of the cache: it is created, time passes, and attributes are added. The other operations
  only look items up, which changes at most the bookkeeping of the package.
\<close>

inductive history :: "('c, fp) ttlcache \<Rightarrow> InMemoryKeyCacheOptions \<Rightarrow> int \<Rightarrow> 'c InMemoryKeyCache \<Rightarrow> bool"
  for T :: "('c, fp) ttlcache" and opts :: InMemoryKeyCacheOptions where
  created: "history T opts t (NewInMemoryKeyCache T opts)"
| passes: "history T opts t c \<Longrightarrow> t \<le> t' \<Longrightarrow> history T opts t' c"
| added: "history T opts t c \<Longrightarrow> AddAttrsToResource T t f as ds c = Some (res, c') \<Longrightarrow> history T opts t c'"
| asked: "history T opts t c \<Longrightarrow> AttrsExistForResource T t f as ds c = Some (bs, c') \<Longrightarrow> history T opts t c'"
| limited: "history T opts t c \<Longrightarrow> CardinalityLimitExceeded T t f ds c = Some (b, c') \<Longrightarrow> history T opts t c'"

locale key_cache = ttl_provider T live for T :: "('c, fp) ttlcache" and live :: "int \<Rightarrow> 'c \<Rightarrow> (fp \<rightharpoonup> nat)"
begin

definition resources_ok :: "int \<Rightarrow> nat \<Rightarrow> nat \<Rightarrow> 'c resources \<Rightarrow> bool" where
  "resources_ok t maxR maxA r \<longleftrightarrow> length (ttlKeys T t (ttl r)) \<le> maxR \<and> inj_on (live t (ttl r)) (dom (live t (ttl r))) \<and>
     (\<forall>k p. live t (ttl r) k = Some p \<longrightarrow> p < length (entries r) \<and> distinct (entries r ! p) \<and> length (entries r ! p) \<le> maxA)"

lemma length_keys: "length (ttlKeys T t c) = card (dom (live t c))"
  using keys [of t c] by (metis distinct_card)

lemma finite_live: "finite (dom (live t c))"
  using keys [of t c] by (metis List.finite_set)

lemma resources_ok_cong:
  "live t c' = live t (ttl r) \<Longrightarrow> resources_ok t maxR maxA (r\<lparr>ttl := c'\<rparr>) \<longleftrightarrow> resources_ok t maxR maxA r"
  by (simp add: resources_ok_def length_keys)

lemma resources_ok_later:
  assumes "resources_ok t maxR maxA r" and "t \<le> t'"
  shows "resources_ok t' maxR maxA r"
proof -
  have same: "live t' (ttl r) k = live t (ttl r) k" if "k \<in> dom (live t' (ttl r))" for k
    using that later [OF assms(2)] by fastforce
  then have d: "dom (live t' (ttl r)) \<subseteq> dom (live t (ttl r))" by fastforce
  have "inj_on (live t (ttl r)) (dom (live t' (ttl r)))"
    using assms(1) d unfolding resources_ok_def by (blast intro: inj_on_subset)
  then have "inj_on (live t' (ttl r)) (dom (live t' (ttl r)))"
    by (subst inj_on_cong [OF same])
  moreover have "length (ttlKeys T t' (ttl r)) \<le> maxR"
    using assms(1) card_mono [OF finite_live d] unfolding resources_ok_def length_keys by linarith
  ultimately show ?thesis using assms(1) later [OF assms(2)] unfolding resources_ok_def by blast
qed

lemma resources_ok_new: "resources_ok t maxR maxA \<lparr>ttl = ttlNew T, entries = []\<rparr>"
  by (simp add: resources_ok_def length_keys new)

lemma fold_insert_distinct: "distinct xs \<Longrightarrow> distinct (fold List.insert as xs)"
  by (induction as arbitrary: xs) simp_all

lemma fold_insert_set: "set (fold List.insert as xs) = set as \<union> set xs"
  by (induction as arbitrary: xs) auto

lemma fold_insert_length: "length (fold List.insert as xs) \<le> length xs + length as"
proof (induction as arbitrary: xs)
  case (Cons a as)
  have "length (List.insert a xs) \<le> Suc (length xs)" by (simp add: List.insert_def)
  with Cons [of "List.insert a xs"] show ?case by simp
qed simp

lemma add_attrs_ok:
  assumes "resources_ok t maxR maxA r" and "live t (ttl r) k = Some p" and "add_attrs f as ds maxA p r = (res, r')"
  shows "resources_ok t maxR maxA r'"
proof (cases "maxA < length (entries r ! p) + length as")
  case True
  then show ?thesis using assms by (simp add: add_attrs_def)
next
  case False
  have "length (fold List.insert as (entries r ! p)) \<le> maxA" using fold_insert_length [of as "entries r ! p"] False by linarith
  moreover have "r' = r\<lparr>entries := (entries r)[p := fold List.insert as (entries r ! p)]\<rparr>"
    using assms(3) False by (simp add: add_attrs_def)
  ultimately show ?thesis
    using assms(1,2) unfolding resources_ok_def by (auto simp: nth_list_update fold_insert_distinct)
qed

lemma set_ok:
  assumes "resources_ok t maxR maxA r" and "live t (ttl r) k = None" and "length (ttlKeys T t (ttl r)) < maxR"
  shows "resources_ok t maxR maxA (r\<lparr>ttl := ttlSet T t k (length (entries r)) (ttl r), entries := entries r @ [[]]\<rparr>)"
proof -
  have "card (insert k (dom (live t (ttl r)))) \<le> maxR"
    using assms(2,3) finite_live by (simp add: length_keys card_insert_if)
  moreover have "inj_on ((live t (ttl r))(k \<mapsto> length (entries r))) (insert k (dom (live t (ttl r))))"
    using assms(1,2) unfolding resources_ok_def inj_on_def by (auto simp: domIff) blast+
  ultimately show ?thesis
    using assms(1) unfolding resources_ok_def length_keys
    by (auto simp: set_eq nth_append less_Suc_eq split: if_splits)
qed

text \<open>The attributes the cache knows for a resource.\<close>

definition attrs_of :: "int \<Rightarrow> 'c resources \<Rightarrow> fp \<Rightarrow> fp set" where
  "attrs_of t r f = (case live t (ttl r) f of None \<Rightarrow> {} | Some p \<Rightarrow> set (entries r ! p))"

lemma attrs_of_cong: "live t c' = live t (ttl r) \<Longrightarrow> attrs_of t (r\<lparr>ttl := c'\<rparr>) f = attrs_of t r f"
  by (simp add: attrs_of_def split: option.splits)

lemma add_attrs_effect:
  assumes "resources_ok t maxR maxA r" and "live t (ttl r) f = Some p" and "add_attrs f as ds maxA p r = (res, r')"
  shows "attrs_of t r' g = (if g = f \<and> res = Inr () then set as \<union> attrs_of t r f else attrs_of t r g)"
proof (cases "maxA < length (entries r ! p) + length as")
  case True
  then show ?thesis using assms by (auto simp: add_attrs_def)
next
  case False
  then have r': "r' = r\<lparr>entries := (entries r)[p := fold List.insert as (entries r ! p)]\<rparr>" "res = Inr ()"
    using assms(3) by (auto simp: add_attrs_def)
  have "p < length (entries r)" using assms(1,2) by (auto simp: resources_ok_def)
  moreover have "q \<noteq> p" if "live t (ttl r) g = Some q" "g \<noteq> f" for q
    using assms(1,2) that unfolding resources_ok_def inj_on_def by (metis domI)
  ultimately show ?thesis using r' assms(2)
    by (cases "live t (ttl r) g") (auto simp: attrs_of_def fold_insert_set)
qed

lemma set_effect:
  assumes "resources_ok t maxR maxA r" and "live t (ttl r) k = None"
  shows "attrs_of t (r\<lparr>ttl := ttlSet T t k (length (entries r)) (ttl r), entries := entries r @ [[]]\<rparr>) g = attrs_of t r g"
proof -
  have "p < length (entries r)" if "live t (ttl r) g = Some p" for p using assms(1) that by (auto simp: resources_ok_def)
  then show ?thesis using assms(2)
    by (cases "live t (ttl r) g") (auto simp: attrs_of_def set_eq nth_append)
qed

lemma AddAttrs_frame:
  assumes "AddAttrsToResource T t f as ds c = Some (res, c')"
  obtains cache maxR maxA r where "getCacheAndLimits ds c = Some (cache, maxR, maxA)" and "c' = store ds r c"
    and "resources_ok t maxR maxA cache \<longrightarrow> resources_ok t maxR maxA r"
    and "resources_ok t maxR maxA cache \<longrightarrow>
      attrs_of t r g = (if g = f \<and> res = Inr () then set as \<union> attrs_of t cache f else attrs_of t cache g)"
proof -
  obtain cache maxR maxA where lim: "getCacheAndLimits ds c = Some (cache, maxR, maxA)"
    using assms by (auto simp: AddAttrsToResource_def split: option.splits)
  obtain x c1 where g: "ttlGet T t f (ttl cache) = (x, c1)" by (cases "ttlGet T t f (ttl cache)")
  have x: "x = live t (ttl cache) f" "live t c1 = live t (ttl cache)" using get [OF g] by auto
  have keep: "resources_ok t maxR maxA (cache\<lparr>ttl := c1\<rparr>) \<longleftrightarrow> resources_ok t maxR maxA cache"
    by (rule resources_ok_cong [OF x(2)])
  have known: "attrs_of t (cache\<lparr>ttl := c1\<rparr>) h = attrs_of t cache h" for h by (rule attrs_of_cong [OF x(2)])
  show ?thesis
  proof (cases x)
    case (Some p)
    obtain r where r: "add_attrs f as ds maxA p (cache\<lparr>ttl := c1\<rparr>) = (res, r)" and c': "c' = store ds r c"
      using assms lim g Some by (auto simp: AddAttrsToResource_def split: prod.splits)
    show ?thesis
      using that [OF lim c'] add_attrs_ok [OF _ _ r, of t maxR f] add_attrs_effect [OF _ _ r, of t maxR g] keep known x Some
      by simp
  next
    case None
    show ?thesis
    proof (cases "maxR \<le> length (ttlKeys T t c1)")
      case True
      then have "c' = store ds (cache\<lparr>ttl := c1\<rparr>) c" "res \<noteq> Inr ()"
        using assms lim g None by (auto simp: AddAttrsToResource_def)
      then show ?thesis using that [OF lim] keep known by simp
    next
      case False
      let ?c2 = "ttlSet T t f (length (entries cache)) c1" and ?r = "cache\<lparr>entries := entries cache @ [[]]\<rparr>"
      obtain y c3 where y: "ttlGet T t f ?c2 = (y, c3)" by (cases "ttlGet T t f ?c2")
      have y': "y = Some (length (entries cache))" "live t c3 = live t ?c2" using get [OF y] set_here by auto
      obtain r where r: "add_attrs f as ds maxA (length (entries cache)) (?r\<lparr>ttl := c3\<rparr>) = (res, r)" and c': "c' = store ds r c"
        using assms lim g None False y y'(1) by (auto simp: AddAttrsToResource_def Let_def split: prod.splits)
      let ?new = "cache\<lparr>ttl := ?c2, entries := entries cache @ [[]]\<rparr>"
      have ok: "resources_ok t maxR maxA (?r\<lparr>ttl := c3\<rparr>)" if "resources_ok t maxR maxA cache"
        using set_ok [of t maxR maxA "cache\<lparr>ttl := c1\<rparr>" f] resources_ok_cong [of t c3 ?new] that keep x None False y'(2) by simp
      have eff: "attrs_of t (?r\<lparr>ttl := c3\<rparr>) h = attrs_of t cache h" if "resources_ok t maxR maxA cache" for h
        using set_effect [of t maxR maxA "cache\<lparr>ttl := c1\<rparr>" f h] attrs_of_cong [of t c3 ?new] that keep known x None y'(2) by simp
      have here: "live t (ttl (?r\<lparr>ttl := c3\<rparr>)) f = Some (length (entries cache))" using y'(2) set_here by simp
      show ?thesis
        using that [OF lim c'] add_attrs_ok [OF ok here r] add_attrs_effect [OF ok here r, of g] eff by simp
    qed
  qed
qed

lemma AttrsExist_known:
  assumes "AttrsExistForResource T t f as ds c = Some (bs, c')"
  obtains cache maxR maxA r where "getCacheAndLimits ds c = Some (cache, maxR, maxA)" and "c' = store ds r c"
    and "resources_ok t maxR maxA r \<longleftrightarrow> resources_ok t maxR maxA cache" and "bs = map (\<lambda>a. a \<in> attrs_of t cache f) as"
proof -
  obtain cache maxR maxA where lim: "getCacheAndLimits ds c = Some (cache, maxR, maxA)"
    using assms by (auto simp: AttrsExistForResource_def split: option.splits)
  obtain x c1 where g: "ttlGet T t f (ttl cache) = (x, c1)" by (cases "ttlGet T t f (ttl cache)")
  have x: "x = live t (ttl cache) f" "live t c1 = live t (ttl cache)" using get [OF g] by auto
  have "c' = store ds (cache\<lparr>ttl := c1\<rparr>) c" "bs = map (\<lambda>a. a \<in> attrs_of t cache f) as"
    using assms lim g x(1) by (auto simp: AttrsExistForResource_def attrs_of_def split: option.splits)
  then show ?thesis using that lim resources_ok_cong [OF x(2)] by blast
qed

lemma CardinalityLimit_frame:
  assumes "CardinalityLimitExceeded T t f ds c = Some (b, c')"
  obtains cache maxR maxA r where "getCacheAndLimits ds c = Some (cache, maxR, maxA)" and "c' = store ds r c"
    and "resources_ok t maxR maxA r \<longleftrightarrow> resources_ok t maxR maxA cache"
proof -
  obtain cache maxR maxA where lim: "getCacheAndLimits ds c = Some (cache, maxR, maxA)"
    using assms by (auto simp: CardinalityLimitExceeded_def split: option.splits)
  obtain x c1 where g: "ttlGet T t f (ttl cache) = (x, c1)" by (cases "ttlGet T t f (ttl cache)")
  have x: "live t c1 = live t (ttl cache)" using get [OF g] by auto
  have "c' = store ds (cache\<lparr>ttl := c1\<rparr>) c"
    using assms lim g by (auto simp: CardinalityLimitExceeded_def split: option.splits)
  then show ?thesis using that lim resources_ok_cong [OF x] by blast
qed

definition cache_ok :: "int \<Rightarrow> 'c InMemoryKeyCache \<Rightarrow> bool" where
  "cache_ok t c \<longleftrightarrow> (\<forall>ds cache maxR maxA. getCacheAndLimits ds c = Some (cache, maxR, maxA) \<longrightarrow> resources_ok t maxR maxA cache)"

lemma cache_ok_store:
  assumes "cache_ok t c" and "getCacheAndLimits ds c = Some (cache, maxR, maxA)" and "resources_ok t maxR maxA r"
  shows "cache_ok t (store ds r c)"
  using assms unfolding cache_ok_def by (auto simp: getCacheAndLimits_store)

lemma history_ok: "history T opts t c \<Longrightarrow> cache_ok t c"
proof (induction rule: history.induct)
  case (created t)
  have "resources_ok t maxR maxA cache" if "getCacheAndLimits ds (NewInMemoryKeyCache T opts) = Some (cache, maxR, maxA)"
    for ds cache maxR maxA
    using that resources_ok_new by (cases ds) (auto simp: NewInMemoryKeyCache_def Let_def)
  then show ?case by (auto simp: cache_ok_def)
next
  case (passes t c t')
  then show ?case using resources_ok_later unfolding cache_ok_def by blast
next
  case (added t c f as ds res c')
  obtain cache maxR maxA r where "getCacheAndLimits ds c = Some (cache, maxR, maxA)" "c' = store ds r c"
    "resources_ok t maxR maxA cache \<longrightarrow> resources_ok t maxR maxA r"
    by (rule AddAttrs_frame [OF added.hyps(2), where g = f]) blast
  with added.IH show ?case using cache_ok_store unfolding cache_ok_def by blast
next
  case (asked t c f as ds bs c')
  obtain cache maxR maxA r where "getCacheAndLimits ds c = Some (cache, maxR, maxA)" "c' = store ds r c"
    "resources_ok t maxR maxA r \<longleftrightarrow> resources_ok t maxR maxA cache"
    by (rule AttrsExist_known [OF asked.hyps(2)]) blast
  with asked.IH show ?case using cache_ok_store unfolding cache_ok_def by blast
next
  case (limited t c f ds b c')
  obtain cache maxR maxA r where "getCacheAndLimits ds c = Some (cache, maxR, maxA)" "c' = store ds r c"
    "resources_ok t maxR maxA r \<longleftrightarrow> resources_ok t maxR maxA cache"
    by (rule CardinalityLimit_frame [OF limited.hyps(2)])
  with limited.IH show ?case using cache_ok_store unfolding cache_ok_def by blast
qed

end

section \<open>A list with times to live\<close>

text \<open>An implementation of the package's contract: a list of items with the time they expire.\<close>

type_synonym 'k ttl_list = "('k \<times> nat \<times> int) list"

definition list_live :: "int \<Rightarrow> 'k ttl_list \<Rightarrow> ('k \<rightharpoonup> nat)" where
  "list_live t c k = (case map_of c k of None \<Rightarrow> None | Some (p, expires) \<Rightarrow> if t < expires then Some p else None)"

definition list_ttl :: "nat \<Rightarrow> ('k ttl_list, 'k) ttlcache" where
  "list_ttl d = \<lparr>ttlNew = [], ttlGet = (\<lambda>t k c. (list_live t c k, c)), ttlSet = (\<lambda>t k p c. (k, p, t + 1 + int d) # c),
     ttlKeys = (\<lambda>t c. filter (\<lambda>k. list_live t c k \<noteq> None) (remdups (map fst c)))\<rparr>"

interpretation list_store: ttl_store "list_ttl d" list_live for d
proof
  fix t :: int and c :: "'k ttl_list"
  have "k \<in> set (map fst c)" if "list_live t c k \<noteq> None" for k
    using that by (force simp: list_live_def split: option.splits dest: map_of_SomeD)
  then show "distinct (ttlKeys (list_ttl d) t c) \<and> set (ttlKeys (list_ttl d) t c) = dom (list_live t c)"
    by (auto simp: list_ttl_def dom_def)
qed (auto simp: list_ttl_def list_live_def split: option.splits if_splits)

interpretation list_cache: key_cache "list_ttl d" list_live for d
  by unfold_locales (auto simp: list_ttl_def list_live_def split: option.splits if_splits)

text \<open>A small cache: one resource of one signal, at most two attributes, and what two additions make of it.\<close>

definition small_options :: InMemoryKeyCacheOptions where
  "small_options = \<lparr>optMaxTracesResourceFp = 1, optMaxMetricsResourceFp = 1, optMaxLogsResourceFp = 2,
     optMaxTracesCardinalityPerResource = 2, optMaxMetricsCardinalityPerResource = 2, optMaxLogsCardinalityPerResource = 2,
     optTracesMaxTotalCardinality = 4, optMetricsMaxTotalCardinality = 4, optLogsMaxTotalCardinality = 4\<rparr>"

definition fresh_cache :: "fp ttl_list InMemoryKeyCache" where
  "fresh_cache = NewInMemoryKeyCache (list_ttl 10) small_options"

definition one_resource :: "Signal \<Rightarrow> fp ttl_list InMemoryKeyCache" where
  "one_resource ds = store ds \<lparr>ttl = [(7, 0, 11)], entries = [[5]]\<rparr> fresh_cache"

lemma first_added: "AddAttrsToResource (list_ttl 10) 0 7 [5] ds fresh_cache =
    (case ds of OtherSignal s \<Rightarrow> None | _ \<Rightarrow> Some (Inr (), one_resource ds))"
  by (cases ds) (simp_all add: AddAttrsToResource_def fresh_cache_def NewInMemoryKeyCache_def small_options_def
      one_resource_def list_ttl_def list_live_def add_attrs_def Let_def)

lemma one_resource_history: "ds \<in> {SignalTraces, SignalMetrics, SignalLogs} \<Longrightarrow> history (list_ttl 10) small_options 0 (one_resource ds)"
  using history.added [OF history.created, of "list_ttl 10" 0 7 "[5]" ds small_options "Inr ()" "one_resource ds"] first_added [of ds]
  by (auto simp: fresh_cache_def)

lemmas small_cache = one_resource_def fresh_cache_def NewInMemoryKeyCache_def small_options_def list_ttl_def list_live_def Let_def

section \<open>Properties\<close>

text \<open>
  C25. Whatever is added and however time passes, the cache of a signal never holds more resources than
  the limit of the signal, and no resource has more fingerprints of attributes than the limit of the
  signal, each at most once.
\<close>

theorem key_cache_bounded:
  assumes "key_cache T live" and "history T opts t c" and "getCacheAndLimits ds c = Some (cache, maxR, maxA)"
  shows "length (ttlKeys T t (ttl cache)) \<le> maxR \<and>
    (\<forall>k p. live t (ttl cache) k = Some p \<longrightarrow> distinct (entries cache ! p) \<and> length (entries cache ! p) \<le> maxA)"
proof -
  have "key_cache.cache_ok T live t c" by (rule key_cache.history_ok [OF assms(1,2)])
  then have "key_cache.resources_ok T live t maxR maxA cache"
    using assms(3) by (auto simp: key_cache.cache_ok_def [OF assms(1)])
  then show ?thesis by (auto simp: key_cache.resources_ok_def [OF assms(1)])
qed

theorem key_cache_bounded_witness:
  "length (ttlKeys (list_ttl 10) 0 (ttl (tracesCache (one_resource SignalTraces)))) \<le> 1 \<and>
    list_live 0 (ttl (tracesCache (one_resource SignalTraces))) 7 = Some 0 \<and>
    distinct (entries (tracesCache (one_resource SignalTraces)) ! 0) \<and>
    length (entries (tracesCache (one_resource SignalTraces)) ! 0) \<le> 2"
proof -
  have "list_live 0 (ttl (tracesCache (one_resource SignalTraces))) 7 = Some 0" by (simp add: small_cache)
  then show ?thesis
    using key_cache_bounded [OF list_cache.key_cache_axioms one_resource_history, of SignalTraces SignalTraces
        "tracesCache (one_resource SignalTraces)" 1 2]
    by (auto simp: small_cache)
qed

text \<open>
  C26. The cache answers what was added: after fingerprints have been added to a resource without an
  error, exactly they and the ones that existed before exist, for this resource and unchanged for all
  others; an addition that is refused adds nothing.
\<close>

theorem added_attrs_exist:
  assumes "key_cache T live" and "history T opts t c" and "AddAttrsToResource T t f as ds c = Some (res, c')"
    and "AttrsExistForResource T t g bs ds c = Some (xs, c1)" and "AttrsExistForResource T t g bs ds c' = Some (ys, c2)"
  shows "ys = map (\<lambda>(b, x). x \<or> (g = f \<and> res = Inr () \<and> b \<in> set as)) (zip bs xs)"
proof -
  have ok: "key_cache.cache_ok T live t c" by (rule key_cache.history_ok [OF assms(1,2)])
  let ?attrs = "key_cache.attrs_of live"
  obtain cache maxR maxA r where lim: "getCacheAndLimits ds c = Some (cache, maxR, maxA)" and c': "c' = store ds r c"
    and "key_cache.resources_ok T live t maxR maxA cache \<longrightarrow>
      ?attrs t r g = (if g = f \<and> res = Inr () then set as \<union> ?attrs t cache f else ?attrs t cache g)"
    by (rule key_cache.AddAttrs_frame [OF assms(1,3), where g = g]) blast
  then have eff: "?attrs t r g = (if g = f \<and> res = Inr () then set as \<union> ?attrs t cache f else ?attrs t cache g)"
    using ok by (auto simp: key_cache.cache_ok_def [OF assms(1)])
  have "xs = map (\<lambda>a. a \<in> ?attrs t cache g) bs"
    by (rule key_cache.AttrsExist_known [OF assms(1,4)]) (use lim in simp)
  moreover have "ys = map (\<lambda>a. a \<in> ?attrs t r g) bs"
    by (rule key_cache.AttrsExist_known [OF assms(1,5)]) (use lim c' in \<open>auto simp: getCacheAndLimits_store\<close>)
  ultimately show ?thesis using eff by (auto simp: zip_map2 zip_same_conv_map)
qed

theorem added_attrs_exist_witness:
  "\<exists>c' c1 c2.
    AddAttrsToResource (list_ttl 10) 0 7 [6] SignalLogs (one_resource SignalLogs) = Some (Inr (), c') \<and>
    AttrsExistForResource (list_ttl 10) 0 7 [6, 5, 4] SignalLogs (one_resource SignalLogs) = Some ([False, True, False], c1) \<and>
    AttrsExistForResource (list_ttl 10) 0 7 [6, 5, 4] SignalLogs c' =
      Some (map (\<lambda>(b, x). x \<or> ((7::fp) = 7 \<and> Inr () = (Inr () :: unit result) \<and> b \<in> set [6])) (zip [6, 5, 4::fp] [False, True, False]), c2)"
proof -
  let ?c = "one_resource SignalLogs"
  obtain c' where c': "AddAttrsToResource (list_ttl 10) 0 7 [6] SignalLogs ?c = Some (Inr (), c')"
    by (simp add: AddAttrsToResource_def add_attrs_def small_cache)
  obtain c1 where c1: "AttrsExistForResource (list_ttl 10) 0 7 [6, 5, 4] SignalLogs ?c = Some ([False, True, False], c1)"
    by (simp add: AttrsExistForResource_def small_cache)
  obtain ys c2 where c2: "AttrsExistForResource (list_ttl 10) 0 7 [6, 5, 4] SignalLogs c' = Some (ys, c2)"
    by (cases "AttrsExistForResource (list_ttl 10) 0 7 [6, 5, 4] SignalLogs c'")
       (auto simp: AttrsExistForResource_def list_ttl_def split: option.splits)
  show ?thesis
    using c' c1 c2 added_attrs_exist [OF list_cache.key_cache_axioms one_resource_history c' c1 c2] by auto
qed

text \<open>
  The limits of the traces are used for every signal: with a limit of one resource for the traces
  and two for the logs, a cache of logs that holds one resource, and of which a second one could be
  added, is reported as full; and the check of the cardinality of the logs counts the traces.
\<close>

theorem logs_limited_by_traces:
  "ResourcesLimitExceeded (list_ttl 10) 0 SignalLogs (one_resource SignalLogs) = Some True \<and>
   map_option fst (AddAttrsToResource (list_ttl 10) 0 8 [5] SignalLogs (one_resource SignalLogs)) = Some (Inr ()) \<and>
   map_option fst (TotalCardinalityLimitExceeded (list_ttl 10) 0 (\<lambda>_. 0) SignalLogs (one_resource SignalLogs)) = Some False"
  by (simp add: ResourcesLimitExceeded_def AddAttrsToResource_def add_attrs_def TotalCardinalityLimitExceeded_def small_cache)

text \<open>
  A resource that expires after the keys were listed and before it is fetched makes the check of the
  total cardinality dereference a nil pointer.
\<close>

theorem expired_key_panics:
  "TotalCardinalityLimitExceeded (list_ttl 10) 10 (\<lambda>_. 11) SignalTraces (one_resource SignalTraces) = None"
  by (simp add: TotalCardinalityLimitExceeded_def small_cache)

end
