(* ===== verification/ValueTracker.thy ===== *)
theory ValueTracker
  imports MetadataCache SpanCache
begin

text \<open>
  The tracker of distinct values of the metadata exporter (exporter/metadataexporter/vt.go): for each
  key an LRU cache of the values seen, held in a cache with times to live and a capacity. Both are
  third-party packages. The LRU caches are the list \<open>valueCaches\<close>, to which the items of the other
  cache point.
\<close>

record ('c, 'q) ValueTracker =
  vtTtl :: 'c
  valueCaches :: "'q list"
  maxValuesPerKey :: int

definition NewValueTracker :: "('c, string) ttlcache \<Rightarrow> int \<Rightarrow> ('c, 'q) ValueTracker" where
  "NewValueTracker T maxValues = \<lparr>vtTtl = ttlNew T, valueCaches = [], maxValuesPerKey = maxValues\<rparr>"

text \<open>\<open>lru.New\<close> of a size that is not positive answers an error.\<close>

definition AddValue ::
    "('c, string) ttlcache \<Rightarrow> ('q, 'v, unit) lru \<Rightarrow> int \<Rightarrow> string \<Rightarrow> 'v \<Rightarrow> ('c, 'q) ValueTracker \<Rightarrow> ('c, 'q) ValueTracker" where
  "AddValue T L now key v vt =
     (case ttlGet T now key (vtTtl vt) of
        (Some p, c) \<Rightarrow>
          vt\<lparr>vtTtl := c, valueCaches := (valueCaches vt)[p := snd (lruAdd L v () (valueCaches vt ! p))]\<rparr>
      | (None, c) \<Rightarrow>
          (if maxValuesPerKey vt \<le> 0 then vt\<lparr>vtTtl := c\<rparr>
           else vt\<lparr>vtTtl := ttlSet T now key (length (valueCaches vt)) c,
                   valueCaches := valueCaches vt @ [snd (lruAdd L v () (lruNew L (nat (maxValuesPerKey vt))))]\<rparr>))"

definition GetUniqueValueCount ::
    "('c, string) ttlcache \<Rightarrow> ('q, 'v, unit) lru \<Rightarrow> int \<Rightarrow> string \<Rightarrow> ('c, 'q) ValueTracker \<Rightarrow> nat \<times> ('c, 'q) ValueTracker" where
  "GetUniqueValueCount T L now key vt =
     (case ttlGet T now key (vtTtl vt) of
        (Some p, c) \<Rightarrow> (lruLen L (valueCaches vt ! p), vt\<lparr>vtTtl := c\<rparr>)
      | (None, c) \<Rightarrow> (0, vt\<lparr>vtTtl := c\<rparr>))"

section \<open>Its contract\<close>

text \<open>
  A tracker is sound at a time when every item that has not expired points to an LRU cache whose size is
  the limit of the tracker.
\<close>

locale tracker = tracked: ttl_store T live + seen: lru_provider L content valid
  for T :: "('c, string) ttlcache" and live :: "int \<Rightarrow> 'c \<Rightarrow> (string \<rightharpoonup> nat)"
    and L :: "('q, 'v, unit) lru" and content :: "'q \<Rightarrow> ('v \<rightharpoonup> unit)" and valid :: "nat \<Rightarrow> 'q \<Rightarrow> bool"
begin

definition vt_ok :: "int \<Rightarrow> int \<Rightarrow> ('c, 'q) ValueTracker \<Rightarrow> bool" where
  "vt_ok t n vt \<longleftrightarrow> maxValuesPerKey vt = n \<and>
     (\<forall>k p. live t (vtTtl vt) k = Some p \<longrightarrow> 0 < n \<and> p < length (valueCaches vt) \<and> valid (nat n) (valueCaches vt ! p))"

lemma vt_ok_new: "vt_ok t n (NewValueTracker T n)"
  by (simp add: vt_ok_def NewValueTracker_def tracked.new)

lemma vt_ok_later: "vt_ok t n vt \<Longrightarrow> t \<le> t' \<Longrightarrow> vt_ok t' n vt"
  unfolding vt_ok_def using tracked.later by blast

lemma add_valid: "valid n q \<Longrightarrow> valid n (snd (lruAdd L v w q))"
proof -
  assume "valid n q"
  moreover obtain e q' where "lruAdd L v w q = (e, q')" by (cases "lruAdd L v w q")
  ultimately show ?thesis using seen.add_room [of n q v w q'] seen.add_evict [of n q v w _ _ q']
    by (cases e) (auto simp del: prod.collapse)
qed

lemma AddValue_ok:
  assumes "vt_ok t n vt"
  shows "vt_ok t n (AddValue T L t k v vt)"
proof -
  obtain x c where g: "ttlGet T t k (vtTtl vt) = (x, c)" by (cases "ttlGet T t k (vtTtl vt)")
  have x: "x = live t (vtTtl vt) k" "live t c = live t (vtTtl vt)" using tracked.get [OF g] by auto
  show ?thesis
  proof (cases x)
    case (Some p)
    then have "live t (vtTtl vt) k = Some p" using x by simp
    with assms have "valid (nat n) (valueCaches vt ! p)" by (auto simp: vt_ok_def)
    then have "valid (nat n) ((valueCaches vt)[p := snd (lruAdd L v () (valueCaches vt ! p))] ! q)"
      if "valid (nat n) (valueCaches vt ! q)" for q
      using that add_valid by (cases "q = p"; cases "p < length (valueCaches vt)") (simp_all add: list_update_beyond)
    moreover have "AddValue T L t k v vt =
        vt\<lparr>vtTtl := c, valueCaches := (valueCaches vt)[p := snd (lruAdd L v () (valueCaches vt ! p))]\<rparr>"
      using g Some by (simp add: AddValue_def)
    ultimately show ?thesis using assms x(2) by (auto simp: vt_ok_def)
  next
    case None
    have "valid (nat n) (snd (lruAdd L v () (lruNew L (nat n))))" if "0 < n"
      using add_valid seen.new [of "nat n"] that by auto
    moreover have "q = length (valueCaches vt) \<or> live t (vtTtl vt) k' = Some q"
      if "live t (ttlSet T t k (length (valueCaches vt)) c) k' = Some q" for k' q
      using that tracked.set_here [of t k "length (valueCaches vt)" c] tracked.set_there [of k' k t _ c q] x by (cases "k' = k") auto
    moreover have "AddValue T L t k v vt = (if n \<le> 0 then vt\<lparr>vtTtl := c\<rparr>
        else vt\<lparr>vtTtl := ttlSet T t k (length (valueCaches vt)) c,
          valueCaches := valueCaches vt @ [snd (lruAdd L v () (lruNew L (nat n)))]\<rparr>)"
      using assms g None by (simp add: AddValue_def vt_ok_def)
    ultimately show ?thesis using assms x(2)
      by (fastforce simp: vt_ok_def nth_append less_Suc_eq)
  qed
qed

lemma GetUniqueValueCount_ok:
  assumes "vt_ok t n vt" and "GetUniqueValueCount T L t k vt = (cnt, vt')"
  shows "vt_ok t n vt' \<and> int cnt \<le> max 0 n"
proof -
  obtain x c where g: "ttlGet T t k (vtTtl vt) = (x, c)" by (cases "ttlGet T t k (vtTtl vt)")
  have x: "x = live t (vtTtl vt) k" "live t c = live t (vtTtl vt)" using tracked.get [OF g] by auto
  have "vt' = vt\<lparr>vtTtl := c\<rparr>" using assms(2) g by (auto simp: GetUniqueValueCount_def split: option.splits)
  moreover have "int cnt \<le> max 0 n"
  proof (cases x)
    case (Some p)
    then have "valid (nat n) (valueCaches vt ! p)" "0 < n" using assms(1) x by (auto simp: vt_ok_def)
    then have "lruLen L (valueCaches vt ! p) \<le> nat n" using seen.len [of "nat n"] seen.size [of "nat n"] by metis
    then show ?thesis using assms(2) g Some \<open>0 < n\<close> by (auto simp: GetUniqueValueCount_def)
  qed (use assms(2) g in \<open>auto simp: GetUniqueValueCount_def\<close>)
  ultimately show ?thesis using assms(1) x by (simp add: vt_ok_def)
qed

end

interpretation list_tracker: tracker "list_ttl d" list_live list_lru list_content list_valid for d
  by unfold_locales

end
