(* ===== verification/MetadataExporter.thy ===== *)
theory MetadataExporter
  imports ValueTracker Fingerprint
begin

text \<open>
  The metadata exporter (exporter/metadataexporter/exporter.go, attribute_writer.go and utils/flatten):
  it flattens the attributes of resources, spans, data points and log records, leaves out keys with too
  many values, and writes each pair of a resource and a set of attributes once.

  A map that the source ranges over is ranged over in an order that the language does not fix: the record
  \<open>runtime\<close> holds one such order for each kind of map. The cache of fingerprints is an interface of the
  source, the record \<open>KeyCache\<close>; its contract is the locale \<open>attr_cache\<close>, which the cache in memory
  fulfils. The calls of one batch are at one time. A panic is \<open>None\<close>.
\<close>

section \<open>Flattening (utils/flatten)\<close>

text \<open>A value of a type that the source has no case for is its text under the verb \<open>%v\<close>.\<close>

datatype raw =
    RawString string
  | RawInt int
  | RawFloat rat
  | RawBool bool
  | RawMap "(string \<times> raw) list"
  | RawSlice "raw list"
  | RawOther string

datatype flat = FlatString string | FlatFloat rat | FlatBool bool

definition float64_of_int :: "int \<Rightarrow> rat" where
  "float64_of_int i = round_prec 53 (of_int i)"

definition full_key :: "string \<Rightarrow> string \<Rightarrow> string" where
  "full_key prefix key = (if prefix \<noteq> [] then prefix @ ''.'' @ key else key)"

text \<open>
  \<open>data\<close> lists a map in the order in which it is ranged over. \<open>flatten_value\<close> is the body of the loop:
  the entries it puts into the result. An element of a slice is flattened as a map of one entry, whose
  key is the index.
\<close>

fun FlattenJSON :: "(string \<times> raw) list \<Rightarrow> string \<Rightarrow> (string \<rightharpoonup> flat)"
  and flatten_value :: "raw \<Rightarrow> string \<Rightarrow> (string \<rightharpoonup> flat)"
  and flatten_slice :: "raw list \<Rightarrow> nat \<Rightarrow> string \<Rightarrow> (string \<rightharpoonup> flat)" where
  "FlattenJSON [] prefix = Map.empty"
| "FlattenJSON ((key, v) # data) prefix = flatten_value v (full_key prefix key) ++ FlattenJSON data prefix"
| "flatten_value (RawMap m) fullKey = FlattenJSON m fullKey"
| "flatten_value (RawSlice xs) fullKey = flatten_slice xs 0 fullKey"
| "flatten_value (RawInt i) fullKey = [fullKey \<mapsto> FlatFloat (float64_of_int i)]"
| "flatten_value (RawFloat f) fullKey = [fullKey \<mapsto> FlatFloat f]"
| "flatten_value (RawBool b) fullKey = [fullKey \<mapsto> FlatBool b]"
| "flatten_value (RawString s) fullKey = [fullKey \<mapsto> FlatString s]"
| "flatten_value (RawOther s) fullKey = [fullKey \<mapsto> FlatString s]"
| "flatten_slice [] i fullKey = Map.empty"
| "flatten_slice (x # xs) i fullKey = flatten_value x (full_key fullKey (show_nat i)) ++ flatten_slice xs (Suc i) fullKey"

section \<open>State\<close>

record LimitsConfig =
  MaxKeys :: nat
  MaxStringDistinctValues :: nat
  MaxStringLength :: nat

record Config =
  Enabled :: bool
  MaxDistinctTraces :: LimitsConfig
  MaxDistinctLogs :: LimitsConfig
  MaxDistinctMetrics :: LimitsConfig
  AlwaysIncludeTraces :: "string list"
  AlwaysIncludeLogs :: "string list"
  AlwaysIncludeMetrics :: "string list"

record tagValueCountFromDB =
  tagDataType :: string
  stringTagValueCount :: nat
  numberValueCount :: nat

record ('c, 'q, 'k) metadataExporter =
  cfg :: Config
  keyCache :: 'k
  tracesTracker :: "('c, 'q) ValueTracker"
  metricsTracker :: "('c, 'q) ValueTracker"
  logsTracker :: "('c, 'q) ValueTracker"
  logTagValueCountFromDB :: "string \<rightharpoonup> tagValueCountFromDB"
  tracesTagValueCountFromDB :: "string \<rightharpoonup> tagValueCountFromDB"
  metricsTagValueCountFromDB :: "string \<rightharpoonup> tagValueCountFromDB"

text \<open>\<open>int(n)\<close> of an unsigned number wraps.\<close>

definition newMetadataExporter :: "('c, string) ttlcache \<Rightarrow> Config \<Rightarrow> 'k \<Rightarrow> ('c, 'q, 'k) metadataExporter" where
  "newMetadataExporter T c k =
     \<lparr>cfg = c, keyCache = k,
      tracesTracker = NewValueTracker T (i64 (int (MaxStringDistinctValues (MaxDistinctTraces c)))),
      metricsTracker = NewValueTracker T (i64 (int (MaxStringDistinctValues (MaxDistinctMetrics c)))),
      logsTracker = NewValueTracker T (i64 (int (MaxStringDistinctValues (MaxDistinctLogs c)))),
      logTagValueCountFromDB = Map.empty, tracesTagValueCountFromDB = Map.empty, metricsTagValueCountFromDB = Map.empty\<rparr>"

text \<open>
  A row of the query is a result of scanning it. A failed query changes nothing; a row that cannot be
  scanned is left out; a later row of a key replaces an earlier one.
\<close>

type_synonym tag_row = "(string \<times> string \<times> nat \<times> nat) result"

definition tag_counts :: "tag_row list \<Rightarrow> (string \<rightharpoonup> tagValueCountFromDB)" where
  "tag_counts rows = foldl (\<lambda>m row. (case row of Inl err \<Rightarrow> m
     | Inr (tagKey, dataType, stringCount, numberCount) \<Rightarrow>
         m(tagKey \<mapsto> \<lparr>tagDataType = dataType, stringTagValueCount = stringCount, numberValueCount = numberCount\<rparr>)))
     Map.empty rows"

fun storeTagValues :: "Signal \<Rightarrow> (string \<rightharpoonup> tagValueCountFromDB) \<Rightarrow> ('c, 'q, 'k) metadataExporter \<Rightarrow> ('c, 'q, 'k) metadataExporter" where
  "storeTagValues SignalTraces m e = e\<lparr>tracesTagValueCountFromDB := m\<rparr>"
| "storeTagValues SignalLogs m e = e\<lparr>logTagValueCountFromDB := m\<rparr>"
| "storeTagValues _ m e = e"

definition updateTagValueCountFromDB ::
    "tag_row list result \<Rightarrow> Signal \<Rightarrow> ('c, 'q, 'k) metadataExporter \<Rightarrow> ('c, 'q, 'k) metadataExporter" where
  "updateTagValueCountFromDB query ds e =
     (case query of Inl err \<Rightarrow> e | Inr rows \<Rightarrow> storeTagValues ds (tag_counts rows) e)"

section \<open>Keys that are left out\<close>

fun tag_values :: "Signal \<Rightarrow> ('c, 'q, 'k) metadataExporter \<Rightarrow> (string \<rightharpoonup> tagValueCountFromDB) option" where
  "tag_values SignalTraces e = Some (tracesTagValueCountFromDB e)"
| "tag_values SignalLogs e = Some (logTagValueCountFromDB e)"
| "tag_values SignalMetrics e = Some (metricsTagValueCountFromDB e)"
| "tag_values (OtherSignal s) e = None"

fun always_include :: "Signal \<Rightarrow> Config \<Rightarrow> string list" where
  "always_include SignalTraces c = AlwaysIncludeTraces c"
| "always_include SignalLogs c = AlwaysIncludeLogs c"
| "always_include SignalMetrics c = AlwaysIncludeMetrics c"
| "always_include (OtherSignal s) c = []"

fun limits :: "Signal \<Rightarrow> Config \<Rightarrow> LimitsConfig" where
  "limits SignalTraces c = MaxDistinctTraces c"
| "limits SignalLogs c = MaxDistinctLogs c"
| "limits SignalMetrics c = MaxDistinctMetrics c"
| "limits (OtherSignal s) c = \<lparr>MaxKeys = 0, MaxStringDistinctValues = 0, MaxStringLength = 0\<rparr>"

definition getType :: "string \<Rightarrow> Signal \<Rightarrow> ('c, 'q, 'k) metadataExporter \<Rightarrow> string" where
  "getType key ds e =
     (case tag_values ds e of
        None \<Rightarrow> ''string''
      | Some m \<Rightarrow> (case m key of None \<Rightarrow> ''string'' | Some val \<Rightarrow> tagDataType val))"

definition shouldSkipAttributeFromDB :: "string \<Rightarrow> Signal \<Rightarrow> ('c, 'q, 'k) metadataExporter \<Rightarrow> bool" where
  "shouldSkipAttributeFromDB key ds e =
     (case tag_values ds e of
        None \<Rightarrow> False
      | Some m \<Rightarrow>
          (if key \<in> set (always_include ds (cfg e)) then False
           else (case m key of
               None \<Rightarrow> False
             | Some val \<Rightarrow>
                 (if tagDataType val = ''string'' then MaxStringDistinctValues (limits ds (cfg e)) < stringTagValueCount val
                  else if tagDataType val = ''float64'' \<or> tagDataType val = ''int64'' then True
                  else False))))"

definition makeUVTKey :: "string \<Rightarrow> Signal \<Rightarrow> string" where
  "makeUVTKey key ds = key @ '':'' @ Signal_String ds"

fun with_tracker ::
    "Signal \<Rightarrow> (('c, 'q) ValueTracker \<Rightarrow> 'a \<times> ('c, 'q) ValueTracker) \<Rightarrow> 'a \<Rightarrow> ('c, 'q, 'k) metadataExporter \<Rightarrow> 'a \<times> ('c, 'q, 'k) metadataExporter" where
  "with_tracker SignalTraces f d e = (case f (tracesTracker e) of (x, vt) \<Rightarrow> (x, e\<lparr>tracesTracker := vt\<rparr>))"
| "with_tracker SignalMetrics f d e = (case f (metricsTracker e) of (x, vt) \<Rightarrow> (x, e\<lparr>metricsTracker := vt\<rparr>))"
| "with_tracker SignalLogs f d e = (case f (logsTracker e) of (x, vt) \<Rightarrow> (x, e\<lparr>logsTracker := vt\<rparr>))"
| "with_tracker (OtherSignal s) f d e = (d, e)"

definition addToUVT ::
    "('c, string) ttlcache \<Rightarrow> ('q, flat, unit) lru \<Rightarrow> int \<Rightarrow> string \<Rightarrow> flat \<Rightarrow> Signal \<Rightarrow> ('c, 'q, 'k) metadataExporter \<Rightarrow> ('c, 'q, 'k) metadataExporter" where
  "addToUVT T L now key v ds e = snd (with_tracker ds (\<lambda>vt. ((), AddValue T L now key v vt)) () e)"

definition shouldSkipAttributeUVT ::
    "('c, string) ttlcache \<Rightarrow> ('q, flat, unit) lru \<Rightarrow> int \<Rightarrow> string \<Rightarrow> Signal \<Rightarrow> ('c, 'q, 'k) metadataExporter \<Rightarrow> bool \<times> ('c, 'q, 'k) metadataExporter" where
  "shouldSkipAttributeUVT T L now key ds e =
     (if tag_values ds e = None \<or> key \<in> set (always_include ds (cfg e)) then (False, e)
      else
        (case with_tracker ds (GetUniqueValueCount T L now (makeUVTKey key ds)) 0 e of (cnt, e') \<Rightarrow>
           (let typ = getType key ds e; maxValues = MaxStringDistinctValues (limits ds (cfg e)) in
            (typ = ''string'' \<and> 0 < maxValues \<and> i64 (int maxValues) < int cnt \<or> typ = ''float64'', e'))))"

fun filter_loop ::
    "('c, string) ttlcache \<Rightarrow> ('q, flat, unit) lru \<Rightarrow> int \<Rightarrow> Signal \<Rightarrow> string list \<Rightarrow> (string \<rightharpoonup> flat) \<Rightarrow> ('c, 'q, 'k) metadataExporter
     \<Rightarrow> (string \<rightharpoonup> flat) \<times> ('c, 'q, 'k) metadataExporter" where
  "filter_loop T L now ds [] attrs e = (attrs, e)"
| "filter_loop T L now ds (k # ks) attrs e =
     (case shouldSkipAttributeUVT T L now k ds e of
        (True, e1) \<Rightarrow> filter_loop T L now ds ks (attrs(k := None)) e1
      | (False, e1) \<Rightarrow>
          (case attrs k of
             Some (FlatString s) \<Rightarrow>
               (if s = [] \<or> i64 (int (MaxStringLength (limits ds (cfg e)))) < int (length s)
                then filter_loop T L now ds ks attrs e1
                else filter_loop T L now ds ks attrs (addToUVT T L now (makeUVTKey k ds) (FlatString s) ds e1))
           | _ \<Rightarrow> filter_loop T L now ds ks attrs e1))"

definition filterAttrs ::
    "('c, string) ttlcache \<Rightarrow> ('q, flat, unit) lru \<Rightarrow> int \<Rightarrow> Signal \<Rightarrow> string list \<Rightarrow> (string \<rightharpoonup> flat) \<Rightarrow> ('c, 'q, 'k) metadataExporter
     \<Rightarrow> (string \<rightharpoonup> flat) \<times> ('c, 'q, 'k) metadataExporter" where
  "filterAttrs T L now ds order attrs e = filter_loop T L now ds order attrs e"

section \<open>Rows\<close>

record 'k KeyCache =
  kcAddAttrs :: "int \<Rightarrow> fp \<Rightarrow> fp list \<Rightarrow> Signal \<Rightarrow> 'k \<Rightarrow> (unit result \<times> 'k) option"
  kcAttrsExist :: "int \<Rightarrow> fp \<Rightarrow> fp list \<Rightarrow> Signal \<Rightarrow> 'k \<Rightarrow> (bool list result \<times> 'k) option"
  kcResourcesLimit :: "int \<Rightarrow> Signal \<Rightarrow> 'k \<Rightarrow> (bool \<times> 'k) option"
  kcCardinalityLimits :: "int \<Rightarrow> fp list \<Rightarrow> Signal \<Rightarrow> 'k \<Rightarrow> (bool list \<times> 'k) option"
  kcTotalLimit :: "int \<Rightarrow> Signal \<Rightarrow> 'k \<Rightarrow> (bool \<times> 'k) option"

text \<open>The cache in memory: no answer of it but the one to an addition is an error.\<close>

definition InMemory :: "('c, fp) ttlcache \<Rightarrow> 'c InMemoryKeyCache KeyCache" where
  "InMemory T = \<lparr>kcAddAttrs = AddAttrsToResource T,
     kcAttrsExist = (\<lambda>now f as ds c. map_option (\<lambda>(bs, c'). (Inr bs, c')) (AttrsExistForResource T now f as ds c)),
     kcResourcesLimit = (\<lambda>now ds c. map_option (\<lambda>b. (b, c)) (ResourcesLimitExceeded T now ds c)),
     kcCardinalityLimits = CardinalityLimitExceededMulti T,
     kcTotalLimit = (\<lambda>now ds c. TotalCardinalityLimitExceeded T now (\<lambda>_. now) ds c)\<rparr>"

record batchRecord =
  resourceFingerprint :: fp
  fprint :: fp
  rAttrs :: "string \<rightharpoonup> flat"
  attrs :: "string \<rightharpoonup> flat"
  roundedSixHrsUnixMilli :: int

text \<open>The arguments of \<open>stmt.Append\<close>.\<close>

record row =
  rowRounded :: int
  rowSignal :: Signal
  rowResource :: fp
  rowFprint :: fp
  rowRAttrs :: "string \<rightharpoonup> string"
  rowAttrs :: "string \<rightharpoonup> string"

definition flattenJSONToStringMap :: "(string \<rightharpoonup> flat) \<Rightarrow> (string \<rightharpoonup> string)" where
  "flattenJSONToStringMap data k = (case data k of Some (FlatString s) \<Rightarrow> Some s | _ \<Rightarrow> None)"

definition mk_row :: "Signal \<Rightarrow> batchRecord \<Rightarrow> row" where
  "mk_row ds nr = \<lparr>rowRounded = roundedSixHrsUnixMilli nr, rowSignal = ds, rowResource = resourceFingerprint nr,
     rowFprint = fprint nr, rowRAttrs = flattenJSONToStringMap (rAttrs nr), rowAttrs = flattenJSONToStringMap (attrs nr)\<rparr>"

text \<open>
  The orders in which the language ranges over maps: the two levels of \<open>seen\<close>, the groups of a batch, a
  map of attributes and a map that is flattened.
\<close>

record runtime =
  seenOrder :: "fp set \<Rightarrow> fp list"
  groupOrder :: "fp set \<Rightarrow> fp list"
  attrOrder :: "string set \<Rightarrow> string list"
  rawOrder :: "(string \<times> raw) list \<Rightarrow> (string \<times> raw) list"

definition seen_map :: "batchRecord list \<Rightarrow> (fp \<rightharpoonup> fp \<rightharpoonup> batchRecord)" where
  "seen_map records = foldl (\<lambda>seen rec.
     (let inner = (case seen (resourceFingerprint rec) of None \<Rightarrow> Map.empty | Some m \<Rightarrow> m)
      in seen(resourceFingerprint rec \<mapsto> inner(fprint rec \<mapsto> rec)))) Map.empty records"

definition removeDuplicateRecords :: "runtime \<Rightarrow> batchRecord list \<Rightarrow> batchRecord list" where
  "removeDuplicateRecords R records = (let seen = seen_map records in
     concat (map (\<lambda>r. case seen r of None \<Rightarrow> []
       | Some m \<Rightarrow> List.map_filter m (seenOrder R (dom m))) (seenOrder R (dom seen))))"

text \<open>
  \<open>recordGroups\<close> and \<open>indexByFp\<close> together: the records of a resource, in the order of the batch; and
  the list \<open>resourceFps\<close>, each resource where it occurs first.
\<close>

definition record_group :: "batchRecord list \<Rightarrow> fp \<Rightarrow> batchRecord list" where
  "record_group records f = filter (\<lambda>rec. resourceFingerprint rec = f) records"

definition resource_fps :: "batchRecord list \<Rightarrow> fp list" where
  "resource_fps records = foldl (\<lambda>fps rec. if resourceFingerprint rec \<in> set fps then fps else fps @ [resourceFingerprint rec]) [] records"

definition write_group ::
    "'k KeyCache \<Rightarrow> int \<Rightarrow> Signal \<Rightarrow> batchRecord list \<Rightarrow> fp \<Rightarrow> row list \<times> nat \<times> 'k \<Rightarrow> (row list \<times> nat \<times> 'k) option" where
  "write_group K now ds members resourceFp = (\<lambda>(rows, totalWrites, c).
     (case kcAttrsExist K now resourceFp (map fprint members) ds c of
        None \<Rightarrow> None
      | Some (Inl err, c1) \<Rightarrow> Some (rows, totalWrites, c1)
      | Some (Inr existence, c1) \<Rightarrow>
          (let newRecords = map fst (filter (\<lambda>(rec, exist). \<not> exist) (zip members existence));
               newAttrFps = map fprint newRecords;
               rows' = rows @ map (mk_row ds) newRecords;
               totalWrites' = totalWrites + length newRecords
           in if newAttrFps = [] then Some (rows', totalWrites', c1)
              else map_option (\<lambda>(res, c2). (rows', totalWrites', c2)) (kcAddAttrs K now resourceFp newAttrFps ds c1))))"

fun write_groups ::
    "'k KeyCache \<Rightarrow> int \<Rightarrow> Signal \<Rightarrow> batchRecord list \<Rightarrow> (fp \<Rightarrow> bool) \<Rightarrow> fp list \<Rightarrow> row list \<times> nat \<times> 'k \<Rightarrow> (row list \<times> nat \<times> 'k) option" where
  "write_groups K now ds records exceeds [] s = Some s"
| "write_groups K now ds records exceeds (f # fs) s =
     (if exceeds f then write_groups K now ds records exceeds fs s
      else (case write_group K now ds (record_group records f) f s of
          None \<Rightarrow> None
        | Some s' \<Rightarrow> write_groups K now ds records exceeds fs s'))"

text \<open>The map \<open>exceedsCardinality\<close>: a resource without an answer is not in it.\<close>

definition exceeds_of :: "fp list \<Rightarrow> bool list \<Rightarrow> fp \<Rightarrow> bool" where
  "exceeds_of fps exceeds f = (map_of (rev (zip fps exceeds)) f = Some True)"

definition writeToStatementBatch ::
    "'k KeyCache \<Rightarrow> runtime \<Rightarrow> (row list \<Rightarrow> unit result) \<Rightarrow> int \<Rightarrow> batchRecord list \<Rightarrow> Signal \<Rightarrow> 'k
     \<Rightarrow> ((nat \<times> unit result) \<times> row list \<times> 'k) option" where
  "writeToStatementBatch K R send now recs ds c =
     (let records = removeDuplicateRecords R recs in
      case kcResourcesLimit K now ds c of
        None \<Rightarrow> None
      | Some (True, c1) \<Rightarrow> Some ((0, Inr ()), [], c1)
      | Some (False, c1) \<Rightarrow>
          (case kcTotalLimit K now ds c1 of
             None \<Rightarrow> None
           | Some (True, c2) \<Rightarrow> Some ((0, Inr ()), [], c2)
           | Some (False, c2) \<Rightarrow>
               (let resourceFps = resource_fps records in
                case kcCardinalityLimits K now resourceFps ds c2 of
                  None \<Rightarrow> None
                | Some (exceeds, c3) \<Rightarrow>
                    (case write_groups K now ds records (exceeds_of resourceFps exceeds)
                        (groupOrder R (set resourceFps)) ([], 0, c3) of
                       None \<Rightarrow> None
                     | Some (rows, totalWrites, c4) \<Rightarrow> Some ((totalWrites, send rows), rows, c4)))))"

section \<open>Batches\<close>

definition sixHoursInMs :: int where "sixHoursInMs = 21600000"

definition rounded :: "int \<Rightarrow> int" where
  "rounded unixMilli = go_div unixMilli sixHoursInMs * sixHoursInMs"

text \<open>\<open>ts.AsTime().UnixMilli()\<close>: the nanoseconds as a signed number, rounded down.\<close>

definition unix_milli :: "64 word \<Rightarrow> int" where
  "unix_milli ts = sint ts div 1000000"

record pspan =
  spanName :: string
  spanAttrs :: "(string \<times> raw) list"
  startTimestamp :: "64 word"

record 'i presource =
  resAttrs :: "(string \<times> raw) list"
  items :: "'i list"

text \<open>The map of the attributes that are kept; the loop that the closure of \<open>Range\<close> is the body of.\<close>

definition kept_attrs :: "(string \<Rightarrow> bool) \<Rightarrow> (string \<times> raw) list \<Rightarrow> (string \<times> raw) list" where
  "kept_attrs skip xs = foldl (\<lambda>m (k, v). if skip k then m else AList.update k v m) [] xs"

type_synonym ('c, 'q, 'k) pushing = "batchRecord list \<times> ('c, 'q, 'k) metadataExporter"

definition flattened :: "runtime \<Rightarrow> (string \<times> raw) list \<Rightarrow> (string \<rightharpoonup> flat)" where
  "flattened R m = FlattenJSON (rawOrder R m) []"

definition fingerprint :: "runtime \<Rightarrow> (flat \<Rightarrow> string) \<Rightarrow> (string \<rightharpoonup> flat) \<Rightarrow> fp" where
  "fingerprint R printed m = FingerprintHash printed (attrOrder R (dom m)) m"

definition span_record ::
    "('c, string) ttlcache \<Rightarrow> ('q, flat, unit) lru \<Rightarrow> runtime \<Rightarrow> (flat \<Rightarrow> string) \<Rightarrow> int \<Rightarrow> (string \<rightharpoonup> flat) \<Rightarrow> pspan
     \<Rightarrow> ('c, 'q, 'k) pushing \<Rightarrow> ('c, 'q, 'k) pushing" where
  "span_record T L R printed now flattenedResourceAttrs sp = (\<lambda>(records, e).
     (let sAttrs = AList.update ''name'' (RawString (spanName sp))
                     (kept_attrs (\<lambda>k. shouldSkipAttributeFromDB k SignalTraces e) (spanAttrs sp));
          flattenedSpanAttrs = flattened R sAttrs
      in case filterAttrs T L now SignalTraces (attrOrder R (dom flattenedSpanAttrs)) flattenedSpanAttrs e of
           (filteredSpanAttrs, e') \<Rightarrow>
             (records @ [\<lparr>resourceFingerprint = fingerprint R printed flattenedResourceAttrs,
                fprint = fingerprint R printed filteredSpanAttrs, rAttrs = flattenedResourceAttrs, attrs = filteredSpanAttrs,
                roundedSixHrsUnixMilli = rounded (unix_milli (startTimestamp sp))\<rparr>], e')))"

definition resource_spans ::
    "('c, string) ttlcache \<Rightarrow> ('q, flat, unit) lru \<Rightarrow> runtime \<Rightarrow> (flat \<Rightarrow> string) \<Rightarrow> int \<Rightarrow> pspan list presource
     \<Rightarrow> ('c, 'q, 'k) pushing \<Rightarrow> ('c, 'q, 'k) pushing" where
  "resource_spans T L R printed now rs = (\<lambda>(records, e).
     (let flattenedResourceAttrs = flattened R (kept_attrs (\<lambda>k. shouldSkipAttributeFromDB k SignalTraces e) (resAttrs rs))
      in fold (\<lambda>spans. fold (span_record T L R printed now flattenedResourceAttrs) spans) (items rs) (records, e)))"

text \<open>
  A batch that cannot be prepared and one that cannot be sent are only logged. What is sent is the
  second component of the answer.
\<close>

definition push_records ::
    "'k KeyCache \<Rightarrow> runtime \<Rightarrow> (row list \<Rightarrow> unit result) \<Rightarrow> int \<Rightarrow> Signal \<Rightarrow> ('c, 'q, 'k) pushing \<Rightarrow> (unit result \<times> row list \<times> ('c, 'q, 'k) metadataExporter) option" where
  "push_records K R send now ds = (\<lambda>(records, e).
     (case writeToStatementBatch K R send now records ds (keyCache e) of
        None \<Rightarrow> None
      | Some (_, rows, c) \<Rightarrow> Some (Inr (), rows, e\<lparr>keyCache := c\<rparr>)))"

definition PushTraces ::
    "('c, string) ttlcache \<Rightarrow> ('q, flat, unit) lru \<Rightarrow> 'k KeyCache \<Rightarrow> runtime \<Rightarrow> (flat \<Rightarrow> string) \<Rightarrow> unit result \<Rightarrow> (row list \<Rightarrow> unit result)
     \<Rightarrow> int \<Rightarrow> pspan list presource list \<Rightarrow> ('c, 'q, 'k) metadataExporter
     \<Rightarrow> (unit result \<times> row list \<times> ('c, 'q, 'k) metadataExporter) option" where
  "PushTraces T L K R printed prepare send now td e =
     (if \<not> Enabled (cfg e) then Some (Inr (), [], e)
      else (case prepare of
          Inl err \<Rightarrow> Some (Inr (), [], e)
        | Inr _ \<Rightarrow> push_records K R send now SignalTraces (fold (resource_spans T L R printed now) td ([], e))))"

record plogRecord =
  logAttrs :: "(string \<times> raw) list"
  logTimestamp :: "64 word"

definition log_record ::
    "('c, string) ttlcache \<Rightarrow> ('q, flat, unit) lru \<Rightarrow> runtime \<Rightarrow> (flat \<Rightarrow> string) \<Rightarrow> int \<Rightarrow> (string \<rightharpoonup> flat) \<Rightarrow> plogRecord
     \<Rightarrow> ('c, 'q, 'k) pushing \<Rightarrow> ('c, 'q, 'k) pushing" where
  "log_record T L R printed now flattenedResourceAttrs lr = (\<lambda>(records, e).
     (let flattenedLogRecordAttrs = flattened R (kept_attrs (\<lambda>k. shouldSkipAttributeFromDB k SignalLogs e) (logAttrs lr))
      in case filterAttrs T L now SignalLogs (attrOrder R (dom flattenedLogRecordAttrs)) flattenedLogRecordAttrs e of
           (filteredLogRecordAttrs, e') \<Rightarrow>
             (records @ [\<lparr>resourceFingerprint = fingerprint R printed flattenedResourceAttrs,
                fprint = fingerprint R printed filteredLogRecordAttrs, rAttrs = flattenedResourceAttrs,
                attrs = filteredLogRecordAttrs, roundedSixHrsUnixMilli = rounded (unix_milli (logTimestamp lr))\<rparr>], e')))"

definition resource_logs ::
    "('c, string) ttlcache \<Rightarrow> ('q, flat, unit) lru \<Rightarrow> runtime \<Rightarrow> (flat \<Rightarrow> string) \<Rightarrow> int \<Rightarrow> plogRecord list presource
     \<Rightarrow> ('c, 'q, 'k) pushing \<Rightarrow> ('c, 'q, 'k) pushing" where
  "resource_logs T L R printed now rl = (\<lambda>(records, e).
     (let flattenedResourceAttrs = flattened R (kept_attrs (\<lambda>k. shouldSkipAttributeFromDB k SignalLogs e) (resAttrs rl))
      in fold (\<lambda>logs. fold (log_record T L R printed now flattenedResourceAttrs) logs) (items rl) (records, e)))"

definition attributeMetadataWriter_Process ::
    "('c, string) ttlcache \<Rightarrow> ('q, flat, unit) lru \<Rightarrow> 'k KeyCache \<Rightarrow> runtime \<Rightarrow> (flat \<Rightarrow> string) \<Rightarrow> unit result \<Rightarrow> (row list \<Rightarrow> unit result)
     \<Rightarrow> int \<Rightarrow> plogRecord list presource list \<Rightarrow> ('c, 'q, 'k) metadataExporter
     \<Rightarrow> (unit result \<times> row list \<times> ('c, 'q, 'k) metadataExporter) option" where
  "attributeMetadataWriter_Process T L K R printed prepare send now ld e =
     (case prepare of
        Inl err \<Rightarrow> Some (Inr (), [], e)
      | Inr _ \<Rightarrow> push_records K R send now SignalLogs (fold (resource_logs T L R printed now) ld ([], e)))"

text \<open>The attributes of the data points of a metric; a metric without data has none.\<close>

datatype pmetric =
    MetricTypeEmpty
  | MetricTypeGauge "(string \<times> raw) list list"
  | MetricTypeSum "(string \<times> raw) list list"
  | MetricTypeHistogram "(string \<times> raw) list list"
  | MetricTypeExponentialHistogram "(string \<times> raw) list list"
  | MetricTypeSummary "(string \<times> raw) list list"

fun point_attrs :: "pmetric \<Rightarrow> (string \<times> raw) list list" where
  "point_attrs MetricTypeEmpty = []"
| "point_attrs (MetricTypeGauge dps) = dps"
| "point_attrs (MetricTypeSum dps) = dps"
| "point_attrs (MetricTypeHistogram dps) = dps"
| "point_attrs (MetricTypeExponentialHistogram dps) = dps"
| "point_attrs (MetricTypeSummary dps) = dps"

text \<open>\<open>clockMs\<close> is the time in milliseconds, which is read for each data point.\<close>

definition point_record ::
    "runtime \<Rightarrow> (flat \<Rightarrow> string) \<Rightarrow> int \<Rightarrow> (string \<rightharpoonup> flat) \<Rightarrow> (string \<times> raw) list \<Rightarrow> batchRecord" where
  "point_record R printed clockMs flattenedResourceAttrs pAttr =
     (let flattenedMetricAttrs = flattened R (kept_attrs (\<lambda>_. False) pAttr)
      in \<lparr>resourceFingerprint = fingerprint R printed flattenedResourceAttrs, fprint = fingerprint R printed flattenedMetricAttrs,
          rAttrs = flattenedResourceAttrs, attrs = flattenedMetricAttrs, roundedSixHrsUnixMilli = rounded clockMs\<rparr>)"

definition resource_metrics :: "runtime \<Rightarrow> (flat \<Rightarrow> string) \<Rightarrow> int \<Rightarrow> pmetric list presource \<Rightarrow> batchRecord list" where
  "resource_metrics R printed clockMs rm =
     (let flattenedResourceAttrs = flattened R (kept_attrs (\<lambda>_. False) (resAttrs rm))
      in concat (map (\<lambda>metrics. concat (map (\<lambda>m. map (point_record R printed clockMs flattenedResourceAttrs) (point_attrs m)) metrics)) (items rm)))"

definition PushMetrics ::
    "'k KeyCache \<Rightarrow> runtime \<Rightarrow> (flat \<Rightarrow> string) \<Rightarrow> unit result \<Rightarrow> (row list \<Rightarrow> unit result)
     \<Rightarrow> int \<Rightarrow> int \<Rightarrow> pmetric list presource list \<Rightarrow> ('c, 'q, 'k) metadataExporter
     \<Rightarrow> (unit result \<times> row list \<times> ('c, 'q, 'k) metadataExporter) option" where
  "PushMetrics K R printed prepare send now clockMs md e =
     (if \<not> Enabled (cfg e) then Some (Inr (), [], e)
      else (case prepare of
          Inl err \<Rightarrow> Some (Inr (), [], e)
        | Inr _ \<Rightarrow> push_records K R send now SignalMetrics (concat (map (resource_metrics R printed clockMs) md), e)))"

end
