(* ===== verification/MetadataFacts.thy ===== *)
theory MetadataFacts
  imports MetadataExporter
begin

text \<open>
  Results on the metadata exporter: the contract of the cache of fingerprints and that the cache in memory
  fulfils it; which rows a batch writes; and which keys the tracker of values leaves out.
\<close>

section \<open>The contract of the cache of fingerprints\<close>

text \<open>\<open>known t c ds f\<close> are the fingerprints of attributes the cache has for the resource \<open>f\<close>.\<close>

locale attr_cache =
  fixes K :: "'k KeyCache" and ok :: "int \<Rightarrow> 'k \<Rightarrow> bool" and known :: "int \<Rightarrow> 'k \<Rightarrow> Signal \<Rightarrow> fp \<Rightarrow> fp set"
  assumes exist: "ok t c \<Longrightarrow> kcAttrsExist K t f as ds c = Some (r, c') \<Longrightarrow>
      r = Inr (map (\<lambda>a. a \<in> known t c ds f) as) \<and> ok t c' \<and> known t c' = known t c"
    and add: "ok t c \<Longrightarrow> kcAddAttrs K t f as ds c = Some (res, c') \<Longrightarrow> ok t c' \<and>
      known t c' ds' g = (if ds' = ds \<and> g = f \<and> res = Inr () then set as \<union> known t c ds f else known t c ds' g)"
    and resources: "ok t c \<Longrightarrow> kcResourcesLimit K t ds c = Some (b, c') \<Longrightarrow> ok t c' \<and> known t c' = known t c"
    and cardinalities: "ok t c \<Longrightarrow> kcCardinalityLimits K t fs ds c = Some (bs, c') \<Longrightarrow>
      length bs = length fs \<and> ok t c' \<and> known t c' = known t c"
    and totals: "ok t c \<Longrightarrow> kcTotalLimit K t ds c = Some (b, c') \<Longrightarrow> ok t c' \<and> known t c' = known t c"
begin

definition new_rows :: "int \<Rightarrow> 'k \<Rightarrow> Signal \<Rightarrow> batchRecord list \<Rightarrow> fp \<Rightarrow> row list" where
  "new_rows t c ds records f = map (mk_row ds) (filter (\<lambda>rec. fprint rec \<notin> known t c ds f) (record_group records f))"

lemma write_group_rows:
  assumes "ok t c" and "write_group K t ds (record_group records f) f (rows, n, c) = Some (rows', n', c')"
  shows "rows' = rows @ new_rows t c ds records f \<and> n' = n + length (new_rows t c ds records f) \<and> ok t c' \<and>
    (\<forall>ds' g. known t c ds' g \<subseteq> known t c' ds' g \<and>
       known t c' ds' g \<subseteq> known t c ds' g \<union> {rowFprint x |x. x \<in> set (new_rows t c ds records f) \<and> ds' = ds \<and> g = f})"
proof -
  let ?grp = "record_group records f"
  obtain r c1 where e: "kcAttrsExist K t f (map fprint ?grp) ds c = Some (r, c1)"
    using assms(2) by (auto simp: write_group_def split: option.splits sum.splits)
  have e': "r = Inr (map (\<lambda>a. a \<in> known t c ds f) (map fprint ?grp))" "ok t c1" "known t c1 = known t c"
    using exist [OF assms(1) e] by auto
  let ?new = "filter (\<lambda>rec. fprint rec \<notin> known t c ds f) ?grp"
  have new: "map fst (filter (\<lambda>(rec, exist). \<not> exist) (zip ?grp (map (\<lambda>a. a \<in> known t c ds f) (map fprint ?grp)))) = ?new"
    by (induction ?grp) (auto simp: zip_map2 zip_same_conv_map filter_map comp_def)
  have w: "write_group K t ds ?grp f (rows, n, c) =
      (if map fprint ?new = [] then Some (rows @ map (mk_row ds) ?new, n + length ?new, c1)
       else map_option (\<lambda>(res, c2). (rows @ map (mk_row ds) ?new, n + length ?new, c2)) (kcAddAttrs K t f (map fprint ?new) ds c1))"
    unfolding write_group_def by (simp only: e e'(1) prod.case option.case sum.case Let_def new)
  have fps: "fprint ` set ?new = {rowFprint x |x. x \<in> set (new_rows t c ds records f)}"
    by (force simp: new_rows_def mk_row_def)
  show ?thesis
  proof (cases "?new = []")
    case True
    then show ?thesis using assms(2) w e'(2,3) by (simp add: new_rows_def del: filter_empty_conv)
  next
    case False
    obtain res c2 where a: "kcAddAttrs K t f (map fprint ?new) ds c1 = Some (res, c2)"
      and r: "rows' = rows @ map (mk_row ds) ?new" "n' = n + length ?new" "c' = c2"
      using assms(2) w False by (auto simp del: filter_empty_conv)
    have "known t c' ds' g \<subseteq> known t c ds' g \<union> {rowFprint x |x. x \<in> set (new_rows t c ds records f) \<and> ds' = ds \<and> g = f}"
      "known t c ds' g \<subseteq> known t c' ds' g" for ds' g
      using add [OF e'(2) a, of ds' g] e'(3) r(3) fps by (auto split: if_splits)
    then show ?thesis using add [OF e'(2) a] r by (simp add: new_rows_def)
  qed
qed

lemma new_rows_cong: "known t c' ds f = known t c ds f \<Longrightarrow> new_rows t c' ds records f = new_rows t c ds records f"
  by (simp add: new_rows_def)

lemma rowResource_new_rows: "x \<in> set (new_rows t c ds records f) \<Longrightarrow> rowResource x = f"
  by (auto simp: new_rows_def record_group_def mk_row_def)

lemma write_groups_rows:
  assumes "write_groups K t ds records ex fs (rows, n, c) = Some (rows', n', c')" and "ok t c" and "distinct fs"
  shows "\<exists>new. new = concat (map (new_rows t c ds records) (filter (\<lambda>f. \<not> ex f) fs)) \<and> rows' = rows @ new \<and> n' = n + length new \<and> ok t c' \<and>
    (\<forall>ds' g. known t c ds' g \<subseteq> known t c' ds' g \<and>
       known t c' ds' g \<subseteq> known t c ds' g \<union> {rowFprint x |x. x \<in> set new \<and> ds' = ds \<and> g = rowResource x})"
  using assms
proof (induction fs arbitrary: rows n c)
  case (Cons f fs)
  show ?case
  proof (cases "ex f")
    case True
    then show ?thesis using Cons by auto
  next
    case False
    obtain rows1 n1 c1 where w: "write_group K t ds (record_group records f) f (rows, n, c) = Some (rows1, n1, c1)"
      and w': "write_groups K t ds records ex fs (rows1, n1, c1) = Some (rows', n', c')"
      using Cons.prems(1) False by (auto split: option.splits)
    have g: "rows1 = rows @ new_rows t c ds records f" "n1 = n + length (new_rows t c ds records f)" "ok t c1"
      "known t c ds' g \<subseteq> known t c1 ds' g"
      "known t c1 ds' g \<subseteq> known t c ds' g \<union> {rowFprint x |x. x \<in> set (new_rows t c ds records f) \<and> ds' = ds \<and> g = f}" for ds' g
      using write_group_rows [OF Cons.prems(2) w] by blast+
    have "known t c1 ds h = known t c ds h" if "h \<in> set fs" for h
      using g(4,5) [of ds h] Cons.prems(3) that by auto
    then have same: "map (new_rows t c1 ds records) (filter (\<lambda>f. \<not> ex f) fs) = map (new_rows t c ds records) (filter (\<lambda>f. \<not> ex f) fs)"
      by (auto intro: new_rows_cong)
    let ?new = "concat (map (new_rows t c1 ds records) (filter (\<lambda>f. \<not> ex f) fs))"
    have ih: "rows' = rows1 @ ?new" "n' = n1 + length ?new" "ok t c'"
      "known t c1 ds' g \<subseteq> known t c' ds' g"
      "known t c' ds' g \<subseteq> known t c1 ds' g \<union> {rowFprint x |x. x \<in> set ?new \<and> ds' = ds \<and> g = rowResource x}" for ds' g
      using Cons.IH [OF w' g(3)] Cons.prems(3) by auto
    have "known t c' ds' g \<subseteq> known t c ds' g \<union>
        {rowFprint x |x. x \<in> set (new_rows t c ds records f @ ?new) \<and> ds' = ds \<and> g = rowResource x}" for ds' g
    proof
      fix a assume "a \<in> known t c' ds' g"
      then consider "a \<in> known t c1 ds' g" | x where "x \<in> set ?new" "ds' = ds" "g = rowResource x" "a = rowFprint x"
        using ih(5) [of ds' g] by blast
      then show "a \<in> known t c ds' g \<union>
          {rowFprint x |x. x \<in> set (new_rows t c ds records f @ ?new) \<and> ds' = ds \<and> g = rowResource x}"
        by cases (use g(5) [of ds' g] rowResource_new_rows in \<open>auto 4 3\<close>)
    qed
    moreover have "known t c ds' g \<subseteq> known t c' ds' g" for ds' g using g(4) ih(4) by blast
    ultimately show ?thesis using g(1,2) ih(1-3) False same by auto
  qed
qed simp

end

section \<open>The cache in memory keeps the contract\<close>

context key_cache
begin

definition known_attrs :: "int \<Rightarrow> 'c InMemoryKeyCache \<Rightarrow> Signal \<Rightarrow> fp \<Rightarrow> fp set" where
  "known_attrs t c ds f = (case getCacheAndLimits ds c of None \<Rightarrow> {} | Some (cache, _, _) \<Rightarrow> attrs_of t cache f)"

lemma known_store:
  assumes "getCacheAndLimits ds c = Some (cache, maxR, maxA)"
  shows "known_attrs t (store ds r c) ds' f = (if ds' = ds then attrs_of t r f else known_attrs t c ds' f)"
  using assms by (auto simp: known_attrs_def getCacheAndLimits_store split: option.splits)

lemma lookup_frame:
  assumes "cache_ok t c" and "getCacheAndLimits ds c = Some (cache, maxR, maxA)" and "live t c1 = live t (ttl cache)"
  shows "cache_ok t (store ds (cache\<lparr>ttl := c1\<rparr>) c)" and "known_attrs t (store ds (cache\<lparr>ttl := c1\<rparr>) c) = known_attrs t c"
proof -
  have "resources_ok t maxR maxA cache" using assms(1,2) by (auto simp: cache_ok_def)
  then show "cache_ok t (store ds (cache\<lparr>ttl := c1\<rparr>) c)"
    using cache_ok_store [OF assms(1,2)] resources_ok_cong [OF assms(3)] by simp
  show "known_attrs t (store ds (cache\<lparr>ttl := c1\<rparr>) c) = known_attrs t c"
    using assms(2) attrs_of_cong [OF assms(3)] by (auto simp: fun_eq_iff known_store [OF assms(2)]) (auto simp: known_attrs_def)
qed

lemma AttrsExist_law:
  assumes "cache_ok t c" and "AttrsExistForResource T t f as ds c = Some (bs, c')"
  shows "bs = map (\<lambda>a. a \<in> known_attrs t c ds f) as \<and> cache_ok t c' \<and> known_attrs t c' = known_attrs t c"
proof -
  obtain cache maxR maxA where lim: "getCacheAndLimits ds c = Some (cache, maxR, maxA)"
    using assms(2) by (auto simp: AttrsExistForResource_def split: option.splits)
  obtain x c1 where g: "ttlGet T t f (ttl cache) = (x, c1)" by (cases "ttlGet T t f (ttl cache)")
  have x: "x = live t (ttl cache) f" "live t c1 = live t (ttl cache)" using get [OF g] by auto
  have "c' = store ds (cache\<lparr>ttl := c1\<rparr>) c" "bs = map (\<lambda>a. a \<in> known_attrs t c ds f) as"
    using assms(2) lim g x(1) by (auto simp: AttrsExistForResource_def known_attrs_def attrs_of_def split: option.splits)
  then show ?thesis using lookup_frame [OF assms(1) lim x(2)] by simp
qed

lemma CardinalityLimit_law:
  assumes "cache_ok t c" and "CardinalityLimitExceeded T t f ds c = Some (b, c')"
  shows "cache_ok t c' \<and> known_attrs t c' = known_attrs t c"
proof -
  obtain cache maxR maxA where lim: "getCacheAndLimits ds c = Some (cache, maxR, maxA)"
    using assms(2) by (auto simp: CardinalityLimitExceeded_def split: option.splits)
  obtain x c1 where g: "ttlGet T t f (ttl cache) = (x, c1)" by (cases "ttlGet T t f (ttl cache)")
  have x: "live t c1 = live t (ttl cache)" using get [OF g] by auto
  have "c' = store ds (cache\<lparr>ttl := c1\<rparr>) c"
    using assms(2) lim g by (auto simp: CardinalityLimitExceeded_def split: option.splits)
  then show ?thesis using lookup_frame [OF assms(1) lim x] by simp
qed

lemma CardinalityLimits_law:
  "CardinalityLimitExceededMulti T t fs ds c = Some (bs, c') \<Longrightarrow> cache_ok t c \<Longrightarrow>
     length bs = length fs \<and> cache_ok t c' \<and> known_attrs t c' = known_attrs t c"
proof (induction fs arbitrary: c bs)
  case (Cons f fs)
  then obtain b c1 bs1 where "CardinalityLimitExceeded T t f ds c = Some (b, c1)"
    "CardinalityLimitExceededMulti T t fs ds c1 = Some (bs1, c')" "bs = b # bs1"
    by (auto split: option.splits)
  then show ?case using CardinalityLimit_law [OF Cons.prems(2)] Cons.IH by (metis length_Cons)
qed simp

lemma total_loop_frame:
  "total_loop T (\<lambda>_. t) n ks acc r = Some (acc', r') \<Longrightarrow> live t (ttl r') = live t (ttl r) \<and> r' = r\<lparr>ttl := ttl r'\<rparr>"
proof (induction ks arbitrary: n acc r)
  case (Cons k ks)
  obtain x c1 where g: "ttlGet T t k (ttl r) = (x, c1)" by (cases "ttlGet T t k (ttl r)")
  then show ?case using Cons get [OF g] by (fastforce split: option.splits)
qed simp

lemma AddAttrs_law:
  assumes "cache_ok t c" and "AddAttrsToResource T t f as ds c = Some (res, c')"
  shows "cache_ok t c' \<and> known_attrs t c' ds' g =
    (if ds' = ds \<and> g = f \<and> res = Inr () then set as \<union> known_attrs t c ds f else known_attrs t c ds' g)"
proof -
  obtain cache maxR maxA r where lim: "getCacheAndLimits ds c = Some (cache, maxR, maxA)" and c': "c' = store ds r c"
    and ok: "resources_ok t maxR maxA cache \<longrightarrow> resources_ok t maxR maxA r"
    and eff: "resources_ok t maxR maxA cache \<longrightarrow>
      attrs_of t r g = (if g = f \<and> res = Inr () then set as \<union> attrs_of t cache f else attrs_of t cache g)"
    by (rule AddAttrs_frame [OF assms(2), where g = g])
  have "resources_ok t maxR maxA cache" using assms(1) lim by (auto simp: cache_ok_def)
  then show ?thesis using cache_ok_store [OF assms(1) lim] ok eff lim
    by (auto simp: c' known_store [OF lim]) (auto simp: known_attrs_def)
qed

end

sublocale key_cache \<subseteq> attrs: attr_cache "InMemory T" cache_ok known_attrs
proof unfold_locales
  fix t c f as ds r c'
  assume "cache_ok t c" and "kcAttrsExist (InMemory T) t f as ds c = Some (r, c')"
  then show "r = Inr (map (\<lambda>a. a \<in> known_attrs t c ds f) as) \<and> cache_ok t c' \<and> known_attrs t c' = known_attrs t c"
    using AttrsExist_law by (fastforce simp: InMemory_def)
next
  fix t c ds b c'
  assume ok: "cache_ok t c" and "kcTotalLimit (InMemory T) t ds c = Some (b, c')"
  then obtain acc r where r: "total_loop T (\<lambda>_. t) 0 (ttlKeys T t (ttl (tracesCache c))) 0 (tracesCache c) = Some (acc, r)"
    and c': "c' = store SignalTraces r c"
    by (auto simp: InMemory_def TotalCardinalityLimitExceeded_def split: option.splits)
  have "live t (ttl r) = live t (ttl (tracesCache c))" and "r = (tracesCache c)\<lparr>ttl := ttl r\<rparr>" using total_loop_frame [OF r] by auto
  then show "cache_ok t c' \<and> known_attrs t c' = known_attrs t c"
    using lookup_frame [OF ok, of SignalTraces] c' by (metis getCacheAndLimits.simps(1))
next
  fix t c f as ds ds' g res c'
  assume "cache_ok t c" and "kcAddAttrs (InMemory T) t f as ds c = Some (res, c')"
  then show "cache_ok t c' \<and> known_attrs t c' ds' g =
      (if ds' = ds \<and> g = f \<and> res = Inr () then set as \<union> known_attrs t c ds f else known_attrs t c ds' g)"
    by (intro AddAttrs_law) (simp_all add: InMemory_def)
next
  fix t c fs ds bs c'
  assume "cache_ok t c" and "kcCardinalityLimits (InMemory T) t fs ds c = Some (bs, c')"
  then show "length bs = length fs \<and> cache_ok t c' \<and> known_attrs t c' = known_attrs t c"
    by (intro CardinalityLimits_law) (simp_all add: InMemory_def)
next
  fix t c ds b c'
  assume "cache_ok t c" and "kcResourcesLimit (InMemory T) t ds c = Some (b, c')"
  then show "cache_ok t c' \<and> known_attrs t c' = known_attrs t c" by (simp add: InMemory_def)
qed

section \<open>The rows of a batch\<close>

definition fair :: "runtime \<Rightarrow> bool" where
  "fair R \<longleftrightarrow> (\<forall>A. finite A \<longrightarrow> distinct (seenOrder R A) \<and> set (seenOrder R A) = A) \<and>
     (\<forall>A. finite A \<longrightarrow> distinct (groupOrder R A) \<and> set (groupOrder R A) = A) \<and>
     (\<forall>A. finite A \<longrightarrow> distinct (attrOrder R A) \<and> set (attrOrder R A) = A) \<and>
     (\<forall>xs. mset (rawOrder R xs) = mset xs)"

abbreviation pair_of :: "batchRecord \<Rightarrow> fp \<times> fp" where
  "pair_of rec \<equiv> (resourceFingerprint rec, fprint rec)"

definition latest :: "batchRecord list \<Rightarrow> (fp \<times> fp \<rightharpoonup> batchRecord)" where
  "latest recs = map_of (rev (map (\<lambda>rec. (pair_of rec, rec)) recs))"

lemma seen_map_latest:
  "seen_map recs r = (if r \<in> resourceFingerprint ` set recs then Some (\<lambda>f. latest recs (r, f)) else None)"
proof (induction recs rule: rev_induct)
  case (snoc rec recs)
  have none: "(\<lambda>f. latest recs (r, f)) = Map.empty" if "r \<notin> resourceFingerprint ` set recs"
    using that by (auto simp: fun_eq_iff latest_def map_of_eq_None_iff simp flip: rev_map)
  have "seen_map (recs @ [rec]) = (let inner = (case seen_map recs (resourceFingerprint rec) of None \<Rightarrow> Map.empty | Some m \<Rightarrow> m)
      in (seen_map recs)(resourceFingerprint rec \<mapsto> inner(fprint rec \<mapsto> rec)))" by (simp add: seen_map_def)
  moreover have "latest (recs @ [rec]) = (latest recs)(pair_of rec \<mapsto> rec)" by (simp add: latest_def)
  ultimately show ?case using snoc none by (auto simp: Let_def fun_eq_iff)
qed (simp add: seen_map_def)

lemma latest_Some: "latest recs p = Some rec \<Longrightarrow> rec \<in> set recs \<and> p = pair_of rec"
  by (auto simp: latest_def dest: map_of_SomeD)

lemma latest_dom: "dom (latest recs) = pair_of ` set recs"
  by (auto simp: latest_def dom_map_of_conv_image_fst image_image)

lemma distinct_nested:
  "distinct xs \<Longrightarrow> (\<And>x. x \<in> set xs \<Longrightarrow> distinct (g x)) \<Longrightarrow> distinct (concat (map (\<lambda>x. map (Pair x) (g x)) xs))"
  by (induction xs) (auto simp: distinct_map inj_on_def)

lemma map_filter_total: "set xs \<subseteq> dom m \<Longrightarrow> List.map_filter m xs = map (the \<circ> m) xs"
  by (induction xs) (auto simp: List.map_filter_def)

lemma removeDuplicateRecords_latest:
  assumes "fair R"
  shows "distinct (map pair_of (removeDuplicateRecords R recs))"
    and "rec \<in> set (removeDuplicateRecords R recs) \<longleftrightarrow> latest recs (pair_of rec) = Some rec"
proof -
  let ?D = "resourceFingerprint ` set recs" and ?m = "\<lambda>r f. latest recs (r, f)"
  have fin: "finite (dom (?m r))" for r
    by (rule finite_subset [of _ "fprint ` set recs"]) (auto dest: latest_Some)
  have ord: "distinct (seenOrder R ?D)" "set (seenOrder R ?D) = ?D"
    "distinct (seenOrder R (dom (?m r)))" "set (seenOrder R (dom (?m r))) = dom (?m r)" for r
    using assms fin by (auto simp: fair_def)
  have "dom (seen_map recs) = ?D" by (auto simp: seen_map_latest split: if_splits)
  then have U: "removeDuplicateRecords R recs =
      concat (map (\<lambda>r. map (the \<circ> ?m r) (seenOrder R (dom (?m r)))) (seenOrder R ?D))"
    using ord by (auto simp: removeDuplicateRecords_def Let_def seen_map_latest map_filter_total intro!: arg_cong [of _ _ concat])
  have pairs: "pair_of (the (?m r f)) = (r, f)" if "f \<in> dom (?m r)" for r f
    using that by (metis domD latest_Some option.sel)
  have "map pair_of (map (the \<circ> ?m r) (seenOrder R (dom (?m r)))) = map (Pair r) (seenOrder R (dom (?m r)))" for r
    using ord(4) [of r] pairs by (auto simp del: split_paired_All)
  then have "map pair_of (removeDuplicateRecords R recs) =
      concat (map (\<lambda>r. map (Pair r) (seenOrder R (dom (?m r)))) (seenOrder R ?D))"
    unfolding U map_concat map_map by (intro arg_cong [of _ _ concat] map_cong) (simp_all add: comp_def)
  then show "distinct (map pair_of (removeDuplicateRecords R recs))"
    using distinct_nested [OF ord(1), of "\<lambda>r. seenOrder R (dom (?m r))"] ord(3) by simp
  show "rec \<in> set (removeDuplicateRecords R recs) \<longleftrightarrow> latest recs (pair_of rec) = Some rec"
  proof
    assume "rec \<in> set (removeDuplicateRecords R recs)"
    then obtain r f where "f \<in> dom (?m r)" "rec = the (?m r f)" unfolding U using ord(4) by auto
    then show "latest recs (pair_of rec) = Some rec" using pairs [of f r] by auto
  next
    assume l: "latest recs (pair_of rec) = Some rec"
    then have "resourceFingerprint rec \<in> ?D" "fprint rec \<in> dom (?m (resourceFingerprint rec))" using latest_Some [OF l] by auto
    moreover have "rec = (the \<circ> ?m (resourceFingerprint rec)) (fprint rec)" using l by simp
    ultimately have "rec \<in> set (map (the \<circ> ?m (resourceFingerprint rec)) (seenOrder R (dom (?m (resourceFingerprint rec)))))"
      unfolding set_map ord(4) by (rule_tac image_eqI)
    then show "rec \<in> set (removeDuplicateRecords R recs)"
      unfolding U using ord(2) conjunct1 [OF latest_Some [OF l]] by (auto intro!: bexI [of _ rec])
  qed
qed

lemma resource_fps_set: "distinct (resource_fps records) \<and> set (resource_fps records) = resourceFingerprint ` set records"
  by (induction records rule: rev_induct) (auto simp: resource_fps_def)

lemma exceeds_none: "exceeds_of fps (map (\<lambda>_. False) fps) f = False"
  by (auto simp: exceeds_of_def dest!: map_of_SomeD simp: set_zip)

context attr_cache
begin

lemma batch_cases:
  assumes "ok t c" and "fair R" and "writeToStatementBatch K R send t recs ds c = Some ((n, err), rows, c')"
  obtains (full) "n = 0" "rows = []" "known t c' = known t c" "ok t c'"
      "\<And>c1 c2. kcResourcesLimit K t ds c = Some (False, c1) \<Longrightarrow> kcTotalLimit K t ds c1 \<noteq> Some (False, c2)"
  | (written) exceeds c1 c2 c3 where
      "kcResourcesLimit K t ds c = Some (False, c1)" "kcTotalLimit K t ds c1 = Some (False, c2)"
      "kcCardinalityLimits K t (resource_fps (removeDuplicateRecords R recs)) ds c2 = Some (exceeds, c3)"
      "rows = concat (map (new_rows t c ds (removeDuplicateRecords R recs))
         (filter (\<lambda>f. \<not> exceeds_of (resource_fps (removeDuplicateRecords R recs)) exceeds f)
           (groupOrder R (set (resource_fps (removeDuplicateRecords R recs))))))"
      "n = length rows" "err = send rows" "ok t c'"
      "\<And>ds' g. known t c ds' g \<subseteq> known t c' ds' g \<and>
        known t c' ds' g \<subseteq> known t c ds' g \<union> {rowFprint x |x. x \<in> set rows \<and> ds' = ds \<and> g = rowResource x}"
proof -
  let ?U = "removeDuplicateRecords R recs"
  obtain b1 c1 where r: "kcResourcesLimit K t ds c = Some (b1, c1)"
    using assms(3) by (auto simp: writeToStatementBatch_def Let_def split: option.splits)
  note c1 = resources [OF assms(1) r]
  show ?thesis
  proof (cases b1)
    case True
    then show ?thesis using full assms(3) r c1 by (auto simp: writeToStatementBatch_def Let_def)
  next
    case False
    obtain b2 c2 where tot: "kcTotalLimit K t ds c1 = Some (b2, c2)"
      using assms(3) r False by (auto simp: writeToStatementBatch_def Let_def split: option.splits)
    note c2 = totals [OF conjunct1 [OF c1] tot]
    show ?thesis
    proof (cases b2)
      case True
      then have "n = 0" "rows = []" "c' = c2" using assms(3) r tot False by (auto simp: writeToStatementBatch_def Let_def)
      then show ?thesis using r tot False True c1 c2 by (intro full) auto
    next
      case no: False
      obtain exceeds c3 where card: "kcCardinalityLimits K t (resource_fps ?U) ds c2 = Some (exceeds, c3)"
        using assms(3) r tot False no by (auto simp: writeToStatementBatch_def Let_def split: option.splits)
      note c3 = cardinalities [OF conjunct1 [OF c2] card]
      have k3: "known t c3 = known t c" "ok t c3" using c1 c2 c3 by auto
      let ?fs = "groupOrder R (set (resource_fps ?U))" and ?ex = "exceeds_of (resource_fps ?U) exceeds"
      have w: "write_groups K t ds ?U ?ex ?fs ([], 0, c3) = Some (rows, n, c')" and e: "err = send rows"
        using assms(3) r tot False no card by (auto simp: writeToStatementBatch_def Let_def split: option.splits)
      have d: "distinct ?fs" using assms(2) by (simp add: fair_def)
      have same: "new_rows t c3 ds ?U = new_rows t c ds ?U" using k3(1) by (simp add: new_rows_def fun_eq_iff)
      have fin: "rows = concat (map (new_rows t c ds ?U) (filter (\<lambda>f. \<not> ?ex f) ?fs))" "n = length rows" "ok t c'"
        "\<And>ds' g. known t c ds' g \<subseteq> known t c' ds' g \<and>
          known t c' ds' g \<subseteq> known t c ds' g \<union> {rowFprint x |x. x \<in> set rows \<and> ds' = ds \<and> g = rowResource x}"
        using write_groups_rows [OF w k3(2) d] unfolding same k3(1) by auto
      show ?thesis by (rule written [OF _ _ card fin(1,2) e fin(3,4)]) (use r tot False no in simp_all)
    qed
  qed
qed

lemma new_rows_members:
  assumes "fair R"
  shows "x \<in> set (new_rows t c ds (removeDuplicateRecords R recs) f) \<longleftrightarrow>
    (\<exists>rec. x = mk_row ds rec \<and> latest recs (pair_of rec) = Some rec \<and> resourceFingerprint rec = f \<and> fprint rec \<notin> known t c ds f)"
  by (auto simp: new_rows_def record_group_def removeDuplicateRecords_latest(2) [OF assms])

lemma new_rows_distinct:
  assumes "fair R" and "distinct fs"
  shows "distinct (map (\<lambda>x. (rowResource x, rowFprint x)) (concat (map (new_rows t c ds (removeDuplicateRecords R recs)) fs)))"
proof -
  let ?U = "removeDuplicateRecords R recs"
  have "map (\<lambda>x. (rowResource x, rowFprint x)) (new_rows t c ds ?U f) =
      map (Pair f) (map fprint (filter (\<lambda>rec. fprint rec \<notin> known t c ds f) (record_group ?U f)))" for f
    by (auto simp: new_rows_def mk_row_def record_group_def)
  moreover have "distinct (map fprint (filter (\<lambda>rec. fprint rec \<notin> known t c ds f) (record_group ?U f)))" for f
    using removeDuplicateRecords_latest(1) [OF assms(1), of recs] by (auto simp: distinct_map inj_on_def record_group_def)
  ultimately show ?thesis
    using distinct_nested [OF assms(2), of "\<lambda>f. map fprint (filter (\<lambda>rec. fprint rec \<notin> known t c ds f) (record_group ?U f))"]
    unfolding map_concat by (simp add: comp_def)
qed

lemma batch_rows:
  assumes "ok t c" and "fair R"
    and "writeToStatementBatch K R send t recs ds c = Some ((n, err), rows, c')"
  shows "n = length rows \<and> distinct (map (\<lambda>x. (rowResource x, rowFprint x)) rows) \<and>
    (\<forall>x \<in> set rows. \<exists>rec \<in> set recs. x = mk_row ds rec \<and> fprint rec \<notin> known t c ds (resourceFingerprint rec)) \<and>
    (\<forall>g. known t c ds g \<subseteq> known t c' ds g \<and>
       known t c' ds g \<subseteq> known t c ds g \<union> {rowFprint x |x. x \<in> set rows \<and> rowResource x = g}) \<and>
    ((\<exists>c1 c2 c3. kcResourcesLimit K t ds c = Some (False, c1) \<and> kcTotalLimit K t ds c1 = Some (False, c2) \<and>
        kcCardinalityLimits K t (resource_fps (removeDuplicateRecords R recs)) ds c2 =
          Some (map (\<lambda>_. False) (resource_fps (removeDuplicateRecords R recs)), c3)) \<longrightarrow>
      (\<forall>rec \<in> set recs. fprint rec \<in> known t c ds (resourceFingerprint rec) \<or>
         (\<exists>x \<in> set rows. rowResource x = resourceFingerprint rec \<and> rowFprint x = fprint rec)))"
  using assms
proof (cases rule: batch_cases)
  case full
  then show ?thesis by auto
next
  case (written exceeds c1 c2 c3)
  let ?U = "removeDuplicateRecords R recs"
  let ?fs = "groupOrder R (set (resource_fps ?U))" and ?new = "new_rows t c ds ?U"
  let ?gs = "filter (\<lambda>f. \<not> exceeds_of (resource_fps ?U) exceeds f) ?fs"
  have fs: "distinct ?fs" "set ?fs = resourceFingerprint ` set ?U" using assms(2) resource_fps_set by (auto simp: fair_def)
  note mem = new_rows_members [OF assms(2)]
  have "distinct (map (\<lambda>x. (rowResource x, rowFprint x)) rows)"
    unfolding written(4) by (rule new_rows_distinct [OF assms(2)]) (simp add: fs(1))
  moreover have "\<forall>x \<in> set rows. \<exists>rec \<in> set recs. x = mk_row ds rec \<and> fprint rec \<notin> known t c ds (resourceFingerprint rec)"
  proof
    fix x assume "x \<in> set rows"
    then obtain f where "x \<in> set (?new f)" unfolding written(4) by auto
    then obtain rec where "x = mk_row ds rec" "latest recs (pair_of rec) = Some rec" "fprint rec \<notin> known t c ds (resourceFingerprint rec)"
      unfolding mem by blast
    then show "\<exists>rec \<in> set recs. x = mk_row ds rec \<and> fprint rec \<notin> known t c ds (resourceFingerprint rec)"
      using latest_Some [of recs "pair_of rec" rec] by blast
  qed
  moreover have "\<exists>x \<in> set rows. rowResource x = resourceFingerprint rec \<and> rowFprint x = fprint rec"
    if "rec \<in> set recs" "fprint rec \<notin> known t c ds (resourceFingerprint rec)" "exceeds = map (\<lambda>_. False) (resource_fps ?U)" for rec
  proof -
    have "pair_of rec \<in> dom (latest recs)" unfolding latest_dom using that(1) by (rule imageI)
    then obtain rec' where l: "latest recs (pair_of rec) = Some rec'" by (auto simp: dom_def)
    then have r': "rec' \<in> set recs" "pair_of rec' = pair_of rec" using latest_Some [of recs "pair_of rec" rec'] by auto
    then have "rec' \<in> set ?U" using l removeDuplicateRecords_latest(2) [OF assms(2)] by simp
    then have "resourceFingerprint rec' \<in> set ?gs" using fs(2) that(3) by (simp add: exceeds_none)
    moreover have "mk_row ds rec' \<in> set (?new (resourceFingerprint rec'))"
      unfolding mem using l r' that(2) by auto
    ultimately have "mk_row ds rec' \<in> set rows" unfolding written(4) by auto
    then show ?thesis using r'(2) by (intro bexI [of _ "mk_row ds rec'"]) (auto simp: mk_row_def)
  qed
  then have "\<forall>rec \<in> set recs. fprint rec \<in> known t c ds (resourceFingerprint rec) \<or>
      (\<exists>x \<in> set rows. rowResource x = resourceFingerprint rec \<and> rowFprint x = fprint rec)"
    if "\<exists>c1 c2 c3. kcResourcesLimit K t ds c = Some (False, c1) \<and> kcTotalLimit K t ds c1 = Some (False, c2) \<and>
      kcCardinalityLimits K t (resource_fps ?U) ds c2 = Some (map (\<lambda>_. False) (resource_fps ?U), c3)"
    using that written(1-3) by auto
  moreover have "known t c ds g \<subseteq> known t c' ds g \<and>
      known t c' ds g \<subseteq> known t c ds g \<union> {rowFprint x |x. x \<in> set rows \<and> rowResource x = g}" for g
    using written(8) [of ds g] by auto
  ultimately show ?thesis using written(5) by simp
qed

end

section \<open>The tracker of values and the filter\<close>

text \<open>
  A history of the exporter: it is created, time passes, the counts are read from the database, a map of
  attributes is filtered, the cache of fingerprints changes.
\<close>

inductive exporting ::
    "('c, string) ttlcache \<Rightarrow> ('q, flat, unit) lru \<Rightarrow> Config \<Rightarrow> int \<Rightarrow> ('c, 'q, 'k) metadataExporter \<Rightarrow> bool"
  for T :: "('c, string) ttlcache" and L :: "('q, flat, unit) lru" and conf :: Config where
  created: "exporting T L conf t (newMetadataExporter T conf k)"
| passes: "exporting T L conf t e \<Longrightarrow> t \<le> t' \<Longrightarrow> exporting T L conf t' e"
| counted: "exporting T L conf t e \<Longrightarrow> exporting T L conf t (updateTagValueCountFromDB query ds e)"
| filtered: "exporting T L conf t e \<Longrightarrow> filterAttrs T L t ds order m e = (m', e') \<Longrightarrow> exporting T L conf t e'"
| cached: "exporting T L conf t e \<Longrightarrow> exporting T L conf t (e\<lparr>keyCache := k\<rparr>)"

text \<open>The keys the filter leaves out: their type in the database is a floating-point number.\<close>

definition left_out :: "Signal \<Rightarrow> ('c, 'q, 'k) metadataExporter \<Rightarrow> string \<Rightarrow> bool" where
  "left_out ds e k \<longleftrightarrow> tag_values ds e \<noteq> None \<and> k \<notin> set (always_include ds (cfg e)) \<and> getType k ds e = ''float64''"

definition small_limits :: "Config \<Rightarrow> bool" where
  "small_limits conf \<longleftrightarrow> (\<forall>ds. int (MaxStringDistinctValues (limits ds conf)) \<le> maxInt64)"

lemma i64_limit: "small_limits conf \<Longrightarrow> i64 (int (MaxStringDistinctValues (limits ds conf))) = int (MaxStringDistinctValues (limits ds conf))"
  by (simp add: small_limits_def is_i64_def minInt64_def)

locale flat_tracker = tracker T live L content valid
  for T :: "('c, string) ttlcache" and live :: "int \<Rightarrow> 'c \<Rightarrow> (string \<rightharpoonup> nat)"
    and L :: "('q, flat, unit) lru" and content :: "'q \<Rightarrow> (flat \<rightharpoonup> unit)" and valid :: "nat \<Rightarrow> 'q \<Rightarrow> bool"
begin

definition exp_ok :: "Config \<Rightarrow> int \<Rightarrow> ('c, 'q, 'k) metadataExporter \<Rightarrow> bool" where
  "exp_ok conf t e \<longleftrightarrow> cfg e = conf \<and>
     vt_ok t (i64 (int (MaxStringDistinctValues (MaxDistinctTraces conf)))) (tracesTracker e) \<and>
     vt_ok t (i64 (int (MaxStringDistinctValues (MaxDistinctMetrics conf)))) (metricsTracker e) \<and>
     vt_ok t (i64 (int (MaxStringDistinctValues (MaxDistinctLogs conf)))) (logsTracker e)"

text \<open>What a step of the filter does not change.\<close>

definition frame :: "('c, 'q, 'k) metadataExporter \<Rightarrow> ('c, 'q, 'k) metadataExporter \<Rightarrow> bool" where
  "frame e e' \<longleftrightarrow> cfg e' = cfg e \<and> (\<forall>ds. tag_values ds e' = tag_values ds e)"

lemma frame_left_out: "frame e e' \<Longrightarrow> left_out ds e' = left_out ds e"
  by (simp add: frame_def left_out_def getType_def fun_eq_iff)

lemma with_tracker_frame: "with_tracker ds f d e = (x, e') \<Longrightarrow> frame e e'"
proof -
  assume a: "with_tracker ds f d e = (x, e')"
  have "tag_values ds' e' = tag_values ds' e \<and> cfg e' = cfg e" for ds'
    using a by (cases ds; cases ds') (auto split: prod.splits)
  then show ?thesis by (simp add: frame_def)
qed

lemma with_tracker_ok:
  assumes "exp_ok conf t e" and "with_tracker ds f d e = (x, e')"
    and "\<And>n vt y vt'. vt_ok t n vt \<Longrightarrow> f vt = (y, vt') \<Longrightarrow> vt_ok t n vt' \<and> P n y"
    and "P 0 d"
  shows "exp_ok conf t e' \<and> P (i64 (int (MaxStringDistinctValues (limits ds conf)))) x"
  using assms by (cases ds) (fastforce simp: exp_ok_def i64_def split: prod.splits)+

lemma shouldSkip_ok:
  assumes "exp_ok conf t e" and "small_limits conf" and "shouldSkipAttributeUVT T L t k ds e = (b, e')"
  shows "b = left_out ds e k" and "exp_ok conf t e'" and "frame e e'"
proof -
  have "b = left_out ds e k \<and> exp_ok conf t e' \<and> frame e e'"
  proof (cases "tag_values ds e = None \<or> k \<in> set (always_include ds (cfg e))")
    case True
    then show ?thesis using assms(1,3) by (auto simp: shouldSkipAttributeUVT_def left_out_def frame_def)
  next
    case False
    obtain cnt e1 where w: "with_tracker ds (GetUniqueValueCount T L t (makeUVTKey k ds)) 0 e = (cnt, e1)"
      by (cases "with_tracker ds (GetUniqueValueCount T L t (makeUVTKey k ds)) 0 e")
    have "exp_ok conf t e1 \<and> int cnt \<le> max 0 (i64 (int (MaxStringDistinctValues (limits ds conf))))"
      by (rule with_tracker_ok [OF assms(1) w]) (auto dest: GetUniqueValueCount_ok)
    then have cnt: "exp_ok conf t e1" "cnt \<le> MaxStringDistinctValues (limits ds conf)" using i64_limit [OF assms(2)] by auto
    have "e' = e1" "b \<longleftrightarrow> getType k ds e = ''float64''"
      using assms(1,3) w False cnt(2) i64_limit [OF assms(2)]
      by (auto simp: shouldSkipAttributeUVT_def Let_def exp_ok_def)
    then show ?thesis using cnt(1) with_tracker_frame [OF w] False by (simp add: left_out_def)
  qed
  then show "b = left_out ds e k" and "exp_ok conf t e'" and "frame e e'" by simp_all
qed

lemma addToUVT_ok:
  assumes "exp_ok conf t e"
  shows "exp_ok conf t (addToUVT T L t k v ds e)" and "frame e (addToUVT T L t k v ds e)"
proof -
  obtain x e' where w: "with_tracker ds (\<lambda>vt. ((), AddValue T L t k v vt)) () e = (x, e')"
    by (cases "with_tracker ds (\<lambda>vt. ((), AddValue T L t k v vt)) () e")
  have "exp_ok conf t e' \<and> True" by (rule with_tracker_ok [OF assms w]) (auto dest: AddValue_ok)
  then show "exp_ok conf t (addToUVT T L t k v ds e)" "frame e (addToUVT T L t k v ds e)"
    using w with_tracker_frame [OF w] by (simp_all add: addToUVT_def)
qed

lemma filter_loop_ok:
  assumes "filter_loop T L t ds ks m e = (m', e')" and "exp_ok conf t e" and "small_limits conf"
  shows "exp_ok conf t e' \<and> frame e e' \<and> m' = (\<lambda>k. if k \<in> set ks \<and> left_out ds e k then None else m k)"
  using assms
proof (induction ks arbitrary: m e)
  case Nil
  then show ?case by (simp add: frame_def)
next
  case (Cons k ks)
  obtain b e1 where s: "shouldSkipAttributeUVT T L t k ds e = (b, e1)" by (cases "shouldSkipAttributeUVT T L t k ds e")
  note ok = shouldSkip_ok [OF Cons.prems(2,3) s]
  obtain e2 where e2: "filter_loop T L t ds ks (if b then m(k := None) else m) e2 = (m', e')" and f2: "frame e1 e2" "exp_ok conf t e2"
  proof -
    let ?upd = "\<lambda>v. addToUVT T L t (makeUVTKey k ds) v ds e1"
    have "\<exists>e2 \<in> {e1} \<union> range ?upd. filter_loop T L t ds ks (if b then m(k := None) else m) e2 = (m', e')"
      using Cons.prems(1) s by (cases "m k"; cases "the (m k)") (auto split: if_splits)
    then show ?thesis using that addToUVT_ok [OF ok(2)] ok(2) by (auto simp: frame_def)
  qed
  have "frame e e2" using ok(3) f2(1) by (simp add: frame_def)
  then show ?case using Cons.IH [OF e2 f2(2) Cons.prems(3)] ok(1) frame_left_out [of e e2 ds]
    by (auto simp: frame_def fun_eq_iff)
qed

lemma exporting_ok: "exporting T L conf t e \<Longrightarrow> small_limits conf \<Longrightarrow> exp_ok conf t e"
proof (induction rule: exporting.induct)
  case (created t k)
  then show ?case by (simp add: exp_ok_def newMetadataExporter_def vt_ok_new)
next
  case (passes t e t')
  then show ?case by (auto simp: exp_ok_def intro: vt_ok_later)
next
  case (counted t e query ds)
  then show ?case by (cases ds) (auto simp: exp_ok_def updateTagValueCountFromDB_def split: sum.splits)
next
  case (filtered t e ds order m m' e')
  then show ?case using filter_loop_ok [of t ds order m e m' e' conf] by (simp add: filterAttrs_def)
next
  case (cached t e k)
  then show ?case by (simp add: exp_ok_def)
qed

end

interpretation list_flat: flat_tracker "list_ttl d" list_live list_lru list_content list_valid for d
  by unfold_locales

section \<open>A small batch\<close>

definition sorted_runtime :: runtime where
  "sorted_runtime = \<lparr>seenOrder = sorted_list_of_set, groupOrder = sorted_list_of_set, attrOrder = sorted_list_of_set, rawOrder = (\<lambda>xs. xs)\<rparr>"

definition small_record :: batchRecord where
  "small_record = \<lparr>resourceFingerprint = 7, fprint = 5, rAttrs = [''a'' \<mapsto> FlatString ''b''], attrs = [''c'' \<mapsto> FlatBool True],
     roundedSixHrsUnixMilli = 0\<rparr>"

lemma sorted_runtime_fair: "fair sorted_runtime"
  by (simp add: fair_def sorted_runtime_def)

lemma single_record: "fair R \<Longrightarrow> removeDuplicateRecords R [rec] = [rec]"
proof -
  assume f: "fair R"
  have "distinct (removeDuplicateRecords R [rec])" using removeDuplicateRecords_latest(1) [OF f] by (simp add: distinct_map)
  moreover have "r \<in> set (removeDuplicateRecords R [rec]) \<longleftrightarrow> r = rec" for r
    unfolding removeDuplicateRecords_latest(2) [OF f] by (simp add: latest_def) metis
  then have "set (removeDuplicateRecords R [rec]) = {rec}" by blast
  moreover have "xs = [x]" if "distinct xs" "set xs = {x}" for xs and x :: batchRecord
    using that by (cases xs; cases "tl xs") auto
  ultimately show ?thesis by blast
qed

lemma groupOrder_sorted: "groupOrder sorted_runtime = sorted_list_of_set"
  by (simp add: sorted_runtime_def)

lemma small_batch:
  "writeToStatementBatch (InMemory (list_ttl 10)) sorted_runtime (\<lambda>_. Inr ()) 0 [small_record] SignalTraces fresh_cache =
     Some ((1, Inr ()), [mk_row SignalTraces small_record], one_resource SignalTraces)"
  by (simp add: writeToStatementBatch_def single_record [OF sorted_runtime_fair] resource_fps_def small_record_def
      InMemory_def ResourcesLimitExceeded_def TotalCardinalityLimitExceeded_def CardinalityLimitExceeded_def small_cache
      groupOrder_sorted exceeds_of_def record_group_def write_group_def AttrsExistForResource_def AddAttrsToResource_def add_attrs_def)

section \<open>Properties\<close>



text \<open>
  The number of distinct values of a key does not matter to the filter of attributes: the tracker
  holds at most as many values of a key as the limit, so that it never holds more than the limit, and
  the filter leaves out exactly the keys that the database has as floating-point numbers, of those that
  are not always included.
\<close>

theorem filter_ignores_counts:
  assumes "flat_tracker T live L content valid" and "exporting T L conf t e" and "small_limits conf"
    and "filterAttrs T L t ds order m e = (m', e')" and "dom m \<subseteq> set order"
  shows "m' = (\<lambda>k. if left_out ds e k then None else m k)"
proof -
  have "flat_tracker.exp_ok live valid conf t e" by (rule flat_tracker.exporting_ok [OF assms(1-3)])
  then have "m' = (\<lambda>k. if k \<in> set order \<and> left_out ds e k then None else m k)"
    using flat_tracker.filter_loop_ok [OF assms(1) _ _ assms(3), of t ds order m e m' e'] assms(4) by (simp add: filterAttrs_def)
  then show ?thesis using assms(5) by (force simp: fun_eq_iff)
qed

definition small_config :: Config where
  "small_config = (let l = \<lparr>MaxKeys = 8, MaxStringDistinctValues = 1, MaxStringLength = 64\<rparr> in
     \<lparr>Enabled = True, MaxDistinctTraces = l, MaxDistinctLogs = l, MaxDistinctMetrics = l,
      AlwaysIncludeTraces = [], AlwaysIncludeLogs = [], AlwaysIncludeMetrics = []\<rparr>)"

lemma small_config_limits: "small_limits small_config"
proof -
  have "int (MaxStringDistinctValues (limits ds small_config)) \<le> maxInt64" for ds
    by (cases ds) (simp_all add: small_config_def Let_def maxInt64_def)
  then show ?thesis by (simp add: small_limits_def)
qed

theorem filter_ignores_counts_witness:
  "fst (filterAttrs (list_ttl 10) list_lru 0 SignalLogs [''k''] [''k'' \<mapsto> FlatString ''v'']
      (newMetadataExporter (list_ttl 10) small_config ())) =
    (\<lambda>k. if left_out SignalLogs (newMetadataExporter (list_ttl 10) small_config () :: (string ttl_list, (flat, unit) lru_list, unit) metadataExporter) k
       then None else [''k'' \<mapsto> FlatString ''v''] k)"
proof -
  let ?e = "newMetadataExporter (list_ttl 10) small_config () :: (string ttl_list, (flat, unit) lru_list, unit) metadataExporter"
  obtain m' e' where f: "filterAttrs (list_ttl 10) list_lru 0 SignalLogs [''k''] [''k'' \<mapsto> FlatString ''v''] ?e = (m', e')"
    by (cases "filterAttrs (list_ttl 10) list_lru 0 SignalLogs [''k''] [''k'' \<mapsto> FlatString ''v''] ?e")
  show ?thesis
    using filter_ignores_counts [OF list_flat.flat_tracker_axioms exporting.created small_config_limits f] f by simp
qed

end
