(* ===== verification/JsonWriter.thy ===== *)
theory JsonWriter
  imports MetadataFacts KeyCheck
begin

text \<open>
  The writer of JSON metadata of the metadata exporter (exporter/metadataexporter/json_writer.go and
  types.go): one walk over the body of a log record that collects the types of its paths and suggests
  values of them.

  The walk uses two caches and a tracker of values. The result is that none of them shows: the walk is
  the walk of a specification that has no state but the types and the rows it has collected. A value of
  bytes is the text that \<open>AsString\<close> gives. Appending a row to a batch may fail, which is a parameter.
\<close>

section \<open>Types (types.go)\<close>

type_synonym mask = "16 word"

definition maskString :: mask where "maskString = 1"
definition maskInt :: mask where "maskInt = 2"
definition maskFloat :: mask where "maskFloat = 4"
definition maskBool :: mask where "maskBool = 8"
definition maskArrayDynamic :: mask where "maskArrayDynamic = 16"
definition maskArrayBool :: mask where "maskArrayBool = 32"
definition maskArrayFloat :: mask where "maskArrayFloat = 64"
definition maskArrayInt :: mask where "maskArrayInt = 128"
definition maskArrayString :: mask where "maskArrayString = 256"
definition maskArrayJSON :: mask where "maskArrayJSON = 512"

lemmas mask_defs = maskString_def maskInt_def maskFloat_def maskBool_def maskArrayDynamic_def maskArrayBool_def
  maskArrayFloat_def maskArrayInt_def maskArrayString_def maskArrayJSON_def

unbundle bit_operations_syntax

definition maskToType :: "mask \<Rightarrow> string" where
  "maskToType m =
     (if m AND maskString \<noteq> 0 then ''string''
      else if m AND maskInt \<noteq> 0 then ''int64''
      else if m AND maskFloat \<noteq> 0 then ''float64''
      else if m AND maskBool \<noteq> 0 then ''bool''
      else if m AND maskArrayString \<noteq> 0 then ''[]string''
      else if m AND maskArrayInt \<noteq> 0 then ''[]int64''
      else if m AND maskArrayFloat \<noteq> 0 then ''[]float64''
      else if m AND maskArrayBool \<noteq> 0 then ''[]bool''
      else if m AND maskArrayJSON \<noteq> 0 then ''[]json''
      else if m AND maskArrayDynamic \<noteq> 0 then ''[]dynamic''
      else [])"

type_synonym types = "string \<rightharpoonup> string list"

definition types_record :: "string \<Rightarrow> mask \<Rightarrow> types \<Rightarrow> types" where
  "types_record path m t = t(path \<mapsto> List.insert (maskToType m) (case t path of None \<Rightarrow> [] | Some cs \<Rightarrow> cs))"

section \<open>Values\<close>

datatype Value =
    ValueEmpty
  | ValueStr string
  | ValueBytes string
  | ValueInt int
  | ValueDouble rat
  | ValueBool bool
  | ValueMap "(string \<times> Value) list"
  | ValueSlice "Value list"

datatype ValueType = TypeEmpty | TypeStr | TypeBytes | TypeInt | TypeDouble | TypeBool | TypeMap | TypeSlice

fun value_type :: "Value \<Rightarrow> ValueType" where
  "value_type ValueEmpty = TypeEmpty"
| "value_type (ValueStr s) = TypeStr"
| "value_type (ValueBytes s) = TypeBytes"
| "value_type (ValueInt i) = TypeInt"
| "value_type (ValueDouble d) = TypeDouble"
| "value_type (ValueBool b) = TypeBool"
| "value_type (ValueMap m) = TypeMap"
| "value_type (ValueSlice xs) = TypeSlice"

definition mapPCommonValueTypeToDataType :: "ValueType \<rightharpoonup> string" where
  "mapPCommonValueTypeToDataType = [TypeStr \<mapsto> ''string'', TypeBytes \<mapsto> ''string'', TypeInt \<mapsto> ''int64'',
     TypeDouble \<mapsto> ''float64'', TypeBool \<mapsto> ''bool'']"

definition inferArrayMask :: "ValueType list \<Rightarrow> mask" where
  "inferArrayMask ts =
     (let unique = set (map (\<lambda>t. if t = TypeBytes then TypeStr else t) ts);
          hasJSON = TypeMap \<in> unique;
          hasPrimitive = (hasJSON \<and> card unique > 1) \<or> (\<not> hasJSON \<and> card unique > 0)
      in if hasJSON then (if \<not> hasPrimitive then maskArrayJSON else maskArrayDynamic)
         else if TypeStr \<in> unique then (if card unique > 1 then maskArrayDynamic else maskArrayString)
         else if TypeDouble \<in> unique then maskArrayFloat
         else if TypeInt \<in> unique then maskArrayInt
         else if TypeBool \<in> unique then maskArrayBool
         else maskArrayDynamic)"

definition joinPath :: "string \<Rightarrow> string \<Rightarrow> string" where
  "joinPath prefix key = (if prefix = [] then key else prefix @ ''.'' @ key)"

definition MakeKeyForSkipKeys :: "string \<Rightarrow> string \<Rightarrow> string" where
  "MakeKeyForSkipKeys context tagKey = context @ '':'' @ tagKey"

section \<open>The accumulator of values\<close>

record tagRow =
  tagMilli :: int
  tagPath :: string
  tagContext :: string
  tagType :: string
  tagString :: "string option"
  tagNumber :: "rat option"

record ('a, 'c, 'q) jsonEnv =
  jsTtl :: "('c, string) ttlcache"
  jsLru :: "('q, flat, unit) lru"
  jsKeyLru :: "('a, string, unit) lru"
  jsRunes :: runes
  jsNow :: int
  jsAppend :: "tagRow list \<Rightarrow> tagRow \<Rightarrow> error option"
  jsMaxDepthTraverse :: int
  jsMaxArrayElementsAllowed :: int
  jsMaxKeysAtLevel :: int
  jsMaxStringDistinctValues :: nat
  jsSkipKeys :: "string list"

record ('a, 'c, 'q) jsonState =
  cardinalKeyCache :: 'a
  valueTracker :: "('c, 'q) ValueTracker"
  typeSet :: types
  tagRows :: "tagRow list"

definition MaxAttributeValueLength :: nat where "MaxAttributeValueLength = 256"

definition skipStoringInDB :: "('a, 'c, 'q) jsonEnv \<Rightarrow> string \<Rightarrow> bool" where
  "skipStoringInDB E key = (key \<in> set (jsSkipKeys E))"

definition skipUVT :: "('a, 'c, 'q) jsonEnv \<Rightarrow> string \<Rightarrow> ('a, 'c, 'q) jsonState \<Rightarrow> bool \<times> ('a, 'c, 'q) jsonState" where
  "skipUVT E key s = (case GetUniqueValueCount (jsTtl E) (jsLru E) (jsNow E) key (valueTracker s) of (cnt, vt) \<Rightarrow>
     (i64 (int (jsMaxStringDistinctValues E)) < int cnt, s\<lparr>valueTracker := vt\<rparr>))"

definition shouldSkipOrTrack ::
    "('a, 'c, 'q) jsonEnv \<Rightarrow> string \<Rightarrow> string \<Rightarrow> flat option \<Rightarrow> ('a, 'c, 'q) jsonState \<Rightarrow> bool \<times> ('a, 'c, 'q) jsonState" where
  "shouldSkipOrTrack E path context v s =
     (let key = MakeKeyForSkipKeys context path in
      if skipStoringInDB E key then (True, s)
      else (case v of
          None \<Rightarrow> (False, s)
        | Some x \<Rightarrow>
            (case skipUVT E key s of
               (True, s1) \<Rightarrow> (True, s1)
             | (False, s1) \<Rightarrow> (False, s1\<lparr>valueTracker := AddValue (jsTtl E) (jsLru E) (jsNow E) key x (valueTracker s1)\<rparr>))))"

definition stmt_append :: "('a, 'c, 'q) jsonEnv \<Rightarrow> tagRow \<Rightarrow> ('a, 'c, 'q) jsonState \<Rightarrow> unit result \<times> ('a, 'c, 'q) jsonState" where
  "stmt_append E r s = (case jsAppend E (tagRows s) r of
     Some err \<Rightarrow> (Inl err, s) | None \<Rightarrow> (Inr (), s\<lparr>tagRows := tagRows s @ [r]\<rparr>))"

definition append_text where
  "append_text E path str context datatype unixMilli s =
     (if str = [] \<or> MaxAttributeValueLength < length str then (Inr (), s)
      else (case shouldSkipOrTrack E path context (Some (FlatString str)) s of
          (True, s1) \<Rightarrow> (Inr (), s1)
        | (False, s1) \<Rightarrow> stmt_append E \<lparr>tagMilli = unixMilli, tagPath = path, tagContext = context, tagType = datatype,
            tagString = Some str, tagNumber = None\<rparr> s1))"

definition append_number where
  "append_number E path num context datatype unixMilli s =
     (case shouldSkipOrTrack E path context (Some (FlatFloat num)) s of
        (True, s1) \<Rightarrow> (Inr (), s1)
      | (False, s1) \<Rightarrow> stmt_append E \<lparr>tagMilli = unixMilli, tagPath = path, tagContext = context, tagType = datatype,
          tagString = None, tagNumber = Some num\<rparr> s1)"

fun appendValue ::
    "('a, 'c, 'q) jsonEnv \<Rightarrow> string \<Rightarrow> Value \<Rightarrow> string \<Rightarrow> string \<Rightarrow> int \<Rightarrow> ('a, 'c, 'q) jsonState \<Rightarrow> unit result \<times> ('a, 'c, 'q) jsonState"
  and append_slice ::
    "('a, 'c, 'q) jsonEnv \<Rightarrow> string \<Rightarrow> Value list \<Rightarrow> string \<Rightarrow> string \<Rightarrow> int \<Rightarrow> ('a, 'c, 'q) jsonState \<Rightarrow> unit result \<times> ('a, 'c, 'q) jsonState" where
  "appendValue E path (ValueStr str) context datatype unixMilli s = append_text E path str context datatype unixMilli s"
| "appendValue E path (ValueBytes str) context datatype unixMilli s = append_text E path str context datatype unixMilli s"
| "appendValue E path (ValueInt i) context datatype unixMilli s = append_number E path (float64_of_int i) context datatype unixMilli s"
| "appendValue E path (ValueDouble d) context datatype unixMilli s = append_number E path d context datatype unixMilli s"
| "appendValue E path (ValueBool b) context datatype unixMilli s =
     stmt_append E \<lparr>tagMilli = unixMilli, tagPath = path, tagContext = context, tagType = datatype, tagString = None, tagNumber = None\<rparr> s"
| "appendValue E path (ValueSlice xs) context datatype unixMilli s = append_slice E path xs context datatype unixMilli s"
| "appendValue E path ValueEmpty context datatype unixMilli s = (Inr (), s)"
| "appendValue E path (ValueMap m) context datatype unixMilli s = (Inr (), s)"
| "append_slice E path [] context datatype unixMilli s = (Inr (), s)"
| "append_slice E path (x # xs) context datatype unixMilli s =
     (case appendValue E path x context datatype unixMilli s of
        (Inl err, s1) \<Rightarrow> (Inl err, s1)
      | (Inr _, s1) \<Rightarrow> append_slice E path xs context datatype unixMilli s1)"

definition va_record where
  "va_record E path v context unixMilli s =
     appendValue E path v context (case mapPCommonValueTypeToDataType (value_type v) of None \<Rightarrow> [] | Some d \<Rightarrow> d) unixMilli s"

definition recordForSlice where
  "recordForSlice E path v context datatype unixMilli s = appendValue E path v context datatype unixMilli s"

section \<open>The walk (json_writer.go)\<close>

definition jsonMessageField :: string where "jsonMessageField = ''message''"
definition jsonArraySuffix :: string where "jsonArraySuffix = ''[]''"

definition ta_record :: "string \<Rightarrow> mask \<Rightarrow> ('a, 'c, 'q) jsonState \<Rightarrow> ('a, 'c, 'q) jsonState" where
  "ta_record path m s = s\<lparr>typeSet := types_record path m (typeSet s)\<rparr>"

fun leaf_mask :: "Value \<Rightarrow> mask option" where
  "leaf_mask (ValueStr s) = Some maskString"
| "leaf_mask (ValueBytes s) = Some maskString"
| "leaf_mask (ValueBool b) = Some maskBool"
| "leaf_mask (ValueDouble d) = Some maskFloat"
| "leaf_mask (ValueInt i) = Some maskInt"
| "leaf_mask v = None"

definition is_container :: "Value \<Rightarrow> bool" where
  "is_container v \<longleftrightarrow> value_type v = TypeMap \<or> value_type v = TypeSlice"

text \<open>Only an empty value has no case; the path is quoted.\<close>

definition unknown_type :: "string \<Rightarrow> error" where
  "unknown_type path = ''unknown value type at path '' @ [CHR 0x22] @ path @ [CHR 0x22] @ '': Empty''"

definition check_key :: "('a, 'c, 'q) jsonEnv \<Rightarrow> string \<Rightarrow> ('a, 'c, 'q) jsonState \<Rightarrow> bool \<times> ('a, 'c, 'q) jsonState" where
  "check_key E key s =
     (if lruContains (jsKeyLru E) key (cardinalKeyCache s) then (True, s)
      else if IsCardinal (jsRunes E) key then (False, s)
      else (True, s\<lparr>cardinalKeyCache := snd (lru.lruAdd (jsKeyLru E) key () (cardinalKeyCache s))\<rparr>))"

text \<open>
  \<open>walk_children\<close> is the closure that \<open>walkMap\<close> ranges with, \<open>walk_elements\<close> the loop of \<open>walkSlice\<close>;
  it answers \<open>None\<close> when it meets a slice within the slice.
\<close>

function (sequential) walkNode ::
    "('a, 'c, 'q) jsonEnv \<Rightarrow> string \<Rightarrow> Value \<Rightarrow> int \<Rightarrow> string \<Rightarrow> int \<Rightarrow> ('a, 'c, 'q) jsonState \<Rightarrow> unit result \<times> ('a, 'c, 'q) jsonState"
  and walkMap ::
    "('a, 'c, 'q) jsonEnv \<Rightarrow> string \<Rightarrow> (string \<times> Value) list \<Rightarrow> int \<Rightarrow> string \<Rightarrow> int \<Rightarrow> ('a, 'c, 'q) jsonState \<Rightarrow> unit result \<times> ('a, 'c, 'q) jsonState"
  and walk_children ::
    "('a, 'c, 'q) jsonEnv \<Rightarrow> string \<Rightarrow> (string \<times> Value) list \<Rightarrow> int \<Rightarrow> string \<Rightarrow> int \<Rightarrow> ('a, 'c, 'q) jsonState \<Rightarrow> unit result \<times> ('a, 'c, 'q) jsonState"
  and walkSlice ::
    "('a, 'c, 'q) jsonEnv \<Rightarrow> string \<Rightarrow> Value list \<Rightarrow> int \<Rightarrow> string \<Rightarrow> int \<Rightarrow> ('a, 'c, 'q) jsonState \<Rightarrow> unit result \<times> ('a, 'c, 'q) jsonState"
  and walk_elements ::
    "('a, 'c, 'q) jsonEnv \<Rightarrow> string \<Rightarrow> Value list \<Rightarrow> int \<Rightarrow> string \<Rightarrow> int \<Rightarrow> ValueType list \<Rightarrow> ('a, 'c, 'q) jsonState
     \<Rightarrow> ValueType list option result \<times> ('a, 'c, 'q) jsonState" where
  "walkNode E prefix v level tag unixMilli s =
     (if take 8 prefix = jsonMessageField @ ''.'' then (Inr (), s)
      else if prefix = jsonMessageField then (Inr (), ta_record prefix maskString s)
      else if jsMaxDepthTraverse E < level \<and> is_container v then (Inr (), s)
      else (case v of
          ValueMap m \<Rightarrow> walkMap E prefix m (level + 1) tag unixMilli s
        | ValueSlice xs \<Rightarrow> walkSlice E prefix xs level tag unixMilli s
        | _ \<Rightarrow> (case leaf_mask v of
              None \<Rightarrow> (Inl (unknown_type prefix), s)
            | Some m \<Rightarrow> va_record E prefix v tag unixMilli (ta_record prefix m s))))"
| "walkMap E prefix m level tag unixMilli s =
     (if jsMaxKeysAtLevel E < int (length m) then (Inr (), s) else walk_children E prefix m level tag unixMilli s)"
| "walk_children E prefix [] level tag unixMilli s = (Inr (), s)"
| "walk_children E prefix ((key, child) # m) level tag unixMilli s =
     (case check_key E key s of
        (False, s1) \<Rightarrow> walk_children E prefix m level tag unixMilli s1
      | (True, s1) \<Rightarrow>
          (case walkNode E (joinPath prefix key) child (level + 1) tag unixMilli s1 of
             (Inl err, s2) \<Rightarrow> (Inl err, s2)
           | (Inr _, s2) \<Rightarrow> walk_children E prefix m level tag unixMilli s2))"
| "walkSlice E prefix xs level tag unixMilli s =
     (if xs = [] \<or> jsMaxArrayElementsAllowed E < int (length xs) then (Inr (), s)
      else (case walk_elements E prefix xs level tag unixMilli [] s of
          (Inl err, s1) \<Rightarrow> (Inl err, s1)
        | (Inr None, s1) \<Rightarrow> (Inr (), s1)
        | (Inr (Some ts), s1) \<Rightarrow>
            (if ts = [] then (Inr (), s1)
             else (let m = inferArrayMask ts in
               recordForSlice E prefix (ValueSlice xs) tag (maskToType m) unixMilli (ta_record prefix m s1)))))"
| "walk_elements E prefix [] level tag unixMilli ts s = (Inr (Some ts), s)"
| "walk_elements E prefix (el # els) level tag unixMilli ts s =
     (case value_type el of
        TypeMap \<Rightarrow>
          (case walkNode E (prefix @ jsonArraySuffix) el level tag unixMilli s of
             (Inl err, s1) \<Rightarrow> (Inl err, s1)
           | (Inr _, s1) \<Rightarrow> walk_elements E prefix els level tag unixMilli (ts @ [value_type el]) s1)
      | TypeSlice \<Rightarrow> (Inr None, s)
      | TypeEmpty \<Rightarrow> walk_elements E prefix els level tag unixMilli ts s
      | _ \<Rightarrow> walk_elements E prefix els level tag unixMilli (ts @ [value_type el]) s)"

  by pat_completeness auto
termination
  by (relation "measure (case_sum
      (case_sum (\<lambda>(E, prefix, v, _). 3 * size v) (\<lambda>(E, prefix, m, _). 3 * size_list (size_prod (\<lambda>_. 0) size) m + 1))
      (case_sum (\<lambda>(E, prefix, m, _). 3 * size_list (size_prod (\<lambda>_. 0) size) m)
        (case_sum (\<lambda>(E, prefix, xs, _). 3 * size_list size xs + 1) (\<lambda>(E, prefix, xs, _). 3 * size_list size xs))))") auto

declare walkNode.simps [simp del]

section \<open>Batches\<close>

text \<open>The rows of the query are a key and its context; a failed query changes nothing.\<close>

definition fetchSkipKeys :: "(string \<times> string) list result \<Rightarrow> ('a, 'c, 'q) jsonEnv \<Rightarrow> ('a, 'c, 'q) jsonEnv" where
  "fetchSkipKeys query E = (case query of Inl err \<Rightarrow> E
     | Inr rows \<Rightarrow> E\<lparr>jsSkipKeys := map (\<lambda>(tagKey, context). MakeKeyForSkipKeys context tagKey) rows\<rparr>)"

record jsonLog =
  jlTimestamp :: "64 word"
  jlObservedTimestamp :: "64 word"
  jlBody :: Value

definition process_log ::
    "('a, 'c, 'q) jsonEnv \<Rightarrow> jsonLog \<Rightarrow> nat \<times> ('a, 'c, 'q) jsonState \<Rightarrow> nat \<times> ('a, 'c, 'q) jsonState" where
  "process_log E lr = (\<lambda>(logsProcessed, s).
     (let ts = (if jlTimestamp lr = 0 then jlObservedTimestamp lr else jlTimestamp lr) in
      if value_type (jlBody lr) \<noteq> TypeMap then (logsProcessed, s)
      else (case walkNode E [] (jlBody lr) 0 ''body'' (unix_milli ts) s of
          (Inl err, s1) \<Rightarrow> (logsProcessed, s1)
        | (Inr _, s1) \<Rightarrow> (logsProcessed + 1, s1))))"

text \<open>
  The rows of types: signal, context, path, type and time. \<open>order\<close> is the order in which the paths are
  ranged over and \<open>keys\<close> the one of the types of a path; \<open>fails\<close> is the error of appending a row.
\<close>

type_synonym typeRow = "string \<times> string \<times> string \<times> string \<times> int"

fun append_all :: "(typeRow list \<Rightarrow> typeRow \<Rightarrow> error option) \<Rightarrow> typeRow list \<Rightarrow> typeRow list \<Rightarrow> unit result \<times> typeRow list" where
  "append_all fails [] stmt = (Inr (), stmt)"
| "append_all fails (r # rs) stmt = (case fails stmt r of Some err \<Rightarrow> (Inl err, stmt) | None \<Rightarrow> append_all fails rs (stmt @ [r]))"

definition appendTypeSet ::
    "(typeRow list \<Rightarrow> typeRow \<Rightarrow> error option) \<Rightarrow> string list \<Rightarrow> (string list \<Rightarrow> string list) \<Rightarrow> types \<Rightarrow> string \<Rightarrow> string \<Rightarrow> int
     \<Rightarrow> unit result \<times> typeRow list" where
  "appendTypeSet fails order keys ta signal context now =
     append_all fails (concat (map (\<lambda>path. case ta path of None \<Rightarrow> []
       | Some cs \<Rightarrow> map (\<lambda>t. (signal, context, path, t, now)) (keys cs)) order)) []"

definition flushTypeSet ::
    "unit result \<Rightarrow> (typeRow list \<Rightarrow> typeRow \<Rightarrow> error option) \<Rightarrow> (typeRow list \<Rightarrow> unit result) \<Rightarrow> string list \<Rightarrow> (string list \<Rightarrow> string list) \<Rightarrow> int \<Rightarrow> types
     \<Rightarrow> unit result \<times> typeRow list" where
  "flushTypeSet prepare fails send order keys now ta =
     (case prepare of
        Inl err \<Rightarrow> (Inl (''failed to prepare path types batch: '' @ err), [])
      | Inr _ \<Rightarrow> (case appendTypeSet fails order keys ta ''logs'' ''body'' now of
            (Inl err, rows) \<Rightarrow> (Inl (''failed to append to path types batch: '' @ err), [])
          | (Inr _, rows) \<Rightarrow> (send rows, rows)))"

text \<open>The two batches are sent concurrently; the error that is answered is one of theirs, here the first.\<close>

definition jsonMetadataWriter_Process ::
    "('a, 'c, 'q) jsonEnv \<Rightarrow> unit result \<Rightarrow> (types \<Rightarrow> unit result \<times> typeRow list) \<Rightarrow> (tagRow list \<Rightarrow> unit result) \<Rightarrow> jsonLog list list list
     \<Rightarrow> nat \<Rightarrow> ('a, 'c, 'q) jsonState \<Rightarrow> unit result \<times> nat \<times> typeRow list \<times> ('a, 'c, 'q) jsonState" where
  "jsonMetadataWriter_Process E prepare flush send ld logsProcessed s =
     (case prepare of
        Inl err \<Rightarrow> (Inl (''failed to prepare tag attrs batch: '' @ err), logsProcessed, [], s)
      | Inr _ \<Rightarrow>
          (case fold (fold (fold (process_log E))) ld (logsProcessed, s\<lparr>typeSet := Map.empty, tagRows := []\<rparr>) of (n, s1) \<Rightarrow>
             (case flush (typeSet s1) of (res, typeRows) \<Rightarrow>
                (case res of Inl err \<Rightarrow> Inl err | Inr _ \<Rightarrow> send (tagRows s1), n, typeRows, s1))))"

section \<open>A walk without caches\<close>

text \<open>
  What a walk collects: the types of paths, and with most of them a value to suggest with its type. The
  second component says that the walk went through.
\<close>

type_synonym event = "string \<times> mask \<times> (Value \<times> string) option"

fun in_turn :: "(event list \<times> bool) list \<Rightarrow> event list \<times> bool" where
  "in_turn [] = ([], True)"
| "in_turn ((evs, went) # rest) = (if went then (evs @ fst (in_turn rest), snd (in_turn rest)) else (evs, False))"

definition is_slice :: "Value \<Rightarrow> bool" where "is_slice v \<longleftrightarrow> value_type v = TypeSlice"

function spec_node :: "('a, 'c, 'q) jsonEnv \<Rightarrow> string \<Rightarrow> Value \<Rightarrow> int \<Rightarrow> event list \<times> bool" where
  "spec_node E path v level =
     (if take 8 path = ''message.'' then ([], True)
      else if path = ''message'' then ([(path, maskString, None)], True)
      else if jsMaxDepthTraverse E < level \<and> is_container v then ([], True)
      else (case v of
          ValueMap m \<Rightarrow>
            (if jsMaxKeysAtLevel E < int (length m) then ([], True)
             else in_turn (map (\<lambda>kv. spec_node E (joinPath path (fst kv)) (snd kv) (2 + level))
                    (filter (\<lambda>kv. \<not> IsCardinal (jsRunes E) (fst kv)) m)))
        | ValueSlice xs \<Rightarrow>
            (if xs = [] \<or> jsMaxArrayElementsAllowed E < int (length xs) then ([], True)
             else (let ts = map value_type (filter (\<lambda>x. x \<noteq> ValueEmpty) xs);
                       own = (if list_ex is_slice xs \<or> ts = [] then []
                              else [([(path, inferArrayMask ts, Some (ValueSlice xs, maskToType (inferArrayMask ts)))], True)])
                   in in_turn (map (\<lambda>x. spec_node E (path @ ''[]'') x level)
                        (filter (\<lambda>x. value_type x = TypeMap) (takeWhile (\<lambda>x. \<not> is_slice x) xs)) @ own)))
        | _ \<Rightarrow> (case leaf_mask v of
              None \<Rightarrow> ([], False)
            | Some m \<Rightarrow> ([(path, m, Some (v, the (mapPCommonValueTypeToDataType (value_type v))))], True))))"
  by pat_completeness auto
termination
proof (relation "measure (\<lambda>(E, path, v, level). size v)", goal_cases)
  case (2 E path v level m kv)
  then have "kv \<in> set m" by simp
  moreover have "size (snd kv) \<le> size_prod (\<lambda>_. 0) size kv" by (cases kv) simp
  ultimately show ?case using 2 size_list_estimation' [of kv m "size (snd kv)" "size_prod (\<lambda>_. 0) size"] by simp
next
  case (3 E path v level xs ts own x)
  then have "x \<in> set xs" by (auto dest: set_takeWhileD)
  then show ?case using 3 size_list_estimation' [of x xs "size x" size] by simp
qed simp

declare spec_node.simps [simp del]

fun suggest :: "('a, 'c, 'q) jsonEnv \<Rightarrow> string \<Rightarrow> Value \<Rightarrow> string \<Rightarrow> string \<Rightarrow> int \<Rightarrow> tagRow list" where
  "suggest E path (ValueStr str) context datatype ms =
     (if str = [] \<or> MaxAttributeValueLength < length str \<or> skipStoringInDB E (MakeKeyForSkipKeys context path) then []
      else [\<lparr>tagMilli = ms, tagPath = path, tagContext = context, tagType = datatype, tagString = Some str, tagNumber = None\<rparr>])"
| "suggest E path (ValueBytes str) context datatype ms =
     (if str = [] \<or> MaxAttributeValueLength < length str \<or> skipStoringInDB E (MakeKeyForSkipKeys context path) then []
      else [\<lparr>tagMilli = ms, tagPath = path, tagContext = context, tagType = datatype, tagString = Some str, tagNumber = None\<rparr>])"
| "suggest E path (ValueInt i) context datatype ms =
     (if skipStoringInDB E (MakeKeyForSkipKeys context path) then []
      else [\<lparr>tagMilli = ms, tagPath = path, tagContext = context, tagType = datatype, tagString = None, tagNumber = Some (float64_of_int i)\<rparr>])"
| "suggest E path (ValueDouble d) context datatype ms =
     (if skipStoringInDB E (MakeKeyForSkipKeys context path) then []
      else [\<lparr>tagMilli = ms, tagPath = path, tagContext = context, tagType = datatype, tagString = None, tagNumber = Some d\<rparr>])"
| "suggest E path (ValueBool b) context datatype ms =
     [\<lparr>tagMilli = ms, tagPath = path, tagContext = context, tagType = datatype, tagString = None, tagNumber = None\<rparr>]"
| "suggest E path (ValueSlice xs) context datatype ms = concat (map (\<lambda>x. suggest E path x context datatype ms) xs)"
| "suggest E path ValueEmpty context datatype ms = []"
| "suggest E path (ValueMap m) context datatype ms = []"

definition event_rows :: "('a, 'c, 'q) jsonEnv \<Rightarrow> string \<Rightarrow> int \<Rightarrow> event list \<Rightarrow> tagRow list" where
  "event_rows E tag ms evs = concat (map (\<lambda>(path, m, val). case val of None \<Rightarrow> []
     | Some (v, datatype) \<Rightarrow> suggest E path v tag datatype ms) evs)"

definition event_types :: "event list \<Rightarrow> types \<Rightarrow> types" where
  "event_types evs t = fold (\<lambda>(path, m, val). types_record path m) evs t"

section \<open>The walk is the one without caches\<close>

locale json_walk = flat_tracker T live L content valid + keyed: lru_provider KL kcontent kvalid
  for T :: "('c, string) ttlcache" and live :: "int \<Rightarrow> 'c \<Rightarrow> (string \<rightharpoonup> nat)"
    and L :: "('q, flat, unit) lru" and content :: "'q \<Rightarrow> (flat \<rightharpoonup> unit)" and valid :: "nat \<Rightarrow> 'q \<Rightarrow> bool"
    and KL :: "('a, string, unit) lru" and kcontent :: "'a \<Rightarrow> (string \<rightharpoonup> unit)" and kvalid :: "nat \<Rightarrow> 'a \<Rightarrow> bool" +
  fixes E :: "('a, 'c, 'q) jsonEnv"
  assumes packages: "jsTtl E = T" "jsLru E = L" "jsKeyLru E = KL"
    and accepts: "jsAppend E rows r = None"
    and fits: "int (jsMaxStringDistinctValues E) \<le> maxInt64"
begin

definition js_ok :: "('a, 'c, 'q) jsonState \<Rightarrow> bool" where
  "js_ok s \<longleftrightarrow> (\<exists>n. kvalid n (cardinalKeyCache s)) \<and> (\<forall>k. kcontent (cardinalKeyCache s) k \<noteq> None \<longrightarrow> \<not> IsCardinal (jsRunes E) k) \<and>
     vt_ok (jsNow E) (int (jsMaxStringDistinctValues E)) (valueTracker s)"

definition adds :: "tagRow list \<Rightarrow> ('a, 'c, 'q) jsonState \<Rightarrow> ('a, 'c, 'q) jsonState \<Rightarrow> bool" where
  "adds rows s s' \<longleftrightarrow> js_ok s' \<and> typeSet s' = typeSet s \<and> tagRows s' = tagRows s @ rows"

lemma check_key_ok:
  assumes "js_ok s" and "check_key E k s = (b, s')"
  shows "b = (\<not> IsCardinal (jsRunes E) k)" and "adds [] s s'"
proof -
  obtain n where n: "kvalid n (cardinalKeyCache s)" using assms(1) by (auto simp: js_ok_def)
  obtain ev q where a: "lru.lruAdd KL k () (cardinalKeyCache s) = (ev, q)" by (cases "lru.lruAdd KL k () (cardinalKeyCache s)")
  have q: "kvalid n q \<and> (\<forall>k'. kcontent q k' \<noteq> None \<longrightarrow> k' = k \<or> kcontent (cardinalKeyCache s) k' \<noteq> None)"
  proof (cases ev)
    case None
    then show ?thesis using keyed.add_room [OF n] a by auto
  next
    case (Some p)
    moreover obtain k' where "p = (k', ())" by (cases p) auto
    ultimately show ?thesis using keyed.add_evict [OF n, of k "()" k' "()" q] a by (auto split: if_splits)
  qed
  show "b = (\<not> IsCardinal (jsRunes E) k)" "adds [] s s'"
    using assms q a keyed.contains [OF n, of k] by (auto simp: check_key_def packages js_ok_def adds_def split: if_splits)
qed

lemma shouldSkipOrTrack_ok:
  assumes "js_ok s" and "shouldSkipOrTrack E path tag (Some x) s = (b, s')"
  shows "b = skipStoringInDB E (MakeKeyForSkipKeys tag path)" and "adds [] s s'"
proof -
  let ?k = "MakeKeyForSkipKeys tag path"
  obtain cnt vt where g: "GetUniqueValueCount T L (jsNow E) ?k (valueTracker s) = (cnt, vt)"
    by (cases "GetUniqueValueCount T L (jsNow E) ?k (valueTracker s)")
  have vt: "vt_ok (jsNow E) (int (jsMaxStringDistinctValues E)) vt" "cnt \<le> jsMaxStringDistinctValues E"
    using GetUniqueValueCount_ok [OF _ g, of "int (jsMaxStringDistinctValues E)"] assms(1) by (auto simp: js_ok_def)
  have lim: "i64 (int (jsMaxStringDistinctValues E)) = int (jsMaxStringDistinctValues E)"
    using fits by (simp add: is_i64_def minInt64_def)
  show "b = skipStoringInDB E ?k" "adds [] s s'"
    using assms g vt AddValue_ok [OF vt(1)]
    by (auto simp: shouldSkipOrTrack_def skipUVT_def Let_def packages lim js_ok_def adds_def split: if_splits)
qed

lemma adds_trans: "adds xs s s' \<Longrightarrow> adds ys s' s'' \<Longrightarrow> adds (xs @ ys) s s''"
  by (simp add: adds_def)

lemma stmt_append_ok: "js_ok s \<Longrightarrow> stmt_append E r s = (res, s') \<Longrightarrow> res = Inr () \<and> adds [r] s s'"
  by (auto simp: stmt_append_def accepts adds_def js_ok_def)

lemma append_tracked_ok:
  assumes "js_ok s"
    and "(case shouldSkipOrTrack E path tag (Some x) s of (True, s1) \<Rightarrow> (Inr (), s1) | (False, s1) \<Rightarrow> stmt_append E r s1) = (res, s')"
  shows "res = Inr () \<and> adds (if skipStoringInDB E (MakeKeyForSkipKeys tag path) then [] else [r]) s s'"
proof -
  obtain b s1 where t: "shouldSkipOrTrack E path tag (Some x) s = (b, s1)" by (cases "shouldSkipOrTrack E path tag (Some x) s")
  note ok = shouldSkipOrTrack_ok [OF assms(1) t]
  show ?thesis
    using assms(2) t ok stmt_append_ok [of s1 r res s'] adds_trans [OF ok(2)]
    by (cases b) (auto simp: adds_def)
qed

lemma append_slice_ok:
  assumes "\<And>x s res s'. x \<in> set xs \<Longrightarrow> js_ok s \<Longrightarrow> appendValue E path x tag dt ms s = (res, s') \<Longrightarrow>
      res = Inr () \<and> adds (suggest E path x tag dt ms) s s'"
    and "js_ok s" and "append_slice E path xs tag dt ms s = (res, s')"
  shows "res = Inr () \<and> adds (concat (map (\<lambda>x. suggest E path x tag dt ms) xs)) s s'"
  using assms
proof (induction xs arbitrary: s)
  case (Cons x xs)
  obtain r1 s1 where a: "appendValue E path x tag dt ms s = (r1, s1)" by (cases "appendValue E path x tag dt ms s")
  have x: "r1 = Inr ()" "adds (suggest E path x tag dt ms) s s1" using Cons.prems(1) [OF _ Cons.prems(2) a] by auto
  have "res = Inr () \<and> adds (concat (map (\<lambda>x. suggest E path x tag dt ms) xs)) s1 s'"
    using Cons.IH [of s1] Cons.prems(1,3) a x by (auto simp: adds_def)
  then show ?case using adds_trans [OF x(2)] by simp
qed (auto simp: adds_def)

lemma appendValue_ok:
  "js_ok s \<Longrightarrow> appendValue E path v tag dt ms s = (res, s') \<Longrightarrow> res = Inr () \<and> adds (suggest E path v tag dt ms) s s'"
proof (induction v arbitrary: s res s')
  case (ValueSlice xs)
  then show ?case using append_slice_ok [of xs path tag dt ms s res s'] by auto
next
  case (ValueStr str)
  then show ?case using append_tracked_ok [OF ValueStr.prems(1), where path = path and tag = tag and x = "FlatString str"]
    by (cases "str = [] \<or> MaxAttributeValueLength < length str") (auto simp: append_text_def adds_def)
next
  case (ValueBytes str)
  then show ?case using append_tracked_ok [OF ValueBytes.prems(1), where path = path and tag = tag and x = "FlatString str"]
    by (cases "str = [] \<or> MaxAttributeValueLength < length str") (auto simp: append_text_def adds_def)
next
  case (ValueInt i)
  then show ?case using append_tracked_ok [OF ValueInt.prems(1), where path = path and tag = tag and x = "FlatFloat (float64_of_int i)"] by (auto simp: append_number_def)
next
  case (ValueDouble d)
  then show ?case using append_tracked_ok [OF ValueDouble.prems(1), where path = path and tag = tag and x = "FlatFloat d"] by (auto simp: append_number_def)
next
  case (ValueBool b)
  then show ?case using stmt_append_ok by auto
qed (auto simp: adds_def)

definition walked :: "event list \<Rightarrow> string \<Rightarrow> int \<Rightarrow> ('a, 'c, 'q) jsonState \<Rightarrow> ('a, 'c, 'q) jsonState \<Rightarrow> bool" where
  "walked evs tag ms s s' \<longleftrightarrow> js_ok s' \<and> typeSet s' = event_types evs (typeSet s) \<and> tagRows s' = tagRows s @ event_rows E tag ms evs"

lemma walked_Nil: "js_ok s \<Longrightarrow> walked [] tag ms s s"
  by (simp add: walked_def event_types_def event_rows_def)

lemma walked_trans: "walked es tag ms s s' \<Longrightarrow> walked es' tag ms s' s'' \<Longrightarrow> walked (es @ es') tag ms s s''"
  by (simp add: walked_def event_types_def event_rows_def)

lemma walked_adds: "adds [] s s1 \<Longrightarrow> walked es tag ms s1 s' \<Longrightarrow> walked es tag ms s s'"
  by (simp add: walked_def adds_def)

lemma recorded:
  assumes "js_ok s" and "appendValue E path v tag dt ms (ta_record path m s) = (res, s')"
  shows "res = Inr () \<and> walked [(path, m, Some (v, dt))] tag ms s s'"
proof -
  have "js_ok (ta_record path m s)" using assms(1) by (simp add: js_ok_def ta_record_def)
  then show ?thesis using appendValue_ok [OF _ assms(2)]
    by (auto simp: walked_def adds_def ta_record_def event_types_def event_rows_def)
qed

lemma in_turn_append:
  "in_turn (xs @ ys) = (if snd (in_turn xs) then (fst (in_turn xs) @ fst (in_turn ys), snd (in_turn ys)) else in_turn xs)"
  by (induction xs rule: in_turn.induct) auto

text \<open>A node does what the specification says.\<close>

definition as_specified :: "string \<Rightarrow> Value \<Rightarrow> bool" where
  "as_specified path v \<longleftrightarrow> (\<forall>level tag ms s res s'. js_ok s \<longrightarrow> walkNode E path v level tag ms s = (res, s') \<longrightarrow>
     walked (fst (spec_node E path v level)) tag ms s s' \<and> (res = Inr () \<longleftrightarrow> snd (spec_node E path v level)))"

lemma as_specifiedD:
  "as_specified path v \<Longrightarrow> js_ok s \<Longrightarrow> walkNode E path v level tag ms s = (res, s') \<Longrightarrow>
     walked (fst (spec_node E path v level)) tag ms s s' \<and> (res = Inr () \<longleftrightarrow> snd (spec_node E path v level))"
  unfolding as_specified_def by blast

lemma walk_children_ok:
  assumes "\<And>k c. (k, c) \<in> set m \<Longrightarrow> as_specified (joinPath path k) c"
    and "js_ok s" and "walk_children E path m level tag ms s = (res, s')"
    and "S = in_turn (map (\<lambda>kv. spec_node E (joinPath path (fst kv)) (snd kv) (level + 1))
               (filter (\<lambda>kv. \<not> IsCardinal (jsRunes E) (fst kv)) m))"
  shows "walked (fst S) tag ms s s' \<and> (res = Inr () \<longleftrightarrow> snd S)"
  using assms
proof (induction m arbitrary: s S)
  case (Cons kc m)
  obtain k c where kc: "kc = (k, c)" by (cases kc)
  obtain b s1 where ck: "check_key E k s = (b, s1)" by (cases "check_key E k s")
  note b = check_key_ok [OF Cons.prems(2) ck]
  have s1: "js_ok s1" using b(2) by (simp add: adds_def)
  show ?case
  proof (cases b)
    case False
    then have "walk_children E path m level tag ms s1 = (res, s')" using Cons.prems(3) kc ck by simp
    then show ?thesis using Cons.IH [OF _ s1 _ refl] Cons.prems(1,4) kc b False walked_adds [OF b(2)] by auto
  next
    case True
    obtain r2 s2 where w: "walkNode E (joinPath path k) c (level + 1) tag ms s1 = (r2, s2)"
      by (cases "walkNode E (joinPath path k) c (level + 1) tag ms s1")
    let ?N = "spec_node E (joinPath path k) c (level + 1)"
    have n: "walked (fst ?N) tag ms s s2" "r2 = Inr () \<longleftrightarrow> snd ?N"
      using as_specifiedD [OF Cons.prems(1) s1 w] kc walked_adds [OF b(2)] by auto
    let ?S = "in_turn (map (\<lambda>kv. spec_node E (joinPath path (fst kv)) (snd kv) (level + 1))
        (filter (\<lambda>kv. \<not> IsCardinal (jsRunes E) (fst kv)) m))"
    have S: "S = (if snd ?N then (fst ?N @ fst ?S, snd ?S) else (fst ?N, False))"
      using Cons.prems(4) kc b True by (cases ?N) simp
    show ?thesis
    proof (cases "snd ?N")
      case True
      then have "walk_children E path m level tag ms s2 = (res, s')" using Cons.prems(3) kc ck \<open>b\<close> w n(2) by simp
      moreover have "js_ok s2" using n(1) by (simp add: walked_def)
      ultimately show ?thesis using Cons.IH [OF _ _ _ refl, of s2] Cons.prems(1) walked_trans [OF n(1)] S True by auto
    next
      case False
      then have "s' = s2" "res = r2" using Cons.prems(3) kc ck \<open>b\<close> w n(2) by (auto split: sum.splits)
      then show ?thesis using n False S by simp
    qed
  qed
qed (simp add: walked_Nil)

lemma walk_elements_ok:
  assumes "\<And>x. x \<in> set xs \<Longrightarrow> as_specified (path @ jsonArraySuffix) x"
    and "js_ok s" and "walk_elements E path xs level tag ms ts s = (res, s')"
    and "S = in_turn (map (\<lambda>x. spec_node E (path @ jsonArraySuffix) x level)
               (filter (\<lambda>x. value_type x = TypeMap) (takeWhile (\<lambda>x. \<not> is_slice x) xs)))"
  shows "walked (fst S) tag ms s s' \<and>
    (if \<not> snd S then \<exists>err. res = Inl err
     else res = Inr (if list_ex is_slice xs then None else Some (ts @ map value_type (filter (\<lambda>x. x \<noteq> ValueEmpty) xs))))"
  using assms
proof (induction xs arbitrary: s S ts)
  case (Cons x xs)
  show ?case
  proof (cases "value_type x = TypeMap")
    case True
    obtain r2 s2 where w: "walkNode E (path @ jsonArraySuffix) x level tag ms s = (r2, s2)"
      by (cases "walkNode E (path @ jsonArraySuffix) x level tag ms s")
    let ?N = "spec_node E (path @ jsonArraySuffix) x level"
    have n: "walked (fst ?N) tag ms s s2" "r2 = Inr () \<longleftrightarrow> snd ?N"
      using as_specifiedD [OF Cons.prems(1) Cons.prems(2) w] by auto
    let ?S = "in_turn (map (\<lambda>x. spec_node E (path @ jsonArraySuffix) x level)
               (filter (\<lambda>x. value_type x = TypeMap) (takeWhile (\<lambda>x. \<not> is_slice x) xs)))"
    have x: "\<not> is_slice x" "x \<noteq> ValueEmpty" using True by (auto simp: is_slice_def)
    have S: "S = (if snd ?N then (fst ?N @ fst ?S, snd ?S) else (fst ?N, False))"
      using Cons.prems(4) True x by (cases ?N) simp
    show ?thesis
    proof (cases "snd ?N")
      case went: True
      then have "walk_elements E path xs level tag ms (ts @ [value_type x]) s2 = (res, s')"
        using Cons.prems(3) True w n(2) by simp
      moreover have "js_ok s2" using n(1) by (simp add: walked_def)
      ultimately show ?thesis
        using Cons.IH [OF _ _ _ refl, of s2 "ts @ [value_type x]"] Cons.prems(1) walked_trans [OF n(1)] S went x by auto
    next
      case False
      then have "s' = s2" "\<exists>err. res = Inl err" using Cons.prems(3) True w n(2) by (auto split: sum.splits)
      then show ?thesis using n False S by simp
    qed
  next
    case False
    consider (inner) "is_slice x" | (null) "x = ValueEmpty" | (leaf) "\<not> is_slice x" "x \<noteq> ValueEmpty" by blast
    then show ?thesis
    proof cases
      case inner
      then have "value_type x = TypeSlice" by (simp add: is_slice_def)
      then show ?thesis using Cons.prems inner walked_Nil by auto
    next
      case null
      then have "walk_elements E path xs level tag ms ts s = (res, s')" "\<not> is_slice x" using Cons.prems(3) by (auto simp: is_slice_def)
      then show ?thesis using Cons.IH [OF _ Cons.prems(2) _ refl, of ts] Cons.prems(1,4) null by simp
    next
      case leaf
      then have "walk_elements E path xs level tag ms (ts @ [value_type x]) s = (res, s')"
        using Cons.prems(3) False by (cases x) (auto simp: is_slice_def)
      then show ?thesis using Cons.IH [OF _ Cons.prems(2) _ refl, of "ts @ [value_type x]"] Cons.prems(1,4) leaf False by simp
    qed
  qed
qed (simp add: walked_Nil)

lemma guard_ok:
  assumes "walkNode E path v level tag ms s = (res, s')" and "js_ok s"
    and "take 8 path = ''message.'' \<or> path = ''message'' \<or> (jsMaxDepthTraverse E < level \<and> is_container v)"
  shows "walked (fst (spec_node E path v level)) tag ms s s' \<and> (res = Inr () \<longleftrightarrow> snd (spec_node E path v level))"
proof -
  have "js_ok (ta_record path maskString s)" using assms(2) by (simp add: js_ok_def ta_record_def)
  then have "walked [(path, maskString, None)] tag ms s (ta_record path maskString s)"
    by (simp add: walked_def ta_record_def event_types_def event_rows_def)
  then have hint: "walked (fst (spec_node E path v level)) tag ms s s' \<and> (res = Inr () \<longleftrightarrow> snd (spec_node E path v level))"
    if "path = ''message''" using that assms(1) by (simp add: walkNode.simps spec_node.simps [of E "''message''"] jsonMessageField_def)
  show ?thesis
  proof (cases "path = ''message''")
    case False
    then show ?thesis using assms walked_Nil [OF assms(2)]
      by (cases "take 8 path = ''message.''") (auto simp: walkNode.simps spec_node.simps [of E path] jsonMessageField_def)
  qed (rule hint)
qed

lemma leaf_ok:
  assumes "walkNode E path v level tag ms s = (res, s')" and "js_ok s"
    and "take 8 path \<noteq> ''message.''" and "path \<noteq> ''message''" and "\<not> is_container v"
  shows "walked (fst (spec_node E path v level)) tag ms s s' \<and> (res = Inr () \<longleftrightarrow> snd (spec_node E path v level))"
  using assms recorded [OF assms(2), of path v tag "the (mapPCommonValueTypeToDataType (value_type v))" ms _ res s'] walked_Nil
  by (cases v) (auto simp: walkNode.simps spec_node.simps [of E path] jsonMessageField_def is_container_def va_record_def
      mapPCommonValueTypeToDataType_def)

lemma leaf_as_specified: "\<not> is_container v \<Longrightarrow> as_specified path v"
  unfolding as_specified_def using guard_ok [of path v] leaf_ok [of path v] by blast

lemma walk_as_specified: "as_specified path v"
proof (induction v arbitrary: path)
  case (ValueMap m)
  have kids: "as_specified (joinPath p k) c" if "(k, c) \<in> set m" for p k c using ValueMap.IH [OF that] by auto
  show ?case unfolding as_specified_def
  proof (intro allI impI)
    fix level tag ms s res s'
    assume s: "js_ok s" and w: "walkNode E path (ValueMap m) level tag ms s = (res, s')"
    show "walked (fst (spec_node E path (ValueMap m) level)) tag ms s s' \<and> (res = Inr () \<longleftrightarrow> snd (spec_node E path (ValueMap m) level))"
    proof (cases "take 8 path = ''message.'' \<or> path = ''message'' \<or> (jsMaxDepthTraverse E < level \<and> is_container (ValueMap m))
        \<or> jsMaxKeysAtLevel E < int (length m)")
      case full: True
      show ?thesis
      proof (cases "take 8 path = ''message.'' \<or> path = ''message'' \<or> (jsMaxDepthTraverse E < level \<and> is_container (ValueMap m))")
        case True
        then show ?thesis by (rule guard_ok [OF w s])
      next
        case False
        then show ?thesis using full w walked_Nil [OF s] by (auto simp: walkNode.simps spec_node.simps [of E path] jsonMessageField_def is_container_def)
      qed
    next
      case False
      then have "walk_children E path m (level + 1) tag ms s = (res, s')" using w by (simp add: walkNode.simps jsonMessageField_def is_container_def)
      from walk_children_ok [OF kids s this refl] show ?thesis using False by (simp add: spec_node.simps [of E path] is_container_def)
    qed
  qed
next
  case (ValueSlice xs)
  show ?case unfolding as_specified_def
  proof (intro allI impI)
    fix level tag ms s res s'
    assume s: "js_ok s" and w: "walkNode E path (ValueSlice xs) level tag ms s = (res, s')"
    let ?N = "spec_node E path (ValueSlice xs) level"
    show "walked (fst ?N) tag ms s s' \<and> (res = Inr () \<longleftrightarrow> snd ?N)"
    proof (cases "take 8 path = ''message.'' \<or> path = ''message'' \<or> (jsMaxDepthTraverse E < level \<and> is_container (ValueSlice xs))
        \<or> xs = [] \<or> jsMaxArrayElementsAllowed E < int (length xs)")
      case full: True
      show ?thesis
      proof (cases "take 8 path = ''message.'' \<or> path = ''message'' \<or> (jsMaxDepthTraverse E < level \<and> is_container (ValueSlice xs))")
        case True
        then show ?thesis by (rule guard_ok [OF w s])
      next
        case False
        then show ?thesis using full w walked_Nil [OF s] by (auto simp: walkNode.simps spec_node.simps [of E path] jsonMessageField_def is_container_def)
      qed
    next
      case False
      let ?S = "in_turn (map (\<lambda>x. spec_node E (path @ jsonArraySuffix) x level)
          (filter (\<lambda>x. value_type x = TypeMap) (takeWhile (\<lambda>x. \<not> is_slice x) xs)))"
      let ?ts = "map value_type (filter (\<lambda>x. x \<noteq> ValueEmpty) xs)"
      let ?own = "if list_ex is_slice xs \<or> ?ts = [] then []
        else [([(path, inferArrayMask ?ts, Some (ValueSlice xs, maskToType (inferArrayMask ?ts)))], True)]"
      obtain r1 s1 where el: "walk_elements E path xs level tag ms [] s = (r1, s1)"
        by (cases "walk_elements E path xs level tag ms [] s")
      have e: "walked (fst ?S) tag ms s s1"
        "if \<not> snd ?S then \<exists>err. r1 = Inl err else r1 = Inr (if list_ex is_slice xs then None else Some ?ts)"
        using walk_elements_ok [OF ValueSlice.IH s el refl] by auto
      have N: "?N = (if snd ?S then (fst ?S @ fst (in_turn ?own), snd (in_turn ?own)) else ?S)"
        using False by (simp add: spec_node.simps [of E path] in_turn_append jsonArraySuffix_def is_container_def Let_def del: filter_empty_conv)
      have w': "(res, s') = (case r1 of Inl err \<Rightarrow> (Inl err, s1) | Inr None \<Rightarrow> (Inr (), s1)
          | Inr (Some ts) \<Rightarrow> (if ts = [] then (Inr (), s1)
             else recordForSlice E path (ValueSlice xs) tag (maskToType (inferArrayMask ts)) ms (ta_record path (inferArrayMask ts) s1)))"
        using w el False by (auto simp: walkNode.simps jsonMessageField_def is_container_def Let_def split: sum.splits option.splits if_splits)
      consider (err) "\<not> snd ?S" | (none) "snd ?S" "list_ex is_slice xs \<or> ?ts = []" | (own) "snd ?S" "\<not> list_ex is_slice xs" "?ts \<noteq> []"
        by blast
      then show ?thesis
      proof cases
        case err
        then show ?thesis using e N w' by auto
      next
        case none
        then have "res = Inr ()" "s' = s1" using e w' by (auto split: if_splits)
        then show ?thesis using none e N by (simp del: filter_empty_conv)
      next
        case own
        then have a: "appendValue E path (ValueSlice xs) tag (maskToType (inferArrayMask ?ts)) ms (ta_record path (inferArrayMask ?ts) s1) = (res, s')"
          using e w' by (simp add: recordForSlice_def del: filter_empty_conv)
        have "js_ok s1" using e(1) by (simp add: walked_def)
        then have "res = Inr ()" "walked [(path, inferArrayMask ?ts, Some (ValueSlice xs, maskToType (inferArrayMask ?ts)))] tag ms s1 s'"
          using recorded [OF _ a] by auto
        then show ?thesis using own N walked_trans [OF e(1)] by (simp del: filter_empty_conv)
      qed
    qed
  qed
qed (rule leaf_as_specified, simp add: is_container_def)+

end

section \<open>Properties\<close>

text \<open>A state as the constructor makes it, with packages that are lists.\<close>

type_synonym list_state = "((string, unit) lru_list, string ttl_list, (flat, unit) lru_list) jsonState"

definition list_env :: "int \<Rightarrow> ((string, unit) lru_list, string ttl_list, (flat, unit) lru_list) jsonEnv" where
  "list_env depth = \<lparr>jsTtl = list_ttl 10, jsLru = list_lru, jsKeyLru = list_lru, jsRunes = map (\<lambda>_. (True, True)), jsNow = 0,
     jsAppend = (\<lambda>rows r. None), jsMaxDepthTraverse = depth, jsMaxArrayElementsAllowed = 4, jsMaxKeysAtLevel = 8,
     jsMaxStringDistinctValues = 2, jsSkipKeys = [''body:b'']\<rparr>"

definition fresh_state :: list_state where
  "fresh_state = \<lparr>cardinalKeyCache = lru.lruNew list_lru 100, valueTracker = NewValueTracker (list_ttl 10) 2, typeSet = Map.empty, tagRows = []\<rparr>"

interpretation list_walk: json_walk "list_ttl 10" list_live list_lru list_content list_valid list_lru list_content list_valid "list_env depth"
  for depth
  by unfold_locales (simp_all add: list_env_def maxInt64_def)

lemma fresh_state_ok: "json_walk.js_ok list_live list_valid list_content list_valid (list_env depth) fresh_state"
proof -
  have "list_valid 100 (lru.lruNew list_lru 100 :: (string, unit) lru_list)" "list_content (lru.lruNew list_lru 100 :: (string, unit) lru_list) = Map.empty"
    using recent.new [of 100] by auto
  then show ?thesis using list_tracker.vt_ok_new [of "jsNow (list_env depth)" 2 10]
    unfolding list_walk.js_ok_def by (auto simp: fresh_state_def list_env_def)
qed



lemma short_key: "key \<in> {''a'', ''b'', ''c''} \<Longrightarrow> \<not> IsCardinal (map (\<lambda>_. (True, True))) key"
  by (auto simp: IsCardinal_def MaxKeyLength_def hasNonAllowedSymbols_def in_range_def ShortKeyLength_def isAlphaLower_def)

text \<open>
  A field that is null stops the walk: the fields before it are recorded, the ones after it are not,
  and the log record is not counted as processed.
\<close>

theorem null_field_stops_walk:
  "spec_node (list_env 22) [] (ValueMap [(''a'', ValueInt 1), (''b'', ValueEmpty), (''c'', ValueBool True)]) 0 =
     ([(''a'', maskInt, Some (ValueInt 1, ''int64''))], False) \<and>
   fst (process_log (list_env 22) \<lparr>jlTimestamp = 1, jlObservedTimestamp = 1,
      jlBody = ValueMap [(''a'', ValueInt 1), (''b'', ValueEmpty), (''c'', ValueBool True)]\<rparr> (0, fresh_state)) = 0"
proof -
  let ?v = "ValueMap [(''a'', ValueInt 1), (''b'', ValueEmpty), (''c'', ValueBool True)]"
  have spec: "spec_node (list_env 22) [] ?v 0 = ([(''a'', maskInt, Some (ValueInt 1, ''int64''))], False)"
    using short_key by (simp add: spec_node.simps list_env_def is_container_def joinPath_def mapPCommonValueTypeToDataType_def)
  obtain res s' where w: "walkNode (list_env 22) [] ?v 0 ''body'' 0 fresh_state = (res, s')"
    by (cases "walkNode (list_env 22) [] ?v 0 ''body'' 0 fresh_state")
  have "res \<noteq> Inr ()"
    using list_walk.as_specifiedD [OF list_walk.walk_as_specified fresh_state_ok w] spec by simp
  then obtain err where "res = Inl err" by (cases res) auto
  moreover have "unix_milli 1 = 0" by (simp add: unix_milli_def)
  ultimately show ?thesis using spec w by (simp add: process_log_def)
qed

end
