(* ===== verification/MetricLabels.thy ===== *)
theory MetricLabels
  imports Fingerprint
begin

text \<open>
  Fingerprints of time series (internal/common/fingerprint): the hash of the attributes of a resource, a
  scope or a data point, which starts from the hash of the level above, and the labels of a series as
  JSON. The type and the text of an attribute value are those the OpenTelemetry library gives; a map of
  attributes is an association list in the order in which it was filled. The hash functions are the ones
  of \<open>Fingerprint\<close>, which this package repeats.
\<close>

datatype ValueType = TypeEmpty | TypeStr | TypeInt | TypeDouble | TypeBool | TypeMap | TypeSlice | TypeBytes

record attrValue =
  DataType :: ValueType
  Val :: string

type_synonym Attributes = "string \<rightharpoonup> attrValue"

definition NewAttributesFromPcommonMap :: "(string \<times> attrValue) list \<Rightarrow> Attributes" where
  "NewAttributesFromPcommonMap attrs = foldl (\<lambda>m (k, v). m(k \<mapsto> v)) Map.empty attrs"

datatype FingerprintType = ResourceFingerprintType | ScopeFingerprintType | PointFingerprintType

fun FingerprintType_String :: "FingerprintType \<Rightarrow> string" where
  "FingerprintType_String ResourceFingerprintType = ''resource''"
| "FingerprintType_String ScopeFingerprintType = ''scope''"
| "FingerprintType_String PointFingerprintType = ''point''"

record Fingerprint =
  fpAttributes :: Attributes
  fpHash :: "64 word"
  fpType :: FingerprintType

definition InitialOffset :: "64 word" where "InitialOffset = 14695981039346656037"

text \<open>\<open>order\<close> is the order in which the language ranges over the map to collect the keys.\<close>

definition hash_attributes :: "(string set \<Rightarrow> string list) \<Rightarrow> 64 word \<Rightarrow> Attributes \<Rightarrow> 64 word" where
  "hash_attributes order offset attributes =
     foldl (\<lambda>hash k.
       (let h1 = hashAdd hash k;
            h2 = hashAddByte h1 separatorByte;
            h3 = hashAdd h2 (case attributes k of None \<Rightarrow> [] | Some v \<Rightarrow> Val v)
        in hashAddByte h3 separatorByte)) offset (sort (order (dom attributes)))"

definition NewFingerprint ::
    "(string set \<Rightarrow> string list) \<Rightarrow> FingerprintType \<Rightarrow> 64 word \<Rightarrow> (string \<times> attrValue) list \<Rightarrow> (string \<times> string) list \<Rightarrow> Fingerprint" where
  "NewFingerprint order typ offset attrs extras =
     (let attributes = foldl (\<lambda>m (k, v). m(k \<mapsto> \<lparr>DataType = TypeStr, Val = v\<rparr>)) (NewAttributesFromPcommonMap attrs) extras
      in \<lparr>fpAttributes = attributes, fpHash = hash_attributes order offset attributes, fpType = typ\<rparr>)"

definition AttributesAsMap :: "Fingerprint \<Rightarrow> (string \<rightharpoonup> string)" where
  "AttributesAsMap f k = map_option Val (fpAttributes f k)"

definition HashWithName :: "string \<Rightarrow> Fingerprint \<Rightarrow> 64 word" where
  "HashWithName name f = hashAdd (hashAddByte (hashAdd (fpHash f) ''__name__'') separatorByte) name"

section \<open>Labels (label.go)\<close>

abbreviation quote_char :: char where "quote_char \<equiv> CHR 0x22"
abbreviation backslash_char :: char where "backslash_char \<equiv> CHR 0x5C"

definition escape_char :: "char \<Rightarrow> string" where
  "escape_char c =
     (if c = backslash_char \<or> c = quote_char then [backslash_char, c]
      else if c = CHR 0x0A then [backslash_char, CHR ''n'']
      else if c = CHR 0x0D then [backslash_char, CHR ''r'']
      else if c = CHR 0x09 then [backslash_char, CHR ''t'']
      else [c])"

definition escape :: "string \<Rightarrow> string" where
  "escape s = concat (map escape_char s)"

text \<open>Every label ends with a comma; the last one is replaced.\<close>

definition label_text :: "string \<Rightarrow> string \<Rightarrow> string" where
  "label_text name v = quote_char # name @ [quote_char, CHR '':'', quote_char] @ escape v @ [quote_char, CHR '','']"

definition marshalLabels :: "(string set \<Rightarrow> string list) \<Rightarrow> (string \<rightharpoonup> string) \<Rightarrow> string" where
  "marshalLabels order attrs =
     (if dom attrs = {} then ''{}''
      else butlast (CHR ''{'' # concat (map (\<lambda>k. label_text k (case attrs k of None \<Rightarrow> [] | Some v \<Rightarrow> v)) (sort (order (dom attrs))))) @ ''}'')"

definition NewLabelsAsJSONString :: "(string set \<Rightarrow> string list) \<Rightarrow> string \<Rightarrow> (string \<rightharpoonup> string) list \<Rightarrow> string" where
  "NewLabelsAsJSONString order name ms =
     marshalLabels order ((foldl (++) Map.empty ms)(''__name__'' \<mapsto> name))"

section \<open>The hash of a series\<close>

definition enumerates :: "(string set \<Rightarrow> string list) \<Rightarrow> bool" where
  "enumerates order \<longleftrightarrow> (\<forall>A. finite A \<longrightarrow> distinct (order A) \<and> set (order A) = A)"

lemma sort_enumerated: "enumerates order \<Longrightarrow> finite A \<Longrightarrow> sort (order A) = sorted_list_of_set A"
  unfolding enumerates_def by (metis sorted_list_of_set_sort_remdups distinct_remdups_id)

lemma fold_upd_finite: "finite (dom m) \<Longrightarrow> finite (dom (foldl (\<lambda>m (k, v). m(k \<mapsto> g v)) m xs))"
  by (induction xs arbitrary: m) auto

lemma NewFingerprint_finite: "finite (dom (fpAttributes (NewFingerprint order typ offset attrs extras)))"
  using fold_upd_finite [where g = "\<lambda>v. v" and m = Map.empty and xs = attrs]
  by (simp add: NewFingerprint_def NewAttributesFromPcommonMap_def Let_def fold_upd_finite)

lemma hash_attributes_text:
  assumes "enumerates order" and "finite (dom attributes)"
  shows "hash_attributes order offset attributes = fnv_from offset (map of_char (attributes_text Val attributes))"
  by (simp add: hash_attributes_def Let_def pairs_hash attributes_text_def sort_enumerated [OF assms])

text \<open>What is hashed for a series: the attributes of the three levels and the name.\<close>

definition series_text :: "Attributes \<Rightarrow> Attributes \<Rightarrow> Attributes \<Rightarrow> string \<Rightarrow> string" where
  "series_text resource scope point name =
     attributes_text Val resource @ attributes_text Val scope @ attributes_text Val point @ ''__name__'' @ [separator] @ name"

text \<open>
  C36. The fingerprint of a series is the FNV-1a hash of one text, whatever the orders in which maps are
  ranged over: the attributes of the resource, of the scope and of the point, each sorted by key, and
  the name of the metric.
\<close>

theorem series_fingerprint_text:
  assumes "enumerates order"
    and "resource = NewFingerprint order ResourceFingerprintType InitialOffset rattrs []"
    and "scope = NewFingerprint order ScopeFingerprintType (fpHash resource) sattrs sextras"
    and "point = NewFingerprint order PointFingerprintType (fpHash scope) pattrs pextras"
  shows "HashWithName name point =
    fnv64a (map of_char (series_text (fpAttributes resource) (fpAttributes scope) (fpAttributes point) name))"
proof -
  have h: "fpHash (NewFingerprint order ty offset attrs extras) =
      fnv_from offset (map of_char (attributes_text Val (fpAttributes (NewFingerprint order ty offset attrs extras))))"
    for ty offset attrs extras
    using hash_attributes_text [OF assms(1) NewFingerprint_finite, of offset order ty offset attrs extras]
    by (simp add: NewFingerprint_def Let_def)
  have "fpHash point = fnv_from InitialOffset (map of_char (attributes_text Val (fpAttributes resource)
      @ attributes_text Val (fpAttributes scope) @ attributes_text Val (fpAttributes point)))"
    using h [of ResourceFingerprintType InitialOffset rattrs "[]"] h [of ScopeFingerprintType "fpHash resource" sattrs sextras]
      h [of PointFingerprintType "fpHash scope" pattrs pextras]
    unfolding assms(2) [symmetric] assms(3) [symmetric] assms(4) [symmetric] by (simp only: map_append fnv_from_append)
  moreover have "fnv64a bs = fnv_from InitialOffset bs" for bs by (simp add: fnv64a_def fnv_from_def InitialOffset_def)
  ultimately show ?thesis
    by (simp only: HashWithName_def series_text_def hashAdd_fnv hashAddByte_fnv fnv_from_append map_append)
qed

theorem series_fingerprint_text_witness:
  "HashWithName ''m'' (NewFingerprint sorted_list_of_set PointFingerprintType
       (fpHash (NewFingerprint sorted_list_of_set ScopeFingerprintType
         (fpHash (NewFingerprint sorted_list_of_set ResourceFingerprintType InitialOffset [(''r'', \<lparr>DataType = TypeStr, Val = ''1''\<rparr>)] []))
         [] [(''s'', ''2'')])) [] [(''le'', ''3'')]) =
     fnv64a (map of_char (series_text
       (fpAttributes (NewFingerprint sorted_list_of_set ResourceFingerprintType InitialOffset [(''r'', \<lparr>DataType = TypeStr, Val = ''1''\<rparr>)] []))
       (fpAttributes (NewFingerprint sorted_list_of_set ScopeFingerprintType
         (fpHash (NewFingerprint sorted_list_of_set ResourceFingerprintType InitialOffset [(''r'', \<lparr>DataType = TypeStr, Val = ''1''\<rparr>)] []))
         [] [(''s'', ''2'')]))
       (fpAttributes (NewFingerprint sorted_list_of_set PointFingerprintType
         (fpHash (NewFingerprint sorted_list_of_set ScopeFingerprintType
           (fpHash (NewFingerprint sorted_list_of_set ResourceFingerprintType InitialOffset [(''r'', \<lparr>DataType = TypeStr, Val = ''1''\<rparr>)] []))
           [] [(''s'', ''2'')])) [] [(''le'', ''3'')])) ''m''))"
  by (rule series_fingerprint_text [of sorted_list_of_set]) (simp_all add: enumerates_def)

section \<open>Reading labels back\<close>

text \<open>A reader of the labels: a value ends at a quote that is not escaped.\<close>

definition unescape_char :: "char \<Rightarrow> char" where
  "unescape_char c = (if c = CHR ''n'' then CHR 0x0A else if c = CHR ''r'' then CHR 0x0D else if c = CHR ''t'' then CHR 0x09 else c)"

fun read_value :: "string \<Rightarrow> (string \<times> string) option" where
  "read_value [] = None"
| "read_value (c # s) =
     (if c = quote_char then Some ([], s)
      else if c = backslash_char then
        (case s of [] \<Rightarrow> None | e # s' \<Rightarrow> map_option (\<lambda>(v, r). (unescape_char e # v, r)) (read_value s'))
      else map_option (\<lambda>(v, r). (c # v, r)) (read_value s))"

text \<open>\<open>"name":"value"\<close> followed by a comma and further labels, or by the closing brace.\<close>

fun read_labels :: "nat \<Rightarrow> string \<Rightarrow> (string \<times> string) list option" where
  "read_labels 0 s = None"
| "read_labels (Suc n) s =
     (let name = takeWhile (\<lambda>c. c \<noteq> quote_char) (tl s); rest = drop (length name + 1) s in
      if take 1 s = [quote_char] \<and> take 3 rest = [quote_char, CHR '':'', quote_char] then
        (case read_value (drop 3 rest) of
           None \<Rightarrow> None
         | Some (v, r) \<Rightarrow>
             (if r = ''}'' then Some [(name, v)]
              else if take 1 r = '','' then map_option ((#) (name, v)) (read_labels n (tl r))
              else None))
      else None)"

definition parse_labels :: "string \<Rightarrow> (string \<times> string) list option" where
  "parse_labels s = (if s = ''{}'' then Some [] else if take 1 s = ''{'' then read_labels (length s) (tl s) else None)"

lemma read_value_escape: "read_value (escape v @ quote_char # r) = Some (v, r)"
  by (induction v) (auto simp: escape_def escape_char_def unescape_char_def)

lemma label_text_length: "length (label_text k v) > 0"
  by (simp add: label_text_def)

lemma read_labels_text:
  assumes "ps \<noteq> []" and "\<And>k v. (k, v) \<in> set ps \<Longrightarrow> quote_char \<notin> set k" and "length ps \<le> n"
  shows "read_labels n (butlast (concat (map (\<lambda>(k, v). label_text k v) ps)) @ ''}'') = Some ps"
  using assms
proof (induction ps arbitrary: n)
  case (Cons p ps)
  obtain k v where p: "p = (k, v)" by (cases p)
  obtain n' where n: "n = Suc n'" using Cons.prems(3) by (cases n) auto
  have k: "takeWhile (\<lambda>c. c \<noteq> quote_char) (k @ quote_char # r) = k" for r
    using Cons.prems(2) p by (subst takeWhile_append2) auto
  let ?body = "\<lambda>r. quote_char # k @ [quote_char, CHR '':'', quote_char] @ escape v @ quote_char # r"
  have step: "read_labels n (?body r) = (if r = ''}'' then Some [(k, v)]
      else if take 1 r = '','' then map_option ((#) (k, v)) (read_labels n' (tl r)) else None)" for r
    using k by (simp add: n read_value_escape)
  show ?case
  proof (cases "ps = []")
    case True
    then have "butlast (concat (map (\<lambda>(k, v). label_text k v) (p # ps))) @ ''}'' = ?body ''}''"
      by (simp add: p label_text_def butlast_append)
    then show ?thesis using step True p by simp
  next
    case False
    then obtain k1 v1 ps1 where "ps = (k1, v1) # ps1" by (cases ps) auto
    then have ne: "concat (map (\<lambda>(k, v). label_text k v) ps) \<noteq> []" by (simp add: label_text_def)
    then have "butlast (concat (map (\<lambda>(k, v). label_text k v) (p # ps))) @ ''}'' =
        ?body (CHR '','' # butlast (concat (map (\<lambda>(k, v). label_text k v) ps)) @ ''}'')"
      by (simp add: p label_text_def butlast_append)
    moreover have "read_labels n' (butlast (concat (map (\<lambda>(k, v). label_text k v) ps)) @ ''}'') = Some ps"
      using Cons.prems n False by (intro Cons.IH) auto
    ultimately show ?thesis using step p by simp
  qed
qed simp

lemma parse_labels_read:
  assumes "read_labels (length (CHR ''{'' # b @ ''}'')) (b @ ''}'') = Some ps"
  shows "parse_labels (CHR ''{'' # b @ ''}'') = Some ps"
proof (cases b)
  case Nil
  then show ?thesis using assms by simp
next
  case (Cons c cs)
  then show ?thesis using assms by (simp add: parse_labels_def del: read_labels.simps)
qed



text \<open>
  Names are not escaped: one label whose name contains quotes is printed like two labels.
\<close>

theorem labels_ambiguous:
  "marshalLabels sorted_list_of_set [''a'' @ [quote_char] @ '':'' @ [quote_char] @ ''b'' @ [quote_char] @ '','' @ [quote_char] @ ''c'' \<mapsto> ''d''] =
   marshalLabels sorted_list_of_set [''a'' \<mapsto> ''b'', ''c'' \<mapsto> ''d'']"
proof -
  have "sorted_list_of_set {''c'', ''a''} = [''a'', ''c'']"
    using sorted_list_of_set_sort_remdups [of "[''c'', ''a'']"] by simp
  then show ?thesis
    by (simp add: marshalLabels_def label_text_def escape_def escape_char_def insert_commute)
qed

end
