(* ===== verification/MetricsExporter.thy ===== *)
theory MetricsExporter
  imports MetricLabels MetadataCache Go_Float
begin

text \<open>
  The exporter of metrics (exporter/o11ydatastoremetrics: batch.go and exporter.go): every data point
  becomes samples, a time series for each, and metadata on the attributes; a batch is written to four
  tables, and a cache keeps series from being written again within the hour.

  The record \<open>metricLib\<close> holds what the source takes from elsewhere: the names of temporalities, the
  formatting of numbers, the base of a sketch, the clock, and the order in which maps are ranged over. A
  statement of the database is the list of rows appended to it; appending and sending may fail. The four
  tables are written concurrently and share nothing; here they are written one after the other.
\<close>

section \<open>Data\<close>

datatype go_float = NaN | Infinite bool | Finite rat

definition float_of_uint :: "64 word \<Rightarrow> go_float" where
  "float_of_uint w = Finite (round_prec 53 (of_nat (unat w)))"

definition float_of_int :: "int \<Rightarrow> go_float" where
  "float_of_int i = Finite (round_prec 53 (of_int i))"

datatype AggregationTemporality = Unspecified | Delta | Cumulative

datatype MetricType = MetricTypeEmpty | MetricTypeGauge | MetricTypeSum | MetricTypeHistogram
  | MetricTypeExponentialHistogram | MetricTypeSummary

record metricLib =
  mlOrder :: "string set \<Rightarrow> string list"
  mlTemporality :: "AggregationTemporality \<Rightarrow> string"
  mlFormat :: "go_float \<Rightarrow> string"
  mlGamma :: "int \<Rightarrow> go_float"
  mlNow :: int

record sample =
  sEnv :: string
  sTemporality :: AggregationTemporality
  sMetricName :: string
  sFingerprint :: "64 word"
  sUnixMilli :: int
  sValue :: go_float
  sFlags :: "32 word"

record Store =
  ContiguousBinIndexOffset :: int
  ContiguousBinCounts :: "go_float list"

record DD =
  Gamma :: go_float
  PositiveValues :: Store
  NegativeValues :: Store
  ZeroCount :: go_float

record exponentialHistogramSample =
  eEnv :: string
  eTemporality :: AggregationTemporality
  eMetricName :: string
  eFingerprint :: "64 word"
  eUnixMilli :: int
  eSketch :: DD
  eCount :: go_float
  eSum :: go_float
  eMin :: go_float
  eMax :: go_float
  eFlags :: "32 word"

record ts =
  tEnv :: string
  tTemporality :: AggregationTemporality
  tMetricName :: string
  tDescription :: string
  tUnit :: string
  tTyp :: MetricType
  tIsMonotonic :: bool
  tFingerprint :: "64 word"
  tUnixMilli :: int
  tLabels :: string
  tAttrs :: "string \<rightharpoonup> string"
  tScopeAttrs :: "string \<rightharpoonup> string"
  tResourceAttrs :: "string \<rightharpoonup> string"

record metadata =
  mMetricName :: string
  mTemporality :: AggregationTemporality
  mDescription :: string
  mUnit :: string
  mTyp :: MetricType
  mIsMonotonic :: bool
  mAttrName :: string
  mAttrType :: string
  mAttrDatatype :: ValueType
  mAttrStringValue :: string
  mFirstReportedUnixMilli :: int
  mLastReportedUnixMilli :: int

section \<open>Batches (batch.go)\<close>

record batch =
  samples :: "sample list"
  expHist :: "exponentialHistogramSample list"
  series :: "ts list"
  metas :: "metadata list"

definition newBatch :: batch where
  "newBatch = \<lparr>samples = [], expHist = [], series = [], metas = []\<rparr>"

text \<open>What the five calls for a metric have in common: its name, description and unit.\<close>

record header =
  hName :: string
  hDescription :: string
  hUnit :: string

definition addMetadata ::
    "metricLib \<Rightarrow> string \<Rightarrow> string \<Rightarrow> string \<Rightarrow> MetricType \<Rightarrow> AggregationTemporality \<Rightarrow> bool \<Rightarrow> Fingerprint \<Rightarrow> int \<Rightarrow> int \<Rightarrow> batch \<Rightarrow> batch" where
  "addMetadata X name desc unt typ temporality isMonotonic f firstSeen lastSeen b =
     (let first = (if firstSeen = maxInt64 then mlNow X else firstSeen);
          last = (if firstSeen = maxInt64 then mlNow X else lastSeen)
      in b\<lparr>metas := metas b @ List.map_filter (\<lambda>key. map_option (\<lambda>v.
           \<lparr>mMetricName = name, mTemporality = temporality, mDescription = desc, mUnit = unt, mTyp = typ,
            mIsMonotonic = isMonotonic, mAttrName = key, mAttrType = FingerprintType_String (fpType f),
            mAttrDatatype = DataType v, mAttrStringValue = Val v,
            mFirstReportedUnixMilli = first, mLastReportedUnixMilli = last\<rparr>) (fpAttributes f key))
           (mlOrder X (dom (fpAttributes f)))\<rparr>)"

definition addSample :: "sample \<Rightarrow> batch \<Rightarrow> batch" where
  "addSample s b = b\<lparr>samples := samples b @ [s]\<rparr>"

definition addTs :: "ts \<Rightarrow> batch \<Rightarrow> batch" where
  "addTs t b = b\<lparr>series := series b @ [t]\<rparr>"

definition addExpHist :: "exponentialHistogramSample \<Rightarrow> batch \<Rightarrow> batch" where
  "addExpHist e b = b\<lparr>expHist := expHist b @ [e]\<rparr>"

section \<open>Data points (exporter.go)\<close>

definition countSuffix :: string where "countSuffix = ''.count''"
definition sumSuffix :: string where "sumSuffix = ''.sum''"
definition minSuffix :: string where "minSuffix = ''.min''"
definition maxSuffix :: string where "maxSuffix = ''.max''"
definition bucketSuffix :: string where "bucketSuffix = ''.bucket''"
definition quantilesSuffix :: string where "quantilesSuffix = ''.quantile''"

text \<open>The levels above a data point.\<close>

record level =
  lvEnv :: string
  lvResource :: Fingerprint
  lvScope :: Fingerprint

definition point_fingerprint :: "metricLib \<Rightarrow> level \<Rightarrow> (string \<times> attrValue) list \<Rightarrow> (string \<times> string) list \<Rightarrow> Fingerprint" where
  "point_fingerprint X lv attrs extras = NewFingerprint (mlOrder X) PointFingerprintType (fpHash (lvScope lv)) attrs extras"

text \<open>\<open>point_ts\<close> is the literal of a time series, \<open>add_point\<close> the three calls that follow each other.\<close>

definition point_ts ::
    "metricLib \<Rightarrow> level \<Rightarrow> string \<Rightarrow> string \<Rightarrow> string \<Rightarrow> MetricType \<Rightarrow> AggregationTemporality \<Rightarrow> bool \<Rightarrow> Fingerprint \<Rightarrow> int \<Rightarrow> ts" where
  "point_ts X lv name desc unt typ temporality isMonotonic f unixMilli =
     \<lparr>tEnv = lvEnv lv, tTemporality = temporality, tMetricName = name, tDescription = desc, tUnit = unt, tTyp = typ,
      tIsMonotonic = isMonotonic, tFingerprint = HashWithName name f, tUnixMilli = unixMilli,
      tLabels = NewLabelsAsJSONString (mlOrder X) name [AttributesAsMap f, AttributesAsMap (lvScope lv), AttributesAsMap (lvResource lv)],
      tAttrs = AttributesAsMap f, tScopeAttrs = AttributesAsMap (lvScope lv), tResourceAttrs = AttributesAsMap (lvResource lv)\<rparr>"

definition add_point ::
    "metricLib \<Rightarrow> level \<Rightarrow> string \<Rightarrow> string \<Rightarrow> string \<Rightarrow> MetricType \<Rightarrow> AggregationTemporality \<Rightarrow> bool \<Rightarrow> Fingerprint \<Rightarrow> int \<Rightarrow> go_float \<Rightarrow> 32 word
     \<Rightarrow> batch \<Rightarrow> batch" where
  "add_point X lv name desc unt typ temporality isMonotonic f unixMilli v flags b =
     addTs (point_ts X lv name desc unt typ temporality isMonotonic f unixMilli)
       (addMetadata X name desc unt typ temporality isMonotonic f unixMilli unixMilli
         (addSample \<lparr>sEnv = lvEnv lv, sTemporality = temporality, sMetricName = name, sFingerprint = HashWithName name f,
            sUnixMilli = unixMilli, sValue = v, sFlags = flags\<rparr> b))"

text \<open>The metadata of the resource and the scope, which follow the data points.\<close>

definition add_levels ::
    "metricLib \<Rightarrow> level \<Rightarrow> string \<Rightarrow> header \<Rightarrow> MetricType \<Rightarrow> AggregationTemporality \<Rightarrow> bool \<Rightarrow> int \<times> int \<Rightarrow> batch \<Rightarrow> batch" where
  "add_levels X lv suffix h typ temporality isMonotonic seen b =
     addMetadata X (hName h @ suffix) (hDescription h) (hUnit h) typ temporality isMonotonic (lvScope lv) (fst seen) (snd seen)
       (addMetadata X (hName h @ suffix) (hDescription h) (hUnit h) typ temporality isMonotonic (lvResource lv) (fst seen) (snd seen) b)"

definition unix_milli :: "64 word \<Rightarrow> int" where
  "unix_milli t = sint t div 1000000"

text \<open>The times of the first and the last point seen; a loop over points starts with \<open>never_seen\<close>.\<close>

definition never_seen :: "int \<times> int" where "never_seen = (maxInt64, 0)"

definition note_seen :: "64 word \<Rightarrow> int \<times> int \<Rightarrow> int \<times> int" where
  "note_seen t seen = (min (fst seen) (unix_milli t), max (snd seen) (unix_milli t))"

datatype NumberValue = NumberEmpty | NumberInt int | NumberDouble go_float

fun number_value :: "NumberValue \<Rightarrow> go_float" where
  "number_value NumberEmpty = Finite 0"
| "number_value (NumberInt i) = float_of_int i"
| "number_value (NumberDouble d) = d"

record numberPoint =
  npAttrs :: "(string \<times> attrValue) list"
  npTime :: "64 word"
  npValue :: NumberValue
  npFlags :: "32 word"

definition number_point ::
    "metricLib \<Rightarrow> level \<Rightarrow> header \<Rightarrow> MetricType \<Rightarrow> AggregationTemporality \<Rightarrow> bool \<Rightarrow> numberPoint \<Rightarrow> batch \<Rightarrow> batch" where
  "number_point X lv h typ temporality isMonotonic dp b =
     (if number_value (npValue dp) = NaN then b
      else add_point X lv (hName h) (hDescription h) (hUnit h) typ temporality isMonotonic
             (point_fingerprint X lv (npAttrs dp) [(''__temporality__'', mlTemporality X temporality)])
             (unix_milli (npTime dp)) (number_value (npValue dp)) (npFlags dp) b)"

definition processGauge :: "metricLib \<Rightarrow> level \<Rightarrow> header \<Rightarrow> numberPoint list \<Rightarrow> batch \<Rightarrow> batch" where
  "processGauge X lv h dps b =
     add_levels X lv [] h MetricTypeGauge Unspecified False (fold (\<lambda>dp. note_seen (npTime dp)) dps never_seen)
       (fold (number_point X lv h MetricTypeGauge Unspecified False) dps b)"

definition processSum :: "metricLib \<Rightarrow> level \<Rightarrow> header \<Rightarrow> AggregationTemporality \<Rightarrow> bool \<Rightarrow> numberPoint list \<Rightarrow> batch \<Rightarrow> batch" where
  "processSum X lv h temporality isMonotonic dps b =
     add_levels X lv [] h MetricTypeSum temporality isMonotonic (fold (\<lambda>dp. note_seen (npTime dp)) dps never_seen)
       (fold (number_point X lv h MetricTypeSum temporality isMonotonic) dps b)"

record histPoint =
  hpAttrs :: "(string \<times> attrValue) list"
  hpTime :: "64 word"
  hpCount :: "64 word"
  hpSum :: go_float
  hpHasSum :: bool
  hpMin :: go_float
  hpHasMin :: bool
  hpMax :: go_float
  hpHasMax :: bool
  hpFlags :: "32 word"

record bucketPoint = histPoint +
  hpExplicitBounds :: "go_float list"
  hpBucketCounts :: "64 word list"

text \<open>The switch on the suffix: the value, the type, the unit and the temporality of the sample.\<close>

definition sample_kind ::
    "string \<Rightarrow> header \<Rightarrow> MetricType \<Rightarrow> AggregationTemporality \<Rightarrow> 'a histPoint_scheme \<Rightarrow> go_float \<times> MetricType \<times> string \<times> AggregationTemporality" where
  "sample_kind suffix h typ temporality dp =
     (if suffix = countSuffix then (float_of_uint (hpCount dp), MetricTypeSum, ''1'', temporality)
      else if suffix = sumSuffix then (hpSum dp, MetricTypeSum, hUnit h, temporality)
      else if suffix = minSuffix then (hpMin dp, MetricTypeGauge, hUnit h, Unspecified)
      else if suffix = maxSuffix then (hpMax dp, MetricTypeGauge, hUnit h, Unspecified)
      else (Finite 0, typ, hUnit h, temporality))"

definition histogram_sample ::
    "metricLib \<Rightarrow> level \<Rightarrow> header \<Rightarrow> AggregationTemporality \<Rightarrow> bucketPoint \<Rightarrow> string \<Rightarrow> batch \<Rightarrow> batch" where
  "histogram_sample X lv h temporality dp suffix b =
     (case sample_kind suffix h MetricTypeHistogram temporality dp of (v, sampleTyp, sampleUnit, sampleTemporality) \<Rightarrow>
        add_point X lv (hName h @ suffix) (hDescription h) sampleUnit sampleTyp sampleTemporality True
          (point_fingerprint X lv (hpAttrs dp) [(''__temporality__'', mlTemporality X sampleTemporality)])
          (unix_milli (hpTime dp)) v (hpFlags dp) b)"

definition add_bucket ::
    "metricLib \<Rightarrow> level \<Rightarrow> header \<Rightarrow> AggregationTemporality \<Rightarrow> bucketPoint \<Rightarrow> string \<Rightarrow> string \<Rightarrow> go_float \<Rightarrow> batch \<Rightarrow> batch" where
  "add_bucket X lv h temporality dp suffix le v b =
     add_point X lv (hName h @ suffix) (hDescription h) (hUnit h) MetricTypeHistogram temporality True
       (point_fingerprint X lv (hpAttrs dp) [(''le'', le), (''__temporality__'', mlTemporality X temporality)])
       (unix_milli (hpTime dp)) v (hpFlags dp) b"

text \<open>The loop ends with the shorter of bounds and counts; the sum of the counts wraps.\<close>

fun bucket_loop ::
    "metricLib \<Rightarrow> level \<Rightarrow> header \<Rightarrow> AggregationTemporality \<Rightarrow> bucketPoint \<Rightarrow> string \<Rightarrow> go_float list \<Rightarrow> 64 word list \<Rightarrow> 64 word \<Rightarrow> batch \<Rightarrow> batch" where
  "bucket_loop X lv h temporality dp suffix (bound # bounds) (cnt # counts) cumulativeCount b =
     bucket_loop X lv h temporality dp suffix bounds counts (cumulativeCount + cnt)
       (add_bucket X lv h temporality dp suffix (mlFormat X bound) (float_of_uint (cumulativeCount + cnt)) b)"
| "bucket_loop X lv h temporality dp suffix bounds counts cumulativeCount b = b"

definition bucket_samples ::
    "metricLib \<Rightarrow> level \<Rightarrow> header \<Rightarrow> AggregationTemporality \<Rightarrow> bucketPoint \<Rightarrow> string \<Rightarrow> batch \<Rightarrow> batch" where
  "bucket_samples X lv h temporality dp suffix b =
     add_bucket X lv h temporality dp suffix ''+Inf'' (float_of_uint (hpCount dp))
       (bucket_loop X lv h temporality dp suffix (hpExplicitBounds dp) (hpBucketCounts dp) 0 b)"

definition histogram_point :: "metricLib \<Rightarrow> level \<Rightarrow> header \<Rightarrow> AggregationTemporality \<Rightarrow> bucketPoint \<Rightarrow> batch \<Rightarrow> batch" where
  "histogram_point X lv h temporality dp b =
     (if hpSum dp = NaN \<or> hpMin dp = NaN \<or> hpMax dp = NaN then b
      else
        (let b1 = histogram_sample X lv h temporality dp countSuffix b;
             b2 = (if hpHasSum dp then histogram_sample X lv h temporality dp sumSuffix b1 else b1);
             b3 = (if hpHasMin dp then histogram_sample X lv h temporality dp minSuffix b2 else b2);
             b4 = (if hpHasMax dp then histogram_sample X lv h temporality dp maxSuffix b3 else b3)
         in bucket_samples X lv h temporality dp bucketSuffix b4))"

definition processHistogram :: "metricLib \<Rightarrow> level \<Rightarrow> header \<Rightarrow> AggregationTemporality \<Rightarrow> bucketPoint list \<Rightarrow> batch \<Rightarrow> batch" where
  "processHistogram X lv h temporality dps b =
     (let seen = fold (\<lambda>dp. note_seen (hpTime dp)) dps never_seen
      in add_levels X lv bucketSuffix h MetricTypeHistogram temporality True seen
           (add_levels X lv maxSuffix h MetricTypeGauge Unspecified True seen
             (add_levels X lv minSuffix h MetricTypeGauge Unspecified True seen
               (add_levels X lv sumSuffix h MetricTypeSum temporality True seen
                 (add_levels X lv countSuffix h MetricTypeSum temporality True seen
                   (fold (histogram_point X lv h temporality) dps b))))))"

record summaryPoint =
  spAttrs :: "(string \<times> attrValue) list"
  spTime :: "64 word"
  spCount :: "64 word"
  spSum :: go_float
  spQuantiles :: "(go_float \<times> go_float) list"
  spFlags :: "32 word"

definition summary_sample :: "metricLib \<Rightarrow> level \<Rightarrow> header \<Rightarrow> summaryPoint \<Rightarrow> string \<Rightarrow> batch \<Rightarrow> batch" where
  "summary_sample X lv h dp suffix b =
     (case (if suffix = countSuffix then (float_of_uint (spCount dp), MetricTypeSum, ''1'')
            else if suffix = sumSuffix then (spSum dp, MetricTypeSum, hUnit h)
            else (Finite 0, MetricTypeSummary, hUnit h)) of (v, sampleTyp, sampleUnit) \<Rightarrow>
        add_point X lv (hName h @ suffix) (hDescription h) sampleUnit sampleTyp Cumulative True
          (point_fingerprint X lv (spAttrs dp) [(''__temporality__'', mlTemporality X Cumulative)])
          (unix_milli (spTime dp)) v (spFlags dp) b)"

definition quantile_sample :: "metricLib \<Rightarrow> level \<Rightarrow> header \<Rightarrow> summaryPoint \<Rightarrow> string \<Rightarrow> go_float \<times> go_float \<Rightarrow> batch \<Rightarrow> batch" where
  "quantile_sample X lv h dp suffix q b =
     add_point X lv (hName h @ suffix) (hDescription h) (hUnit h) MetricTypeSummary Cumulative True
       (point_fingerprint X lv (spAttrs dp) [(''quantile'', mlFormat X (fst q)), (''__temporality__'', mlTemporality X Cumulative)])
       (unix_milli (spTime dp)) (snd q) (spFlags dp) b"

definition summary_point :: "metricLib \<Rightarrow> level \<Rightarrow> header \<Rightarrow> summaryPoint \<Rightarrow> batch \<Rightarrow> batch" where
  "summary_point X lv h dp b =
     (if spSum dp = NaN \<or> list_ex (\<lambda>q. snd q = NaN) (spQuantiles dp) then b
      else fold (quantile_sample X lv h dp quantilesSuffix) (spQuantiles dp)
             (summary_sample X lv h dp sumSuffix (summary_sample X lv h dp countSuffix b)))"

definition processSummary :: "metricLib \<Rightarrow> level \<Rightarrow> header \<Rightarrow> summaryPoint list \<Rightarrow> batch \<Rightarrow> batch" where
  "processSummary X lv h dps b =
     (let seen = fold (\<lambda>dp. note_seen (spTime dp)) dps never_seen
      in add_levels X lv quantilesSuffix h MetricTypeSummary Cumulative True seen
           (add_levels X lv sumSuffix h MetricTypeSum Cumulative True seen
             (add_levels X lv countSuffix h MetricTypeSum Cumulative True seen
               (fold (summary_point X lv h) dps b))))"

record expPoint = histPoint +
  hpScale :: int
  hpZeroCount :: "64 word"
  hpPositive :: "int \<times> 64 word list"
  hpNegative :: "int \<times> 64 word list"

text \<open>The fingerprint of a sample carries the temporality of the histogram, not the one of the sample.\<close>

definition exp_sample ::
    "metricLib \<Rightarrow> level \<Rightarrow> header \<Rightarrow> AggregationTemporality \<Rightarrow> expPoint \<Rightarrow> string \<Rightarrow> batch \<Rightarrow> batch" where
  "exp_sample X lv h temporality dp suffix b =
     (case sample_kind suffix h MetricTypeExponentialHistogram temporality dp of (v, sampleTyp, sampleUnit, sampleTemporality) \<Rightarrow>
        add_point X lv (hName h @ suffix) (hDescription h) sampleUnit sampleTyp sampleTemporality True
          (point_fingerprint X lv (hpAttrs dp) [(''__temporality__'', mlTemporality X temporality)])
          (unix_milli (hpTime dp)) v (hpFlags dp) b)"

definition toStore :: "int \<times> 64 word list \<Rightarrow> Store" where
  "toStore buckets = \<lparr>ContiguousBinIndexOffset = fst buckets, ContiguousBinCounts = map float_of_uint (snd buckets)\<rparr>"

definition sketch_sample :: "metricLib \<Rightarrow> level \<Rightarrow> header \<Rightarrow> AggregationTemporality \<Rightarrow> expPoint \<Rightarrow> batch \<Rightarrow> batch" where
  "sketch_sample X lv h temporality dp b =
     (let f = point_fingerprint X lv (hpAttrs dp) [(''__temporality__'', mlTemporality X temporality)]; ms = unix_milli (hpTime dp)
      in addTs (point_ts X lv (hName h) (hDescription h) (hUnit h) MetricTypeExponentialHistogram temporality True f ms)
           (addMetadata X (hName h) (hDescription h) (hUnit h) MetricTypeExponentialHistogram temporality True f ms ms
             (addExpHist \<lparr>eEnv = lvEnv lv, eTemporality = temporality, eMetricName = hName h, eFingerprint = HashWithName (hName h) f,
                eUnixMilli = ms,
                eSketch = \<lparr>Gamma = mlGamma X (hpScale dp), PositiveValues = toStore (hpPositive dp),
                  NegativeValues = toStore (hpNegative dp), ZeroCount = float_of_uint (hpZeroCount dp)\<rparr>,
                eCount = float_of_uint (hpCount dp), eSum = hpSum dp, eMin = hpMin dp, eMax = hpMax dp, eFlags = hpFlags dp\<rparr> b)))"

definition exp_point :: "metricLib \<Rightarrow> level \<Rightarrow> header \<Rightarrow> AggregationTemporality \<Rightarrow> expPoint \<Rightarrow> batch \<Rightarrow> batch" where
  "exp_point X lv h temporality dp b =
     (if hpSum dp = NaN \<or> hpMin dp = NaN \<or> hpMax dp = NaN then b
      else
        (let b1 = exp_sample X lv h temporality dp countSuffix b;
             b2 = (if hpHasSum dp then exp_sample X lv h temporality dp sumSuffix b1 else b1);
             b3 = (if hpHasMin dp then exp_sample X lv h temporality dp minSuffix b2 else b2);
             b4 = (if hpHasMax dp then exp_sample X lv h temporality dp maxSuffix b3 else b3)
         in sketch_sample X lv h temporality dp b4))"

definition processExponentialHistogram ::
    "metricLib \<Rightarrow> bool \<Rightarrow> level \<Rightarrow> header \<Rightarrow> AggregationTemporality \<Rightarrow> expPoint list \<Rightarrow> batch \<Rightarrow> batch" where
  "processExponentialHistogram X enableExpHist lv h temporality dps b =
     (if \<not> enableExpHist then b
      else if temporality \<noteq> Delta then b
      else
        (let seen = fold (\<lambda>dp. note_seen (hpTime dp)) dps never_seen
         in add_levels X lv maxSuffix h MetricTypeGauge Unspecified True seen
              (add_levels X lv minSuffix h MetricTypeGauge Unspecified True seen
                (add_levels X lv sumSuffix h MetricTypeSum temporality True seen
                  (add_levels X lv countSuffix h MetricTypeSum temporality True seen
                    (fold (exp_point X lv h temporality) dps b))))))"

datatype metricData =
    Empty
  | Gauge "numberPoint list"
  | Sum AggregationTemporality bool "numberPoint list"
  | Histogram AggregationTemporality "bucketPoint list"
  | ExponentialHistogram AggregationTemporality "expPoint list"
  | Summary "summaryPoint list"

fun process_metric :: "metricLib \<Rightarrow> bool \<Rightarrow> level \<Rightarrow> header \<times> metricData \<Rightarrow> batch \<Rightarrow> batch" where
  "process_metric X en lv (h, Gauge dps) b = processGauge X lv h dps b"
| "process_metric X en lv (h, Sum temporality isMonotonic dps) b = processSum X lv h temporality isMonotonic dps b"
| "process_metric X en lv (h, Histogram temporality dps) b = processHistogram X lv h temporality dps b"
| "process_metric X en lv (h, Summary dps) b = processSummary X lv h dps b"
| "process_metric X en lv (h, ExponentialHistogram temporality dps) b = processExponentialHistogram X en lv h temporality dps b"
| "process_metric X en lv (h, Empty) b = b"

record scopeMetrics =
  smAttrs :: "(string \<times> attrValue) list"
  smName :: string
  smVersion :: string
  smSchemaUrl :: string
  smMetrics :: "(header \<times> metricData) list"

record resourceMetrics =
  rmAttrs :: "(string \<times> attrValue) list"
  rmScopes :: "scopeMetrics list"

definition process_scope :: "metricLib \<Rightarrow> bool \<Rightarrow> string \<Rightarrow> Fingerprint \<Rightarrow> scopeMetrics \<Rightarrow> batch \<Rightarrow> batch" where
  "process_scope X en environment resource sm b =
     (let scope = NewFingerprint (mlOrder X) ScopeFingerprintType (fpHash resource) (smAttrs sm)
            [(''__scope.name__'', smName sm), (''__scope.version__'', smVersion sm), (''__scope.schema_url__'', smSchemaUrl sm)]
      in fold (process_metric X en \<lparr>lvEnv = environment, lvResource = resource, lvScope = scope\<rparr>) (smMetrics sm) b)"

definition process_resource :: "metricLib \<Rightarrow> bool \<Rightarrow> resourceMetrics \<Rightarrow> batch \<Rightarrow> batch" where
  "process_resource X en rm b =
     (let resource = NewFingerprint (mlOrder X) ResourceFingerprintType InitialOffset (rmAttrs rm) [];
          environment = (case map_of (rmAttrs rm) ''deployment.environment'' of None \<Rightarrow> [] | Some de \<Rightarrow> Val de)
      in fold (process_scope X en environment resource) (rmScopes rm) b)"

definition prepareBatch :: "metricLib \<Rightarrow> bool \<Rightarrow> resourceMetrics list \<Rightarrow> batch" where
  "prepareBatch X en md = fold (process_resource X en) md newBatch"

section \<open>Writing\<close>

definition makeCacheKey :: "64 word \<Rightarrow> 64 word \<Rightarrow> string" where
  "makeCacheKey a b = show_nat (unat a) @ '':'' @ show_nat (unat b)"

text \<open>The hour of a series; the key takes it as an unsigned number.\<close>

definition hour :: "ts \<Rightarrow> int" where
  "hour t = go_div (tUnixMilli t) 3600000 * 3600000"

definition cache_key :: "ts \<Rightarrow> string" where
  "cache_key t = makeCacheKey (tFingerprint t) (word_of_int (hour t))"

text \<open>The statement of a table: the error of appending a row to the rows so far, and of sending them.\<close>

record 'r statement =
  stPrepare :: "unit result"
  stAppend :: "'r list \<Rightarrow> 'r \<Rightarrow> error option"
  stSend :: "'r list \<Rightarrow> unit result"

fun append_rows :: "'r statement \<Rightarrow> 'r list \<Rightarrow> 'r list \<Rightarrow> 'r list result" where
  "append_rows st [] rows = Inr rows"
| "append_rows st (r # rs) rows = (case stAppend st rows r of Some err \<Rightarrow> Inl err | None \<Rightarrow> append_rows st rs (rows @ [r]))"

text \<open>What is sent, if anything is, is the second component.\<close>

definition write_all :: "'r statement \<Rightarrow> 'r list \<Rightarrow> unit result \<times> 'r list" where
  "write_all st rs =
     (if rs = [] then (Inr (), [])
      else (case stPrepare st of
          Inl err \<Rightarrow> (Inl err, [])
        | Inr _ \<Rightarrow> (case append_rows st rs [] of Inl err \<Rightarrow> (Inl err, []) | Inr rows \<Rightarrow> (stSend st rows, rows))))"

text \<open>A series with its hour is a row. The cache holds \<open>1\<close> for true.\<close>

fun series_loop ::
    "('c, string) ttlcache \<Rightarrow> int \<Rightarrow> (ts \<times> int) statement \<Rightarrow> ts list \<Rightarrow> (ts \<times> int) list \<Rightarrow> 'c \<Rightarrow> (ts \<times> int) list result \<times> 'c" where
  "series_loop T now st [] rows c = (Inr rows, c)"
| "series_loop T now st (t # tss) rows c =
     (case ttlGet T now (cache_key t) c of (item, c1) \<Rightarrow>
        if item \<noteq> None \<and> item \<noteq> Some 0 then series_loop T now st tss rows c1
        else (case stAppend st rows (t, hour t) of
            Some err \<Rightarrow> (Inl err, c1)
          | None \<Rightarrow> series_loop T now st tss (rows @ [(t, hour t)]) (ttlSet T now (cache_key t) 1 c1)))"

definition writeTimeSeries ::
    "('c, string) ttlcache \<Rightarrow> int \<Rightarrow> (ts \<times> int) statement \<Rightarrow> ts list \<Rightarrow> 'c \<Rightarrow> (unit result \<times> (ts \<times> int) list) \<times> 'c" where
  "writeTimeSeries T now st tss c =
     (if tss = [] then ((Inr (), []), c)
      else (case stPrepare st of
          Inl err \<Rightarrow> ((Inl err, []), c)
        | Inr _ \<Rightarrow> (case series_loop T now st tss [] c of
              (Inl err, c1) \<Rightarrow> ((Inl err, []), c1)
            | (Inr rows, c1) \<Rightarrow> ((stSend st rows, rows), c1))))"

text \<open>
  Samples are counted as usage, except those of the collector and of the database itself. The count is
  recorded before the rows are sent.
\<close>

definition usage_count :: "sample list \<Rightarrow> nat" where
  "usage_count ss = length (filter (\<lambda>s. \<not> (take 4 (sMetricName s) = ''o11y'' \<or> take 3 (sMetricName s) = ''chi'' \<or>
     take 7 (sMetricName s) = ''otelcol'')) ss)"

definition writeSamples :: "sample statement \<Rightarrow> sample list \<Rightarrow> (unit result \<times> sample list) \<times> nat" where
  "writeSamples st ss = (case write_all st ss of (e, rows) \<Rightarrow> ((e, rows), usage_count rows))"

record statements =
  stSeries :: "(ts \<times> int) statement"
  stSamples :: "sample statement"
  stExpHist :: "exponentialHistogramSample statement"
  stMetadata :: "metadata statement"

record written =
  wSeries :: "(ts \<times> int) list"
  wSamples :: "sample list"
  wExpHist :: "exponentialHistogramSample list"
  wMetadata :: "metadata list"
  wUsage :: nat

fun error_of :: "unit result \<Rightarrow> error list" where
  "error_of (Inl err) = [err]"
| "error_of (Inr _) = []"

definition writeBatch ::
    "('c, string) ttlcache \<Rightarrow> int \<Rightarrow> statements \<Rightarrow> batch \<Rightarrow> 'c \<Rightarrow> (error list \<times> written) \<times> 'c" where
  "writeBatch T now sts b c =
     (case writeTimeSeries T now (stSeries sts) (series b) c of ((e1, r1), c1) \<Rightarrow>
        (let ((e2, r2), used) = writeSamples (stSamples sts) (samples b);
             (e3, r3) = write_all (stExpHist sts) (expHist b);
             (e4, r4) = write_all (stMetadata sts) (metas b)
         in ((error_of e1 @ error_of e2 @ error_of e3, \<lparr>wSeries = r1, wSamples = r2, wExpHist = r3, wMetadata = r4, wUsage = used\<rparr>), c1)))"

definition PushMetrics ::
    "metricLib \<Rightarrow> bool \<Rightarrow> bool \<Rightarrow> ('c, string) ttlcache \<Rightarrow> int \<Rightarrow> statements \<Rightarrow> resourceMetrics list \<Rightarrow> 'c \<Rightarrow> (error list \<times> written) \<times> 'c" where
  "PushMetrics X en isClosed T now sts md c =
     (if isClosed then (([''shutdown has been called''], \<lparr>wSeries = [], wSamples = [], wExpHist = [], wMetadata = [], wUsage = 0\<rparr>), c)
      else writeBatch T now sts (prepareBatch X en md) c)"

end
