(* ===== verification/MetricsFacts.thy ===== *)
theory MetricsFacts
  imports MetricsExporter
begin

text \<open>
  What the exporter of metrics keeps: the locale \<open>batch_steps\<close> states what it takes for a property of
  batches to hold of every batch that is prepared, and its interpretations give the invariants of the
  batch. The second part is on the cache of series.
\<close>

section \<open>Steps of a batch\<close>

definition whole_point :: "'a histPoint_scheme \<Rightarrow> bool" where
  "whole_point dp \<longleftrightarrow> hpSum dp \<noteq> NaN \<and> hpMin dp \<noteq> NaN \<and> hpMax dp \<noteq> NaN"

definition temporality_label :: "metricLib \<Rightarrow> Fingerprint \<Rightarrow> AggregationTemporality \<Rightarrow> bool" where
  "temporality_label X f temporality \<longleftrightarrow> AttributesAsMap f ''__temporality__'' = Some (mlTemporality X temporality)"

lemma float_of_not_NaN [simp]: "float_of_uint w \<noteq> NaN" "float_of_int i \<noteq> NaN"
  by (simp_all add: float_of_uint_def float_of_int_def)

lemma suffixes_differ [simp]:
  "sumSuffix \<noteq> countSuffix" "minSuffix \<noteq> countSuffix" "minSuffix \<noteq> sumSuffix" "maxSuffix \<noteq> countSuffix"
  "maxSuffix \<noteq> sumSuffix" "maxSuffix \<noteq> minSuffix"
  by (simp_all add: countSuffix_def sumSuffix_def minSuffix_def maxSuffix_def)

lemma sample_kind_simps [simp]:
  "sample_kind countSuffix h typ tp dp = (float_of_uint (hpCount dp), MetricTypeSum, ''1'', tp)"
  "sample_kind sumSuffix h typ tp dp = (hpSum dp, MetricTypeSum, hUnit h, tp)"
  "sample_kind minSuffix h typ tp dp = (hpMin dp, MetricTypeGauge, hUnit h, Unspecified)"
  "sample_kind maxSuffix h typ tp dp = (hpMax dp, MetricTypeGauge, hUnit h, Unspecified)"
  by (simp_all add: sample_kind_def)

lemma temporality_last:
  "temporality_label X (point_fingerprint X lv attrs (extras @ [(''__temporality__'', mlTemporality X temporality)])) temporality"
  by (simp add: temporality_label_def point_fingerprint_def NewFingerprint_def AttributesAsMap_def Let_def)

lemmas temporality_only [simp] = temporality_last [where extras = "[]", simplified append_Nil]
lemmas temporality_second [simp] = temporality_last [where extras = "[e]" for e, simplified append_Cons append_Nil]

lemma unix_milli_less: "unix_milli t < maxInt64"
proof -
  have "sint t < 2 ^ 63" using sint_lt [of t] by simp
  then show ?thesis by (simp add: unix_milli_def maxInt64_def)
qed

lemma note_seen_ordered:
  "fst s = maxInt64 \<and> snd s = 0 \<or> fst s \<le> snd s \<Longrightarrow> fst (note_seen t s) \<le> snd (note_seen t s)"
  using unix_milli_less [of t] by (auto simp: note_seen_def)

lemma seen_ordered:
  "fst (fold (\<lambda>dp. note_seen (tm dp)) dps s) = maxInt64 \<and> snd (fold (\<lambda>dp. note_seen (tm dp)) dps s) = 0 \<or>
   fst (fold (\<lambda>dp. note_seen (tm dp)) dps s) \<le> snd (fold (\<lambda>dp. note_seen (tm dp)) dps s)"
  if "fst s = maxInt64 \<and> snd s = 0 \<or> fst s \<le> snd s"
  using that note_seen_ordered by (induction dps arbitrary: s) auto

lemma seen_ok: "fst (fold (\<lambda>dp. note_seen (tm dp)) dps never_seen) = maxInt64 \<or>
    fst (fold (\<lambda>dp. note_seen (tm dp)) dps never_seen) \<le> snd (fold (\<lambda>dp. note_seen (tm dp)) dps never_seen)"
  using seen_ordered [of never_seen tm dps] by (auto simp: never_seen_def)

lemma fold_keeps:
  assumes "\<And>x b. P b \<Longrightarrow> P (f x b)" and "P b"
  shows "P (fold f xs b)"
  using assms(2) by (induction xs arbitrary: b) (auto intro: assms(1))

locale batch_steps =
  fixes X :: metricLib and en :: bool and P :: "batch \<Rightarrow> bool"
  assumes new: "P newBatch"
    and meta: "P b \<Longrightarrow> s0 = maxInt64 \<or> s0 \<le> s1 \<Longrightarrow> P (addMetadata X name desc unt typ temporality isMonotonic f s0 s1 b)"
    and point: "P b \<Longrightarrow> v \<noteq> NaN \<Longrightarrow> temporality_label X f temporality \<Longrightarrow>
      P (add_point X lv name desc unt typ temporality isMonotonic f unixMilli v flags b)"
    and exp_points: "en \<Longrightarrow> P b \<Longrightarrow> whole_point dp \<Longrightarrow> P (exp_sample X lv h temporality dp suffix b)"
    and sketch: "en \<Longrightarrow> P b \<Longrightarrow> whole_point dp \<Longrightarrow> P (sketch_sample X lv h temporality dp b)"
begin

lemma levels: "P b \<Longrightarrow> fst seen = maxInt64 \<or> fst seen \<le> snd seen \<Longrightarrow> P (add_levels X lv suffix h typ temporality isMonotonic seen b)"
  by (simp add: add_levels_def meta)

lemma numbers: "P b \<Longrightarrow> P (number_point X lv h typ temporality isMonotonic dp b)"
  by (simp add: number_point_def point)

lemma sampled: "P b \<Longrightarrow> whole_point dp \<Longrightarrow> suffix \<in> {countSuffix, sumSuffix, minSuffix, maxSuffix} \<Longrightarrow>
    P (histogram_sample X lv h temporality dp suffix b)"
  by (auto simp: histogram_sample_def whole_point_def intro!: point)

lemma buckets: "P b \<Longrightarrow> P (bucket_loop X lv h temporality dp suffix bounds counts cum b)"
  by (induction bounds counts arbitrary: cum b rule: list_induct2') (simp_all add: add_bucket_def point)

lemma histograms: "P b \<Longrightarrow> P (histogram_point X lv h temporality dp b)"
  unfolding histogram_point_def bucket_samples_def add_bucket_def Let_def
  by (auto intro!: point buckets sampled simp: whole_point_def)

lemma summaries: "P b \<Longrightarrow> P (summary_point X lv h dp b)"
proof -
  assume P: "P b"
  have two: "P (summary_sample X lv h dp suffix b)" if "P b" "spSum dp \<noteq> NaN" for b suffix
    using that by (auto simp: summary_sample_def intro!: point)
  have "P (fold (quantile_sample X lv h dp quantilesSuffix) qs b)" if "P b" "list_all (\<lambda>q. snd q \<noteq> NaN) qs" for qs b
    using that by (induction qs arbitrary: b) (simp_all add: quantile_sample_def point)
  then show ?thesis using P two by (auto simp: summary_point_def list_ex_iff list_all_iff)
qed

lemma exponentials: "en \<Longrightarrow> P b \<Longrightarrow> P (exp_point X lv h temporality dp b)"
  unfolding exp_point_def Let_def by (auto intro!: sketch exp_points simp: whole_point_def)

lemma metrics: "P b \<Longrightarrow> P (process_metric X en lv m b)"
  by (cases "(X, en, lv, m, b)" rule: process_metric.cases)
    (auto simp: processGauge_def processSum_def processHistogram_def processSummary_def processExponentialHistogram_def Let_def
      intro!: levels seen_ok fold_keeps [where P = P] numbers histograms summaries exponentials)

lemma prepared: "P (prepareBatch X en md)"
  unfolding prepareBatch_def process_resource_def process_scope_def Let_def
  by (intro fold_keeps [where P = P] metrics new)

end

section \<open>Invariants of a batch\<close>

lemmas add_simps = addSample_def addTs_def addExpHist_def addMetadata_def add_point_def Let_def

text \<open>What a sample and its series have in common.\<close>

definition sample_id :: "sample \<Rightarrow> string \<times> AggregationTemporality \<times> string \<times> 64 word \<times> int" where
  "sample_id s = (sEnv s, sTemporality s, sMetricName s, sFingerprint s, sUnixMilli s)"

definition exp_id :: "exponentialHistogramSample \<Rightarrow> string \<times> AggregationTemporality \<times> string \<times> 64 word \<times> int" where
  "exp_id e = (eEnv e, eTemporality e, eMetricName e, eFingerprint e, eUnixMilli e)"

definition ts_id :: "ts \<Rightarrow> string \<times> AggregationTemporality \<times> string \<times> 64 word \<times> int" where
  "ts_id t = (tEnv t, tTemporality t, tMetricName t, tFingerprint t, tUnixMilli t)"

definition matched :: "batch \<Rightarrow> bool" where
  "matched b \<longleftrightarrow> mset (map ts_id (series b)) = mset (map sample_id (samples b)) + mset (map exp_id (expHist b))"

interpretation matching: batch_steps X en matched for X en
  by unfold_locales
    (auto simp: matched_def newBatch_def add_simps exp_sample_def sketch_sample_def point_ts_def sample_id_def exp_id_def ts_id_def
      split: prod.splits)

definition without_nan :: "batch \<Rightarrow> bool" where
  "without_nan b \<longleftrightarrow> (\<forall>s \<in> set (samples b). sValue s \<noteq> NaN) \<and>
     (\<forall>e \<in> set (expHist b). eCount e \<noteq> NaN \<and> eSum e \<noteq> NaN \<and> eMin e \<noteq> NaN \<and> eMax e \<noteq> NaN)"

interpretation nans: batch_steps X en without_nan for X en
  by unfold_locales
    (auto simp: without_nan_def newBatch_def add_simps exp_sample_def sketch_sample_def sample_kind_def whole_point_def
      split: prod.splits if_splits)

definition labelled :: "metricLib \<Rightarrow> batch \<Rightarrow> bool" where
  "labelled X b \<longleftrightarrow> (\<forall>t \<in> set (series b). tAttrs t ''__temporality__'' = Some (mlTemporality X (tTemporality t)))"

interpretation labels: batch_steps X False "labelled X" for X
  by unfold_locales (auto simp: labelled_def newBatch_def add_simps point_ts_def temporality_label_def)

definition reported_in_order :: "batch \<Rightarrow> bool" where
  "reported_in_order b \<longleftrightarrow> (\<forall>m \<in> set (metas b). mFirstReportedUnixMilli m \<le> mLastReportedUnixMilli m)"

lemma reported_meta: "reported_in_order b \<Longrightarrow> s0 = maxInt64 \<or> s0 \<le> s1 \<Longrightarrow>
    reported_in_order (addMetadata X name desc unt typ temporality isMonotonic f s0 s1 b)"
  by (auto simp: reported_in_order_def addMetadata_def Let_def List.map_filter_def)

lemma reported_others [simp]:
  "reported_in_order (addSample s b) = reported_in_order b" "reported_in_order (addTs t b) = reported_in_order b"
  "reported_in_order (addExpHist e b) = reported_in_order b" "reported_in_order newBatch"
  by (simp_all add: reported_in_order_def addSample_def addTs_def addExpHist_def newBatch_def)

interpretation reports: batch_steps X en reported_in_order for X en
  by unfold_locales
    (auto simp: add_point_def exp_sample_def sketch_sample_def Let_def intro!: reported_meta split: prod.splits)

text \<open>
  C13. A prepared batch holds exactly one time series for each sample and for each sample of an exponential
  histogram, with the same environment, temporality, name, fingerprint and time.
\<close>

theorem one_series_per_sample:
  "mset (map ts_id (series (prepareBatch X en md))) =
   mset (map sample_id (samples (prepareBatch X en md))) + mset (map exp_id (expHist (prepareBatch X en md)))"
  using matching.prepared [of X en md] by (simp add: matched_def)


section \<open>A small example\<close>

definition small_lib :: metricLib where
  "small_lib = \<lparr>mlOrder = sorted_list_of_set,
     mlTemporality = (\<lambda>t. case t of Unspecified \<Rightarrow> ''Unspecified'' | Delta \<Rightarrow> ''Delta'' | Cumulative \<Rightarrow> ''Cumulative''),
     mlFormat = (\<lambda>_. ''0''), mlGamma = (\<lambda>_. Finite 2), mlNow = 0\<rparr>"

definition small_level :: level where
  "small_level = (let f = NewFingerprint sorted_list_of_set ResourceFingerprintType InitialOffset [] []
     in \<lparr>lvEnv = [], lvResource = f, lvScope = f\<rparr>)"

definition small_header :: header where
  "small_header = \<lparr>hName = ''m'', hDescription = [], hUnit = []\<rparr>"

definition one_gauge :: "resourceMetrics list" where
  "one_gauge = [\<lparr>rmAttrs = [], rmScopes = [\<lparr>smAttrs = [], smName = ''s'', smVersion = [], smSchemaUrl = [],
     smMetrics = [(small_header,
       Gauge [\<lparr>npAttrs = [], npTime = 5000000, npValue = NumberInt 1, npFlags = 0\<rparr>])]\<rparr>]\<rparr>]"

definition gauge_series :: ts where
  "gauge_series = hd (series (prepareBatch small_lib False one_gauge))"

lemma one_gauge_series: "series (prepareBatch small_lib False one_gauge) = [gauge_series]"
  by (simp add: gauge_series_def prepareBatch_def one_gauge_def process_resource_def process_scope_def processGauge_def
      add_levels_def number_point_def add_simps newBatch_def)

lemma gauge_series_time: "tUnixMilli gauge_series = 5"
  by (simp add: gauge_series_def prepareBatch_def one_gauge_def process_resource_def process_scope_def processGauge_def
      add_levels_def number_point_def add_simps newBatch_def point_ts_def unix_milli_def)

lemma one_gauge_metas: "metas (prepareBatch small_lib False one_gauge) \<noteq> []"
  by (simp add: prepareBatch_def one_gauge_def process_resource_def process_scope_def processGauge_def small_lib_def
      add_levels_def number_point_def add_simps newBatch_def point_fingerprint_def NewFingerprint_def
      NewAttributesFromPcommonMap_def List.map_filter_def)

text \<open>
  The period in which an attribute was reported is never empty, whether data points were seen or not.
\<close>

theorem reported_periods:
  "m \<in> set (metas (prepareBatch X en md)) \<Longrightarrow> mFirstReportedUnixMilli m \<le> mLastReportedUnixMilli m"
  using reports.prepared [of X en md] by (auto simp: reported_in_order_def)

theorem reported_periods_witness:
  "mFirstReportedUnixMilli (hd (metas (prepareBatch small_lib False one_gauge)))
    \<le> mLastReportedUnixMilli (hd (metas (prepareBatch small_lib False one_gauge)))"
  by (rule reported_periods [of _ small_lib False one_gauge]) (simp add: one_gauge_metas)

text \<open>
  Unless exponential histograms are enabled, every series carries its own temporality as a label.
\<close>

theorem series_temporality:
  "t \<in> set (series (prepareBatch X False md)) \<Longrightarrow>
   tAttrs t ''__temporality__'' = Some (mlTemporality X (tTemporality t))"
  using labels.prepared [of X md] by (auto simp: labelled_def)

theorem series_temporality_witness: "tAttrs gauge_series ''__temporality__'' = Some (mlTemporality small_lib (tTemporality gauge_series))"
  by (rule series_temporality [of _ _ one_gauge]) (simp add: one_gauge_series)

text \<open>
  The series of the minimum of an exponential histogram has no temporality, yet is labelled with the
  one of the histogram; the same series of a histogram with buckets is labelled with its own.
\<close>

theorem exp_histogram_label_differs:
  "tTemporality (last (series (exp_sample X lv h temporality dp minSuffix b))) = Unspecified \<and>
   tAttrs (last (series (exp_sample X lv h temporality dp minSuffix b))) ''__temporality__'' = Some (mlTemporality X temporality) \<and>
   tAttrs (last (series (histogram_sample X lv h temporality dp' minSuffix b))) ''__temporality__'' = Some (mlTemporality X Unspecified)"
proof -
  note t = temporality_only [unfolded temporality_label_def]
  show ?thesis by (simp add: exp_sample_def histogram_sample_def add_point_def addTs_def point_ts_def t)
qed

section \<open>Buckets\<close>

lemma bucket_loop_values:
  "map sValue (samples (bucket_loop X lv h temporality dp suffix bounds counts cum b)) = map sValue (samples b) @
     map (\<lambda>i. float_of_uint (cum + sum_list (take (Suc i) counts))) [0..<min (length bounds) (length counts)]"
  by (induction bounds counts arbitrary: cum b rule: list_induct2')
    (simp_all add: add_bucket_def add_simps upt_conv_Cons map_Suc_upt [symmetric] add.assoc del: upt_Suc)

lemma unat_sum_list: "sum_list (map unat ws) < 2 ^ LENGTH('a) \<Longrightarrow> unat (sum_list ws) = sum_list (map unat ws)"
  for ws :: "'a::len word list"
proof (induction ws)
  case (Cons w ws)
  then have "unat (sum_list ws) = sum_list (map unat ws)" by simp
  then show ?case using Cons.prems by (simp add: unat_add_lem [THEN iffD1])
qed simp

lemma sum_take_mono: "i \<le> j \<Longrightarrow> sum_list (take i ns) \<le> sum_list (take j ns)" for ns :: "nat list"
  by (metis min.absorb1 take_take append_take_drop_id sum_list_append le_add1)

text \<open>
  C29. When the counts of the buckets of a histogram do not exceed its count, as the protocol requires, the
  samples of its buckets are the sums of the counts up to each bound, rounded to \<open>float64\<close>: they never
  decrease, nothing wraps around, and the last is the count.
\<close>

theorem buckets_cumulative:
  assumes "sum_list (map unat (hpBucketCounts dp)) \<le> unat (hpCount dp)"
    and "qs = map (\<lambda>i. round_prec 53 (of_nat (sum_list (take (Suc i) (map unat (hpBucketCounts dp))))))
      [0..<min (length (hpExplicitBounds dp)) (length (hpBucketCounts dp))] @ [round_prec 53 (of_nat (unat (hpCount dp)))]"
  shows "map sValue (samples (bucket_samples X lv h temporality dp suffix b)) = map sValue (samples b) @ map Finite qs \<and> sorted qs"
proof
  let ?ns = "map unat (hpBucketCounts dp)"
  have less: "sum_list (take i ?ns) \<le> unat (hpCount dp)" for i
    using assms(1) sum_take_mono [of i "max i (length ?ns)" ?ns] by simp
  have "unat (sum_list (take i (hpBucketCounts dp))) = sum_list (take i ?ns)" for i
    using unat_sum_list [of "take i (hpBucketCounts dp)"] less [of i] unsigned_less [of "hpCount dp", where ?'a = nat] by (simp add: take_map)
  then show "map sValue (samples (bucket_samples X lv h temporality dp suffix b)) = map sValue (samples b) @ map Finite qs"
    by (simp add: bucket_samples_def add_bucket_def add_simps bucket_loop_values assms(2) float_of_uint_def)
  have "sorted (map (\<lambda>i. round_prec 53 (of_nat (sum_list (take (Suc i) ?ns)))) [0..<n])" for n
    by (auto simp: sorted_map intro!: sorted_wrt_mono_rel [OF _ sorted_upt] round_prec_mono sum_take_mono)
  moreover have "round_prec 53 (of_nat (sum_list (take i ?ns))) \<le> round_prec 53 (of_nat (unat (hpCount dp)))" for i
    using less [of i] by (intro round_prec_mono) (simp_all only: of_nat_le_iff of_nat_0_le_iff zero_less_numeral)
  ultimately show "sorted qs" unfolding assms(2) sorted_append by auto
qed

definition three_buckets :: bucketPoint where
  "three_buckets = \<lparr>hpAttrs = [], hpTime = 0, hpCount = 6, hpSum = Finite 0, hpHasSum = False, hpMin = Finite 0, hpHasMin = False,
     hpMax = Finite 0, hpHasMax = False, hpFlags = 0, hpExplicitBounds = [Finite 1, Finite 2], hpBucketCounts = [1, 2, 3]\<rparr>"

theorem buckets_cumulative_witness:
  "map sValue (samples (bucket_samples small_lib small_level small_header Delta three_buckets bucketSuffix newBatch)) =
     map Finite [round_prec 53 1, round_prec 53 3, round_prec 53 6] \<and>
   sorted [round_prec 53 1, round_prec 53 3, round_prec 53 6]"
  using buckets_cumulative [OF _ refl, of three_buckets small_lib small_level small_header Delta bucketSuffix newBatch]
  by (simp add: three_buckets_def newBatch_def upt_rec)

section \<open>The cache of series\<close>

lemma makeCacheKey_inject: "makeCacheKey a b = makeCacheKey a' b' \<longleftrightarrow> a = a' \<and> b = b'"
  by (simp add: makeCacheKey_def split_at_separator show_nat_colon show_nat_inject word_unat_eq_iff)

definition int64_time :: "ts \<Rightarrow> bool" where
  "int64_time t \<longleftrightarrow> - (2 ^ 63) \<le> tUnixMilli t \<and> tUnixMilli t < 2 ^ 63"

lemma hour_bound: "\<bar>hour t\<bar> \<le> \<bar>tUnixMilli t\<bar>"
proof -
  have "\<bar>go_div x 3600000 * 3600000\<bar> = \<bar>x\<bar> div 3600000 * 3600000" for x
    by (auto simp: go_div_def abs_mult abs_sgn_eq)
  then show ?thesis by (simp add: hour_def)
qed

lemma hour_int64: "int64_time t \<Longrightarrow> - (2 ^ 63) \<le> hour t \<and> hour t < 2 ^ 63"
  using hour_bound [of t] by (auto simp: int64_time_def hour_def go_div_def sgn_if)

lemma sint_small: "- (2 ^ 63) \<le> k \<and> k < 2 ^ 63 \<Longrightarrow> sint (word_of_int k :: 64 word) = k"
  by (simp add: signed_of_int signed_take_bit_int_eq_self)

lemma cache_key_inject:
  assumes "int64_time t" and "int64_time t'"
  shows "cache_key t = cache_key t' \<longleftrightarrow> tFingerprint t = tFingerprint t' \<and> hour t = hour t'"
proof -
  have "hour t = hour t'" if "(word_of_int (hour t) :: 64 word) = word_of_int (hour t')"
    using that hour_int64 [OF assms(1)] hour_int64 [OF assms(2)]
    by (metis sint_small)
  then show ?thesis by (auto simp: cache_key_def makeCacheKey_inject)
qed

text \<open>The abstract view: the series whose key is not known, each key once.\<close>

fun unseen :: "string set \<Rightarrow> ts list \<Rightarrow> ts list" where
  "unseen K [] = []"
| "unseen K (t # tss) = (if cache_key t \<in> K then unseen K tss else t # unseen (insert (cache_key t) K) tss)"

lemma unseen_keys: "cache_key ` set (unseen K tss) = cache_key ` set tss - K"
  by (induction tss arbitrary: K) auto

lemma unseen_distinct: "distinct (map cache_key (unseen K tss))"
proof (induction tss arbitrary: K)
  case (Cons t tss)
  have "cache_key t \<notin> cache_key ` set (unseen (insert (cache_key t) K) tss)" by (simp add: unseen_keys)
  then show ?case using Cons by simp
qed simp

lemma unseen_subset: "set (unseen K tss) \<subseteq> set tss"
  by (induction tss arbitrary: K) auto

text \<open>Any identification of series that agrees with the keys may take their place.\<close>

lemma unseen_ids:
  assumes key: "\<And>t t'. t \<in> set tss \<Longrightarrow> t' \<in> set tss \<Longrightarrow> cache_key t = cache_key t' \<longleftrightarrow> g t = g t'"
  shows "distinct (map g (unseen K tss))" and "g ` set (unseen K tss) = g ` {t \<in> set tss. cache_key t \<notin> K}"
proof -
  note sub = subsetD [OF unseen_subset [of K tss]]
  have "inj_on g (set (unseen K tss))"
    using unseen_distinct [of K tss] key sub unfolding distinct_map inj_on_def by metis
  then show "distinct (map g (unseen K tss))" using unseen_distinct [of K tss] by (simp add: distinct_map)
  have "\<exists>t' \<in> set (unseen K tss). g t = g t'" if t: "t \<in> set tss" "cache_key t \<notin> K" for t
  proof -
    from t have "cache_key t \<in> cache_key ` set (unseen K tss)" by (simp add: unseen_keys)
    then obtain t' where "t' \<in> set (unseen K tss)" "cache_key t = cache_key t'" by blast
    then show ?thesis using key [of t t'] t sub by metis
  qed
  moreover have "cache_key t \<notin> K" if "t \<in> set (unseen K tss)" for t
    using that unseen_keys [of K tss] by blast
  ultimately show "g ` set (unseen K tss) = g ` {t \<in> set tss. cache_key t \<notin> K}" using sub by fast
qed

lemma unseen_none: "cache_key ` set tss \<subseteq> K \<Longrightarrow> unseen K tss = []"
  by (induction tss) auto

locale series_cache = ttl_provider T live for T :: "('c, string) ttlcache" and live :: "int \<Rightarrow> 'c \<Rightarrow> (string \<rightharpoonup> nat)"
begin

definition known :: "int \<Rightarrow> 'c \<Rightarrow> string set" where
  "known t c = {k. live t c k \<noteq> None \<and> live t c k \<noteq> Some 0}"

lemma known_get: "ttlGet T t k c = (r, c') \<Longrightarrow> known t c' = known t c \<and> (r \<noteq> None \<and> r \<noteq> Some 0 \<longleftrightarrow> k \<in> known t c)"
  using get by (fastforce simp: known_def)

lemma known_set [simp]: "known t (ttlSet T t k (Suc 0) c) = insert k (known t c)"
  by (auto simp: known_def set_eq)

lemma series_loop_unseen:
  assumes "\<And>rows r. stAppend st rows r = None"
  shows "\<exists>c'. series_loop T t st tss rows c = (Inr (rows @ map (\<lambda>t. (t, hour t)) (unseen (known t c) tss)), c') \<and>
    known t c' = known t c \<union> cache_key ` set tss"
proof (induction tss arbitrary: rows c)
  case (Cons x tss)
  obtain r c1 where g: "ttlGet T t (cache_key x) c = (r, c1)" by (cases "ttlGet T t (cache_key x) c")
  note k = known_get [OF g]
  show ?case
  proof (cases "cache_key x \<in> known t c")
    case True
    then show ?thesis using Cons.IH [of rows c1] g k by auto
  next
    case False
    then show ?thesis using Cons.IH [of "rows @ [(x, hour x)]" "ttlSet T t (cache_key x) 1 c1"] g k assms by auto
  qed
qed simp

lemma write_unseen:
  assumes "\<And>rows r. stAppend st rows r = None" and "stPrepare st = Inr ()" and "tss \<noteq> []"
  obtains c' where "writeTimeSeries T now st tss c =
      ((stSend st (map (\<lambda>t. (t, hour t)) (unseen {k. live now c k \<noteq> None \<and> live now c k \<noteq> Some 0} tss)),
        map (\<lambda>t. (t, hour t)) (unseen {k. live now c k \<noteq> None \<and> live now c k \<noteq> Some 0} tss)), c')"
    and "cache_key ` set tss \<subseteq> {k. live now c' k \<noteq> None \<and> live now c' k \<noteq> Some 0}"
proof -
  obtain c' where "series_loop T now st tss [] c = (Inr ([] @ map (\<lambda>t. (t, hour t)) (unseen (known now c) tss)), c')"
      "known now c' = known now c \<union> cache_key ` set tss"
    using series_loop_unseen [OF assms(1)] by blast
  with that [of c'] assms(2,3) show thesis by (simp add: writeTimeSeries_def known_def)
qed

end

interpretation list_series: series_cache "list_ttl d" list_live for d
  by unfold_locales (auto simp: list_ttl_def list_live_def split: option.splits if_splits)

definition accepts :: "'r statement \<Rightarrow> bool" where
  "accepts st \<longleftrightarrow> stPrepare st = Inr () \<and> (\<forall>rows r. stAppend st rows r = None)"

definition delivers :: "'r statement \<Rightarrow> bool" where
  "delivers st \<longleftrightarrow> accepts st \<and> (\<forall>rows. stSend st rows = Inr ())"

lemma append_rows_all: "\<forall>rows r. stAppend st rows r = None \<Longrightarrow> append_rows st rs rows = Inr (rows @ rs)"
  by (induction rs arbitrary: rows) auto

lemma write_all_delivers: "delivers st \<Longrightarrow> write_all st rs = (Inr (), rs)"
  by (simp add: write_all_def delivers_def accepts_def append_rows_all)

lemma writeSamples_delivers: "delivers st \<Longrightarrow> writeSamples st ss = ((Inr (), ss), usage_count ss)"
  by (simp add: writeSamples_def write_all_delivers)

lemma ttl_provider_series: "ttl_provider T live \<Longrightarrow> series_cache T live"
  by (rule series_cache.intro)

lemma accepts_series: "accepts st \<Longrightarrow> stAppend st rows r = None" "accepts st \<Longrightarrow> stPrepare st = Inr ()"
  by (simp_all add: accepts_def)

lemmas write_accepted = series_cache.write_unseen [OF ttl_provider_series accepts_series]

text \<open>
  C14. When the database accepts the rows, a write of series appends one row for every fingerprint and hour
  that the cache does not hold, and no other: keys of the cache tell fingerprints and hours apart.
\<close>

theorem series_written_once:
  assumes "ttl_provider T live" and "accepts st" and "list_all int64_time tss"
    and "writeTimeSeries T now st tss c = ((res, rows), c')"
  shows "distinct (map (\<lambda>(t, h). (tFingerprint t, h)) rows) \<and>
    (\<lambda>(t, h). (tFingerprint t, h)) ` set rows =
      (\<lambda>t. (tFingerprint t, hour t)) ` {t \<in> set tss. live now c (cache_key t) \<in> {None, Some 0}}"
proof (cases "tss = []")
  case True
  then show ?thesis using assms(4) by (simp add: writeTimeSeries_def)
next
  case False
  let ?K = "{k. live now c k \<noteq> None \<and> live now c k \<noteq> Some 0}" and ?id = "\<lambda>t. (tFingerprint t, hour t)"
  have key: "cache_key t = cache_key t' \<longleftrightarrow> ?id t = ?id t'" if "t \<in> set tss" "t' \<in> set tss" for t t'
    using that assms(3) cache_key_inject [of t t'] by (simp add: list_all_iff)
  have rows: "rows = map (\<lambda>t. (t, hour t)) (unseen ?K tss)"
    using write_accepted [OF assms(1,2,2) False, of now c] assms(4) by (metis (no_types, lifting) Pair_inject)
  note unseen_ids [of tss ?id ?K, OF key]
  moreover have "{t \<in> set tss. cache_key t \<notin> ?K} = {t \<in> set tss. live now c (cache_key t) \<in> {None, Some 0}}" by auto
  ultimately show ?thesis unfolding rows by (simp add: comp_def image_image)
qed

text \<open>
  C27. A push whose series cannot be sent returns the error, yet the series are in the cache by then: when
  the same metrics are pushed again, the samples are written and none of the series is, and no error is
  returned.
\<close>

theorem retried_push_loses_series:
  assumes "ttl_provider T live" and "series (prepareBatch X en md) \<noteq> []"
    and "accepts (stSeries sts)" and "stSend (stSeries sts) = (\<lambda>_. Inl err)"
    and "PushMetrics X en False T now sts md c = ((errs, w), c1)"
    and "delivers (stSeries sts')" and "delivers (stSamples sts')" and "delivers (stExpHist sts')"
    and "PushMetrics X en False T now sts' md c1 = ((errs', w'), c2)"
  shows "err \<in> set errs \<and> errs' = [] \<and> wSeries w' = [] \<and> wSamples w' = samples (prepareBatch X en md)"
proof -
  obtain rows where 1: "writeTimeSeries T now (stSeries sts) (series (prepareBatch X en md)) c = ((Inl err, rows), c1)"
      "cache_key ` set (series (prepareBatch X en md)) \<subseteq> {k. live now c1 k \<noteq> None \<and> live now c1 k \<noteq> Some 0}"
    using write_accepted [OF assms(1,3,3,2), of now c] assms(4,5)
    by (simp add: PushMetrics_def writeBatch_def Let_def split: prod.splits) metis
  have acc: "accepts (stSeries sts')" using assms(6) by (simp add: delivers_def)
  obtain c' where 2: "writeTimeSeries T now (stSeries sts') (series (prepareBatch X en md)) c1 = ((Inr (), []), c')"
    using write_accepted [OF assms(1) acc acc assms(2), of now c1] unseen_none [OF 1(2)] assms(6)
    by (metis (no_types, lifting) delivers_def list.simps(8))
  show ?thesis
    using assms(5,9) 1(1) 2 write_all_delivers [OF assms(8)] writeSamples_delivers [OF assms(7)]
    by (auto simp: PushMetrics_def writeBatch_def Let_def split: prod.splits)
qed

definition answering :: "unit result \<Rightarrow> 'r statement" where
  "answering res = \<lparr>stPrepare = Inr (), stAppend = (\<lambda>_ _. None), stSend = (\<lambda>_. res)\<rparr>"

lemma answering_simps [simp]: "accepts (answering res)" "delivers (answering (Inr ()))" "stSend (answering res) = (\<lambda>_. res)"
  by (simp_all add: accepts_def delivers_def answering_def)

definition database :: "unit result \<Rightarrow> statements" where
  "database res = \<lparr>stSeries = answering res, stSamples = answering (Inr ()), stExpHist = answering (Inr ()),
     stMetadata = answering (Inr ())\<rparr>"

lemma database_simps [simp]:
  "stSeries (database res) = answering res" "stSamples (database res) = answering (Inr ())"
  "stExpHist (database res) = answering (Inr ())" "stMetadata (database res) = answering (Inr ())"
  by (simp_all add: database_def)

theorem series_written_once_witness:
  "(\<lambda>(t, h). (tFingerprint t, h)) `
     set (snd (fst (writeTimeSeries (list_ttl 2700) 0 (answering (Inr ())) [gauge_series, gauge_series] []))) =
   {(tFingerprint gauge_series, hour gauge_series)}"
proof -
  obtain res rows c' where w: "writeTimeSeries (list_ttl 2700) 0 (answering (Inr ())) [gauge_series, gauge_series] [] = ((res, rows), c')"
    by (metis prod.exhaust)
  have "{t \<in> set [gauge_series, gauge_series]. list_live 0 [] (cache_key t) \<in> {None, Some 0}} = {gauge_series}"
    by (auto simp: list_live_def)
  moreover have "list_all int64_time [gauge_series, gauge_series]" by (simp add: int64_time_def gauge_series_time)
  ultimately show ?thesis
    using series_written_once [OF list_series.ttl_provider_axioms answering_simps(1) _ w] by (simp only: w fst_conv snd_conv image_insert image_empty)
qed

theorem retried_push_loses_series_witness:
  "wSeries (snd (fst (PushMetrics small_lib False False (list_ttl 2700) 0 (database (Inr ())) one_gauge
      (snd (PushMetrics small_lib False False (list_ttl 2700) 0 (database (Inl ''reset'')) one_gauge []))))) = []"
proof -
  obtain errs w c1 where 1: "PushMetrics small_lib False False (list_ttl 2700) 0 (database (Inl ''reset'')) one_gauge [] = ((errs, w), c1)"
    by (metis prod.exhaust)
  obtain errs' w' c2 where 2: "PushMetrics small_lib False False (list_ttl 2700) 0 (database (Inr ())) one_gauge c1 = ((errs', w'), c2)"
    by (metis prod.exhaust)
  show ?thesis
    using retried_push_loses_series [OF list_series.ttl_provider_axioms _ _ _ 1 _ _ _ 2, of "''reset''"] 1 2
    by (simp add: one_gauge_series)
qed

end
