(* ===== verification/LogsExporter.thy ===== *)
theory LogsExporter
  imports JsonWriter
begin

text \<open>
  The exporter of logs (exporter/datastorelogsexporter): the columns of a log record, the promoted paths
  of its body, the rows on attributes and their keys, and the resources seen by a push. \<open>LogsPush\<close> has the
  goroutines of a push.

  The record \<open>logsLib\<close> holds what the source takes from elsewhere: texts of values and of JSON, identifiers,
  and the orders of ranging over maps. A statement of the database is the list of rows appended to it;
  \<open>appends\<close> are the errors of appending.
\<close>

section \<open>Keys (utils)\<close>

definition MakeKeyForRFCache :: "int \<Rightarrow> string \<Rightarrow> string" where
  "MakeKeyForRFCache bucketTs fp = itoa bucketTs @ '':'' @ fp"

definition MakeKeyForAttributeKeys :: "string \<Rightarrow> string \<Rightarrow> string \<Rightarrow> string" where
  "MakeKeyForAttributeKeys tagKey tagTy dataType = tagKey @ '':'' @ tagTy @ '':'' @ dataType"

definition TagTypeAttribute :: string where "TagTypeAttribute = ''tag''"
definition TagTypeScope :: string where "TagTypeScope = ''scope''"
definition TagTypeResource :: string where "TagTypeResource = ''resource''"
definition TagTypeLogField :: string where "TagTypeLogField = ''logfield''"

definition FieldDataTypeString :: string where "FieldDataTypeString = ''string''"
definition FieldDataTypeFloat64 :: string where "FieldDataTypeFloat64 = ''float64''"
definition FieldDataTypeBool :: string where "FieldDataTypeBool = ''bool''"

section \<open>Data\<close>

record attributeMap =
  StringData :: "string \<rightharpoonup> string"
  NumberData :: "string \<rightharpoonup> rat"
  BoolData :: "string \<rightharpoonup> bool"

record Record =
  tsBucketStart :: "64 word"
  resourceFP :: string
  ts :: "64 word"
  ots :: "64 word"
  recordId :: string
  traceID :: string
  spanID :: string
  traceFlags :: "32 word"
  severityText :: string
  severityNum :: "8 word"
  body :: string
  bodyJSON :: string
  bodyJSONPromoted :: string
  scopeName :: string
  scopeVersion :: string
  resourceMap :: attributeMap
  scopeMap :: attributeMap
  attrsMap :: attributeMap
  logFields :: attributeMap
  recordSize :: int

text \<open>A log record of the protocol, with the texts of its trace and span identifiers.\<close>

record plog =
  lTimestamp :: "64 word"
  lObserved :: "64 word"
  lTraceID :: string
  lSpanID :: string
  lFlags :: "32 word"
  lSeverityText :: string
  lSeverityNumber :: int
  lBody :: Value
  lAttributes :: "(string \<times> Value) list"

record scopeLogs =
  slName :: string
  slVersion :: string
  slAttributes :: "(string \<times> Value) list"
  slRecords :: "plog list"

record resourceLogs =
  rlAttributes :: "(string \<times> Value) list"
  rlScopes :: "scopeLogs list"

record logsLib =
  llAsString :: "Value \<Rightarrow> string"
  llTypeName :: "Value \<Rightarrow> string"
  llMapJSON :: "(string \<rightharpoonup> string) \<Rightarrow> string result"
  llJSONLength :: "(string \<times> Value) list \<Rightarrow> int"
  llResourceLength :: "(string \<times> Value) list \<Rightarrow> int"
  llFingerprint :: "(string \<times> Value) list \<Rightarrow> string"
  llNewID :: "nat \<Rightarrow> 64 word \<Rightarrow> string result"
  llRunes :: runes
  llKeys :: "string set \<Rightarrow> string list"
  llNow :: "64 word"

record exporterConfig =
  bodyJSONEnabled :: bool
  bodyJSONOldBodyEnabled :: bool
  promotedPaths :: "string list"
  shouldSkipKeys :: "string list"
  maxAllowedDataAgeDays :: int

text \<open>
  The periodic queries. The rows of the first are key, type and data type of a tag; an error is logged, and
  the rows read so far replace the keys. An error of the second leaves the paths as they are.
\<close>

definition doFetchShouldSkipKeys :: "error option \<times> (string \<times> string \<times> string) list \<Rightarrow> exporterConfig \<Rightarrow> exporterConfig" where
  "doFetchShouldSkipKeys answer e = e\<lparr>shouldSkipKeys := map (\<lambda>(k, t, d). MakeKeyForAttributeKeys k t d) (snd answer)\<rparr>"

definition doFetchPromotedPaths :: "string list result \<Rightarrow> exporterConfig \<Rightarrow> exporterConfig" where
  "doFetchPromotedPaths answer e = (case answer of Inl err \<Rightarrow> e | Inr fieldNames \<Rightarrow> e\<lparr>promotedPaths := remdups fieldNames\<rparr>)"

section \<open>Columns of a record\<close>

definition attributesToMap :: "logsLib \<Rightarrow> (string \<times> Value) list \<Rightarrow> bool \<Rightarrow> attributeMap" where
  "attributesToMap L attributes forceStringValues =
     foldl (\<lambda>response (k, v).
       if forceStringValues then response\<lparr>StringData := (StringData response)(k \<mapsto> llAsString L v)\<rparr>
       else (case v of
           ValueInt i \<Rightarrow> response\<lparr>NumberData := (NumberData response)(k \<mapsto> float64_of_int i)\<rparr>
         | ValueDouble d \<Rightarrow> response\<lparr>NumberData := (NumberData response)(k \<mapsto> d)\<rparr>
         | ValueBool b \<Rightarrow> response\<lparr>BoolData := (BoolData response)(k \<mapsto> b)\<rparr>
         | _ \<Rightarrow> response\<lparr>StringData := (StringData response)(k \<mapsto> llAsString L v)\<rparr>))
     \<lparr>StringData = Map.empty, NumberData = Map.empty, BoolData = Map.empty\<rparr> attributes"

definition getStringifiedBody :: "logsLib \<Rightarrow> Value \<Rightarrow> string" where
  "getStringifiedBody L v = (case v of ValueBytes bs \<Rightarrow> bs | _ \<Rightarrow> llAsString L v)"

text \<open>\<open>strings.Cut\<close> at the first dot.\<close>

definition cut_dot :: "string \<Rightarrow> (string \<times> string) option" where
  "cut_dot s = (case dropWhile (\<lambda>c. c \<noteq> CHR ''.'') s of [] \<Rightarrow> None | _ # after \<Rightarrow> Some (takeWhile (\<lambda>c. c \<noteq> CHR ''.'') s, after))"

lemma cut_dot_shorter: "cut_dot s = Some (before, after) \<Longrightarrow> length after < length s"
proof -
  assume "cut_dot s = Some (before, after)"
  then obtain c where "dropWhile (\<lambda>c. c \<noteq> CHR ''.'') s = c # after" by (auto simp: cut_dot_def split: list.splits)
  then have "length after < length (dropWhile (\<lambda>c. c \<noteq> CHR ''.'') s)" by simp
  also have "\<dots> \<le> length s" by (rule length_dropWhile_le)
  finally show ?thesis .
qed

fun is_map :: "Value \<Rightarrow> bool" where
  "is_map (ValueMap m) = True"
| "is_map _ = False"

text \<open>
  The value a path leads to, with literal keys preferred at every level: the walk of \<open>handleSinglePath\<close>,
  which copies the value under the full path. A copied value is never a map.
\<close>

function path_value :: "(string \<times> Value) list \<Rightarrow> string \<Rightarrow> Value option" where
  "path_value bodyMap remainingPath =
     (if (case map_of bodyMap remainingPath of Some v \<Rightarrow> \<not> is_map v | None \<Rightarrow> False) then map_of bodyMap remainingPath
      else (case cut_dot remainingPath of
          None \<Rightarrow> None
        | Some (head, tail) \<Rightarrow> (case map_of bodyMap head of Some (ValueMap nestedMap) \<Rightarrow> path_value nestedMap tail | _ \<Rightarrow> None)))"
  by pat_completeness auto
termination
  by (relation "measure (\<lambda>(_, p). length p)") (auto dest: cut_dot_shorter)

declare path_value.simps [simp del]

definition handleSinglePath :: "(string \<times> Value) list \<Rightarrow> string \<Rightarrow> (string \<times> Value) list \<Rightarrow> (string \<times> Value) list" where
  "handleSinglePath bodyMap fullPath promotedMap =
     (case path_value bodyMap fullPath of None \<Rightarrow> promotedMap | Some v \<Rightarrow> AList.update fullPath v promotedMap)"

text \<open>\<open>paths\<close> lists the promoted paths in the order in which the map is ranged over.\<close>

definition buildPromoted :: "Value \<Rightarrow> string list \<Rightarrow> Value" where
  "buildPromoted v paths = (case v of ValueMap bm \<Rightarrow> ValueMap (fold (handleSinglePath bm) paths []) | _ \<Rightarrow> ValueMap [])"

definition processBody :: "logsLib \<Rightarrow> exporterConfig \<Rightarrow> Value \<Rightarrow> (string \<times> string \<times> string) result" where
  "processBody L e v =
     (if bodyJSONEnabled e
      then (case v of
          ValueMap m \<Rightarrow> Inr (getStringifiedBody L (if bodyJSONOldBodyEnabled e then v else ValueEmpty), getStringifiedBody L v,
            getStringifiedBody L (buildPromoted v (promotedPaths e)))
        | _ \<Rightarrow> Inl (''body expected to be map, found '' @ llTypeName L v))
      else Inr (getStringifiedBody L v, getStringifiedBody L (ValueMap []), getStringifiedBody L (ValueMap [])))"

definition distributedLogsResourceV2Seconds :: int where "distributedLogsResourceV2Seconds = 1800"

definition tsBucket :: "int \<Rightarrow> int \<Rightarrow> int" where
  "tsBucket t bucketSize = go_div t bucketSize * bucketSize"

section \<open>Resources seen\<close>

type_synonym resourcesSeenMap = "int \<rightharpoonup> string \<rightharpoonup> string"

text \<open>Loading and storing are atomic; what is returned is what the map holds afterwards.\<close>

definition getOrCreateFingerprint :: "int \<Rightarrow> string \<Rightarrow> string \<Rightarrow> resourcesSeenMap \<Rightarrow> string \<times> resourcesSeenMap" where
  "getOrCreateFingerprint bucket resourceJSON created r =
     (let innerMap = (case r bucket of None \<Rightarrow> Map.empty | Some m \<Rightarrow> m)
      in case innerMap resourceJSON of
           Some fp \<Rightarrow> (fp, r(bucket \<mapsto> innerMap))
         | None \<Rightarrow> (created, r(bucket \<mapsto> innerMap(resourceJSON \<mapsto> created))))"

section \<open>Rows on attributes\<close>

record logTagRow =
  ltMilli :: int
  ltKey :: string
  ltTagType :: string
  ltDataType :: string
  ltString :: "string option"
  ltNumber :: "rat option"

record 'c batches =
  tagStatement :: "logTagRow list"
  attributeKeysStmt :: "(string \<times> string) list"
  resourceKeysStmt :: "(string \<times> string) list"
  logsStmt :: "Record list"
  keysCache :: 'c
  usageCount :: int
  usageSize :: int

record appends =
  apTag :: "logTagRow list \<Rightarrow> logTagRow \<Rightarrow> error option"
  apAttributeKeys :: "(string \<times> string) list \<Rightarrow> string \<times> string \<Rightarrow> error option"
  apResourceKeys :: "(string \<times> string) list \<Rightarrow> string \<times> string \<Rightarrow> error option"
  apLogs :: "Record list \<Rightarrow> Record \<Rightarrow> error option"

text \<open>What the goroutines share besides the channel: the packages, the configuration and the time.\<close>

record 'c pushEnv =
  peLib :: logsLib
  peCfg :: exporterConfig
  peTtl :: "('c, string) ttlcache"
  peNow :: int
  peAppends :: appends

text \<open>The key is put into the cache even when its row could not be appended.\<close>

definition addAttrsToAttributeKeysStatement :: "'c pushEnv \<Rightarrow> string \<Rightarrow> string \<Rightarrow> string \<Rightarrow> 'c batches \<Rightarrow> 'c batches" where
  "addAttrsToAttributeKeysStatement E key tagTy datatype w =
     (if IsRandomKey (llRunes (peLib E)) key then w
      else (let cacheKey = MakeKeyForAttributeKeys key tagTy datatype in
        case ttlGet (peTtl E) (peNow E) cacheKey (keysCache w) of
          (Some _, c1) \<Rightarrow> w\<lparr>keysCache := c1\<rparr>
        | (None, c1) \<Rightarrow>
            (let w1 = (if tagTy = TagTypeResource
                 then (case apResourceKeys (peAppends E) (resourceKeysStmt w) (key, datatype) of
                     None \<Rightarrow> w\<lparr>resourceKeysStmt := resourceKeysStmt w @ [(key, datatype)]\<rparr> | Some _ \<Rightarrow> w)
                 else if tagTy = TagTypeAttribute
                 then (case apAttributeKeys (peAppends E) (attributeKeysStmt w) (key, datatype) of
                     None \<Rightarrow> w\<lparr>attributeKeysStmt := attributeKeysStmt w @ [(key, datatype)]\<rparr> | Some _ \<Rightarrow> w)
                 else w)
             in w1\<lparr>keysCache := ttlSet (peTtl E) (peNow E) cacheKey 1 c1\<rparr>)))"

text \<open>
  The three loops over the maps are one over their entries: key, name of the type in the message, type,
  and the values of the two columns.
\<close>

type_synonym tag_entry = "string \<times> string \<times> string \<times> string option \<times> rat option"

definition tag_entries :: "logsLib \<Rightarrow> attributeMap \<Rightarrow> tag_entry list" where
  "tag_entries L am =
     map (\<lambda>k. (k, ''string'', FieldDataTypeString, StringData am k, None)) (llKeys L (dom (StringData am))) @
     map (\<lambda>k. (k, ''number'', FieldDataTypeFloat64, None, NumberData am k)) (llKeys L (dom (NumberData am))) @
     map (\<lambda>k. (k, ''bool'', FieldDataTypeBool, None, None)) (llKeys L (dom (BoolData am)))"

definition too_long :: "string option \<Rightarrow> bool" where
  "too_long v = (case v of None \<Rightarrow> False | Some s \<Rightarrow> MaxAttributeValueLength < length s)"

fun tag_loop :: "'c pushEnv \<Rightarrow> int \<Rightarrow> string \<Rightarrow> tag_entry list \<Rightarrow> 'c batches \<Rightarrow> error option \<times> 'c batches" where
  "tag_loop E unixMilli tagTy [] w = (None, w)"
| "tag_loop E unixMilli tagTy ((key, what, datatype, s, n) # es) w =
     (if IsRandomKey (llRunes (peLib E)) key then tag_loop E unixMilli tagTy es w
      else (let w1 = addAttrsToAttributeKeysStatement E key tagTy datatype w;
                r = \<lparr>ltMilli = unixMilli, ltKey = key, ltTagType = tagTy, ltDataType = datatype, ltString = s, ltNumber = n\<rparr>
            in if too_long s \<or> MakeKeyForAttributeKeys key tagTy datatype \<in> set (shouldSkipKeys (peCfg E)) then tag_loop E unixMilli tagTy es w1
               else (case apTag (peAppends E) (tagStatement w1) r of
                   Some err \<Rightarrow> (Some (''could not append '' @ what @ '' attribute to batch, err: '' @ err), w1)
                 | None \<Rightarrow> tag_loop E unixMilli tagTy es (w1\<lparr>tagStatement := tagStatement w1 @ [r]\<rparr>))))"

definition addAttrsToTagStatement :: "'c pushEnv \<Rightarrow> string \<Rightarrow> attributeMap \<Rightarrow> 'c batches \<Rightarrow> error option \<times> 'c batches" where
  "addAttrsToTagStatement E tagTy am w =
     tag_loop E (go_div (peNow E) 3600000 * 3600000) tagTy (tag_entries (peLib E) am) w"

section \<open>One record\<close>

text \<open>What the consumer does with a record: rows on its attributes, then its own row, then the usage.\<close>

definition consume_record :: "'c pushEnv \<Rightarrow> Record \<Rightarrow> 'c batches \<Rightarrow> error option \<times> 'c batches" where
  "consume_record E rec w =
     (case addAttrsToTagStatement E TagTypeResource (resourceMap rec) w of
        (Some err, w1) \<Rightarrow> (Some err, w1)
      | (None, w1) \<Rightarrow> (case addAttrsToTagStatement E TagTypeScope (scopeMap rec) w1 of
          (Some err, w2) \<Rightarrow> (Some err, w2)
        | (None, w2) \<Rightarrow> (case addAttrsToTagStatement E TagTypeAttribute (attrsMap rec) w2 of
            (Some err, w3) \<Rightarrow> (Some err, w3)
          | (None, w3) \<Rightarrow> (case addAttrsToTagStatement E TagTypeLogField (logFields rec) w3 of
              (_, w4) \<Rightarrow> (case apLogs (peAppends E) (logsStmt w4) rec of
                  Some err \<Rightarrow> (Some (''StatementAppendLogsV2:'' @ err), w4)
                | None \<Rightarrow> (None, w4\<lparr>logsStmt := logsStmt w4 @ [rec], usageCount := usageCount w4 + 1,
                             usageSize := usageSize w4 + recordSize rec\<rparr>))))))"

text \<open>A record to be prepared, with what the loops around it computed; \<open>jNumber\<close> tells identifiers apart.\<close>

record job =
  jNumber :: nat
  jResource :: "(string \<times> Value) list"
  jResourceJson :: string
  jResourcesMap :: attributeMap
  jScopeName :: string
  jScopeVersion :: string
  jScopeMap :: attributeMap
  jRecord :: plog

definition log_times :: "logsLib \<Rightarrow> plog \<Rightarrow> 64 word \<times> 64 word" where
  "log_times L r =
     (let o' = (if lObserved r = 0 then llNow L else lObserved r)
      in (if lTimestamp r = 0 then o' else lTimestamp r, o'))"

definition oldestAllowedTs :: "logsLib \<Rightarrow> exporterConfig \<Rightarrow> 64 word" where
  "oldestAllowedTs L e = llNow L - word_of_int (maxAllowedDataAgeDays e * 86400000000000)"

definition bucket_of :: "64 word \<Rightarrow> int" where
  "bucket_of t = tsBucket (uint (t div 1000000000)) distributedLogsResourceV2Seconds"

text \<open>The body of a producer up to the send. \<open>None\<close>: the record is too old.\<close>

definition prepare_record :: "logsLib \<Rightarrow> exporterConfig \<Rightarrow> job \<Rightarrow> resourcesSeenMap \<Rightarrow> Record option result \<times> resourcesSeenMap" where
  "prepare_record L e j seen =
     (let r = jRecord j; (t, o') = log_times L r
      in if t < oldestAllowedTs L e then (Inr None, seen)
         else (case llNewID L (jNumber j) t of
             Inl err \<Rightarrow> (Inl (''IdGenError:'' @ err), seen)
           | Inr i \<Rightarrow>
               (let (fp, seen') = getOrCreateFingerprint (bucket_of t) (jResourceJson j) (llFingerprint L (jResource j)) seen
                in case processBody L e (lBody r) of
                     Inl err \<Rightarrow> (Inl err, seen')
                   | Inr (bd, bdJSON, promoted) \<Rightarrow> (Inr (Some
                      \<lparr>tsBucketStart = word_of_int (bucket_of t), resourceFP = fp, ts = t, ots = o', recordId = i,
                       traceID = lTraceID r, spanID = lSpanID r, traceFlags = lFlags r, severityText = lSeverityText r,
                       severityNum = word_of_int (lSeverityNumber r), body = bd, bodyJSON = bdJSON, bodyJSONPromoted = promoted,
                       scopeName = jScopeName j, scopeVersion = jScopeVersion j, resourceMap = jResourcesMap j,
                       scopeMap = jScopeMap j, attrsMap = attributesToMap L (lAttributes r) False,
                       logFields = \<lparr>StringData = [''severity_text'' \<mapsto> lSeverityText r],
                         NumberData = [''severity_number'' \<mapsto> float64_of_int (lSeverityNumber r)], BoolData = Map.empty\<rparr>,
                       recordSize = int (length (llAsString L (lBody r))) + llJSONLength L (lAttributes r) + llResourceLength L (jResource j)\<rparr>), seen'))))"

text \<open>
  The nested loops over resources, scopes and records, as the list of what they come to: a record, or a
  resource that cannot be serialized, where the loops are left.
\<close>

definition scope_jobs :: "logsLib \<Rightarrow> (string \<times> Value) list \<Rightarrow> string \<Rightarrow> scopeLogs \<Rightarrow> (nat \<Rightarrow> job) list" where
  "scope_jobs L am json sl = map (\<lambda>r n. \<lparr>jNumber = n, jResource = am, jResourceJson = json,
     jResourcesMap = attributesToMap L am True, jScopeName = slName sl, jScopeVersion = slVersion sl,
     jScopeMap = attributesToMap L (slAttributes sl) True, jRecord = r\<rparr>) (slRecords sl)"

definition resource_jobs :: "logsLib \<Rightarrow> resourceLogs \<Rightarrow> (nat \<Rightarrow> job) list result" where
  "resource_jobs L rl =
     (case llMapJSON L (StringData (attributesToMap L (rlAttributes rl) True)) of
        Inl err \<Rightarrow> Inl (''couldn't serialize log resource JSON: '' @ err)
      | Inr json \<Rightarrow> Inr (concat (map (scope_jobs L (rlAttributes rl) json) (rlScopes rl))))"

fun jobs_from :: "logsLib \<Rightarrow> nat \<Rightarrow> resourceLogs list \<Rightarrow> (error + job) list" where
  "jobs_from L n [] = []"
| "jobs_from L n (rl # rls) =
     (case resource_jobs L rl of
        Inl err \<Rightarrow> [Inl err]
      | Inr js \<Rightarrow> map2 (\<lambda>j i. Inr (j i)) js [n..<n + length js] @ jobs_from L (n + length js) rls)"

section \<open>Promoted paths\<close>

text \<open>A path leads to a value by a literal key, or by a key before a dot and the rest of the path in its map.\<close>

inductive leads_to :: "(string \<times> Value) list \<Rightarrow> string \<Rightarrow> Value \<Rightarrow> bool" where
  literal: "map_of m p = Some v \<Longrightarrow> leads_to m p v"
| nested: "map_of m h = Some (ValueMap m') \<Longrightarrow> leads_to m' p v \<Longrightarrow> leads_to m (h @ ''.'' @ p) v"

lemma cut_dot_parts: "cut_dot s = Some (h, t) \<Longrightarrow> s = h @ ''.'' @ t"
proof -
  assume "cut_dot s = Some (h, t)"
  then obtain c where c: "dropWhile (\<lambda>c. c \<noteq> CHR ''.'') s = c # t" and h: "h = takeWhile (\<lambda>c. c \<noteq> CHR ''.'') s"
    by (auto simp: cut_dot_def split: list.splits)
  then have "c = CHR ''.''" using hd_dropWhile [of "\<lambda>c. c \<noteq> CHR ''.''" s] by auto
  then show ?thesis using c h takeWhile_dropWhile_id [of "\<lambda>c. c \<noteq> CHR ''.''" s] by simp
qed

lemma path_value_leads: "path_value m p = Some v \<Longrightarrow> leads_to m p v \<and> \<not> is_map v"
proof (induction m p rule: path_value.induct)
  case (1 m p)
  show ?case
  proof (cases "case map_of m p of Some v \<Rightarrow> \<not> is_map v | None \<Rightarrow> False")
    case True
    then show ?thesis using "1.prems" by (auto simp: path_value.simps [of m p] split: option.splits intro: leads_to.literal)
  next
    case False
    then obtain h t m' where c: "cut_dot p = Some (h, t)" "map_of m h = Some (ValueMap m')" "path_value m' t = Some v"
      using "1.prems" by (auto simp: path_value.simps [of m p] split: option.splits Value.splits)
    then have "leads_to m' t v \<and> \<not> is_map v" using "1.IH" [OF False c(1) refl c(2) refl] by simp
    then show ?thesis using leads_to.nested [OF c(2)] cut_dot_parts [OF c(1)] by simp
  qed
qed

lemma fold_promoted: "map_of (fold (handleSinglePath bm) paths pm) p =
    (if p \<in> set paths \<and> path_value bm p \<noteq> None then path_value bm p else map_of pm p)"
  by (induction paths arbitrary: pm) (auto simp: handleSinglePath_def update_conv split: option.splits)

text \<open>
  The promoted columns of a body hold, for every promoted path and no other key, a value the path leads
  to, which is never a map; a literal key is preferred, and the order of the paths does not matter.
\<close>

theorem promoted_paths:
  assumes "buildPromoted (ValueMap bm) paths = ValueMap pm"
  shows "map_of pm p = (if p \<in> set paths then path_value bm p else None) \<and>
    (\<forall>v. map_of pm p = Some v \<longrightarrow> p \<in> set paths \<and> leads_to bm p v \<and> \<not> is_map v)"
  using assms path_value_leads by (auto simp: buildPromoted_def fold_promoted split: if_splits)

theorem promoted_paths_witness:
  "leads_to [(''a'', ValueMap [(''b'', ValueInt 1)])] ''a.b'' (ValueInt 1)"
proof -
  have "path_value [(''a'', ValueMap [(''b'', ValueInt 1)])] ''a.b'' = Some (ValueInt 1)"
    by (simp add: path_value.simps cut_dot_def)
  then have "buildPromoted (ValueMap [(''a'', ValueMap [(''b'', ValueInt 1)])]) [''a.b''] = ValueMap [(''a.b'', ValueInt 1)]"
    by (simp add: buildPromoted_def handleSinglePath_def)
  from promoted_paths [OF this, of "''a.b''"] show ?thesis by simp
qed

text \<open>A query of the keys to leave out that fails makes the exporter forget them.\<close>

lemma failed_fetch_forgets_keys: "shouldSkipKeys (doFetchShouldSkipKeys (Some err, []) e) = []"
  by (simp add: doFetchShouldSkipKeys_def)

end
