(* ===== verification/LogsPush.thy ===== *)
theory LogsPush
  imports LogsExporter
begin

text \<open>
  The goroutines of a push (\<open>pushToDatastore\<close>): the loop that starts a producer for every record, as long as
  the limiter has a free slot; the producers, which prepare a record and send it into a channel of the
  same capacity as the limiter; the consumer, which appends rows; and the goroutine that closes the channel
  when all producers are done. The first error of a goroutine, or the end of the context, cancels the
  others. A step of the relation \<open>push_step\<close> is one action of one goroutine.

  The limiter is shared by the pushes of an exporter; here a push has it to itself, which gives it the
  most slots it can have.
\<close>

section \<open>States and steps\<close>

datatype producer = Preparing job | Sending Record

datatype consumer = Ready | Handling Record | Exited

datatype position = Iterating | Waiting | Returned "error option"

record 'c push =
  todo :: "(error + job) list"
  producers :: "producer list"
  recordStream :: "Record list"
  streamClosed :: bool
  consumerAt :: consumer
  ctxDone :: bool
  firstError :: "error option"
  mainAt :: position
  resourcesSeen :: resourcesSeenMap
  statements :: "'c batches"
  panicked :: bool

definition cancelled :: "'c push \<Rightarrow> bool" where
  "cancelled s \<longleftrightarrow> ctxDone s \<or> firstError s \<noteq> None"

text \<open>\<open>group.Go\<close> keeps the first error.\<close>

definition fail_with :: "error \<Rightarrow> 'c push \<Rightarrow> 'c push" where
  "fail_with err s = (case firstError s of None \<Rightarrow> s\<lparr>firstError := Some err\<rparr> | Some _ \<Rightarrow> s)"

definition remove_nth :: "nat \<Rightarrow> 'a list \<Rightarrow> 'a list" where
  "remove_nth i xs = take i xs @ drop (Suc i) xs"

definition finish_producer :: "nat \<Rightarrow> 'c push \<Rightarrow> 'c push" where
  "finish_producer i s = s\<lparr>producers := remove_nth i (producers s)\<rparr>"

inductive push_step :: "'c pushEnv \<Rightarrow> nat \<Rightarrow> 'c push \<Rightarrow> 'c push \<Rightarrow> bool" for E :: "'c pushEnv" and limit :: nat where
  start: "mainAt s = Iterating \<Longrightarrow> todo s = Inr j # js \<Longrightarrow> length (producers s) < limit \<Longrightarrow>
    push_step E limit s (s\<lparr>todo := js, producers := producers s @ [Preparing j]\<rparr>)"
| leave_loop: "mainAt s = Iterating \<Longrightarrow> todo s = Inr j # js \<Longrightarrow> cancelled s \<Longrightarrow>
    push_step E limit s (s\<lparr>mainAt := Waiting\<rparr>)"
| loop_done: "mainAt s = Iterating \<Longrightarrow> todo s = [] \<Longrightarrow> push_step E limit s (s\<lparr>mainAt := Waiting\<rparr>)"
| not_serialized: "mainAt s = Iterating \<Longrightarrow> todo s = Inl err # js \<Longrightarrow>
    push_step E limit s (s\<lparr>mainAt := Returned (Some err), streamClosed := True\<rparr>)"
| prepared: "i < length (producers s) \<Longrightarrow> producers s ! i = Preparing j \<Longrightarrow>
    prepare_record (peLib E) (peCfg E) j (resourcesSeen s) = (Inr (Some rec), seen) \<Longrightarrow>
    push_step E limit s (s\<lparr>producers := (producers s)[i := Sending rec], resourcesSeen := seen\<rparr>)"
| too_old: "i < length (producers s) \<Longrightarrow> producers s ! i = Preparing j \<Longrightarrow>
    prepare_record (peLib E) (peCfg E) j (resourcesSeen s) = (Inr None, seen) \<Longrightarrow>
    push_step E limit s (finish_producer i (s\<lparr>resourcesSeen := seen\<rparr>))"
| not_prepared: "i < length (producers s) \<Longrightarrow> producers s ! i = Preparing j \<Longrightarrow>
    prepare_record (peLib E) (peCfg E) j (resourcesSeen s) = (Inl err, seen) \<Longrightarrow>
    push_step E limit s (fail_with err (finish_producer i (s\<lparr>resourcesSeen := seen\<rparr>)))"
| sent: "i < length (producers s) \<Longrightarrow> producers s ! i = Sending rec \<Longrightarrow> \<not> streamClosed s \<Longrightarrow> length (recordStream s) < limit \<Longrightarrow>
    push_step E limit s (finish_producer i (s\<lparr>recordStream := recordStream s @ [rec]\<rparr>))"
| sent_on_closed: "i < length (producers s) \<Longrightarrow> producers s ! i = Sending rec \<Longrightarrow> streamClosed s \<Longrightarrow> \<not> panicked s \<Longrightarrow>
    push_step E limit s (s\<lparr>panicked := True\<rparr>)"
| received: "consumerAt s = Ready \<Longrightarrow> recordStream s = rec # rs \<Longrightarrow>
    push_step E limit s (s\<lparr>consumerAt := Handling rec, recordStream := rs\<rparr>)"
| handled: "consumerAt s = Handling rec \<Longrightarrow> consume_record E rec (statements s) = (None, w) \<Longrightarrow>
    push_step E limit s (s\<lparr>consumerAt := Ready, statements := w\<rparr>)"
| not_handled: "consumerAt s = Handling rec \<Longrightarrow> consume_record E rec (statements s) = (Some err, w) \<Longrightarrow>
    push_step E limit s (fail_with err (s\<lparr>consumerAt := Exited, statements := w\<rparr>))"
| consumer_cancelled: "consumerAt s = Ready \<Longrightarrow> cancelled s \<Longrightarrow> push_step E limit s (s\<lparr>consumerAt := Exited\<rparr>)"
| consumer_done: "consumerAt s = Ready \<Longrightarrow> recordStream s = [] \<Longrightarrow> streamClosed s \<Longrightarrow>
    push_step E limit s (s\<lparr>consumerAt := Exited\<rparr>)"
| closed: "mainAt s = Waiting \<Longrightarrow> producers s = [] \<Longrightarrow> \<not> streamClosed s \<Longrightarrow>
    push_step E limit s (s\<lparr>streamClosed := True\<rparr>)"
| waited: "mainAt s = Waiting \<Longrightarrow> producers s = [] \<Longrightarrow> consumerAt s = Exited \<Longrightarrow>
    push_step E limit s (s\<lparr>mainAt := Returned (firstError s), streamClosed := True\<rparr>)"
| context_done: "\<not> ctxDone s \<Longrightarrow> push_step E limit s (s\<lparr>ctxDone := True\<rparr>)"

definition start_push :: "logsLib \<Rightarrow> resourceLogs list \<Rightarrow> 'c batches \<Rightarrow> 'c push" where
  "start_push L ld w = \<lparr>todo = jobs_from L 0 ld, producers = [], recordStream = [], streamClosed = False, consumerAt = Ready,
     ctxDone = False, firstError = None, mainAt = Iterating, resourcesSeen = Map.empty, statements = w, panicked = False\<rparr>"

inductive reachable :: "'c pushEnv \<Rightarrow> nat \<Rightarrow> resourceLogs list \<Rightarrow> 'c batches \<Rightarrow> 'c push \<Rightarrow> bool"
  for E :: "'c pushEnv" and limit :: nat and ld :: "resourceLogs list" and w :: "'c batches" where
  first: "reachable E limit ld w (start_push (peLib E) ld w)"
| further: "reachable E limit ld w s \<Longrightarrow> push_step E limit s s' \<Longrightarrow> reachable E limit ld w s'"

section \<open>Every push comes to a halt\<close>

text \<open>Every step lowers this number, so that a push makes only finitely many.\<close>

fun producer_work :: "producer \<Rightarrow> nat" where
  "producer_work (Preparing j) = 5"
| "producer_work (Sending rec) = 4"

fun consumer_work :: "consumer \<Rightarrow> nat" where
  "consumer_work Ready = 1"
| "consumer_work (Handling rec) = 2"
| "consumer_work Exited = 0"

fun position_work :: "position \<Rightarrow> nat" where
  "position_work Iterating = 2"
| "position_work Waiting = 1"
| "position_work (Returned err) = 0"

definition work :: "'c push \<Rightarrow> nat" where
  "work s = 6 * length (todo s) + sum_list (map producer_work (producers s)) + 3 * length (recordStream s)
     + consumer_work (consumerAt s) + position_work (mainAt s) + (if streamClosed s then 0 else 1) + (if ctxDone s then 0 else 1)
     + (if panicked s then 0 else 1)"

lemma remove_nth_sum: "i < length xs \<Longrightarrow> sum_list (map f xs) = f (xs ! i) + sum_list (map f (remove_nth i xs))"
  for f :: "'a \<Rightarrow> nat"
  unfolding remove_nth_def by (subst id_take_nth_drop [of i xs]) simp_all

lemma update_sum: "i < length xs \<Longrightarrow> sum_list (map f (xs[i := y])) = f y + sum_list (map f (remove_nth i xs))"
  for f :: "'a \<Rightarrow> nat"
  unfolding remove_nth_def by (simp add: upd_conv_take_nth_drop)

lemma remove_nth_update [simp]: "remove_nth i (xs[i := y]) = remove_nth i xs"
  by (simp add: remove_nth_def)

lemma fail_with_simps [simp]:
  "todo (fail_with err s) = todo s" "producers (fail_with err s) = producers s" "recordStream (fail_with err s) = recordStream s"
  "streamClosed (fail_with err s) = streamClosed s" "consumerAt (fail_with err s) = consumerAt s" "ctxDone (fail_with err s) = ctxDone s"
  "mainAt (fail_with err s) = mainAt s" "resourcesSeen (fail_with err s) = resourcesSeen s" "statements (fail_with err s) = statements s"
  "panicked (fail_with err s) = panicked s" "firstError (fail_with err s) \<noteq> None"
  by (simp_all add: fail_with_def split: option.splits)

lemma finish_producer_simps [simp]:
  "todo (finish_producer i s) = todo s" "producers (finish_producer i s) = remove_nth i (producers s)"
  "recordStream (finish_producer i s) = recordStream s"
  "streamClosed (finish_producer i s) = streamClosed s" "consumerAt (finish_producer i s) = consumerAt s" "ctxDone (finish_producer i s) = ctxDone s"
  "mainAt (finish_producer i s) = mainAt s" "resourcesSeen (finish_producer i s) = resourcesSeen s" "statements (finish_producer i s) = statements s"
  "panicked (finish_producer i s) = panicked s" "firstError (finish_producer i s) = firstError s"
  by (simp_all add: finish_producer_def)

lemma step_lowers_work: "push_step E limit s s' \<Longrightarrow> work s' < work s"
  by (induction rule: push_step.induct) (auto simp: work_def remove_nth_sum update_sum)

section \<open>What a push keeps\<close>

definition serializes :: "logsLib \<Rightarrow> bool" where
  "serializes L \<longleftrightarrow> (\<forall>m. \<exists>json. llMapJSON L m = Inr json)"

lemma jobs_from_jobs: "serializes L \<Longrightarrow> x \<in> set (jobs_from L n ld) \<Longrightarrow> \<exists>j. x = Inr j"
proof (induction ld arbitrary: n)
  case (Cons rl ld)
  obtain json where "llMapJSON L (StringData (attributesToMap L (rlAttributes rl) True)) = Inr json"
    using Cons.prems(1) by (auto simp: serializes_def)
  then show ?case using Cons by (auto simp: resource_jobs_def)
qed simp

text \<open>
  The control of a push: the channel is closed only when no producer is left, and unless the push was
  cancelled the consumer leaves only when the channel is closed and empty.
\<close>

definition control_ok :: "nat \<Rightarrow> 'c push \<Rightarrow> bool" where
  "control_ok limit s \<longleftrightarrow> (\<forall>x \<in> set (todo s). \<exists>j. x = Inr j) \<and> length (producers s) \<le> limit \<and> length (recordStream s) \<le> limit \<and>
     (streamClosed s \<longrightarrow> producers s = [] \<and> mainAt s \<noteq> Iterating) \<and>
     (consumerAt s = Exited \<longrightarrow> cancelled s \<or> streamClosed s \<and> recordStream s = []) \<and>
     (mainAt s \<noteq> Iterating \<longrightarrow> todo s = [] \<or> cancelled s) \<and>
     (\<forall>e. mainAt s = Returned e \<longrightarrow> producers s = [] \<and> consumerAt s = Exited \<and> e = firstError s) \<and> \<not> panicked s"

lemma remove_nth_length [simp]: "i < length xs \<Longrightarrow> length (remove_nth i xs) = length xs - 1"
  by (simp add: remove_nth_def)

lemma set_remove_nth: "set (remove_nth i xs) \<subseteq> set xs"
  by (auto simp: remove_nth_def dest: in_set_takeD in_set_dropD)

lemma cancelled_simps [simp]:
  "cancelled (fail_with err s)" "cancelled (finish_producer i s) = cancelled s" "cancelled (s\<lparr>todo := js\<rparr>) = cancelled s"
  "cancelled (s\<lparr>producers := ps\<rparr>) = cancelled s" "cancelled (s\<lparr>mainAt := m\<rparr>) = cancelled s" "cancelled (s\<lparr>streamClosed := b\<rparr>) = cancelled s"
  "cancelled (s\<lparr>resourcesSeen := m'\<rparr>) = cancelled s" "cancelled (s\<lparr>recordStream := rs\<rparr>) = cancelled s"
  "cancelled (s\<lparr>consumerAt := c\<rparr>) = cancelled s" "cancelled (s\<lparr>statements := w\<rparr>) = cancelled s" "cancelled (s\<lparr>ctxDone := True\<rparr>)"
  "cancelled (s\<lparr>panicked := p\<rparr>) = cancelled s"
  by (simp_all add: cancelled_def)

lemma control_step: "push_step E limit s s' \<Longrightarrow> control_ok limit s \<Longrightarrow> control_ok limit s'"
  by (induction rule: push_step.induct) (auto simp: control_ok_def)

lemma control_start: "serializes L \<Longrightarrow> control_ok limit (start_push L ld w)"
  using jobs_from_jobs by (fastforce simp: control_ok_def start_push_def)

lemma control: "reachable E limit ld w s \<Longrightarrow> serializes (peLib E) \<Longrightarrow> control_ok limit s"
  by (induction rule: reachable.induct) (auto intro: control_start control_step)

text \<open>
  The row of a record but for the fingerprint of its resource, which depends on what the other producers
  did before.
\<close>

definition plain :: "Record \<Rightarrow> Record" where
  "plain rec = rec\<lparr>resourceFP := []\<rparr>"

definition job_row :: "'c pushEnv \<Rightarrow> job \<Rightarrow> Record option" where
  "job_row E j = (case fst (prepare_record (peLib E) (peCfg E) j Map.empty) of Inr (Some rec) \<Rightarrow> Some (plain rec) | _ \<Rightarrow> None)"

lemma job_row_prepared:
  "prepare_record (peLib E) (peCfg E) j seen = (Inr r, seen') \<Longrightarrow> job_row E j = map_option plain r"
  by (auto simp: prepare_record_def job_row_def plain_def Let_def split: if_splits sum.splits prod.splits)

lemma addAttrsToAttributeKeysStatement_logs [simp]: "logsStmt (addAttrsToAttributeKeysStatement E key tagTy datatype w) = logsStmt w"
  by (simp add: addAttrsToAttributeKeysStatement_def Let_def split: prod.splits option.splits)

lemma tag_loop_logs: "tag_loop E ms tagTy es w = (r, w') \<Longrightarrow> logsStmt w' = logsStmt w"
  by (induction E ms tagTy es w rule: tag_loop.induct) (auto simp: Let_def split: if_splits option.splits)

lemma consume_logs: "consume_record E rec w = (None, w') \<Longrightarrow> logsStmt w' = logsStmt w @ [rec]"
  by (auto simp: consume_record_def addAttrsToTagStatement_def split: prod.splits option.splits dest!: tag_loop_logs)

definition producer_row :: "'c pushEnv \<Rightarrow> producer \<Rightarrow> Record option" where
  "producer_row E p = (case p of Preparing j \<Rightarrow> job_row E j | Sending rec \<Rightarrow> Some (plain rec))"

definition todo_row :: "'c pushEnv \<Rightarrow> error + job \<Rightarrow> Record option" where
  "todo_row E x = (case x of Inl _ \<Rightarrow> None | Inr j \<Rightarrow> job_row E j)"

definition consumer_rows :: "consumer \<Rightarrow> Record list" where
  "consumer_rows c = (case c of Handling rec \<Rightarrow> [rec] | _ \<Rightarrow> [])"

text \<open>Where the rows of a push are: still to do, with a producer, in the channel, with the consumer, appended.\<close>

definition rows :: "'c pushEnv \<Rightarrow> 'c push \<Rightarrow> Record multiset" where
  "rows E s = mset (List.map_filter (todo_row E) (todo s)) + mset (List.map_filter (producer_row E) (producers s)) +
     mset (map plain (recordStream s)) + mset (map plain (consumer_rows (consumerAt s))) + mset (map plain (logsStmt (statements s)))"

lemma map_filter_append [simp]: "List.map_filter f (xs @ ys) = List.map_filter f xs @ List.map_filter f ys"
  by (simp add: List.map_filter_def)

lemma map_filter_Cons: "List.map_filter f (x # xs) = (case f x of None \<Rightarrow> [] | Some y \<Rightarrow> [y]) @ List.map_filter f xs"
  by (simp add: List.map_filter_def split: option.splits)

lemma map_filter_Nil [simp]: "List.map_filter f [] = []"
  by (simp add: List.map_filter_def)

lemma remove_nth_rows: "i < length xs \<Longrightarrow>
    mset (List.map_filter f xs) = mset (List.map_filter f [xs ! i]) + mset (List.map_filter f (remove_nth i xs))"
  unfolding remove_nth_def by (subst id_take_nth_drop [of i xs]) (simp_all add: map_filter_Cons split: option.splits)

lemma update_rows: "i < length xs \<Longrightarrow>
    mset (List.map_filter f (xs[i := y])) = mset (List.map_filter f [y]) + mset (List.map_filter f (remove_nth i xs))"
  unfolding remove_nth_def by (simp add: upd_conv_take_nth_drop map_filter_Cons split: option.splits)

lemmas row_simps = rows_def consumer_rows_def todo_row_def producer_row_def map_filter_Cons

lemma rows_step: "push_step E limit s s' \<Longrightarrow> \<not> cancelled s' \<Longrightarrow> rows E s' = rows E s"
proof (induction rule: push_step.induct)
  case (prepared i s j rec seen)
  then show ?case using job_row_prepared [of E j "resourcesSeen s" "Some rec" seen]
    by (simp add: row_simps update_rows remove_nth_rows)
next
  case (too_old i s j seen)
  then show ?case using job_row_prepared [of E j "resourcesSeen s" None seen] by (simp add: row_simps remove_nth_rows)
next
  case (sent i s rec)
  then show ?case by (simp add: row_simps remove_nth_rows)
next
  case (handled s rec w)
  then show ?case using consume_logs by (fastforce simp: row_simps)
qed (auto simp: row_simps split: option.splits)

lemma rows_reachable: "reachable E limit ld w s \<Longrightarrow> \<not> cancelled s \<Longrightarrow> rows E s = rows E (start_push (peLib E) ld w)"
proof (induction rule: reachable.induct)
  case (further s s')
  have "\<not> cancelled s" using further.hyps(2) further.prems
    by (induction rule: push_step.induct) (auto simp: cancelled_def fail_with_def split: option.splits)
  then show ?case using further rows_step by metis
qed simp

text \<open>
  Every record that is not too old becomes exactly one row, whatever the interleaving of the goroutines,
  when the push has waited for them without an error and before its context ended.
\<close>

lemma push_complete:
  assumes "serializes (peLib E)" and "reachable E limit ld w s" and "mainAt s = Returned None" and "\<not> ctxDone s"
  shows "mset (map plain (logsStmt (statements s))) =
    mset (map plain (logsStmt w)) + mset (List.map_filter (todo_row E) (jobs_from (peLib E) 0 ld))"
proof -
  have "control_ok limit s" using assms control by blast
  then have "\<not> cancelled s" "todo s = []" "producers s = []" "recordStream s = []" "consumerAt s = Exited"
    using assms(3,4) by (auto simp: control_ok_def cancelled_def)
  then show ?thesis using rows_reachable [OF assms(2)] by (simp add: rows_def consumer_rows_def start_push_def)
qed

lemma producer_goes_on:
  assumes "producers s \<noteq> []" and "\<not> streamClosed s" and "length (recordStream s) < limit"
  shows "\<exists>s'. push_step E limit s s' \<and> ctxDone s' = ctxDone s"
proof -
  have i: "0 < length (producers s)" using assms(1) by simp
  show ?thesis
  proof (cases "producers s ! 0")
    case (Preparing j)
    obtain r seen where "prepare_record (peLib E) (peCfg E) j (resourcesSeen s) = (r, seen)"
      by (cases "prepare_record (peLib E) (peCfg E) j (resourcesSeen s)")
    then show ?thesis
      using push_step.prepared [OF i Preparing] push_step.too_old [OF i Preparing] push_step.not_prepared [OF i Preparing]
      by (cases r rule: sum.exhaust; cases "projr r") fastforce+
  next
    case (Sending rec)
    then show ?thesis using push_step.sent [OF i Sending assms(2,3), of E] by fastforce
  qed
qed

lemma main_goes_on:
  assumes ok: "control_ok limit s" and "consumerAt s = Ready" and "recordStream s = []" and "producers s = []" and "0 < limit"
  shows "\<exists>s'. push_step E limit s s' \<and> ctxDone s' = ctxDone s"
proof (cases "mainAt s")
  case Iterating
  show ?thesis
  proof (cases "todo s")
    case Nil
    then show ?thesis using push_step.loop_done [OF Iterating, of E limit] by fastforce
  next
    case (Cons x js)
    then obtain j where "x = Inr j" using ok by (auto simp: control_ok_def)
    then show ?thesis using push_step.start [OF Iterating, of j js limit E] Cons assms(4,5) by fastforce
  qed
next
  case Waiting
  then show ?thesis
    using push_step.closed [OF Waiting assms(4), of E limit] push_step.consumer_done [OF assms(2,3), of E limit]
    by (cases "streamClosed s") fastforce+
next
  case (Returned e)
  then show ?thesis using ok assms(2) by (auto simp: control_ok_def)
qed

text \<open>As long as nothing fails and the context has not ended, some goroutine can go on.\<close>

lemma push_progress:
  assumes "serializes (peLib E)" and "0 < limit" and "reachable E limit ld w s" and "\<not> cancelled s" and "mainAt s \<noteq> Returned None"
  shows "\<exists>s'. push_step E limit s s' \<and> work s' < work s \<and> ctxDone s' = ctxDone s"
proof -
  have ok: "control_ok limit s" using assms control by blast
  have "\<exists>s'. push_step E limit s s' \<and> ctxDone s' = ctxDone s"
  proof (cases "consumerAt s")
    case Exited
    then have "producers s = []" "streamClosed s" "mainAt s = Waiting"
      using ok assms(4,5) by (cases "mainAt s"; auto simp: control_ok_def cancelled_def)+
    then show ?thesis using push_step.waited [of s E limit] Exited by fastforce
  next
    case (Handling rec)
    obtain r w' where "consume_record E rec (statements s) = (r, w')" by (cases "consume_record E rec (statements s)")
    then show ?thesis using push_step.handled [OF Handling] push_step.not_handled [OF Handling] by (cases r) fastforce+
  next
    case Ready
    show ?thesis
    proof (cases "recordStream s")
      case (Cons rec rs)
      then show ?thesis using push_step.received [OF Ready Cons] by fastforce
    next
      case Nil
      show ?thesis
      proof (cases "producers s = []")
        case False
        then show ?thesis using producer_goes_on [of s limit E] ok Nil assms(2) by (auto simp: control_ok_def)
      next
        case True
        then show ?thesis using main_goes_on [OF ok Ready Nil True assms(2), of E] by blast
      qed
    qed
  qed
  then show ?thesis using step_lowers_work by blast
qed

definition flawless :: "'c pushEnv \<Rightarrow> bool" where
  "flawless E \<longleftrightarrow> (\<forall>j seen err. fst (prepare_record (peLib E) (peCfg E) j seen) \<noteq> Inl err) \<and> (\<forall>rec w. fst (consume_record E rec w) = None)"

lemma flawless_step: "push_step E limit s s' \<Longrightarrow> flawless E \<Longrightarrow> firstError s = None \<Longrightarrow> firstError s' = None"
  unfolding flawless_def by (induction rule: push_step.induct) (auto, metis fst_conv, metis fst_conv option.distinct(1))

lemma can_return:
  assumes "serializes (peLib E)" and "0 < limit" and "flawless E" and "reachable E limit ld w s"
    and "firstError s = None" and "\<not> ctxDone s"
  shows "\<exists>s'. (push_step E limit)\<^sup>*\<^sup>* s s' \<and> mainAt s' = Returned None \<and> \<not> ctxDone s'"
  using assms(4-6)
proof (induction "work s" arbitrary: s rule: less_induct)
  case less
  show ?case
  proof (cases "mainAt s = Returned None")
    case False
    then obtain s' where s': "push_step E limit s s'" "work s' < work s" "ctxDone s' = ctxDone s"
      using push_progress [OF assms(1,2) less.prems(1)] less.prems by (auto simp: cancelled_def)
    then show ?thesis
      using less.hyps [OF s'(2) reachable.further [OF less.prems(1) s'(1)]] flawless_step [OF s'(1) assms(3)] less.prems
      by (metis converse_rtranclp_into_rtranclp)
  qed (use less.prems in blast)
qed



section \<open>A push that blocks\<close>

text \<open>The consumer is gone, the channel is full, and a producer wants to send.\<close>

definition stuck :: "nat \<Rightarrow> 'c push \<Rightarrow> bool" where
  "stuck limit s \<longleftrightarrow> consumerAt s = Exited \<and> limit \<le> length (recordStream s) \<and> (\<exists>rec. Sending rec \<in> set (producers s)) \<and>
     \<not> streamClosed s \<and> mainAt s \<in> {Iterating, Waiting} \<and> (\<forall>x \<in> set (todo s). \<exists>j. x = Inr j)"

lemma in_remove_nth: "x \<in> set xs \<Longrightarrow> i < length xs \<Longrightarrow> xs ! i \<noteq> x \<Longrightarrow> x \<in> set (remove_nth i xs)"
  by (metis remove_nth_def id_take_nth_drop set_append Un_iff set_ConsD)

lemma in_update: "x \<in> set xs \<Longrightarrow> i < length xs \<Longrightarrow> xs ! i \<noteq> x \<Longrightarrow> x \<in> set (xs[i := y])"
  by (metis in_set_conv_nth length_list_update nth_list_update_neq)

lemma stuck_step: "push_step E limit s s' \<Longrightarrow> stuck limit s \<Longrightarrow> stuck limit s'"
  by (induction rule: push_step.induct) (auto simp: stuck_def intro!: in_update in_remove_nth)

lemma stuck_forever: "(push_step E limit)\<^sup>*\<^sup>* s s' \<Longrightarrow> stuck limit s \<Longrightarrow> stuck limit s'"
  by (induction rule: rtranclp_induct) (auto intro: stuck_step)

definition prepares :: "'c pushEnv \<Rightarrow> (error + job) list \<Rightarrow> bool" where
  "prepares E xs \<longleftrightarrow> (\<forall>x \<in> set xs. \<forall>seen. \<exists>j rec seen'. x = Inr j \<and> prepare_record (peLib E) (peCfg E) j seen = (Inr (Some rec), seen'))"

lemma prepares_jobs: "prepares E xs \<Longrightarrow> x \<in> set xs \<Longrightarrow> \<exists>j. x = Inr j"
  unfolding prepares_def by blast

text \<open>The loop has sent the records before \<open>todo\<close>, with no producer left.\<close>

definition sending :: "'c pushEnv \<Rightarrow> 'c push \<Rightarrow> bool" where
  "sending E s \<longleftrightarrow> mainAt s = Iterating \<and> producers s = [] \<and> \<not> streamClosed s \<and> prepares E (todo s)"

lemma next_sending:
  assumes "reachable E limit ld w s" and "sending E s" and "todo s = x # xs" and "0 < limit"
  shows "\<exists>rec seen. reachable E limit ld w (s\<lparr>todo := xs, producers := [Sending rec], resourcesSeen := seen\<rparr>)"
proof -
  obtain j rec seen where j: "x = Inr j" "prepare_record (peLib E) (peCfg E) j (resourcesSeen s) = (Inr (Some rec), seen)"
    using assms(2,3) unfolding sending_def prepares_def by (metis list.set_intros(1))
  have "reachable E limit ld w (s\<lparr>todo := xs, producers := [Preparing j]\<rparr>)"
    using reachable.further [OF assms(1) push_step.start, of j xs] assms(2-4) j(1) by (simp add: sending_def)
  then show ?thesis using reachable.further [OF _ push_step.prepared, of E limit ld w "s\<lparr>todo := xs, producers := [Preparing j]\<rparr>" 0 j rec seen] j(2)
    by auto
qed

lemma next_sent:
  assumes "reachable E limit ld w s" and "sending E s" and "todo s = x # xs" and "length (recordStream s) < limit"
  shows "\<exists>rec seen. reachable E limit ld w (s\<lparr>todo := xs, recordStream := recordStream s @ [rec], resourcesSeen := seen\<rparr>)"
proof -
  obtain rec seen where r: "reachable E limit ld w (s\<lparr>todo := xs, producers := [Sending rec], resourcesSeen := seen\<rparr>)"
    using next_sending [OF assms(1-3)] assms(4) by auto
  let ?t = "s\<lparr>todo := xs, producers := [Sending rec], resourcesSeen := seen\<rparr>"
  have "finish_producer 0 (?t\<lparr>recordStream := recordStream ?t @ [rec]\<rparr>) =
      s\<lparr>todo := xs, recordStream := recordStream s @ [rec], resourcesSeen := seen\<rparr>"
    using assms(2) by (cases s) (simp add: sending_def finish_producer_def remove_nth_def)
  moreover have "push_step E limit ?t (finish_producer 0 (?t\<lparr>recordStream := recordStream ?t @ [rec]\<rparr>))"
    using assms(2,4) by (intro push_step.sent) (simp_all add: sending_def)
  ultimately show ?thesis using reachable.further [OF r] by metis
qed

lemma channel_fills:
  assumes "reachable E limit ld w s" and "sending E s" and "limit < length (todo s) + length (recordStream s)" and "length (recordStream s) \<le> limit"
  shows "\<exists>s'. reachable E limit ld w s' \<and> sending E s' \<and> length (recordStream s') = limit \<and> todo s' \<noteq> [] \<and>
    consumerAt s' = consumerAt s \<and> statements s' = statements s"
  using assms
proof (induction "limit - length (recordStream s)" arbitrary: s)
  case 0
  then show ?case by (intro exI [of _ s]) auto
next
  case (Suc n)
  have lt: "length (recordStream s) < limit" using Suc.hyps(2) by arith
  then obtain x xs where t: "todo s = x # xs" using Suc.prems(3) by (cases "todo s") auto
  obtain rec seen where r: "reachable E limit ld w (s\<lparr>todo := xs, recordStream := recordStream s @ [rec], resourcesSeen := seen\<rparr>)"
    using next_sent [OF Suc.prems(1,2) t lt] by blast
  have "sending E (s\<lparr>todo := xs, recordStream := recordStream s @ [rec], resourcesSeen := seen\<rparr>)"
    using Suc.prems(2) t by (simp add: sending_def prepares_def)
  then show ?case using Suc.hyps(1) [OF _ r] Suc.hyps(2) Suc.prems(3) t by fastforce
qed

text \<open>
  C10. A push may block forever: when the rows of its records cannot be appended and there are enough
  records to fill the channel, the consumer may leave while the channel is full, and a producer then waits
  for it without looking at the cancelled context. The push never returns, whatever steps follow.
\<close>

theorem failed_push_blocks:
  assumes "0 < limit" and "prepares E (jobs_from (peLib E) 0 ld)"
    and "limit + 1 < length (jobs_from (peLib E) 0 ld)" and "\<And>rec. fst (consume_record E rec w) \<noteq> None"
  shows "\<exists>s. reachable E limit ld w s \<and> firstError s \<noteq> None \<and>
    (\<forall>s' e. (push_step E limit)\<^sup>*\<^sup>* s s' \<longrightarrow> mainAt s' \<noteq> Returned e)"
proof -
  let ?s0 = "start_push (peLib E) ld w"
  have r0: "reachable E limit ld w ?s0" by (rule reachable.first)
  obtain x xs where t: "todo ?s0 = x # xs" using assms(3) by (cases "todo ?s0") (simp_all add: start_push_def)
  obtain r1 seen where "reachable E limit ld w (?s0\<lparr>todo := xs, recordStream := [r1], resourcesSeen := seen\<rparr>)"
    using next_sent [OF r0 _ t] assms(1,2) by (auto simp: sending_def start_push_def)
  then have r2: "reachable E limit ld w (?s0\<lparr>todo := xs, recordStream := [], resourcesSeen := seen, consumerAt := Handling r1\<rparr>)"
    using reachable.further [OF _ push_step.received [where rec = r1 and rs = "[]"]] by (fastforce simp: start_push_def)
  have "sending E (?s0\<lparr>todo := xs, recordStream := [], resourcesSeen := seen, consumerAt := Handling r1\<rparr>)"
    using assms(2) t by (simp add: sending_def prepares_def start_push_def)
  then obtain s3 where s3: "reachable E limit ld w s3" "sending E s3" "length (recordStream s3) = limit" "todo s3 \<noteq> []"
      "consumerAt s3 = Handling r1" "statements s3 = w"
    using channel_fills [OF r2] assms(1,3) t by (auto simp: start_push_def)
  obtain y ys where y: "todo s3 = y # ys" using s3(4) by (cases "todo s3") auto
  obtain r4 seen4 where r4: "reachable E limit ld w (s3\<lparr>todo := ys, producers := [Sending r4], resourcesSeen := seen4\<rparr>)"
    using next_sending [OF s3(1,2) y assms(1)] by blast
  let ?s4 = "s3\<lparr>todo := ys, producers := [Sending r4], resourcesSeen := seen4\<rparr>"
  obtain err w' where c: "consume_record E r1 (statements ?s4) = (Some err, w')"
    using assms(4) [of r1] s3(6) by (cases "consume_record E r1 w") auto
  let ?s5 = "fail_with err (?s4\<lparr>consumerAt := Exited, statements := w'\<rparr>)"
  have "reachable E limit ld w ?s5" using reachable.further [OF r4 push_step.not_handled [OF _ c]] s3(5) by simp
  moreover have "stuck limit ?s5"
    using s3(2,3) y prepares_jobs [of E "todo s3"] by (auto simp: stuck_def sending_def)
  then have "mainAt s' \<noteq> Returned e" if "(push_step E limit)\<^sup>*\<^sup>* ?s5 s'" for s' e
    using stuck_forever [OF that] by (auto simp: stuck_def)
  ultimately show ?thesis using fail_with_simps(11) by blast
qed

section \<open>The rest of a push\<close>

text \<open>What \<open>rangeAll\<close> visits: bucket, labels and fingerprint of every resource seen.\<close>

definition seen_entries :: "resourcesSeenMap \<Rightarrow> (int \<times> string \<times> string) set" where
  "seen_entries r = {(bucketTs, resourceKey, fp). \<exists>innerMap. r bucketTs = Some innerMap \<and> innerMap resourceKey = Some fp}"

type_synonym resource_row = "string \<times> string \<times> int"

fun resource_loop :: "('c, string) ttlcache \<Rightarrow> int \<Rightarrow> (resource_row list \<Rightarrow> resource_row \<Rightarrow> error option)
    \<Rightarrow> (int \<times> string \<times> string) list \<Rightarrow> resource_row list \<Rightarrow> 'c \<Rightarrow> resource_row list result \<times> 'c" where
  "resource_loop T now ap [] rs c = (Inr rs, c)"
| "resource_loop T now ap ((bucketTs, resourceLabels, fp) # es) rs c =
     (case ttlGet T now (MakeKeyForRFCache bucketTs fp) c of
        (Some _, c1) \<Rightarrow> resource_loop T now ap es rs c1
      | (None, c1) \<Rightarrow> (case ap rs (resourceLabels, fp, bucketTs) of
            Some err \<Rightarrow> (Inl err, c1)
          | None \<Rightarrow> resource_loop T now ap es (rs @ [(resourceLabels, fp, bucketTs)]) (ttlSet T now (MakeKeyForRFCache bucketTs fp) 1 c1)))"

text \<open>
  The answers of the database: preparing the first four batches, with the prefixes of the messages;
  preparing the last one, which depends on whether the context has ended; appending; and the answers of the
  five sends in the order in which they arrive.
\<close>

record answers =
  anPrepare :: "error option list"
  anPrepareResources :: "bool \<Rightarrow> unit result"
  anAppendResource :: "resource_row list \<Rightarrow> resource_row \<Rightarrow> error option"
  anSends :: "error option list"

definition first_error :: "error option list \<Rightarrow> error option" where
  "first_error es = (case find (\<lambda>r. r \<noteq> None) es of None \<Rightarrow> None | Some r \<Rightarrow> r)"

definition finish_push :: "('c, string) ttlcache \<Rightarrow> int \<Rightarrow> answers \<Rightarrow> bool \<Rightarrow> (int \<times> string \<times> string) list \<Rightarrow> 'c
    \<Rightarrow> (unit result \<times> resource_row list) \<times> 'c" where
  "finish_push T now D ended ranged c =
     (case anPrepareResources D ended of
        Inl err \<Rightarrow> ((Inl (''couldn't PrepareBatch for inserting resource fingerprints :'' @ err), []), c)
      | Inr _ \<Rightarrow> (case resource_loop T now (anAppendResource D) ranged [] c of
            (Inl err, c1) \<Rightarrow> ((Inl (''error appending resources to batch: '' @ err), []), c1)
          | (Inr rs, c1) \<Rightarrow> (case first_error (anSends D) of
                Some err \<Rightarrow> ((Inl (''StatementSend:'' @ err), rs), c1)
              | None \<Rightarrow> ((Inr (), rs), c1))))"

record 'c pushed =
  puResult :: "unit result"
  puLogs :: "Record list"
  puResources :: "resource_row list"
  puKeysCache :: 'c
  puRfCache :: 'c

definition new_batches :: "'c \<Rightarrow> 'c batches" where
  "new_batches keys = \<lparr>tagStatement = [], attributeKeysStmt = [], resourceKeysStmt = [], logsStmt = [], keysCache = keys,
     usageCount = 0, usageSize = 0\<rparr>"

inductive pushToDatastore :: "'c pushEnv \<Rightarrow> nat \<Rightarrow> bool \<Rightarrow> answers \<Rightarrow> resourceLogs list \<Rightarrow> 'c \<Rightarrow> 'c \<Rightarrow> 'c pushed \<Rightarrow> bool"
  for E :: "'c pushEnv" and limit :: nat and isClosed :: bool and D :: answers and ld :: "resourceLogs list" and keys :: 'c and rf :: 'c where
  shut_down: "isClosed \<Longrightarrow> pushToDatastore E limit isClosed D ld keys rf
    \<lparr>puResult = Inl ''shutdown has been called'', puLogs = [], puResources = [], puKeysCache = keys, puRfCache = rf\<rparr>"
| no_batches: "\<not> isClosed \<Longrightarrow> first_error (anPrepare D) = Some err \<Longrightarrow> pushToDatastore E limit isClosed D ld keys rf
    \<lparr>puResult = Inl err, puLogs = [], puResources = [], puKeysCache = keys, puRfCache = rf\<rparr>"
| failed: "\<not> isClosed \<Longrightarrow> first_error (anPrepare D) = None \<Longrightarrow> reachable E limit ld (new_batches keys) s \<Longrightarrow>
    mainAt s = Returned (Some err) \<Longrightarrow> pushToDatastore E limit isClosed D ld keys rf
    \<lparr>puResult = Inl err, puLogs = [], puResources = [], puKeysCache = keysCache (statements s), puRfCache = rf\<rparr>"
| finished: "\<not> isClosed \<Longrightarrow> first_error (anPrepare D) = None \<Longrightarrow> reachable E limit ld (new_batches keys) s \<Longrightarrow>
    mainAt s = Returned None \<Longrightarrow> distinct ranged \<Longrightarrow> set ranged = seen_entries (resourcesSeen s) \<Longrightarrow>
    finish_push (peTtl E) (peNow E) D (ctxDone s) ranged rf = ((r, rs), rf') \<Longrightarrow> pushToDatastore E limit isClosed D ld keys rf
    \<lparr>puResult = r, puLogs = logsStmt (statements s), puResources = rs, puKeysCache = keysCache (statements s), puRfCache = rf'\<rparr>"

text \<open>A batch with too many partitions is dropped and reported as written.\<close>

definition contains :: "string \<Rightarrow> string \<Rightarrow> bool" where
  "contains s t \<longleftrightarrow> list_ex (\<lambda>i. take (length t) (drop i s) = t) [0..<Suc (length s)]"

definition pushLogsData :: "unit result \<Rightarrow> unit result" where
  "pushLogsData r = (case r of Inl err \<Rightarrow> if contains err ''code: 252'' then Inr () else Inl err | Inr _ \<Rightarrow> Inr ())"

section \<open>Resources of the rows\<close>

definition recorded :: "resourcesSeenMap \<Rightarrow> Record \<Rightarrow> bool" where
  "recorded r rec \<longleftrightarrow> (\<exists>json. (bucket_of (ts rec), json, resourceFP rec) \<in> seen_entries r)"

lemma seen_grows: "getOrCreateFingerprint b json created r = (fp, r') \<Longrightarrow> seen_entries r \<subseteq> seen_entries r' \<and> (b, json, fp) \<in> seen_entries r'"
  by (auto simp: getOrCreateFingerprint_def seen_entries_def Let_def split: option.splits if_splits)

lemma prepare_grows:
  "prepare_record L e j seen = (r, seen') \<Longrightarrow> seen_entries seen \<subseteq> seen_entries seen' \<and> (\<forall>rec. r = Inr (Some rec) \<longrightarrow> recorded seen' rec)"
  by (auto simp: prepare_record_def recorded_def Let_def split: if_splits sum.splits prod.splits dest!: seen_grows)

lemma prepare_finite: "prepare_record L e j seen = (r, seen') \<Longrightarrow> finite (seen_entries seen) \<Longrightarrow> finite (seen_entries seen')"
proof -
  have "seen_entries r' \<subseteq> insert (b, json, fp) (seen_entries r)" if "getOrCreateFingerprint b json created r = (fp, r')" for b json created fp r r'
    using that by (auto simp: getOrCreateFingerprint_def seen_entries_def Let_def split: option.splits if_splits)
  then show "prepare_record L e j seen = (r, seen') \<Longrightarrow> finite (seen_entries seen) \<Longrightarrow> finite (seen_entries seen')"
    by (auto simp: prepare_record_def Let_def split: if_splits sum.splits prod.splits) (meson finite.insertI finite_subset)+
qed

lemma seen_finite: "reachable E limit ld w s \<Longrightarrow> finite (seen_entries (resourcesSeen s))"
proof (induction rule: reachable.induct)
  case first
  have "seen_entries Map.empty = {}" by (auto simp: seen_entries_def)
  then show ?case by (simp add: start_push_def)
next
  case (further s s')
  from further.hyps(2) further.IH show ?case by (induction rule: push_step.induct) (auto dest: prepare_finite)
qed

definition records :: "'c push \<Rightarrow> Record set" where
  "records s = {rec. Sending rec \<in> set (producers s)} \<union> set (recordStream s) \<union> set (consumer_rows (consumerAt s)) \<union> set (logsStmt (statements s))"

lemma recorded_mono: "seen_entries r \<subseteq> seen_entries r' \<Longrightarrow> recorded r rec \<Longrightarrow> recorded r' rec"
  by (auto simp: recorded_def)

lemma tag_statement_logs: "addAttrsToTagStatement E tagTy am w = (r, w') \<Longrightarrow> logsStmt w' = logsStmt w"
  by (auto simp: addAttrsToTagStatement_def dest: tag_loop_logs)

lemma consume_fails_logs: "consume_record E rec w = (Some err, w') \<Longrightarrow> logsStmt w' = logsStmt w"
  by (auto simp: consume_record_def split: prod.splits option.splits dest!: tag_statement_logs)

lemma records_same [simp]: "records (fail_with err s) = records s" "records (s\<lparr>resourcesSeen := seen\<rparr>) = records s"
  by (simp_all add: records_def)

lemma records_finish: "records (finish_producer i s) \<subseteq> records s"
  using set_remove_nth [of i "producers s"] by (auto simp: records_def)

lemma records_add: "records (s\<lparr>recordStream := recordStream s @ [rec]\<rparr>) = insert rec (records s)"
  by (auto simp: records_def)

lemma recorded_step:
  assumes "push_step E limit s s'" and "\<forall>rec \<in> records s. recorded (resourcesSeen s) rec"
  shows "\<forall>rec \<in> records s'. recorded (resourcesSeen s') rec"
  using assms
proof (induction rule: push_step.induct)
  case (prepared i s j rec seen)
  note grow = prepare_grows [OF prepared(3)]
  have "records (s\<lparr>producers := (producers s)[i := Sending rec], resourcesSeen := seen\<rparr>) \<subseteq> insert rec (records s)"
    using set_update_subset_insert [of "producers s" i "Sending rec"] by (auto simp: records_def)
  then show ?case using prepared(4) grow recorded_mono by fastforce
next
  case (too_old i s j seen)
  then show ?case using prepare_grows [OF too_old(3)] records_finish [of i "s\<lparr>resourcesSeen := seen\<rparr>"]
    by simp (metis recorded_mono subsetD)
next
  case (not_prepared i s j err seen)
  then show ?case using prepare_grows [OF not_prepared(3)] records_finish [of i "s\<lparr>resourcesSeen := seen\<rparr>"]
    by simp (metis recorded_mono subsetD)
next
  case (sent i s rec)
  have "rec \<in> records s" using nth_mem [OF sent(1)] sent(2) by (simp add: records_def)
  then show ?case using sent(5) records_finish [of i "s\<lparr>recordStream := recordStream s @ [rec]\<rparr>"]
    by (auto simp: records_add)
next
  case (handled s rec w)
  then show ?case using consume_logs [OF handled(2)] by (auto simp: records_def consumer_rows_def)
next
  case (not_handled s rec err w)
  then show ?case using consume_fails_logs [OF not_handled(2)] by (auto simp: records_def consumer_rows_def)
qed (auto simp: records_def consumer_rows_def)

lemma recorded_reachable: "reachable E limit ld (new_batches keys) s \<Longrightarrow> \<forall>rec \<in> records s. recorded (resourcesSeen s) rec"
proof (induction rule: reachable.induct)
  case first
  show ?case by (simp add: records_def start_push_def new_batches_def consumer_rows_def)
qed (rule recorded_step)

lemma rf_key_inject: "MakeKeyForRFCache b fp = MakeKeyForRFCache b' fp' \<longleftrightarrow> b = b' \<and> fp = fp'"
  by (simp add: MakeKeyForRFCache_def split_at_separator itoa_colon itoa_inject)

locale resource_cache = ttl_provider T live for T :: "('c, string) ttlcache" and live :: "int \<Rightarrow> 'c \<Rightarrow> (string \<rightharpoonup> nat)"
begin

text \<open>What the loop leaves in the cache was there before or has a row.\<close>

definition covered :: "int \<Rightarrow> 'c \<Rightarrow> resource_row list \<Rightarrow> 'c \<Rightarrow> bool" where
  "covered t c0 rs c \<longleftrightarrow> (\<forall>b f. live t c (MakeKeyForRFCache b f) \<noteq> None \<longrightarrow>
     live t c0 (MakeKeyForRFCache b f) \<noteq> None \<or> (\<exists>l. (l, f, b) \<in> set rs))"

lemma resource_loop_covers:
  assumes "resource_loop T t ap es rs c = (Inr rs', c')" and "covered t c0 rs c"
  shows "covered t c0 rs' c' \<and> (\<forall>k. live t c k \<noteq> None \<longrightarrow> live t c' k \<noteq> None) \<and>
    (\<forall>(b, l, f) \<in> set es. live t c' (MakeKeyForRFCache b f) \<noteq> None)"
  using assms
proof (induction es arbitrary: rs c)
  case (Cons e es)
  obtain b l f where e: "e = (b, l, f)" by (cases e) auto
  let ?k = "MakeKeyForRFCache b f"
  obtain r c1 where g: "ttlGet T t ?k c = (r, c1)" by (cases "ttlGet T t ?k c")
  note g' = get [OF g]
  show ?case
  proof (cases r)
    case (Some p)
    then have "resource_loop T t ap es rs c1 = (Inr rs', c')" "covered t c0 rs c1"
      using Cons.prems g g' e by (auto simp: covered_def)
    note IH = Cons.IH [OF this]
    have "live t c1 ?k \<noteq> None" using g' Some by (metis option.distinct(1))
    then show ?thesis using IH g' e by auto
  next
    case None
    then have ap: "resource_loop T t ap es (rs @ [(l, f, b)]) (ttlSet T t ?k 1 c1) = (Inr rs', c')"
      using Cons.prems(1) g e by (auto split: option.splits)
    have "covered t c0 (rs @ [(l, f, b)]) (ttlSet T t ?k 1 c1)"
      using Cons.prems(2) g' by (auto simp: covered_def set_eq rf_key_inject)
    note IH = Cons.IH [OF ap this]
    have "live t (ttlSet T t ?k 1 c1) ?k \<noteq> None" "\<forall>k. live t c k \<noteq> None \<longrightarrow> live t (ttlSet T t ?k 1 c1) k \<noteq> None"
      using g' by (auto simp: set_eq)
    then show ?thesis using IH e by auto
  qed
qed simp

lemma resources_covered:
  assumes "resource_loop T t ap es [] c = (Inr rs, c')" and "(b, l, f) \<in> set es"
  shows "(\<exists>l'. (l', f, b) \<in> set rs) \<or> live t c (MakeKeyForRFCache b f) \<noteq> None" and "live t c' (MakeKeyForRFCache b f) \<noteq> None"
proof -
  have "covered t c rs c'" and all: "\<forall>(b, l, f) \<in> set es. live t c' (MakeKeyForRFCache b f) \<noteq> None"
    using resource_loop_covers [OF assms(1), of c] by (auto simp: covered_def)
  moreover show here: "live t c' (MakeKeyForRFCache b f) \<noteq> None" using all assms(2) by fast
  ultimately show "(\<exists>l'. (l', f, b) \<in> set rs) \<or> live t c (MakeKeyForRFCache b f) \<noteq> None"
    unfolding covered_def by blast
qed

lemma resource_loop_known:
  assumes "\<forall>(b, l, f) \<in> set es. live t c (MakeKeyForRFCache b f) \<noteq> None"
  shows "\<exists>c'. resource_loop T t ap es rs c = (Inr rs, c')"
  using assms
proof (induction es arbitrary: c)
  case (Cons e es)
  obtain b l f where e: "e = (b, l, f)" by (cases e) auto
  obtain r c1 where g: "ttlGet T t (MakeKeyForRFCache b f) c = (r, c1)" by (cases "ttlGet T t (MakeKeyForRFCache b f) c")
  have "r \<noteq> None" "live t c1 = live t c" using get [OF g] Cons.prems e by auto
  then show ?case using Cons.IH [of c1] Cons.prems g e by auto
qed simp

end

interpretation list_resources: resource_cache "list_ttl d" list_live for d
  by unfold_locales (auto simp: list_ttl_def list_live_def split: option.splits if_splits)

lemma ttl_provider_resources: "ttl_provider T live \<Longrightarrow> resource_cache T live"
  by (rule resource_cache.intro)

lemmas resources_covered = resource_cache.resources_covered [OF ttl_provider_resources]

text \<open>
  C9. A push that returns without an error has appended exactly one row for every record that is not too
  old, whatever the interleaving of its goroutines, and the resource of every row has a row of its own in
  its bucket, or had one before. Preparing a batch in a context that has ended is assumed to fail.
\<close>

theorem push_delivers:
  assumes "ttl_provider (peTtl E) live" and "serializes (peLib E)" and "anPrepareResources D True \<noteq> Inr ()"
    and "pushToDatastore E limit isClosed D ld keys rf p" and "puResult p = Inr ()"
  shows "mset (map plain (puLogs p)) = mset (List.map_filter (todo_row E) (jobs_from (peLib E) 0 ld)) \<and>
    (\<forall>rec \<in> set (puLogs p). (\<exists>labels. (labels, resourceFP rec, bucket_of (ts rec)) \<in> set (puResources p)) \<or>
       live (peNow E) rf (MakeKeyForRFCache (bucket_of (ts rec)) (resourceFP rec)) \<noteq> None)"
  using assms(4)
proof cases
  case (finished s ranged r rs rf')
  then have fin: "finish_push (peTtl E) (peNow E) D (ctxDone s) ranged rf = ((Inr (), rs), rf')" using assms(5) by simp
  then have ctx: "\<not> ctxDone s" using assms(3) by (cases "ctxDone s") (auto simp: finish_push_def split: sum.splits)
  have loop: "resource_loop (peTtl E) (peNow E) (anAppendResource D) ranged [] rf = (Inr rs, rf')"
    using fin by (auto simp: finish_push_def split: sum.splits prod.splits option.splits)
  have "recorded (resourcesSeen s) rec" if "rec \<in> set (puLogs p)" for rec
    using recorded_reachable [OF finished(4)] that finished(1) by (auto simp: records_def)
  then have "(\<exists>labels. (labels, resourceFP rec, bucket_of (ts rec)) \<in> set rs) \<or>
      live (peNow E) rf (MakeKeyForRFCache (bucket_of (ts rec)) (resourceFP rec)) \<noteq> None" if "rec \<in> set (puLogs p)" for rec
    using that finished(7) resources_covered(1) [OF assms(1) loop] unfolding recorded_def by blast
  then show ?thesis using push_complete [OF assms(2) finished(4,5) ctx] finished(1) by (simp add: new_batches_def)
qed (use assms(5) in auto)

lemma resource_loop_accepted: "\<forall>rs r. ap rs r = None \<Longrightarrow> \<exists>rs' c'. resource_loop T t ap es rs c = (Inr rs', c')"
  by (induction es arbitrary: rs c) (auto split: prod.splits option.splits)

text \<open>
  The resources of a push whose batches could not be sent are in the cache by then: when the logs are pushed
  again, no row for them is written.
\<close>

theorem failed_send_loses_resources:
  assumes "ttl_provider T live" and "finish_push T t D ended ranged rf = ((Inl (''StatementSend:'' @ err), rs), rf')"
    and "set ranged' \<subseteq> set ranged" and "anPrepareResources D' ended' = Inr ()" and "first_error (anSends D') = None"
    and "first_error (anSends D) = Some err" and "anPrepareResources D ended = Inr ()" and "\<And>rs r. anAppendResource D rs r = None"
  shows "\<exists>rf''. finish_push T t D' ended' ranged' rf' = ((Inr (), []), rf'')"
proof -
  obtain rs1 c1 where loop: "resource_loop T t (anAppendResource D) ranged [] rf = (Inr rs1, c1)"
    using resource_loop_accepted [of "anAppendResource D"] assms(8) by (metis (no_types))
  then have "c1 = rf'" using assms(2,6,7) by (simp add: finish_push_def)
  then have "\<forall>(b, l, f) \<in> set ranged'. live t rf' (MakeKeyForRFCache b f) \<noteq> None"
    using resources_covered(2) [OF assms(1) loop] assms(3) by blast
  then show ?thesis
    using resource_cache.resource_loop_known [OF ttl_provider_resources [OF assms(1)], of ranged' t rf' "anAppendResource D'" "[]"] assms(4,5)
    by (auto simp: finish_push_def)
qed

section \<open>Small examples\<close>

definition small_logs :: logsLib where
  "small_logs = \<lparr>llAsString = (\<lambda>_. []), llTypeName = (\<lambda>_. []), llMapJSON = (\<lambda>_. Inr ''{}''), llJSONLength = (\<lambda>_. 2),
     llResourceLength = (\<lambda>_. 2), llFingerprint = (\<lambda>_. ''hash=1''), llNewID = (\<lambda>_ _. Inr ''id''), llRunes = map (\<lambda>c. (True, True)),
     llKeys = sorted_list_of_set, llNow = 100\<rparr>"

definition small_push :: "error option \<Rightarrow> string ttl_list pushEnv" where
  "small_push answer = \<lparr>peLib = small_logs,
     peCfg = \<lparr>bodyJSONEnabled = False, bodyJSONOldBodyEnabled = False, promotedPaths = [], shouldSkipKeys = [], maxAllowedDataAgeDays = 0\<rparr>,
     peTtl = list_ttl 600, peNow = 0,
     peAppends = \<lparr>apTag = (\<lambda>_ _. None), apAttributeKeys = (\<lambda>_ _. None), apResourceKeys = (\<lambda>_ _. None), apLogs = (\<lambda>_ _. answer)\<rparr>\<rparr>"

definition one_log :: plog where
  "one_log = \<lparr>lTimestamp = 200, lObserved = 200, lTraceID = [], lSpanID = [], lFlags = 0, lSeverityText = [], lSeverityNumber = 0,
     lBody = ValueStr ''x'', lAttributes = []\<rparr>"

definition log_batch :: "nat \<Rightarrow> resourceLogs list" where
  "log_batch n = [\<lparr>rlAttributes = [], rlScopes = [\<lparr>slName = [], slVersion = [], slAttributes = [], slRecords = replicate n one_log\<rparr>]\<rparr>]"

lemma small_push_sel [simp]: "peLib (small_push a) = small_logs" "peTtl (small_push a) = list_ttl 600" "peNow (small_push a) = 0"
  by (simp_all add: small_push_def)

lemma small_serializes [simp]: "serializes small_logs"
  by (simp add: serializes_def small_logs_def)

lemma small_jobs_length: "length (jobs_from small_logs 0 (log_batch n)) = n"
  by (simp add: log_batch_def resource_jobs_def scope_jobs_def small_logs_def)

lemma small_jobs: "x \<in> set (jobs_from small_logs 0 (log_batch n)) \<Longrightarrow> \<exists>j. x = Inr j \<and> jRecord j = one_log"
  by (auto simp: log_batch_def resource_jobs_def scope_jobs_def small_logs_def set_zip)

lemma small_prepare: "jRecord j = one_log \<Longrightarrow>
    \<exists>rec seen'. prepare_record small_logs (peCfg (small_push a)) j seen = (Inr (Some rec), seen')"
  by (auto simp: prepare_record_def log_times_def oldestAllowedTs_def processBody_def small_push_def small_logs_def one_log_def
      Let_def split: prod.splits)

lemma small_all_prepared: "prepares (small_push a) (jobs_from small_logs 0 (log_batch n))"
  using small_jobs small_prepare by (auto simp: prepares_def) (metis small_push_sel(1))

lemma tag_loop_accepts: "\<forall>rs r. apTag (peAppends E) rs r = None \<Longrightarrow> fst (tag_loop E ms tagTy es w) = None"
  by (induction E ms tagTy es w rule: tag_loop.induct) (auto simp: Let_def)

lemma small_tags: "fst (addAttrsToTagStatement (small_push a) tagTy am w) = None"
  unfolding addAttrsToTagStatement_def by (rule tag_loop_accepts) (simp add: small_push_def)

lemma small_append: "apLogs (peAppends (small_push a)) rs r = a"
  by (simp add: small_push_def)

lemma small_consume: "fst (consume_record (small_push a) rec w) = map_option ((@) ''StatementAppendLogsV2:'') a"
proof -
  have tags: "\<exists>w'. addAttrsToTagStatement (small_push a) tagTy am w = (None, w')" for tagTy am w
    using small_tags [of a tagTy am w] by (metis prod.collapse)
  obtain w1 where w1: "addAttrsToTagStatement (small_push a) TagTypeResource (resourceMap rec) w = (None, w1)" using tags by blast
  obtain w2 where w2: "addAttrsToTagStatement (small_push a) TagTypeScope (scopeMap rec) w1 = (None, w2)" using tags by blast
  obtain w3 where w3: "addAttrsToTagStatement (small_push a) TagTypeAttribute (attrsMap rec) w2 = (None, w3)" using tags by blast
  obtain w4 where w4: "addAttrsToTagStatement (small_push a) TagTypeLogField (logFields rec) w3 = (None, w4)" using tags by blast
  show ?thesis by (simp add: consume_record_def w1 w2 w3 w4 small_append split: option.splits)
qed

lemma small_flawless: "flawless (small_push None)"
proof -
  have "fst (prepare_record small_logs (peCfg (small_push None)) j seen) \<noteq> Inl err" for j seen err
    by (auto simp: prepare_record_def processBody_def small_push_def small_logs_def Let_def split: prod.splits)
  then show ?thesis by (simp add: flawless_def small_consume)
qed

lemma reachable_steps: "(push_step E limit)\<^sup>*\<^sup>* s s' \<Longrightarrow> reachable E limit ld w s \<Longrightarrow> reachable E limit ld w s'"
  by (induction rule: rtranclp_induct) (auto intro: reachable.further)

definition good_answers :: answers where
  "good_answers = \<lparr>anPrepare = [None, None, None, None], anPrepareResources = (\<lambda>ended. if ended then Inl ''context canceled'' else Inr ()),
     anAppendResource = (\<lambda>_ _. None), anSends = [None, None, None, None, None]\<rparr>"

lemma small_pushed:
  "\<exists>p. pushToDatastore (small_push None) 2 False good_answers (log_batch 3) [] [] p \<and> puResult p = Inr ()"
proof -
  let ?E = "small_push None" and ?w = "new_batches []"
  have "\<exists>s. (push_step ?E 2)\<^sup>*\<^sup>* (start_push (peLib ?E) (log_batch 3) ?w) s \<and> mainAt s = Returned None \<and> \<not> ctxDone s"
    by (rule can_return [OF _ _ small_flawless reachable.first]) (simp_all add: start_push_def)
  then obtain s where s: "reachable ?E 2 (log_batch 3) ?w s" "mainAt s = Returned None" "\<not> ctxDone s"
    using reachable_steps [OF _ reachable.first] by blast
  obtain ranged where ranged: "distinct ranged" "set ranged = seen_entries (resourcesSeen s)"
    using finite_distinct_list [OF seen_finite [OF s(1)]] by blast
  obtain rs rf' where "resource_loop (list_ttl 600) 0 (anAppendResource good_answers) ranged [] [] = (Inr rs, rf')"
    using resource_loop_accepted by (metis good_answers_def answers.simps(3))
  then have "finish_push (peTtl ?E) (peNow ?E) good_answers (ctxDone s) ranged [] = ((Inr (), rs), rf')"
    using s(3) by (simp add: finish_push_def good_answers_def first_error_def)
  then have "pushToDatastore ?E 2 False good_answers (log_batch 3) [] []
      \<lparr>puResult = Inr (), puLogs = logsStmt (statements s), puResources = rs, puKeysCache = keysCache (statements s), puRfCache = rf'\<rparr>"
    by (rule pushToDatastore.finished [OF _ _ s(1,2) ranged, rotated 2]) (simp_all add: good_answers_def first_error_def)
  then show ?thesis by (metis pushed.select_convs(1))
qed

theorem push_delivers_witness:
  "\<exists>p. pushToDatastore (small_push None) 2 False good_answers (log_batch 3) [] [] p \<and> puResult p = Inr () \<and> length (puLogs p) = 3"
proof -
  obtain p where p: "pushToDatastore (small_push None) 2 False good_answers (log_batch 3) [] [] p" "puResult p = Inr ()"
    using small_pushed by blast
  have "todo_row (small_push None) x \<noteq> None" if x: "x \<in> set (jobs_from small_logs 0 (log_batch 3))" for x
  proof -
    obtain j where j: "x = Inr j" "jRecord j = one_log" using small_jobs [OF x] by blast
    obtain rec seen where "prepare_record small_logs (peCfg (small_push None)) j Map.empty = (Inr (Some rec), seen)"
      using small_prepare [OF j(2)] by blast
    then show ?thesis using job_row_prepared [of "small_push None"] j(1) by (simp add: todo_row_def)
  qed
  then have "length (List.map_filter (todo_row (small_push None)) (jobs_from small_logs 0 (log_batch 3))) = 3"
    using small_jobs_length [of 3] by (simp add: List.map_filter_def)
  moreover have "mset (map plain (puLogs p)) = mset (List.map_filter (todo_row (small_push None)) (jobs_from small_logs 0 (log_batch 3)))"
    using push_delivers [OF _ _ _ p, of list_live] list_resources.ttl_provider_axioms by (simp add: good_answers_def)
  ultimately have "length (puLogs p) = 3" by (metis length_map size_mset)
  then show ?thesis using p by blast
qed



theorem failed_push_blocks_witness:
  "\<exists>s. reachable (small_push (Some ''reset'')) 2 (log_batch 4) (new_batches []) s \<and> mainAt s \<noteq> Returned None"
  using failed_push_blocks [of 2 "small_push (Some ''reset'')" "log_batch 4" "new_batches []"] small_all_prepared [of "Some ''reset''" 4]
  by (auto simp: small_jobs_length small_consume)

end
