(* ===== verification/Spec2Isabelle.thy ===== *)
theory Spec2Isabelle
  imports Otel_Prelude Go_Float Sampling IdBatcher TailEvaluator TailProcessor SqlTypes Operations
    MigrationManager ManagerTermination KeyCheck IndexExpr Fingerprint SpanCache SpanMetrics
    SpanMetricsInv SpanMetricsFacts LogFields Grok
    SchemaCatalog UpgradeRuns ShippedLogs ShippedTraces ShippedMetrics ShippedOthers ShippedCatalog
    MetadataCache ValueTracker MetadataExporter MetadataFacts JsonWriter
    MetricLabels MetricsExporter MetricsFacts LogsExporter LogsPush
begin

text \<open>
  A verification library for the parts of the collector distribution with logic of their own: the tail
  sampling processor, the span metrics processor, the schema migrator, the metadata exporter, the
  exporters of metrics and logs, and the packages they share.
  All paths below are relative to the root of the repository.

  \<^bold>\<open>Conventions.\<close> A struct is a record, an enumeration or interface with known implementations a
  datatype, an operation one function with the name of the source's. An operation on a receiver takes
  the receiver's state last and returns it updated. A Go error is \<open>Inl\<close> of a sum (\<open>result\<close>), a panic
  or an index out of range is \<open>None\<close>, and so is a loop that does not end. A map is a function to
  option or an association list with distinct keys; wherever the language leaves the order of a range
  over a map open, the order is an argument and the theorems hold for all of them. \<open>int64\<close> is \<open>int\<close>
  with the wrap-around written out (\<open>i64\<close>), \<open>uint64\<close> a \<open>64 word\<close>, \<open>float64\<close> a rational rounded to 53
  bits after every operation (\<open>Go_Float\<close>; exponent limits do not occur in the code modelled, and
  infinities and NaN only in the metrics exporter, as values of their own). Third-party code is a parameter: a record of functions, with its documented behaviour as
  a locale or a named hypothesis.

  \<^bold>\<open>Shared theories.\<close> \<open>Otel_Prelude\<close> holds results, 64-bit integers, strings, decimal printing and
  loops that leave early; \<open>Go_Float\<close> the rounding of \<open>float64\<close> and its monotonicity.

  \<^bold>\<open>Tail sampling processor\<close> (processor/o11ytailsampler).
  \<^item> \<open>Sampling\<close>: the policies of internal/sampling, one datatype of evaluators and one function
    \<open>Evaluate\<close>, which returns the evaluator with its counters and caches updated. The theorems bound
    what the rate limiting and composite policies let through within a second, show that the cache of
    the regular expression filter changes no decision, that the probabilistic policy is monotone in
    its percentage, and what the latency policy samples.
  \<^item> \<open>IdBatcher\<close>: internal/idbatcher, with its channels and its goroutine as an interleaving step
    relation. Identifiers come out in the order they went in, after a fixed number of ticks, and a
    stopped batcher is drained completely.
  \<^item> \<open>TailEvaluator\<close>: config.go and evaluator.go. The evaluator built from a policy group refines a
    stateless specification of the group; the least priority number decides; groups of inverted
    filters never match.
  \<^item> \<open>TailProcessor\<close>: processor.go, with receivers, ticks and the collecting goroutine as steps. Every
    reachable state is bounded by the configured capacity, undecided traces are queued, every step
    returns, spans of sampled traces are forwarded exactly once; the configured policies are never
    loaded.

  \<^bold>\<open>Span metrics processor\<close> (processor/o11yspanmetricsprocessor).
  \<^item> \<open>SpanCache\<close>: internal/cache/cache.go over the LRU package (locale \<open>lru_provider\<close>). The cache
    provides \<open>dimension_cache\<close>: an item stays known until the evicted items are removed. A list
    implementation shows that the laws of the package can hold.
  \<^item> \<open>SpanMetrics\<close>: config.go and processor.go: construction, keys, dimensions, aggregation, export.
  \<^item> \<open>SpanMetricsInv\<close>: the invariant that links each map of histograms to its cache, kept by consuming
    and by exporting (locale \<open>metric_caches\<close>).
  \<^item> \<open>SpanMetricsFacts\<close>: in every reachable state the metrics can be built, accepted spans are counted
    once, exports bound the memory, histograms are consistent, the names tracked are bounded, the
    times in the keys are those of the spans; and keys are ambiguous.

  \<^bold>\<open>Schema migrator\<close> (cmd/o11yschemamigrator/schema_migrator).
  \<^item> \<open>SqlTypes\<close>: column.go and table.go: types, columns, settings, engines and the SQL they print.
  \<^item> \<open>Operations\<close>: the twenty-two operations of op.go and the files of operations, their classification
    and their statements, and the preparation for a cluster and for replication.
  \<^item> \<open>MigrationManager\<close>: manager.go over a database given by functions: waiting for mutations, the DDL
    queue and distributed inserts, the table of migrations, the four modes, the squashed migrations,
    the bootstrap. The theorems give the protocol of an operation, what a failure leaves behind, and
    which recorded migrations a run skips.
  \<^item> \<open>ManagerTermination\<close>: the waiting loops are \<open>partial_function (option)\<close>; if the backoff stops and the
    timer fires after finitely many rounds the whole manager returns.
  \<^item> \<open>UpgradeRuns\<close>: what the two up runs send together on a new database (locale \<open>execution\<close>, interpreted
    for the synchronous and the asynchronous execution): every up operation exactly once.
  \<^item> \<open>ShippedLogs\<close>, \<open>ShippedTraces\<close>, \<open>ShippedMetrics\<close>, \<open>ShippedOthers\<close>: the shipped migrations, literal by
    literal. \<open>SchemaCatalog\<close>: the vocabulary of the literals, and \<open>resolve\<close>, a specification of which names
    an operation needs and makes, with the invariant that distributed tables and views have their target.
    \<open>ShippedCatalog\<close>: the shipped lists evaluated against both: a new installation resolves, the lists are
    well-formed, and two defects of the data.
  \<^item> \<open>IndexExpr\<close>: the expressions of indexes on JSON columns and their parser, a round trip.

  \<^bold>\<open>Log pipeline\<close> (processor/o11ylogspipelineprocessor).
  \<^item> \<open>LogFields\<close>: stanza/entry, the notation of fields and the access to body fields. The notation is a
    round trip, body fields are a store of nested paths, and the cached parse of the body is stale
    after the body is replaced.

  \<^bold>\<open>Packages.\<close> \<open>Grok\<close>: pkg/grok, the sorting of the graph of references, shown to return an order
  or find a cycle, and the building of patterns over it. \<open>KeyCheck\<close>: pkg/keycheck, the tests for random and cardinal keys. \<open>Fingerprint\<close>:
  utils/fingerprint, the hierarchy of resource labels and the hash of attributes.

  \<^bold>\<open>Fuel and bounds.\<close> \<open>ddl_attempts\<close> counts down the constant ten of the source. \<open>visit\<close> of
  \<open>Grok\<close> takes the depth of its recursion as fuel; with one more than the number of nodes it returns,
  which \<open>graph_sorted\<close> states. Loops over slices are structural; the binary search and the segment loop have their
  termination proofs.

  \<^bold>\<open>Metadata exporter\<close> (exporter/metadataexporter, utils/flatten).
  \<^item> \<open>MetadataCache\<close>: the cache of fingerprints in memory (cache/inmemory.go) over a package of caches
    with times to live, whose behaviour is the locale \<open>ttl_store\<close> and, without a capacity,
    \<open>ttl_provider\<close>. Whatever is added and however time passes, the limits hold, and the cache answers
    what was added; two theorems show that the limits of the traces are used for all signals and that an
    entry that expires at the wrong moment is a nil pointer.
  \<^item> \<open>ValueTracker\<close>: the distinct values of keys (vt.go) over this package and the LRU cache of
    \<open>SpanCache\<close>.
  \<^item> \<open>MetadataExporter\<close>: flattening, the keys that are left out, the records of spans, data points and log
    records, and the rows that are written, with the cache as an interface. \<open>MetadataFacts\<close>: the contract
    of the interface (\<open>attr_cache\<close>), fulfilled by the cache in memory; the rows of a batch; and that the
    filter does not depend on the number of values.
  \<^item> \<open>JsonWriter\<close>: the walk over the bodies of logs (json_writer.go, types.go), with its caches, and that
    it refines a walk without caches.

  \<^bold>\<open>Metrics exporter\<close> (exporter/o11ydatastoremetrics, internal/common/fingerprint).
  \<^item> \<open>MetricLabels\<close>: fingerprints of resources, scopes and data points and the labels of a series. The
    fingerprint is the hash of one text whatever the order of ranging over maps; the JSON of labels can
    be read back, unless a name needs escaping.
  \<^item> \<open>MetricsExporter\<close>: the samples, series and metadata of each type of metric, the batch and the writes.
  \<^item> \<open>MetricsFacts\<close>: the locale \<open>batch_steps\<close>, interpreted once for each invariant of a batch: one series
    per sample, no NaN, periods in order, and the label of the temporality, which exponential histograms
    break. Buckets are cumulative. The cache of series (locale \<open>series_cache\<close> over \<open>ttl_provider\<close>): one row
    per fingerprint and hour, and none after a failed attempt.

  \<^bold>\<open>Logs exporter\<close> (exporter/datastorelogsexporter).
  \<^item> \<open>LogsExporter\<close>: the columns of a record, the promoted paths of its body, the rows on attributes and
    keys, the fingerprints of resources seen by a push.
  \<^item> \<open>LogsPush\<close>: the goroutines of \<open>pushToDatastore\<close> as an interleaving step relation: the loop that starts
    producers as long as the limiter has slots, the producers, the bounded channel, the consumer, the goroutine
    that closes the channel, the error group and the context. A push that returns without an error has
    appended every record once and written its resource; no producer sends on the closed channel; a push
    without failing records cannot block; a push whose rows cannot be appended may block forever. The
    resources go through a cache (locale \<open>resource_cache\<close>).

  \<^bold>\<open>Not modelled.\<close> The exporter of traces and the receivers (batches of rows, network input and output around
  third-party clients), the operators of the log pipeline, the agent and the assembly of the collector, factories,
  logging and telemetry; of the span metrics processor the lookup of exporters at the start and the
  ticker.
  Several readings of the clock within one locked step are one value.
\<close>

end
